(* ===== verification/Denju_Prelude.thy ===== *)
theory Denju_Prelude
  imports Main "HOL-Library.Char_ord" "HOL-Library.List_Lexorder" "HOL-Library.Multiset"
    "HOL-Library.Word" "HOL-Library.Sublist"
begin

text \<open>
  The vocabulary every component of the development shares: Rust's \<open>Result\<close> with the
  combinators the sources use (\<open>?\<close>, \<open>map_err\<close>, \<open>ok_or\<close>, \<open>collect\<close>), Rust strings as
  their UTF-8 bytes with the standard-library operations on them (\<open>split\<close>,
  \<open>split_inclusive\<close>, \<open>join\<close>, \<open>strip_prefix\<close>, \<open>chars\<close>, ...), big-endian integer
  encodings, and the generic lemmas on lists and sorting the component proofs rest on.
  A string is a \<open>char list\<close>, one \<open>char\<close> per byte, so \<open>length\<close> is Rust's \<open>len()\<close> and the
  order of \<open>HOL-Library.List_Lexorder\<close> is Rust's byte-wise \<open>Ord\<close> on \<open>str\<close>.
\<close>

named_theorems res_simps \<open>unfolding rules for the combinators on results\<close>
named_theorems str_simps \<open>unfolding rules for the string operations\<close>

section \<open>Results\<close>

datatype ('a, 'e) result = Ok 'a | Err 'e

fun res_bind :: "('a, 'e) result \<Rightarrow> ('a \<Rightarrow> ('b, 'e) result) \<Rightarrow> ('b, 'e) result" where
  "res_bind (Ok x) f = f x"
| "res_bind (Err e) f = Err e"

fun map_err :: "('e \<Rightarrow> 'f) \<Rightarrow> ('a, 'e) result \<Rightarrow> ('a, 'f) result" where
  "map_err f (Ok x) = Ok x"
| "map_err f (Err e) = Err (f e)"

fun map_ok :: "('a \<Rightarrow> 'b) \<Rightarrow> ('a, 'e) result \<Rightarrow> ('b, 'e) result" where
  "map_ok f (Ok x) = Ok (f x)"
| "map_ok f (Err e) = Err e"

fun ok_or :: "'a option \<Rightarrow> 'e \<Rightarrow> ('a, 'e) result" where
  "ok_or (Some x) e = Ok x"
| "ok_or None e = Err e"

fun is_ok :: "('a, 'e) result \<Rightarrow> bool" where
  "is_ok (Ok x) = True"
| "is_ok (Err e) = False"

text \<open>\<open>iter.map(f).collect::<Result<Vec<_>, _>>()\<close>: the first error stops the iteration.\<close>

fun collect_res :: "('a \<Rightarrow> ('b, 'e) result) \<Rightarrow> 'a list \<Rightarrow> ('b list, 'e) result" where
  "collect_res f [] = Ok []"
| "collect_res f (x # xs) = res_bind (f x) (\<lambda>y. map_ok ((#) y) (collect_res f xs))"

text \<open>A \<open>for\<close> loop whose body may return early with an error.\<close>

fun for_res :: "('a \<Rightarrow> (unit, 'e) result) \<Rightarrow> 'a list \<Rightarrow> (unit, 'e) result" where
  "for_res f [] = Ok ()"
| "for_res f (x # xs) = res_bind (f x) (\<lambda>_. for_res f xs)"

text \<open>A \<open>for\<close> loop over a mutable accumulator whose body may return early with an error.\<close>

fun fold_res :: "('s \<Rightarrow> 'a \<Rightarrow> ('s, 'e) result) \<Rightarrow> 's \<Rightarrow> 'a list \<Rightarrow> ('s, 'e) result" where
  "fold_res f s [] = Ok s"
| "fold_res f s (x # xs) = res_bind (f s x) (\<lambda>s'. fold_res f s' xs)"

lemma res_bind_Ok_iff [res_simps]: "res_bind r f = Ok y \<longleftrightarrow> (\<exists>x. r = Ok x \<and> f x = Ok y)"
  by (cases r) auto

lemma res_bind_Err_iff [res_simps]:
  "res_bind r f = Err e \<longleftrightarrow> r = Err e \<or> (\<exists>x. r = Ok x \<and> f x = Err e)"
  by (cases r) auto

lemma map_err_Ok_iff [res_simps]: "map_err f r = Ok x \<longleftrightarrow> r = Ok x"
  by (cases r) auto

lemma map_ok_Ok_iff [res_simps]: "map_ok f r = Ok y \<longleftrightarrow> (\<exists>x. r = Ok x \<and> f x = y)"
  by (cases r) auto

lemma map_ok_Err_iff [res_simps]: "map_ok f r = Err e \<longleftrightarrow> r = Err e"
  by (cases r) auto

lemma map_err_Err_iff [res_simps]: "map_err f r = Err e \<longleftrightarrow> (\<exists>d. r = Err d \<and> f d = e)"
  by (cases r) auto

lemma ok_or_Ok_iff [res_simps]: "ok_or x e = Ok y \<longleftrightarrow> x = Some y"
  by (cases x) auto

lemma ok_or_Err_iff [res_simps]: "ok_or x e = Err d \<longleftrightarrow> x = None \<and> d = e"
  by (cases x) auto

lemma is_ok_iff: "is_ok r \<longleftrightarrow> (\<exists>x. r = Ok x)"
  by (cases r) auto

lemma if_Ok_unit [res_simps]: "(if c then Err e else Ok ()) = Ok u \<longleftrightarrow> \<not> c"
  by simp

lemma collect_res_Ok_iff:
  "collect_res f xs = Ok ys \<longleftrightarrow> list_all2 (\<lambda>x y. f x = Ok y) xs ys"
proof (induction xs arbitrary: ys)
  case Nil
  then show ?case by auto
next
  case (Cons x xs)
  show ?case by (cases ys) (auto simp: res_simps Cons.IH list_all2_Cons1)
qed

lemma collect_res_map: "(\<And>x. x \<in> set xs \<Longrightarrow> f x = Ok (g x)) \<Longrightarrow> collect_res f xs = Ok (map g xs)"
  by (induction xs) auto

lemma for_res_Ok_iff: "for_res f xs = Ok u \<longleftrightarrow> (\<forall>x \<in> set xs. f x = Ok ())"
  by (induction xs) (auto simp: res_simps)

lemma for_res_append: "for_res f (xs @ ys) = res_bind (for_res f xs) (\<lambda>_. for_res f ys)"
proof (induction xs)
  case (Cons x xs)
  then show ?case by (cases "f x") auto
qed simp

lemma for_res_Err: "for_res f xs = Err e \<Longrightarrow> \<exists>x \<in> set xs. f x = Err e"
  by (induction xs) (auto simp: res_simps)

lemma fold_res_append:
  "fold_res f s (xs @ ys) = res_bind (fold_res f s xs) (\<lambda>s'. fold_res f s' ys)"
proof (induction xs arbitrary: s)
  case (Cons x xs)
  then show ?case by (cases "f s x") auto
qed simp

section \<open>Splitting and joining strings\<close>

text \<open>Rust's \<open>str::split(c)\<close>: never empty, one component more than separators.\<close>

fun split_on :: "'a \<Rightarrow> 'a list \<Rightarrow> 'a list list" where
  "split_on c [] = [[]]"
| "split_on c (x # xs) =
     (if x = c then [] # split_on c xs
      else (x # hd (split_on c xs)) # tl (split_on c xs))"

text \<open>\<open>[\<dots>].join(sep)\<close> with a one-character separator.\<close>

fun join_with :: "'a \<Rightarrow> 'a list list \<Rightarrow> 'a list" where
  "join_with c [] = []"
| "join_with c [x] = x"
| "join_with c (x # y # ys) = x @ c # join_with c (y # ys)"

text \<open>Rust's \<open>str::split_inclusive(c)\<close>: every piece but the last ends with the separator.\<close>

fun split_inclusive :: "'a \<Rightarrow> 'a list \<Rightarrow> 'a list list" where
  "split_inclusive c [] = []"
| "split_inclusive c (x # xs) =
     (if x = c then [x] # split_inclusive c xs
      else (case split_inclusive c xs of [] \<Rightarrow> [[x]] | l # ls \<Rightarrow> (x # l) # ls))"

lemma split_on_not_Nil [simp]: "split_on c s \<noteq> []"
  by (cases s) auto

lemma join_with_Cons: "ys \<noteq> [] \<Longrightarrow> join_with c (x # ys) = x @ c # join_with c ys"
  by (cases ys) auto

lemma join_with_hd: "join_with c ((x # h) # t) = x # join_with c (h # t)"
  by (cases t) auto

lemma join_split [simp]: "join_with c (split_on c s) = s"
proof (induction s)
  case (Cons x xs)
  have "join_with c ((x # hd (split_on c xs)) # tl (split_on c xs)) = x # xs"
    using Cons by (simp add: join_with_hd)
  then show ?case using Cons by (simp add: join_with_Cons)
qed simp

lemma split_on_no_sep: "p \<in> set (split_on c s) \<Longrightarrow> c \<notin> set p"
proof (induction s arbitrary: p)
  case (Cons x xs)
  have "hd (split_on c xs) \<in> set (split_on c xs)" by simp
  with Cons show ?case
    by (auto split: if_splits dest: list.set_sel(2) [OF split_on_not_Nil])
qed auto

lemma split_on_subset: "p \<in> set (split_on c s) \<Longrightarrow> set p \<subseteq> set s"
proof (induction s arbitrary: p)
  case (Cons x xs)
  obtain h t where st: "split_on c xs = h # t" by (cases "split_on c xs") auto
  have "set q \<subseteq> set xs" if "q \<in> set (h # t)" for q
    using Cons.IH st that by simp
  then have "set h \<subseteq> set xs" "\<And>q. q \<in> set t \<Longrightarrow> set q \<subseteq> set xs" by auto
  with Cons.prems st show ?case by (fastforce split: if_splits)
qed auto

lemma split_on_append_sep: "c \<notin> set p \<Longrightarrow> split_on c (p @ c # s) = p # split_on c s"
  by (induction p) auto

lemma split_on_single: "c \<notin> set p \<Longrightarrow> split_on c p = [p]"
  by (induction p) auto

lemma split_join:
  "ps \<noteq> [] \<Longrightarrow> (\<And>p. p \<in> set ps \<Longrightarrow> c \<notin> set p) \<Longrightarrow> split_on c (join_with c ps) = ps"
proof (induction ps rule: join_with.induct)
  case (3 c x y ys)
  then show ?case by (simp add: split_on_append_sep)
qed (auto simp: split_on_single)

lemma split_on_eq_single_iff: "split_on c s = [p] \<longleftrightarrow> s = p \<and> c \<notin> set s"
proof
  assume a: "split_on c s = [p]"
  then have "s = join_with c [p]" by (metis join_split)
  with a show "s = p \<and> c \<notin> set s" using split_on_no_sep [of p c s] by simp
qed (auto simp: split_on_single)

lemma join_with_take_set: "set (join_with c ps) \<subseteq> insert c (\<Union>(set ` set ps))"
  by (induction c ps rule: join_with.induct) auto

lemma concat_split_inclusive [simp]: "concat (split_inclusive c s) = s"
  by (induction s) (auto split: list.splits)

lemma split_inclusive_Nil_iff [simp]: "split_inclusive c s = [] \<longleftrightarrow> s = []"
  by (cases s) (auto split: list.splits)

lemma split_inclusive_nonempty: "l \<in> set (split_inclusive c s) \<Longrightarrow> l \<noteq> []"
  by (induction s arbitrary: l) (auto split: list.splits if_splits)

lemma split_inclusive_append_sep:
  "c \<notin> set p \<Longrightarrow> split_inclusive c (p @ c # s) = (p @ [c]) # split_inclusive c s"
  by (induction p) (auto split: list.splits)

lemma split_inclusive_no_sep: "c \<notin> set p \<Longrightarrow> p \<noteq> [] \<Longrightarrow> split_inclusive c p = [p]"
proof (induction p)
  case (Cons x p)
  then show ?case by (cases "p = []") auto
qed simp

text \<open>Splitting after a prefix that ends with the separator splits both halves alone.\<close>

lemma split_inclusive_append:
  "split_inclusive c ((p @ [c]) @ s) = split_inclusive c (p @ [c]) @ split_inclusive c s"
proof (induction p)
  case (Cons x p)
  have "split_inclusive c (p @ [c]) \<noteq> []" by simp
  with Cons show ?case by (auto split: list.splits)
qed simp

section \<open>Other string operations of the standard library\<close>

definition strip_prefix :: "string \<Rightarrow> string \<Rightarrow> string option" where
  "strip_prefix p s = (if prefix p s then Some (drop (length p) s) else None)"

definition starts_with :: "string \<Rightarrow> string \<Rightarrow> bool" where
  "starts_with s p = prefix p s"

definition ends_with :: "string \<Rightarrow> string \<Rightarrow> bool" where
  "ends_with s p = suffix p s"

definition contains_sub :: "string \<Rightarrow> string \<Rightarrow> bool" where
  "contains_sub s p = sublist p s"

definition trim_end_matches :: "('a \<Rightarrow> bool) \<Rightarrow> 'a list \<Rightarrow> 'a list" where
  "trim_end_matches P s = rev (dropWhile P (rev s))"

definition trim_matches :: "('a \<Rightarrow> bool) \<Rightarrow> 'a list \<Rightarrow> 'a list" where
  "trim_matches P s = trim_end_matches P (dropWhile P s)"

text \<open>\<open>str::rsplit_once(c)\<close>: cut at the last separator.\<close>

fun rsplit_once :: "'a \<Rightarrow> 'a list \<Rightarrow> ('a list \<times> 'a list) option" where
  "rsplit_once c [] = None"
| "rsplit_once c (x # xs) =
     (case rsplit_once c xs of
        Some (a, b) \<Rightarrow> Some (x # a, b)
      | None \<Rightarrow> if x = c then Some ([], xs) else None)"

lemma rsplit_once_None_iff: "rsplit_once c s = None \<longleftrightarrow> c \<notin> set s"
  by (induction s) (auto split: option.splits)

lemma rsplit_once_Some: "rsplit_once c s = Some (a, b) \<longleftrightarrow> s = a @ c # b \<and> c \<notin> set b"
proof (induction s arbitrary: a)
  case (Cons x xs)
  show ?case
  proof (cases "rsplit_once c xs")
    case None
    then have "c \<notin> set xs" by (simp add: rsplit_once_None_iff)
    with None show ?thesis by (cases a) auto
  next
    case (Some ab)
    obtain a' b' where ab: "ab = (a', b')" by (cases ab)
    have "rsplit_once c xs \<noteq> None" using Some by simp
    then have "c \<in> set xs" by (simp add: rsplit_once_None_iff)
    with Some ab Cons show ?thesis by (cases a) auto
  qed
qed simp

lemma strip_prefix_Some: "strip_prefix p s = Some r \<longleftrightarrow> s = p @ r"
  by (auto simp: strip_prefix_def prefix_def)

end
