(* ===== verification/Text_Bytes.thy ===== *)
theory Text_Bytes
  imports Denju_Prelude
begin

text \<open>
  Bytes under text: UTF-8 as \<open>std::str::from_utf8\<close> and \<open>chars()\<close> read it, the Unicode data
  the sources consult (as a parameter, with the ASCII part written out), the fixed-width
  big-endian fields of the hash transcripts, and the lemmas on sorted lists that
  canonical orders need.  The locale \<open>prefix_code\<close> states when a sequence of encoded
  fields can be read back; it is interpreted for every field format the transcripts use.
\<close>

section \<open>UTF-8\<close>

abbreviation code :: "char \<Rightarrow> nat" where
  "code c \<equiv> of_char c"

definition is_cont :: "char \<Rightarrow> bool" where
  "is_cont c = (128 \<le> code c \<and> code c < 192)"

definition code2 :: "char \<Rightarrow> char \<Rightarrow> nat" where
  "code2 a b = (code a - 192) * 64 + (code b - 128)"

definition code3 :: "char \<Rightarrow> char \<Rightarrow> char \<Rightarrow> nat" where
  "code3 a b c = (code a - 224) * 4096 + (code b - 128) * 64 + (code c - 128)"

definition code4 :: "char \<Rightarrow> char \<Rightarrow> char \<Rightarrow> char \<Rightarrow> nat" where
  "code4 a b c d =
     (code a - 240) * 262144 + (code b - 128) * 4096 + (code c - 128) * 64 + (code d - 128)"

definition valid2 :: "char \<Rightarrow> char \<Rightarrow> bool" where
  "valid2 a b = (192 \<le> code a \<and> code a < 224 \<and> is_cont b \<and> 128 \<le> code2 a b)"

definition valid3 :: "char \<Rightarrow> char \<Rightarrow> char \<Rightarrow> bool" where
  "valid3 a b c =
     (224 \<le> code a \<and> code a < 240 \<and> is_cont b \<and> is_cont c \<and> 2048 \<le> code3 a b c \<and>
      \<not> (55296 \<le> code3 a b c \<and> code3 a b c \<le> 57343))"

definition valid4 :: "char \<Rightarrow> char \<Rightarrow> char \<Rightarrow> char \<Rightarrow> bool" where
  "valid4 a b c d =
     (240 \<le> code a \<and> code a < 248 \<and> is_cont b \<and> is_cont c \<and> is_cont d \<and>
      65536 \<le> code4 a b c d \<and> code4 a b c d \<le> 1114111)"

text \<open>The Unicode scalar values of a byte string, \<open>None\<close> when it is not UTF-8.\<close>

fun utf8_decode :: "string \<Rightarrow> nat list option" where
  "utf8_decode [] = Some []"
| "utf8_decode (a # r) =
     (if code a < 128 then map_option ((#) (code a)) (utf8_decode r)
      else (case r of [] \<Rightarrow> None | b # r2 \<Rightarrow>
        (if valid2 a b then map_option ((#) (code2 a b)) (utf8_decode r2)
         else (case r2 of [] \<Rightarrow> None | c # r3 \<Rightarrow>
           (if valid3 a b c then map_option ((#) (code3 a b c)) (utf8_decode r3)
            else (case r3 of [] \<Rightarrow> None | d # r4 \<Rightarrow>
              (if valid4 a b c d then map_option ((#) (code4 a b c d)) (utf8_decode r4)
               else None)))))))"

text \<open>
  \<open>str::chars\<close>.  A Rust \<open>str\<close> is valid UTF-8 by its type; on other byte strings, which no
  \<open>str\<close> is, the model reads one value per byte.
\<close>

definition chars :: "string \<Rightarrow> nat list" where
  "chars s = (case utf8_decode s of Some cs \<Rightarrow> cs | None \<Rightarrow> map code s)"

definition from_utf8 :: "string \<Rightarrow> string option" where
  "from_utf8 b = (if utf8_decode b = None then None else Some b)"

definition utf8_encode_char :: "nat \<Rightarrow> string" where
  "utf8_encode_char n =
     (if n < 128 then [char_of n]
      else if n < 2048 then [char_of (192 + n div 64), char_of (128 + n mod 64)]
      else if n < 65536 then
        [char_of (224 + n div 4096), char_of (128 + n div 64 mod 64), char_of (128 + n mod 64)]
      else [char_of (240 + n div 262144), char_of (128 + n div 4096 mod 64),
            char_of (128 + n div 64 mod 64), char_of (128 + n mod 64)])"

definition utf8_encode :: "nat list \<Rightarrow> string" where
  "utf8_encode cs = concat (map utf8_encode_char cs)"

lemma code_less_256: "code c < 256"
  using nat_of_char_less_256 [of c] by simp

lemma code_inj [simp]: "code c = code d \<longleftrightarrow> c = d"
  by (metis char_of_char)

lemma utf8_decode_ascii: "(\<And>c. c \<in> set s \<Longrightarrow> code c < 128) \<Longrightarrow> utf8_decode s = Some (map code s)"
  by (induction s) auto

lemma chars_ascii: "(\<And>c. c \<in> set s \<Longrightarrow> code c < 128) \<Longrightarrow> chars s = map code s"
  by (simp add: chars_def utf8_decode_ascii)

lemmas valid_defs = valid2_def valid3_def valid4_def is_cont_def

text \<open>ASCII bytes of a string are exactly its ASCII characters.\<close>

lemma utf8_decode_ascii_mem:
  "utf8_decode s = Some cs \<Longrightarrow> code x < 128 \<Longrightarrow> code x \<in> set cs \<longleftrightarrow> x \<in> set s"
proof (induction s arbitrary: cs rule: utf8_decode.induct)
  case (2 a r)
  show ?case
  proof (cases "code a < 128")
    case True
    with 2 show ?thesis by auto
  next
    case False
    with 2(5) obtain b r2 where r: "r = b # r2" by (auto split: list.splits)
    show ?thesis
    proof (cases "valid2 a b")
      case True
      with False 2 r show ?thesis by (auto simp: valid_defs)
    next
      case nv2: False
      with False 2(5) r obtain c r3 where r2: "r2 = c # r3" by (auto split: list.splits)
      show ?thesis
      proof (cases "valid3 a b c")
        case True
        with False nv2 2 r r2 show ?thesis by (auto simp: valid3_def is_cont_def)
      next
        case nv3: False
        with False nv2 2(5) r r2 obtain d r4 where r3: "r3 = d # r4" by (auto split: list.splits)
        with False nv2 nv3 2 r r2 show ?thesis
          by (auto simp: valid4_def is_cont_def split: if_splits)
      qed
    qed
  qed
qed simp

lemma ascii_mem_chars: "code x < 128 \<Longrightarrow> code x \<in> set (chars s) \<longleftrightarrow> x \<in> set s"
  by (auto simp: chars_def utf8_decode_ascii_mem split: option.splits)

section \<open>Unicode data\<close>

text \<open>
  The Unicode tables consulted beyond ASCII: normalization form C from the
  \<open>unicode-normalization\<close> crate, and the \<open>Uppercase\<close> property and full lower-case mapping
  behind \<open>char::is_uppercase\<close> and \<open>char::to_lowercase\<close>.  They are an argument of the
  definitions that use them.
\<close>

record unicode_tables =
  u_nfc :: "string \<Rightarrow> string"
  u_uppercase :: "nat \<Rightarrow> bool"
  u_lowercase :: "nat \<Rightarrow> nat list"

definition char_is_uppercase :: "unicode_tables \<Rightarrow> nat \<Rightarrow> bool" where
  "char_is_uppercase U c = (if c < 128 then 65 \<le> c \<and> c \<le> 90 else u_uppercase U c)"

definition char_to_lowercase :: "unicode_tables \<Rightarrow> nat \<Rightarrow> nat list" where
  "char_to_lowercase U c =
     (if c < 128 then (if 65 \<le> c \<and> c \<le> 90 then [c + 32] else [c]) else u_lowercase U c)"

text \<open>\<open>char::is_control\<close>: general category Cc.\<close>

definition char_is_control :: "nat \<Rightarrow> bool" where
  "char_is_control c = (c < 32 \<or> (127 \<le> c \<and> c < 160))"

definition ascii_lowercase :: "char \<Rightarrow> bool" where
  "ascii_lowercase c = (97 \<le> code c \<and> code c \<le> 122)"

definition ascii_digit :: "char \<Rightarrow> bool" where
  "ascii_digit c = (48 \<le> code c \<and> code c \<le> 57)"

definition to_ascii_uppercase :: "string \<Rightarrow> string" where
  "to_ascii_uppercase s = map (\<lambda>c. if ascii_lowercase c then char_of (code c - 32) else c) s"

text \<open>Tables for plain ASCII text, used to evaluate the model at concrete inputs.\<close>

definition ascii_tables :: unicode_tables where
  "ascii_tables = \<lparr>u_nfc = (\<lambda>s. s), u_uppercase = (\<lambda>_. False), u_lowercase = (\<lambda>c. [c])\<rparr>"

section \<open>Prefix codes\<close>

text \<open>
  The contract of a field format in a transcript: after a well-formed field, whatever
  follows can be told apart from it.  Sequences of such fields are then read back
  unambiguously.
\<close>

locale prefix_code =
  fixes enc :: "'a \<Rightarrow> 'b list" and wf :: "'a \<Rightarrow> bool"
  assumes enc_cancel: "wf x \<Longrightarrow> wf y \<Longrightarrow> enc x @ r = enc y @ s \<Longrightarrow> x = y \<and> r = s"
begin

lemma enc_inj: "wf x \<Longrightarrow> wf y \<Longrightarrow> enc x = enc y \<Longrightarrow> x = y"
  using enc_cancel [of x y "[]" "[]"] by simp

lemma enc_seq_cancel:
  "list_all wf xs \<Longrightarrow> list_all wf ys \<Longrightarrow> length xs = length ys \<Longrightarrow>
   concat (map enc xs) @ r = concat (map enc ys) @ s \<Longrightarrow> xs = ys \<and> r = s"
proof (induction xs arbitrary: ys)
  case (Cons x xs)
  then obtain y ys' where ys: "ys = y # ys'" by (cases ys) auto
  then have wf: "wf x" "wf y" "list_all wf xs" "list_all wf ys'" "length xs = length ys'"
    using Cons.prems by auto
  have "enc x @ (concat (map enc xs) @ r) = enc y @ (concat (map enc ys') @ s)"
    using Cons.prems(4) ys by simp
  then have xy: "x = y \<and> concat (map enc xs) @ r = concat (map enc ys') @ s"
    by (rule enc_cancel [OF wf(1,2)])
  then have "xs = ys' \<and> r = s" by (intro Cons.IH wf) simp
  with xy ys show ?case by simp
qed simp

end

text \<open>\<open>u32::try_from(usize)\<close> and \<open>u32::to_be_bytes\<close>.\<close>

type_synonym u32 = "32 word"
type_synonym u64 = "64 word"

definition u32_try_from :: "nat \<Rightarrow> u32 option" where
  "u32_try_from n = (if n < 2 ^ 32 then Some (of_nat n) else None)"

definition u32_be :: "u32 \<Rightarrow> string" where
  "u32_be w = [char_of (unat w div 16777216), char_of (unat w div 65536),
               char_of (unat w div 256), char_of (unat w)]"

lemma nat_bytes_eq:
  fixes m n :: nat
  assumes "m < 4294967296" "n < 4294967296"
    and "m div 16777216 mod 256 = n div 16777216 mod 256" "m div 65536 mod 256 = n div 65536 mod 256"
    and "m div 256 mod 256 = n div 256 mod 256" "m mod 256 = n mod 256"
  shows "m = n"
proof -
  have dec: "k = (((k div 16777216 mod 256) * 256 + k div 65536 mod 256) * 256
      + k div 256 mod 256) * 256 + k mod 256" if "k < 4294967296" for k :: nat
  proof -
    have "k div 16777216 < 256" using that by (simp add: less_mult_imp_div_less)
    then have "k div 65536 = (k div 16777216 mod 256) * 256 + k div 65536 mod 256"
      using div_mult_mod_eq [of "k div 65536" 256] by (simp add: div_mult2_eq [symmetric])
    moreover have "k div 256 = k div 65536 * 256 + k div 256 mod 256"
      using div_mult_mod_eq [of "k div 256" 256] by (simp add: div_mult2_eq [symmetric])
    moreover have "k = k div 256 * 256 + k mod 256" by simp
    ultimately show ?thesis by simp
  qed
  show ?thesis using dec [OF assms(1)] dec [OF assms(2)] by (simp only: assms(3-6))
qed

lemma char_of_eq_mod: "(char_of (m::nat) = char_of n) = (m mod 256 = n mod 256)"
proof
  assume "char_of m = (char_of n :: char)"
  then have "code (char_of m) = code (char_of n)" by simp
  then show "m mod 256 = n mod 256" by simp
next
  assume "m mod 256 = n mod 256"
  then show "char_of m = (char_of n :: char)" by (metis char_of_mod_256)
qed

lemma unat_u32_less: "unat (w :: u32) < 4294967296"
proof -
  have "unat w < 2 ^ LENGTH(32)" by (rule unsigned_less)
  then show ?thesis by simp
qed

lemma u32_be_inj: "u32_be v = u32_be w \<longleftrightarrow> v = w"
proof
  assume "u32_be v = u32_be w"
  then have "unat v div 16777216 mod 256 = unat w div 16777216 mod 256"
    "unat v div 65536 mod 256 = unat w div 65536 mod 256"
    "unat v div 256 mod 256 = unat w div 256 mod 256" "unat v mod 256 = unat w mod 256"
    by (simp_all only: u32_be_def char_of_eq_mod list.inject)
  then have "unat v = unat w" by (rule nat_bytes_eq [OF unat_u32_less unat_u32_less])
  then show "v = w" by (simp only: unsigned_word_eqI)
qed simp

lemma length_u32_be [simp]: "length (u32_be w) = 4"
  by (simp add: u32_be_def)

lemma u32_try_from_Some: "u32_try_from n = Some w \<longleftrightarrow> n < 2 ^ 32 \<and> w = of_nat n"
  by (auto simp: u32_try_from_def)

lemma unat_u32_of_nat: "n < 2 ^ 32 \<Longrightarrow> unat (of_nat n :: u32) = n"
  by (simp add: unat_of_nat take_bit_nat_eq_self)

interpretation u32_field: prefix_code u32_be "\<lambda>_. True"
  by unfold_locales (auto simp: append_eq_append_conv u32_be_inj)

interpretation byte_field: prefix_code "\<lambda>b::char. [b]" "\<lambda>_. True"
  by unfold_locales auto

text \<open>A fixed-width field: identifiers of 32 and 16 raw bytes.\<close>

definition raw_field :: "string \<Rightarrow> string" where
  "raw_field b = b"

interpretation id32_field: prefix_code raw_field "\<lambda>b. length b = 32"
  by unfold_locales (auto simp: raw_field_def append_eq_append_conv)

interpretation id16_field: prefix_code raw_field "\<lambda>b. length b = 16"
  by unfold_locales (auto simp: raw_field_def append_eq_append_conv)

text \<open>A field with its own \<open>u32\<close> length in front.\<close>

definition framed :: "string \<Rightarrow> string" where
  "framed b = u32_be (of_nat (length b)) @ b"

interpretation framed_field: prefix_code framed "\<lambda>b. length b < 2 ^ 32"
proof
  fix x y r s :: string
  assume len: "length x < 2 ^ 32" "length y < 2 ^ 32" and eq: "framed x @ r = framed y @ s"
  have "u32_be (of_nat (length x)) @ (x @ r) = u32_be (of_nat (length y)) @ (y @ s)"
    using eq by (simp add: framed_def)
  then have "(of_nat (length x) :: u32) = of_nat (length y)" and tail: "x @ r = y @ s"
    using u32_field.enc_cancel [OF TrueI TrueI] by blast+
  then have "length x = length y" using len unat_u32_of_nat by metis
  with tail show "x = y \<and> r = s" by (simp add: append_eq_append_conv)
qed

section \<open>Canonical orders\<close>

text \<open>The first of two neighbours with the same key, as \<open>windows(2)\<close> finds it.\<close>

fun adjacent_dup :: "('a \<Rightarrow> 'k) \<Rightarrow> 'a list \<Rightarrow> 'a option" where
  "adjacent_dup f (x # y # r) = (if f x = f y then Some x else adjacent_dup f (y # r))"
| "adjacent_dup f _ = None"

lemma adjacent_dup_None_sorted:
  "sorted (map f xs) \<Longrightarrow> adjacent_dup f xs = None \<longleftrightarrow> distinct (map f xs)"
proof (induction f xs rule: adjacent_dup.induct)
  case (1 f x y r)
  then show ?case by (cases "f x = f y") (auto simp: less_le)
qed auto

lemma adjacent_dup_distinct: "distinct (map f xs) \<Longrightarrow> adjacent_dup f xs = None"
  by (induction f xs rule: adjacent_dup.induct) auto

lemma adjacent_dup_key:
  "map f xs = map g ys \<Longrightarrow> map_option f (adjacent_dup f xs) = map_option g (adjacent_dup g ys)"
proof (induction f xs arbitrary: ys rule: adjacent_dup.induct)
  case (1 f x y r)
  then obtain x' y' r' where "ys = x' # y' # r'" by (auto simp: map_eq_Cons_conv)
  with 1 show ?case by auto
qed auto

lemma map_sort_key: "map f (sort_key f xs) = sort (map f xs)"
  by (rule sym, rule properties_for_sort) auto

lemma sort_key_perm_keys:
  assumes "mset xs = mset ys"
  shows "map f (sort_key f xs) = map f (sort_key f ys)"
proof -
  have "mset (map f xs) = mset (map f ys)" using assms by simp
  then have "sort (map f xs) = sort (map f ys)" by (metis sorted_list_of_multiset_mset)
  then show ?thesis by (simp only: map_sort_key)
qed

lemma sort_key_canonical:
  assumes "mset xs = mset ys" and "inj_on f (set xs)"
  shows "sort_key f xs = sort_key f ys"
proof -
  have s: "set xs = set ys" using assms(1) by (rule mset_eq_setD)
  have "map f (sort_key f xs) = map f (sort_key f ys)"
    using assms(1) by (rule sort_key_perm_keys)
  then show ?thesis using assms(2) s by (intro inj_on_map_eq_map [THEN iffD1, of f]) auto
qed

lemma sort_key_id: "sorted (map f xs) \<Longrightarrow> sort_key f xs = xs"
  by (rule sort_key_id_if_sorted)

end
