(* ===== verification/Portable_Path.thy ===== *)
theory Portable_Path
  imports Text_Bytes
begin

text \<open>
  \<open>crates/denju-core/src/portable_path.rs\<close>: the cross-platform path profile.
  \<open>PortablePath_parse\<close> accepts a relative, NFC-normalised path whose components exist on
  every platform; \<open>validate_portable_tree\<close> accepts a set of entries that no two of which
  collide case-insensitively, whose parents are directories of the same tree, and whose
  symbolic links stay inside the tree when their targets are read component by component.
  The lemmas characterise acceptance by declarative specifications (\<open>tree_conforms\<close>,
  \<open>lexical_resolve\<close>).
\<close>

section \<open>Paths\<close>

datatype PortablePathError =
    Empty | NotRelative | InvalidComponent | NotNfc | InvalidCharacter
  | TrailingDotOrSpace | WindowsReservedName

datatype PortablePath = PortablePath (as_str: string)

abbreviation slash :: char where "slash \<equiv> CHR ''/''"
abbreviation backslash :: char where "backslash \<equiv> CHR 0x5C"

definition is_invalid_windows_character :: "nat \<Rightarrow> bool" where
  "is_invalid_windows_character c \<longleftrightarrow>
     c = 0 \<or> char_is_control c \<or> c \<in> set [60, 62, 58, 34, 47, 92, 124, 63, 42]"

definition port_suffix :: "string \<Rightarrow> bool" where
  "port_suffix s \<longleftrightarrow>
     s \<in> set [''1'', ''2'', ''3'', ''4'', ''5'', ''6'', ''7'', ''8'', ''9'',
              [CHR 0xC2, CHR 0xB9], [CHR 0xC2, CHR 0xB2], [CHR 0xC2, CHR 0xB3]]"

definition is_some_and :: "'a option \<Rightarrow> ('a \<Rightarrow> bool) \<Rightarrow> bool" where
  "is_some_and x P = (case x of None \<Rightarrow> False | Some v \<Rightarrow> P v)"

definition is_windows_reserved_name :: "string \<Rightarrow> bool" where
  "is_windows_reserved_name component =
     (let stem = hd (split_on (CHR ''.'') component); upper = to_ascii_uppercase stem
      in upper \<in> set [''CON'', ''PRN'', ''AUX'', ''NUL''] \<or>
         is_some_and (strip_prefix ''COM'' upper) port_suffix \<or>
         is_some_and (strip_prefix ''LPT'' upper) port_suffix)"

definition validate_component :: "string \<Rightarrow> bool \<Rightarrow> (unit, PortablePathError) result" where
  "validate_component component allow_dot_navigation =
     (if component = [] then Err InvalidComponent
      else if component \<in> set [''.'', ''..''] then
        (if allow_dot_navigation then Ok () else Err InvalidComponent)
      else if ends_with component ''.'' \<or> ends_with component '' '' then Err TrailingDotOrSpace
      else if list_ex is_invalid_windows_character (chars component) then Err InvalidCharacter
      else if is_windows_reserved_name component then Err WindowsReservedName
      else Ok ())"

definition validate_portable_path :: "unicode_tables \<Rightarrow> string \<Rightarrow> (unit, PortablePathError) result" where
  "validate_portable_path U v =
     (if v = [] then Err Empty
      else if starts_with v [slash] \<or> starts_with v [backslash] \<or> backslash \<in> set v
        then Err NotRelative
      else if u_nfc U v \<noteq> v then Err NotNfc
      else for_res (\<lambda>component. validate_component component False) (split_on slash v))"

definition PortablePath_parse :: "unicode_tables \<Rightarrow> string \<Rightarrow> (PortablePath, PortablePathError) result" where
  "PortablePath_parse U v = res_bind (validate_portable_path U v) (\<lambda>_. Ok (PortablePath v))"

definition components :: "PortablePath \<Rightarrow> string list" where
  "components p = split_on slash (as_str p)"

definition component_count :: "PortablePath \<Rightarrow> nat" where
  "component_count p = length (split_on slash (as_str p))"

section \<open>Trees\<close>

datatype PortableEntryKind = PE_File bool | PE_Directory | PE_Symlink string

record PortableEntry =
  pe_path :: PortablePath
  pe_kind :: PortableEntryKind

definition PortableEntry_new ::
  "unicode_tables \<Rightarrow> string \<Rightarrow> PortableEntryKind \<Rightarrow> (PortableEntry, PortablePathError) result" where
  "PortableEntry_new U path kind =
     res_bind (PortablePath_parse U path) (\<lambda>p. Ok \<lparr>pe_path = p, pe_kind = kind\<rparr>)"

record PortableTree =
  pt_entries :: "PortableEntry list"

datatype PortableTreeError =
    CaseCollision string string
  | NonDirectoryParent string string
  | MissingParentDirectory string string
  | InvalidSymlinkTarget string
  | EscapingSymlink string string
  | InvalidSymlinkTargetComponent string PortablePathError

datatype EntryClass = Class_File | Class_Directory | Class_Symlink

definition fold_case :: "unicode_tables \<Rightarrow> string \<Rightarrow> string" where
  "fold_case U v = utf8_encode (concat (map (char_to_lowercase U) (chars v)))"

fun parents_ok :: "(string \<Rightarrow> EntryClass option) \<Rightarrow> string \<Rightarrow> string list \<Rightarrow> nat list \<Rightarrow>
    (unit, PortableTreeError) result" where
  "parents_ok kinds child cs [] = Ok ()"
| "parents_ok kinds child cs (n # ns) =
     (let parent = join_with slash (take n cs)
      in case kinds parent of
           Some Class_Directory \<Rightarrow> parents_ok kinds child cs ns
         | Some _ \<Rightarrow> Err (NonDirectoryParent parent child)
         | None \<Rightarrow> Err (MissingParentDirectory parent child))"

definition ensure_parent_components_are_directories ::
  "PortablePath \<Rightarrow> (string \<Rightarrow> EntryClass option) \<Rightarrow> (unit, PortableTreeError) result" where
  "ensure_parent_components_are_directories path kinds =
     (let cs = components path in parents_ok kinds (as_str path) cs [1..<length cs])"

fun symlink_loop :: "string \<Rightarrow> string \<Rightarrow> nat \<Rightarrow> string list \<Rightarrow> (unit, PortableTreeError) result" where
  "symlink_loop path target depth [] = Ok ()"
| "symlink_loop path target depth (component # cs) =
     (if component = [] then Err (InvalidSymlinkTarget path)
      else if component = ''.'' then symlink_loop path target depth cs
      else if component = ''..'' then
        (if depth = 0 then Err (EscapingSymlink path target)
         else symlink_loop path target (depth - 1) cs)
      else res_bind (map_err (InvalidSymlinkTargetComponent path) (validate_component component True))
        (\<lambda>_. symlink_loop path target (depth + 1) cs))"

definition validate_symlink_target ::
  "unicode_tables \<Rightarrow> PortablePath \<Rightarrow> string \<Rightarrow> (unit, PortableTreeError) result" where
  "validate_symlink_target U path target =
     (if target = [] \<or> starts_with target [slash] \<or> starts_with target [backslash] \<or>
         backslash \<in> set target \<or> CHR 0x00 \<in> set target
      then Err (InvalidSymlinkTarget (as_str path))
      else if u_nfc U target \<noteq> target
      then Err (InvalidSymlinkTargetComponent (as_str path) NotNfc)
      else
        (let cs = split_on slash target; saw_component = (cs \<noteq> [])
         in res_bind (symlink_loop (as_str path) target (component_count path - 1) cs)
              (\<lambda>_. if \<not> saw_component then Err (InvalidSymlinkTarget (as_str path)) else Ok ())))"

definition entry_class :: "PortableEntry \<Rightarrow> EntryClass" where
  "entry_class e = (case pe_kind e of PE_File _ \<Rightarrow> Class_File | PE_Directory \<Rightarrow> Class_Directory
                    | PE_Symlink _ \<Rightarrow> Class_Symlink)"

abbreviation path_of :: "PortableEntry \<Rightarrow> string" where
  "path_of e \<equiv> as_str (pe_path e)"

type_synonym tree_scan = "(string \<Rightarrow> string option) \<times> (string \<Rightarrow> EntryClass option)"

text \<open>The body of the first loop of \<open>validate_portable_tree\<close>.\<close>

fun scan_entry :: "unicode_tables \<Rightarrow> tree_scan \<Rightarrow> PortableEntry \<Rightarrow>
    (tree_scan, PortableTreeError) result" where
  "scan_entry U (folded_paths, kinds) e =
     (case folded_paths (fold_case U (path_of e)) of
        Some existing \<Rightarrow> Err (CaseCollision existing (path_of e))
      | None \<Rightarrow> Ok (folded_paths(fold_case U (path_of e) \<mapsto> path_of e),
                    kinds(path_of e \<mapsto> entry_class e)))"

text \<open>The body of the second loop.\<close>

definition check_entry :: "unicode_tables \<Rightarrow> (string \<Rightarrow> EntryClass option) \<Rightarrow> PortableEntry \<Rightarrow>
    (unit, PortableTreeError) result" where
  "check_entry U kinds e =
     res_bind (ensure_parent_components_are_directories (pe_path e) kinds)
       (\<lambda>_. case pe_kind e of
              PE_Symlink target \<Rightarrow> validate_symlink_target U (pe_path e) target
            | _ \<Rightarrow> Ok ())"

definition validate_portable_tree ::
  "unicode_tables \<Rightarrow> PortableEntry list \<Rightarrow> (PortableTree, PortableTreeError) result" where
  "validate_portable_tree U entries =
     (let sorted_entries = sort_key path_of entries
      in res_bind (fold_res (scan_entry U) (Map.empty, Map.empty) sorted_entries)
           (\<lambda>(folded_paths, kinds).
              res_bind (for_res (check_entry U kinds) sorted_entries)
                (\<lambda>_. Ok \<lparr>pt_entries = sorted_entries\<rparr>)))"

section \<open>Accepted paths\<close>

lemma validate_component_False:
  "validate_component c False = Ok () \<longleftrightarrow>
     validate_component c True = Ok () \<and> c \<noteq> ''.'' \<and> c \<noteq> ''..''"
  by (simp add: validate_component_def)

lemma validate_component_portable:
  assumes "validate_component c False = Ok ()" and "x \<in> set c" and "code x < 128"
  shows "32 \<le> code x \<and> code x < 127 \<and> x \<notin> set ''<>:|?*'' \<and> x \<noteq> slash \<and> x \<noteq> backslash"
proof -
  have "code x \<in> set (chars c)" using assms(2,3) by (simp add: ascii_mem_chars)
  then have "\<not> is_invalid_windows_character (code x)"
    using assms(1) by (auto simp: validate_component_def list_ex_iff split: if_splits)
  with assms(3) show ?thesis
    by (auto simp: is_invalid_windows_character_def char_is_control_def)
qed

lemma parse_Ok_iff:
  "PortablePath_parse U v = Ok p \<longleftrightarrow>
     p = PortablePath v \<and> v \<noteq> [] \<and> u_nfc U v = v \<and> backslash \<notin> set v \<and>
     (\<forall>c \<in> set (split_on slash v). validate_component c False = Ok ())"
proof -
  have lead: "\<not> starts_with v [slash]"
    if "\<forall>c \<in> set (split_on slash v). validate_component c False = Ok ()"
  proof
    assume "starts_with v [slash]"
    then obtain r where "v = slash # r" by (auto simp: starts_with_def prefix_def)
    then have "[] \<in> set (split_on slash v)" by simp
    with that show False by (force simp: validate_component_def)
  qed
  have bs: "starts_with v [backslash] \<Longrightarrow> backslash \<in> set v"
    by (auto simp: starts_with_def prefix_def)
  show ?thesis
    using lead bs
    by (auto simp: PortablePath_parse_def validate_portable_path_def res_simps for_res_Ok_iff
        split: if_splits)
qed

lemma parse_component:
  assumes "PortablePath_parse U v = Ok p" and "c \<in> set (components p)"
  shows "c \<noteq> [] \<and> c \<noteq> ''.'' \<and> c \<noteq> ''..'' \<and> slash \<notin> set c \<and> validate_component c False = Ok ()"
proof -
  have "c \<in> set (split_on slash v)" and ok: "validate_component c False = Ok ()"
    using assms by (auto simp: parse_Ok_iff components_def)
  then have "slash \<notin> set c" by (auto dest: split_on_no_sep)
  with ok show ?thesis by (auto simp: validate_component_def split: if_splits)
qed

lemma components_join: "join_with slash (components p) = as_str p"
  by (simp add: components_def)

lemma components_not_Nil [simp]: "components p \<noteq> []"
  by (simp add: components_def)

lemma component_count_components: "component_count p = length (components p)"
  by (simp add: component_count_def components_def)

section \<open>Accepted symbolic links\<close>

text \<open>
  What a relative target means when it is read component by component, starting in a
  directory given by its components below the root: \<open>None\<close> when it leaves the root.
\<close>

fun lexical_resolve :: "string list \<Rightarrow> string list \<Rightarrow> string list option" where
  "lexical_resolve dir [] = Some dir"
| "lexical_resolve dir (c # cs) =
     (if c = ''.'' then lexical_resolve dir cs
      else if c = ''..'' then (if dir = [] then None else lexical_resolve (butlast dir) cs)
      else lexical_resolve (dir @ [c]) cs)"

lemma symlink_loop_Ok_iff:
  "symlink_loop path target (length dir) cs = Ok () \<longleftrightarrow>
     (\<forall>c \<in> set cs. validate_component c True = Ok ()) \<and> (\<exists>r. lexical_resolve dir cs = Some r)"
proof (induction cs arbitrary: dir)
  case (Cons c cs)
  have nav: "validate_component ''.'' True = Ok ()" "validate_component ''..'' True = Ok ()"
    "validate_component [] True \<noteq> Ok ()"
    by (auto simp: validate_component_def)
  have up: "symlink_loop path target (length dir - Suc 0) cs =
      symlink_loop path target (length (butlast dir)) cs" by simp
  have down: "symlink_loop path target (Suc (length dir)) cs =
      symlink_loop path target (length (dir @ [c])) cs" by simp
  show ?case
    unfolding symlink_loop.simps lexical_resolve.simps
    by (auto simp: nav up down Cons.IH res_simps simp del: length_append length_butlast)
qed simp

lemma symlink_loop_escape:
  "symlink_loop path target (length dir) cs = Err (EscapingSymlink p t) \<Longrightarrow>
     p = path \<and> t = target \<and> lexical_resolve dir cs = None"
proof (induction cs arbitrary: dir)
  case (Cons c cs)
  have up: "symlink_loop path target (length dir - Suc 0) cs =
      symlink_loop path target (length (butlast dir)) cs" by simp
  have down: "symlink_loop path target (Suc (length dir)) cs =
      symlink_loop path target (length (dir @ [c])) cs" by simp
  show ?case
    using Cons.prems unfolding symlink_loop.simps lexical_resolve.simps
    by (auto simp: up down res_simps simp del: length_append length_butlast
        split: if_splits dest!: Cons.IH)
qed simp

lemma validate_symlink_target_Ok_iff:
  "validate_symlink_target U path target = Ok () \<longleftrightarrow>
     u_nfc U target = target \<and> backslash \<notin> set target \<and> CHR 0x00 \<notin> set target \<and>
     (\<forall>c \<in> set (split_on slash target). validate_component c True = Ok ()) \<and>
     (\<exists>r. lexical_resolve (butlast (components path)) (split_on slash target) = Some r)"
proof -
  let ?cs = "split_on slash target"
  have loop: "symlink_loop (as_str path) target (component_count path - 1) ?cs =
      symlink_loop (as_str path) target (length (butlast (components path))) ?cs"
    by (simp add: component_count_components)
  have nonempty: "target \<noteq> [] \<and> \<not> starts_with target [slash]"
    if "\<forall>c \<in> set ?cs. validate_component c True = Ok ()"
  proof -
    have "[] \<notin> set ?cs" using that by (auto simp: validate_component_def)
    moreover have "[] \<in> set ?cs" if "target = [] \<or> starts_with target [slash]"
      using that by (auto simp: starts_with_def prefix_def)
    ultimately show ?thesis by blast
  qed
  have bs: "starts_with target [backslash] \<Longrightarrow> backslash \<in> set target"
    by (auto simp: starts_with_def prefix_def)
  show ?thesis
    unfolding validate_symlink_target_def Let_def loop
    using nonempty bs by (auto simp: res_simps symlink_loop_Ok_iff simp del: length_butlast)
qed

lemma lexical_resolve_components:
  "lexical_resolve dir cs = Some r \<Longrightarrow>
     set r \<subseteq> set dir \<union> {c \<in> set cs. c \<noteq> ''.'' \<and> c \<noteq> ''..''}"
proof (induction cs arbitrary: dir)
  case (Cons c cs)
  then show ?case by (fastforce split: if_splits dest: in_set_butlastD)
qed simp

section \<open>Accepted trees\<close>

text \<open>
  What \<open>validate_portable_tree\<close> promises of the entries it accepts: case-folded paths are
  pairwise different, every proper ancestor of an entry is a directory entry of the same
  tree, and every symbolic link has an acceptable target.
\<close>

definition ancestors :: "PortablePath \<Rightarrow> string list" where
  "ancestors p = map (\<lambda>n. join_with slash (take n (components p))) [1..<length (components p)]"

definition is_directory_of :: "PortableEntry list \<Rightarrow> string \<Rightarrow> bool" where
  "is_directory_of es d = (\<exists>e \<in> set es. path_of e = d \<and> pe_kind e = PE_Directory)"

definition links_ok :: "unicode_tables \<Rightarrow> PortableEntry \<Rightarrow> bool" where
  "links_ok U e = (\<forall>t. pe_kind e = PE_Symlink t \<longrightarrow> validate_symlink_target U (pe_path e) t = Ok ())"

definition tree_conforms :: "unicode_tables \<Rightarrow> PortableEntry list \<Rightarrow> bool" where
  "tree_conforms U es \<longleftrightarrow>
     distinct (map (\<lambda>e. fold_case U (path_of e)) es) \<and>
     (\<forall>e \<in> set es. (\<forall>d \<in> set (ancestors (pe_path e)). is_directory_of es d) \<and> links_ok U e)"

lemma parents_ok_Ok_iff:
  "parents_ok kinds child cs ns = Ok () \<longleftrightarrow>
     (\<forall>n \<in> set ns. kinds (join_with slash (take n cs)) = Some Class_Directory)"
  by (induction ns) (auto split: option.splits EntryClass.splits simp: Let_def)

lemma check_entry_Ok_iff:
  "check_entry U kinds e = Ok () \<longleftrightarrow>
     (\<forall>d \<in> set (ancestors (pe_path e)). kinds d = Some Class_Directory) \<and> links_ok U e"
  by (cases "pe_kind e")
    (auto simp: check_entry_def ensure_parent_components_are_directories_def Let_def res_simps
      parents_ok_Ok_iff ancestors_def links_ok_def)

lemma scan_entries_Ok_iff:
  "fold_res (scan_entry U) (F, K) es = Ok st \<longleftrightarrow>
     distinct (map (\<lambda>e. fold_case U (path_of e)) es) \<and>
     (\<forall>e \<in> set es. F (fold_case U (path_of e)) = None) \<and>
     st = (F ++ map_of (rev (map (\<lambda>e. (fold_case U (path_of e), path_of e)) es)),
           K ++ map_of (rev (map (\<lambda>e. (path_of e, entry_class e)) es)))"
proof (induction es arbitrary: F K)
  case (Cons e es)
  show ?case
    by (auto simp: res_simps Cons.IH map_add_upd_left image_iff split: option.splits if_splits)
qed auto

lemma distinct_folded_paths:
  "distinct (map (\<lambda>e. fold_case U (path_of e)) es) \<Longrightarrow> distinct (map path_of es)"
  by (induction es) (auto simp: image_iff)

lemma entry_class_Directory: "entry_class e = Class_Directory \<longleftrightarrow> pe_kind e = PE_Directory"
  by (simp add: entry_class_def split: PortableEntryKind.splits)

lemma kinds_of_entries:
  assumes "distinct (map path_of es)"
  shows "map_of (rev (map (\<lambda>e. (path_of e, entry_class e)) es)) d = Some Class_Directory \<longleftrightarrow>
    is_directory_of es d"
proof -
  have "distinct (map fst (rev (map (\<lambda>e. (path_of e, entry_class e)) es)))"
    using assms by (simp add: rev_map [symmetric] comp_def)
  then have "map_of (rev (map (\<lambda>e. (path_of e, entry_class e)) es)) d = Some Class_Directory \<longleftrightarrow>
      (\<exists>e \<in> set es. path_of e = d \<and> entry_class e = Class_Directory)"
    by (subst map_of_eq_Some_iff) auto
  then show ?thesis by (simp add: is_directory_of_def entry_class_Directory)
qed

lemma distinct_map_perm: "mset xs = mset ys \<Longrightarrow> distinct (map f xs) = distinct (map f ys)"
  by (rule mset_eq_imp_distinct_iff) simp

lemma tree_conforms_perm:
  assumes "mset xs = mset ys"
  shows "tree_conforms U xs = tree_conforms U ys"
  unfolding tree_conforms_def is_directory_of_def mset_eq_setD [OF assms]
    distinct_map_perm [OF assms] ..

lemma validate_portable_tree_Ok_iff:
  "validate_portable_tree U es = Ok t \<longleftrightarrow>
     tree_conforms U es \<and> t = \<lparr>pt_entries = sort_key path_of es\<rparr>"
proof -
  let ?s = "sort_key path_of es"
  have "validate_portable_tree U es = Ok t \<longleftrightarrow> tree_conforms U ?s \<and> t = \<lparr>pt_entries = ?s\<rparr>"
    unfolding validate_portable_tree_def Let_def tree_conforms_def
    by (auto simp: res_simps scan_entries_Ok_iff for_res_Ok_iff check_entry_Ok_iff
        kinds_of_entries dest: distinct_folded_paths simp del: sort_key_simps)
  then show ?thesis using tree_conforms_perm [of ?s es U] by simp
qed

lemma validate_portable_tree_is_ok: "is_ok (validate_portable_tree U es) \<longleftrightarrow> tree_conforms U es"
  by (auto simp: is_ok_iff validate_portable_tree_Ok_iff)

lemma tree_conforms_distinct_paths: "tree_conforms U es \<Longrightarrow> distinct (map path_of es)"
  by (auto simp: tree_conforms_def dest: distinct_folded_paths)

section \<open>Following links on disk\<close>

text \<open>
  How an operating system opens a path below a skill root once the entries are on disk:
  a symbolic link met on the way is replaced by its target and the walk goes on with the
  rest of the path.  \<open>Outside\<close> means that the walk asked for the parent of the root.  The
  fuel bounds the number of components looked at; \<open>Unresolved\<close> covers missing entries,
  files used as directories and exhausted fuel.
\<close>

datatype os_result = Inside "string list" | Outside | Unresolved

definition entry_at :: "PortableEntry list \<Rightarrow> string list \<Rightarrow> PortableEntryKind option" where
  "entry_at es cs = map_option pe_kind (find (\<lambda>e. components (pe_path e) = cs) es)"

fun os_walk :: "nat \<Rightarrow> PortableEntry list \<Rightarrow> string list \<Rightarrow> string list \<Rightarrow> os_result" where
  "os_walk 0 es cur cs = Unresolved"
| "os_walk (Suc n) es cur [] = Inside cur"
| "os_walk (Suc n) es cur (c # cs) =
     (if c = ''.'' then os_walk n es cur cs
      else if c = ''..'' then (if cur = [] then Outside else os_walk n es (butlast cur) cs)
      else (case entry_at es (cur @ [c]) of
              None \<Rightarrow> Unresolved
            | Some (PE_Symlink t) \<Rightarrow> os_walk n es cur (split_on slash t @ cs)
            | Some PE_Directory \<Rightarrow> os_walk n es (cur @ [c]) cs
            | Some (PE_File _) \<Rightarrow> if cs = [] then Inside (cur @ [c]) else Unresolved))"

text \<open>No symbolic link is passed when the components are read from a directory.\<close>

fun link_free :: "PortableEntry list \<Rightarrow> string list \<Rightarrow> string list \<Rightarrow> bool" where
  "link_free es cur [] = True"
| "link_free es cur (c # cs) =
     (if c = ''.'' then link_free es cur cs
      else if c = ''..'' then link_free es (butlast cur) cs
      else (\<forall>t. entry_at es (cur @ [c]) \<noteq> Some (PE_Symlink t)) \<and> link_free es (cur @ [c]) cs)"

definition single_hop :: "PortableEntry list \<Rightarrow> bool" where
  "single_hop es =
     (\<forall>e \<in> set es. \<forall>t. pe_kind e = PE_Symlink t \<longrightarrow>
        link_free es (butlast (components (pe_path e))) (split_on slash t))"

lemma os_walk_link_free:
  "link_free es cur cs \<Longrightarrow> lexical_resolve cur cs = Some r \<Longrightarrow> os_walk n es cur cs \<noteq> Outside"
proof (induction n es cur cs rule: os_walk.induct)
  case (3 n es cur c cs)
  then show ?case by (auto split: option.splits PortableEntryKind.splits if_splits)
qed auto

lemma os_walk_entry_path:
  assumes dirs: "\<And>pre suf. cs = pre @ suf \<Longrightarrow> pre \<noteq> [] \<Longrightarrow> suf \<noteq> [] \<Longrightarrow>
      entry_at es (cur @ pre) = Some PE_Directory"
    and names: "\<And>c. c \<in> set cs \<Longrightarrow> c \<noteq> ''.'' \<and> c \<noteq> ''..''"
    and link: "\<And>t m. entry_at es (cur @ cs) = Some (PE_Symlink t) \<Longrightarrow>
      os_walk m es (butlast (cur @ cs)) (split_on slash t) \<noteq> Outside"
  shows "os_walk n es cur cs \<noteq> Outside"
  using assms
proof (induction n es cur cs rule: os_walk.induct)
  case (3 n es cur c cs)
  have c: "c \<noteq> ''.''" "c \<noteq> ''..''" using 3(6) by auto
  show ?case
  proof (cases "cs = []")
    case True
    show ?thesis
      using c 3(7) True by (cases n) (auto split: option.splits PortableEntryKind.splits)
  next
    case False
    then have d: "entry_at es (cur @ [c]) = Some PE_Directory" using 3(5) [of "[c]" cs] by simp
    have "os_walk n es (cur @ [c]) cs \<noteq> Outside"
    proof (rule 3(3) [OF c d refl])
      fix pre suf
      assume "cs = pre @ suf" "pre \<noteq> []" "suf \<noteq> []"
      then show "entry_at es ((cur @ [c]) @ pre) = Some PE_Directory"
        using 3(5) [of "c # pre" suf] by simp
    next
      fix x
      assume "x \<in> set cs"
      then show "x \<noteq> ''.'' \<and> x \<noteq> ''..''" using 3(6) by simp
    next
      fix t m
      assume "entry_at es ((cur @ [c]) @ cs) = Some (PE_Symlink t)"
      then show "os_walk m es (butlast ((cur @ [c]) @ cs)) (split_on slash t) \<noteq> Outside"
        using 3(7) [of t m] by simp
    qed
    with c d show ?thesis by simp
  qed
qed auto

lemma entry_at_member:
  assumes "distinct (map path_of es)" and "e \<in> set es"
  shows "entry_at es (components (pe_path e)) = Some (pe_kind e)"
proof -
  have "find (\<lambda>x. components (pe_path x) = components (pe_path e)) es = Some e"
    using assms
  proof (induction es)
    case (Cons x es)
    have "components (pe_path x) = components (pe_path e) \<longleftrightarrow> path_of x = path_of e"
      by (metis components_def components_join)
    with Cons show ?case by (auto simp: image_iff)
  qed simp
  then show ?thesis by (simp add: entry_at_def)
qed

lemma entry_at_Some:
  "entry_at es cs = Some k \<Longrightarrow> \<exists>e \<in> set es. components (pe_path e) = cs \<and> pe_kind e = k"
  by (auto simp: entry_at_def find_Some_iff intro: nth_mem)

lemma ancestor_entry_at:
  assumes conf: "tree_conforms U es" and e: "e \<in> set es"
    and split: "components (pe_path e) = pre @ suf" "pre \<noteq> []" "suf \<noteq> []"
  shows "entry_at es pre = Some PE_Directory"
proof -
  have "length pre \<in> set [1..<length (components (pe_path e))]"
    using split by (auto simp: Suc_le_eq)
  then have "join_with slash pre \<in> set (ancestors (pe_path e))"
    using split(1) unfolding ancestors_def by (auto intro!: rev_image_eqI)
  then have "is_directory_of es (join_with slash pre)"
    using conf e by (simp add: tree_conforms_def)
  then obtain d where d: "d \<in> set es" "path_of d = join_with slash pre" "pe_kind d = PE_Directory"
    by (auto simp: is_directory_of_def)
  have "\<And>c. c \<in> set pre \<Longrightarrow> slash \<notin> set c"
    using split(1) split_on_no_sep [of _ slash "path_of e"] by (auto simp: components_def)
  then have "components (pe_path d) = pre"
    using d(2) split(2) by (simp add: components_def split_join)
  with entry_at_member [OF tree_conforms_distinct_paths [OF conf] d(1)] d(3) show ?thesis by simp
qed

lemma accepted_link_target:
  assumes "tree_conforms U es" and "e \<in> set es" and "pe_kind e = PE_Symlink target"
  shows "(\<forall>c \<in> set (split_on slash target). validate_component c True = Ok ()) \<and>
    (\<exists>r. lexical_resolve (butlast (components (pe_path e))) (split_on slash target) = Some r)"
proof -
  have "links_ok U e" using assms(1,2) by (simp add: tree_conforms_def)
  then have "validate_symlink_target U (pe_path e) target = Ok ()"
    using assms(3) by (simp add: links_ok_def)
  then show ?thesis by (simp only: validate_symlink_target_Ok_iff) blast
qed

section \<open>Properties\<close>

text \<open>An accepted path keeps its text, and each of its components exists on every
  platform: it is not empty, not a navigation component, has no separator, no control
  character and none of the characters Windows forbids, does not end in a dot or a space,
  and is no device name.\<close>

theorem parsed_path_is_portable:
  assumes "PortablePath_parse U v = Ok p" and "c \<in> set (components p)"
  shows "as_str p = v \<and> c \<noteq> [] \<and> c \<noteq> ''.'' \<and> c \<noteq> ''..'' \<and> \<not> is_windows_reserved_name c \<and>
    last c \<notin> {CHR ''.'', CHR '' ''} \<and>
    (\<forall>x \<in> set c. code x < 128 \<longrightarrow>
      32 \<le> code x \<and> code x < 127 \<and> x \<notin> set ''<>:|?*'' \<and> x \<noteq> slash \<and> x \<noteq> backslash)"
proof -
  note ok = parse_component [OF assms]
  then have "\<not> is_windows_reserved_name c" and ends: "\<not> ends_with c ''.''" "\<not> ends_with c '' ''"
    by (auto simp: validate_component_def split: if_splits)
  moreover have "last c \<noteq> x" if "\<not> ends_with c [x]" for x
    using that ok append_butlast_last_id [of c] unfolding ends_with_def suffix_def by metis
  ultimately show ?thesis
    using ok assms(1) validate_component_portable [of c] by (auto simp: parse_Ok_iff)
qed

theorem parsed_path_is_portable_witness:
  "as_str (PortablePath ''scripts/run.sh'') = ''scripts/run.sh'' \<and> \<not> is_windows_reserved_name ''run.sh''"
proof -
  have "PortablePath_parse ascii_tables ''scripts/run.sh'' = Ok (PortablePath ''scripts/run.sh'')"
    by code_simp
  moreover have "''run.sh'' \<in> set (components (PortablePath ''scripts/run.sh''))" by code_simp
  ultimately show ?thesis using parsed_path_is_portable by blast
qed

text \<open>C8. The two loops of \<open>validate_portable_tree\<close> decide the declarative tree profile, and an
  accepted tree is the given entries in path order.\<close>

theorem validate_portable_tree_refines_profile:
  "validate_portable_tree U es = Ok t \<longleftrightarrow>
     tree_conforms U es \<and> t = \<lparr>pt_entries = sort_key path_of es\<rparr>"
  by (rule validate_portable_tree_Ok_iff)

text \<open>C9. Every symbolic link of an accepted tree, read component by component from the
  directory that holds it, stays inside the tree, and the place it names is spelt with
  portable components only.\<close>

theorem accepted_links_stay_inside:
  assumes "validate_portable_tree U es = Ok t" and "e \<in> set es" and "pe_kind e = PE_Symlink target"
    and "PortablePath_parse U v = Ok (pe_path e)"
  shows "\<exists>r. lexical_resolve (butlast (components (pe_path e))) (split_on slash target) = Some r \<and>
    (\<forall>c \<in> set r. validate_component c False = Ok ())"
proof -
  have "tree_conforms U es" using assms(1) by (simp add: validate_portable_tree_Ok_iff)
  from accepted_link_target [OF this assms(2,3)]
  obtain r where r: "lexical_resolve (butlast (components (pe_path e))) (split_on slash target) = Some r"
    and v: "\<forall>c \<in> set (split_on slash target). validate_component c True = Ok ()"
    by blast
  have "validate_component c False = Ok ()" if "c \<in> set r" for c
    using lexical_resolve_components [OF r] that v parse_component [OF assms(4)]
    by (auto simp: validate_component_False dest: in_set_butlastD)
  with r show ?thesis by blast
qed

definition example_tree :: "PortableEntry list" where
  "example_tree =
     [\<lparr>pe_path = PortablePath ''shared'', pe_kind = PE_Directory\<rparr>,
      \<lparr>pe_path = PortablePath ''scripts'', pe_kind = PE_Directory\<rparr>,
      \<lparr>pe_path = PortablePath ''scripts/tool'', pe_kind = PE_Symlink ''../shared/tool''\<rparr>]"

lemma example_tree_accepted: "is_ok (validate_portable_tree ascii_tables example_tree)"
  by code_simp

theorem accepted_links_stay_inside_witness:
  "\<exists>r. lexical_resolve [''scripts''] [''..'', ''shared'', ''tool''] = Some r \<and>
    (\<forall>c \<in> set r. validate_component c False = Ok ())"
proof -
  obtain t where t: "validate_portable_tree ascii_tables example_tree = Ok t"
    using example_tree_accepted by (auto simp: is_ok_iff)
  let ?e = "\<lparr>pe_path = PortablePath ''scripts/tool'', pe_kind = PE_Symlink ''../shared/tool''\<rparr>"
  have mem: "?e \<in> set example_tree" by (simp add: example_tree_def)
  have p: "PortablePath_parse ascii_tables ''scripts/tool'' = Ok (pe_path ?e)" by code_simp
  show ?thesis
    using accepted_links_stay_inside [OF t mem _ p, of "''../shared/tool''"]
    by (simp add: components_def)
qed

text \<open>When no link target of an accepted tree passes through another link, opening any
  entry of the tree on disk never leaves the skill root, whatever the fuel.\<close>

theorem single_hop_links_are_contained:
  assumes acc: "validate_portable_tree U es = Ok t" and hop: "single_hop es"
    and parsed: "\<And>e. e \<in> set es \<Longrightarrow> PortablePath_parse U (path_of e) = Ok (pe_path e)"
    and e: "e \<in> set es"
  shows "os_walk n es [] (components (pe_path e)) \<noteq> Outside"
proof (rule os_walk_entry_path)
  have conf: "tree_conforms U es" using acc by (simp add: validate_portable_tree_Ok_iff)
  show "entry_at es ([] @ pre) = Some PE_Directory"
    if "components (pe_path e) = pre @ suf" "pre \<noteq> []" "suf \<noteq> []" for pre suf
    using ancestor_entry_at [OF conf e that] by simp
  show "c \<noteq> ''.'' \<and> c \<noteq> ''..''" if "c \<in> set (components (pe_path e))" for c
    using parse_component [OF parsed [OF e] that] by simp
  show "os_walk m es (butlast ([] @ components (pe_path e))) (split_on slash tg) \<noteq> Outside"
    if "entry_at es ([] @ components (pe_path e)) = Some (PE_Symlink tg)" for tg m
  proof -
    have k: "pe_kind e = PE_Symlink tg"
      using that entry_at_member [OF tree_conforms_distinct_paths [OF conf] e] by simp
    then obtain r where "lexical_resolve (butlast (components (pe_path e))) (split_on slash tg) = Some r"
      using accepted_link_target [OF conf e] by blast
    moreover have "link_free es (butlast (components (pe_path e))) (split_on slash tg)"
      using hop e k by (simp add: single_hop_def)
    ultimately show ?thesis using os_walk_link_free by simp
  qed
qed

theorem single_hop_links_are_contained_witness:
  "os_walk 9 example_tree [] [''scripts'', ''tool''] \<noteq> Outside"
proof -
  obtain t where t: "validate_portable_tree ascii_tables example_tree = Ok t"
    using example_tree_accepted by (auto simp: is_ok_iff)
  have hop: "single_hop example_tree"
    by (simp add: single_hop_def example_tree_def components_def entry_at_def)
  have "list_all (\<lambda>e. PortablePath_parse ascii_tables (path_of e) = Ok (pe_path e)) example_tree"
    by code_simp
  then have parsed: "\<And>e. e \<in> set example_tree \<Longrightarrow>
      PortablePath_parse ascii_tables (path_of e) = Ok (pe_path e)"
    by (simp add: list_all_iff)
  have mem: "\<lparr>pe_path = PortablePath ''scripts/tool'', pe_kind = PE_Symlink ''../shared/tool''\<rparr> \<in> set example_tree"
    by (simp add: example_tree_def)
  show ?thesis
    using single_hop_links_are_contained [OF t hop parsed mem, of 9] by (simp add: components_def)
qed


end
