(* ===== verification/Skill_Doc.thy ===== *)
theory Skill_Doc
  imports Portable_Path
begin

text \<open>
  \<open>crates/denju-core/src/skill.rs\<close>: Agent Skills names, the \<open>SKILL.md\<close> document with its
  YAML front matter, the collision-derived rewrite of its name, and the validation of a
  whole skill directory.  The YAML library (\<open>serde_yaml\<close>) is an argument of the definitions
  that call it.
\<close>

section \<open>The YAML library\<close>

text \<open>
  The operations of \<open>serde_yaml::Value\<close> and \<open>Mapping\<close> the code calls: parsing and rendering,
  \<open>as_mapping\<close> (with \<open>y_with_mapping\<close> for a change made through \<open>as_mapping_mut\<close>),
  \<open>as_str\<close>, a match on \<open>Value::String\<close> (\<open>y_match_string\<close>), \<open>Value::String(s)\<close>, and
  lookup, insertion and iteration on mappings.
\<close>

record ('v, 'm) yaml_lib =
  y_from_str :: "string \<Rightarrow> ('v, string) result"
  y_to_string :: "'v \<Rightarrow> (string, string) result"
  y_as_mapping :: "'v \<Rightarrow> 'm option"
  y_with_mapping :: "'v \<Rightarrow> 'm \<Rightarrow> 'v"
  y_as_str :: "'v \<Rightarrow> string option"
  y_match_string :: "'v \<Rightarrow> string option"
  y_string :: "string \<Rightarrow> 'v"
  y_get :: "'m \<Rightarrow> 'v \<Rightarrow> 'v option"
  y_insert :: "'m \<Rightarrow> 'v \<Rightarrow> 'v \<Rightarrow> 'm"
  y_items :: "'m \<Rightarrow> ('v \<times> 'v) list"

section \<open>Data\<close>

record SkillFrontmatter =
  fm_name :: string
  fm_description :: string
  fm_license :: "string option"
  fm_compatibility :: "string option"
  fm_metadata :: "string \<Rightarrow> string option"
  fm_allowed_tools :: "string option"

record SkillDocument =
  doc_frontmatter :: SkillFrontmatter
  doc_body :: string

datatype SkillEntry =
    SE_File string string bool
  | SE_Directory string
  | SE_Symlink string string

record ValidatedSkill =
  vs_document :: SkillDocument
  vs_portable_tree :: PortableTree

datatype SkillValidationError =
    InvalidName | SkillMdNotUtf8 | MissingFrontmatter | InvalidFrontmatter string
  | FrontmatterMustBeMapping | MissingRequiredField string | InvalidOptionalField string
  | NameDoesNotMatchDirectory string string | InvalidDescription | InvalidCompatibility
  | InvalidMetadata | MissingSkillMd | DuplicateSkillMd
  | SV_PortablePath PortablePathError | SV_PortableTree PortableTreeError

section \<open>Names and front matter\<close>

abbreviation hyphen :: char where "hyphen \<equiv> CHR ''-''"
abbreviation newline :: char where "newline \<equiv> CHR 0x0A"
abbreviation carriage_return :: char where "carriage_return \<equiv> CHR 0x0D"

definition skill_name_byte :: "char \<Rightarrow> bool" where
  "skill_name_byte b = (ascii_lowercase b \<or> ascii_digit b \<or> b = hyphen)"

definition validate_skill_name :: "string \<Rightarrow> (unit, SkillValidationError) result" where
  "validate_skill_name name =
     (let len = length (chars name)
      in if \<not> (1 \<le> len \<and> len \<le> 64) then Err InvalidName
         else if starts_with name [hyphen] \<or> ends_with name [hyphen] \<or>
                 contains_sub name [hyphen, hyphen] \<or> \<not> list_all skill_name_byte name
         then Err InvalidName
         else Ok ())"

definition is_marker :: "string \<Rightarrow> bool" where
  "is_marker line = (trim_end_matches (\<lambda>c. c = carriage_return \<or> c = newline) line = ''---'')"

text \<open>The loop over the lines after the opening marker: the start of the closing line and the
  offset behind it.\<close>

fun find_close :: "nat \<Rightarrow> string list \<Rightarrow> (nat \<times> nat) option" where
  "find_close offset [] = None"
| "find_close offset (line # ls) =
     (if is_marker line then Some (offset, offset + length line)
      else find_close (offset + length line) ls)"

text \<open>\<open>str::rfind\<close>.\<close>

definition rfind :: "string \<Rightarrow> string \<Rightarrow> nat option" where
  "rfind s p = find (\<lambda>i. prefix p (drop i s)) (rev [0..<Suc (length s)])"

definition split_frontmatter :: "string \<Rightarrow> (string \<times> nat, SkillValidationError) result" where
  "split_frontmatter source =
     (case split_inclusive newline source of
        [] \<Rightarrow> Err MissingFrontmatter
      | first # ls \<Rightarrow>
          if \<not> is_marker first then Err MissingFrontmatter
          else
            (let start = length first
             in case find_close start ls of
                  Some (line_start, offset) \<Rightarrow>
                    Ok (take (line_start - start) (drop start source), offset)
                | None \<Rightarrow>
                    if ends_with (drop start source) (newline # ''---'') \<or>
                       ends_with (drop start source) (carriage_return # newline # ''---'')
                    then res_bind (ok_or (rfind source ''---'') MissingFrontmatter)
                      (\<lambda>marker_start.
                         Ok (take (marker_start - start) (drop start source), length source))
                    else Err MissingFrontmatter))"

definition mapping_key :: "('v, 'm) yaml_lib \<Rightarrow> string \<Rightarrow> 'v" where
  "mapping_key Y name = y_string Y name"

definition required_string ::
  "('v, 'm) yaml_lib \<Rightarrow> 'm \<Rightarrow> string \<Rightarrow> (string, SkillValidationError) result" where
  "required_string Y mapping field =
     ok_or (Option.bind (y_get Y mapping (mapping_key Y field)) (y_as_str Y))
       (MissingRequiredField field)"

definition optional_string ::
  "('v, 'm) yaml_lib \<Rightarrow> 'm \<Rightarrow> string \<Rightarrow> (string option, SkillValidationError) result" where
  "optional_string Y mapping field =
     (case y_get Y mapping (mapping_key Y field) of
        None \<Rightarrow> Ok None
      | Some v \<Rightarrow> (case y_match_string Y v of
                    Some s \<Rightarrow> Ok (Some s)
                  | None \<Rightarrow> Err (InvalidOptionalField field)))"

fun metadata_items :: "('v, 'm) yaml_lib \<Rightarrow> (string \<Rightarrow> string option) \<Rightarrow> ('v \<times> 'v) list \<Rightarrow>
    (string \<Rightarrow> string option, SkillValidationError) result" where
  "metadata_items Y metadata [] = Ok metadata"
| "metadata_items Y metadata ((key, val) # items) =
     res_bind (ok_or (y_as_str Y key) InvalidMetadata) (\<lambda>k.
     res_bind (ok_or (y_as_str Y val) InvalidMetadata) (\<lambda>v.
     metadata_items Y (metadata(k \<mapsto> v)) items))"

definition metadata_map ::
  "('v, 'm) yaml_lib \<Rightarrow> 'm \<Rightarrow> (string \<Rightarrow> string option, SkillValidationError) result" where
  "metadata_map Y mapping =
     (case y_get Y mapping (mapping_key Y ''metadata'') of
        None \<Rightarrow> Ok Map.empty
      | Some val \<Rightarrow>
          res_bind (ok_or (y_as_mapping Y val) InvalidMetadata)
            (\<lambda>m. metadata_items Y Map.empty (y_items Y m)))"

text \<open>UTF-8 check, front matter split, YAML parse and mapping check, shared by the three readers.\<close>

definition read_frontmatter :: "('v, 'm) yaml_lib \<Rightarrow> string \<Rightarrow>
    ('v \<times> 'm \<times> nat, SkillValidationError) result" where
  "read_frontmatter Y bytes =
     res_bind (ok_or (from_utf8 bytes) SkillMdNotUtf8) (\<lambda>source.
     res_bind (split_frontmatter source) (\<lambda>(frontmatter_source, body_offset).
     res_bind (map_err InvalidFrontmatter (y_from_str Y frontmatter_source)) (\<lambda>v.
     res_bind (ok_or (y_as_mapping Y v) FrontmatterMustBeMapping) (\<lambda>mapping.
     Ok (v, mapping, body_offset)))))"

definition parse_skill_document ::
  "('v, 'm) yaml_lib \<Rightarrow> string \<Rightarrow> string \<Rightarrow> (SkillDocument, SkillValidationError) result" where
  "parse_skill_document Y parent_directory_name bytes =
     res_bind (read_frontmatter Y bytes) (\<lambda>(v, mapping, body_offset).
     res_bind (required_string Y mapping ''name'') (\<lambda>name.
     res_bind (validate_skill_name name) (\<lambda>_.
     if name \<noteq> parent_directory_name
     then Err (NameDoesNotMatchDirectory name parent_directory_name)
     else res_bind (required_string Y mapping ''description'') (\<lambda>description.
       if description = [] \<or> 1024 < length (chars description) then Err InvalidDescription
       else res_bind (optional_string Y mapping ''license'') (\<lambda>license.
         res_bind (optional_string Y mapping ''compatibility'') (\<lambda>compatibility.
         if is_some_and compatibility (\<lambda>c. c = [] \<or> 500 < length (chars c))
         then Err InvalidCompatibility
         else res_bind (optional_string Y mapping ''allowed-tools'') (\<lambda>allowed_tools.
           res_bind (metadata_map Y mapping) (\<lambda>metadata.
           Ok \<lparr>doc_frontmatter =
                 \<lparr>fm_name = name, fm_description = description, fm_license = license,
                  fm_compatibility = compatibility, fm_metadata = metadata,
                  fm_allowed_tools = allowed_tools\<rparr>,
               doc_body = drop body_offset bytes\<rparr>))))))))"

definition skill_document_declared_name ::
  "('v, 'm) yaml_lib \<Rightarrow> string \<Rightarrow> (string, SkillValidationError) result" where
  "skill_document_declared_name Y bytes =
     res_bind (read_frontmatter Y bytes) (\<lambda>(v, mapping, _).
     res_bind (required_string Y mapping ''name'') (\<lambda>name.
     res_bind (validate_skill_name name) (\<lambda>_. Ok name)))"

definition rewrite_skill_document_name ::
  "('v, 'm) yaml_lib \<Rightarrow> string \<Rightarrow> string \<Rightarrow> string \<Rightarrow> (string, SkillValidationError) result" where
  "rewrite_skill_document_name Y canonical_parent_name bytes projected_name =
     res_bind (parse_skill_document Y canonical_parent_name bytes) (\<lambda>document.
     res_bind (validate_skill_name projected_name) (\<lambda>_.
     res_bind (read_frontmatter Y bytes) (\<lambda>(v, mapping, body_offset).
     (let v' = y_with_mapping Y v (y_insert Y mapping (mapping_key Y ''name'') (y_string Y projected_name))
      in res_bind (map_err InvalidFrontmatter (y_to_string Y v')) (\<lambda>rendered.
         (let output = ''---'' @ [newline] @ rendered @ ''---'' @ [newline] @ doc_body document
          in res_bind (parse_skill_document Y projected_name output) (\<lambda>_. Ok output)))))))"

section \<open>Skill directories\<close>

definition skill_md_name :: string where
  "skill_md_name = ''SKILL.md''"

text \<open>The loop body of \<open>validate_skill_directory\<close>: the portable entries so far and the bytes of
  the root \<open>SKILL.md\<close>.\<close>

fun directory_entry :: "unicode_tables \<Rightarrow> PortableEntry list \<times> string option \<Rightarrow> SkillEntry \<Rightarrow>
    (PortableEntry list \<times> string option, SkillValidationError) result" where
  "directory_entry U (portable_entries, skill_md) (SE_File path bytes executable) =
     res_bind (map_err SV_PortablePath (PortableEntry_new U path (PE_File executable))) (\<lambda>e.
       if path = skill_md_name \<and> skill_md \<noteq> None then Err DuplicateSkillMd
       else Ok (portable_entries @ [e], if path = skill_md_name then Some bytes else skill_md))"
| "directory_entry U (portable_entries, skill_md) (SE_Directory path) =
     res_bind (map_err SV_PortablePath (PortableEntry_new U path PE_Directory)) (\<lambda>e.
       Ok (portable_entries @ [e], skill_md))"
| "directory_entry U (portable_entries, skill_md) (SE_Symlink path target) =
     res_bind (map_err SV_PortablePath (PortableEntry_new U path (PE_Symlink target))) (\<lambda>e.
       Ok (portable_entries @ [e], skill_md))"

definition validate_skill_directory ::
  "unicode_tables \<Rightarrow> ('v, 'm) yaml_lib \<Rightarrow> string \<Rightarrow> SkillEntry list \<Rightarrow>
    (ValidatedSkill, SkillValidationError) result" where
  "validate_skill_directory U Y parent_directory_name entries =
     res_bind (validate_skill_name parent_directory_name) (\<lambda>_.
     res_bind (fold_res (directory_entry U) ([], None) entries) (\<lambda>(portable_entries, skill_md).
     res_bind (map_err SV_PortableTree (validate_portable_tree U portable_entries)) (\<lambda>portable_tree.
     res_bind (ok_or skill_md MissingSkillMd) (\<lambda>bytes.
     res_bind (parse_skill_document Y parent_directory_name bytes) (\<lambda>document.
     Ok \<lparr>vs_document = document, vs_portable_tree = portable_tree\<rparr>)))))"

section \<open>Skill names\<close>

lemma split_on_hd_empty: "hd (split_on c s) = [] \<longleftrightarrow> s = [] \<or> (\<exists>r. s = c # r)"
  by (cases s) auto

lemma split_on_tl_empty:
  "[] \<in> set (tl (split_on c s)) \<longleftrightarrow> suffix [c] s \<or> sublist [c, c] s"
proof (induction s)
  case (Cons x xs)
  have mem: "[] \<in> set (split_on c xs) \<longleftrightarrow>
      hd (split_on c xs) = [] \<or> [] \<in> set (tl (split_on c xs))"
    by (cases "split_on c xs") auto
  show ?case
    using Cons.IH
    by (auto simp: mem split_on_hd_empty suffix_Cons sublist_Cons_right prefix_Cons prefix_def)
qed simp

lemma split_on_pieces_nonempty:
  "[] \<notin> set (split_on c s) \<longleftrightarrow>
     s \<noteq> [] \<and> \<not> prefix [c] s \<and> \<not> suffix [c] s \<and> \<not> sublist [c, c] s"
proof -
  have "[] \<in> set (split_on c s) \<longleftrightarrow> hd (split_on c s) = [] \<or> [] \<in> set (tl (split_on c s))"
    by (cases "split_on c s") auto
  then show ?thesis by (auto simp: split_on_hd_empty split_on_tl_empty prefix_def)
qed

lemma skill_name_byte_ascii: "skill_name_byte b \<Longrightarrow> code b < 128"
  by (auto simp: skill_name_byte_def ascii_lowercase_def ascii_digit_def)

text \<open>A valid name is 1 to 64 bytes: groups of lower-case letters and digits, joined by single
  hyphens.\<close>

definition skill_name_spec :: "string \<Rightarrow> bool" where
  "skill_name_spec n \<longleftrightarrow> 1 \<le> length n \<and> length n \<le> 64 \<and>
     (\<forall>g \<in> set (split_on hyphen n). g \<noteq> [] \<and> list_all (\<lambda>b. ascii_lowercase b \<or> ascii_digit b) g)"

lemma skill_name_groups:
  "list_all skill_name_byte n \<longleftrightarrow>
     (\<forall>g \<in> set (split_on hyphen n). list_all (\<lambda>b. ascii_lowercase b \<or> ascii_digit b) g)"
proof (induction n)
  case (Cons x xs)
  obtain h t where st: "split_on hyphen xs = h # t" by (cases "split_on hyphen xs") auto
  have "\<not> ascii_lowercase hyphen" "\<not> ascii_digit hyphen"
    by (simp_all add: ascii_lowercase_def ascii_digit_def)
  with Cons st show ?case by (auto simp: skill_name_byte_def)
qed simp

lemma validate_skill_name_Ok_iff: "validate_skill_name n = Ok () \<longleftrightarrow> skill_name_spec n"
proof (cases "list_all skill_name_byte n")
  case True
  then have "chars n = map code n"
    by (intro chars_ascii) (auto simp: list_all_iff skill_name_byte_ascii)
  with True split_on_pieces_nonempty [of hyphen n] show ?thesis
    by (auto simp: validate_skill_name_def skill_name_spec_def Let_def starts_with_def
        ends_with_def contains_sub_def skill_name_groups)
next
  case False
  then show ?thesis
    by (auto simp: validate_skill_name_def skill_name_spec_def Let_def skill_name_groups)
qed

section \<open>Front matter\<close>

lemma find_close_Some:
  "find_close off ls = Some (a, b) \<longleftrightarrow>
     (\<exists>pre close rest. ls = pre @ close # rest \<and> is_marker close \<and> (\<forall>l \<in> set pre. \<not> is_marker l) \<and>
        a = off + length (concat pre) \<and> b = a + length close)"
proof (induction ls arbitrary: off)
  case (Cons l ls)
  show ?case
  proof (cases "is_marker l")
    case True
    then show ?thesis
      by (auto simp: Cons_eq_append_conv) (metis append_Nil empty_iff list.set(1) add.right_neutral list.size(3) concat.simps(1))+
  next
    case False
    have "find_close off (l # ls) = Some (a, b) \<longleftrightarrow> find_close (off + length l) ls = Some (a, b)"
      using False by simp
    also have "\<dots> \<longleftrightarrow> (\<exists>pre close rest. ls = pre @ close # rest \<and> is_marker close \<and>
        (\<forall>l \<in> set pre. \<not> is_marker l) \<and> a = off + length l + length (concat pre) \<and> b = a + length close)"
      by (rule Cons.IH)
    also have "\<dots> \<longleftrightarrow> (\<exists>pre close rest. l # ls = pre @ close # rest \<and> is_marker close \<and>
        (\<forall>l \<in> set pre. \<not> is_marker l) \<and> a = off + length (concat pre) \<and> b = a + length close)"
      (is "?L \<longleftrightarrow> ?R")
    proof
      assume ?L
      then obtain pre close rest where "ls = pre @ close # rest" "is_marker close"
        "\<forall>l \<in> set pre. \<not> is_marker l" "a = off + length l + length (concat pre)" "b = a + length close"
        by blast
      with False show ?R by (intro exI [of _ "l # pre"] exI [of _ close] exI [of _ rest]) auto
    next
      assume ?R
      with False show ?L by (fastforce simp: Cons_eq_append_conv)
    qed
    finally show ?thesis .
  qed
qed simp

lemma find_close_None: "find_close off ls = None \<longleftrightarrow> (\<forall>l \<in> set ls. \<not> is_marker l)"
  by (induction ls arbitrary: off) auto

lemma first_split_unique:
  assumes "xs = pre @ c # rest" "P c" "\<forall>l \<in> set pre. \<not> P l"
    and "xs = pre' @ c' # rest'" "P c'" "\<forall>l \<in> set pre'. \<not> P l"
  shows "pre = pre' \<and> c = c'"
proof -
  have "takeWhile (\<lambda>l. \<not> P l) xs = pre" using assms(1-3) by simp
  moreover have "takeWhile (\<lambda>l. \<not> P l) xs = pre'" using assms(4-6) by simp
  ultimately show ?thesis using assms(1,4) by simp
qed

text \<open>The fallback after the loop looks for a closing marker at the very end of the source; the
  loop has always seen such a line already.\<close>

lemma trailing_marker_seen:
  assumes lines: "split_inclusive newline s = first # ls"
    and tail: "ends_with (drop (length first) s) (newline # ''---'')"
  shows "\<exists>l \<in> set ls. is_marker l"
proof -
  obtain p where p: "drop (length first) s = p @ newline # ''---''"
    using tail by (auto simp: ends_with_def suffix_def)
  have "s = first @ concat ls"
    using concat_split_inclusive [of newline s] lines by simp
  with p have s: "s = ((first @ p) @ [newline]) @ ''---''" by simp
  have "split_inclusive newline s = split_inclusive newline ((first @ p) @ [newline]) @ [''---'']"
    unfolding s split_inclusive_append by (simp add: split_inclusive_no_sep)
  moreover have "split_inclusive newline ((first @ p) @ [newline]) \<noteq> []" by simp
  ultimately have "''---'' \<in> set ls"
    using lines by (cases "split_inclusive newline ((first @ p) @ [newline])") auto
  moreover have "is_marker ''---''" by (simp add: is_marker_def trim_end_matches_def)
  ultimately show ?thesis by blast
qed

lemma split_frontmatter_Ok_iff:
  "split_frontmatter s = Ok (fm, off) \<longleftrightarrow>
     (\<exists>first pre close rest. split_inclusive newline s = first # pre @ close # rest \<and>
        is_marker first \<and> is_marker close \<and> (\<forall>l \<in> set pre. \<not> is_marker l) \<and>
        fm = concat pre \<and> off = length (first @ concat pre @ close))"
proof (cases "split_inclusive newline s")
  case Nil
  then show ?thesis by (simp add: split_frontmatter_def)
next
  case (Cons first ls)
  have s: "s = first @ concat ls"
    using concat_split_inclusive [of newline s] Cons by simp
  show ?thesis
  proof (cases "is_marker first")
    case first: True
    show ?thesis
    proof (cases "find_close (length first) ls")
      case None
      then have none: "\<forall>l \<in> set ls. \<not> is_marker l" by (simp add: find_close_None)
      then have "\<not> ends_with (drop (length first) s) (newline # ''---'')"
        "\<not> ends_with (drop (length first) s) (carriage_return # newline # ''---'')"
        using trailing_marker_seen [OF Cons]
        by (auto simp: ends_with_def dest: suffix_ConsD)
      with None Cons first none show ?thesis by (auto simp: split_frontmatter_def)
    next
      case (Some ab)
      obtain a b where ab: "ab = (a, b)" by (cases ab)
      then obtain pre close rest where ls: "ls = pre @ close # rest" "is_marker close"
        "\<forall>l \<in> set pre. \<not> is_marker l" and a: "a = length first + length (concat pre)"
        and b: "b = a + length close"
        using Some by (auto simp: find_close_Some)
      have uniq: "pre' = pre \<and> close' = close"
        if "ls = pre' @ close' # rest'" "is_marker close'" "\<forall>l \<in> set pre'. \<not> is_marker l"
        for pre' close' rest'
        using first_split_unique [of ls pre' close' rest' is_marker pre close rest] that ls by blast
      have val: "split_frontmatter s = Ok (concat pre, length (first @ concat pre @ close))"
        using Some ab Cons first s ls(1) a b by (simp add: split_frontmatter_def)
      show ?thesis (is "?L \<longleftrightarrow> ?R")
      proof
        assume ?L
        then show ?R
          using val Cons first ls
          by - (rule exI [of _ first], rule exI [of _ pre], rule exI [of _ close],
              rule exI [of _ rest], auto)
      next
        assume ?R
        then obtain pre' close' rest' where "ls = pre' @ close' # rest'" "is_marker close'"
          "\<forall>l \<in> set pre'. \<not> is_marker l"
          and r: "fm = concat pre'" "off = length (first @ concat pre' @ close')"
          using Cons by auto
        then have "pre' = pre \<and> close' = close" by (intro uniq)
        with r val show ?L by simp
      qed
    qed
  next
    case False
    with Cons show ?thesis by (simp add: split_frontmatter_def)
  qed
qed

lemma split_frontmatter_parts:
  assumes "split_frontmatter s = Ok (fm, off)"
  obtains first close where "s = first @ fm @ close @ drop off s"
    and "off = length (first @ fm @ close)" and "is_marker first" and "is_marker close"
proof -
  obtain first pre close rest where sp: "split_inclusive newline s = first # pre @ close # rest"
    and m: "is_marker first" "is_marker close" and fm: "fm = concat pre"
    and off: "off = length (first @ concat pre @ close)"
    using assms by (auto simp: split_frontmatter_Ok_iff)
  have "s = first @ concat pre @ close @ concat rest"
    using concat_split_inclusive [of newline s] sp by simp
  then show thesis using m fm off by (intro that [of first close]) auto
qed

lemma marker_line: "is_marker (''---'' @ [newline])"
  by (simp add: is_marker_def trim_end_matches_def)

text \<open>Front matter the renderer produced between two marker lines is found again, with the body
  behind it, whenever it consists of complete lines none of which is a marker.\<close>

definition plain_block :: "string \<Rightarrow> bool" where
  "plain_block r \<longleftrightarrow> (r = [] \<or> last r = newline) \<and> (\<forall>l \<in> set (split_inclusive newline r). \<not> is_marker l)"

text \<open>What the rewrite relies on of the renderer.\<close>

definition renders_plain_blocks :: "('v, 'm) yaml_lib \<Rightarrow> bool" where
  "renders_plain_blocks Y \<longleftrightarrow> (\<forall>v r. y_to_string Y v = Ok r \<longrightarrow> plain_block r)"

lemma split_inclusive_block:
  assumes "r = [] \<or> last r = newline"
  shows "split_inclusive newline (r @ s) = split_inclusive newline r @ split_inclusive newline s"
proof (cases "r = []")
  case False
  then obtain p where "r = p @ [newline]" using assms append_butlast_last_id by metis
  then show ?thesis using split_inclusive_append [of newline p s] by simp
qed simp

lemma split_frontmatter_rendered:
  assumes "plain_block r"
  shows "split_frontmatter (''---'' @ [newline] @ r @ ''---'' @ [newline] @ body) =
    Ok (r, length (''---'' @ [newline] @ r @ ''---'' @ [newline]))"
proof -
  let ?m = "''---'' @ [newline]"
  have m: "split_inclusive newline (?m @ s) = ?m # split_inclusive newline s" for s
    using split_inclusive_append_sep [of newline "''---''" s] by simp
  have "split_inclusive newline (?m @ r @ ?m @ body) =
      ?m # split_inclusive newline r @ ?m # split_inclusive newline body"
    using assms unfolding plain_block_def m by (simp only: split_inclusive_block m)
  then have "split_frontmatter (?m @ r @ ?m @ body) = Ok (r, length (?m @ r @ ?m))"
    using assms marker_line unfolding plain_block_def
    by (subst split_frontmatter_Ok_iff)
      (rule exI [of _ ?m], rule exI [of _ "split_inclusive newline r"], rule exI [of _ ?m],
        rule exI [of _ "split_inclusive newline body"], simp)
  then show ?thesis by simp
qed

section \<open>Documents\<close>

lemma read_frontmatter_Ok:
  assumes "read_frontmatter Y bytes = Ok (v, mapping, off)"
  obtains fm where "split_frontmatter bytes = Ok (fm, off)" and "y_from_str Y fm = Ok v"
    and "y_as_mapping Y v = Some mapping" and "utf8_decode bytes \<noteq> None"
  using assms by (auto simp: read_frontmatter_def res_simps from_utf8_def split: if_splits)

lemma parse_skill_document_Ok:
  assumes "parse_skill_document Y dir bytes = Ok doc"
  obtains v mapping off where "read_frontmatter Y bytes = Ok (v, mapping, off)"
    and "doc_body doc = drop off bytes" and "fm_name (doc_frontmatter doc) = dir"
    and "required_string Y mapping ''name'' = Ok dir" and "validate_skill_name dir = Ok ()"
    and "fm_description (doc_frontmatter doc) \<noteq> []"
    and "length (chars (fm_description (doc_frontmatter doc))) \<le> 1024"
    and "\<not> is_some_and (fm_compatibility (doc_frontmatter doc)) (\<lambda>c. c = [] \<or> 500 < length (chars c))"
proof -
  obtain v mapping off where rf: "read_frontmatter Y bytes = Ok (v, mapping, off)"
    using assms by (auto simp: parse_skill_document_def res_simps)
  show thesis
    using assms rf by (intro that [OF rf]) (auto simp: parse_skill_document_def res_simps split: if_splits)
qed

lemma rewrite_Ok:
  assumes "rewrite_skill_document_name Y old bytes new = Ok out"
  obtains doc doc' rendered where "parse_skill_document Y old bytes = Ok doc"
    and "parse_skill_document Y new out = Ok doc'" and "validate_skill_name new = Ok ()"
    and "out = ''---'' @ [newline] @ rendered @ ''---'' @ [newline] @ doc_body doc"
    and "\<exists>v. y_to_string Y v = Ok rendered"
  using assms that
  by (fastforce simp: rewrite_skill_document_name_def res_simps Let_def)

section \<open>Directories\<close>

fun se_path :: "SkillEntry \<Rightarrow> string" where
  "se_path (SE_File path bytes executable) = path"
| "se_path (SE_Directory path) = path"
| "se_path (SE_Symlink path target) = path"

fun se_kind :: "SkillEntry \<Rightarrow> PortableEntryKind" where
  "se_kind (SE_File path bytes executable) = PE_File executable"
| "se_kind (SE_Directory path) = PE_Directory"
| "se_kind (SE_Symlink path target) = PE_Symlink target"

definition portable_of :: "SkillEntry \<Rightarrow> PortableEntry" where
  "portable_of e = \<lparr>pe_path = PortablePath (se_path e), pe_kind = se_kind e\<rparr>"

fun skill_md_of :: "SkillEntry \<Rightarrow> string option" where
  "skill_md_of (SE_File path bytes executable) = (if path = skill_md_name then Some bytes else None)"
| "skill_md_of e = None"

definition path_parses :: "unicode_tables \<Rightarrow> string \<Rightarrow> bool" where
  "path_parses U p \<longleftrightarrow> PortablePath_parse U p = Ok (PortablePath p)"

lemma PortableEntry_new_Ok_iff:
  "PortableEntry_new U p k = Ok e \<longleftrightarrow> path_parses U p \<and> e = \<lparr>pe_path = PortablePath p, pe_kind = k\<rparr>"
  by (auto simp: PortableEntry_new_def path_parses_def res_simps parse_Ok_iff)

lemma directory_entry_Ok_iff:
  "directory_entry U (ps, md) e = Ok st \<longleftrightarrow>
     path_parses U (se_path e) \<and> \<not> (skill_md_of e \<noteq> None \<and> md \<noteq> None) \<and>
     st = (ps @ [portable_of e], case skill_md_of e of None \<Rightarrow> md | Some b \<Rightarrow> Some b)"
  by (cases e) (auto simp: res_simps PortableEntry_new_Ok_iff portable_of_def split: if_splits)

lemma directory_entries_Ok_iff:
  "fold_res (directory_entry U) (ps, md) es = Ok st \<longleftrightarrow>
     (\<forall>e \<in> set es. path_parses U (se_path e)) \<and>
     (let mds = List.map_filter skill_md_of es
      in (md = None \<and> length mds \<le> 1 \<or> mds = []) \<and>
         st = (ps @ map portable_of es, case mds of [] \<Rightarrow> md | b # _ \<Rightarrow> Some b))"
proof (induction es arbitrary: ps md)
  case Nil
  then show ?case by (auto simp: List.map_filter_def)
next
  case (Cons e es)
  show ?case
  proof (cases "skill_md_of e")
    case None
    then have mf: "List.map_filter skill_md_of (e # es) = List.map_filter skill_md_of es"
      by (simp add: List.map_filter_def)
    show ?thesis
      unfolding fold_res.simps res_bind_Ok_iff directory_entry_Ok_iff mf
      by (auto simp: None Cons.IH Let_def)
  next
    case (Some b)
    then have mf: "List.map_filter skill_md_of (e # es) = b # List.map_filter skill_md_of es"
      by (simp add: List.map_filter_def)
    show ?thesis
      unfolding fold_res.simps res_bind_Ok_iff directory_entry_Ok_iff mf
      by (auto simp: Some Cons.IH Let_def)
  qed
qed

lemma path_of_portable_of: "map path_of (map portable_of es) = map se_path es"
  by (simp add: portable_of_def)

lemma map_filter_skill_md:
  assumes "distinct (map se_path es)"
  shows "length (List.map_filter skill_md_of es) \<le> 1"
  using assms
proof (induction es)
  case (Cons e es)
  have "List.map_filter skill_md_of es = []" if "se_path e = skill_md_name"
  proof -
    have "skill_md_of x = None" if "x \<in> set es" for x
      using Cons.prems that \<open>se_path e = skill_md_name\<close> by (cases x) (force simp: image_iff)+
    then show ?thesis by (auto simp: List.map_filter_def)
  qed
  moreover have "se_path e = skill_md_name" if "skill_md_of e \<noteq> None"
    using that by (cases e) (auto split: if_splits)
  ultimately show ?case using Cons by (cases "skill_md_of e") (auto simp: List.map_filter_def)
qed (simp add: List.map_filter_def)

definition has_skill_md :: "SkillEntry list \<Rightarrow> string \<Rightarrow> bool" where
  "has_skill_md es bytes \<longleftrightarrow> (\<exists>x. SE_File skill_md_name bytes x \<in> set es)"

lemma map_filter_skill_md_eq:
  assumes "distinct (map se_path es)"
  shows "has_skill_md es b \<longleftrightarrow> List.map_filter skill_md_of es = [b]"
proof -
  have mem: "has_skill_md es b \<longleftrightarrow> b \<in> set (List.map_filter skill_md_of es)"
  proof -
    have "skill_md_of e = Some b \<longleftrightarrow> (\<exists>x. e = SE_File skill_md_name b x)" for e
      by (cases e) auto
    then show ?thesis by (auto simp: has_skill_md_def List.map_filter_def image_iff) force+
  qed
  show ?thesis
    unfolding mem using map_filter_skill_md [OF assms]
    by (cases "List.map_filter skill_md_of es") auto
qed

lemma validate_skill_directory_Ok_iff:
  "validate_skill_directory U Y name es = Ok vs \<longleftrightarrow>
     validate_skill_name name = Ok () \<and> (\<forall>e \<in> set es. path_parses U (se_path e)) \<and>
     tree_conforms U (map portable_of es) \<and>
     (\<exists>bytes doc. has_skill_md es bytes \<and> parse_skill_document Y name bytes = Ok doc \<and>
        vs = \<lparr>vs_document = doc,
              vs_portable_tree = \<lparr>pt_entries = sort_key path_of (map portable_of es)\<rparr>\<rparr>)"
  (is "_ \<longleftrightarrow> ?R")
proof (cases "tree_conforms U (map portable_of es)")
  case True
  then have d: "distinct (map se_path es)"
    using tree_conforms_distinct_paths [OF True] by (simp only: path_of_portable_of)
  have mds: "List.map_filter skill_md_of es = [] \<or> (\<exists>b. List.map_filter skill_md_of es = [b])"
    using map_filter_skill_md [OF d] by (cases "List.map_filter skill_md_of es") auto
  show ?thesis
    unfolding validate_skill_directory_def
    using True mds map_filter_skill_md_eq [OF d]
    by (auto simp: res_simps directory_entries_Ok_iff Let_def validate_portable_tree_Ok_iff)
next
  case False
  then show ?thesis
    by (auto simp: validate_skill_directory_def res_simps directory_entries_Ok_iff Let_def
        validate_portable_tree_Ok_iff)
qed

section \<open>A small concrete YAML library\<close>

text \<open>One \<open>key: value\<close> pair per line, strings only: enough to evaluate the definitions above at
  concrete documents.\<close>

datatype flat_yaml = FY_String string | FY_Mapping "(flat_yaml \<times> flat_yaml) list"

definition flat_line :: "string \<Rightarrow> flat_yaml \<times> flat_yaml" where
  "flat_line l = (FY_String (takeWhile (\<lambda>c. c \<noteq> CHR '':'') l),
     FY_String (drop 2 (dropWhile (\<lambda>c. c \<noteq> CHR '':'') (trim_end_matches (\<lambda>c. c = newline) l))))"

definition flat_scalar :: "flat_yaml \<Rightarrow> string" where
  "flat_scalar v = (case v of FY_String s \<Rightarrow> filter (\<lambda>c. c \<noteq> newline) s | FY_Mapping _ \<Rightarrow> [])"

definition flat_pair :: "flat_yaml \<times> flat_yaml \<Rightarrow> string" where
  "flat_pair kv = (flat_scalar (fst kv) @ '': '' @ flat_scalar (snd kv)) @ [newline]"

definition flat_text :: "flat_yaml \<Rightarrow> (string, string) result" where
  "flat_text v = (case v of FY_Mapping m \<Rightarrow> Ok (concat (map flat_pair m))
                  | FY_String _ \<Rightarrow> Err ''unsupported'')"

definition flat_lib :: "(flat_yaml, (flat_yaml \<times> flat_yaml) list) yaml_lib" where
  "flat_lib =
     \<lparr>y_from_str = (\<lambda>s. Ok (FY_Mapping (map flat_line (split_inclusive newline s)))),
      y_to_string = flat_text,
      y_as_mapping = (\<lambda>v. case v of FY_Mapping m \<Rightarrow> Some m | _ \<Rightarrow> None),
      y_with_mapping = (\<lambda>v m. FY_Mapping m),
      y_as_str = (\<lambda>v. case v of FY_String s \<Rightarrow> Some s | _ \<Rightarrow> None),
      y_match_string = (\<lambda>v. case v of FY_String s \<Rightarrow> Some s | _ \<Rightarrow> None),
      y_string = FY_String, y_get = map_of,
      y_insert = (\<lambda>m k v. map (\<lambda>(k', v'). if k' = k then (k', v) else (k', v')) m),
      y_items = (\<lambda>m. m)\<rparr>"

lemma flat_pair_not_marker: "\<not> is_marker (flat_pair kv)"
proof
  assume "is_marker (flat_pair kv)"
  then have "CHR '':'' \<notin> set (trim_end_matches (\<lambda>c. c = carriage_return \<or> c = newline) (flat_pair kv))"
    by (simp add: is_marker_def)
  moreover have "CHR '':'' \<in> set (trim_end_matches (\<lambda>c. c = carriage_return \<or> c = newline) (p @ CHR '':'' # q))"
    for p q
    by (auto simp: trim_end_matches_def dropWhile_append)
  ultimately show False unfolding flat_pair_def by simp
qed

lemma flat_block: "plain_block (concat (map flat_pair m))"
proof (induction m)
  case (Cons kv m)
  have nl: "newline \<notin> set (flat_scalar (fst kv) @ '': '' @ flat_scalar (snd kv))"
    by (auto simp: flat_scalar_def split: flat_yaml.splits)
  have "split_inclusive newline (flat_pair kv @ concat (map flat_pair m)) =
      flat_pair kv # split_inclusive newline (concat (map flat_pair m))"
    using split_inclusive_append_sep [OF nl] by (simp add: flat_pair_def)
  moreover have "last (flat_pair kv @ r) = newline" if "r = [] \<or> last r = newline" for r
    using that by (auto simp: flat_pair_def)
  ultimately show ?case
    using Cons flat_pair_not_marker by (auto simp: plain_block_def)
qed (simp add: plain_block_def)

lemma flat_lib_renders: "renders_plain_blocks flat_lib"
  by (auto simp: renders_plain_blocks_def flat_lib_def flat_text_def flat_block
      split: flat_yaml.splits)

definition example_md :: string where
  "example_md = ''---'' @ [newline] @ ''name: review'' @ [newline] @ ''description: Reviews.'' @
     [newline] @ ''---'' @ [newline] @ ''# Body'' @ [newline]"

section \<open>Properties\<close>

text \<open>\<open>validate_skill_name\<close> accepts exactly the Agent Skills names: 1 to 64 bytes, groups
  of lower-case ASCII letters and digits joined by single hyphens.\<close>

theorem skill_name_validation_is_exact: "validate_skill_name n = Ok () \<longleftrightarrow> skill_name_spec n"
  by (rule validate_skill_name_Ok_iff)

text \<open>\<open>split_frontmatter\<close> succeeds exactly when the first line is a marker and a later line is;
  the front matter is the text between the first two marker lines and the offset is where
  the body starts.  In particular the fallback behind the loop never changes the result.\<close>

theorem frontmatter_is_between_first_markers:
  "split_frontmatter s = Ok (fm, off) \<longleftrightarrow>
     (\<exists>first pre close rest. split_inclusive newline s = first # pre @ close # rest \<and>
        is_marker first \<and> is_marker close \<and> (\<forall>l \<in> set pre. \<not> is_marker l) \<and>
        fm = concat pre \<and> off = length (first @ concat pre @ close))"
  by (rule split_frontmatter_Ok_iff)

theorem frontmatter_is_between_first_markers_witness:
  "\<exists>fm off first pre close rest. split_frontmatter example_md = Ok (fm, off) \<and>
     split_inclusive newline example_md = first # pre @ close # rest \<and> is_marker close \<and> fm = concat pre"
proof -
  have "is_ok (split_frontmatter example_md)" by code_simp
  then obtain fm off where "split_frontmatter example_md = Ok (fm, off)" by (auto simp: is_ok_iff)
  with frontmatter_is_between_first_markers [THEN iffD1, OF this] show ?thesis by blast
qed



text \<open>C12. Rewriting the declared name gives a document that parses under the projected name and
  ends with the original body bytes; when the renderer emits complete lines without a
  marker line among them, the parsed body is byte for byte the original body.\<close>

theorem rewritten_document_keeps_body:
  assumes "rewrite_skill_document_name Y old bytes new = Ok out"
    and "renders_plain_blocks Y"
  shows "\<exists>doc doc'. parse_skill_document Y old bytes = Ok doc \<and> parse_skill_document Y new out = Ok doc' \<and>
    fm_name (doc_frontmatter doc') = new \<and> skill_name_spec new \<and> doc_body doc' = doc_body doc"
proof -
  obtain doc doc' rendered where p: "parse_skill_document Y old bytes = Ok doc"
    and p': "parse_skill_document Y new out = Ok doc'" and n: "validate_skill_name new = Ok ()"
    and out: "out = ''---'' @ [newline] @ rendered @ ''---'' @ [newline] @ doc_body doc"
    and r: "\<exists>v. y_to_string Y v = Ok rendered"
    by (rule rewrite_Ok [OF assms(1)])
  have split: "split_frontmatter out =
      Ok (rendered, length (''---'' @ [newline] @ rendered @ ''---'' @ [newline]))"
    unfolding out using r assms(2)
    by (intro split_frontmatter_rendered) (auto simp: renders_plain_blocks_def)
  obtain v mapping off where rf: "read_frontmatter Y out = Ok (v, mapping, off)"
    and body: "doc_body doc' = drop off out" and name: "fm_name (doc_frontmatter doc') = new"
    by (rule parse_skill_document_Ok [OF p'])
  have "off = length (''---'' @ [newline] @ rendered @ ''---'' @ [newline])"
    by (rule read_frontmatter_Ok [OF rf]) (simp add: split)
  then have "doc_body doc' = doc_body doc" using body out by simp
  with p p' name n show ?thesis by (simp add: validate_skill_name_Ok_iff)
qed

theorem rewritten_document_keeps_body_witness:
  "\<exists>out doc doc'. rewrite_skill_document_name flat_lib ''review'' example_md ''alice-review'' = Ok out \<and>
    parse_skill_document flat_lib ''review'' example_md = Ok doc \<and>
    parse_skill_document flat_lib ''alice-review'' out = Ok doc' \<and>
    fm_name (doc_frontmatter doc') = ''alice-review'' \<and> doc_body doc' = doc_body doc"
proof -
  have "is_ok (rewrite_skill_document_name flat_lib ''review'' example_md ''alice-review'')"
    by code_simp
  then obtain out where "rewrite_skill_document_name flat_lib ''review'' example_md ''alice-review'' = Ok out"
    by (auto simp: is_ok_iff)
  with rewritten_document_keeps_body [OF this flat_lib_renders] show ?thesis by blast
qed

text \<open>C13. \<open>validate_skill_directory\<close> accepts exactly the directories with a valid name, portable
  paths forming a conforming tree, and one root \<open>SKILL.md\<close> that parses under that name; it
  returns that document and the entries in path order.\<close>

theorem skill_directory_validation_is_exact:
  "validate_skill_directory U Y name es = Ok vs \<longleftrightarrow>
     skill_name_spec name \<and> (\<forall>e \<in> set es. path_parses U (se_path e)) \<and>
     tree_conforms U (map portable_of es) \<and>
     (\<exists>bytes doc. has_skill_md es bytes \<and> parse_skill_document Y name bytes = Ok doc \<and>
        vs = \<lparr>vs_document = doc,
              vs_portable_tree = \<lparr>pt_entries = sort_key path_of (map portable_of es)\<rparr>\<rparr>)"
  unfolding validate_skill_directory_Ok_iff validate_skill_name_Ok_iff ..

theorem skill_directory_validation_witness:
  "\<exists>vs. validate_skill_directory ascii_tables flat_lib ''review'' [SE_File ''SKILL.md'' example_md False] = Ok vs \<and>
     tree_conforms ascii_tables [portable_of (SE_File ''SKILL.md'' example_md False)]"
proof -
  have "is_ok (validate_skill_directory ascii_tables flat_lib ''review'' [SE_File ''SKILL.md'' example_md False])"
    by code_simp
  then obtain vs where
    "validate_skill_directory ascii_tables flat_lib ''review'' [SE_File ''SKILL.md'' example_md False] = Ok vs"
    by (auto simp: is_ok_iff)
  with skill_directory_validation_is_exact [THEN iffD1, OF this] show ?thesis by auto
qed

end
