(* ===== verification/Ids_Locator.thy ===== *)
theory Ids_Locator
  imports Skill_Doc
begin

text \<open>
  \<open>crates/denju-core/src/ids.rs\<close> and \<open>locator.rs\<close>: the stable UUIDv7 identifiers, the
  generation counter, and the \<open>@owner/name\<close> and \<open>@owner/packs/name\<close> locators with their
  parser and printer.  The \<open>uuid\<close> crate is an argument.
\<close>

section \<open>Identifiers\<close>

text \<open>A UUID is its 16 bytes.\<close>

record uuid_lib =
  uu_version_num :: "string \<Rightarrow> nat"
  uu_parse_str :: "string \<Rightarrow> (string, string) result"
  uu_to_string :: "string \<Rightarrow> string"

datatype IdError = InvalidUuid string | NotUuidV7

text \<open>The four identifier types of the macro \<open>uuid_v7_id!\<close> share one body.\<close>

datatype ResourceId = ResourceId (rid_bytes: string)
datatype NamespaceId = NamespaceId (nid_bytes: string)
datatype AuthorPrincipalId = AuthorPrincipalId (aid_bytes: string)
datatype OperationId = OperationId (oid_bytes: string)

definition id_from_uuid :: "uuid_lib \<Rightarrow> (string \<Rightarrow> 'i) \<Rightarrow> string \<Rightarrow> ('i, IdError) result" where
  "id_from_uuid L mk v = (if uu_version_num L v = 7 then Ok (mk v) else Err NotUuidV7)"

definition id_from_str :: "uuid_lib \<Rightarrow> (string \<Rightarrow> 'i) \<Rightarrow> string \<Rightarrow> ('i, IdError) result" where
  "id_from_str L mk v =
     res_bind (map_err InvalidUuid (uu_parse_str L v)) (\<lambda>uuid. id_from_uuid L mk uuid)"

section \<open>Generations\<close>

datatype Generation = Generation (gen_get: u64)

definition Generation_ZERO :: Generation where
  "Generation_ZERO = Generation 0"

definition checked_next :: "Generation \<Rightarrow> Generation option" where
  "checked_next g = (if unat (gen_get g) + 1 < 2 ^ 64 then Some (Generation (gen_get g + 1)) else None)"

section \<open>Locators\<close>

datatype ResourceKind = RK_Skill | RK_Pack

record ResourceLocator =
  loc_owner :: string
  loc_name :: string
  loc_kind :: ResourceKind

datatype LocatorError = MissingAtSign | InvalidShape | InvalidNamespace | InvalidResourceName

definition locator_display :: "ResourceLocator \<Rightarrow> string" where
  "locator_display l =
     (case loc_kind l of
        RK_Skill \<Rightarrow> ''@'' @ loc_owner l @ ''/'' @ loc_name l
      | RK_Pack \<Rightarrow> ''@'' @ loc_owner l @ ''/packs/'' @ loc_name l)"

definition is_lowercase_portable_segment :: "unicode_tables \<Rightarrow> string \<Rightarrow> bool" where
  "is_lowercase_portable_segment U v \<longleftrightarrow>
     CHR ''@'' \<notin> set v \<and> \<not> list_ex (char_is_uppercase U) (chars v) \<and>
     (case PortablePath_parse U v of Ok path \<Rightarrow> component_count path = 1 | Err _ \<Rightarrow> False)"

definition validate_namespace_segment :: "unicode_tables \<Rightarrow> string \<Rightarrow> (unit, LocatorError) result" where
  "validate_namespace_segment U v =
     (if \<not> is_lowercase_portable_segment U v then Err InvalidNamespace else Ok ())"

definition validate_pack_name :: "unicode_tables \<Rightarrow> string \<Rightarrow> (unit, LocatorError) result" where
  "validate_pack_name U v =
     (if \<not> is_lowercase_portable_segment U v then Err InvalidResourceName else Ok ())"

fun locator_shape :: "string list \<Rightarrow> (string \<times> ResourceKind \<times> string, LocatorError) result" where
  "locator_shape [owner, name] = Ok (owner, RK_Skill, name)"
| "locator_shape [owner, mid, name] =
     (if mid = ''packs'' then Ok (owner, RK_Pack, name) else Err InvalidShape)"
| "locator_shape _ = Err InvalidShape"

definition locator_from_str :: "unicode_tables \<Rightarrow> string \<Rightarrow> (ResourceLocator, LocatorError) result" where
  "locator_from_str U v =
     res_bind (ok_or (strip_prefix ''@'' v) MissingAtSign) (\<lambda>rest.
     res_bind (locator_shape (split_on slash rest)) (\<lambda>(owner, kind, name).
     res_bind (validate_namespace_segment U owner) (\<lambda>_.
     res_bind (case kind of
                 RK_Skill \<Rightarrow> map_err (\<lambda>_. InvalidResourceName) (validate_skill_name name)
               | RK_Pack \<Rightarrow> validate_pack_name U name) (\<lambda>_.
     Ok \<lparr>loc_owner = owner, loc_name = name, loc_kind = kind\<rparr>))))"

section \<open>Lemmas\<close>

definition wf_locator :: "unicode_tables \<Rightarrow> ResourceLocator \<Rightarrow> bool" where
  "wf_locator U l \<longleftrightarrow> is_lowercase_portable_segment U (loc_owner l) \<and>
     (case loc_kind l of RK_Skill \<Rightarrow> skill_name_spec (loc_name l)
      | RK_Pack \<Rightarrow> is_lowercase_portable_segment U (loc_name l))"

lemma segment_no_slash: "is_lowercase_portable_segment U v \<Longrightarrow> slash \<notin> set v"
  by (auto simp: is_lowercase_portable_segment_def parse_Ok_iff component_count_def
      length_Suc_conv split_on_eq_single_iff split: result.splits)

lemma skill_name_no_slash: "skill_name_spec n \<Longrightarrow> slash \<notin> set n"
proof
  assume "skill_name_spec n" "slash \<in> set n"
  then have "skill_name_byte slash"
    using skill_name_groups [of n] by (auto simp: skill_name_spec_def list_all_iff)
  then show False by (simp add: skill_name_byte_def ascii_lowercase_def ascii_digit_def)
qed

lemma locator_shape_Ok_iff:
  "locator_shape segs = Ok (owner, kind, name) \<longleftrightarrow>
     kind = RK_Skill \<and> segs = [owner, name] \<or> kind = RK_Pack \<and> segs = [owner, ''packs'', name]"
  by (cases segs rule: locator_shape.cases) auto

lemma segments_iff:
  assumes "slash \<notin> set a" "slash \<notin> set b"
  shows "split_on slash r = [a, b] \<longleftrightarrow> r = a @ ''/'' @ b"
    and "split_on slash r = [a, ''packs'', b] \<longleftrightarrow> r = a @ ''/packs/'' @ b"
proof -
  have "split_on slash (a @ ''/'' @ b) = [a, b]" "split_on slash (a @ ''/packs/'' @ b) = [a, ''packs'', b]"
    using assms by (simp_all add: split_on_append_sep split_on_single)
  moreover have "r = join_with slash (split_on slash r)" by simp
  ultimately show "split_on slash r = [a, b] \<longleftrightarrow> r = a @ ''/'' @ b"
    and "split_on slash r = [a, ''packs'', b] \<longleftrightarrow> r = a @ ''/packs/'' @ b"
    by (metis append.simps join_with.simps)+
qed

lemma locator_from_str_Ok_iff:
  "locator_from_str U v = Ok l \<longleftrightarrow> wf_locator U l \<and> v = locator_display l"
proof -
  obtain owner name kind where l: "l = \<lparr>loc_owner = owner, loc_name = name, loc_kind = kind\<rparr>"
    by (cases l)
  have eq: "locator_from_str U v = Ok l \<longleftrightarrow>
      (\<exists>rest. v = ''@'' @ rest \<and> locator_shape (split_on slash rest) = Ok (owner, kind, name)) \<and> wf_locator U l"
    unfolding locator_from_str_def l wf_locator_def validate_namespace_segment_def validate_pack_name_def
    by (cases kind)
      (auto simp: res_simps strip_prefix_Some validate_skill_name_Ok_iff split: prod.splits ResourceKind.splits)
  have "(\<exists>rest. v = ''@'' @ rest \<and> locator_shape (split_on slash rest) = Ok (owner, kind, name)) \<longleftrightarrow>
      v = locator_display l" if "wf_locator U l"
  proof -
    have "slash \<notin> set owner" "slash \<notin> set name"
      using that segment_no_slash skill_name_no_slash
      by (auto simp: wf_locator_def l split: ResourceKind.splits)
    then show ?thesis
      by (cases kind) (simp_all add: locator_shape_Ok_iff segments_iff locator_display_def l)
  qed
  with eq show ?thesis by blast
qed

lemma u64_unat_less: "unat (w :: u64) < 2 ^ 64"
proof -
  have "unat w < 2 ^ LENGTH(64)" by (rule unsigned_less)
  then show ?thesis by simp
qed

lemma checked_next_Some_iff:
  "checked_next g = Some h \<longleftrightarrow> unat (gen_get h) = unat (gen_get g) + 1"
proof (cases "unat (gen_get g) + 1 < 2 ^ 64")
  case True
  then have "unat (gen_get g + 1) = unat (gen_get g) + 1"
    by (simp add: unat_word_ariths)
  with True show ?thesis
    by (cases h) (auto simp: checked_next_def word_unat_eq_iff)
next
  case False
  then show ?thesis using u64_unat_less [of "gen_get h"] by (auto simp: checked_next_def)
qed

section \<open>Properties\<close>

text \<open>C14. Parsing a locator accepts exactly the printed form of a well-formed locator: printing
  and parsing are inverse to each other, and no text has two readings.\<close>

theorem locator_roundtrip:
  "locator_from_str U v = Ok l \<longleftrightarrow> wf_locator U l \<and> v = locator_display l"
  by (rule locator_from_str_Ok_iff)


end
