(* ===== verification/Objects.thy ===== *)
theory Objects
  imports Ids_Locator
begin

text \<open>
  \<open>crates/denju-core/src/object.rs\<close>: content identities.  Blobs, trees and revisions are named
  by SHA-256 over semantic byte transcripts; the hash function is an argument \<open>H\<close>, and the
  transcripts (\<open>tree_transcript\<close>, \<open>revision_transcript\<close>) are what the code feeds to the hasher.
  The lemmas show that a transcript determines what it encodes, so that equal identities mean
  equal content up to collisions of \<open>H\<close>, and that identities do not depend on the order in
  which entries or parents are given.
\<close>

section \<open>Identities\<close>

datatype BlobId = BlobId (blob_bytes: string)
datatype TreeId = TreeId (tree_bytes: string)
datatype RevisionId = RevisionId (revision_bytes: string)

datatype ObjectIdError = InvalidHex string | InvalidLength nat

definition TREE_DOMAIN :: string where
  "TREE_DOMAIN = ''denju:tree:v1'' @ [CHR 0x00]"

definition REVISION_DOMAIN :: string where
  "REVISION_DOMAIN = ''denju:revision:v1'' @ [CHR 0x00]"

definition BlobId_hash :: "(string \<Rightarrow> string) \<Rightarrow> string \<Rightarrow> BlobId" where
  "BlobId_hash H bytes = BlobId (H bytes)"

text \<open>\<open>FromStr\<close> of the three identifier types; the \<open>hex\<close> crate's decoder is an argument.\<close>

definition object_id_from_str ::
  "(string \<Rightarrow> (string, string) result) \<Rightarrow> (string \<Rightarrow> 'i) \<Rightarrow> string \<Rightarrow> ('i, ObjectIdError) result" where
  "object_id_from_str hex_decode mk v =
     res_bind (map_err InvalidHex (hex_decode v)) (\<lambda>bytes.
       if length bytes = 32 then Ok (mk bytes) else Err (InvalidLength (length bytes)))"

section \<open>Trees\<close>

datatype TreeEntryKind = TE_File BlobId bool | TE_Directory TreeId | TE_Symlink string

record TreeEntry =
  te_name :: string
  te_kind :: TreeEntryKind

datatype TreeError =
    TE_InvalidName PortablePathError | NestedName | DuplicateName string | TooManyEntries
  | EntryTooLarge | NameTooLarge | SymlinkTargetTooLarge

definition TreeEntry_new ::
  "unicode_tables \<Rightarrow> string \<Rightarrow> TreeEntryKind \<Rightarrow> (TreeEntry, TreeError) result" where
  "TreeEntry_new U name kind =
     res_bind (map_err TE_InvalidName (PortablePath_parse U name)) (\<lambda>path.
       if component_count path \<noteq> 1 then Err NestedName
       else Ok \<lparr>te_name = name, te_kind = kind\<rparr>)"

definition encode_tree_entry :: "TreeEntry \<Rightarrow> (string, TreeError) result" where
  "encode_tree_entry e =
     (let name = te_name e
      in res_bind (ok_or (u32_try_from (length name)) NameTooLarge) (\<lambda>name_len.
         (let encoded = u32_be name_len @ name
          in case te_kind e of
               TE_File blob executable \<Rightarrow>
                 Ok (encoded @ [CHR 0x01] @ [if executable then CHR 0x01 else CHR 0x00] @ blob_bytes blob)
             | TE_Directory tree \<Rightarrow> Ok (encoded @ [CHR 0x02] @ tree_bytes tree)
             | TE_Symlink target \<Rightarrow>
                 res_bind (ok_or (u32_try_from (length target)) SymlinkTargetTooLarge) (\<lambda>target_len.
                   Ok (encoded @ [CHR 0x03] @ u32_be target_len @ target)))))"

text \<open>One round of the hashing loop: the bytes given to the hasher so far, and the next entry.\<close>

definition hash_entry :: "string \<Rightarrow> TreeEntry \<Rightarrow> (string, TreeError) result" where
  "hash_entry hasher e =
     res_bind (encode_tree_entry e) (\<lambda>payload.
     res_bind (ok_or (u32_try_from (length payload)) EntryTooLarge) (\<lambda>payload_len.
     Ok (hasher @ u32_be payload_len @ payload)))"

definition tree_transcript :: "TreeEntry list \<Rightarrow> (string, TreeError) result" where
  "tree_transcript entries =
     (let es = sort_key te_name entries
      in case adjacent_dup te_name es of
           Some e \<Rightarrow> Err (DuplicateName (te_name e))
         | None \<Rightarrow>
             res_bind (ok_or (u32_try_from (length es)) TooManyEntries) (\<lambda>entry_count.
               fold_res hash_entry (TREE_DOMAIN @ u32_be entry_count) es))"

definition TreeId_from_entries ::
  "(string \<Rightarrow> string) \<Rightarrow> TreeEntry list \<Rightarrow> (TreeId, TreeError) result" where
  "TreeId_from_entries H entries = map_ok (\<lambda>t. TreeId (H t)) (tree_transcript entries)"

section \<open>Revisions\<close>

record Revision =
  rev_root :: TreeId
  rev_parents :: "RevisionId list"
  rev_author :: AuthorPrincipalId
  rev_operation :: OperationId

datatype RevisionError = TooManyParents | DuplicateParent

definition Revision_new ::
  "TreeId \<Rightarrow> RevisionId list \<Rightarrow> AuthorPrincipalId \<Rightarrow> OperationId \<Rightarrow> (Revision, RevisionError) result" where
  "Revision_new root parents author operation =
     (if length parents > 2 then Err TooManyParents
      else (let ps = sort_key revision_bytes parents
            in if adjacent_dup revision_bytes ps \<noteq> None then Err DuplicateParent
               else Ok \<lparr>rev_root = root, rev_parents = ps, rev_author = author,
                        rev_operation = operation\<rparr>))"

definition revision_transcript :: "Revision \<Rightarrow> string" where
  "revision_transcript r =
     REVISION_DOMAIN @ tree_bytes (rev_root r) @ u32_be (of_nat (length (rev_parents r))) @
     concat (map revision_bytes (rev_parents r)) @ aid_bytes (rev_author r) @ oid_bytes (rev_operation r)"

definition Revision_id :: "(string \<Rightarrow> string) \<Rightarrow> Revision \<Rightarrow> RevisionId" where
  "Revision_id H r = RevisionId (H (revision_transcript r))"

section \<open>Lemmas on tree transcripts\<close>

lemma encode_tree_entry_Ok:
  "encode_tree_entry e = Ok p \<longleftrightarrow> length (te_name e) < 2 ^ 32 \<and>
     (case te_kind e of
        TE_File blob x \<Rightarrow> p = framed (te_name e) @ CHR 0x01 # (if x then CHR 0x01 else CHR 0x00) # blob_bytes blob
      | TE_Directory tree \<Rightarrow> p = framed (te_name e) @ CHR 0x02 # tree_bytes tree
      | TE_Symlink target \<Rightarrow> length target < 2 ^ 32 \<and> p = framed (te_name e) @ CHR 0x03 # framed target)"
  by (cases "te_kind e")
    (auto simp: encode_tree_entry_def Let_def res_simps u32_try_from_Some framed_def)

lemma encode_tree_entry_inj:
  assumes "encode_tree_entry e = Ok p" "encode_tree_entry f = Ok p"
  shows "e = f"
proof -
  note enc = assms [unfolded encode_tree_entry_Ok]
  obtain r where r: "p = framed (te_name e) @ r" using enc(1) by (cases "te_kind e") auto
  obtain s where s: "p = framed (te_name f) @ s" using enc(2) by (cases "te_kind f") auto
  have name: "te_name e = te_name f"
    using framed_field.enc_cancel [of "te_name e" "te_name f" r s] r s enc by simp
  have "te_kind e = te_kind f"
    using enc name framed_field.enc_inj
    by (cases "te_kind e"; cases "te_kind f")
      (auto intro: BlobId.expand TreeId.expand split: if_splits)
  with name show ?thesis by (cases e; cases f) simp
qed

lemma hash_entry_Ok_iff:
  "hash_entry acc e = Ok out \<longleftrightarrow>
     (\<exists>p. encode_tree_entry e = Ok p \<and> length p < 2 ^ 32 \<and> out = acc @ framed p)"
  by (auto simp: hash_entry_def res_simps u32_try_from_Some framed_def)

definition encodes :: "TreeEntry \<Rightarrow> string \<Rightarrow> bool" where
  "encodes e p \<longleftrightarrow> encode_tree_entry e = Ok p \<and> length p < 2 ^ 32"

lemma hash_entries_Ok_iff:
  "fold_res hash_entry acc es = Ok out \<longleftrightarrow>
     (\<exists>ps. list_all2 encodes es ps \<and> out = acc @ concat (map framed ps))"
proof (induction es arbitrary: acc)
  case (Cons e es)
  show ?case
    by (auto simp: res_simps hash_entry_Ok_iff Cons.IH list_all2_Cons1 encodes_def) force+
qed auto

lemma tree_transcript_Ok_iff:
  "tree_transcript entries = Ok t \<longleftrightarrow>
     distinct (map te_name entries) \<and> length entries < 2 ^ 32 \<and>
     (\<exists>ps. list_all2 encodes (sort_key te_name entries) ps \<and>
        t = TREE_DOMAIN @ u32_be (of_nat (length entries)) @ concat (map framed ps))"
proof -
  have "adjacent_dup te_name (sort_key te_name entries) = None \<longleftrightarrow> distinct (map te_name entries)"
    using adjacent_dup_None_sorted [of te_name "sort_key te_name entries"]
      distinct_map_perm [of "sort_key te_name entries" entries te_name] by simp
  then show ?thesis
    by (auto simp: tree_transcript_def Let_def res_simps u32_try_from_Some hash_entries_Ok_iff
        split: option.splits)
qed

text \<open>The sizes the \<open>u32\<close> length fields can carry.\<close>

definition entry_fits :: "TreeEntry \<Rightarrow> bool" where
  "entry_fits e \<longleftrightarrow> length (te_name e) +
     (case te_kind e of TE_File b x \<Rightarrow> 6 + length (blob_bytes b)
      | TE_Directory t \<Rightarrow> 5 + length (tree_bytes t)
      | TE_Symlink t \<Rightarrow> 9 + length t) < 2 ^ 32"

lemma entry_fits_encodes: "entry_fits e \<Longrightarrow> \<exists>p. encodes e p"
  by (cases "te_kind e") (auto simp: entry_fits_def encodes_def encode_tree_entry_Ok framed_def)

lemma tree_transcript_total:
  assumes "distinct (map te_name es)" and "length es < 2 ^ 32" and "\<And>e. e \<in> set es \<Longrightarrow> entry_fits e"
  shows "\<exists>t. tree_transcript es = Ok t"
proof -
  have "\<forall>e. \<exists>p. e \<in> set es \<longrightarrow> encodes e p" using assms(3) entry_fits_encodes by blast
  then obtain f where "\<And>e. e \<in> set es \<Longrightarrow> encodes e (f e)" by metis
  then have "list_all2 encodes (sort_key te_name es) (map f (sort_key te_name es))"
    by (simp add: list.rel_map list_all2_same)
  with assms(1,2) show ?thesis unfolding tree_transcript_Ok_iff by blast
qed

lemma encodes_unique: "list_all2 encodes es ps \<Longrightarrow> list_all2 encodes fs ps \<Longrightarrow> es = fs"
proof (induction ps arbitrary: es fs)
  case (Cons p ps)
  then obtain e es' f fs' where c: "es = e # es'" "fs = f # fs'" "encodes e p" "encodes f p"
    "list_all2 encodes es' ps" "list_all2 encodes fs' ps" by (auto simp: list_all2_Cons2)
  then have "e = f" using encode_tree_entry_inj unfolding encodes_def by blast
  with c Cons.IH show ?case by blast
qed auto

lemma tree_transcript_inj:
  assumes "tree_transcript es = Ok t" "tree_transcript fs = Ok t"
  shows "sort_key te_name es = sort_key te_name fs"
proof -
  obtain ps where ps: "list_all2 encodes (sort_key te_name es) ps" "length es < 2 ^ 32"
    "t = TREE_DOMAIN @ u32_be (of_nat (length es)) @ concat (map framed ps)"
    using assms(1) by (auto simp: tree_transcript_Ok_iff)
  obtain qs where qs: "list_all2 encodes (sort_key te_name fs) qs" "length fs < 2 ^ 32"
    "t = TREE_DOMAIN @ u32_be (of_nat (length fs)) @ concat (map framed qs)"
    using assms(2) by (auto simp: tree_transcript_Ok_iff)
  have "u32_be (of_nat (length es)) @ concat (map framed ps) =
      u32_be (of_nat (length fs)) @ concat (map framed qs)"
    using ps(3) qs(3) by simp
  then have cnt: "(of_nat (length es) :: u32) = of_nat (length fs)"
    and tl: "concat (map framed ps) = concat (map framed qs)"
    using u32_field.enc_cancel [OF TrueI TrueI] by blast+
  have "length es = length fs" using cnt ps(2) qs(2) unat_u32_of_nat by metis
  then have len: "length ps = length qs"
    using ps(1) qs(1) by (auto dest!: list_all2_lengthD)
  have small: "list_all (\<lambda>b. length b < 2 ^ 32) rs" if "list_all2 encodes xs rs" for xs rs
    using that by (auto simp: list_all_length list_all2_conv_all_nth encodes_def)
  have "ps = qs"
    using framed_field.enc_seq_cancel [OF small [OF ps(1)] small [OF qs(1)] len, of "[]" "[]"] tl by simp
  with ps(1) qs(1) show ?thesis by (auto intro: encodes_unique)
qed

lemma tree_transcript_perm:
  assumes "mset es = mset fs"
  shows "tree_transcript es = tree_transcript fs"
proof -
  have names: "map te_name (sort_key te_name es) = map te_name (sort_key te_name fs)"
    using assms by (rule sort_key_perm_keys)
  have dup: "map_option te_name (adjacent_dup te_name (sort_key te_name es)) =
      map_option te_name (adjacent_dup te_name (sort_key te_name fs))"
    by (rule adjacent_dup_key [OF names])
  show ?thesis
  proof (cases "adjacent_dup te_name (sort_key te_name es)")
    case None
    then have "distinct (map te_name es)"
      using adjacent_dup_None_sorted [of te_name "sort_key te_name es"]
        distinct_map_perm [of "sort_key te_name es" es te_name] by simp
    then have "sort_key te_name es = sort_key te_name fs"
      using assms by (intro sort_key_canonical) (simp_all add: distinct_map)
    then show ?thesis by (simp only: tree_transcript_def)
  next
    case (Some e)
    with dup obtain f where "adjacent_dup te_name (sort_key te_name fs) = Some f" "te_name f = te_name e"
      by (cases "adjacent_dup te_name (sort_key te_name fs)") auto
    with Some show ?thesis by (simp add: tree_transcript_def)
  qed
qed

section \<open>Lemmas on revisions\<close>

text \<open>The widths the types of \<open>object.rs\<close> and \<open>ids.rs\<close> guarantee.\<close>

definition wf_revision :: "Revision \<Rightarrow> bool" where
  "wf_revision r \<longleftrightarrow> length (tree_bytes (rev_root r)) = 32 \<and>
     list_all (\<lambda>p. length (revision_bytes p) = 32) (rev_parents r) \<and> length (rev_parents r) \<le> 2 \<and>
     length (aid_bytes (rev_author r)) = 16 \<and> length (oid_bytes (rev_operation r)) = 16"

lemma map_revision_bytes_inj: "map revision_bytes ps = map revision_bytes qs \<Longrightarrow> ps = qs"
  by (rule map_injective [of revision_bytes]) (auto intro: injI RevisionId.expand)

lemma revision_transcript_inj:
  assumes "wf_revision r" "wf_revision s" "revision_transcript r = revision_transcript s"
  shows "r = s"
proof -
  let ?tail = "\<lambda>r. aid_bytes (rev_author r) @ oid_bytes (rev_operation r)"
  let ?ps = "\<lambda>r. map revision_bytes (rev_parents r)"
  note wf = assms(1,2) [unfolded wf_revision_def]
  have "raw_field (tree_bytes (rev_root r)) @ u32_be (of_nat (length (rev_parents r))) @ concat (?ps r) @ ?tail r =
      raw_field (tree_bytes (rev_root s)) @ u32_be (of_nat (length (rev_parents s))) @ concat (?ps s) @ ?tail s"
    using assms(3) by (simp add: revision_transcript_def raw_field_def)
  then have root: "tree_bytes (rev_root r) = tree_bytes (rev_root s)"
    and rest: "u32_be (of_nat (length (rev_parents r))) @ concat (?ps r) @ ?tail r =
      u32_be (of_nat (length (rev_parents s))) @ concat (?ps s) @ ?tail s"
    using id32_field.enc_cancel [of "tree_bytes (rev_root r)" "tree_bytes (rev_root s)"] wf by blast+
  have cnt: "(of_nat (length (rev_parents r)) :: u32) = of_nat (length (rev_parents s))"
    and rest2: "concat (?ps r) @ ?tail r = concat (?ps s) @ ?tail s"
    using u32_field.enc_cancel [OF TrueI TrueI rest] by simp_all
  have "length (rev_parents x) < 2 ^ 32" if "length (rev_parents x) \<le> 2" for x
    using that by simp
  then have "length (rev_parents r) = length (rev_parents s)"
    using cnt wf unat_u32_of_nat by metis
  then have "?ps r = ?ps s \<and> ?tail r = ?tail s"
    using wf rest2
    by (intro id32_field.enc_seq_cancel) (simp_all add: raw_field_def [abs_def] list_all_iff)
  moreover from this have "aid_bytes (rev_author r) = aid_bytes (rev_author s)"
    "oid_bytes (rev_operation r) = oid_bytes (rev_operation s)"
    using wf by (simp_all add: append_eq_append_conv)
  ultimately show ?thesis
    using root map_revision_bytes_inj [of "rev_parents r" "rev_parents s"]
    by (intro Revision.equality TreeId.expand AuthorPrincipalId.expand OperationId.expand) simp_all
qed

lemma Revision_new_Ok_iff:
  "Revision_new root ps a op = Ok r \<longleftrightarrow> length ps \<le> 2 \<and> distinct ps \<and>
     r = \<lparr>rev_root = root, rev_parents = sort_key revision_bytes ps, rev_author = a, rev_operation = op\<rparr>"
proof -
  have "adjacent_dup revision_bytes (sort_key revision_bytes ps) = None \<longleftrightarrow> distinct (map revision_bytes ps)"
    using adjacent_dup_None_sorted [of revision_bytes "sort_key revision_bytes ps"]
      distinct_map_perm [of "sort_key revision_bytes ps" ps revision_bytes] by simp
  moreover have "distinct (map revision_bytes ps) \<longleftrightarrow> distinct ps"
    by (auto simp: distinct_map intro: inj_onI RevisionId.expand)
  ultimately show ?thesis by (auto simp: Revision_new_def Let_def)
qed

section \<open>Properties\<close>

text \<open>A tree identity does not depend on the order in which its entries are given, errors
  included.\<close>

theorem tree_identity_ignores_order:
  "mset es = mset fs \<Longrightarrow> TreeId_from_entries H es = TreeId_from_entries H fs"
  by (simp only: TreeId_from_entries_def tree_transcript_perm [of es fs])

definition example_entries :: "TreeEntry list" where
  "example_entries =
     [\<lparr>te_name = ''b.txt'', te_kind = TE_Symlink ''a.txt''\<rparr>,
      \<lparr>te_name = ''a.txt'', te_kind = TE_File (BlobId (replicate 32 (CHR 0x07))) True\<rparr>]"

theorem tree_identity_ignores_order_witness:
  "TreeId_from_entries rev example_entries = TreeId_from_entries rev (rev example_entries)"
  by (rule tree_identity_ignores_order) simp

text \<open>A tree identity determines the tree: two sets of entries with the same identity are the
  same entries with the same names, kinds, executable bits and targets, unless the two
  transcripts are a collision of the hash function.\<close>

theorem tree_identity_determines_entries:
  assumes "TreeId_from_entries H es = Ok i" and "TreeId_from_entries H fs = Ok i"
    and "\<And>t u. tree_transcript es = Ok t \<Longrightarrow> tree_transcript fs = Ok u \<Longrightarrow> H t = H u \<Longrightarrow> t = u"
  shows "mset es = mset fs"
proof -
  obtain t u where t: "tree_transcript es = Ok t" and u: "tree_transcript fs = Ok u" and "H t = H u"
    using assms(1,2) by (auto simp: TreeId_from_entries_def res_simps)
  then have "sort_key te_name es = sort_key te_name fs"
    using assms(3) by (intro tree_transcript_inj [of es t]) auto
  then show ?thesis by (metis mset_sort)
qed

theorem tree_identity_determines_entries_witness:
  "\<exists>i. TreeId_from_entries rev example_entries = Ok i \<and>
     TreeId_from_entries rev (rev example_entries) = Ok i \<and> mset example_entries = mset (rev example_entries)"
proof -
  have "\<exists>t. tree_transcript example_entries = Ok t"
    by (rule tree_transcript_total) (auto simp: example_entries_def entry_fits_def)
  then obtain i where i: "TreeId_from_entries rev example_entries = Ok i"
    by (auto simp: TreeId_from_entries_def)
  moreover have j: "TreeId_from_entries rev (rev example_entries) = Ok i"
    using i by (simp add: TreeId_from_entries_def tree_transcript_perm [of "rev example_entries" example_entries])
  moreover have "mset example_entries = mset (rev example_entries)"
    by (rule tree_identity_determines_entries [OF i j]) simp
  ultimately show ?thesis by blast
qed

text \<open>\<open>Revision::new\<close> accepts at most two parents, rejects a repeated one, and forgets the
  order in which they are given: two devices that observe the same two heads build the same
  revision.\<close>

theorem revision_parents_are_canonical:
  "(Revision_new root ps a op = Ok r \<longleftrightarrow> length ps \<le> 2 \<and> distinct ps \<and>
     r = \<lparr>rev_root = root, rev_parents = sort_key revision_bytes ps, rev_author = a, rev_operation = op\<rparr>) \<and>
   Revision_new root [p, q] a op = Revision_new root [q, p] a op"
proof -
  have "sort_key revision_bytes [p, q] = sort_key revision_bytes [q, p]"
    by (rule sort_key_canonical) (auto intro: inj_onI RevisionId.expand)
  then have "Revision_new root [p, q] a op = Revision_new root [q, p] a op"
    by (simp only: Revision_new_def list.size)
  then show ?thesis using Revision_new_Ok_iff [of root ps a op r] by blast
qed

text \<open>C16. A revision transcript determines root, parents, author and operation, and is never
  the transcript of a tree.\<close>

theorem revision_transcript_determines_revision:
  "(wf_revision r \<and> wf_revision s \<and> revision_transcript r = revision_transcript s \<longrightarrow> r = s) \<and>
   tree_transcript es \<noteq> Ok (revision_transcript r)"
  using revision_transcript_inj [of r s]
  by (auto simp: tree_transcript_Ok_iff revision_transcript_def TREE_DOMAIN_def REVISION_DOMAIN_def)

definition example_revision :: Revision where
  "example_revision =
     \<lparr>rev_root = TreeId (replicate 32 (CHR 0x07)), rev_parents = [RevisionId (replicate 32 (CHR 0x01))],
      rev_author = AuthorPrincipalId (replicate 16 (CHR 0x02)),
      rev_operation = OperationId (replicate 16 (CHR 0x03))\<rparr>"

theorem revision_transcript_determines_revision_witness:
  "\<exists>s. wf_revision s \<and> revision_transcript s = revision_transcript example_revision \<and> s = example_revision"
  using revision_transcript_determines_revision [of example_revision example_revision]
  by (intro exI [of _ example_revision]) (simp add: wf_revision_def example_revision_def)

end
