(* ===== verification/Snapshot.thy ===== *)
theory Snapshot
  imports Objects "HOL-Library.Product_Lexorder"
begin

unbundle bit_operations_syntax

text \<open>
  \<open>crates/denju-core/src/snapshot.rs\<close>: semantic manifests and deterministic snapshots.  A
  manifest lists the entries of a skill in path order under the identity of its root tree,
  which is computed from the deepest directories upwards; a snapshot is the same content as
  an archive.  The tar and zstd libraries are a pair of functions between archive items and
  bytes.
\<close>

section \<open>Data\<close>

datatype OwnedSkillEntry =
    OE_File string string bool
  | OE_Directory string
  | OE_Symlink string string

fun oe_path :: "OwnedSkillEntry \<Rightarrow> string" where
  "oe_path (OE_File path bytes executable) = path"
| "oe_path (OE_Directory path) = path"
| "oe_path (OE_Symlink path target) = path"

fun as_skill_entry :: "OwnedSkillEntry \<Rightarrow> SkillEntry" where
  "as_skill_entry (OE_File path bytes executable) = SE_File path bytes executable"
| "as_skill_entry (OE_Directory path) = SE_Directory path"
| "as_skill_entry (OE_Symlink path target) = SE_Symlink path target"

datatype SkillManifestEntry =
    ME_File string BlobId u64 bool
  | ME_Directory string
  | ME_Symlink string string

fun me_path :: "SkillManifestEntry \<Rightarrow> string" where
  "me_path (ME_File path blob sz executable) = path"
| "me_path (ME_Directory path) = path"
| "me_path (ME_Symlink path target) = path"

record SkillManifest =
  m_root_tree :: TreeId
  m_entries :: "SkillManifestEntry list"

record SkillManifestTree =
  mt_id :: TreeId
  mt_entries :: "TreeEntry list"

record DeterministicSkillSnapshot =
  ds_manifest :: SkillManifest
  ds_bytes :: string

datatype SnapshotError =
    SN_Skill SkillValidationError | SN_Tree TreeError | SN_PortablePath PortablePathError
  | SN_PortableTree PortableTreeError | SN_Io string | SN_EntryTooLarge | MissingChildTree string
  | ArchivePathNotUtf8 | UnsupportedArchiveEntry | MissingSymlinkTarget | ManifestMismatch
  | DeclaredRootMismatch

section \<open>Tree objects\<close>

definition split_parent :: "string \<Rightarrow> string \<times> string" where
  "split_parent path = (case rsplit_once slash path of Some (parent, name) \<Rightarrow> (parent, name)
                        | None \<Rightarrow> ([], path))"

definition component_count_str :: "string \<Rightarrow> nat" where
  "component_count_str path = (if path = [] then 0 else length (split_on slash path))"

definition child_kind ::
  "(string \<Rightarrow> TreeId option) \<Rightarrow> SkillManifestEntry \<Rightarrow> (TreeEntryKind, SnapshotError) result" where
  "child_kind tree_ids e =
     (case e of
        ME_File path blob sz executable \<Rightarrow> Ok (TE_File blob executable)
      | ME_Directory path \<Rightarrow> map_ok TE_Directory (ok_or (tree_ids path) (MissingChildTree path))
      | ME_Symlink path target \<Rightarrow> Ok (TE_Symlink target))"

text \<open>The inner loop: the direct children of one directory.\<close>

definition add_child :: "unicode_tables \<Rightarrow> (string \<Rightarrow> TreeId option) \<Rightarrow> string \<Rightarrow> TreeEntry list \<Rightarrow>
    SkillManifestEntry \<Rightarrow> (TreeEntry list, SnapshotError) result" where
  "add_child U tree_ids directory children e =
     (let (parent, name) = split_parent (me_path e)
      in if parent \<noteq> directory then Ok children
         else res_bind (child_kind tree_ids e) (\<lambda>kind.
              res_bind (map_err SN_Tree (TreeEntry_new U name kind)) (\<lambda>child.
              Ok (children @ [child]))))"

type_synonym tree_build = "(string \<Rightarrow> TreeId option) \<times> (string \<times> SkillManifestTree) list"

text \<open>The outer loop: one directory, deepest first.\<close>

fun add_directory :: "unicode_tables \<Rightarrow> (string \<Rightarrow> string) \<Rightarrow> SkillManifestEntry list \<Rightarrow> tree_build \<Rightarrow>
    string \<Rightarrow> (tree_build, SnapshotError) result" where
  "add_directory U H entries (tree_ids, output) directory =
     res_bind (fold_res (add_child U tree_ids directory) [] entries) (\<lambda>children.
     res_bind (map_err SN_Tree (TreeId_from_entries H children)) (\<lambda>id.
     Ok (tree_ids(directory \<mapsto> id), output @ [(directory, \<lparr>mt_id = id, mt_entries = children\<rparr>)])))"

definition directory_paths :: "SkillManifestEntry list \<Rightarrow> string list" where
  "directory_paths entries =
     List.map_filter (\<lambda>e. case e of ME_Directory path \<Rightarrow> Some path | _ \<Rightarrow> None) entries"

definition directory_order :: "string \<Rightarrow> int \<times> string" where
  "directory_order d = (- int (component_count_str d), d)"

definition build_manifest_tree_objects :: "unicode_tables \<Rightarrow> (string \<Rightarrow> string) \<Rightarrow>
    SkillManifestEntry list \<Rightarrow> ((string \<times> SkillManifestTree) list, SnapshotError) result" where
  "build_manifest_tree_objects U H entries =
     map_ok snd (fold_res (add_directory U H entries) (Map.empty, [])
       (sort_key directory_order (directory_paths entries @ [[]])))"

definition find_root :: "(string \<times> SkillManifestTree) list \<Rightarrow> (TreeId, SnapshotError) result" where
  "find_root trees =
     ok_or (map_option (\<lambda>(_, tree). mt_id tree) (find (\<lambda>(path, _). path = []) trees))
       (MissingChildTree ''<root>'')"

section \<open>Manifests\<close>

definition u64_try_from :: "nat \<Rightarrow> u64 option" where
  "u64_try_from n = (if n < 2 ^ 64 then Some (of_nat n) else None)"

fun manifest_entry :: "(string \<Rightarrow> string) \<Rightarrow> OwnedSkillEntry \<Rightarrow> (SkillManifestEntry, SnapshotError) result" where
  "manifest_entry H (OE_File path bytes executable) =
     res_bind (ok_or (u64_try_from (length bytes)) SN_EntryTooLarge) (\<lambda>sz.
       Ok (ME_File path (BlobId_hash H bytes) sz executable))"
| "manifest_entry H (OE_Directory path) = Ok (ME_Directory path)"
| "manifest_entry H (OE_Symlink path target) = Ok (ME_Symlink path target)"

definition build_skill_manifest :: "unicode_tables \<Rightarrow> ('v, 'm) yaml_lib \<Rightarrow> (string \<Rightarrow> string) \<Rightarrow>
    string \<Rightarrow> OwnedSkillEntry list \<Rightarrow> (SkillManifest, SnapshotError) result" where
  "build_skill_manifest U Y H parent_directory_name entries =
     res_bind (map_err SN_Skill
       (validate_skill_directory U Y parent_directory_name (map as_skill_entry entries))) (\<lambda>_.
     res_bind (collect_res (manifest_entry H) entries) (\<lambda>unsorted.
     (let manifest_entries = sort_key me_path unsorted
      in res_bind (build_manifest_tree_objects U H manifest_entries) (\<lambda>trees.
         res_bind (find_root trees) (\<lambda>root_tree.
         Ok \<lparr>m_root_tree = root_tree, m_entries = manifest_entries\<rparr>)))))"

fun portable_of_manifest :: "unicode_tables \<Rightarrow> SkillManifestEntry \<Rightarrow> (PortableEntry, PortablePathError) result" where
  "portable_of_manifest U (ME_File path blob sz executable) = PortableEntry_new U path (PE_File executable)"
| "portable_of_manifest U (ME_Directory path) = PortableEntry_new U path PE_Directory"
| "portable_of_manifest U (ME_Symlink path target) = PortableEntry_new U path (PE_Symlink target)"

fun is_skill_md_file :: "SkillManifestEntry \<Rightarrow> bool" where
  "is_skill_md_file (ME_File path blob sz executable) = (path = skill_md_name)"
| "is_skill_md_file e = False"

definition validate_declared_skill_manifest :: "unicode_tables \<Rightarrow> (string \<Rightarrow> string) \<Rightarrow> SkillManifest \<Rightarrow>
    (SkillManifestTree list, SnapshotError) result" where
  "validate_declared_skill_manifest U H manifest =
     res_bind (map_err SN_PortablePath (collect_res (portable_of_manifest U) (m_entries manifest))) (\<lambda>portable.
     res_bind (map_err SN_PortableTree (validate_portable_tree U portable)) (\<lambda>_.
     if \<not> list_ex is_skill_md_file (m_entries manifest) then Err (SN_Skill MissingSkillMd)
     else res_bind (build_manifest_tree_objects U H (m_entries manifest)) (\<lambda>trees.
       res_bind (find_root trees) (\<lambda>root.
       if root \<noteq> m_root_tree manifest then Err DeclaredRootMismatch
       else Ok (map snd trees)))))"

fun skill_md_identity :: "SkillManifestEntry list \<Rightarrow> (BlobId \<times> u64) option" where
  "skill_md_identity [] = None"
| "skill_md_identity (ME_File path blob sz executable # es) =
     (if path = skill_md_name then Some (blob, sz) else skill_md_identity es)"
| "skill_md_identity (e # es) = skill_md_identity es"

definition build_skill_manifest_from_hashed_entries :: "unicode_tables \<Rightarrow> ('v, 'm) yaml_lib \<Rightarrow>
    (string \<Rightarrow> string) \<Rightarrow> string \<Rightarrow> string \<Rightarrow> SkillManifestEntry list \<Rightarrow> (SkillManifest, SnapshotError) result" where
  "build_skill_manifest_from_hashed_entries U Y H parent_directory_name skill_md_bytes unsorted =
     res_bind (map_err SN_Skill (parse_skill_document Y parent_directory_name skill_md_bytes)) (\<lambda>_.
     (let entries = sort_key me_path unsorted
      in res_bind (ok_or (skill_md_identity entries) (SN_Skill MissingSkillMd)) (\<lambda>skill_entry.
         res_bind (ok_or (u64_try_from (length skill_md_bytes)) SN_EntryTooLarge) (\<lambda>skill_size.
         if skill_entry \<noteq> (BlobId_hash H skill_md_bytes, skill_size) then Err ManifestMismatch
         else res_bind (build_manifest_tree_objects U H entries) (\<lambda>trees.
           res_bind (find_root trees) (\<lambda>root_tree.
           (let manifest = \<lparr>m_root_tree = root_tree, m_entries = entries\<rparr>
            in res_bind (validate_declared_skill_manifest U H manifest) (\<lambda>_. Ok manifest))))))))"

section \<open>Archives\<close>

datatype ArchiveEntryType = AT_Regular | AT_Directory | AT_Symlink | AT_Other

record archive_item =
  ai_path :: string
  ai_type :: ArchiveEntryType
  ai_mode :: nat
  ai_uid :: nat
  ai_gid :: nat
  ai_mtime :: nat
  ai_length :: u64
  ai_link :: "string option"
  ai_data :: string

text \<open>What the reader hands out for one item: every field may fail to be read.\<close>

record archive_view =
  av_path :: "(string, string) result"
  av_type :: ArchiveEntryType
  av_mode :: "(nat, string) result"
  av_link :: "(string option, string) result"
  av_data :: "(string, string) result"

text \<open>The archive libraries: items to compressed bytes, and bytes to the items of the archive.\<close>

record archive_lib =
  al_pack :: "archive_item list \<Rightarrow> (string, string) result"
  al_entries :: "string \<Rightarrow> ((archive_view, string) result list, string) result"

definition archive_header :: "string \<Rightarrow> ArchiveEntryType \<Rightarrow> nat \<Rightarrow> u64 \<Rightarrow> string option \<Rightarrow> string \<Rightarrow>
    archive_item" where
  "archive_header path ty mode len link data =
     \<lparr>ai_path = path, ai_type = ty, ai_mode = mode, ai_uid = 0, ai_gid = 0, ai_mtime = 0,
      ai_length = len, ai_link = link, ai_data = data\<rparr>"

fun append_entry :: "OwnedSkillEntry \<Rightarrow> (archive_item, SnapshotError) result" where
  "append_entry (OE_File path bytes executable) =
     res_bind (ok_or (u64_try_from (length bytes)) SN_EntryTooLarge) (\<lambda>len.
       Ok (archive_header path AT_Regular (if executable then 493 else 420) len None bytes))"
| "append_entry (OE_Directory path) = Ok (archive_header path AT_Directory 493 0 None [])"
| "append_entry (OE_Symlink path target) = Ok (archive_header path AT_Symlink 511 0 (Some target) [])"

definition build_deterministic_skill_snapshot :: "unicode_tables \<Rightarrow> ('v, 'm) yaml_lib \<Rightarrow>
    (string \<Rightarrow> string) \<Rightarrow> archive_lib \<Rightarrow> string \<Rightarrow> OwnedSkillEntry list \<Rightarrow>
    (DeterministicSkillSnapshot, SnapshotError) result" where
  "build_deterministic_skill_snapshot U Y H A parent_directory_name entries =
     res_bind (build_skill_manifest U Y H parent_directory_name entries) (\<lambda>manifest.
     res_bind (collect_res append_entry (sort_key oe_path entries)) (\<lambda>items.
     res_bind (map_err SN_Io (al_pack A items)) (\<lambda>bytes.
     Ok \<lparr>ds_manifest = manifest, ds_bytes = bytes\<rparr>)))"

definition read_item :: "archive_view \<Rightarrow> (OwnedSkillEntry, SnapshotError) result" where
  "read_item item =
     res_bind (map_err SN_Io (av_path item)) (\<lambda>os_path.
     res_bind (ok_or (from_utf8 os_path) ArchivePathNotUtf8) (\<lambda>raw.
     (let path = trim_end_matches (\<lambda>c. c = slash) raw
      in if path = [] then Err UnsupportedArchiveEntry
         else (case av_type item of
                 AT_Regular \<Rightarrow>
                   res_bind (map_err SN_Io (av_data item)) (\<lambda>bytes.
                   res_bind (map_err SN_Io (av_mode item)) (\<lambda>mode.
                   Ok (OE_File path bytes (mode AND 73 \<noteq> 0))))
               | AT_Directory \<Rightarrow> Ok (OE_Directory path)
               | AT_Symlink \<Rightarrow>
                   res_bind (map_err SN_Io (av_link item)) (\<lambda>link_name.
                   res_bind (ok_or link_name MissingSymlinkTarget) (\<lambda>link.
                   res_bind (ok_or (from_utf8 link) ArchivePathNotUtf8) (\<lambda>target.
                   Ok (OE_Symlink path target))))
               | AT_Other \<Rightarrow> Err UnsupportedArchiveEntry))))"

definition validate_skill_snapshot :: "unicode_tables \<Rightarrow> ('v, 'm) yaml_lib \<Rightarrow> (string \<Rightarrow> string) \<Rightarrow>
    archive_lib \<Rightarrow> string \<Rightarrow> SkillManifest \<Rightarrow> string \<Rightarrow> (OwnedSkillEntry list, SnapshotError) result" where
  "validate_skill_snapshot U Y H A parent_directory_name expected compressed =
     res_bind (map_err SN_Io (al_entries A compressed)) (\<lambda>items.
     res_bind (collect_res (\<lambda>item. res_bind (map_err SN_Io item) read_item) items) (\<lambda>entries.
     res_bind (build_skill_manifest U Y H parent_directory_name entries) (\<lambda>actual.
     if actual \<noteq> expected then Err ManifestMismatch else Ok entries)))"

section \<open>Manifest entries\<close>

fun manifest_of :: "(string \<Rightarrow> string) \<Rightarrow> OwnedSkillEntry \<Rightarrow> SkillManifestEntry" where
  "manifest_of H (OE_File path bytes x) = ME_File path (BlobId_hash H bytes) (of_nat (length bytes)) x"
| "manifest_of H (OE_Directory path) = ME_Directory path"
| "manifest_of H (OE_Symlink path target) = ME_Symlink path target"

fun oe_small :: "OwnedSkillEntry \<Rightarrow> bool" where
  "oe_small (OE_File path bytes x) = (length bytes < 2 ^ 64)"
| "oe_small e = True"

fun me_portable :: "SkillManifestEntry \<Rightarrow> PortableEntry" where
  "me_portable (ME_File path blob sz x) = \<lparr>pe_path = PortablePath path, pe_kind = PE_File x\<rparr>"
| "me_portable (ME_Directory path) = \<lparr>pe_path = PortablePath path, pe_kind = PE_Directory\<rparr>"
| "me_portable (ME_Symlink path target) = \<lparr>pe_path = PortablePath path, pe_kind = PE_Symlink target\<rparr>"

lemma u64_try_from_Some: "u64_try_from n = Some w \<longleftrightarrow> n < 2 ^ 64 \<and> w = of_nat n"
  by (auto simp: u64_try_from_def)

lemma manifest_entry_Ok_iff: "manifest_entry H e = Ok m \<longleftrightarrow> oe_small e \<and> m = manifest_of H e"
  by (cases e) (auto simp: res_simps u64_try_from_Some)

lemma manifest_entries_Ok_iff:
  "collect_res (manifest_entry H) es = Ok ms \<longleftrightarrow> list_all oe_small es \<and> ms = map (manifest_of H) es"
  by (induction es arbitrary: ms) (auto simp: res_simps manifest_entry_Ok_iff)

lemma me_path_manifest_of [simp]: "me_path (manifest_of H e) = oe_path e"
  by (cases e) auto

lemma se_path_as_skill_entry [simp]: "se_path (as_skill_entry e) = oe_path e"
  by (cases e) auto

lemma me_portable_manifest_of: "me_portable (manifest_of H e) = portable_of (as_skill_entry e)"
  by (cases e) (auto simp: portable_of_def)

lemma path_of_me_portable [simp]: "path_of (me_portable e) = me_path e"
  by (cases e) auto

lemma portable_of_manifest_Ok_iff:
  "portable_of_manifest U e = Ok p \<longleftrightarrow> path_parses U (me_path e) \<and> p = me_portable e"
  by (cases e) (auto simp: PortableEntry_new_Ok_iff)

lemma portable_of_manifests_Ok_iff:
  "collect_res (portable_of_manifest U) ms = Ok ps \<longleftrightarrow>
     (\<forall>e \<in> set ms. path_parses U (me_path e)) \<and> ps = map me_portable ms"
  by (induction ms arbitrary: ps) (auto simp: res_simps portable_of_manifest_Ok_iff)

text \<open>The entries of a manifest in canonical order, as \<open>build_skill_manifest\<close> lists them.\<close>

definition canonical_entries :: "(string \<Rightarrow> string) \<Rightarrow> OwnedSkillEntry list \<Rightarrow> SkillManifestEntry list" where
  "canonical_entries H es = sort_key me_path (map (manifest_of H) es)"

lemma build_skill_manifest_Ok_iff:
  "build_skill_manifest U Y H n es = Ok m \<longleftrightarrow>
     (\<exists>vs. validate_skill_directory U Y n (map as_skill_entry es) = Ok vs) \<and> list_all oe_small es \<and>
     m_entries m = canonical_entries H es \<and>
     (\<exists>trees. build_manifest_tree_objects U H (canonical_entries H es) = Ok trees \<and>
        find_root trees = Ok (m_root_tree m))"
  by (cases m)
    (auto simp: build_skill_manifest_def res_simps manifest_entries_Ok_iff canonical_entries_def Let_def)

lemma validated_directory_facts:
  assumes "validate_skill_directory U Y n (map as_skill_entry es) = Ok vs"
  shows "distinct (map oe_path es)" and "\<And>e. e \<in> set es \<Longrightarrow> path_parses U (oe_path e)"
    and "tree_conforms U (map me_portable (canonical_entries H es))"
    and "\<exists>bytes doc. has_skill_md (map as_skill_entry es) bytes \<and> parse_skill_document Y n bytes = Ok doc"
proof -
  note ok = assms [unfolded validate_skill_directory_Ok_iff]
  have conf: "tree_conforms U (map portable_of (map as_skill_entry es))" using ok by simp
  have eq: "map path_of (map portable_of (map as_skill_entry es)) = map oe_path es"
    by (simp add: portable_of_def)
  show "distinct (map oe_path es)" using tree_conforms_distinct_paths [OF conf] unfolding eq .
  show "\<And>e. e \<in> set es \<Longrightarrow> path_parses U (oe_path e)" using ok by auto
  have "mset (map me_portable (canonical_entries H es)) = mset (map portable_of (map as_skill_entry es))"
    by (simp add: canonical_entries_def multiset.map_comp comp_def me_portable_manifest_of)
  with conf show "tree_conforms U (map me_portable (canonical_entries H es))"
    using tree_conforms_perm by blast
  show "\<exists>bytes doc. has_skill_md (map as_skill_entry es) bytes \<and> parse_skill_document Y n bytes = Ok doc"
    using ok by blast
qed

lemma canonical_entries_perm:
  assumes "mset es = mset fs" and "distinct (map oe_path es)"
  shows "canonical_entries H es = canonical_entries H fs"
proof -
  have "mset (map (manifest_of H) es) = mset (map (manifest_of H) fs)" using assms(1) by simp
  moreover have "inj_on me_path (set (map (manifest_of H) es))"
    using assms(2) by (auto simp: distinct_map inj_on_def)
  ultimately show ?thesis unfolding canonical_entries_def by (rule sort_key_canonical)
qed

lemma as_skill_entry_perm:
  assumes "mset es = mset fs" "validate_skill_directory U Y n (map as_skill_entry es) = Ok vs"
  shows "\<exists>vs'. validate_skill_directory U Y n (map as_skill_entry fs) = Ok vs'"
proof -
  have s: "set es = set fs" using assms(1) by (rule mset_eq_setD)
  have "mset (map portable_of (map as_skill_entry es)) = mset (map portable_of (map as_skill_entry fs))"
    using assms(1) by (metis mset_map)
  then have c: "tree_conforms U (map portable_of (map as_skill_entry es)) =
      tree_conforms U (map portable_of (map as_skill_entry fs))" by (rule tree_conforms_perm)
  show ?thesis
    using assms(2) c s unfolding validate_skill_directory_Ok_iff has_skill_md_def set_map by auto
qed

lemma build_skill_manifest_perm:
  assumes "mset es = mset fs" and "build_skill_manifest U Y H n es = Ok m"
  shows "build_skill_manifest U Y H n fs = Ok m"
proof -
  obtain vs where vs: "validate_skill_directory U Y n (map as_skill_entry es) = Ok vs"
    using assms(2) by (auto simp: build_skill_manifest_Ok_iff)
  have "canonical_entries H es = canonical_entries H fs"
    using canonical_entries_perm [OF assms(1) validated_directory_facts(1) [OF vs]] .
  moreover have "list_all oe_small es = list_all oe_small fs"
    using mset_eq_setD [OF assms(1)] by (simp add: list_all_iff)
  ultimately show ?thesis
    using assms(2) as_skill_entry_perm [OF assms(1) vs] by (auto simp: build_skill_manifest_Ok_iff)
qed

lemma validate_declared_Ok_iff:
  "validate_declared_skill_manifest U H m = Ok ts \<longleftrightarrow>
     (\<forall>e \<in> set (m_entries m). path_parses U (me_path e)) \<and>
     tree_conforms U (map me_portable (m_entries m)) \<and> list_ex is_skill_md_file (m_entries m) \<and>
     (\<exists>trees. build_manifest_tree_objects U H (m_entries m) = Ok trees \<and>
        find_root trees = Ok (m_root_tree m) \<and> ts = map snd trees)"
  by (auto simp: validate_declared_skill_manifest_def res_simps portable_of_manifests_Ok_iff
      validate_portable_tree_Ok_iff split: if_splits)

lemma skill_md_identity_distinct:
  "ME_File skill_md_name blob sz x \<in> set ms \<Longrightarrow> distinct (map me_path ms) \<Longrightarrow>
     skill_md_identity ms = Some (blob, sz)"
proof (induction ms rule: skill_md_identity.induct)
  case (2 path b s y es)
  then show ?case by (force simp: image_iff)
qed auto


section \<open>The tree objects of a manifest\<close>

fun dir_of :: "SkillManifestEntry \<Rightarrow> string" where
  "dir_of e = fst (split_parent (me_path e))"

fun name_of :: "SkillManifestEntry \<Rightarrow> string" where
  "name_of e = snd (split_parent (me_path e))"

declare dir_of.simps [simp del] name_of.simps [simp del]

fun kind_of :: "(string \<Rightarrow> TreeId option) \<Rightarrow> SkillManifestEntry \<Rightarrow> TreeEntryKind" where
  "kind_of ids (ME_File path blob sz x) = TE_File blob x"
| "kind_of ids (ME_Directory path) = TE_Directory (the (ids path))"
| "kind_of ids (ME_Symlink path target) = TE_Symlink target"

definition child_of :: "(string \<Rightarrow> TreeId option) \<Rightarrow> SkillManifestEntry \<Rightarrow> TreeEntry" where
  "child_of ids e = \<lparr>te_name = name_of e, te_kind = kind_of ids e\<rparr>"

definition children :: "(string \<Rightarrow> TreeId option) \<Rightarrow> SkillManifestEntry list \<Rightarrow> string \<Rightarrow> TreeEntry list" where
  "children ids es d = map (child_of ids) (filter (\<lambda>e. dir_of e = d) es)"

lemma split_on_append: "split_on c (a @ c # b) = split_on c a @ split_on c b"
  by (induction c a rule: split_on.induct) (auto simp: Let_def split: list.splits)

lemma split_parent_cases:
  obtains "slash \<notin> set p" "split_parent p = ([], p)"
  | d n where "p = d @ slash # n" "slash \<notin> set n" "split_parent p = (d, n)"
proof (cases "rsplit_once slash p")
  case None
  with that(1) show thesis by (simp add: split_parent_def rsplit_once_None_iff)
next
  case (Some dn)
  then obtain d n where dn: "rsplit_once slash p = Some (d, n)" by (cases dn) auto
  then have "split_parent p = (d, n)" by (simp add: split_parent_def)
  with dn that(2) show thesis by (simp add: rsplit_once_Some)
qed

lemma no_empty_component: "validate_component [] nav \<noteq> Ok ()"
  by (simp add: validate_component_def)

lemma parent_and_name_determine_path:
  assumes "path_parses U (me_path e)" "path_parses U (me_path f)" "dir_of e = dir_of f" "name_of e = name_of f"
  shows "me_path e = me_path f"
  using assms
  by (cases "me_path e" rule: split_parent_cases; cases "me_path f" rule: split_parent_cases)
    (auto simp: dir_of.simps name_of.simps path_parses_def parse_Ok_iff no_empty_component)

lemma parent_facts:
  assumes "path_parses U (me_path e)"
  shows "component_count_str (me_path e) = Suc (component_count_str (dir_of e)) \<and>
      name_of e \<in> set (split_on slash (me_path e)) \<and> length (name_of e) \<le> length (me_path e) \<and>
      (dir_of e = [] \<or> dir_of e \<in> set (ancestors (PortablePath (me_path e))))"
proof (cases "me_path e" rule: split_parent_cases)
  case 1
  with assms show ?thesis
    by (auto simp: dir_of.simps name_of.simps component_count_str_def split_on_single path_parses_def parse_Ok_iff)
next
  case (2 d n)
  have sp: "split_on slash (me_path e) = split_on slash d @ [n]"
    using 2 by (simp add: split_on_append split_on_single)
  have "d \<in> set (ancestors (PortablePath (me_path e)))"
    using sp by (auto simp: ancestors_def components_def Suc_le_eq intro!: rev_image_eqI [of "length (split_on slash d)"])
  with 2 sp assms show ?thesis
    by (auto simp: dir_of.simps name_of.simps component_count_str_def path_parses_def parse_Ok_iff no_empty_component)
qed

text \<open>Unicode normalization is closed under taking path components.\<close>

definition nfc_componentwise :: "unicode_tables \<Rightarrow> bool" where
  "nfc_componentwise U \<longleftrightarrow> (\<forall>s. u_nfc U s = s \<longrightarrow> (\<forall>c \<in> set (split_on slash s). u_nfc U c = c))"

lemma TreeEntry_new_name_of:
  assumes "path_parses U (me_path e)" "nfc_componentwise U"
  shows "TreeEntry_new U (name_of e) k = Ok \<lparr>te_name = name_of e, te_kind = k\<rparr>"
proof -
  let ?n = "name_of e"
  have n: "?n \<in> set (split_on slash (me_path e))" using parent_facts [OF assms(1)] by simp
  have p: "PortablePath_parse U (me_path e) = Ok (PortablePath (me_path e))"
    using assms(1) by (auto simp: path_parses_def parse_Ok_iff)
  have c: "?n \<noteq> [] \<and> slash \<notin> set ?n \<and> validate_component ?n False = Ok ()"
    using parse_component [OF p] n by (auto simp: components_def)
  moreover have "backslash \<notin> set ?n" using p split_on_subset [OF n] by (auto simp: parse_Ok_iff)
  moreover have "u_nfc U ?n = ?n" using p n assms(2) by (auto simp: parse_Ok_iff nfc_componentwise_def)
  ultimately have "PortablePath_parse U ?n = Ok (PortablePath ?n)"
    by (simp add: parse_Ok_iff split_on_single)
  then show ?thesis using c by (simp add: TreeEntry_new_def component_count_def split_on_single)
qed

lemma add_children_Ok:
  assumes "nfc_componentwise U" and "\<And>e. e \<in> set es \<Longrightarrow> path_parses U (me_path e)"
    and "\<And>p. ME_Directory p \<in> set es \<Longrightarrow> dir_of (ME_Directory p) = d \<Longrightarrow> ids p \<noteq> None"
  shows "fold_res (add_child U ids d) acc es = Ok (acc @ children ids es d)"
  using assms(2,3)
proof (induction es arbitrary: acc)
  case (Cons e es)
  have IH: "fold_res (add_child U ids d) acc' es = Ok (acc' @ children ids es d)" for acc'
    using Cons by simp
  have new: "TreeEntry_new U (name_of e) k = Ok \<lparr>te_name = name_of e, te_kind = k\<rparr>" for k
    using TreeEntry_new_name_of [OF _ assms(1)] Cons.prems by simp
  have sp: "split_parent (me_path e) = (dir_of e, name_of e)"
    by (simp add: dir_of.simps name_of.simps)
  have kind: "dir_of e = d \<Longrightarrow> child_kind ids e = Ok (kind_of ids e)"
    using Cons.prems(2) [of "me_path e"] by (cases e) (auto simp: child_kind_def)
  have "add_child U ids d acc e = Ok (acc @ (if dir_of e = d then [child_of ids e] else []))"
    using new kind by (simp add: add_child_def sp child_of_def)
  then show ?case using IH by (simp add: children_def)
qed (simp add: children_def)


text \<open>The digest width of SHA-256.\<close>

definition hash32 :: "(string \<Rightarrow> string) \<Rightarrow> bool" where
  "hash32 H \<longleftrightarrow> (\<forall>x. length (H x) = 32)"

text \<open>The sizes the length fields of a tree transcript can carry.\<close>

fun me_fits :: "SkillManifestEntry \<Rightarrow> bool" where
  "me_fits (ME_File path blob sz x) = (length path + 6 + length (blob_bytes blob) < 2 ^ 32)"
| "me_fits (ME_Directory path) = (length path + 37 < 2 ^ 32)"
| "me_fits (ME_Symlink path target) = (length path + 9 + length target < 2 ^ 32)"

text \<open>The entries of a manifest a tree can be built from.\<close>

definition buildable :: "unicode_tables \<Rightarrow> SkillManifestEntry list \<Rightarrow> bool" where
  "buildable U ms \<longleftrightarrow> (\<forall>e \<in> set ms. path_parses U (me_path e) \<and> me_fits e) \<and>
     tree_conforms U (map me_portable ms) \<and> length ms < 2 ^ 32"

lemma buildable_distinct: "buildable U ms \<Longrightarrow> distinct (map me_path ms)"
  unfolding buildable_def using tree_conforms_distinct_paths [of U "map me_portable ms"]
  by (simp add: comp_def)

lemma children_total:
  assumes ok: "buildable U ms" and ids: "\<And>p i. ids p = Some i \<Longrightarrow> length (tree_bytes i) = 32"
    and known: "\<And>p. ME_Directory p \<in> set ms \<Longrightarrow> dir_of (ME_Directory p) = d \<Longrightarrow> ids p \<noteq> None"
  shows "\<exists>t. tree_transcript (children ids ms d) = Ok t"
proof (rule tree_transcript_total)
  let ?es = "filter (\<lambda>e. dir_of e = d) ms"
  have inj: "inj_on name_of (set ?es)"
    using parent_and_name_determine_path [of U] buildable_distinct [OF ok] ok
    by (auto simp: inj_on_def buildable_def distinct_map)
  have "distinct ?es" using buildable_distinct [OF ok] by (simp add: distinct_map)
  with inj show "distinct (map te_name (children ids ms d))"
    by (simp add: children_def child_of_def comp_def distinct_map)
  show "length (children ids ms d) < 2 ^ 32"
    using ok le_less_trans [OF length_filter_le [of "\<lambda>e. dir_of e = d" ms], of "2 ^ 32"]
    by (simp add: children_def buildable_def)
  show "entry_fits c" if c: "c \<in> set (children ids ms d)" for c
  proof -
    obtain e where e: "e \<in> set ms" "dir_of e = d" "c = child_of ids e"
      using c unfolding children_def set_map set_filter by blast
    have "length (name_of e) \<le> length (me_path e)" "me_fits e"
      using parent_facts [of U e] ok e by (auto simp: buildable_def)
    moreover have "length (tree_bytes (the (ids p))) = 32" if "e = ME_Directory p" for p
      using known [of p] e that ids [of p] by (cases "ids p") auto
    ultimately show ?thesis using e(3) by (cases e) (auto simp: child_of_def entry_fits_def)
  qed
qed

text \<open>The directories handled so far, the identities known and the objects emitted.\<close>

definition trees_built :: "(string \<Rightarrow> string) \<Rightarrow> SkillManifestEntry list \<Rightarrow> string list \<Rightarrow> tree_build \<Rightarrow> bool" where
  "trees_built H ms ds st \<longleftrightarrow> map fst (snd st) = ds \<and>
     fst st = map_option mt_id \<circ> map_of (snd st) \<and>
     (\<forall>p i. fst st p = Some i \<longrightarrow> length (tree_bytes i) = 32) \<and>
     (\<forall>(d, t) \<in> set (snd st). mt_entries t = children (fst st) ms d \<and>
        TreeId_from_entries H (mt_entries t) = Ok (mt_id t))"

definition closed_dirs :: "SkillManifestEntry list \<Rightarrow> string list \<Rightarrow> bool" where
  "closed_dirs ms ds \<longleftrightarrow> (\<forall>p. ME_Directory p \<in> set ms \<longrightarrow> dir_of (ME_Directory p) \<in> set ds \<longrightarrow> p \<in> set ds)"

lemma children_cong:
  assumes "\<And>p. ME_Directory p \<in> set ms \<Longrightarrow> dir_of (ME_Directory p) = d \<Longrightarrow> ids p = ids' p"
  shows "children ids ms d = children ids' ms d"
proof -
  have "kind_of ids e = kind_of ids' e" if "e \<in> set ms" "dir_of e = d" for e
    using assms that by (cases e) auto
  then show ?thesis by (simp add: children_def child_of_def)
qed

lemma map_of_append_new:
  "d \<notin> set (map fst xs) \<Longrightarrow> map_of (xs @ [(d, t)]) = (map_of xs)(d \<mapsto> t)"
  by (induction xs) (auto simp: fun_upd_twist)

lemma add_directory_step:
  assumes ok: "buildable U ms" and nfc: "nfc_componentwise U" and H: "hash32 H"
    and inv: "trees_built H ms ds st" and new: "d \<notin> set ds" and cl: "closed_dirs ms ds"
    and known: "\<And>p. ME_Directory p \<in> set ms \<Longrightarrow> dir_of (ME_Directory p) = d \<Longrightarrow> p \<in> set ds"
  shows "\<exists>st'. add_directory U H ms st d = Ok st' \<and> trees_built H ms (ds @ [d]) st'"
proof -
  obtain ids out where st: "st = (ids, out)" by (cases st)
  note i = inv [unfolded trees_built_def st fst_conv snd_conv]
  have ids: "ids = map_option mt_id \<circ> map_of out" and fsts: "map fst out = ds" using i by auto
  have def: "ids p \<noteq> None \<longleftrightarrow> p \<in> set ds" for p
    unfolding ids comp_def option.map_disc_iff map_of_eq_None_iff fsts [symmetric] set_map by simp
  have kids: "fold_res (add_child U ids d) [] ms = Ok (children ids ms d)"
    using add_children_Ok [OF nfc, of ms d ids "[]"] ok known def by (simp add: buildable_def)
  obtain t where t: "tree_transcript (children ids ms d) = Ok t"
    using children_total [OF ok, of ids d] i known def by blast
  let ?id = "TreeId (H t)" let ?tree = "\<lparr>mt_id = TreeId (H t), mt_entries = children ids ms d\<rparr>"
  let ?ids = "ids(d \<mapsto> ?id)"
  have same: "children ?ids ms d' = children ids ms d'" if "d' \<in> set (ds @ [d])" for d'
    using that cl known new by (intro children_cong) (auto simp: closed_dirs_def)
  have tid: "TreeId_from_entries H (children ids ms d) = Ok ?id"
    using t by (simp add: TreeId_from_entries_def)
  have "trees_built H ms (ds @ [d]) (?ids, out @ [(d, ?tree)])"
  proof -
    have "?ids = map_option mt_id \<circ> map_of (out @ [(d, ?tree)])"
      using i new map_of_append_new [of d out ?tree] by auto
    moreover have "mt_entries x = children ?ids ms e \<and> TreeId_from_entries H (mt_entries x) = Ok (mt_id x)"
      if "(e, x) \<in> set (out @ [(d, ?tree)])" for e x
      using that i same [of e] tid by (auto simp: rev_image_eqI)
    moreover have "length (tree_bytes j) = 32" if "?ids p = Some j" for p j
      using that i H by (cases "p = d") (auto simp: hash32_def)
    ultimately show ?thesis
      unfolding trees_built_def fst_conv snd_conv map_append fsts
      by (intro conjI) (simp, blast, blast, blast)
  qed
  then show ?thesis using kids tid by (simp add: st)
qed


lemma directory_paths_iff: "p \<in> set (directory_paths ms) \<longleftrightarrow> ME_Directory p \<in> set ms"
  by (force simp: directory_paths_def List.map_filter_def split: SkillManifestEntry.splits)

definition build_order :: "SkillManifestEntry list \<Rightarrow> string list" where
  "build_order ms = sort_key directory_order (directory_paths ms @ [[]])"

lemma set_build_order: "d \<in> set (build_order ms) \<longleftrightarrow> d = [] \<or> ME_Directory d \<in> set ms"
  by (auto simp: build_order_def directory_paths_iff simp del: sort_key_simps)

lemma build_order_distinct:
  assumes "buildable U ms"
  shows "distinct (build_order ms)"
proof -
  have "distinct (directory_paths ms)" if "distinct (map me_path ms)" for ms
    using that
    by (induction ms)
      (auto simp: directory_paths_def List.map_filter_def image_iff split: SkillManifestEntry.splits)
  moreover have "[] \<notin> set (directory_paths ms)"
    using assms by (force simp: directory_paths_iff buildable_def path_parses_def parse_Ok_iff)
  ultimately show ?thesis
    using buildable_distinct [OF assms] by (simp add: build_order_def)
qed

text \<open>Deepest first: a subdirectory comes before the directory that lists it.\<close>

lemma deeper_first:
  assumes "buildable U ms" and "build_order ms = ds @ d # rest"
    and "ME_Directory p \<in> set ms" and "dir_of (ME_Directory p) = d"
  shows "p \<in> set ds"
proof -
  have "component_count_str p = Suc (component_count_str d)"
    using parent_facts [of U "ME_Directory p"] assms by (auto simp: buildable_def)
  then have less: "directory_order p < directory_order d" by (simp add: directory_order_def)
  have "sorted (map directory_order (build_order ms))" by (simp add: build_order_def)
  then have "\<forall>x \<in> set (d # rest). directory_order d \<le> directory_order x"
    unfolding assms(2) by (simp add: sorted_append)
  with less have "p \<notin> set (d # rest)" by (auto simp: not_less [symmetric])
  moreover have "p \<in> set (build_order ms)" using assms(3) by (simp add: set_build_order)
  ultimately show ?thesis unfolding assms(2) by auto
qed

lemma add_directories_Ok:
  assumes ok: "buildable U ms" and nfc: "nfc_componentwise U" and H: "hash32 H"
    and "build_order ms = ds @ rest" and "trees_built H ms ds st" and "closed_dirs ms ds"
  shows "\<exists>st'. fold_res (add_directory U H ms) st rest = Ok st' \<and> trees_built H ms (build_order ms) st'"
  using assms(4-6)
proof (induction rest arbitrary: ds st)
  case (Cons d rest)
  have new: "d \<notin> set ds" using build_order_distinct [OF ok] Cons.prems(1) by auto
  note known = deeper_first [OF ok Cons.prems(1)]
  obtain st' where st': "add_directory U H ms st d = Ok st'" "trees_built H ms (ds @ [d]) st'"
    using add_directory_step [OF ok nfc H Cons.prems(2) new Cons.prems(3) known] by blast
  have "closed_dirs ms (ds @ [d])" using Cons.prems(3) known by (auto simp: closed_dirs_def)
  then show ?case using Cons.IH [of "ds @ [d]" st'] Cons.prems(1) st' by simp
qed simp

text \<open>The objects of a manifest: one per directory, each listing its direct children, with the
  identity of every child directory and of the object itself.\<close>

definition merkle_trees ::
  "(string \<Rightarrow> string) \<Rightarrow> SkillManifestEntry list \<Rightarrow> (string \<times> SkillManifestTree) list \<Rightarrow> bool" where
  "merkle_trees H ms trees \<longleftrightarrow> map fst trees = build_order ms \<and>
     (\<forall>(d, t) \<in> set trees. mt_entries t = children (map_option mt_id \<circ> map_of trees) ms d \<and>
        TreeId_from_entries H (mt_entries t) = Ok (mt_id t))"

lemma tree_objects_Ok:
  assumes "buildable U ms" and "nfc_componentwise U" and "hash32 H"
  shows "\<exists>trees root. build_manifest_tree_objects U H ms = Ok trees \<and> merkle_trees H ms trees \<and>
    find_root trees = Ok root"
proof -
  have "trees_built H ms [] (Map.empty, [])" "closed_dirs ms []"
    by (auto simp: trees_built_def closed_dirs_def)
  then obtain ids out where st: "fold_res (add_directory U H ms) (Map.empty, []) (build_order ms) = Ok (ids, out)"
    "trees_built H ms (build_order ms) (ids, out)"
    using add_directories_Ok [OF assms, of "[]" "build_order ms" "(Map.empty, [])"] by auto
  then have b: "build_manifest_tree_objects U H ms = Ok out"
    by (simp add: build_manifest_tree_objects_def build_order_def)
  have m: "merkle_trees H ms out" using st(2) by (auto simp: trees_built_def merkle_trees_def)
  have "[] \<in> set (map fst out)" using m by (simp add: merkle_trees_def set_build_order)
  then have "find (\<lambda>(path, _). path = []) out \<noteq> None"
    by (auto simp: find_None_iff)
  then show ?thesis using b m by (auto simp: find_root_def)
qed


section \<open>Manifests from bytes and from hashed entries\<close>

lemma canonical_entries_mset: "mset (canonical_entries H es) = mset (map (manifest_of H) es)"
  by (simp add: canonical_entries_def)

lemma canonical_entries_set: "set (canonical_entries H es) = manifest_of H ` set es"
  by (simp add: canonical_entries_def)

lemma canonical_entries_path: "set (map me_path (canonical_entries H es)) = oe_path ` set es"
  by (simp add: canonical_entries_set image_comp comp_def)

lemma sort_canonical: "sort_key me_path (canonical_entries H es) = canonical_entries H es"
  by (simp add: canonical_entries_def sort_key_id)

lemma has_skill_md_owned:
  "has_skill_md (map as_skill_entry es) bytes \<longleftrightarrow> (\<exists>x. OE_File skill_md_name bytes x \<in> set es)"
proof -
  have "SE_File p b x = as_skill_entry e \<longleftrightarrow> e = OE_File p b x" for e p b x by (cases e) auto
  then show ?thesis by (simp add: has_skill_md_def image_iff)
qed

lemma has_skill_md_unique:
  assumes "distinct (map oe_path es)" "has_skill_md (map as_skill_entry es) b"
    "has_skill_md (map as_skill_entry es) c"
  shows "b = c"
  using assms map_filter_skill_md_eq [of "map as_skill_entry es"] by (simp add: comp_def)

lemma manifest_accepted:
  assumes "build_skill_manifest U Y H n es = Ok m"
  shows "\<exists>ts. validate_declared_skill_manifest U H m = Ok ts"
proof -
  obtain vs trees where vs: "validate_skill_directory U Y n (map as_skill_entry es) = Ok vs"
    and m: "m_entries m = canonical_entries H es"
    and tr: "build_manifest_tree_objects U H (m_entries m) = Ok trees" "find_root trees = Ok (m_root_tree m)"
    using assms by (auto simp: build_skill_manifest_Ok_iff)
  note f = validated_directory_facts [OF vs]
  obtain bytes where "has_skill_md (map as_skill_entry es) bytes" using f(4) by blast
  then obtain x where e: "OE_File skill_md_name bytes x \<in> set es"
    by (auto simp: has_skill_md_owned)
  moreover have "is_skill_md_file (manifest_of H (OE_File skill_md_name bytes x))" by simp
  ultimately have "list_ex is_skill_md_file (m_entries m)"
    unfolding list_ex_iff m canonical_entries_set by blast
  moreover have "\<forall>e \<in> set (m_entries m). path_parses U (me_path e)"
    using f(2) by (auto simp: m canonical_entries_set)
  ultimately show ?thesis using f(3) [of H] tr m by (auto simp: validate_declared_Ok_iff)
qed

lemma hashed_entries_reproduce:
  assumes "build_skill_manifest U Y H n es = Ok m" and "has_skill_md (map as_skill_entry es) bytes"
    and "mset hs = mset (m_entries m)"
  shows "build_skill_manifest_from_hashed_entries U Y H n bytes hs = Ok m"
proof -
  obtain vs trees where vs: "validate_skill_directory U Y n (map as_skill_entry es) = Ok vs"
    and small: "list_all oe_small es" and m: "m_entries m = canonical_entries H es"
    and tr: "build_manifest_tree_objects U H (m_entries m) = Ok trees" "find_root trees = Ok (m_root_tree m)"
    using assms(1) by (auto simp: build_skill_manifest_Ok_iff)
  note f = validated_directory_facts [OF vs]
  obtain x where e: "OE_File skill_md_name bytes x \<in> set es"
    using assms(2) by (auto simp: has_skill_md_owned)
  have dist: "distinct (map me_path (m_entries m))"
    using f(1) by (simp add: m distinct_map_perm [OF canonical_entries_mset] comp_def)
  then have sorted: "sort_key me_path hs = m_entries m"
    using sort_key_canonical [of hs "m_entries m" me_path] assms(3) mset_eq_setD [OF assms(3)]
      sort_canonical [of H es] by (simp add: m distinct_map)
  have "skill_md_identity (m_entries m) = Some (BlobId_hash H bytes, of_nat (length bytes))"
    using imageI [OF e, of "manifest_of H"] by (intro skill_md_identity_distinct [OF _ dist]) (simp add: m canonical_entries_set)
  moreover have "u64_try_from (length bytes) = Some (of_nat (length bytes))"
    using small e by (auto simp: u64_try_from_def list_all_iff)
  moreover obtain doc where "parse_skill_document Y n bytes = Ok doc"
    using f(4) assms(2) has_skill_md_unique [OF f(1)] by blast
  moreover have eta: "\<lparr>m_root_tree = m_root_tree m, m_entries = m_entries m\<rparr> = m" by simp
  ultimately show ?thesis
    using manifest_accepted [OF assms(1)] tr
    by (auto simp: build_skill_manifest_from_hashed_entries_def sorted Let_def eta)
qed


section \<open>Snapshots\<close>

text \<open>Paths that \<open>tar\<close> stores as they are: no empty and no \<open>.\<close> component, which it would
  normalize away.\<close>

definition clean_path :: "string \<Rightarrow> bool" where
  "clean_path p \<longleftrightarrow> (\<forall>c \<in> set (split_on slash p). c \<noteq> [] \<and> c \<noteq> ''.'')"

definition clean_item :: "archive_item \<Rightarrow> bool" where
  "clean_item i \<longleftrightarrow> clean_path (ai_path i) \<and> (\<forall>t. ai_link i = Some t \<longrightarrow> clean_path t)"

definition view_of :: "archive_item \<Rightarrow> archive_view" where
  "view_of i = \<lparr>av_path = Ok (ai_path i), av_type = ai_type i, av_mode = Ok (ai_mode i),
                av_link = Ok (ai_link i), av_data = Ok (ai_data i)\<rparr>"

text \<open>The archive libraries read back the items they packed.\<close>

definition reads_back :: "archive_lib \<Rightarrow> bool" where
  "reads_back A \<longleftrightarrow> (\<forall>items bytes. al_pack A items = Ok bytes \<longrightarrow> list_all clean_item items \<longrightarrow>
     al_entries A bytes = Ok (map (Ok \<circ> view_of) items))"

text \<open>Rust strings are UTF-8; link targets as \<open>tar\<close> keeps them.\<close>

fun oe_text :: "OwnedSkillEntry \<Rightarrow> bool" where
  "oe_text (OE_File path bytes x) = (utf8_decode path \<noteq> None)"
| "oe_text (OE_Directory path) = (utf8_decode path \<noteq> None)"
| "oe_text (OE_Symlink path target) = (utf8_decode path \<noteq> None \<and> utf8_decode target \<noteq> None \<and> clean_path target)"

fun item_of :: "OwnedSkillEntry \<Rightarrow> archive_item" where
  "item_of (OE_File path bytes x) =
     archive_header path AT_Regular (if x then 493 else 420) (of_nat (length bytes)) None bytes"
| "item_of (OE_Directory path) = archive_header path AT_Directory 493 0 None []"
| "item_of (OE_Symlink path target) = archive_header path AT_Symlink 511 0 (Some target) []"

lemma append_entry_Ok_iff: "append_entry e = Ok i \<longleftrightarrow> oe_small e \<and> i = item_of e"
  by (cases e) (auto simp: res_simps u64_try_from_Some)

lemma append_entries_Ok_iff:
  "collect_res append_entry es = Ok items \<longleftrightarrow> list_all oe_small es \<and> items = map item_of es"
  by (induction es arbitrary: items) (auto simp: res_simps append_entry_Ok_iff)

lemma clean_path_trim:
  assumes "clean_path p"
  shows "p \<noteq> [] \<and> trim_end_matches (\<lambda>c. c = slash) p = p"
proof (cases p rule: rev_cases)
  case (snoc q x)
  have "[] \<in> set (split_on slash p)" if "x = slash"
    using split_on_append [of slash q "[]"] that snoc by simp
  with assms snoc show ?thesis by (auto simp: clean_path_def trim_end_matches_def)
qed (use assms in \<open>simp add: clean_path_def\<close>)

lemma parsed_path_clean:
  assumes "path_parses U p"
  shows "clean_path p"
proof -
  have "PortablePath_parse U p = Ok (PortablePath p)" using assms by (auto simp: path_parses_def parse_Ok_iff)
  from parse_component [OF this] show ?thesis by (simp add: clean_path_def components_def)
qed

lemma read_item_of:
  assumes "oe_text e" and "clean_path (oe_path e)"
  shows "read_item (view_of (item_of e)) = Ok e"
proof -
  have "(493::nat) AND 73 \<noteq> 0" "(420::nat) AND 73 = 0" by simp_all
  then show ?thesis
    using assms clean_path_trim [OF assms(2)]
    by (cases e) (auto simp: read_item_def view_of_def archive_header_def from_utf8_def Let_def)
qed

lemma clean_item_of: "oe_text e \<Longrightarrow> clean_path (oe_path e) \<Longrightarrow> clean_item (item_of e)"
  by (cases e) (auto simp: clean_item_def archive_header_def)

lemma validate_skill_snapshot_Ok_iff:
  "validate_skill_snapshot U Y H A n m b = Ok es \<longleftrightarrow>
     (\<exists>items. al_entries A b = Ok items \<and>
        collect_res (\<lambda>item. res_bind (map_err SN_Io item) read_item) items = Ok es) \<and>
     build_skill_manifest U Y H n es = Ok m"
  by (auto simp: validate_skill_snapshot_def res_simps)

lemma snapshot_roundtrip:
  assumes "build_deterministic_skill_snapshot U Y H A n es = Ok snap"
    and "reads_back A" and "\<And>e. e \<in> set es \<Longrightarrow> oe_text e"
  shows "validate_skill_snapshot U Y H A n (ds_manifest snap) (ds_bytes snap) = Ok (sort_key oe_path es)"
proof -
  let ?s = "sort_key oe_path es"
  obtain items where m: "build_skill_manifest U Y H n es = Ok (ds_manifest snap)"
    and items: "items = map item_of ?s" and pack: "al_pack A items = Ok (ds_bytes snap)"
    using assms(1)
    by (cases snap) (auto simp: build_deterministic_skill_snapshot_def res_simps append_entries_Ok_iff
        simp del: sort_key_simps)
  have clean: "clean_path (oe_path e)" if "e \<in> set es" for e
    using m [unfolded build_skill_manifest_Ok_iff] that validated_directory_facts(2) parsed_path_clean
    by metis
  then have "list_all clean_item items"
    using clean_item_of assms(3) by (auto simp: list_all_iff items)
  then have rd: "al_entries A (ds_bytes snap) = Ok (map (Ok \<circ> view_of) items)"
    using assms(2) pack by (simp add: reads_back_def)
  have "collect_res (\<lambda>item. res_bind (map_err SN_Io item) read_item) (map (Ok \<circ> view_of \<circ> item_of) es') = Ok es'"
    if "set es' \<subseteq> set es" for es'
    using that clean assms(3) by (induction es') (auto simp: read_item_of)
  from this [of ?s] have "collect_res (\<lambda>item. res_bind (map_err SN_Io item) read_item)
      (map (Ok \<circ> view_of) items) = Ok ?s"
    by (simp add: items comp_assoc)
  then show ?thesis
    using rd build_skill_manifest_perm [of es ?s, OF _ m]
    by (auto simp: validate_skill_snapshot_Ok_iff)
qed


text \<open>Entries of a directory whose sizes the transcript fields can carry.\<close>

definition sizes_fit :: "(string \<Rightarrow> string) \<Rightarrow> OwnedSkillEntry list \<Rightarrow> bool" where
  "sizes_fit H es \<longleftrightarrow> (\<forall>e \<in> set es. oe_small e \<and> me_fits (manifest_of H e)) \<and> length es < 2 ^ 32"

lemma valid_directory_buildable:
  assumes "validate_skill_directory U Y n (map as_skill_entry es) = Ok vs" and "sizes_fit H es"
  shows "buildable U (canonical_entries H es)"
  using validated_directory_facts [OF assms(1)] assms(2)
  by (auto simp: buildable_def sizes_fit_def canonical_entries_set) (simp add: canonical_entries_def)

lemma valid_directory_has_manifest:
  assumes "validate_skill_directory U Y n (map as_skill_entry es) = Ok vs" and "sizes_fit H es"
    and "nfc_componentwise U" and "hash32 H"
  shows "\<exists>m trees. build_skill_manifest U Y H n es = Ok m \<and> m_entries m = canonical_entries H es \<and>
    build_manifest_tree_objects U H (m_entries m) = Ok trees \<and> merkle_trees H (m_entries m) trees"
proof -
  obtain trees root where t: "build_manifest_tree_objects U H (canonical_entries H es) = Ok trees"
    "merkle_trees H (canonical_entries H es) trees" "find_root trees = Ok root"
    using tree_objects_Ok [OF valid_directory_buildable [OF assms(1,2)] assms(3,4)] by blast
  then show ?thesis
    using assms(1,2)
    by (intro exI [of _ "\<lparr>m_root_tree = root, m_entries = canonical_entries H es\<rparr>"] exI [of _ trees])
      (auto simp: build_skill_manifest_Ok_iff sizes_fit_def list_all_iff)
qed

lemma manifest_of_inj:
  assumes "\<And>p b x q c y. OE_File p b x \<in> A \<Longrightarrow> OE_File q c y \<in> A \<Longrightarrow> H b = H c \<Longrightarrow> b = c"
  shows "inj_on (manifest_of H) A"
proof (rule inj_onI)
  fix e f assume "e \<in> A" "f \<in> A" "manifest_of H e = manifest_of H f"
  then show "e = f" using assms by (cases e; cases f) (auto simp: BlobId_hash_def)
qed

section \<open>A concrete directory\<close>

definition example_dir :: "OwnedSkillEntry list" where
  "example_dir = [OE_File ''SKILL.md'' example_md False, OE_Directory ''bin'',
     OE_File ''bin/run'' ''#!'' True, OE_Symlink ''run'' ''bin/run'']"

definition zero_hash :: "string \<Rightarrow> string" where
  "zero_hash b = take 32 (rev b @ replicate 32 (CHR 0x00))"

text \<open>An archive library that knows one archive.\<close>

definition one_archive :: "archive_item list \<Rightarrow> archive_lib" where
  "one_archive items =
     \<lparr>al_pack = (\<lambda>is. if is = items then Ok ''archive'' else Err ''unsupported''),
      al_entries = (\<lambda>b. if b = ''archive'' then Ok (map (Ok \<circ> view_of) items) else Err ''unsupported'')\<rparr>"

lemma one_archive_reads_back: "reads_back (one_archive items)"
  by (simp add: reads_back_def one_archive_def)

lemma example_dir_valid:
  "\<exists>vs. validate_skill_directory ascii_tables flat_lib ''review'' (map as_skill_entry example_dir) = Ok vs"
proof -
  have "is_ok (validate_skill_directory ascii_tables flat_lib ''review'' (map as_skill_entry example_dir))"
    by code_simp
  then show ?thesis by (simp add: is_ok_iff)
qed

lemma example_dir_fits: "sizes_fit zero_hash example_dir"
  by (simp add: sizes_fit_def example_dir_def BlobId_hash_def zero_hash_def example_md_def)

lemma ascii_nfc: "nfc_componentwise ascii_tables"
  by (simp add: nfc_componentwise_def ascii_tables_def)

lemma zero_hash32: "hash32 zero_hash"
  by (auto simp: hash32_def zero_hash_def min_def)

lemma example_dir_manifest:
  "\<exists>m. build_skill_manifest ascii_tables flat_lib zero_hash ''review'' example_dir = Ok m"
  using example_dir_valid valid_directory_has_manifest example_dir_fits ascii_nfc zero_hash32 by blast

lemma example_dir_text: "e \<in> set example_dir \<Longrightarrow> oe_text e"
proof -
  have "list_all oe_text example_dir" by code_simp
  then show "e \<in> set example_dir \<Longrightarrow> oe_text e" by (simp add: list_all_iff)
qed

lemma example_dir_snapshot:
  "\<exists>snap. build_deterministic_skill_snapshot ascii_tables flat_lib zero_hash
     (one_archive (map item_of (sort_key oe_path example_dir))) ''review'' example_dir = Ok snap"
proof -
  have "list_all oe_small example_dir" using example_dir_fits by (simp add: sizes_fit_def list_all_iff)
  then have "collect_res append_entry (sort_key oe_path example_dir) = Ok (map item_of (sort_key oe_path example_dir))"
    by (simp add: append_entries_Ok_iff list_all_iff)
  then show ?thesis
    using example_dir_manifest
    by (auto simp: build_deterministic_skill_snapshot_def one_archive_def simp del: sort_key_simps)
qed


section \<open>Properties\<close>

text \<open>The order in which a directory is scanned does not matter: two listings of the same
  entries give the same manifest.\<close>

theorem manifest_ignores_scan_order:
  assumes "mset es = mset fs" and "build_skill_manifest U Y H n es = Ok m"
  shows "build_skill_manifest U Y H n fs = Ok m"
  using assms by (rule build_skill_manifest_perm)

theorem manifest_ignores_scan_order_witness:
  "\<exists>m. build_skill_manifest ascii_tables flat_lib zero_hash ''review'' example_dir = Ok m \<and>
     build_skill_manifest ascii_tables flat_lib zero_hash ''review'' (rev example_dir) = Ok m"
proof -
  obtain m where m: "build_skill_manifest ascii_tables flat_lib zero_hash ''review'' example_dir = Ok m"
    using example_dir_manifest by blast
  show ?thesis using manifest_ignores_scan_order [OF _ m, of "rev example_dir"] m by auto
qed

text \<open>C17. Every valid skill directory whose sizes fit the length fields has a manifest: building
  the tree objects from the deepest directories upwards never meets a directory whose tree is
  not known yet, and yields one object per directory that lists exactly the direct children,
  each child directory under the identity of its own object.\<close>

theorem valid_directory_has_merkle_manifest:
  assumes "validate_skill_directory U Y n (map as_skill_entry es) = Ok vs" and "sizes_fit H es"
    and "nfc_componentwise U" and "hash32 H"
  shows "\<exists>m trees. build_skill_manifest U Y H n es = Ok m \<and> m_entries m = canonical_entries H es \<and>
    build_manifest_tree_objects U H (m_entries m) = Ok trees \<and> merkle_trees H (m_entries m) trees"
  using assms by (rule valid_directory_has_manifest)

theorem valid_directory_has_merkle_manifest_witness:
  "\<exists>m trees. build_skill_manifest ascii_tables flat_lib zero_hash ''review'' example_dir = Ok m \<and>
     merkle_trees zero_hash (m_entries m) trees \<and> length trees = 2"
proof -
  obtain vs where vs:
    "validate_skill_directory ascii_tables flat_lib ''review'' (map as_skill_entry example_dir) = Ok vs"
    using example_dir_valid by blast
  obtain m trees where m: "build_skill_manifest ascii_tables flat_lib zero_hash ''review'' example_dir = Ok m"
    "m_entries m = canonical_entries zero_hash example_dir" "merkle_trees zero_hash (m_entries m) trees"
    using valid_directory_has_merkle_manifest [OF vs example_dir_fits ascii_nfc zero_hash32] by blast
  have "length trees = length (build_order (m_entries m))"
    using m(3) by (metis length_map merkle_trees_def)
  also have "\<dots> = 2"
    unfolding m(2) by (simp add: build_order_def canonical_entries_def directory_paths_def
        List.map_filter_def example_dir_def)
  finally show ?thesis using m by blast
qed

text \<open>C18. The registry accepts, as a declared manifest, every manifest a client builds from
  bytes; and the incremental path, given the same file identities in any order and the current
  \<open>SKILL.md\<close>, reproduces it.\<close>

theorem built_manifest_is_accepted_and_reproduced:
  assumes "build_skill_manifest U Y H n es = Ok m"
  shows "(\<exists>ts. validate_declared_skill_manifest U H m = Ok ts) \<and>
    (\<forall>bytes hs. has_skill_md (map as_skill_entry es) bytes \<and> mset hs = mset (m_entries m) \<longrightarrow>
       build_skill_manifest_from_hashed_entries U Y H n bytes hs = Ok m)"
  using manifest_accepted [OF assms] hashed_entries_reproduce [OF assms] by blast

theorem built_manifest_is_accepted_and_reproduced_witness:
  "\<exists>m ts. build_skill_manifest ascii_tables flat_lib zero_hash ''review'' example_dir = Ok m \<and>
     validate_declared_skill_manifest ascii_tables zero_hash m = Ok ts \<and>
     build_skill_manifest_from_hashed_entries ascii_tables flat_lib zero_hash ''review'' example_md
       (map (manifest_of zero_hash) example_dir) = Ok m"
proof -
  obtain m where m: "build_skill_manifest ascii_tables flat_lib zero_hash ''review'' example_dir = Ok m"
    using example_dir_manifest by blast
  have "mset (map (manifest_of zero_hash) example_dir) = mset (m_entries m)"
    using m by (auto simp: build_skill_manifest_Ok_iff canonical_entries_mset)
  moreover have "has_skill_md (map as_skill_entry example_dir) example_md"
    unfolding has_skill_md_owned by (auto simp: example_dir_def skill_md_name_def)
  ultimately show ?thesis using built_manifest_is_accepted_and_reproduced [OF m] m by blast
qed



text \<open>A manifest pins the content: whatever archive an untrusted peer sends, entries are
  returned only when they form a valid skill directory, and any two archives accepted for one
  manifest carry the same entries, unless two of their files are a collision of the hash.\<close>

theorem accepted_snapshots_agree:
  assumes "validate_skill_snapshot U Y H A n m b = Ok es" and "validate_skill_snapshot U Y H A' n m b' = Ok fs"
    and "\<And>p c x q d y. OE_File p c x \<in> set es \<union> set fs \<Longrightarrow> OE_File q d y \<in> set es \<union> set fs \<Longrightarrow>
      H c = H d \<Longrightarrow> c = d"
  shows "mset es = mset fs \<and> (\<exists>vs. validate_skill_directory U Y n (map as_skill_entry es) = Ok vs)"
proof -
  have es: "build_skill_manifest U Y H n es = Ok m" and fs: "build_skill_manifest U Y H n fs = Ok m"
    using assms(1,2) by (auto simp: validate_skill_snapshot_Ok_iff)
  obtain vs ws where v: "validate_skill_directory U Y n (map as_skill_entry es) = Ok vs"
    and w: "validate_skill_directory U Y n (map as_skill_entry fs) = Ok ws"
    and c: "canonical_entries H es = canonical_entries H fs"
    using es fs by (auto simp: build_skill_manifest_Ok_iff)
  have "distinct es" "distinct fs"
    using validated_directory_facts(1) [OF v] validated_directory_facts(1) [OF w] by (auto simp: distinct_map)
  moreover have "manifest_of H ` set es = manifest_of H ` set fs"
    using c by (metis canonical_entries_set)
  then have "set es = set fs"
    using inj_on_image_eq_iff [OF manifest_of_inj [of "set es \<union> set fs" H]] assms(3) by blast
  ultimately show ?thesis using v set_eq_iff_mset_eq_distinct by blast
qed

theorem accepted_snapshots_agree_witness:
  "\<exists>A m b es. validate_skill_snapshot ascii_tables flat_lib zero_hash A ''review'' m b = Ok es \<and>
     mset es = mset (sort_key oe_path example_dir)"
proof -
  let ?A = "one_archive (map item_of (sort_key oe_path example_dir))"
  obtain snap where "build_deterministic_skill_snapshot ascii_tables flat_lib zero_hash ?A ''review'' example_dir = Ok snap"
    using example_dir_snapshot by blast
  from snapshot_roundtrip [OF this one_archive_reads_back example_dir_text]
  have v: "validate_skill_snapshot ascii_tables flat_lib zero_hash ?A ''review'' (ds_manifest snap) (ds_bytes snap) =
    Ok (sort_key oe_path example_dir)" .
  have "zero_hash example_md \<noteq> zero_hash ''#!''"
    by (simp add: zero_hash_def example_md_def)
  then have "mset (sort_key oe_path example_dir) = mset (sort_key oe_path example_dir)"
    by (intro accepted_snapshots_agree [OF v v, THEN conjunct1])
      (auto simp: example_dir_def simp del: sort_key_simps)
  with v show ?thesis by blast
qed

end
