(* ===== verification/Merge_Trees.thy ===== *)
theory Merge_Trees
  imports Snapshot
begin

text \<open>
  \<open>crates/denju-core/src/merge.rs\<close>: the deterministic three-way merge of skill trees.  The diff
  of the \<open>similar\<close> crate is an argument \<open>D\<close>; \<open>valid_diff\<close> states what it documents: its
  operations tile both sequences, and equal ranges carry equal lines.  The lemmas show that the
  merge is symmetric, that simultaneous edits of one text merge exactly when no two of them
  touch the same lines, and that every path of a clean result is what its three versions
  determine.
\<close>

section \<open>Data\<close>

datatype MergeConflictKind = AddAdd | DeleteModify | TypeOrMetadata | BinaryContent | TextOverlap

record MergeConflict =
  mc_path :: string
  mc_kind :: MergeConflictKind

datatype SkillMergeResult = Clean "OwnedSkillEntry list" | Conflicted "MergeConflict list"

datatype DiffTag = DT_Equal | DT_Delete | DT_Insert | DT_Replace

record diff_op =
  op_tag :: DiffTag
  old_start :: nat
  old_end :: nat
  new_start :: nat
  new_end :: nat

type_synonym diff_lib = "string list \<Rightarrow> string list \<Rightarrow> diff_op list"

record TextEdit =
  ed_start :: nat
  ed_end :: nat
  ed_replacement :: "string list"

section \<open>Text\<close>

definition text_lines :: "string \<Rightarrow> string list" where
  "text_lines v = split_inclusive newline v"

definition slice :: "'a list \<Rightarrow> nat \<Rightarrow> nat \<Rightarrow> 'a list" where
  "slice xs i j = take (j - i) (drop i xs)"

text \<open>One operation of the diff: skipped when equal, joined to the last edit when adjacent.\<close>

definition push_edit :: "string list \<Rightarrow> TextEdit list \<Rightarrow> diff_op \<Rightarrow> TextEdit list" where
  "push_edit variant edits op =
     (if op_tag op = DT_Equal then edits
      else (let edit = \<lparr>ed_start = old_start op, ed_end = old_end op,
                        ed_replacement = slice variant (new_start op) (new_end op)\<rparr>
            in if edits \<noteq> [] \<and> ed_end (last edits) = ed_start edit
               then butlast edits @ [(last edits)\<lparr>ed_end := ed_end edit,
                      ed_replacement := ed_replacement (last edits) @ ed_replacement edit\<rparr>]
               else edits @ [edit]))"

definition text_edits :: "diff_lib \<Rightarrow> string list \<Rightarrow> string list \<Rightarrow> TextEdit list" where
  "text_edits D base variant = foldl (push_edit variant) [] (D base variant)"

definition edits_overlap :: "TextEdit \<Rightarrow> TextEdit \<Rightarrow> bool" where
  "edits_overlap a b =
     (case (ed_start a = ed_end a, ed_start b = ed_end b) of
        (True, True) \<Rightarrow> ed_start a = ed_start b
      | (True, False) \<Rightarrow> ed_start b \<le> ed_start a \<and> ed_start a < ed_end b
      | (False, True) \<Rightarrow> ed_start a \<le> ed_start b \<and> ed_start b < ed_end a
      | (False, False) \<Rightarrow> ed_start a < ed_end b \<and> ed_start b < ed_end a)"

text \<open>The loop that adds the second side's edits.\<close>

fun combine_edits :: "TextEdit list \<Rightarrow> TextEdit list \<Rightarrow> TextEdit list option" where
  "combine_edits edits [] = Some edits"
| "combine_edits edits (candidate # cs) =
     (if candidate \<in> set edits then combine_edits edits cs
      else if list_ex (\<lambda>existing. edits_overlap existing candidate) edits then None
      else combine_edits (edits @ [candidate]) cs)"

definition edit_key :: "TextEdit \<Rightarrow> nat \<times> nat \<times> string list" where
  "edit_key e = (ed_start e, ed_end e, ed_replacement e)"

text \<open>The loop that writes the output.\<close>

fun write_edits :: "string list \<Rightarrow> string \<Rightarrow> nat \<Rightarrow> TextEdit list \<Rightarrow> string option" where
  "write_edits base_lines output cursor [] = Some (output @ concat (drop cursor base_lines))"
| "write_edits base_lines output cursor (edit # es) =
     (if ed_start edit < cursor then None
      else write_edits base_lines
        (output @ concat (slice base_lines cursor (ed_start edit)) @ concat (ed_replacement edit))
        (ed_end edit) es)"

definition merge_text :: "diff_lib \<Rightarrow> string \<Rightarrow> string \<Rightarrow> string \<Rightarrow> string option" where
  "merge_text D base a b =
     (let base_lines = text_lines base;
          a_edits = text_edits D base_lines (text_lines a);
          b_edits = text_edits D base_lines (text_lines b)
      in Option.bind (combine_edits a_edits b_edits) (\<lambda>edits.
           write_edits base_lines [] 0 (sort_key edit_key edits)))"

section \<open>Files and trees\<close>

definition merge_file_bytes ::
  "diff_lib \<Rightarrow> string \<Rightarrow> string \<Rightarrow> string \<Rightarrow> (string, MergeConflictKind) result" where
  "merge_file_bytes D base a b =
     (if a = b then Ok a
      else if a = base then Ok b
      else if b = base then Ok a
      else res_bind (ok_or (from_utf8 base) BinaryContent) (\<lambda>base.
           res_bind (ok_or (from_utf8 a) BinaryContent) (\<lambda>a.
           res_bind (ok_or (from_utf8 b) BinaryContent) (\<lambda>b.
           ok_or (merge_text D base a b) TextOverlap))))"

definition merge_scalar :: "'t \<Rightarrow> 't \<Rightarrow> 't \<Rightarrow> 't option" where
  "merge_scalar base a b =
     (if a = b then Some a else if a = base then Some b else if b = base then Some a else None)"

fun merge_changed_path :: "diff_lib \<Rightarrow> OwnedSkillEntry option \<Rightarrow> OwnedSkillEntry option \<Rightarrow>
    OwnedSkillEntry option \<Rightarrow> (OwnedSkillEntry option, MergeConflictKind) result" where
  "merge_changed_path D (Some base) (Some a) (Some b) =
     (case (base, a, b) of
        (OE_File path base_bytes base_executable, OE_File _ a_bytes a_executable,
         OE_File _ b_bytes b_executable) \<Rightarrow>
          res_bind (ok_or (merge_scalar base_executable a_executable b_executable) TypeOrMetadata)
            (\<lambda>executable.
          res_bind (merge_file_bytes D base_bytes a_bytes b_bytes) (\<lambda>bytes.
          Ok (Some (OE_File path bytes executable))))
      | _ \<Rightarrow> Err TypeOrMetadata)"
| "merge_changed_path D base a b = Err (if base = None then AddAdd else DeleteModify)"

text \<open>Collecting into a \<open>BTreeMap\<close>: the last entry of a path stays.\<close>

definition by_path :: "OwnedSkillEntry list \<Rightarrow> string \<Rightarrow> OwnedSkillEntry option" where
  "by_path entries = map_of (rev (map (\<lambda>e. (oe_path e, e)) entries))"

definition opt_list :: "'a option \<Rightarrow> 'a list" where
  "opt_list x = (case x of None \<Rightarrow> [] | Some v \<Rightarrow> [v])"

type_synonym path_map = "string \<Rightarrow> OwnedSkillEntry option"

text \<open>The loop body: entries and conflicts so far, and the next path.\<close>

fun merge_path :: "diff_lib \<Rightarrow> path_map \<Rightarrow> path_map \<Rightarrow> path_map \<Rightarrow> string set \<Rightarrow>
    OwnedSkillEntry list \<times> MergeConflict list \<Rightarrow> string \<Rightarrow> OwnedSkillEntry list \<times> MergeConflict list" where
  "merge_path D base head_a head_b resolved (entries, conflicts) path =
     (let base_entry = base path; a = head_a path; b = head_b path
      in if a = b then (entries @ opt_list a, conflicts)
         else if a = base_entry then (entries @ opt_list b, conflicts)
         else if b = base_entry then (entries @ opt_list a, conflicts)
         else case merge_changed_path D base_entry a b of
                Ok entry \<Rightarrow> (entries @ opt_list entry, conflicts)
              | Err kind \<Rightarrow>
                  if path \<in> resolved then (entries @ opt_list a, conflicts)
                  else (entries, conflicts @ [\<lparr>mc_path = path, mc_kind = kind\<rparr>]))"

definition merge_skill_entries_with_resolutions :: "diff_lib \<Rightarrow> OwnedSkillEntry list \<Rightarrow>
    OwnedSkillEntry list \<Rightarrow> OwnedSkillEntry list \<Rightarrow> string set \<Rightarrow> SkillMergeResult" where
  "merge_skill_entries_with_resolutions D base head_a head_b resolved_head_a_paths =
     (let paths = sorted_list_of_set (set (map oe_path base @ map oe_path head_a @ map oe_path head_b));
          (entries, conflicts) =
            foldl (merge_path D (by_path base) (by_path head_a) (by_path head_b) resolved_head_a_paths)
              ([], []) paths
      in if conflicts = [] then Clean (sort_key oe_path entries) else Conflicted conflicts)"

definition merge_skill_entries :: "diff_lib \<Rightarrow> OwnedSkillEntry list \<Rightarrow> OwnedSkillEntry list \<Rightarrow>
    OwnedSkillEntry list \<Rightarrow> SkillMergeResult" where
  "merge_skill_entries D base head_a head_b =
     merge_skill_entries_with_resolutions D base head_a head_b {}"

section \<open>Edits of a valid diff\<close>

text \<open>The operations of a diff from line \<open>i\<close> of the old and line \<open>j\<close> of the new text.\<close>

fun tiles :: "string list \<Rightarrow> string list \<Rightarrow> nat \<Rightarrow> nat \<Rightarrow> diff_op list \<Rightarrow> bool" where
  "tiles old new i j [] = (i = length old \<and> j = length new)"
| "tiles old new i j (op # ops) =
     (old_start op = i \<and> new_start op = j \<and> i \<le> old_end op \<and> j \<le> new_end op \<and>
      old_end op \<le> length old \<and> new_end op \<le> length new \<and>
      (op_tag op = DT_Equal \<longrightarrow> slice old i (old_end op) = slice new j (new_end op)) \<and>
      tiles old new (old_end op) (new_end op) ops)"

definition valid_diff :: "diff_lib \<Rightarrow> bool" where
  "valid_diff D \<longleftrightarrow> (\<forall>old new. tiles old new 0 0 (D old new))"

text \<open>The lines of the base from \<open>c\<close> to \<open>hi\<close> with edits applied.\<close>

fun patch :: "string list \<Rightarrow> nat \<Rightarrow> nat \<Rightarrow> TextEdit list \<Rightarrow> string list" where
  "patch base c hi [] = slice base c hi"
| "patch base c hi (e # es) = slice base c (ed_start e) @ ed_replacement e @ patch base (ed_end e) hi es"

fun ordered :: "nat \<Rightarrow> TextEdit list \<Rightarrow> bool" where
  "ordered c [] = True"
| "ordered c (e # es) = (c \<le> ed_start e \<and> ordered (ed_end e) es)"

lemma slice_append: "i \<le> j \<Longrightarrow> j \<le> k \<Longrightarrow> slice xs i k = slice xs i j @ slice xs j k"
  using take_add [of "j - i" "k - j" "drop i xs"] by (simp add: slice_def)

lemma slice_same [simp]: "slice xs i i = []"
  by (simp add: slice_def)

lemma slice_end: "slice xs i (length xs) = drop i xs"
  by (simp add: slice_def)

lemma take_slice: "j \<le> k \<Longrightarrow> take k xs = take j xs @ slice xs j k"
  using slice_append [of 0 j k xs] by (simp add: slice_def)

lemma patch_snoc: "patch base c hi (es @ [e]) = patch base c (ed_start e) es @ ed_replacement e @ slice base (ed_end e) hi"
  by (induction es arbitrary: c) auto

lemma patch_extend:
  assumes "\<And>e. e \<in> set es \<Longrightarrow> ed_end e \<le> i" "c \<le> i" "i \<le> k"
  shows "patch base c k es = patch base c i es @ slice base i k"
proof (cases es rule: rev_cases)
  case Nil
  then show ?thesis using assms slice_append by simp
next
  case (snoc fs f)
  then have "ed_end f \<le> i" using assms(1) by simp
  then show ?thesis using slice_append [of "ed_end f" i k base] assms(3) by (simp add: snoc patch_snoc)
qed

definition separated :: "TextEdit list \<Rightarrow> bool" where
  "separated es \<longleftrightarrow> sorted_wrt (\<lambda>e f. ed_end e < ed_start f) es \<and> (\<forall>e \<in> set es. ed_start e \<le> ed_end e)"

text \<open>Invariant of the loop over the operations: the edits so far rewrite the first \<open>i\<close> lines of
  the base into the first \<open>j\<close> lines of the variant.\<close>

definition edits_reach :: "string list \<Rightarrow> string list \<Rightarrow> nat \<Rightarrow> nat \<Rightarrow> TextEdit list \<Rightarrow> bool" where
  "edits_reach base variant i j es \<longleftrightarrow>
     separated es \<and> (\<forall>e \<in> set es. ed_end e \<le> i) \<and> patch base 0 i es = take j variant"

lemma push_edit_reach:
  assumes "edits_reach base variant (old_start op) (new_start op) es"
    and "old_start op \<le> old_end op" "new_start op \<le> new_end op"
    and "op_tag op = DT_Equal \<Longrightarrow> slice base (old_start op) (old_end op) = slice variant (new_start op) (new_end op)"
  shows "edits_reach base variant (old_end op) (new_end op) (push_edit variant es op)"
proof -
  let ?i = "old_start op" let ?k = "old_end op" let ?r = "slice variant (new_start op) (new_end op)"
  have sep: "separated es" and le: "\<And>e. e \<in> set es \<Longrightarrow> ed_end e \<le> ?i"
    and p: "patch base 0 ?i es = take (new_start op) variant"
    using assms(1) by (auto simp: edits_reach_def)
  have le': "e \<in> set es \<Longrightarrow> ed_end e \<le> ?k" for e using le [of e] assms(2) by simp
  have tv: "take (new_end op) variant = take (new_start op) variant @ ?r"
    using assms(3) by (rule take_slice)
  have ext: "patch base 0 ?k es = patch base 0 ?i es @ slice base ?i ?k"
    by (rule patch_extend) (use le assms(2) in auto)
  show ?thesis
  proof (cases "op_tag op = DT_Equal")
    case True
    then show ?thesis using sep le' ext p tv assms(4) by (simp add: push_edit_def edits_reach_def)
  next
    case ne: False
    show ?thesis
    proof (cases "es \<noteq> [] \<and> ed_end (last es) = ?i")
      case True
      then obtain fs l where es: "es = fs @ [l]" "ed_end l = ?i" by (cases es rule: rev_cases) auto
      then show ?thesis
        using ne sep le' p tv assms(2)
        by (auto simp: push_edit_def edits_reach_def separated_def sorted_wrt_append patch_snoc)
    next
      case False
      have "ed_end e < ?i" if "e \<in> set es" for e
      proof -
        obtain fs l where es: "es = fs @ [l]" using \<open>e \<in> set es\<close> by (cases es rule: rev_cases) auto
        then have l: "ed_end l < ?i" using False le [of l] by auto
        have "e = l \<or> ed_end e < ed_start l" "ed_start l \<le> ed_end l"
          using sep that by (auto simp: es separated_def sorted_wrt_append)
        with l show ?thesis by auto
      qed
      then show ?thesis
        using ne False sep le' p tv assms(2)
        by (auto simp: push_edit_def edits_reach_def separated_def sorted_wrt_append patch_snoc)
    qed
  qed
qed

lemma tiles_reach:
  assumes "tiles base variant i j ops" and "edits_reach base variant i j es"
  shows "edits_reach base variant (length base) (length variant) (foldl (push_edit variant) es ops)"
  using assms
proof (induction ops arbitrary: i j es)
  case (Cons op ops)
  then have "edits_reach base variant (old_end op) (new_end op) (push_edit variant es op)"
    by (intro push_edit_reach) auto
  then show ?case using Cons.IH [of "old_end op" "new_end op"] Cons.prems(1) by simp
qed simp

lemma text_edits_facts:
  assumes "valid_diff D"
  shows "separated (text_edits D base variant)" and "\<And>e. e \<in> set (text_edits D base variant) \<Longrightarrow> ed_end e \<le> length base"
    and "patch base 0 (length base) (text_edits D base variant) = variant"
proof -
  have "edits_reach base variant 0 0 []" by (simp add: edits_reach_def separated_def)
  with assms have "edits_reach base variant (length base) (length variant) (text_edits D base variant)"
    unfolding text_edits_def valid_diff_def using tiles_reach by blast
  then show "separated (text_edits D base variant)"
    and "\<And>e. e \<in> set (text_edits D base variant) \<Longrightarrow> ed_end e \<le> length base"
    and "patch base 0 (length base) (text_edits D base variant) = variant"
    by (auto simp: edits_reach_def)
qed

section \<open>Combining edits\<close>

definition apart :: "TextEdit set \<Rightarrow> bool" where
  "apart E \<longleftrightarrow> (\<forall>e \<in> E. \<forall>f \<in> E. e \<noteq> f \<longrightarrow> \<not> edits_overlap e f)"

definition compatible :: "TextEdit set \<Rightarrow> TextEdit set \<Rightarrow> bool" where
  "compatible A B \<longleftrightarrow> (\<forall>a \<in> A. \<forall>b \<in> B. a \<noteq> b \<longrightarrow> \<not> edits_overlap a b)"

lemma edits_overlap_sym: "edits_overlap a b = edits_overlap b a"
  by (auto simp: edits_overlap_def split: bool.splits)

lemma compatible_sym: "compatible A B = compatible B A"
  unfolding compatible_def using edits_overlap_sym by metis

lemma separated_apart: "separated es \<Longrightarrow> distinct es \<and> apart (set es)"
proof (induction es)
  case (Cons e es)
  have lt: "\<forall>f \<in> set es. ed_end e < ed_start f" and wf: "ed_start e \<le> ed_end e" "\<forall>f \<in> set es. ed_start f \<le> ed_end f"
    using Cons.prems by (auto simp: separated_def)
  then have no: "\<not> edits_overlap e f" if "f \<in> set es" for f
    using that by (fastforce simp: edits_overlap_def split: bool.splits)
  have "e \<notin> set es" using lt wf by fastforce
  then show ?case
    using Cons no edits_overlap_sym by (auto simp: separated_def apart_def)
qed (simp add: apart_def)

lemma combine_edits_eq:
  assumes "distinct B" "apart (set B)"
  shows "combine_edits E B =
    (if \<forall>c \<in> set B. c \<in> set E \<or> (\<forall>e \<in> set E. \<not> edits_overlap e c)
     then Some (E @ filter (\<lambda>c. c \<notin> set E) B) else None)"
  using assms
proof (induction B arbitrary: E)
  case (Cons c B)
  have ap: "distinct B" "apart (set B)" using Cons.prems by (auto simp: apart_def)
  have no: "\<not> edits_overlap c f" "f \<noteq> c" if "f \<in> set B" for f
    using Cons.prems that by (auto simp: apart_def)
  show ?case
  proof (cases "c \<in> set E")
    case True
    then show ?thesis using Cons.IH [OF ap, of E] by simp
  next
    case False
    have "filter (\<lambda>x. x \<notin> set (E @ [c])) B = filter (\<lambda>x. x \<notin> set E) B"
      by (rule filter_cong) (use no in auto)
    then show ?thesis
      using False Cons.IH [OF ap, of "E @ [c]"] no by (auto simp: list_ex_iff)
  qed
qed simp

lemma combine_edits_compatible:
  assumes "distinct A" "apart (set A)" "distinct B" "apart (set B)"
  shows "combine_edits A B = (if compatible (set A) (set B) then Some (A @ filter (\<lambda>c. c \<notin> set A) B) else None)"
proof -
  have "(\<forall>c \<in> set B. c \<in> set A \<or> (\<forall>e \<in> set A. \<not> edits_overlap e c)) \<longleftrightarrow> compatible (set A) (set B)"
    using assms(2) unfolding compatible_def apart_def by metis
  then show ?thesis by (simp add: combine_edits_eq [OF assms(3,4)])
qed

lemma edit_key_inj: "inj_on edit_key X"
  by (auto simp: inj_on_def edit_key_def intro: TextEdit.equality)

lemma sorted_apart_ordered:
  assumes "sorted (map edit_key es)" "distinct es" "apart (set es)" "\<forall>e \<in> set es. ed_start e \<le> ed_end e"
    and "\<forall>e \<in> set es. c \<le> ed_start e"
  shows "ordered c es"
  using assms
proof (induction es arbitrary: c)
  case (Cons e es)
  have "ed_end e \<le> ed_start f" if "f \<in> set es" for f
  proof -
    have "ed_start e \<le> ed_start f" using Cons.prems(1) that by (auto simp: edit_key_def)
    moreover have "\<not> edits_overlap e f" "ed_start e \<le> ed_end e" "ed_start f \<le> ed_end f"
      using Cons.prems(2-4) that by (auto simp: apart_def)
    ultimately show ?thesis by (auto simp: edits_overlap_def split: bool.splits)
  qed
  then have "ordered (ed_end e) es"
    using Cons.prems by (intro Cons.IH) (auto simp: apart_def)
  then show ?case using Cons.prems(5) by simp
qed simp

lemma write_edits_eq:
  "write_edits base out c es =
     (if ordered c es then Some (out @ concat (patch base c (length base) es)) else None)"
  by (induction es arbitrary: out c) (auto simp: slice_end)

text \<open>The edits of both sides, in the order in which they are written.\<close>

definition merged_edits :: "TextEdit list \<Rightarrow> TextEdit list \<Rightarrow> TextEdit list" where
  "merged_edits A B = sort_key edit_key (A @ filter (\<lambda>c. c \<notin> set A) B)"

lemma set_merged_edits: "set (merged_edits A B) = set A \<union> set B"
  by (auto simp: merged_edits_def)

lemma merged_edits_sym:
  assumes "distinct A" "distinct B"
  shows "merged_edits A B = merged_edits B A"
  unfolding merged_edits_def
proof (rule sort_key_canonical)
  show "mset (A @ filter (\<lambda>c. c \<notin> set A) B) = mset (B @ filter (\<lambda>c. c \<notin> set B) A)"
    using assms by (intro set_eq_iff_mset_eq_distinct [THEN iffD1]) auto
qed (rule edit_key_inj)

lemma merged_edits_ordered:
  assumes "separated A" "separated B" "compatible (set A) (set B)"
  shows "ordered 0 (merged_edits A B)"
proof (rule sorted_apart_ordered)
  have a: "distinct A" "apart (set A)" "distinct B" "apart (set B)"
    using separated_apart assms(1,2) by blast+
  show "distinct (merged_edits A B)" using a by (auto simp: merged_edits_def)
  show "apart (set (merged_edits A B))"
    using a assms(3) compatible_sym [of "set A" "set B"]
    unfolding set_merged_edits apart_def compatible_def by blast
  show "\<forall>e \<in> set (merged_edits A B). ed_start e \<le> ed_end e"
    using assms(1,2) by (auto simp: set_merged_edits separated_def)
qed (simp_all add: merged_edits_def)

text \<open>The edits one side made.\<close>

definition side_edits :: "diff_lib \<Rightarrow> string \<Rightarrow> string \<Rightarrow> TextEdit list" where
  "side_edits D base v = text_edits D (text_lines base) (text_lines v)"

lemma merge_text_eq:
  assumes "valid_diff D"
  shows "merge_text D base a b =
    (if compatible (set (side_edits D base a)) (set (side_edits D base b))
     then Some (concat (patch (text_lines base) 0 (length (text_lines base))
       (merged_edits (side_edits D base a) (side_edits D base b)))) else None)"
proof -
  let ?A = "side_edits D base a" let ?B = "side_edits D base b"
  have s: "separated ?A" "separated ?B"
    using text_edits_facts(1) [OF assms(1)] by (auto simp: side_edits_def)
  have "combine_edits ?A ?B =
      (if compatible (set ?A) (set ?B) then Some (?A @ filter (\<lambda>c. c \<notin> set ?A) ?B) else None)"
    using s separated_apart by (intro combine_edits_compatible) auto
  then show ?thesis
    using merged_edits_ordered [OF s]
    by (simp add: merge_text_def write_edits_eq merged_edits_def Let_def flip: side_edits_def)
qed

lemma merge_text_sym: "valid_diff D \<Longrightarrow> merge_text D base a b = merge_text D base b a"
proof -
  assume v: "valid_diff D"
  let ?A = "side_edits D base a"
  let ?B = "side_edits D base b"
  have "distinct ?A" "distinct ?B"
    using text_edits_facts(1) [OF v] separated_apart unfolding side_edits_def by blast+
  then have "merged_edits ?A ?B = merged_edits ?B ?A" by (rule merged_edits_sym)
  then show ?thesis
    using compatible_sym [of "set ?A" "set ?B"] by (simp add: merge_text_eq [OF v])
qed

lemma separated_sorted: "separated es \<Longrightarrow> sorted (map edit_key es)"
  unfolding separated_def sorted_map
  by (elim conjE, rule sorted_wrt_mono_rel [rotated], assumption)
    (force simp: edit_key_def less_eq_prod_def)

lemma concat_text_lines [simp]: "concat (text_lines v) = v"
  by (simp add: text_lines_def)

lemma merge_text_absorbs:
  assumes "valid_diff D"
    and "set (side_edits D base b) \<subseteq> set (side_edits D base a)"
  shows "merge_text D base a b = Some a"
proof -
  let ?A = "side_edits D base a"
  let ?B = "side_edits D base b"
  have sep: "separated ?A" using text_edits_facts(1) [OF assms(1)] by (simp add: side_edits_def)
  then have "compatible (set ?A) (set ?B)"
    using separated_apart assms(2) unfolding compatible_def apart_def by blast
  moreover have "merged_edits ?A ?B = ?A"
  proof -
    have "filter (\<lambda>c. c \<notin> set ?A) ?B = []" using assms(2) by (auto simp: filter_empty_conv)
    then show ?thesis using separated_sorted [OF sep] by (simp add: merged_edits_def sort_key_id)
  qed
  ultimately show ?thesis by (simp add: merge_text_eq [OF assms(1)] text_edits_facts(3) [OF assms(1)] side_edits_def)
qed

section \<open>Trees\<close>

definition path_outcome :: "diff_lib \<Rightarrow> path_map \<Rightarrow> path_map \<Rightarrow> path_map \<Rightarrow> string \<Rightarrow>
    (OwnedSkillEntry option, MergeConflictKind) result" where
  "path_outcome D base a b p =
     (if a p = b p then Ok (a p) else if a p = base p then Ok (b p) else if b p = base p then Ok (a p)
      else merge_changed_path D (base p) (a p) (b p))"

definition resolved_outcome :: "diff_lib \<Rightarrow> path_map \<Rightarrow> path_map \<Rightarrow> path_map \<Rightarrow> string set \<Rightarrow> string \<Rightarrow>
    (OwnedSkillEntry option, MergeConflictKind) result" where
  "resolved_outcome D base a b R p =
     (case path_outcome D base a b p of Ok e \<Rightarrow> Ok e | Err k \<Rightarrow> if p \<in> R then Ok (a p) else Err k)"

definition kept :: "(OwnedSkillEntry option, MergeConflictKind) result \<Rightarrow> OwnedSkillEntry list" where
  "kept r = (case r of Ok e \<Rightarrow> opt_list e | Err k \<Rightarrow> [])"

definition clash :: "string \<Rightarrow> (OwnedSkillEntry option, MergeConflictKind) result \<Rightarrow> MergeConflict list" where
  "clash p r = (case r of Ok e \<Rightarrow> [] | Err k \<Rightarrow> [\<lparr>mc_path = p, mc_kind = k\<rparr>])"

lemma merge_path_eq:
  "merge_path D base a b R (es, cs) p =
     (es @ kept (resolved_outcome D base a b R p), cs @ clash p (resolved_outcome D base a b R p))"
  by (auto simp: Let_def resolved_outcome_def path_outcome_def kept_def clash_def split: result.splits)

lemma merge_paths_eq:
  "foldl (merge_path D base a b R) (es, cs) ps =
     (es @ concat (map (\<lambda>p. kept (resolved_outcome D base a b R p)) ps),
      cs @ concat (map (\<lambda>p. clash p (resolved_outcome D base a b R p)) ps))"
  by (induction ps arbitrary: es cs) (simp_all add: merge_path_eq del: merge_path.simps)

lemma by_path_Some: "by_path es p = Some e \<Longrightarrow> oe_path e = p \<and> e \<in> set es"
  unfolding by_path_def by (drule map_of_SomeD) auto

lemma by_path_None_iff: "by_path es p = None \<longleftrightarrow> p \<notin> oe_path ` set es"
  by (force simp: by_path_def map_of_eq_None_iff)

lemma by_path_distinct:
  assumes "distinct (map oe_path es)"
  shows "by_path es p = Some e \<longleftrightarrow> e \<in> set es \<and> oe_path e = p"
proof -
  have "distinct (map fst (rev (map (\<lambda>e. (oe_path e, e)) es)))"
    using assms by (simp add: comp_def flip: rev_map)
  then show ?thesis by (auto simp: by_path_def)
qed

lemma merge_changed_path_key:
  assumes "merge_changed_path D (by_path base p) (by_path a p) (by_path b p) = Ok (Some e)"
  shows "oe_path e = p"
  using assms by_path_Some [of base p]
  by (cases "by_path base p"; cases "by_path a p"; cases "by_path b p")
    (auto simp: res_simps split: OwnedSkillEntry.splits)

lemma resolved_outcome_key:
  "resolved_outcome D (by_path base) (by_path a) (by_path b) R p = Ok (Some e) \<Longrightarrow> oe_path e = p"
  using merge_changed_path_key [of D base p a b] by_path_Some [of a p] by_path_Some [of b p]
  by (auto simp: resolved_outcome_def path_outcome_def split: if_splits result.splits)

definition all_paths :: "OwnedSkillEntry list \<Rightarrow> OwnedSkillEntry list \<Rightarrow> OwnedSkillEntry list \<Rightarrow> string list" where
  "all_paths base a b = sorted_list_of_set (set (map oe_path base @ map oe_path a @ map oe_path b))"

lemma all_paths_facts:
  "sorted (all_paths base a b) \<and> distinct (all_paths base a b)"
  "p \<in> set (all_paths base a b) \<longleftrightarrow> p \<in> oe_path ` set base \<or> p \<in> oe_path ` set a \<or> p \<in> oe_path ` set b"
  by (auto simp: all_paths_def)

lemma concat_kept_sorted:
  assumes "sorted ps" "\<And>p e. f p = Ok (Some e) \<Longrightarrow> oe_path e = p"
  shows "sorted (map oe_path (concat (map (\<lambda>p. kept (f p)) ps))) \<and>
    set (map oe_path (concat (map (\<lambda>p. kept (f p)) ps))) \<subseteq> set ps"
  using assms
  by (induction ps) (auto simp: sorted_append kept_def opt_list_def split: result.splits option.splits)

lemma concat_kept_distinct:
  assumes "distinct ps" "\<And>p e. f p = Ok (Some e) \<Longrightarrow> oe_path e = p"
  shows "distinct (map oe_path (concat (map (\<lambda>p. kept (f p)) ps)))"
  using assms
  by (induction ps) (auto simp: kept_def opt_list_def split: result.splits option.splits)

lemma in_kept: "e \<in> set (kept r) \<longleftrightarrow> r = Ok (Some e)"
  by (auto simp: kept_def opt_list_def split: result.splits option.splits)

lemma clash_path: "mc_path ` set (clash q r) = (if is_ok r then {} else {q})"
  by (cases r) (auto simp: clash_def)

lemma clash_Nil_iff: "clash p r = [] \<longleftrightarrow> is_ok r"
  by (cases r) (auto simp: clash_def)

lemma merge_result_eq:
  "merge_skill_entries_with_resolutions D base a b R =
    (if \<forall>p \<in> set (all_paths base a b). is_ok (resolved_outcome D (by_path base) (by_path a) (by_path b) R p)
     then Clean (concat (map (\<lambda>p. kept (resolved_outcome D (by_path base) (by_path a) (by_path b) R p))
       (all_paths base a b)))
     else Conflicted (concat (map (\<lambda>p. clash p (resolved_outcome D (by_path base) (by_path a) (by_path b) R p))
       (all_paths base a b))))"
proof -
  let ?f = "resolved_outcome D (by_path base) (by_path a) (by_path b) R"
  have "sorted (map oe_path (concat (map (\<lambda>p. kept (?f p)) (all_paths base a b))))"
    using concat_kept_sorted [of "all_paths base a b" ?f] resolved_outcome_key [of D base a b R]
    by (simp add: all_paths_facts)
  then have "sort_key oe_path (concat (map (\<lambda>p. kept (?f p)) (all_paths base a b))) =
      concat (map (\<lambda>p. kept (?f p)) (all_paths base a b))"
    by (rule sort_key_id)
  then show ?thesis
    unfolding merge_skill_entries_with_resolutions_def merge_paths_eq Let_def all_paths_def [symmetric]
    by (simp add: clash_Nil_iff)
qed

lemma by_path_outside: "p \<notin> set (all_paths base a b) \<Longrightarrow>
    by_path base p = None \<and> by_path a p = None \<and> by_path b p = None"
  by (simp add: by_path_None_iff all_paths_facts)

text \<open>What a clean result holds at every path.\<close>

lemma clean_result_at:
  assumes "merge_skill_entries_with_resolutions D base a b R = Clean es"
  shows "sorted (map oe_path es) \<and> distinct (map oe_path es) \<and>
    resolved_outcome D (by_path base) (by_path a) (by_path b) R p = Ok (by_path es p)"
proof -
  let ?f = "resolved_outcome D (by_path base) (by_path a) (by_path b) R" and ?ps = "all_paths base a b"
  have ok: "is_ok (?f q)" if "q \<in> set ?ps" for q
    using assms that by (auto simp: merge_result_eq split: if_splits)
  have es: "es = concat (map (\<lambda>p. kept (?f p)) ?ps)"
    using assms by (auto simp: merge_result_eq split: if_splits)
  note key = resolved_outcome_key [of D base a b R]
  have so: "sorted (map oe_path es)" and sub: "set (map oe_path es) \<subseteq> set ?ps"
    unfolding es using concat_kept_sorted [of ?ps ?f] key by (simp_all add: all_paths_facts)
  have di: "distinct (map oe_path es)" unfolding es using concat_kept_distinct [of ?ps ?f] key by (simp add: all_paths_facts)
  have mem: "e \<in> set es \<longleftrightarrow> (\<exists>q \<in> set ?ps. ?f q = Ok (Some e))" for e
    by (simp add: es in_kept)
  have "?f p = Ok (by_path es p)"
  proof (cases "p \<in> set ?ps")
    case True
    then obtain x where x: "?f p = Ok x" using ok [of p] by (auto simp: is_ok_iff)
    have "by_path es p = Some e \<longleftrightarrow> x = Some e" for e
    proof -
      have "e \<in> set es \<and> oe_path e = p \<longleftrightarrow> ?f p = Ok (Some e)"
        using True key mem [of e] by blast
      then show ?thesis using x by (simp add: by_path_distinct [OF di])
    qed
    then have "by_path es p = x" by (cases x; cases "by_path es p") auto
    with x show ?thesis by simp
  next
    case False
    have n: "by_path es p = None" using sub False by (auto simp: by_path_None_iff)
    show ?thesis unfolding n using by_path_outside [OF False]
      by (simp add: resolved_outcome_def path_outcome_def)
  qed
  with so di show ?thesis by blast
qed

lemma merge_file_bytes_sym:
  assumes "valid_diff D"
  shows "merge_file_bytes D base a b = merge_file_bytes D base b a"
  using merge_text_sym [OF assms, of base a b]
  by (auto simp: merge_file_bytes_def from_utf8_def)

lemma merge_scalar_sym: "merge_scalar base a b = merge_scalar base b a"
  by (auto simp: merge_scalar_def)

lemma merge_changed_path_sym:
  assumes "valid_diff D"
  shows "merge_changed_path D base a b = merge_changed_path D base b a"
proof -
  note sym = merge_file_bytes_sym [OF assms] merge_scalar_sym
  have "merge_changed_path D (Some e) (Some f) (Some g) = merge_changed_path D (Some e) (Some g) (Some f)" for e f g
    using sym(1) [of _ "f_bytes" "g_bytes" for f_bytes g_bytes] sym(2)
    by (cases e; cases f; cases g) (simp_all add: sym(1) sym(2))
  then show ?thesis by (cases base; cases a; cases b) simp_all
qed

lemma path_outcome_sym:
  assumes "valid_diff D"
  shows "path_outcome D base a b p = path_outcome D base b a p"
  using merge_changed_path_sym [OF assms, of "base p" "a p" "b p"] by (auto simp: path_outcome_def)

lemma resolved_outcome_empty: "resolved_outcome D base a b {} = path_outcome D base a b"
  by (rule ext) (auto simp: resolved_outcome_def split: result.splits)

lemma fast_forward:
  assumes "distinct (map oe_path b)"
  shows "merge_skill_entries D base base b = Clean (sort_key oe_path b)"
proof -
  have out: "resolved_outcome D (by_path base) (by_path base) (by_path b) {} p = Ok (by_path b p)" for p
    by (auto simp: resolved_outcome_empty path_outcome_def)
  obtain es where es: "merge_skill_entries_with_resolutions D base base b {} = Clean es"
    by (simp add: merge_result_eq out)
  have at: "by_path es p = by_path b p" for p using clean_result_at [OF es, of p] out by simp
  have d: "distinct (map oe_path es)" and s: "sorted (map oe_path es)" using clean_result_at [OF es] by auto
  have "set es = set b"
    using at by (simp add: set_eq_iff) (metis by_path_distinct [OF d] by_path_distinct [OF assms])
  then have "mset es = mset b"
    using d assms by (intro set_eq_iff_mset_eq_distinct [THEN iffD1]) (auto simp: distinct_map)
  then have "sort_key oe_path es = sort_key oe_path b"
    using d by (intro sort_key_canonical) (auto simp: distinct_map)
  then show ?thesis using es s by (simp add: merge_skill_entries_def sort_key_id)
qed

section \<open>Properties\<close>

text \<open>C20. The merge is symmetric: two devices that merge the same three trees get the same
  result, clean or conflicted, whichever head they call theirs.\<close>

theorem merge_is_symmetric:
  assumes "valid_diff D"
  shows "merge_skill_entries D base a b = merge_skill_entries D base b a"
proof -
  have "all_paths base a b = all_paths base b a" by (simp add: all_paths_def Un_commute Un_left_commute)
  moreover have "path_outcome D (by_path base) (by_path a) (by_path b) =
      path_outcome D (by_path base) (by_path b) (by_path a)"
    by (rule ext) (rule path_outcome_sym [OF assms])
  ultimately show ?thesis
    by (simp add: merge_skill_entries_def merge_result_eq resolved_outcome_empty)
qed

text \<open>A diff that rewrites everything between the first and the last line in one operation.\<close>

definition whole_diff :: diff_lib where
  "whole_diff old new =
     (if old = new then [\<lparr>op_tag = DT_Equal, old_start = 0, old_end = length old, new_start = 0, new_end = length new\<rparr>]
      else if old \<noteq> [] \<and> new \<noteq> [] \<and> hd old = hd new
      then [\<lparr>op_tag = DT_Equal, old_start = 0, old_end = 1, new_start = 0, new_end = 1\<rparr>,
            \<lparr>op_tag = DT_Replace, old_start = 1, old_end = length old, new_start = 1, new_end = length new\<rparr>]
      else if old \<noteq> [] \<and> new \<noteq> [] \<and> last old = last new
      then [\<lparr>op_tag = DT_Replace, old_start = 0, old_end = length old - 1, new_start = 0, new_end = length new - 1\<rparr>,
            \<lparr>op_tag = DT_Equal, old_start = length old - 1, old_end = length old,
             new_start = length new - 1, new_end = length new\<rparr>]
      else [\<lparr>op_tag = DT_Replace, old_start = 0, old_end = length old, new_start = 0, new_end = length new\<rparr>])"

lemma slice_last: "xs \<noteq> [] \<Longrightarrow> slice xs (length xs - Suc 0) (length xs) = [last xs]"
  by (cases xs rule: rev_cases) (auto simp: slice_def)

lemma slice_first: "xs \<noteq> [] \<Longrightarrow> slice xs 0 (Suc 0) = [hd xs]"
  by (cases xs) (auto simp: slice_def)

lemma whole_diff_valid: "valid_diff whole_diff"
  unfolding valid_diff_def whole_diff_def
  by (auto simp: Suc_le_eq slice_last slice_first)

definition shared_base :: "OwnedSkillEntry list" where
  "shared_base = [OE_File ''f'' (''a'' @ newline # ''b'') False, OE_File ''g'' ''g'' False]"

definition merge_head_a :: "OwnedSkillEntry list" where
  "merge_head_a = [OE_File ''f'' (''x'' @ newline # ''b'') False, OE_File ''g'' ''g'' False]"

definition merge_head_b :: "OwnedSkillEntry list" where
  "merge_head_b = [OE_File ''f'' (''a'' @ newline # ''y'') True, OE_File ''h'' ''h'' False]"

definition merge_result :: "OwnedSkillEntry list" where
  "merge_result = [OE_File ''f'' (''x'' @ newline # ''y'') True, OE_File ''h'' ''h'' False]"

lemma merge_example: "merge_skill_entries whole_diff shared_base merge_head_a merge_head_b = Clean merge_result"
  by code_simp

theorem merge_is_symmetric_witness:
  "merge_skill_entries whole_diff shared_base merge_head_b merge_head_a = Clean merge_result"
  using merge_is_symmetric [OF whole_diff_valid, of shared_base merge_head_a merge_head_b] merge_example
  by simp

text \<open>C21. Simultaneous edits of one text merge exactly when no two different edits of the two
  sides touch the same base lines.  Then every edit of both sides is applied once, in order,
  and all other base lines are copied; in particular a side whose edits the other side also
  made leaves the other side's text.  The edits taken from a diff rewrite the base into the
  variant.\<close>

theorem text_merge_applies_both_sides:
  assumes "valid_diff D"
  shows "concat (patch (text_lines base) 0 (length (text_lines base)) (side_edits D base a)) = a \<and>
    (merge_text D base a b \<noteq> None \<longleftrightarrow>
       compatible (set (side_edits D base a)) (set (side_edits D base b))) \<and>
    (\<forall>out. merge_text D base a b = Some out \<longrightarrow>
       (\<exists>es. set es = set (side_edits D base a) \<union> set (side_edits D base b) \<and> distinct es \<and>
          ordered 0 es \<and> out = concat (patch (text_lines base) 0 (length (text_lines base)) es))) \<and>
    (set (side_edits D base b) \<subseteq> set (side_edits D base a) \<longrightarrow> merge_text D base a b = Some a)"
proof (intro conjI)
  let ?A = "side_edits D base a" let ?B = "side_edits D base b"
  have s: "separated ?A" "separated ?B"
    using text_edits_facts(1) [OF assms(1)] by (auto simp: side_edits_def)
  then have "distinct (merged_edits ?A ?B)"
    using separated_apart by (auto simp: merged_edits_def)
  then show "\<forall>out. merge_text D base a b = Some out \<longrightarrow>
       (\<exists>es. set es = set ?A \<union> set ?B \<and> distinct es \<and>
          ordered 0 es \<and> out = concat (patch (text_lines base) 0 (length (text_lines base)) es))"
    using merged_edits_ordered [OF s] set_merged_edits
    by (auto simp: merge_text_eq [OF assms] split: if_splits)
qed (use merge_text_absorbs [OF assms] in \<open>auto simp: merge_text_eq [OF assms] side_edits_def text_edits_facts(3) [OF assms]\<close>)

theorem text_merge_applies_both_sides_witness:
  "merge_text whole_diff (''a'' @ newline # ''b'') (''x'' @ newline # ''b'') (''a'' @ newline # ''y'') \<noteq> None"
proof -
  have "compatible (set (side_edits whole_diff (''a'' @ newline # ''b'') (''x'' @ newline # ''b'')))
      (set (side_edits whole_diff (''a'' @ newline # ''b'') (''a'' @ newline # ''y'')))"
    unfolding compatible_def by code_simp
  then show ?thesis using text_merge_applies_both_sides [OF whole_diff_valid] by blast
qed

text \<open>C3. What a merge does at every path.  A clean result is in path order without repeated
  paths; a path where the heads agree, or where only one of them changed, carries that
  version, deletions included, and any other path carries the merged file, or the first
  head's version where the path was resolved by hand.\<close>

theorem clean_merge_is_three_way:
  assumes "merge_skill_entries_with_resolutions D base a b R = Clean es"
  shows "sorted (map oe_path es) \<and> distinct (map oe_path es) \<and>
    (by_path a p = by_path b p \<longrightarrow> by_path es p = by_path a p) \<and>
    (by_path a p = by_path base p \<longrightarrow> by_path es p = by_path b p) \<and>
    (by_path b p = by_path base p \<longrightarrow> by_path es p = by_path a p) \<and>
    (by_path a p \<noteq> by_path b p \<and> by_path a p \<noteq> by_path base p \<and> by_path b p \<noteq> by_path base p \<longrightarrow>
       merge_changed_path D (by_path base p) (by_path a p) (by_path b p) = Ok (by_path es p) \<or>
       p \<in> R \<and> by_path es p = by_path a p)"
  using clean_result_at [OF assms, of p]
  by (auto simp: resolved_outcome_def path_outcome_def split: if_splits result.splits)

theorem clean_merge_is_three_way_witness:
  "by_path merge_result ''g'' = by_path merge_head_b ''g''"
proof -
  have m: "merge_skill_entries_with_resolutions whole_diff shared_base merge_head_a merge_head_b {} = Clean merge_result"
    using merge_example by (simp add: merge_skill_entries_def)
  have "by_path merge_head_a ''g'' = by_path shared_base ''g''" by code_simp
  then show ?thesis using clean_merge_is_three_way [OF m, of "''g''"] by blast
qed

text \<open>C22. Conflicts are exactly the paths both heads changed in ways that do not merge, each
  reported once in path order with its kind; resolving at least those paths by hand always
  gives a clean tree, which keeps the first head there and the ordinary merge everywhere
  else.\<close>

theorem conflicts_are_exact_and_resolvable:
  "(merge_skill_entries D base a b = Conflicted cs \<longleftrightarrow> cs \<noteq> [] \<and>
     cs = concat (map (\<lambda>p. clash p (path_outcome D (by_path base) (by_path a) (by_path b) p)) (all_paths base a b))) \<and>
   (merge_skill_entries D base a b = Conflicted cs \<and> mc_path ` set cs \<subseteq> R \<longrightarrow>
     (\<exists>es. merge_skill_entries_with_resolutions D base a b R = Clean es \<and>
        (\<forall>p. by_path es p = (if p \<in> mc_path ` set cs then by_path a p
           else case path_outcome D (by_path base) (by_path a) (by_path b) p of Ok e \<Rightarrow> e | Err k \<Rightarrow> None))))"
proof (intro conjI impI)
  let ?f = "path_outcome D (by_path base) (by_path a) (by_path b)" and ?ps = "all_paths base a b"
  have ok: "(\<forall>p \<in> set ?ps. is_ok (?f p)) \<longleftrightarrow> concat (map (\<lambda>p. clash p (?f p)) ?ps) = []"
    by (simp add: clash_Nil_iff)
  show "merge_skill_entries D base a b = Conflicted cs \<longleftrightarrow> cs \<noteq> [] \<and> cs = concat (map (\<lambda>p. clash p (?f p)) ?ps)"
    unfolding merge_skill_entries_def merge_result_eq resolved_outcome_empty ok by auto
  assume c: "merge_skill_entries D base a b = Conflicted cs \<and> mc_path ` set cs \<subseteq> R"
  then have cs: "cs = concat (map (\<lambda>p. clash p (?f p)) ?ps)"
    by (auto simp: merge_skill_entries_def merge_result_eq resolved_outcome_empty split: if_splits)
  have out: "?f p = Ok None" if "p \<notin> set ?ps" for p
    using by_path_outside [OF that] by (simp add: path_outcome_def)
  have conf: "p \<in> mc_path ` set cs \<longleftrightarrow> \<not> is_ok (?f p)" for p
    using out [of p]
    by (cases "p \<in> set ?ps") (auto simp: cs set_concat image_UN clash_path split: if_splits)
  have r: "resolved_outcome D (by_path base) (by_path a) (by_path b) R p =
      Ok (if p \<in> mc_path ` set cs then by_path a p else case ?f p of Ok e \<Rightarrow> e | Err k \<Rightarrow> None)" for p
    using conf [of p] c by (auto simp: resolved_outcome_def split: result.splits)
  then obtain es where es: "merge_skill_entries_with_resolutions D base a b R = Clean es"
    by (simp add: merge_result_eq)
  have "by_path es p = (if p \<in> mc_path ` set cs then by_path a p
      else case ?f p of Ok e \<Rightarrow> e | Err k \<Rightarrow> None)" for p
    using clean_result_at [OF es, of p] r [of p] by simp
  with es show "\<exists>es. merge_skill_entries_with_resolutions D base a b R = Clean es \<and>
      (\<forall>p. by_path es p = (if p \<in> mc_path ` set cs then by_path a p
         else case ?f p of Ok e \<Rightarrow> e | Err k \<Rightarrow> None))" by blast
qed

theorem conflicts_are_exact_and_resolvable_witness:
  "\<exists>es. merge_skill_entries_with_resolutions whole_diff shared_base merge_head_b [] {''f''} = Clean es \<and>
     by_path es ''f'' = by_path merge_head_b ''f''"
proof -
  have "merge_skill_entries whole_diff shared_base merge_head_b [] =
      Conflicted [\<lparr>mc_path = ''f'', mc_kind = DeleteModify\<rparr>]"
    by code_simp
  from conflicts_are_exact_and_resolvable [of whole_diff shared_base merge_head_b "[]"
      "[\<lparr>mc_path = ''f'', mc_kind = DeleteModify\<rparr>]" "{''f''}", THEN conjunct2] this
  show ?thesis by auto
qed

text \<open>Fast forward: when one head did not move, the merge is the other head's tree in path
  order.\<close>

theorem unmoved_head_fast_forwards:
  assumes "distinct (map oe_path b)"
  shows "merge_skill_entries D base base b = Clean (sort_key oe_path b)"
  using assms by (rule fast_forward)

theorem unmoved_head_fast_forwards_witness:
  "merge_skill_entries whole_diff shared_base shared_base merge_head_b = Clean (sort_key oe_path merge_head_b)"
  by (rule unmoved_head_fast_forwards) (simp add: merge_head_b_def)

end
