(* ===== verification/Sync.thy ===== *)
theory Sync
  imports Ids_Locator "HOL-Library.Product_Lexorder"
begin

text \<open>
  \<open>crates/denju-sync/src/lib.rs\<close>: desired state and projection names.  \<open>resolve_desired_sources\<close>
  picks the revision of one resource among all requirements for it, and
  \<open>allocate_projection_names\<close> gives every managed skill one invocation name.  \<open>None\<close> stands for a
  panic: truncation inside a character, or an exhausted search for a free alias.
\<close>

section \<open>Desired sources\<close>

datatype DesiredSourceKind = PersonalPack | DirectSubscription | OwnedWorkspace | TeamAssignment

fun kind_rank :: "DesiredSourceKind \<Rightarrow> nat" where
  "kind_rank PersonalPack = 0"
| "kind_rank DirectSubscription = 1"
| "kind_rank OwnedWorkspace = 2"
| "kind_rank TeamAssignment = 3"

text \<open>The derived order: the order of the constructors.\<close>

instantiation DesiredSourceKind :: linorder
begin

definition less_eq_DesiredSourceKind :: "DesiredSourceKind \<Rightarrow> DesiredSourceKind \<Rightarrow> bool" where
  "less_eq_DesiredSourceKind a b = (kind_rank a \<le> kind_rank b)"

definition less_DesiredSourceKind :: "DesiredSourceKind \<Rightarrow> DesiredSourceKind \<Rightarrow> bool" where
  "less_DesiredSourceKind a b = (kind_rank a < kind_rank b)"

instance
proof
  fix a b :: DesiredSourceKind
  show "a \<le> b \<Longrightarrow> b \<le> a \<Longrightarrow> a = b"
    by (cases a; cases b) (simp_all add: less_eq_DesiredSourceKind_def)
qed (auto simp: less_eq_DesiredSourceKind_def less_DesiredSourceKind_def)

end

definition is_enforced :: "DesiredSourceKind \<Rightarrow> bool" where
  "is_enforced k = (case k of TeamAssignment \<Rightarrow> True | _ \<Rightarrow> False)"

record DesiredSource =
  dsrc_resource_id :: string
  dsrc_revision_id :: string
  dsrc_source_id :: string
  dsrc_source_label :: string
  dsrc_kind :: DesiredSourceKind

datatype ResolvedDesiredState =
    Absent
  | Selected DesiredSource "DesiredSource list"
  | Conflict "DesiredSource list" "string option"

text \<open>Strongest kind first, then source and revision.\<close>

definition source_order :: "DesiredSource \<Rightarrow> int \<times> string \<times> string" where
  "source_order s = (- int (kind_rank (dsrc_kind s)), dsrc_source_id s, dsrc_revision_id s)"

definition resolve_desired_sources ::
  "DesiredSource list \<Rightarrow> string option \<Rightarrow> ResolvedDesiredState" where
  "resolve_desired_sources sources0 last_valid_revision_id =
     (if sources0 = [] then Absent
      else (let sources = sort_key source_order sources0;
                strongest = dsrc_kind (hd sources);
                active = takeWhile (\<lambda>s. dsrc_kind s = strongest) sources;
                suppressed = dropWhile (\<lambda>s. dsrc_kind s = strongest) sources;
                revisions = set (map dsrc_revision_id active)
            in if 1 < card revisions
               then Conflict (sort_key dsrc_source_id active) last_valid_revision_id
               else Selected (hd active) (tl active @ suppressed)))"

section \<open>Aliases\<close>

text \<open>\<open>String::truncate\<close>: a position inside a character panics.\<close>

definition is_char_boundary :: "string \<Rightarrow> nat \<Rightarrow> bool" where
  "is_char_boundary s n \<longleftrightarrow> n = 0 \<or> n = length s \<or> n < length s \<and> \<not> is_cont (s ! n)"

definition string_truncate :: "string \<Rightarrow> nat \<Rightarrow> string option" where
  "string_truncate s n =
     (if n \<le> length s then (if is_char_boundary s n then Some (take n s) else None) else Some s)"

text \<open>Decimal text of an unsigned integer, and \<open>str::parse::<u64>\<close>.\<close>

fun dec :: "nat \<Rightarrow> string" where
  "dec n = (if n < 10 then [char_of (48 + n)] else dec (n div 10) @ [char_of (48 + n mod 10)])"

declare dec.simps [simp del]

definition digits_value :: "string \<Rightarrow> nat" where
  "digits_value s = foldl (\<lambda>v c. 10 * v + (code c - 48)) 0 s"

definition parse_u64 :: "string \<Rightarrow> nat option" where
  "parse_u64 s =
     (let ds = (case s of [] \<Rightarrow> [] | c # cs \<Rightarrow> if c = CHR ''+'' then cs else s)
      in if ds \<noteq> [] \<and> list_all ascii_digit ds \<and> digits_value ds < 2 ^ 64 then Some (digits_value ds) else None)"

text \<open>The loop of \<open>sanitize_component\<close>: the output so far and the pending hyphen.\<close>

fun sanitize_byte :: "string \<times> bool \<Rightarrow> char \<Rightarrow> string \<times> bool" where
  "sanitize_byte (output, pending_hyphen) b =
     (if ascii_lowercase b \<or> ascii_digit b
      then ((if pending_hyphen \<and> output \<noteq> [] then output @ [CHR ''-''] else output) @ [b], False)
      else (output, True))"

definition sanitize_component :: "string \<Rightarrow> string" where
  "sanitize_component v =
     (let output = fst (foldl sanitize_byte ([], False) v)
      in if output = [] then ''owner'' else output)"

record ManagedSkillName =
  ms_resource_id :: ResourceId
  ms_owner :: string
  ms_skill_name :: string
  ms_previous :: "string option"

record ProjectionAssignment =
  pa_resource_id :: ResourceId
  pa_harness_name :: string
  pa_derived :: bool

definition collision_alias_at :: "ManagedSkillName \<Rightarrow> nat \<Rightarrow> string option" where
  "collision_alias_at skill index =
     (let owner = sanitize_component (ms_owner skill);
          raw = owner @ ''-'' @ ms_skill_name skill;
          sfx = (if index = 1 then [] else ''-'' @ dec index);
          room = 64 - length sfx
      in map_option (\<lambda>truncated.
           (let trimmed = trim_matches (\<lambda>c. c = CHR ''-'') truncated;
                base = (if trimmed = [] then ''skill'' else trimmed)
            in base @ sfx)) (string_truncate raw room))"

definition valid_collision_alias :: "ManagedSkillName \<Rightarrow> string \<Rightarrow> bool option" where
  "valid_collision_alias skill candidate =
     Option.bind (collision_alias_at skill 1) (\<lambda>first.
       if candidate = first then Some True
       else case rsplit_once (CHR ''-'') candidate of
              None \<Rightarrow> Some False
            | Some (_, sfx) \<Rightarrow>
                (case parse_u64 sfx of
                   None \<Rightarrow> Some False
                 | Some index \<Rightarrow>
                     if 2 \<le> index then map_option (\<lambda>a. candidate = a) (collision_alias_at skill index)
                     else Some False))"

text \<open>The search for a free alias; the counter is a \<open>u64\<close>.\<close>

function alias_search :: "ManagedSkillName \<Rightarrow> string set \<Rightarrow> nat \<Rightarrow> string option" where
  "alias_search skill used index =
     (if 2 ^ 64 \<le> index then None
      else Option.bind (collision_alias_at skill index) (\<lambda>candidate.
        if candidate \<notin> used then Some candidate else alias_search skill used (index + 1)))"
  by pat_completeness auto
termination by (relation "measure (\<lambda>(_, _, index). 2 ^ 64 - index)") auto

declare alias_search.simps [simp del]

definition collision_alias :: "ManagedSkillName \<Rightarrow> string set \<Rightarrow> string option" where
  "collision_alias skill used = alias_search skill used 1"

section \<open>Allocation\<close>

fun fold_opt :: "('s \<Rightarrow> 'a \<Rightarrow> 's option) \<Rightarrow> 's \<Rightarrow> 'a list \<Rightarrow> 's option" where
  "fold_opt f s [] = Some s"
| "fold_opt f s (x # xs) = Option.bind (f s x) (\<lambda>s'. fold_opt f s' xs)"

definition collides :: "ManagedSkillName list \<Rightarrow> string set \<Rightarrow> ManagedSkillName \<Rightarrow> bool" where
  "collides skills reserved_names skill =
     (1 < length (filter (\<lambda>s. ms_skill_name s = ms_skill_name skill) skills) \<or>
      ms_skill_name skill \<in> reserved_names)"

definition reserve_canonical ::
  "ManagedSkillName list \<Rightarrow> string set \<Rightarrow> string set \<Rightarrow> ManagedSkillName \<Rightarrow> string set" where
  "reserve_canonical skills reserved_names used skill =
     (if \<not> collides skills reserved_names skill then insert (ms_skill_name skill) used else used)"

type_synonym sticky_map = "ResourceId \<Rightarrow> string option"

fun reserve_sticky :: "ManagedSkillName list \<Rightarrow> string set \<Rightarrow> string set \<times> sticky_map \<Rightarrow> ManagedSkillName \<Rightarrow>
    (string set \<times> sticky_map) option" where
  "reserve_sticky skills reserved_names (used, sticky) skill =
     (if \<not> collides skills reserved_names skill then Some (used, sticky)
      else case ms_previous skill of
             None \<Rightarrow> Some (used, sticky)
           | Some previous \<Rightarrow>
               map_option (\<lambda>valid.
                 if valid \<and> previous \<notin> used
                 then (insert previous used, sticky(ms_resource_id skill \<mapsto> previous))
                 else (used, sticky)) (valid_collision_alias skill previous))"

fun assign_name :: "ManagedSkillName list \<Rightarrow> string set \<Rightarrow> sticky_map \<Rightarrow>
    string set \<times> ProjectionAssignment list \<Rightarrow> ManagedSkillName \<Rightarrow>
    (string set \<times> ProjectionAssignment list) option" where
  "assign_name skills reserved_names sticky (used, result) skill =
     map_option (\<lambda>harness_name.
       (insert harness_name used,
        result @ [\<lparr>pa_resource_id = ms_resource_id skill, pa_harness_name = harness_name,
                   pa_derived = (harness_name \<noteq> ms_skill_name skill)\<rparr>]))
       (if \<not> collides skills reserved_names skill then Some (ms_skill_name skill)
        else case sticky (ms_resource_id skill) of
               Some previous \<Rightarrow> Some previous
             | None \<Rightarrow> collision_alias skill used)"

definition allocate_projection_names ::
  "ManagedSkillName list \<Rightarrow> string set \<Rightarrow> ProjectionAssignment list option" where
  "allocate_projection_names skills reserved_names =
     (let ordered = sort_key (\<lambda>s. rid_bytes (ms_resource_id s)) skills;
          used = foldl (reserve_canonical skills reserved_names) reserved_names ordered
      in Option.bind (fold_opt (reserve_sticky skills reserved_names) (used, Map.empty) ordered)
           (\<lambda>(used, sticky).
         map_option snd (fold_opt (assign_name skills reserved_names sticky) (used, []) ordered)))"

section \<open>Resolution of desired sources\<close>

lemma takeWhile_filter:
  assumes "sorted_wrt (\<lambda>x y. P y \<longrightarrow> P x) xs"
  shows "takeWhile P xs = filter P xs \<and> dropWhile P xs = filter (\<lambda>x. \<not> P x) xs"
  using assms
proof (induction xs)
  case (Cons x xs)
  show ?case
  proof (cases "P x")
    case False
    then have "\<forall>y \<in> set xs. \<not> P y" using Cons.prems by auto
    then show ?thesis using False by (auto simp: filter_empty_conv)
  qed (use Cons in auto)
qed simp

text \<open>The sources of the strongest kind, and the others, in source order.\<close>

lemma strongest_first:
  assumes "ss \<noteq> []"
  defines "s \<equiv> sort_key source_order ss"
  shows "(\<forall>x \<in> set ss. dsrc_kind x \<le> dsrc_kind (hd s)) \<and> s \<noteq> [] \<and>
    takeWhile (\<lambda>x. dsrc_kind x = dsrc_kind (hd s)) s = filter (\<lambda>x. dsrc_kind x = dsrc_kind (hd s)) s \<and>
    dropWhile (\<lambda>x. dsrc_kind x = dsrc_kind (hd s)) s = filter (\<lambda>x. dsrc_kind x \<noteq> dsrc_kind (hd s)) s"
proof -
  have ne: "s \<noteq> []" using assms(1) by (metis s_def set_empty set_sort)
  have le: "source_order x \<le> source_order y \<Longrightarrow> dsrc_kind y \<le> dsrc_kind x" for x y
    by (auto simp: source_order_def less_eq_DesiredSourceKind_def less_eq_prod_def)
  have so: "sorted_wrt (\<lambda>x y. dsrc_kind y \<le> dsrc_kind x) s"
    unfolding s_def
    by (rule sorted_wrt_mono_rel [OF _ sorted_sort_key [of source_order ss, unfolded sorted_map]]) (rule le)
  have top: "dsrc_kind x \<le> dsrc_kind (hd s)" if "x \<in> set s" for x
    using so that ne by (cases s) auto
  have "sorted_wrt (\<lambda>x y. dsrc_kind y = dsrc_kind (hd s) \<longrightarrow> dsrc_kind x = dsrc_kind (hd s)) s"
    by (rule sorted_wrt_mono_rel [OF _ so]) (use top in \<open>auto intro: antisym\<close>)
  from takeWhile_filter [OF this] top ne show ?thesis by (simp add: s_def)
qed

lemma resolve_eq:
  assumes "ss \<noteq> []"
  defines "s \<equiv> sort_key source_order ss"
  shows "resolve_desired_sources ss l =
    (let active = filter (\<lambda>x. dsrc_kind x = dsrc_kind (hd s)) s
     in if 1 < card (set (map dsrc_revision_id active)) then Conflict (sort_key dsrc_source_id active) l
        else Selected (hd active) (tl active @ filter (\<lambda>x. dsrc_kind x \<noteq> dsrc_kind (hd s)) s))"
  using strongest_first [OF assms(1)] assms(1) unfolding s_def
  by (simp add: resolve_desired_sources_def Let_def)

lemma mset_filter_split: "mset (filter P xs) + mset (filter (\<lambda>x. \<not> P x) xs) = mset xs"
  by (induction xs) auto

lemma card_revisions: "1 < card (f ` set xs) \<longleftrightarrow> (\<exists>x \<in> set xs. \<exists>y \<in> set xs. f x \<noteq> f y)"
proof -
  have "card (f ` set xs) \<le> Suc 0 \<longleftrightarrow> (\<forall>x \<in> set xs. \<forall>y \<in> set xs. f x = f y)"
    using card_le_Suc0_iff_eq [of "f ` set xs"] by simp
  then show ?thesis unfolding One_nat_def not_le [symmetric] by blast
qed

section \<open>Free names\<close>

text \<open>
  The contract of a numbered family of candidate names: from the second on they differ.  A
  search through them finds a name outside any finite set of used names.
\<close>

locale fresh_search =
  fixes candidate :: "nat \<Rightarrow> 'a"
  assumes candidates_differ: "inj_on candidate {2..}"
begin

lemma free_index:
  assumes "finite used"
  shows "\<exists>i. 2 \<le> i \<and> i \<le> card used + 2 \<and> candidate i \<notin> used"
proof (rule ccontr)
  assume "\<not> ?thesis"
  then have "candidate ` {2..card used + 2} \<subseteq> used" by auto
  then have "card (candidate ` {2..card used + 2}) \<le> card used" using assms by (rule card_mono [rotated])
  moreover have "card (candidate ` {2..card used + 2}) = card {2..card used + 2}"
    by (rule card_image) (rule inj_on_subset [OF candidates_differ], auto)
  ultimately show False by simp
qed

end

text \<open>Decimal text.\<close>

lemma dec_not_Nil [simp]: "dec n \<noteq> []"
  by (subst dec.simps) simp

lemma code_digit: "d < 10 \<Longrightarrow> code (char_of (48 + d)) = 48 + d"
  by simp

lemma dec_digits: "list_all ascii_digit (dec n)"
proof (induction n rule: dec.induct)
  case (1 n)
  have "ascii_digit (char_of (48 + d))" if "d < 10" for d :: nat
    using that by (simp add: ascii_digit_def)
  then show ?case using 1 by (subst dec.simps) auto
qed

lemma digits_value_dec: "digits_value (dec n) = n"
proof (induction n rule: dec.induct)
  case (1 n)
  then show ?case by (subst dec.simps) (auto simp: digits_value_def)
qed

lemma dec_length: "n < 10 ^ Suc k \<Longrightarrow> length (dec n) \<le> Suc k"
proof (induction k arbitrary: n)
  case 0
  then show ?case by (subst dec.simps) simp
next
  case (Suc k)
  then show ?case
  proof (cases "n < 10")
    case False
    have "length (dec (n div 10)) \<le> Suc k" using Suc by (intro Suc.IH) auto
    with False show ?thesis by (subst dec.simps) simp
  qed (subst dec.simps, simp)
qed

lemma parse_u64_dec: "n < 2 ^ 64 \<Longrightarrow> parse_u64 (dec n) = Some n"
proof -
  assume n: "n < 2 ^ 64"
  obtain c cs where c: "dec n = c # cs" by (cases "dec n") auto
  then have "c \<noteq> CHR ''+''" using dec_digits [of n] by (auto simp: ascii_digit_def)
  then show ?thesis
    using n c dec_digits [of n] digits_value_dec [of n] by (simp add: parse_u64_def)
qed

text \<open>The alias where truncation does not panic.\<close>

definition alias_suffix :: "nat \<Rightarrow> string" where
  "alias_suffix i = (if i = 1 then [] else hyphen # dec i)"

definition alias_base :: "ManagedSkillName \<Rightarrow> nat \<Rightarrow> string" where
  "alias_base skill i =
     (let t = trim_matches (\<lambda>c. c = hyphen)
        (take (64 - length (alias_suffix i)) (sanitize_component (ms_owner skill) @ hyphen # ms_skill_name skill))
      in if t = [] then ''skill'' else t)"

definition alias_name :: "ManagedSkillName \<Rightarrow> nat \<Rightarrow> string" where
  "alias_name skill i = alias_base skill i @ alias_suffix i"

lemma dec_no_hyphen: "hyphen \<notin> set (dec n)"
  using dec_digits [of n] by (auto simp: list_all_iff ascii_digit_def)

lemma alias_rsplit: "2 \<le> i \<Longrightarrow> rsplit_once hyphen (alias_name skill i) = Some (alias_base skill i, dec i)"
  using dec_no_hyphen by (simp add: rsplit_once_Some alias_name_def alias_suffix_def)

interpretation aliases: fresh_search "alias_name skill" for skill
proof
  show "inj_on (alias_name skill) {2..}"
    by (rule inj_onI) (metis alias_rsplit atLeast_iff digits_value_dec option.inject prod.inject)
qed

section \<open>Aliases of ASCII names\<close>

definition ascii_name :: "string \<Rightarrow> bool" where
  "ascii_name n \<longleftrightarrow> (\<forall>c \<in> set n. code c < 128)"

lemma sanitize_bytes: "list_all skill_name_byte (sanitize_component v)"
proof -
  have "list_all skill_name_byte (fst (foldl sanitize_byte (out, b) v))" if "list_all skill_name_byte out" for out b
    using that
  proof (induction v arbitrary: out b)
    case (Cons c v)
    then show ?case by (auto simp: skill_name_byte_def)
  qed simp
  from this [of "[]" False] show ?thesis
    by (auto simp: sanitize_component_def Let_def skill_name_byte_def ascii_lowercase_def)
qed

lemma truncate_ascii: "ascii_name s \<Longrightarrow> string_truncate s n = Some (take n s)"
  using nth_mem [of n s]
  by (fastforce simp: string_truncate_def is_char_boundary_def ascii_name_def is_cont_def)

lemma collision_alias_at_ascii:
  assumes "ascii_name (ms_skill_name skill)"
  shows "collision_alias_at skill i = Some (alias_name skill i)"
proof -
  have "ascii_name (sanitize_component (ms_owner skill))"
    using sanitize_bytes [of "ms_owner skill"]
    by (auto simp: ascii_name_def list_all_iff dest: skill_name_byte_ascii)
  with assms have "ascii_name (sanitize_component (ms_owner skill) @ hyphen # ms_skill_name skill)"
    by (auto simp: ascii_name_def)
  from truncate_ascii [OF this] show ?thesis
    by (simp add: collision_alias_at_def alias_name_def alias_base_def alias_suffix_def Let_def)
qed

lemma valid_alias_name:
  assumes "ascii_name (ms_skill_name skill)" "1 \<le> i" "i < 2 ^ 64"
  shows "valid_collision_alias skill (alias_name skill i) = Some True"
proof (cases "i = 1")
  case True
  then show ?thesis using assms by (simp add: valid_collision_alias_def collision_alias_at_ascii)
next
  case False
  then have "2 \<le> i" using assms(2) by simp
  then show ?thesis
    using assms parse_u64_dec [of i]
    by (simp add: valid_collision_alias_def collision_alias_at_ascii alias_rsplit)
qed

lemma valid_collision_alias_total:
  "ascii_name (ms_skill_name skill) \<Longrightarrow> valid_collision_alias skill c \<noteq> None"
  by (auto simp: valid_collision_alias_def collision_alias_at_ascii split: option.splits)

lemma alias_search_finds:
  assumes "ascii_name (ms_skill_name skill)" and "i \<le> j" "j < 2 ^ 64" and "alias_name skill j \<notin> used"
  shows "\<exists>k. i \<le> k \<and> k \<le> j \<and> alias_search skill used i = Some (alias_name skill k) \<and> alias_name skill k \<notin> used"
  using assms(2)
proof (induction i rule: inc_induct)
  case base
  then show ?case using assms by (subst alias_search.simps) (auto simp: collision_alias_at_ascii)
next
  case (step n)
  then show ?case
    using assms by (subst alias_search.simps) (auto simp: collision_alias_at_ascii intro: Suc_leD)
qed

text \<open>A search that returns: the alias is free, and it is one of the family.\<close>

lemma collision_alias_Some:
  assumes "collision_alias skill used = Some n" and "ascii_name (ms_skill_name skill)"
  shows "n \<notin> used \<and> (\<exists>k. 1 \<le> k \<and> k < 2 ^ 64 \<and> n = alias_name skill k)"
proof -
  have "alias_search skill used i = Some n \<Longrightarrow> n \<notin> used \<and> (\<exists>k. i \<le> k \<and> k < 2 ^ 64 \<and> n = alias_name skill k)" for i
  proof (induction "2 ^ 64 - i" arbitrary: i rule: less_induct)
    case less
    have i: "i < 2 ^ 64" using less.prems by (subst (asm) alias_search.simps) (simp split: if_splits)
    show ?case
    proof (cases "alias_name skill i \<in> used")
      case True
      then have "alias_search skill used (i + 1) = Some n"
        using less.prems i assms(2) by (subst (asm) alias_search.simps) (simp add: collision_alias_at_ascii)
      moreover have "2 ^ 64 - (i + 1) < 2 ^ 64 - i" using i by simp
      ultimately show ?thesis using less.hyps [of "i + 1"] by (meson add_leD1)
    next
      case False
      then have "n = alias_name skill i"
        using less.prems i assms(2) by (subst (asm) alias_search.simps) (simp add: collision_alias_at_ascii)
      then show ?thesis using False i by blast
    qed
  qed
  then show ?thesis using assms(1) by (simp add: collision_alias_def)
qed

lemma collision_alias_total:
  assumes "finite used" "card used + 2 < 2 ^ 64" and "ascii_name (ms_skill_name skill)"
  shows "\<exists>n. collision_alias skill used = Some n"
proof -
  obtain i where "2 \<le> i" "i \<le> card used + 2" "alias_name skill i \<notin> used"
    using aliases.free_index [OF assms(1)] by blast
  then show ?thesis
    using alias_search_finds [OF assms(3), of 1 i used] assms(2) by (auto simp: collision_alias_def)
qed

section \<open>Allocation\<close>

definition base_used :: "ManagedSkillName list \<Rightarrow> string set \<Rightarrow> string set" where
  "base_used skills R = R \<union> ms_skill_name ` {s \<in> set skills. \<not> collides skills R s}"

lemma reserve_canonical_all:
  "foldl (reserve_canonical skills R) used xs = used \<union> ms_skill_name ` {s \<in> set xs. \<not> collides skills R s}"
  by (induction xs arbitrary: used) (auto simp: reserve_canonical_def)

definition ids_distinct :: "ManagedSkillName list \<Rightarrow> bool" where
  "ids_distinct skills \<longleftrightarrow> distinct (map ms_resource_id skills)"

text \<open>Two different skills of one name collide.\<close>

lemma same_name_collides:
  assumes "s \<in> set skills" "t \<in> set skills" "s \<noteq> t" "ms_skill_name s = ms_skill_name t"
  shows "collides skills R s"
proof -
  let ?xs = "filter (\<lambda>x. ms_skill_name x = ms_skill_name s) skills"
  have "{s, t} \<subseteq> set ?xs" using assms by auto
  then have "card {s, t} \<le> card (set ?xs)" by (intro card_mono) auto
  also have "\<dots> \<le> length ?xs" by (rule card_length)
  finally show ?thesis using assms(3) by (simp add: collides_def)
qed

text \<open>The state after the sticky claims.\<close>

definition sticky_ok :: "ManagedSkillName list \<Rightarrow> string set \<Rightarrow> string set \<times> sticky_map \<Rightarrow> bool" where
  "sticky_ok skills R st \<longleftrightarrow> fst st = base_used skills R \<union> ran (snd st) \<and>
     ran (snd st) \<inter> base_used skills R = {} \<and> inj_on (snd st) (dom (snd st)) \<and>
     (\<forall>s \<in> set skills. \<forall>n. snd st (ms_resource_id s) = Some n \<longrightarrow> valid_collision_alias s n = Some True)"

lemma ran_new: "m x = None \<Longrightarrow> ran (m(x \<mapsto> y)) = insert y (ran m)"
  by (rule ran_map_upd)

lemma inj_on_new:
  assumes "m x = None" "inj_on m (dom m)" "y \<notin> ran m"
  shows "inj_on (m(x \<mapsto> y)) (dom (m(x \<mapsto> y)))"
proof (rule inj_onI)
  fix a b assume "a \<in> dom (m(x \<mapsto> y))" "b \<in> dom (m(x \<mapsto> y))" "(m(x \<mapsto> y)) a = (m(x \<mapsto> y)) b"
  then show "a = b"
    using assms by (cases "a = x"; cases "b = x") (auto simp: ran_def dom_def inj_on_def)
qed

lemma reserve_sticky_cases:
  assumes "reserve_sticky skills R (used, sticky) s = Some st"
  obtains "st = (used, sticky)"
  | n where "collides skills R s" "ms_previous s = Some n" "valid_collision_alias s n = Some True" "n \<notin> used"
      "st = (insert n used, sticky(ms_resource_id s \<mapsto> n))"
proof (cases "collides skills R s")
  case c: True
  show thesis
  proof (cases "ms_previous s")
    case (Some n)
    then obtain v where v: "valid_collision_alias s n = Some v"
      using assms c by (cases "valid_collision_alias s n") auto
    then show thesis using assms c Some that by (cases "v \<and> n \<notin> used") auto
  qed (use assms c that in auto)
qed (use assms that in auto)

lemma reserve_sticky_step:
  assumes ids: "ids_distinct skills" and s: "s \<in> set skills" and inv: "sticky_ok skills R (used, sticky)"
    and new: "sticky (ms_resource_id s) = None" and "reserve_sticky skills R (used, sticky) s = Some (used', sticky')"
  shows "sticky_ok skills R (used', sticky') \<and> dom sticky' \<subseteq> insert (ms_resource_id s) (dom sticky)"
proof (cases "(used', sticky') = (used, sticky)")
  case False
  then obtain n where n: "valid_collision_alias s n = Some True" "n \<notin> used"
    "used' = insert n used" "sticky' = sticky(ms_resource_id s \<mapsto> n)"
    using reserve_sticky_cases [OF assms(5)] by (metis prod.inject)
  have same: "t = s" if "t \<in> set skills" "ms_resource_id t = ms_resource_id s" for t
    using ids s that by (auto simp: ids_distinct_def distinct_map inj_on_def)
  note i = inv [unfolded sticky_ok_def fst_conv snd_conv]
  have fresh: "n \<notin> ran sticky" "n \<notin> base_used skills R" using n(2) i by auto
  have "sticky_ok skills R (used', sticky')"
    unfolding sticky_ok_def fst_conv snd_conv n(3,4) ran_new [of sticky "ms_resource_id s", OF new]
  proof (intro conjI)
    show "\<forall>t \<in> set skills. \<forall>m. (sticky(ms_resource_id s \<mapsto> n)) (ms_resource_id t) = Some m \<longrightarrow>
        valid_collision_alias t m = Some True"
      using i n(1) same by (auto split: if_splits)
    show "inj_on (sticky(ms_resource_id s \<mapsto> n)) (dom (sticky(ms_resource_id s \<mapsto> n)))"
      using i fresh by (intro inj_on_new [of sticky "ms_resource_id s", OF new]) simp_all
  qed (use i fresh in auto)
  then show ?thesis using n(4) by auto
qed (use inv in auto)

lemma reserve_sticky_all:
  assumes "ids_distinct skills" and "set xs \<subseteq> set skills" and "distinct (map ms_resource_id xs)"
    and "sticky_ok skills R (used, sticky)" and "dom sticky \<inter> ms_resource_id ` set xs = {}"
    and "fold_opt (reserve_sticky skills R) (used, sticky) xs = Some (used', sticky')"
  shows "sticky_ok skills R (used', sticky')"
  using assms(2-6)
proof (induction xs arbitrary: used sticky)
  case (Cons x xs)
  obtain u t where step: "reserve_sticky skills R (used, sticky) x = Some (u, t)"
    and rest: "fold_opt (reserve_sticky skills R) (u, t) xs = Some (used', sticky')"
    using Cons.prems(5) by (auto simp: bind_eq_Some_conv simp del: reserve_sticky.simps)
  have "sticky (ms_resource_id x) = None" using Cons.prems(4) by auto
  then have "sticky_ok skills R (u, t) \<and> dom t \<subseteq> insert (ms_resource_id x) (dom sticky)"
    using reserve_sticky_step [OF assms(1) _ Cons.prems(3) _ step] Cons.prems(1) by simp
  note t = this
  have "dom t \<inter> ms_resource_id ` set xs = {}"
  proof -
    have "insert (ms_resource_id x) (dom sticky) \<inter> ms_resource_id ` set xs = {}"
      using Cons.prems(2,4) by auto
    with t show ?thesis by blast
  qed
  then show ?case using t Cons.prems(1,2) by (intro Cons.IH [OF _ _ _ _ rest]) auto
qed simp

text \<open>Why a skill has its name.\<close>

definition explained :: "ManagedSkillName list \<Rightarrow> string set \<Rightarrow> string set \<Rightarrow> sticky_map \<Rightarrow>
    ManagedSkillName \<Rightarrow> ProjectionAssignment \<Rightarrow> bool" where
  "explained skills R used sticky s a \<longleftrightarrow> pa_resource_id a = ms_resource_id s \<and>
     pa_derived a = (pa_harness_name a \<noteq> ms_skill_name s) \<and>
     (if \<not> collides skills R s then pa_harness_name a = ms_skill_name s
      else valid_collision_alias s (pa_harness_name a) = Some True \<and>
        (case sticky (ms_resource_id s) of Some n \<Rightarrow> pa_harness_name a = n | None \<Rightarrow> pa_harness_name a \<notin> used))"

lemma explained_differ:
  assumes "ids_distinct skills" "sticky_ok skills R (used, sticky)" and "s \<in> set skills" "t \<in> set skills" "s \<noteq> t"
    and "explained skills R used sticky s a" "explained skills R used sticky t b"
    and "collides skills R s \<Longrightarrow> sticky (ms_resource_id s) \<noteq> None"
  shows "pa_harness_name a \<noteq> pa_harness_name b"
proof
  assume eq: "pa_harness_name a = pa_harness_name b"
  have sub: "base_used skills R \<subseteq> used" "ran sticky \<inter> base_used skills R = {}" "ran sticky \<subseteq> used"
    and inj: "inj_on sticky (dom sticky)"
    using assms(2) by (auto simp: sticky_ok_def)
  have canon: "ms_skill_name x \<in> base_used skills R" if "x \<in> set skills" "\<not> collides skills R x" for x
    using that by (auto simp: base_used_def)
  have st: "sticky (ms_resource_id x) = Some n \<Longrightarrow> n \<in> ran sticky" for x n by (rule ranI)
  have ids: "ms_resource_id s \<noteq> ms_resource_id t"
    using assms(1,3-5) by (auto simp: ids_distinct_def distinct_map inj_on_def)
  show False
  proof (cases "collides skills R s")
    case False
    then show False
      using assms(3-7) eq canon [of s] sub st [of t] same_name_collides [of s skills t R]
      by (auto simp: explained_def disjoint_iff split: if_splits option.splits)
  next
    case True
    then obtain n where n: "sticky (ms_resource_id s) = Some n" "pa_harness_name a = n"
      using assms(6,8) by (auto simp: explained_def)
    have "sticky (ms_resource_id t) \<noteq> Some n"
      using inj n(1) ids by (metis domI inj_on_def)
    then show False
      using n eq assms(4,7) canon [of t] sub st [OF n(1)]
      by (auto simp: explained_def split: if_splits option.splits)
  qed
qed

abbreviation names_of :: "ProjectionAssignment list \<Rightarrow> string list" where
  "names_of res \<equiv> map pa_harness_name res"

definition assigned :: "ManagedSkillName list \<Rightarrow> string set \<Rightarrow> string set \<Rightarrow> sticky_map \<Rightarrow>
    ManagedSkillName list \<Rightarrow> string set \<times> ProjectionAssignment list \<Rightarrow> bool" where
  "assigned skills R used sticky ss st \<longleftrightarrow> list_all2 (explained skills R used sticky) ss (snd st) \<and>
     fst st = used \<union> set (names_of (snd st)) \<and> distinct (names_of (snd st))"

definition ascii_names :: "ManagedSkillName list \<Rightarrow> bool" where
  "ascii_names skills \<longleftrightarrow> (\<forall>s \<in> set skills. ascii_name (ms_skill_name s))"

lemma assign_name_step:
  assumes ids: "ids_distinct skills" and st: "sticky_ok skills R (used, sticky)" and asc: "ascii_names skills"
    and s: "s \<in> set skills" "s \<notin> set ss" "set ss \<subseteq> set skills"
    and inv: "assigned skills R used sticky ss (u, res)"
    and step: "assign_name skills R sticky (u, res) s = Some st'"
  shows "assigned skills R used sticky (ss @ [s]) st'"
proof -
  note i = inv [unfolded assigned_def fst_conv snd_conv]
  obtain n where n: "st' = (insert n u, res @ [\<lparr>pa_resource_id = ms_resource_id s, pa_harness_name = n,
      pa_derived = (n \<noteq> ms_skill_name s)\<rparr>])"
    and c: "if \<not> collides skills R s then n = ms_skill_name s
      else case sticky (ms_resource_id s) of Some p \<Rightarrow> n = p | None \<Rightarrow> collision_alias s u = Some n"
    using step by (auto split: if_splits option.splits)
  let ?a = "\<lparr>pa_resource_id = ms_resource_id s, pa_harness_name = n, pa_derived = (n \<noteq> ms_skill_name s)\<rparr>"
  have a: "ascii_name (ms_skill_name s)" using asc s by (simp add: ascii_names_def)
  have fresh: "n \<notin> u \<and> valid_collision_alias s n = Some True"
    if "collides skills R s" "sticky (ms_resource_id s) = None"
    using that c collision_alias_Some [OF _ a, of u n] valid_alias_name [OF a] by auto
  have ex: "explained skills R used sticky s ?a"
    using c fresh st s i by (auto simp: explained_def sticky_ok_def split: option.splits if_splits)
  have "n \<notin> set (names_of res)"
  proof (cases "collides skills R s \<and> sticky (ms_resource_id s) = None")
    case True
    then show ?thesis using fresh i by auto
  next
    case False
    show ?thesis
    proof
      assume "n \<in> set (names_of res)"
      then obtain k where k: "k < length res" "pa_harness_name (res ! k) = n" by (auto simp: in_set_conv_nth)
      have len: "length ss = length res" and "explained skills R used sticky (ss ! k) (res ! k)"
        using i k by (auto simp: list_all2_conv_all_nth)
      moreover have "ss ! k \<in> set skills" "s \<noteq> ss ! k"
        using k len s by (auto dest: nth_mem)
      ultimately show False
        using explained_differ [OF ids st s(1) _ _ ex] False k by auto
    qed
  qed
  with i ex n show ?thesis
    by (auto simp: assigned_def list_all2_appendI)
qed

lemma assign_names_all:
  assumes ids: "ids_distinct skills" and st: "sticky_ok skills R (used, sticky)" and asc: "ascii_names skills"
    and "distinct (ss @ xs)" "set (ss @ xs) \<subseteq> set skills"
    and "assigned skills R used sticky ss st0"
    and "fold_opt (assign_name skills R sticky) st0 xs = Some st'"
  shows "assigned skills R used sticky (ss @ xs) st'"
  using assms(4-7)
proof (induction xs arbitrary: ss st0)
  case (Cons x xs)
  obtain u res where st0: "st0 = (u, res)" by (cases st0)
  obtain st1 where step: "assign_name skills R sticky (u, res) x = Some st1"
    and rest: "fold_opt (assign_name skills R sticky) st1 xs = Some st'"
    using Cons.prems(4) by (auto simp: st0 bind_eq_Some_conv simp del: assign_name.simps)
  have "assigned skills R used sticky (ss @ [x]) st1"
    using assign_name_step [OF ids st asc _ _ _ Cons.prems(3) [unfolded st0] step] Cons.prems(1,2) by auto
  then show ?case using Cons.IH [OF _ _ _ rest, of "ss @ [x]"] Cons.prems(1,2) by simp
qed simp

abbreviation in_id_order :: "ManagedSkillName list \<Rightarrow> ManagedSkillName list" where
  "in_id_order skills \<equiv> sort_key (\<lambda>s. rid_bytes (ms_resource_id s)) skills"

lemma allocation_facts:
  assumes ids: "ids_distinct skills" and asc: "ascii_names skills"
    and "allocate_projection_names skills R = Some res"
  shows "\<exists>used sticky. fold_opt (reserve_sticky skills R) (base_used skills R, Map.empty) (in_id_order skills) =
      Some (used, sticky) \<and> sticky_ok skills R (used, sticky) \<and>
    list_all2 (explained skills R used sticky) (in_id_order skills) res \<and> distinct (names_of res)"
proof -
  have used0: "foldl (reserve_canonical skills R) R (in_id_order skills) = base_used skills R"
    by (simp add: reserve_canonical_all base_used_def)
  obtain used sticky st where s: "fold_opt (reserve_sticky skills R) (base_used skills R, Map.empty) (in_id_order skills) =
      Some (used, sticky)"
    and f: "fold_opt (assign_name skills R sticky) (used, []) (in_id_order skills) = Some st" and res: "res = snd st"
    using assms(3) unfolding allocate_projection_names_def Let_def used0
    by (auto simp: bind_eq_Some_conv split: prod.splits)
  have d: "distinct (map ms_resource_id (in_id_order skills))" "distinct (in_id_order skills)"
    using ids distinct_map_perm [of "in_id_order skills" skills ms_resource_id]
    by (auto simp: ids_distinct_def distinct_map)
  have ok: "sticky_ok skills R (used, sticky)"
    using reserve_sticky_all [OF ids _ d(1) _ _ s] by (simp add: sticky_ok_def)
  have "assigned skills R used sticky ([] @ in_id_order skills) st"
    by (rule assign_names_all [OF ids ok asc _ _ _ f]) (use d in \<open>auto simp: assigned_def\<close>)
  then show ?thesis using s ok res by (auto simp: assigned_def)
qed

section \<open>Allocation always succeeds\<close>

lemma reserve_sticky_total:
  assumes "ascii_names skills" "set xs \<subseteq> set skills" "finite (fst st)"
  shows "\<exists>st'. fold_opt (reserve_sticky skills R) st xs = Some st' \<and> finite (fst st') \<and>
    card (fst st') \<le> card (fst st) + length xs"
  using assms(2,3)
proof (induction xs arbitrary: st)
  case (Cons x xs)
  obtain used sticky where st: "st = (used, sticky)" by (cases st)
  have "valid_collision_alias x p \<noteq> None" for p
    using assms(1) Cons.prems(1) valid_collision_alias_total by (auto simp: ascii_names_def)
  then have "reserve_sticky skills R (used, sticky) x \<noteq> None"
    by (cases "collides skills R x"; cases "ms_previous x") auto
  then obtain st1 where s1: "reserve_sticky skills R (used, sticky) x = Some st1" by blast
  have f1: "finite (fst st1) \<and> card (fst st1) \<le> Suc (card (fst st))"
    by (rule reserve_sticky_cases [OF s1]) (use Cons.prems(2) in \<open>auto simp: st card_insert_if\<close>)
  then obtain st' where "fold_opt (reserve_sticky skills R) st1 xs = Some st'" "finite (fst st')"
    "card (fst st') \<le> card (fst st1) + length xs"
    using Cons.IH [of st1] Cons.prems(1) by auto
  with s1 f1 show ?case by (auto simp: st simp del: reserve_sticky.simps)
qed simp

lemma assign_names_total:
  assumes "ascii_names skills" "set xs \<subseteq> set skills" "finite (fst st)" "card (fst st) + length xs + 2 < 2 ^ 64"
  shows "\<exists>st'. fold_opt (assign_name skills R sticky) st xs = Some st'"
  using assms(2-4)
proof (induction xs arbitrary: st)
  case (Cons x xs)
  obtain used res where st: "st = (used, res)" by (cases st)
  have "ascii_name (ms_skill_name x)" using assms(1) Cons.prems(1) by (simp add: ascii_names_def)
  then obtain c where c: "collision_alias x used = Some c"
    using collision_alias_total [of used x] Cons.prems by (auto simp: st)
  obtain n where "(if \<not> collides skills R x then Some (ms_skill_name x)
      else case sticky (ms_resource_id x) of Some p \<Rightarrow> Some p | None \<Rightarrow> collision_alias x used) = Some n"
    using c by (cases "collides skills R x"; cases "sticky (ms_resource_id x)") auto
  then obtain as where s1: "assign_name skills R sticky (used, res) x = Some (insert n used, as)" by simp
  have "card (insert n used) \<le> Suc (card used)" using Cons.prems(2) by (simp add: card_insert_if st)
  then obtain st' where "fold_opt (assign_name skills R sticky) (insert n used, as) xs = Some st'"
    using Cons.IH [of "(insert n used, as)"] Cons.prems by (auto simp: st)
  with s1 show ?case by (simp add: st del: assign_name.simps)
qed simp

lemma allocate_total:
  assumes "ascii_names skills" "finite R" "card R + 3 * length skills + 2 < 2 ^ 64"
  shows "\<exists>res. allocate_projection_names skills R = Some res"
proof -
  let ?o = "in_id_order skills"
  let ?u = "foldl (reserve_canonical skills R) R ?o"
  have "?u = base_used skills R" by (simp add: reserve_canonical_all base_used_def)
  moreover have "card (base_used skills R) \<le> card R + length skills"
  proof -
    have "card (ms_skill_name ` {s \<in> set skills. \<not> collides skills R s}) \<le> card (set skills)"
      by (rule order_trans [OF card_image_le]) (auto intro: card_mono)
    also have "\<dots> \<le> length skills" by (rule card_length)
    finally show ?thesis unfolding base_used_def using card_Un_le by (metis add_left_mono order_trans)
  qed
  ultimately have u: "finite ?u" "card ?u \<le> card R + length skills"
    using assms(2) by (auto simp: base_used_def)
  obtain st where st: "fold_opt (reserve_sticky skills R) (?u, Map.empty) ?o = Some st"
    "finite (fst st)" "card (fst st) \<le> card ?u + length skills"
    using reserve_sticky_total [OF assms(1), of ?o "(?u, Map.empty)" R] u(1) by auto
  obtain used sticky where su: "st = (used, sticky)" by (cases st)
  obtain st' where "fold_opt (assign_name skills R sticky) (used, []) ?o = Some st'"
    using assign_names_total [OF assms(1), of ?o "(used, [])" R sticky] st u assms(3) su by auto
  then show ?thesis using st(1) by (simp add: allocate_projection_names_def su)
qed

section \<open>Allocation is stable\<close>

text \<open>The skills as the next reconciliation sees them: with the names just assigned.\<close>

definition remember :: "ProjectionAssignment list \<Rightarrow> ManagedSkillName \<Rightarrow> ManagedSkillName" where
  "remember res s =
     s\<lparr>ms_previous := map_option pa_harness_name (find (\<lambda>a. pa_resource_id a = ms_resource_id s) res)\<rparr>"

lemma remember_simps [simp]:
  "ms_resource_id (remember res s) = ms_resource_id s" "ms_skill_name (remember res s) = ms_skill_name s"
  "ms_owner (remember res s) = ms_owner s"
  by (simp_all add: remember_def)

lemma collides_remember [simp]: "collides (map (remember res) skills) R (remember res s) = collides skills R s"
  by (simp add: collides_def filter_map comp_def)

lemma alias_at_remember [simp]: "collision_alias_at (remember res s) i = collision_alias_at s i"
  by (simp add: collision_alias_at_def)

lemma valid_alias_remember [simp]: "valid_collision_alias (remember res s) c = valid_collision_alias s c"
  by (simp only: valid_collision_alias_def alias_at_remember)

lemma sort_key_map_key: "sort_key f (map g xs) = map g (sort_key (\<lambda>x. f (g x)) xs)"
proof -
  have "insort_key f (g x) (map g ys) = map g (insort_key (\<lambda>x. f (g x)) x ys)" for x ys
    by (induction ys) auto
  then show ?thesis by (induction xs) auto
qed

lemma order_remember: "in_id_order (map (remember res) skills) = map (remember res) (in_id_order skills)"
  by (simp add: sort_key_map_key)

lemma find_unique:
  "distinct (map f xs) \<Longrightarrow> k < length xs \<Longrightarrow> find (\<lambda>a. f a = f (xs ! k)) xs = Some (xs ! k)"
proof (induction xs arbitrary: k)
  case (Cons x xs)
  show ?case
  proof (cases k)
    case (Suc j)
    then have "f (xs ! j) \<in> f ` set xs" using Cons.prems(2) by (intro imageI nth_mem) simp
    then have "f x \<noteq> f (xs ! j)" using Cons.prems(1) by auto
    then show ?thesis using Cons Suc by simp
  qed simp
qed simp

text \<open>The second run claims every alias of the first.\<close>

lemma sticky_again:
  assumes "\<And>s. s \<in> set xs \<Longrightarrow> ms_previous (g s) = Some (h s) \<and> collides skills' R (g s) = coll s \<and>
      ms_resource_id (g s) = ms_resource_id s \<and> (coll s \<longrightarrow> valid_collision_alias (g s) (h s) = Some True)"
    and "inj_on h (set xs)" and "distinct (map ms_resource_id xs)"
    and "\<And>s. s \<in> set xs \<Longrightarrow> coll s \<Longrightarrow> h s \<notin> used"
  shows "\<exists>used' sticky'. fold_opt (reserve_sticky skills' R) (used, sticky) (map g xs) = Some (used', sticky') \<and>
    (\<forall>s \<in> set xs. coll s \<longrightarrow> sticky' (ms_resource_id s) = Some (h s)) \<and>
    (\<forall>r. r \<notin> ms_resource_id ` set xs \<longrightarrow> sticky' r = sticky r)"
  using assms
proof (induction xs arbitrary: used sticky)
  case (Cons x xs)
  let ?u = "if coll x then insert (h x) used else used"
  let ?t = "if coll x then sticky(ms_resource_id x \<mapsto> h x) else sticky"
  have hd: "ms_previous (g x) = Some (h x)" "collides skills' R (g x) = coll x"
    "ms_resource_id (g x) = ms_resource_id x" "coll x \<Longrightarrow> valid_collision_alias (g x) (h x) = Some True"
    using Cons.prems(1) [of x] by auto
  have step: "reserve_sticky skills' R (used, sticky) (g x) = Some (?u, ?t)"
    using hd Cons.prems(4) [of x] by simp
  have nx: "h s \<noteq> h x" if "s \<in> set xs" for s
    using Cons.prems(2,3) that by (auto simp: inj_on_def)
  have "\<exists>used' sticky'. fold_opt (reserve_sticky skills' R) (?u, ?t) (map g xs) = Some (used', sticky') \<and>
      (\<forall>s \<in> set xs. coll s \<longrightarrow> sticky' (ms_resource_id s) = Some (h s)) \<and>
      (\<forall>r. r \<notin> ms_resource_id ` set xs \<longrightarrow> sticky' r = ?t r)"
  proof (rule Cons.IH)
    show "inj_on h (set xs)" using Cons.prems(2) by (simp add: inj_on_insert)
    show "h s \<notin> ?u" if "s \<in> set xs" "coll s" for s using Cons.prems(4) [of s] nx [of s] that by simp
  qed (use Cons.prems(1,3) in auto)
  then obtain used' sticky' where r: "fold_opt (reserve_sticky skills' R) (?u, ?t) (map g xs) = Some (used', sticky') \<and>
      (\<forall>s \<in> set xs. coll s \<longrightarrow> sticky' (ms_resource_id s) = Some (h s)) \<and>
      (\<forall>r. r \<notin> ms_resource_id ` set xs \<longrightarrow> sticky' r = ?t r)" by blast
  have "ms_resource_id x \<notin> ms_resource_id ` set xs" using Cons.prems(3) by simp
  then have "sticky' (ms_resource_id x) = ?t (ms_resource_id x)" using r by blast
  then show ?case
    using r step by (intro exI [of _ used'] exI [of _ sticky']) (simp del: reserve_sticky.simps)
qed simp

lemma assign_again:
  assumes "\<And>s. s \<in> set xs \<Longrightarrow> ms_resource_id (g s) = ms_resource_id s \<and> ms_skill_name (g s) = ms_skill_name s \<and>
      (if collides skills' R (g s) then sticky (ms_resource_id s) = Some (h s) else h s = ms_skill_name s)"
  shows "\<exists>used'. fold_opt (assign_name skills' R sticky) (used, res) (map g xs) =
    Some (used', res @ map (\<lambda>s. \<lparr>pa_resource_id = ms_resource_id s, pa_harness_name = h s,
      pa_derived = (h s \<noteq> ms_skill_name s)\<rparr>) xs)"
  using assms
proof (induction xs arbitrary: used res)
  case (Cons x xs)
  let ?a = "\<lparr>pa_resource_id = ms_resource_id x, pa_harness_name = h x, pa_derived = (h x \<noteq> ms_skill_name x)\<rparr>"
  have "assign_name skills' R sticky (used, res) (g x) = Some (insert (h x) used, res @ [?a])"
    using Cons.prems [of x] by (auto split: if_splits)
  moreover have "\<exists>u. fold_opt (assign_name skills' R sticky) (insert (h x) used, res @ [?a]) (map g xs) =
      Some (u, (res @ [?a]) @ map (\<lambda>s. \<lparr>pa_resource_id = ms_resource_id s, pa_harness_name = h s,
        pa_derived = (h s \<noteq> ms_skill_name s)\<rparr>) xs)"
    by (rule Cons.IH) (use Cons.prems in auto)
  ultimately show ?case by (simp del: assign_name.simps)
qed simp

lemma in_set_index: "x \<in> set xs \<Longrightarrow> \<exists>k < length xs. x = xs ! k"
  by (auto simp: in_set_conv_nth)

lemma allocation_stable:
  assumes ids: "ids_distinct skills" and asc: "ascii_names skills"
    and run: "allocate_projection_names skills R = Some res"
  shows "allocate_projection_names (map (remember res) skills) R = Some res"
proof -
  let ?o = "in_id_order skills" and ?g = "remember res" and ?s' = "map (remember res) skills"
  define h where "h s = pa_harness_name (the (find (\<lambda>a. pa_resource_id a = ms_resource_id s) res))" for s :: ManagedSkillName
  obtain used sticky where st: "sticky_ok skills R (used, sticky)"
    and ex: "list_all2 (explained skills R used sticky) ?o res" and di: "distinct (names_of res)"
    using allocation_facts [OF ids asc run] by blast
  have len: "length ?o = length res" using ex by (rule list_all2_lengthD)
  have rids: "map pa_resource_id res = map ms_resource_id ?o"
    using ex len by (intro nth_equalityI) (auto simp: list_all2_conv_all_nth explained_def)
  have dids: "distinct (map ms_resource_id ?o)"
    using ids distinct_map_perm [of ?o skills ms_resource_id] by (simp add: ids_distinct_def)
  have fk: "find (\<lambda>a. pa_resource_id a = ms_resource_id (?o ! k)) res = Some (res ! k)" if "k < length ?o" for k
  proof -
    have "pa_resource_id (res ! k) = ms_resource_id (?o ! k)" using rids that len by (metis nth_map)
    then show ?thesis using find_unique [of pa_resource_id res k] dids rids len that by simp
  qed
  have hk: "h (?o ! k) = pa_harness_name (res ! k)" if "k < length ?o" for k
    using fk [OF that] by (simp add: h_def)
  have prev: "ms_previous (?g s) = Some (h s)" if s: "s \<in> set ?o" for s
  proof -
    obtain k where "k < length ?o" "s = ?o ! k" using in_set_index [OF s] by blast
    then show ?thesis using fk hk by (simp add: remember_def)
  qed
  have exk: "explained skills R used sticky s (res ! k) \<and> h s = pa_harness_name (res ! k)"
    if "k < length ?o" "s = ?o ! k" for s k
    using ex that hk by (auto simp: list_all2_conv_all_nth)
  have name: "if collides skills R s then valid_collision_alias s (h s) = Some True \<and> h s \<notin> base_used skills R
      else h s = ms_skill_name s" if s: "s \<in> set ?o" for s
  proof -
    obtain k where k: "k < length ?o" "s = ?o ! k" using in_set_index [OF s] by blast
    have "\<And>n. sticky (ms_resource_id s) = Some n \<Longrightarrow> n \<notin> base_used skills R"
      using st by (auto simp: sticky_ok_def dest: ranI)
    moreover have "base_used skills R \<subseteq> used" using st by (auto simp: sticky_ok_def)
    ultimately show ?thesis
      using exk [OF k] by (auto simp: explained_def split: option.splits if_splits)
  qed
  have inj: "inj_on h (set ?o)"
  proof (rule inj_onI)
    fix s t assume s: "s \<in> set ?o" and t: "t \<in> set ?o" and eq: "h s = h t"
    obtain i where i: "i < length ?o" "s = ?o ! i" using in_set_index [OF s] by blast
    obtain j where j: "j < length ?o" "t = ?o ! j" using in_set_index [OF t] by blast
    have "names_of res ! i = names_of res ! j" using i j eq hk len by simp
    then have "i = j" using nth_eq_iff_index_eq [OF di] i j len by simp
    then show "s = t" using i j by simp
  qed
  have base': "base_used ?s' R = base_used skills R"
    unfolding base_used_def by (auto simp: image_iff) (metis collides_remember remember_simps(2))+
  obtain u' s' where sticky': "fold_opt (reserve_sticky ?s' R) (base_used skills R, Map.empty) (map ?g ?o) = Some (u', s')"
    "\<forall>s \<in> set ?o. collides skills R s \<longrightarrow> s' (ms_resource_id s) = Some (h s)"
    using sticky_again [of ?o ?g h ?s' R "collides skills R" "base_used skills R" Map.empty] prev name inj dids
    by auto
  have "\<exists>u''. fold_opt (assign_name ?s' R s') (u', []) (map ?g ?o) =
      Some (u'', [] @ map (\<lambda>s. \<lparr>pa_resource_id = ms_resource_id s, pa_harness_name = h s,
        pa_derived = (h s \<noteq> ms_skill_name s)\<rparr>) ?o)"
  proof (rule assign_again)
    show "ms_resource_id (?g s) = ms_resource_id s \<and> ms_skill_name (?g s) = ms_skill_name s \<and>
        (if collides ?s' R (?g s) then s' (ms_resource_id s) = Some (h s) else h s = ms_skill_name s)"
      if "s \<in> set ?o" for s
      using name [OF that] sticky'(2) that by (simp split: if_splits)
  qed
  then obtain u'' where fin: "fold_opt (assign_name ?s' R s') (u', []) (map ?g ?o) =
      Some (u'', [] @ map (\<lambda>s. \<lparr>pa_resource_id = ms_resource_id s, pa_harness_name = h s,
        pa_derived = (h s \<noteq> ms_skill_name s)\<rparr>) ?o)" by blast
  have "map (\<lambda>s. \<lparr>pa_resource_id = ms_resource_id s, pa_harness_name = h s,
      pa_derived = (h s \<noteq> ms_skill_name s)\<rparr>) ?o = res"
    using len exk by (intro nth_equalityI) (auto simp: explained_def intro!: ProjectionAssignment.equality)
  moreover have u0: "foldl (reserve_canonical ?s' R) R (map ?g ?o) = base_used skills R"
  proof -
    have "foldl (reserve_canonical ?s' R) R (map ?g ?o) = base_used ?s' R"
      by (simp add: reserve_canonical_all base_used_def)
    then show ?thesis using base' by (rule trans)
  qed
  ultimately show ?thesis
    unfolding allocate_projection_names_def Let_def order_remember u0 using sticky'(1) fin by simp
qed

section \<open>Aliases are skill names\<close>

text \<open>No hyphen at either end and never two in a row.\<close>

definition tidy :: "string \<Rightarrow> bool" where
  "tidy n \<longleftrightarrow> n \<noteq> [] \<and> list_all skill_name_byte n \<and> hd n \<noteq> hyphen \<and> last n \<noteq> hyphen \<and>
     successively (\<lambda>a b. a \<noteq> hyphen \<or> b \<noteq> hyphen) n"

lemma successively_sublist: "successively P xs \<Longrightarrow> sublist ys xs \<Longrightarrow> successively P ys"
  by (auto simp: sublist_def successively_append_iff)

lemma tidy_is_skill_name: "tidy n \<Longrightarrow> length n \<le> 64 \<Longrightarrow> skill_name_spec n"
proof -
  assume t: "tidy n" "length n \<le> 64"
  have "\<not> sublist [hyphen, hyphen] n"
    using successively_sublist [of "\<lambda>a b. a \<noteq> hyphen \<or> b \<noteq> hyphen" n "[hyphen, hyphen]"] t(1)
    by (auto simp: tidy_def)
  moreover have "\<not> prefix [hyphen] n" "\<not> suffix [hyphen] n"
    using t(1) by (auto simp: tidy_def prefix_def suffix_def)
  ultimately have "[] \<notin> set (split_on hyphen n)"
    using t(1) split_on_pieces_nonempty [of hyphen n] by (simp add: tidy_def)
  then show ?thesis
    using t skill_name_groups [of n] by (auto simp: skill_name_spec_def tidy_def Suc_le_eq)
qed

lemma skill_name_tidy:
  assumes "skill_name_spec n"
  shows "tidy n"
proof -
  have b: "list_all skill_name_byte n" and ne: "[] \<notin> set (split_on hyphen n)"
    using assms skill_name_groups [of n] by (auto simp: skill_name_spec_def)
  have s: "n \<noteq> []" "\<not> prefix [hyphen] n" "\<not> suffix [hyphen] n" "\<not> sublist [hyphen, hyphen] n"
    using ne split_on_pieces_nonempty [of hyphen n] by auto
  have "successively (\<lambda>a b. a \<noteq> hyphen \<or> b \<noteq> hyphen) m" if "\<not> sublist [hyphen, hyphen] m" for m
    using that
  proof (induction m rule: induct_list012)
    case (3 x y zs)
    have "\<not> sublist [hyphen, hyphen] (y # zs)" using 3 by (meson sublist_Cons_right)
    moreover have "x \<noteq> hyphen \<or> y \<noteq> hyphen" using 3 by (auto simp: sublist_Cons_right)
    ultimately show ?case using 3 by simp
  qed simp_all
  moreover have "hd n \<noteq> hyphen" using s(1,2) by (cases n) (auto simp: prefix_def)
  moreover have "last n \<noteq> hyphen" using s(1,3) by (cases n rule: rev_cases) (auto simp: suffix_def)
  ultimately show ?thesis using b s by (simp add: tidy_def)
qed

lemma tidy_append: "tidy a \<Longrightarrow> tidy b \<Longrightarrow> tidy (a @ hyphen # b)"
  by (cases b) (auto simp: tidy_def successively_append_iff skill_name_byte_def)

lemma sanitize_tidy: "tidy (sanitize_component v)"
proof -
  have "fst (foldl sanitize_byte (out, p) v) = [] \<or> tidy (fst (foldl sanitize_byte (out, p) v))"
    if "out = [] \<or> tidy out" for out p
    using that
  proof (induction v arbitrary: out p)
    case (Cons b v)
    obtain out' p' where st: "sanitize_byte (out, p) b = (out', p')" by fastforce
    have "out' = [] \<or> tidy out'"
      using st Cons.prems
      by (auto simp: tidy_def successively_append_iff skill_name_byte_def ascii_lowercase_def
          ascii_digit_def split: if_splits)
    then show ?case using Cons.IH [of out' p'] st by simp
  qed simp
  from this [of "[]" False] show ?thesis
    by (auto simp: sanitize_component_def Let_def tidy_def skill_name_byte_def ascii_lowercase_def)
qed

lemma trimmed_tidy:
  assumes "tidy n" "0 < k"
  shows "tidy (trim_matches (\<lambda>c. c = hyphen) (take k n))"
proof -
  let ?t = "take k n"
  have ne: "?t \<noteq> []" and h: "hd ?t \<noteq> hyphen" using assms by (auto simp: tidy_def)
  have lead: "dropWhile (\<lambda>c. c = hyphen) ?t = ?t" using ne h by (cases ?t) auto
  define m where "m = rev (dropWhile (\<lambda>c. c = hyphen) (rev ?t))"
  define r where "r = rev (takeWhile (\<lambda>c. c = hyphen) (rev ?t))"
  have t: "?t = m @ r"
    unfolding m_def r_def by (metis rev_append rev_rev_ident takeWhile_dropWhile_id)
  have "set r \<subseteq> {hyphen}" unfolding r_def by (auto dest: set_takeWhileD)
  then have mne: "m \<noteq> []" using t ne h by (cases r) auto
  have "n = m @ r @ drop k n" using append_take_drop_id [of k n] t by simp
  then have sub: "sublist m n" unfolding sublist_def by (metis append.left_neutral)
  have "rev m \<noteq> [] \<Longrightarrow> hd (rev m) \<noteq> hyphen"
    using hd_dropWhile [of "\<lambda>c. c = hyphen" "rev ?t"] by (simp add: m_def)
  then have "last m \<noteq> hyphen" using mne by (simp add: hd_rev)
  moreover have "hd m = hd ?t" using t mne by simp
  moreover have "set m \<subseteq> set n" using sub by (rule set_mono_sublist)
  ultimately have "tidy m"
    using assms mne h successively_sublist [OF _ sub]
    by (auto simp: tidy_def list_all_iff)
  then show ?thesis using lead by (simp add: trim_matches_def trim_end_matches_def m_def)
qed

lemma alias_is_skill_name:
  assumes "skill_name_spec (ms_skill_name s)" "1 \<le> i" "i < 2 ^ 64"
  shows "skill_name_spec (alias_name s i)"
proof (rule tidy_is_skill_name)
  have "dec i \<noteq> [] \<and> length (dec i) \<le> 20"
    using assms(3) dec_length [of i 19] by simp
  then have len: "length (alias_suffix i) \<le> 21" by (simp add: alias_suffix_def)
  let ?raw = "sanitize_component (ms_owner s) @ hyphen # ms_skill_name s"
  have "tidy ?raw" using sanitize_tidy skill_name_tidy [OF assms(1)] by (rule tidy_append)
  then have base: "tidy (trim_matches (\<lambda>c. c = hyphen) (take (64 - length (alias_suffix i)) ?raw))"
    using len by (intro trimmed_tidy) auto
  then have b: "alias_base s i = trim_matches (\<lambda>c. c = hyphen) (take (64 - length (alias_suffix i)) ?raw)"
    by (simp add: alias_base_def Let_def tidy_def)
  have d: "tidy (dec i)"
  proof -
    have no: "c \<noteq> hyphen" if "c \<in> set (dec i)" for c using dec_no_hyphen [of i] that by blast
    show ?thesis
      using dec_digits [of i] no [OF hd_in_set] no [OF last_in_set] no [OF nth_mem]
      by (auto simp: tidy_def list_all_iff skill_name_byte_def successively_conv_nth)
  qed
  have "tidy (alias_base s i)" unfolding b by (rule base)
  then show "tidy (alias_name s i)"
    using d tidy_append [of "alias_base s i" "dec i"] by (auto simp: alias_name_def alias_suffix_def)
  have "length (trim_matches P xs) \<le> length xs" for P and xs :: string
    unfolding trim_matches_def trim_end_matches_def
    by (metis length_dropWhile_le length_rev order_trans)
  then have "length (alias_base s i) \<le> 64 - length (alias_suffix i)"
    unfolding b by (metis length_take min.bounded_iff order_refl min.cobounded2 order_trans)
  then show "length (alias_name s i) \<le> 64" using len by (simp add: alias_name_def)
qed

lemma valid_collision_alias_Some:
  assumes "valid_collision_alias s n = Some True" "ascii_name (ms_skill_name s)"
  shows "\<exists>i. 1 \<le> i \<and> i < 2 ^ 64 \<and> n = alias_name s i"
proof (cases "n = alias_name s 1")
  case False
  then obtain p sfx i where "rsplit_once hyphen n = Some (p, sfx)" "parse_u64 sfx = Some i" "2 \<le> i" "n = alias_name s i"
    using assms
    by (auto simp: valid_collision_alias_def collision_alias_at_ascii split: option.splits if_splits)
  moreover from this have "i < 2 ^ 64" by (auto simp: parse_u64_def Let_def split: if_splits)
  ultimately show ?thesis by (intro exI [of _ i]) simp
qed (auto intro: exI [of _ 1])

lemma skill_name_ascii: "skill_name_spec n \<Longrightarrow> ascii_name n"
  using skill_name_tidy [of n] skill_name_byte_ascii by (auto simp: tidy_def ascii_name_def list_all_iff)

lemma allocate_perm:
  assumes "mset skills = mset skills'" "ids_distinct skills"
  shows "allocate_projection_names skills R = allocate_projection_names skills' R"
proof -
  have "inj_on (\<lambda>s. rid_bytes (ms_resource_id s)) (set skills)"
    using assms(2) by (auto simp: ids_distinct_def distinct_map inj_on_def intro: ResourceId.expand)
  with assms(1) have o: "in_id_order skills = in_id_order skills'" by (rule sort_key_canonical)
  have "length (filter P skills) = length (filter P skills')" for P
    using assms(1) by (metis mset_filter size_mset)
  then have c: "collides skills R = collides skills' R" by (auto simp: collides_def fun_eq_iff)
  have "reserve_canonical skills R = reserve_canonical skills' R" by (auto simp: reserve_canonical_def c fun_eq_iff)
  moreover have "reserve_sticky skills R = reserve_sticky skills' R" by (rule ext, rule ext) (auto simp: c)
  moreover have "assign_name skills R = assign_name skills' R" by (rule ext, rule ext, rule ext) (auto simp: c)
  ultimately show ?thesis by (simp only: allocate_projection_names_def o)
qed

section \<open>Properties\<close>

text \<open>C25. Resolution of the requirements for one resource.  There is no state without a
  requirement; a selected source has the strongest kind present and the revision every source
  of that kind asks for, and all other sources are kept as suppressed; otherwise two sources
  of the strongest kind disagree, all sources of that kind are reported and the last good
  revision is passed on.\<close>

theorem desired_state_is_strongest_agreement:
  "case resolve_desired_sources ss l of
     Absent \<Rightarrow> ss = []
   | Selected s rest \<Rightarrow> mset (s # rest) = mset ss \<and>
       (\<forall>x \<in> set ss. dsrc_kind x \<le> dsrc_kind s \<and>
          (dsrc_kind x = dsrc_kind s \<longrightarrow> dsrc_revision_id x = dsrc_revision_id s))
   | Conflict cs l' \<Rightarrow> l' = l \<and>
       (\<exists>x \<in> set cs. \<exists>y \<in> set cs. dsrc_revision_id x \<noteq> dsrc_revision_id y) \<and>
       (\<exists>k. (\<forall>x \<in> set ss. dsrc_kind x \<le> k) \<and> mset cs = filter_mset (\<lambda>x. dsrc_kind x = k) (mset ss))"
proof (cases "ss = []")
  case False
  let ?s = "sort_key source_order ss" let ?k = "dsrc_kind (hd ?s)"
  let ?active = "filter (\<lambda>x. dsrc_kind x = ?k) ?s" and ?others = "filter (\<lambda>x. dsrc_kind x \<noteq> ?k) ?s"
  have top: "\<forall>x \<in> set ss. dsrc_kind x \<le> ?k" and ne: "?s \<noteq> []"
    using strongest_first [OF False] by blast+
  have ms: "mset ?active + mset ?others = mset ss" using mset_filter_split [of _ ?s] by simp
  have "hd ?s \<in> set ?active" using hd_in_set [OF ne] by simp
  then obtain a as where act: "?active = a # as" by (cases ?active) auto
  then have mem: "a \<in> set ?active" by simp
  then have a: "dsrc_kind a = ?k" by simp
  show ?thesis
  proof (cases "\<exists>x \<in> set ?active. \<exists>y \<in> set ?active. dsrc_revision_id x \<noteq> dsrc_revision_id y")
    case True
    then have "1 < card (set (map dsrc_revision_id ?active))"
      using card_revisions [of dsrc_revision_id ?active] unfolding set_map by blast
    then have c: "resolve_desired_sources ss l = Conflict (sort_key dsrc_source_id ?active) l"
      using resolve_eq [OF False, of l] by (simp only: Let_def if_True)
    have "\<exists>x \<in> set (sort_key dsrc_source_id ?active). \<exists>y \<in> set (sort_key dsrc_source_id ?active).
        dsrc_revision_id x \<noteq> dsrc_revision_id y"
      using True unfolding set_sort .
    moreover have "mset (sort_key dsrc_source_id ?active) = filter_mset (\<lambda>x. dsrc_kind x = ?k) (mset ss)" by simp
    ultimately show ?thesis using top unfolding c by auto
  next
    case agree: False
    then have "\<not> 1 < card (set (map dsrc_revision_id ?active))"
      using card_revisions [of dsrc_revision_id ?active] unfolding set_map by blast
    then have r: "resolve_desired_sources ss l = Selected a (as @ ?others)"
      using resolve_eq [OF False, of l] by (simp only: Let_def if_False act list.sel)
    have rev: "dsrc_revision_id x = dsrc_revision_id a" if "x \<in> set ss" "dsrc_kind x = ?k" for x
    proof -
      have "x \<in> set ?active" using that by simp
      then show ?thesis using agree mem by blast
    qed
    have "mset (a # as @ ?others) = mset ss" using ms unfolding act by simp
    then show ?thesis unfolding r using top a rev by simp
  qed
qed (simp add: resolve_desired_sources_def)

definition team_source :: DesiredSource where
  "team_source = \<lparr>dsrc_resource_id = ''r'', dsrc_revision_id = ''1'', dsrc_source_id = ''team:t'',
     dsrc_source_label = ''team'', dsrc_kind = TeamAssignment\<rparr>"

definition direct_source :: DesiredSource where
  "direct_source = \<lparr>dsrc_resource_id = ''r'', dsrc_revision_id = ''2'', dsrc_source_id = ''direct:r'',
     dsrc_source_label = ''direct'', dsrc_kind = DirectSubscription\<rparr>"

theorem desired_state_is_strongest_agreement_witness:
  "resolve_desired_sources [direct_source, team_source] None = Selected team_source [direct_source] \<and>
   dsrc_kind direct_source \<le> dsrc_kind team_source"
proof -
  have "resolve_desired_sources [direct_source, team_source] None = Selected team_source [direct_source]"
    by (simp add: resolve_desired_sources_def team_source_def direct_source_def source_order_def less_eq_prod_def)
  with desired_state_is_strongest_agreement [of "[direct_source, team_source]" None] show ?thesis by simp
qed

text \<open>Requirements of a weaker kind never change the outcome: they only join the suppressed
  sources of a selection, and a conflict stays the same conflict.\<close>

theorem weaker_sources_only_wait:
  assumes "\<And>x y. x \<in> set ws \<Longrightarrow> y \<in> set ss \<Longrightarrow> dsrc_kind y = Max (dsrc_kind ` set ss) \<Longrightarrow> dsrc_kind x < dsrc_kind y"
    and "ss \<noteq> []"
  shows "(case resolve_desired_sources ss l of
       Selected s rest \<Rightarrow> \<exists>rest'. resolve_desired_sources (ss @ ws) l = Selected s rest' \<and> mset rest' = mset rest + mset ws
     | Conflict cs l' \<Rightarrow> resolve_desired_sources (ss @ ws) l = Conflict cs l'
     | Absent \<Rightarrow> False)"
proof -
  let ?s = "sort_key source_order ss" and ?t = "sort_key source_order (ss @ ws)"
  let ?k = "dsrc_kind (hd ?s)"
  have top: "\<forall>x \<in> set ss. dsrc_kind x \<le> ?k" and hd: "hd ?s \<in> set ss"
    using strongest_first [OF assms(2)] by (auto, metis list.set_sel(1) set_sort)
  have "?k = Max (dsrc_kind ` set ss)" using top hd by (intro Max_eqI [symmetric]) auto
  then have less: "dsrc_kind x < ?k" if "x \<in> set ws" for x using assms(1) [OF that hd] by simp
  have top': "\<forall>x \<in> set (ss @ ws). dsrc_kind x \<le> dsrc_kind (hd ?t)" and hd': "hd ?t \<in> set (ss @ ws)"
    using strongest_first [of "ss @ ws"] assms(2) by (auto, metis list.set_sel(1) set_append set_sort Un_iff)
  have k: "dsrc_kind (hd ?t) = ?k"
    using top' hd' top hd less by (metis Un_iff antisym less_imp_le set_append)
  have fw: "filter (\<lambda>x. dsrc_kind x = ?k) ws = []" by (auto simp: filter_empty_conv dest!: less)
  have "filter (\<lambda>x. dsrc_kind x = ?k) ?t = filter (\<lambda>x. dsrc_kind x = ?k) ?s"
    unfolding filter_sort filter_append fw by simp
  moreover have "mset (filter (\<lambda>x. dsrc_kind x \<noteq> ?k) ?t) = mset (filter (\<lambda>x. dsrc_kind x \<noteq> ?k) ?s) + mset ws"
    by (auto simp: filter_mset_eq_conv dest!: less)
  ultimately show ?thesis
    using resolve_eq [OF assms(2), of l] resolve_eq [of "ss @ ws" l] assms(2) k by (simp add: Let_def)
qed

theorem weaker_sources_only_wait_witness:
  "\<exists>rest. resolve_desired_sources ([team_source] @ [direct_source]) None = Selected team_source rest \<and>
     mset rest = {#direct_source#}"
proof -
  have "resolve_desired_sources [team_source] None = Selected team_source []"
    by (simp add: resolve_desired_sources_def)
  then show ?thesis
    using weaker_sources_only_wait [of "[direct_source]" "[team_source]" None]
    by (simp add: less_DesiredSourceKind_def direct_source_def team_source_def)
qed

lemma allocated_names:
  assumes "allocate_projection_names skills reserved = Some res"
    and "ids_distinct skills" and "\<And>s. s \<in> set skills \<Longrightarrow> skill_name_spec (ms_skill_name s)"
  shows "map pa_resource_id res = map ms_resource_id (in_id_order skills) \<and> distinct (names_of res) \<and>
    set (names_of res) \<inter> reserved = {} \<and> (\<forall>n \<in> set (names_of res). skill_name_spec n) \<and>
    (\<forall>s \<in> set skills. \<not> collides skills reserved s \<longrightarrow>
       \<lparr>pa_resource_id = ms_resource_id s, pa_harness_name = ms_skill_name s, pa_derived = False\<rparr> \<in> set res)"
proof -
  let ?o = "in_id_order skills"
  have asc: "ascii_names skills" using assms(3) by (auto simp: ascii_names_def intro: skill_name_ascii)
  obtain used sticky where st: "sticky_ok skills reserved (used, sticky)"
    and ex: "list_all2 (explained skills reserved used sticky) ?o res" and di: "distinct (names_of res)"
    using allocation_facts [OF assms(2) asc assms(1)] by blast
  have len: "length ?o = length res" using ex by (rule list_all2_lengthD)
  have k: "explained skills reserved used sticky (?o ! k) (res ! k) \<and> ?o ! k \<in> set skills" if "k < length res" for k
    using ex that len nth_mem [of k ?o] by (auto simp: list_all2_conv_all_nth)
  have one: "pa_harness_name a \<notin> reserved \<and> skill_name_spec (pa_harness_name a)" if a: "a \<in> set res" for a
  proof -
    obtain k where "k < length res" "a = res ! k" using in_set_index [OF a] by blast
    then obtain s where s: "s \<in> set skills" "explained skills reserved used sticky s a" using k by blast
    have "reserved \<subseteq> used" "sticky (ms_resource_id s) = Some n \<Longrightarrow> n \<notin> reserved" for n
      using st by (auto simp: sticky_ok_def base_used_def dest: ranI)
    moreover have "skill_name_spec n" if "valid_collision_alias s n = Some True" for n
      using valid_collision_alias_Some [OF that] assms(3) [OF s(1)] alias_is_skill_name skill_name_ascii by blast
    ultimately show ?thesis
      using s assms(3) [OF s(1)]
      by (auto simp: explained_def collides_def split: if_splits option.splits)
  qed
  have "map pa_resource_id res = map ms_resource_id ?o"
    using k len by (intro nth_equalityI) (auto simp: explained_def)
  moreover have "\<lparr>pa_resource_id = ms_resource_id s, pa_harness_name = ms_skill_name s, pa_derived = False\<rparr> \<in> set res"
    if s: "s \<in> set skills" "\<not> collides skills reserved s" for s
  proof -
    have "s \<in> set ?o" using s(1) by simp
    then obtain j where j: "j < length res" "s = ?o ! j" using in_set_index len by metis
    then have "res ! j = \<lparr>pa_resource_id = ms_resource_id s, pa_harness_name = ms_skill_name s, pa_derived = False\<rparr>"
      using k [OF j(1)] s(2) by (auto simp: explained_def intro!: ProjectionAssignment.equality)
    then show ?thesis using nth_mem [OF j(1)] by simp
  qed
  ultimately show ?thesis using di one by auto
qed

text \<open>C23. Projection names are unambiguous.  Every managed skill gets one name, in the order of the
  resource ids; no two skills share a name, no name is taken by an unmanaged skill, a skill
  whose own name is free and unshared keeps it, and every name is a valid skill name.\<close>

theorem projection_names_are_unambiguous:
  assumes "allocate_projection_names skills reserved = Some res"
    and "ids_distinct skills" and "\<And>s. s \<in> set skills \<Longrightarrow> skill_name_spec (ms_skill_name s)"
  shows "map pa_resource_id res = map ms_resource_id (in_id_order skills) \<and> distinct (names_of res) \<and>
    set (names_of res) \<inter> reserved = {} \<and> (\<forall>n \<in> set (names_of res). skill_name_spec n) \<and>
    (\<forall>s \<in> set skills. \<not> collides skills reserved s \<longrightarrow>
       \<lparr>pa_resource_id = ms_resource_id s, pa_harness_name = ms_skill_name s, pa_derived = False\<rparr> \<in> set res)"
  by (rule allocated_names [OF assms])

definition two_reviews :: "ManagedSkillName list" where
  "two_reviews =
     [\<lparr>ms_resource_id = ResourceId ''b'', ms_owner = ''Bob'', ms_skill_name = ''review'', ms_previous = None\<rparr>,
      \<lparr>ms_resource_id = ResourceId ''a'', ms_owner = ''ann'', ms_skill_name = ''review'', ms_previous = None\<rparr>]"

lemma two_reviews_ok:
  "ids_distinct two_reviews" "s \<in> set two_reviews \<Longrightarrow> skill_name_spec (ms_skill_name s)" "ascii_names two_reviews"
proof -
  show "ids_distinct two_reviews" by (simp add: ids_distinct_def two_reviews_def)
  show n: "skill_name_spec (ms_skill_name s)" if "s \<in> set two_reviews" for s
    using that by (auto simp: two_reviews_def skill_name_spec_def ascii_lowercase_def)
  show "ascii_names two_reviews" using n by (auto simp: ascii_names_def intro: skill_name_ascii)
qed

lemma two_reviews_allocated: "\<exists>res. allocate_projection_names two_reviews {''review''} = Some res"
  by (rule allocate_total [OF two_reviews_ok(3)]) (simp_all add: two_reviews_def)

theorem projection_names_are_unambiguous_witness:
  "\<exists>res. allocate_projection_names two_reviews {''review''} = Some res \<and> distinct (names_of res) \<and>
     ''review'' \<notin> set (names_of res)"
proof -
  obtain res where r: "allocate_projection_names two_reviews {''review''} = Some res"
    using two_reviews_allocated by blast
  show ?thesis using projection_names_are_unambiguous [OF r two_reviews_ok(1,2)] r by auto
qed

text \<open>C24. Allocation always ends with a name for every skill: the search for a free alias runs out
  only when about two to the sixty-four names are in use.\<close>

theorem allocation_always_succeeds:
  assumes "\<And>s. s \<in> set skills \<Longrightarrow> skill_name_spec (ms_skill_name s)"
    and "finite reserved" "card reserved + 3 * length skills + 2 < 2 ^ 64"
  shows "\<exists>res. allocate_projection_names skills reserved = Some res"
  using assms by (intro allocate_total) (auto simp: ascii_names_def intro: skill_name_ascii)

theorem allocation_always_succeeds_witness:
  "\<exists>res. allocate_projection_names two_reviews {''review'', ''ann-review''} = Some res"
  by (rule allocation_always_succeeds) (use two_reviews_ok(2) in \<open>auto simp: two_reviews_def\<close>)

text \<open>Names are stable: the order in which the skills are listed does not matter, and a
  reconciliation that starts from the names just assigned assigns the same names again.\<close>

theorem allocation_is_stable:
  assumes "allocate_projection_names skills reserved = Some res"
    and "ids_distinct skills" and "\<And>s. s \<in> set skills \<Longrightarrow> skill_name_spec (ms_skill_name s)"
  shows "allocate_projection_names (map (remember res) skills) reserved = Some res \<and>
    (\<forall>skills'. mset skills' = mset skills \<longrightarrow> allocate_projection_names skills' reserved = Some res)"
proof -
  have "ascii_names skills" using assms(3) by (auto simp: ascii_names_def intro: skill_name_ascii)
  then show ?thesis
    using allocation_stable [OF assms(2) _ assms(1)] allocate_perm [of skills _ reserved] assms(1,2) by metis
qed

theorem allocation_is_stable_witness:
  "\<exists>res. allocate_projection_names two_reviews {''review''} = Some res \<and>
     allocate_projection_names (map (remember res) two_reviews) {''review''} = Some res \<and>
     allocate_projection_names (rev two_reviews) {''review''} = Some res"
proof -
  obtain res where r: "allocate_projection_names two_reviews {''review''} = Some res"
    using two_reviews_allocated by blast
  show ?thesis using allocation_is_stable [OF r two_reviews_ok(1,2)] r by auto
qed

end
