(* ===== verification/Wire_Hash.thy ===== *)
theory Wire_Hash
  imports Snapshot Sync
begin

text \<open>
  \<open>crates/denju-wire/src/mutation.rs\<close> and its parts: request hashes.  Every mutation is named by
  SHA-256 over a domain and the canonical JSON of its fields, so that a registry can tell a
  replay of an operation from a different request under the same operation id.  The JSON
  canonicalizer, SHA-256 and hex are arguments; the fields and domains are the code's.  Also the
  wire form of manifests from \<open>public.rs\<close>.
\<close>

section \<open>JSON\<close>

datatype json =
    JNull | JBool bool | JNumber nat | JString string | JArray "json list" | JObject "(string \<times> json) list"

definition jnum :: "u64 \<Rightarrow> json" where
  "jnum w = JNumber (unat w)"

definition jopt :: "('a \<Rightarrow> json) \<Rightarrow> 'a option \<Rightarrow> json" where
  "jopt f x = (case x of None \<Rightarrow> JNull | Some v \<Rightarrow> f v)"

section \<open>Wire types\<close>

datatype TeamRole = Owner | Maintainer | Member

definition TeamRole_as_str :: "TeamRole \<Rightarrow> string" where
  "TeamRole_as_str r = (case r of Owner \<Rightarrow> ''owner'' | Maintainer \<Rightarrow> ''maintainer'' | Member \<Rightarrow> ''member'')"

text \<open>Enumerations are serialized in snake case, absent optional members are left out.\<close>

definition TeamRole_json :: "TeamRole \<Rightarrow> json" where
  "TeamRole_json r = JString (TeamRole_as_str r)"

record PackMemberTarget =
  pmt_resource_id :: string
  pmt_release_version :: "u64 option"

definition PackMemberTarget_json :: "PackMemberTarget \<Rightarrow> json" where
  "PackMemberTarget_json t =
     JObject ((''resource_id'', JString (pmt_resource_id t)) #
       (case pmt_release_version t of None \<Rightarrow> [] | Some v \<Rightarrow> [(''release_version'', jnum v)]))"

datatype PublicSkillManifestEntry =
    PME_File string string u64 bool
  | PME_Directory string
  | PME_Symlink string string

record PublicSkillManifest =
  pm_root_tree_id :: string
  pm_entries :: "PublicSkillManifestEntry list"

fun PublicSkillManifestEntry_json :: "PublicSkillManifestEntry \<Rightarrow> json" where
  "PublicSkillManifestEntry_json (PME_File path blob_id sz executable) =
     JObject [(''kind'', JString ''file''), (''path'', JString path), (''blob_id'', JString blob_id),
       (''size'', jnum sz), (''executable'', JBool executable)]"
| "PublicSkillManifestEntry_json (PME_Directory path) =
     JObject [(''kind'', JString ''directory''), (''path'', JString path)]"
| "PublicSkillManifestEntry_json (PME_Symlink path target) =
     JObject [(''kind'', JString ''symlink''), (''path'', JString path), (''target'', JString target)]"

definition PublicSkillManifest_json :: "PublicSkillManifest \<Rightarrow> json" where
  "PublicSkillManifest_json m =
     JObject [(''root_tree_id'', JString (pm_root_tree_id m)),
       (''entries'', JArray (map PublicSkillManifestEntry_json (pm_entries m)))]"

record ForkSyncIntent =
  fsi_expected_sync_base_revision_id :: string
  fsi_upstream_revision_id :: string

definition ForkSyncIntent_json :: "ForkSyncIntent \<Rightarrow> json" where
  "ForkSyncIntent_json i =
     JObject [(''expected_sync_base_revision_id'', JString (fsi_expected_sync_base_revision_id i)),
       (''upstream_revision_id'', JString (fsi_upstream_revision_id i))]"

record ForkImportIntent =
  fii_upstream_resource_id :: string
  fii_upstream_revision_id :: string
  fii_replace_subscription :: bool
  fii_promotion_head_revision_id :: "string option"
  fii_historical_skill_name :: "string option"

definition optional_member :: "string \<Rightarrow> string option \<Rightarrow> (string \<times> json) list" where
  "optional_member k x = (case x of None \<Rightarrow> [] | Some v \<Rightarrow> [(k, JString v)])"

definition ForkImportIntent_json :: "ForkImportIntent \<Rightarrow> json" where
  "ForkImportIntent_json i =
     JObject ([(''upstream_resource_id'', JString (fii_upstream_resource_id i)),
       (''upstream_revision_id'', JString (fii_upstream_revision_id i)),
       (''replace_subscription'', JBool (fii_replace_subscription i))] @
       optional_member ''promotion_head_revision_id'' (fii_promotion_head_revision_id i) @
       optional_member ''historical_skill_name'' (fii_historical_skill_name i))"

section \<open>Wire manifests\<close>

record hex_lib =
  hex_encode :: "string \<Rightarrow> string"
  hex_decode :: "string \<Rightarrow> (string, string) result"

fun ObjectIdError_text :: "ObjectIdError \<Rightarrow> string" where
  "ObjectIdError_text (InvalidHex e) = ''invalid hexadecimal object ID: '' @ e"
| "ObjectIdError_text (InvalidLength n) = ''object IDs are 32 bytes, got '' @ dec n"

fun manifest_entry_from_core :: "hex_lib \<Rightarrow> SkillManifestEntry \<Rightarrow> PublicSkillManifestEntry" where
  "manifest_entry_from_core X (ME_File path blob sz executable) =
     PME_File path (hex_encode X (blob_bytes blob)) sz executable"
| "manifest_entry_from_core X (ME_Directory path) = PME_Directory path"
| "manifest_entry_from_core X (ME_Symlink path target) = PME_Symlink path target"

fun manifest_entry_to_core :: "hex_lib \<Rightarrow> PublicSkillManifestEntry \<Rightarrow> (SkillManifestEntry, string) result" where
  "manifest_entry_to_core X (PME_File path blob_id sz executable) =
     res_bind (map_err ObjectIdError_text (object_id_from_str (hex_decode X) BlobId blob_id)) (\<lambda>blob.
       Ok (ME_File path blob sz executable))"
| "manifest_entry_to_core X (PME_Directory path) = Ok (ME_Directory path)"
| "manifest_entry_to_core X (PME_Symlink path target) = Ok (ME_Symlink path target)"

definition manifest_from_core :: "hex_lib \<Rightarrow> SkillManifest \<Rightarrow> PublicSkillManifest" where
  "manifest_from_core X m =
     \<lparr>pm_root_tree_id = hex_encode X (tree_bytes (m_root_tree m)),
      pm_entries = map (manifest_entry_from_core X) (m_entries m)\<rparr>"

definition manifest_to_core :: "hex_lib \<Rightarrow> PublicSkillManifest \<Rightarrow> (SkillManifest, string) result" where
  "manifest_to_core X m =
     res_bind (map_err ObjectIdError_text (object_id_from_str (hex_decode X) TreeId (pm_root_tree_id m))) (\<lambda>root_tree.
     res_bind (collect_res (manifest_entry_to_core X) (pm_entries m)) (\<lambda>entries.
     Ok \<lparr>m_root_tree = root_tree, m_entries = entries\<rparr>))"

section \<open>Domains\<close>

abbreviation nul :: char where "nul \<equiv> CHR 0x00"

definition CREATE_INSTALLATION_DOMAIN :: string where
  "CREATE_INSTALLATION_DOMAIN = ''denju:http:v1:create-installation'' @ [nul]"

definition CLAIM_IDENTITY_DOMAIN :: string where
  "CLAIM_IDENTITY_DOMAIN = ''denju:http:v1:claim-identity'' @ [nul]"

definition LOGIN_DOMAIN :: string where
  "LOGIN_DOMAIN = ''denju:http:v1:login'' @ [nul]"

definition RECOVERY_RESET_DOMAIN :: string where
  "RECOVERY_RESET_DOMAIN = ''denju:http:v1:recovery-reset'' @ [nul]"

definition IDENTITY_BACKUP_DOMAIN :: string where
  "IDENTITY_BACKUP_DOMAIN = ''denju:http:v1:identity-backup'' @ [nul]"

definition DEVICE_REVOKE_DOMAIN :: string where
  "DEVICE_REVOKE_DOMAIN = ''denju:http:v1:device-revoke'' @ [nul]"

definition TOKEN_CREATE_DOMAIN :: string where
  "TOKEN_CREATE_DOMAIN = ''denju:http:v1:automation-token-create'' @ [nul]"

definition TOKEN_REVOKE_DOMAIN :: string where
  "TOKEN_REVOKE_DOMAIN = ''denju:http:v1:automation-token-revoke'' @ [nul]"

definition ACCOUNT_DELETE_DOMAIN :: string where
  "ACCOUNT_DELETE_DOMAIN = ''denju:http:v1:account-delete'' @ [nul]"

definition SUBSCRIBE_DOMAIN :: string where
  "SUBSCRIBE_DOMAIN = ''denju:http:v1:subscribe'' @ [nul]"

definition UNSUBSCRIBE_DOMAIN :: string where
  "UNSUBSCRIBE_DOMAIN = ''denju:http:v1:unsubscribe'' @ [nul]"

definition PRIVATE_REVISION_DOMAIN :: string where
  "PRIVATE_REVISION_DOMAIN = ''denju:http:v1:private-revision'' @ [nul]"

definition PRIVATE_SKILL_IMPORT_DOMAIN :: string where
  "PRIVATE_SKILL_IMPORT_DOMAIN = ''denju:http:v1:private-skill-import'' @ [nul]"

definition PUBLISH_SKILL_DOMAIN :: string where
  "PUBLISH_SKILL_DOMAIN = ''denju:http:v1:publish-skill'' @ [nul]"

definition RESTORE_SKILL_DOMAIN :: string where
  "RESTORE_SKILL_DOMAIN = ''denju:http:v1:restore-skill'' @ [nul]"

definition RENAME_SKILL_DOMAIN :: string where
  "RENAME_SKILL_DOMAIN = ''denju:http:v1:rename-skill'' @ [nul]"

definition UNPUBLISH_SKILL_DOMAIN :: string where
  "UNPUBLISH_SKILL_DOMAIN = ''denju:http:v1:unpublish-skill'' @ [nul]"

definition DELETE_SKILL_DOMAIN :: string where
  "DELETE_SKILL_DOMAIN = ''denju:http:v1:delete-skill'' @ [nul]"

definition DEPRECATE_SKILL_DOMAIN :: string where
  "DEPRECATE_SKILL_DOMAIN = ''denju:http:v1:deprecate-skill'' @ [nul]"

definition HISTORY_PRUNE_DOMAIN :: string where
  "HISTORY_PRUNE_DOMAIN = ''denju:http:v1:history-prune'' @ [nul]"

definition SHARE_SKILL_DOMAIN :: string where
  "SHARE_SKILL_DOMAIN = ''denju:http:v1:share-skill'' @ [nul]"

definition UNSHARE_SKILL_DOMAIN :: string where
  "UNSHARE_SKILL_DOMAIN = ''denju:http:v1:unshare-skill'' @ [nul]"

definition PROPOSAL_CREATE_DOMAIN :: string where
  "PROPOSAL_CREATE_DOMAIN = ''denju:http:v1:proposal-create'' @ [nul]"

definition PROPOSAL_ACCEPT_DOMAIN :: string where
  "PROPOSAL_ACCEPT_DOMAIN = ''denju:http:v1:proposal-accept'' @ [nul]"

definition PROPOSAL_REJECT_DOMAIN :: string where
  "PROPOSAL_REJECT_DOMAIN = ''denju:http:v1:proposal-reject'' @ [nul]"

definition PROPOSAL_WITHDRAW_DOMAIN :: string where
  "PROPOSAL_WITHDRAW_DOMAIN = ''denju:http:v1:proposal-withdraw'' @ [nul]"

definition PACK_CREATE_DOMAIN :: string where
  "PACK_CREATE_DOMAIN = ''denju:http:v1:pack-create'' @ [nul]"

definition PACK_ADD_DOMAIN :: string where
  "PACK_ADD_DOMAIN = ''denju:http:v1:pack-add'' @ [nul]"

definition PACK_REMOVE_DOMAIN :: string where
  "PACK_REMOVE_DOMAIN = ''denju:http:v1:pack-remove'' @ [nul]"

definition PACK_PUBLISH_DOMAIN :: string where
  "PACK_PUBLISH_DOMAIN = ''denju:http:v1:pack-publish'' @ [nul]"

definition PACK_RENAME_DOMAIN :: string where
  "PACK_RENAME_DOMAIN = ''denju:http:v1:pack-rename'' @ [nul]"

definition PACK_UNPUBLISH_DOMAIN :: string where
  "PACK_UNPUBLISH_DOMAIN = ''denju:http:v1:pack-unpublish'' @ [nul]"

definition PACK_DELETE_DOMAIN :: string where
  "PACK_DELETE_DOMAIN = ''denju:http:v1:pack-delete'' @ [nul]"

definition PACK_SUBSCRIBE_DOMAIN :: string where
  "PACK_SUBSCRIBE_DOMAIN = ''denju:http:v1:pack-subscribe'' @ [nul]"

definition PACK_UNSUBSCRIBE_DOMAIN :: string where
  "PACK_UNSUBSCRIBE_DOMAIN = ''denju:http:v1:pack-unsubscribe'' @ [nul]"

definition QUARANTINE_DOMAIN :: string where
  "QUARANTINE_DOMAIN = ''denju:http:v1:admin-quarantine'' @ [nul]"

definition UNQUARANTINE_DOMAIN :: string where
  "UNQUARANTINE_DOMAIN = ''denju:http:v1:admin-unquarantine'' @ [nul]"

definition PROFILE_UPDATE_DOMAIN :: string where
  "PROFILE_UPDATE_DOMAIN = ''denju:http:v1:profile-update'' @ [nul]"

definition FOLLOW_DOMAIN :: string where
  "FOLLOW_DOMAIN = ''denju:http:v1:follow'' @ [nul]"

definition UNFOLLOW_DOMAIN :: string where
  "UNFOLLOW_DOMAIN = ''denju:http:v1:unfollow'' @ [nul]"

definition STAR_DOMAIN :: string where
  "STAR_DOMAIN = ''denju:http:v1:star'' @ [nul]"

definition UNSTAR_DOMAIN :: string where
  "UNSTAR_DOMAIN = ''denju:http:v1:unstar'' @ [nul]"

definition TOPICS_DOMAIN :: string where
  "TOPICS_DOMAIN = ''denju:http:v1:resource-topics'' @ [nul]"

definition REPORT_DOMAIN :: string where
  "REPORT_DOMAIN = ''denju:http:v1:report-resource'' @ [nul]"

definition TEAM_CREATE_DOMAIN :: string where
  "TEAM_CREATE_DOMAIN = ''denju:http:v1:team-create'' @ [nul]"

definition TEAM_INVITE_DOMAIN :: string where
  "TEAM_INVITE_DOMAIN = ''denju:http:v1:team-invite'' @ [nul]"

definition TEAM_INVITE_REVOKE_DOMAIN :: string where
  "TEAM_INVITE_REVOKE_DOMAIN = ''denju:http:v1:team-invite-revoke'' @ [nul]"

definition TEAM_JOIN_DOMAIN :: string where
  "TEAM_JOIN_DOMAIN = ''denju:http:v1:team-join'' @ [nul]"

definition TEAM_MEMBER_ROLE_DOMAIN :: string where
  "TEAM_MEMBER_ROLE_DOMAIN = ''denju:http:v1:team-member-role'' @ [nul]"

definition TEAM_MEMBER_REMOVE_DOMAIN :: string where
  "TEAM_MEMBER_REMOVE_DOMAIN = ''denju:http:v1:team-member-remove'' @ [nul]"

definition TEAM_SETTINGS_DOMAIN :: string where
  "TEAM_SETTINGS_DOMAIN = ''denju:http:v1:team-settings'' @ [nul]"

definition TEAM_PACK_ASSIGN_DOMAIN :: string where
  "TEAM_PACK_ASSIGN_DOMAIN = ''denju:http:v1:team-pack-assign'' @ [nul]"

definition TEAM_PACK_UNASSIGN_DOMAIN :: string where
  "TEAM_PACK_UNASSIGN_DOMAIN = ''denju:http:v1:team-pack-unassign'' @ [nul]"

definition TEAM_LEAVE_DOMAIN :: string where
  "TEAM_LEAVE_DOMAIN = ''denju:http:v1:team-leave'' @ [nul]"

definition TEAM_OWNER_TRANSFER_DOMAIN :: string where
  "TEAM_OWNER_TRANSFER_DOMAIN = ''denju:http:v1:team-owner-transfer'' @ [nul]"

definition TEAM_OWNER_TRANSFER_ACCEPT_DOMAIN :: string where
  "TEAM_OWNER_TRANSFER_ACCEPT_DOMAIN = ''denju:http:v1:team-owner-transfer-accept'' @ [nul]"

definition TEAM_DELETE_DOMAIN :: string where
  "TEAM_DELETE_DOMAIN = ''denju:http:v1:team-delete'' @ [nul]"

definition RESOURCE_TRANSFER_DOMAIN :: string where
  "RESOURCE_TRANSFER_DOMAIN = ''denju:http:v1:resource-transfer'' @ [nul]"

datatype IdentityMutationDomain =
    IMD_Claim | IMD_Login | IMD_RecoveryReset | IMD_Backup | IMD_DeviceRevoke | IMD_TokenCreate
  | IMD_TokenRevoke | IMD_AccountDelete

fun IdentityMutationDomain_bytes :: "IdentityMutationDomain \<Rightarrow> string" where
  "IdentityMutationDomain_bytes IMD_Claim = CLAIM_IDENTITY_DOMAIN"
| "IdentityMutationDomain_bytes IMD_Login = LOGIN_DOMAIN"
| "IdentityMutationDomain_bytes IMD_RecoveryReset = RECOVERY_RESET_DOMAIN"
| "IdentityMutationDomain_bytes IMD_Backup = IDENTITY_BACKUP_DOMAIN"
| "IdentityMutationDomain_bytes IMD_DeviceRevoke = DEVICE_REVOKE_DOMAIN"
| "IdentityMutationDomain_bytes IMD_TokenCreate = TOKEN_CREATE_DOMAIN"
| "IdentityMutationDomain_bytes IMD_TokenRevoke = TOKEN_REVOKE_DOMAIN"
| "IdentityMutationDomain_bytes IMD_AccountDelete = ACCOUNT_DELETE_DOMAIN"

datatype SubscriptionMutationKind = Sub_Subscribe | Sub_Unsubscribe

datatype ShareMutationKind = Share | Unshare

datatype ProposalCloseKind = Reject | Withdraw

datatype AdminQuarantineMutationKind = Quarantine | Unquarantine

datatype PackMutationKind = Pack_Add | Pack_Remove

datatype PackSubscriptionMutationKind = PackSub_Subscribe | PackSub_Unsubscribe

datatype FollowMutationKind = Follow | Unfollow

datatype StarMutationKind = Star | Unstar

datatype TeamPackAssignmentMutationKind = Assign | Unassign

section \<open>Hashes\<close>

datatype RequestHash = RequestHash (rh_bytes: string)

datatype RequestHashError = RH_InvalidLength | RH_InvalidHex string | Canonicalization string

definition RequestHash_from_str :: "hex_lib \<Rightarrow> string \<Rightarrow> (RequestHash, RequestHashError) result" where
  "RequestHash_from_str X v =
     res_bind (map_err RH_InvalidHex (hex_decode X v)) (\<lambda>bytes.
       if length bytes = 32 then Ok (RequestHash bytes) else Err RH_InvalidLength)"

text \<open>The canonicalizer, SHA-256 and the hex crate.\<close>

record hash_env =
  he_canonical :: "json \<Rightarrow> (string, string) result"
  he_sha256 :: "string \<Rightarrow> string"
  he_hex :: hex_lib

definition hash_payload :: "hash_env \<Rightarrow> string \<Rightarrow> json \<Rightarrow> (RequestHash, RequestHashError) result" where
  "hash_payload E domain payload =
     res_bind (map_err Canonicalization (he_canonical E payload)) (\<lambda>canonical.
     Ok (RequestHash (he_sha256 E (domain @ canonical))))"

definition lifecycle_resource_hash ::
  "hash_env \<Rightarrow> string \<Rightarrow> string \<Rightarrow> string \<Rightarrow> u64 \<Rightarrow> (RequestHash, RequestHashError) result" where
  "lifecycle_resource_hash E domain operation_id resource_id expected_generation =
     hash_payload E domain
       (JObject [(''operation_id'', JString operation_id), (''resource_id'', JString resource_id),
         (''expected_generation'', jnum expected_generation)])"

definition invite_code_hash :: "hash_env \<Rightarrow> string \<Rightarrow> RequestHash" where
  "invite_code_hash E secret = RequestHash (he_sha256 E secret)"

definition team_owner_transfer_code_hash :: "hash_env \<Rightarrow> string \<Rightarrow> RequestHash" where
  "team_owner_transfer_code_hash E secret = RequestHash (he_sha256 E secret)"

definition RequestHash_display :: "hash_env \<Rightarrow> RequestHash \<Rightarrow> string" where
  "RequestHash_display E h = hex_encode (he_hex E) (rh_bytes h)"

definition create_installation_request_hash ::
  "hash_env \<Rightarrow> string \<Rightarrow> string \<Rightarrow> (RequestHash, RequestHashError) result" where
  "create_installation_request_hash E operation_id credential_hash =
     hash_payload E CREATE_INSTALLATION_DOMAIN
       (JObject [(''operation_id'', JString operation_id), (''credential_hash'', JString credential_hash)])"

definition identity_mutation_request_hash ::
  "hash_env \<Rightarrow> string \<Rightarrow> IdentityMutationDomain \<Rightarrow> json \<Rightarrow> (RequestHash, RequestHashError) result" where
  "identity_mutation_request_hash E operation_id domain safe_payload =
     hash_payload E (IdentityMutationDomain_bytes domain)
       (JObject [(''operation_id'', JString operation_id), (''payload'', safe_payload)])"

definition subscription_request_hash ::
  "hash_env \<Rightarrow> SubscriptionMutationKind \<Rightarrow> string \<Rightarrow> string \<Rightarrow> u64 \<Rightarrow> u64 option \<Rightarrow> bool \<Rightarrow> (RequestHash, RequestHashError) result" where
  "subscription_request_hash E kind operation_id resource_id expected_generation release_version retain_on_delete =
     hash_payload E (case kind of Sub_Subscribe \<Rightarrow> SUBSCRIBE_DOMAIN | Sub_Unsubscribe \<Rightarrow> UNSUBSCRIBE_DOMAIN)
       (JObject [(''operation_id'', JString operation_id), (''resource_id'', JString resource_id),
         (''expected_generation'', jnum expected_generation),
         (''release_version'', jopt jnum release_version),
         (''retain_on_delete'', JBool retain_on_delete)])"

definition rename_skill_request_hash ::
  "hash_env \<Rightarrow> string \<Rightarrow> string \<Rightarrow> u64 \<Rightarrow> string \<Rightarrow> string option \<Rightarrow> (RequestHash, RequestHashError) result" where
  "rename_skill_request_hash E operation_id resource_id expected_generation new_name prepared_revision_operation_id =
     hash_payload E RENAME_SKILL_DOMAIN
       (JObject [(''operation_id'', JString operation_id), (''resource_id'', JString resource_id),
         (''expected_generation'', jnum expected_generation), (''new_name'', JString new_name),
         (''prepared_revision_operation_id'', jopt JString prepared_revision_operation_id)])"

definition unpublish_skill_request_hash ::
  "hash_env \<Rightarrow> string \<Rightarrow> string \<Rightarrow> u64 \<Rightarrow> (RequestHash, RequestHashError) result" where
  "unpublish_skill_request_hash E operation_id resource_id expected_generation =
     lifecycle_resource_hash E UNPUBLISH_SKILL_DOMAIN operation_id resource_id expected_generation"

definition delete_skill_request_hash ::
  "hash_env \<Rightarrow> string \<Rightarrow> string \<Rightarrow> u64 \<Rightarrow> (RequestHash, RequestHashError) result" where
  "delete_skill_request_hash E operation_id resource_id expected_generation =
     lifecycle_resource_hash E DELETE_SKILL_DOMAIN operation_id resource_id expected_generation"

definition history_prune_request_hash ::
  "hash_env \<Rightarrow> string \<Rightarrow> string \<Rightarrow> u64 \<Rightarrow> (RequestHash, RequestHashError) result" where
  "history_prune_request_hash E operation_id resource_id expected_generation =
     lifecycle_resource_hash E HISTORY_PRUNE_DOMAIN operation_id resource_id expected_generation"

definition deprecate_skill_request_hash ::
  "hash_env \<Rightarrow> string \<Rightarrow> string \<Rightarrow> u64 \<Rightarrow> bool \<Rightarrow> string option \<Rightarrow> (RequestHash, RequestHashError) result" where
  "deprecate_skill_request_hash E operation_id resource_id expected_generation deprecated replacement_resource_id =
     hash_payload E DEPRECATE_SKILL_DOMAIN
       (JObject [(''operation_id'', JString operation_id), (''resource_id'', JString resource_id),
         (''expected_generation'', jnum expected_generation), (''deprecated'', JBool deprecated),
         (''replacement_resource_id'', jopt JString replacement_resource_id)])"

definition publish_skill_request_hash ::
  "hash_env \<Rightarrow> string \<Rightarrow> string \<Rightarrow> u64 \<Rightarrow> bool \<Rightarrow> string option \<Rightarrow> string list \<Rightarrow> (RequestHash, RequestHashError) result" where
  "publish_skill_request_hash E operation_id resource_id expected_generation public message tags =
     hash_payload E PUBLISH_SKILL_DOMAIN
       (JObject [(''operation_id'', JString operation_id), (''resource_id'', JString resource_id),
         (''expected_generation'', jnum expected_generation), (''public'', JBool public),
         (''message'', jopt JString message), (''tags'', JArray (map JString tags))])"

definition restore_skill_request_hash ::
  "hash_env \<Rightarrow> string \<Rightarrow> string \<Rightarrow> u64 \<Rightarrow> string \<Rightarrow> (RequestHash, RequestHashError) result" where
  "restore_skill_request_hash E operation_id resource_id expected_generation target_revision_id =
     hash_payload E RESTORE_SKILL_DOMAIN
       (JObject [(''operation_id'', JString operation_id), (''resource_id'', JString resource_id),
         (''expected_generation'', jnum expected_generation),
         (''target_revision_id'', JString target_revision_id)])"

definition share_skill_request_hash ::
  "hash_env \<Rightarrow> ShareMutationKind \<Rightarrow> string \<Rightarrow> string \<Rightarrow> string \<Rightarrow> (RequestHash, RequestHashError) result" where
  "share_skill_request_hash E kind operation_id resource_id recipient =
     hash_payload E (case kind of Share \<Rightarrow> SHARE_SKILL_DOMAIN | Unshare \<Rightarrow> UNSHARE_SKILL_DOMAIN)
       (JObject [(''operation_id'', JString operation_id), (''resource_id'', JString resource_id),
         (''recipient'', JString recipient)])"

definition proposal_create_request_hash ::
  "hash_env \<Rightarrow> string \<Rightarrow> string \<Rightarrow> u64 \<Rightarrow> string option \<Rightarrow> (RequestHash, RequestHashError) result" where
  "proposal_create_request_hash E operation_id source_resource_id expected_source_generation message =
     hash_payload E PROPOSAL_CREATE_DOMAIN
       (JObject [(''operation_id'', JString operation_id),
         (''source_resource_id'', JString source_resource_id),
         (''expected_source_generation'', jnum expected_source_generation),
         (''message'', jopt JString message)])"

definition proposal_close_request_hash ::
  "hash_env \<Rightarrow> ProposalCloseKind \<Rightarrow> string \<Rightarrow> string \<Rightarrow> u64 \<Rightarrow> (RequestHash, RequestHashError) result" where
  "proposal_close_request_hash E kind operation_id proposal_id expected_generation =
     hash_payload E (case kind of Reject \<Rightarrow> PROPOSAL_REJECT_DOMAIN | Withdraw \<Rightarrow> PROPOSAL_WITHDRAW_DOMAIN)
       (JObject [(''operation_id'', JString operation_id), (''proposal_id'', JString proposal_id),
         (''expected_generation'', jnum expected_generation)])"

definition proposal_accept_request_hash ::
  "hash_env \<Rightarrow> string \<Rightarrow> string \<Rightarrow> u64 \<Rightarrow> string \<Rightarrow> u64 \<Rightarrow> u64 \<Rightarrow> (RequestHash, RequestHashError) result" where
  "proposal_accept_request_hash E operation_id proposal_id expected_generation expected_proposed_revision_id expected_source_generation expected_target_generation =
     hash_payload E PROPOSAL_ACCEPT_DOMAIN
       (JObject [(''operation_id'', JString operation_id), (''proposal_id'', JString proposal_id),
         (''expected_generation'', jnum expected_generation),
         (''expected_proposed_revision_id'', JString expected_proposed_revision_id),
         (''expected_source_generation'', jnum expected_source_generation),
         (''expected_target_generation'', jnum expected_target_generation)])"

definition admin_quarantine_request_hash ::
  "hash_env \<Rightarrow> AdminQuarantineMutationKind \<Rightarrow> string \<Rightarrow> string \<Rightarrow> u64 \<Rightarrow> u64 option \<Rightarrow> string \<Rightarrow> (RequestHash, RequestHashError) result" where
  "admin_quarantine_request_hash E kind operation_id resource_id expected_generation release_version reason =
     hash_payload E (case kind of Quarantine \<Rightarrow> QUARANTINE_DOMAIN | Unquarantine \<Rightarrow> UNQUARANTINE_DOMAIN)
       (JObject [(''operation_id'', JString operation_id), (''resource_id'', JString resource_id),
         (''expected_generation'', jnum expected_generation),
         (''release_version'', jopt jnum release_version), (''reason'', JString reason)])"

definition pack_create_request_hash ::
  "hash_env \<Rightarrow> string \<Rightarrow> string \<Rightarrow> string \<Rightarrow> (RequestHash, RequestHashError) result" where
  "pack_create_request_hash E operation_id owner name =
     hash_payload E PACK_CREATE_DOMAIN
       (JObject [(''operation_id'', JString operation_id), (''owner'', JString owner),
         (''name'', JString name)])"

definition pack_mutation_request_hash ::
  "hash_env \<Rightarrow> PackMutationKind \<Rightarrow> string \<Rightarrow> string \<Rightarrow> u64 \<Rightarrow> PackMemberTarget list \<Rightarrow> (RequestHash, RequestHashError) result" where
  "pack_mutation_request_hash E kind operation_id resource_id expected_generation members =
     hash_payload E (case kind of Pack_Add \<Rightarrow> PACK_ADD_DOMAIN | Pack_Remove \<Rightarrow> PACK_REMOVE_DOMAIN)
       (JObject [(''operation_id'', JString operation_id), (''resource_id'', JString resource_id),
         (''expected_generation'', jnum expected_generation),
         (''members'', JArray (map PackMemberTarget_json members))])"

definition pack_publish_request_hash ::
  "hash_env \<Rightarrow> string \<Rightarrow> string \<Rightarrow> u64 \<Rightarrow> bool \<Rightarrow> (RequestHash, RequestHashError) result" where
  "pack_publish_request_hash E operation_id resource_id expected_generation public =
     hash_payload E PACK_PUBLISH_DOMAIN
       (JObject [(''operation_id'', JString operation_id), (''resource_id'', JString resource_id),
         (''expected_generation'', jnum expected_generation), (''public'', JBool public)])"

definition pack_rename_request_hash ::
  "hash_env \<Rightarrow> string \<Rightarrow> string \<Rightarrow> u64 \<Rightarrow> string \<Rightarrow> (RequestHash, RequestHashError) result" where
  "pack_rename_request_hash E operation_id resource_id expected_generation new_name =
     hash_payload E PACK_RENAME_DOMAIN
       (JObject [(''operation_id'', JString operation_id), (''resource_id'', JString resource_id),
         (''expected_generation'', jnum expected_generation), (''new_name'', JString new_name)])"

definition pack_unpublish_request_hash ::
  "hash_env \<Rightarrow> string \<Rightarrow> string \<Rightarrow> u64 \<Rightarrow> (RequestHash, RequestHashError) result" where
  "pack_unpublish_request_hash E operation_id resource_id expected_generation =
     lifecycle_resource_hash E PACK_UNPUBLISH_DOMAIN operation_id resource_id expected_generation"

definition pack_delete_request_hash ::
  "hash_env \<Rightarrow> string \<Rightarrow> string \<Rightarrow> u64 \<Rightarrow> (RequestHash, RequestHashError) result" where
  "pack_delete_request_hash E operation_id resource_id expected_generation =
     lifecycle_resource_hash E PACK_DELETE_DOMAIN operation_id resource_id expected_generation"

definition pack_subscription_request_hash ::
  "hash_env \<Rightarrow> PackSubscriptionMutationKind \<Rightarrow> string \<Rightarrow> string \<Rightarrow> u64 \<Rightarrow> (RequestHash, RequestHashError) result" where
  "pack_subscription_request_hash E kind operation_id resource_id expected_generation =
     lifecycle_resource_hash E (case kind of PackSub_Subscribe \<Rightarrow> PACK_SUBSCRIBE_DOMAIN | PackSub_Unsubscribe \<Rightarrow> PACK_UNSUBSCRIBE_DOMAIN) operation_id resource_id expected_generation"

definition profile_update_request_hash ::
  "hash_env \<Rightarrow> string \<Rightarrow> string option \<Rightarrow> bool \<Rightarrow> bool \<Rightarrow> (RequestHash, RequestHashError) result" where
  "profile_update_request_hash E operation_id bio followers_visible following_visible =
     hash_payload E PROFILE_UPDATE_DOMAIN
       (JObject [(''operation_id'', JString operation_id), (''bio'', jopt JString bio),
         (''followers_visible'', JBool followers_visible),
         (''following_visible'', JBool following_visible)])"

definition follow_request_hash ::
  "hash_env \<Rightarrow> FollowMutationKind \<Rightarrow> string \<Rightarrow> string \<Rightarrow> (RequestHash, RequestHashError) result" where
  "follow_request_hash E kind operation_id target_id =
     hash_payload E (case kind of Follow \<Rightarrow> FOLLOW_DOMAIN | Unfollow \<Rightarrow> UNFOLLOW_DOMAIN)
       (JObject [(''operation_id'', JString operation_id), (''target_id'', JString target_id)])"

definition star_request_hash ::
  "hash_env \<Rightarrow> StarMutationKind \<Rightarrow> string \<Rightarrow> string \<Rightarrow> (RequestHash, RequestHashError) result" where
  "star_request_hash E kind operation_id target_id =
     hash_payload E (case kind of Star \<Rightarrow> STAR_DOMAIN | Unstar \<Rightarrow> UNSTAR_DOMAIN)
       (JObject [(''operation_id'', JString operation_id), (''target_id'', JString target_id)])"

definition resource_topics_request_hash ::
  "hash_env \<Rightarrow> string \<Rightarrow> string \<Rightarrow> u64 \<Rightarrow> string list \<Rightarrow> (RequestHash, RequestHashError) result" where
  "resource_topics_request_hash E operation_id resource_id expected_generation topics =
     hash_payload E TOPICS_DOMAIN
       (JObject [(''operation_id'', JString operation_id), (''resource_id'', JString resource_id),
         (''expected_generation'', jnum expected_generation),
         (''topics'', JArray (map JString topics))])"

definition report_resource_request_hash ::
  "hash_env \<Rightarrow> string \<Rightarrow> string \<Rightarrow> string \<Rightarrow> (RequestHash, RequestHashError) result" where
  "report_resource_request_hash E operation_id resource_id reason =
     hash_payload E REPORT_DOMAIN
       (JObject [(''operation_id'', JString operation_id), (''resource_id'', JString resource_id),
         (''reason'', JString reason)])"

definition team_create_request_hash ::
  "hash_env \<Rightarrow> string \<Rightarrow> string \<Rightarrow> (RequestHash, RequestHashError) result" where
  "team_create_request_hash E operation_id name =
     hash_payload E TEAM_CREATE_DOMAIN
       (JObject [(''operation_id'', JString operation_id), (''name'', JString name)])"

definition team_invite_request_hash ::
  "hash_env \<Rightarrow> string \<Rightarrow> string \<Rightarrow> TeamRole \<Rightarrow> string \<Rightarrow> (RequestHash, RequestHashError) result" where
  "team_invite_request_hash E operation_id team role code_hash =
     hash_payload E TEAM_INVITE_DOMAIN
       (JObject [(''operation_id'', JString operation_id), (''team'', JString team),
         (''role'', TeamRole_json role), (''invite_code_hash'', JString code_hash)])"

definition team_invite_revoke_request_hash ::
  "hash_env \<Rightarrow> string \<Rightarrow> string \<Rightarrow> string \<Rightarrow> (RequestHash, RequestHashError) result" where
  "team_invite_revoke_request_hash E operation_id team invite_id =
     hash_payload E TEAM_INVITE_REVOKE_DOMAIN
       (JObject [(''operation_id'', JString operation_id), (''team'', JString team),
         (''invite_id'', JString invite_id)])"

definition team_join_request_hash ::
  "hash_env \<Rightarrow> string \<Rightarrow> string \<Rightarrow> (RequestHash, RequestHashError) result" where
  "team_join_request_hash E operation_id secret =
     hash_payload E TEAM_JOIN_DOMAIN
       (JObject [(''operation_id'', JString operation_id),
         (''code_hash'', JString (RequestHash_display E (invite_code_hash E secret)))])"

definition team_member_role_request_hash ::
  "hash_env \<Rightarrow> string \<Rightarrow> string \<Rightarrow> string \<Rightarrow> TeamRole \<Rightarrow> (RequestHash, RequestHashError) result" where
  "team_member_role_request_hash E operation_id team member role =
     hash_payload E TEAM_MEMBER_ROLE_DOMAIN
       (JObject [(''operation_id'', JString operation_id), (''team'', JString team),
         (''member'', JString member), (''role'', TeamRole_json role)])"

definition team_member_remove_request_hash ::
  "hash_env \<Rightarrow> string \<Rightarrow> string \<Rightarrow> string \<Rightarrow> (RequestHash, RequestHashError) result" where
  "team_member_remove_request_hash E operation_id team member =
     hash_payload E TEAM_MEMBER_REMOVE_DOMAIN
       (JObject [(''operation_id'', JString operation_id), (''team'', JString team),
         (''member'', JString member)])"

definition team_settings_request_hash ::
  "hash_env \<Rightarrow> string \<Rightarrow> string \<Rightarrow> bool \<Rightarrow> (RequestHash, RequestHashError) result" where
  "team_settings_request_hash E operation_id team members_can_publish =
     hash_payload E TEAM_SETTINGS_DOMAIN
       (JObject [(''operation_id'', JString operation_id), (''team'', JString team),
         (''members_can_publish'', JBool members_can_publish)])"

definition team_pack_assignment_request_hash ::
  "hash_env \<Rightarrow> TeamPackAssignmentMutationKind \<Rightarrow> string \<Rightarrow> string \<Rightarrow> string \<Rightarrow> (RequestHash, RequestHashError) result" where
  "team_pack_assignment_request_hash E kind operation_id team pack_resource_id =
     hash_payload E (case kind of Assign \<Rightarrow> TEAM_PACK_ASSIGN_DOMAIN | Unassign \<Rightarrow> TEAM_PACK_UNASSIGN_DOMAIN)
       (JObject [(''operation_id'', JString operation_id), (''team'', JString team),
         (''pack_resource_id'', JString pack_resource_id)])"

definition team_leave_request_hash ::
  "hash_env \<Rightarrow> string \<Rightarrow> string \<Rightarrow> (RequestHash, RequestHashError) result" where
  "team_leave_request_hash E operation_id team =
     hash_payload E TEAM_LEAVE_DOMAIN
       (JObject [(''operation_id'', JString operation_id), (''team'', JString team)])"

definition team_owner_transfer_request_hash ::
  "hash_env \<Rightarrow> string \<Rightarrow> string \<Rightarrow> string \<Rightarrow> string \<Rightarrow> (RequestHash, RequestHashError) result" where
  "team_owner_transfer_request_hash E operation_id team member transfer_code_hash =
     hash_payload E TEAM_OWNER_TRANSFER_DOMAIN
       (JObject [(''operation_id'', JString operation_id), (''team'', JString team),
         (''member'', JString member), (''transfer_code_hash'', JString transfer_code_hash)])"

definition team_owner_transfer_accept_request_hash ::
  "hash_env \<Rightarrow> string \<Rightarrow> string \<Rightarrow> (RequestHash, RequestHashError) result" where
  "team_owner_transfer_accept_request_hash E operation_id secret =
     hash_payload E TEAM_OWNER_TRANSFER_ACCEPT_DOMAIN
       (JObject [(''operation_id'', JString operation_id),
         (''code_hash'', JString (RequestHash_display E (team_owner_transfer_code_hash E secret)))])"

definition team_delete_request_hash ::
  "hash_env \<Rightarrow> string \<Rightarrow> string \<Rightarrow> (RequestHash, RequestHashError) result" where
  "team_delete_request_hash E operation_id team =
     hash_payload E TEAM_DELETE_DOMAIN
       (JObject [(''operation_id'', JString operation_id), (''team'', JString team)])"

definition resource_transfer_request_hash ::
  "hash_env \<Rightarrow> string \<Rightarrow> string \<Rightarrow> u64 \<Rightarrow> string \<Rightarrow> (RequestHash, RequestHashError) result" where
  "resource_transfer_request_hash E operation_id resource_id expected_generation destination_team =
     hash_payload E RESOURCE_TRANSFER_DOMAIN
       (JObject [(''operation_id'', JString operation_id), (''resource_id'', JString resource_id),
         (''expected_generation'', jnum expected_generation),
         (''destination_team'', JString destination_team)])"

record PrivateRevisionRequestHashInput =
  prv_operation_id :: string
  prv_resource_id :: string
  prv_expected_generation :: u64
  prv_expected_head_revision_id :: string
  prv_parent_revision_ids :: "string list"
  prv_manifest :: PublicSkillManifest
  prv_revision_author_principal_id :: "string option"
  prv_fork_sync :: "ForkSyncIntent option"
  prv_historical_skill_name :: "string option"

definition PrivateRevisionRequestHashInput_json :: "PrivateRevisionRequestHashInput \<Rightarrow> json" where
  "PrivateRevisionRequestHashInput_json i =
     JObject [(''operation_id'', JString (prv_operation_id i)), (''resource_id'', JString (prv_resource_id i)),
       (''expected_generation'', jnum (prv_expected_generation i)),
       (''expected_head_revision_id'', JString (prv_expected_head_revision_id i)),
       (''parent_revision_ids'', JArray (map JString (prv_parent_revision_ids i))),
       (''manifest'', PublicSkillManifest_json (prv_manifest i)),
       (''revision_author_principal_id'', jopt JString (prv_revision_author_principal_id i)),
       (''fork_sync'', jopt ForkSyncIntent_json (prv_fork_sync i)),
       (''historical_skill_name'', jopt JString (prv_historical_skill_name i))]"

definition private_revision_request_hash ::
  "hash_env \<Rightarrow> PrivateRevisionRequestHashInput \<Rightarrow> (RequestHash, RequestHashError) result" where
  "private_revision_request_hash E input =
     hash_payload E PRIVATE_REVISION_DOMAIN (PrivateRevisionRequestHashInput_json input)"

text \<open>The manifest of an import is any serializable value.\<close>

record PrivateSkillImportRequestHashInput =
  psi_operation_id :: string
  psi_expected_generation :: u64
  psi_owner :: string
  psi_name :: string
  psi_manifest :: json
  psi_snapshot_sha256 :: string
  psi_snapshot_size_bytes :: u64
  psi_revision_author_principal_id :: "string option"
  psi_fork :: "ForkImportIntent option"

definition PrivateSkillImportRequestHashInput_json :: "PrivateSkillImportRequestHashInput \<Rightarrow> json" where
  "PrivateSkillImportRequestHashInput_json i =
     JObject [(''operation_id'', JString (psi_operation_id i)),
       (''expected_generation'', jnum (psi_expected_generation i)), (''owner'', JString (psi_owner i)),
       (''name'', JString (psi_name i)), (''manifest'', psi_manifest i),
       (''snapshot_sha256'', JString (psi_snapshot_sha256 i)),
       (''snapshot_size_bytes'', jnum (psi_snapshot_size_bytes i)),
       (''revision_author_principal_id'', jopt JString (psi_revision_author_principal_id i)),
       (''fork'', jopt ForkImportIntent_json (psi_fork i))]"

definition private_skill_import_request_hash ::
  "hash_env \<Rightarrow> PrivateSkillImportRequestHashInput \<Rightarrow> (RequestHash, RequestHashError) result" where
  "private_skill_import_request_hash E input =
     hash_payload E PRIVATE_SKILL_IMPORT_DOMAIN (PrivateSkillImportRequestHashInput_json input)"

section \<open>All requests\<close>

text \<open>The mutations a client can ask for, with what they are hashed over.\<close>

datatype (plugins only: code size) wire_request =
    WR_CreateInstallation string string
  | WR_Identity IdentityMutationDomain string json
  | WR_Subscription SubscriptionMutationKind string string u64 "u64 option" bool
  | WR_RenameSkill string string u64 string "string option"
  | WR_UnpublishSkill string string u64
  | WR_DeleteSkill string string u64
  | WR_HistoryPrune string string u64
  | WR_DeprecateSkill string string u64 bool "string option"
  | WR_PublishSkill string string u64 bool "string option" "string list"
  | WR_RestoreSkill string string u64 string
  | WR_ShareSkill ShareMutationKind string string string
  | WR_ProposalCreate string string u64 "string option"
  | WR_ProposalClose ProposalCloseKind string string u64
  | WR_ProposalAccept string string u64 string u64 u64
  | WR_AdminQuarantine AdminQuarantineMutationKind string string u64 "u64 option" string
  | WR_PackCreate string string string
  | WR_PackMutation PackMutationKind string string u64 "PackMemberTarget list"
  | WR_PackPublish string string u64 bool
  | WR_PackRename string string u64 string
  | WR_PackUnpublish string string u64
  | WR_PackDelete string string u64
  | WR_PackSubscription PackSubscriptionMutationKind string string u64
  | WR_ProfileUpdate string "string option" bool bool
  | WR_Follow FollowMutationKind string string
  | WR_Star StarMutationKind string string
  | WR_Topics string string u64 "string list"
  | WR_Report string string string
  | WR_TeamCreate string string
  | WR_TeamInvite string string TeamRole string
  | WR_TeamInviteRevoke string string string
  | WR_TeamJoin string string
  | WR_TeamMemberRole string string string TeamRole
  | WR_TeamMemberRemove string string string
  | WR_TeamSettings string string bool
  | WR_TeamPackAssignment TeamPackAssignmentMutationKind string string string
  | WR_TeamLeave string string
  | WR_TeamOwnerTransfer string string string string
  | WR_TeamOwnerTransferAccept string string
  | WR_TeamDelete string string
  | WR_ResourceTransfer string string u64 string
  | WR_PrivateRevision PrivateRevisionRequestHashInput
  | WR_PrivateSkillImport PrivateSkillImportRequestHashInput

fun request_hash :: "hash_env \<Rightarrow> wire_request \<Rightarrow> (RequestHash, RequestHashError) result" where
  "request_hash E (WR_CreateInstallation operation_id credential_hash) =
     create_installation_request_hash E operation_id credential_hash"
| "request_hash E (WR_Identity domain operation_id payload) =
     identity_mutation_request_hash E operation_id domain payload"
| "request_hash E (WR_Subscription kind operation_id resource_id expected_generation release_version retain_on_delete) =
     subscription_request_hash E kind operation_id resource_id expected_generation release_version retain_on_delete"
| "request_hash E (WR_RenameSkill operation_id resource_id expected_generation new_name prepared_revision_operation_id) =
     rename_skill_request_hash E operation_id resource_id expected_generation new_name prepared_revision_operation_id"
| "request_hash E (WR_UnpublishSkill operation_id resource_id expected_generation) =
     unpublish_skill_request_hash E operation_id resource_id expected_generation"
| "request_hash E (WR_DeleteSkill operation_id resource_id expected_generation) =
     delete_skill_request_hash E operation_id resource_id expected_generation"
| "request_hash E (WR_HistoryPrune operation_id resource_id expected_generation) =
     history_prune_request_hash E operation_id resource_id expected_generation"
| "request_hash E (WR_DeprecateSkill operation_id resource_id expected_generation deprecated replacement_resource_id) =
     deprecate_skill_request_hash E operation_id resource_id expected_generation deprecated replacement_resource_id"
| "request_hash E (WR_PublishSkill operation_id resource_id expected_generation public message tags) =
     publish_skill_request_hash E operation_id resource_id expected_generation public message tags"
| "request_hash E (WR_RestoreSkill operation_id resource_id expected_generation target_revision_id) =
     restore_skill_request_hash E operation_id resource_id expected_generation target_revision_id"
| "request_hash E (WR_ShareSkill kind operation_id resource_id recipient) =
     share_skill_request_hash E kind operation_id resource_id recipient"
| "request_hash E (WR_ProposalCreate operation_id source_resource_id expected_source_generation message) =
     proposal_create_request_hash E operation_id source_resource_id expected_source_generation message"
| "request_hash E (WR_ProposalClose kind operation_id proposal_id expected_generation) =
     proposal_close_request_hash E kind operation_id proposal_id expected_generation"
| "request_hash E (WR_ProposalAccept operation_id proposal_id expected_generation expected_proposed_revision_id expected_source_generation expected_target_generation) =
     proposal_accept_request_hash E operation_id proposal_id expected_generation expected_proposed_revision_id expected_source_generation expected_target_generation"
| "request_hash E (WR_AdminQuarantine kind operation_id resource_id expected_generation release_version reason) =
     admin_quarantine_request_hash E kind operation_id resource_id expected_generation release_version reason"
| "request_hash E (WR_PackCreate operation_id owner name) =
     pack_create_request_hash E operation_id owner name"
| "request_hash E (WR_PackMutation kind operation_id resource_id expected_generation members) =
     pack_mutation_request_hash E kind operation_id resource_id expected_generation members"
| "request_hash E (WR_PackPublish operation_id resource_id expected_generation public) =
     pack_publish_request_hash E operation_id resource_id expected_generation public"
| "request_hash E (WR_PackRename operation_id resource_id expected_generation new_name) =
     pack_rename_request_hash E operation_id resource_id expected_generation new_name"
| "request_hash E (WR_PackUnpublish operation_id resource_id expected_generation) =
     pack_unpublish_request_hash E operation_id resource_id expected_generation"
| "request_hash E (WR_PackDelete operation_id resource_id expected_generation) =
     pack_delete_request_hash E operation_id resource_id expected_generation"
| "request_hash E (WR_PackSubscription kind operation_id resource_id expected_generation) =
     pack_subscription_request_hash E kind operation_id resource_id expected_generation"
| "request_hash E (WR_ProfileUpdate operation_id bio followers_visible following_visible) =
     profile_update_request_hash E operation_id bio followers_visible following_visible"
| "request_hash E (WR_Follow kind operation_id target_id) =
     follow_request_hash E kind operation_id target_id"
| "request_hash E (WR_Star kind operation_id target_id) =
     star_request_hash E kind operation_id target_id"
| "request_hash E (WR_Topics operation_id resource_id expected_generation topics) =
     resource_topics_request_hash E operation_id resource_id expected_generation topics"
| "request_hash E (WR_Report operation_id resource_id reason) =
     report_resource_request_hash E operation_id resource_id reason"
| "request_hash E (WR_TeamCreate operation_id name) =
     team_create_request_hash E operation_id name"
| "request_hash E (WR_TeamInvite operation_id team role code_hash) =
     team_invite_request_hash E operation_id team role code_hash"
| "request_hash E (WR_TeamInviteRevoke operation_id team invite_id) =
     team_invite_revoke_request_hash E operation_id team invite_id"
| "request_hash E (WR_TeamJoin operation_id secret) =
     team_join_request_hash E operation_id secret"
| "request_hash E (WR_TeamMemberRole operation_id team member role) =
     team_member_role_request_hash E operation_id team member role"
| "request_hash E (WR_TeamMemberRemove operation_id team member) =
     team_member_remove_request_hash E operation_id team member"
| "request_hash E (WR_TeamSettings operation_id team members_can_publish) =
     team_settings_request_hash E operation_id team members_can_publish"
| "request_hash E (WR_TeamPackAssignment kind operation_id team pack_resource_id) =
     team_pack_assignment_request_hash E kind operation_id team pack_resource_id"
| "request_hash E (WR_TeamLeave operation_id team) =
     team_leave_request_hash E operation_id team"
| "request_hash E (WR_TeamOwnerTransfer operation_id team member transfer_code_hash) =
     team_owner_transfer_request_hash E operation_id team member transfer_code_hash"
| "request_hash E (WR_TeamOwnerTransferAccept operation_id secret) =
     team_owner_transfer_accept_request_hash E operation_id secret"
| "request_hash E (WR_TeamDelete operation_id team) =
     team_delete_request_hash E operation_id team"
| "request_hash E (WR_ResourceTransfer operation_id resource_id expected_generation destination_team) =
     resource_transfer_request_hash E operation_id resource_id expected_generation destination_team"
| "request_hash E (WR_PrivateRevision input) =
     private_revision_request_hash E input"
| "request_hash E (WR_PrivateSkillImport input) =
     private_skill_import_request_hash E input"

fun request_domain :: "wire_request \<Rightarrow> string" where
  "request_domain (WR_CreateInstallation operation_id credential_hash) =
     CREATE_INSTALLATION_DOMAIN"
| "request_domain (WR_Identity domain operation_id payload) =
     IdentityMutationDomain_bytes domain"
| "request_domain (WR_Subscription kind operation_id resource_id expected_generation release_version retain_on_delete) =
     (case kind of Sub_Subscribe \<Rightarrow> SUBSCRIBE_DOMAIN | Sub_Unsubscribe \<Rightarrow> UNSUBSCRIBE_DOMAIN)"
| "request_domain (WR_RenameSkill operation_id resource_id expected_generation new_name prepared_revision_operation_id) =
     RENAME_SKILL_DOMAIN"
| "request_domain (WR_UnpublishSkill operation_id resource_id expected_generation) =
     UNPUBLISH_SKILL_DOMAIN"
| "request_domain (WR_DeleteSkill operation_id resource_id expected_generation) =
     DELETE_SKILL_DOMAIN"
| "request_domain (WR_HistoryPrune operation_id resource_id expected_generation) =
     HISTORY_PRUNE_DOMAIN"
| "request_domain (WR_DeprecateSkill operation_id resource_id expected_generation deprecated replacement_resource_id) =
     DEPRECATE_SKILL_DOMAIN"
| "request_domain (WR_PublishSkill operation_id resource_id expected_generation public message tags) =
     PUBLISH_SKILL_DOMAIN"
| "request_domain (WR_RestoreSkill operation_id resource_id expected_generation target_revision_id) =
     RESTORE_SKILL_DOMAIN"
| "request_domain (WR_ShareSkill kind operation_id resource_id recipient) =
     (case kind of Share \<Rightarrow> SHARE_SKILL_DOMAIN | Unshare \<Rightarrow> UNSHARE_SKILL_DOMAIN)"
| "request_domain (WR_ProposalCreate operation_id source_resource_id expected_source_generation message) =
     PROPOSAL_CREATE_DOMAIN"
| "request_domain (WR_ProposalClose kind operation_id proposal_id expected_generation) =
     (case kind of Reject \<Rightarrow> PROPOSAL_REJECT_DOMAIN | Withdraw \<Rightarrow> PROPOSAL_WITHDRAW_DOMAIN)"
| "request_domain (WR_ProposalAccept operation_id proposal_id expected_generation expected_proposed_revision_id expected_source_generation expected_target_generation) =
     PROPOSAL_ACCEPT_DOMAIN"
| "request_domain (WR_AdminQuarantine kind operation_id resource_id expected_generation release_version reason) =
     (case kind of Quarantine \<Rightarrow> QUARANTINE_DOMAIN | Unquarantine \<Rightarrow> UNQUARANTINE_DOMAIN)"
| "request_domain (WR_PackCreate operation_id owner name) =
     PACK_CREATE_DOMAIN"
| "request_domain (WR_PackMutation kind operation_id resource_id expected_generation members) =
     (case kind of Pack_Add \<Rightarrow> PACK_ADD_DOMAIN | Pack_Remove \<Rightarrow> PACK_REMOVE_DOMAIN)"
| "request_domain (WR_PackPublish operation_id resource_id expected_generation public) =
     PACK_PUBLISH_DOMAIN"
| "request_domain (WR_PackRename operation_id resource_id expected_generation new_name) =
     PACK_RENAME_DOMAIN"
| "request_domain (WR_PackUnpublish operation_id resource_id expected_generation) =
     PACK_UNPUBLISH_DOMAIN"
| "request_domain (WR_PackDelete operation_id resource_id expected_generation) =
     PACK_DELETE_DOMAIN"
| "request_domain (WR_PackSubscription kind operation_id resource_id expected_generation) =
     (case kind of PackSub_Subscribe \<Rightarrow> PACK_SUBSCRIBE_DOMAIN | PackSub_Unsubscribe \<Rightarrow> PACK_UNSUBSCRIBE_DOMAIN)"
| "request_domain (WR_ProfileUpdate operation_id bio followers_visible following_visible) =
     PROFILE_UPDATE_DOMAIN"
| "request_domain (WR_Follow kind operation_id target_id) =
     (case kind of Follow \<Rightarrow> FOLLOW_DOMAIN | Unfollow \<Rightarrow> UNFOLLOW_DOMAIN)"
| "request_domain (WR_Star kind operation_id target_id) =
     (case kind of Star \<Rightarrow> STAR_DOMAIN | Unstar \<Rightarrow> UNSTAR_DOMAIN)"
| "request_domain (WR_Topics operation_id resource_id expected_generation topics) =
     TOPICS_DOMAIN"
| "request_domain (WR_Report operation_id resource_id reason) =
     REPORT_DOMAIN"
| "request_domain (WR_TeamCreate operation_id name) =
     TEAM_CREATE_DOMAIN"
| "request_domain (WR_TeamInvite operation_id team role code_hash) =
     TEAM_INVITE_DOMAIN"
| "request_domain (WR_TeamInviteRevoke operation_id team invite_id) =
     TEAM_INVITE_REVOKE_DOMAIN"
| "request_domain (WR_TeamJoin operation_id secret) =
     TEAM_JOIN_DOMAIN"
| "request_domain (WR_TeamMemberRole operation_id team member role) =
     TEAM_MEMBER_ROLE_DOMAIN"
| "request_domain (WR_TeamMemberRemove operation_id team member) =
     TEAM_MEMBER_REMOVE_DOMAIN"
| "request_domain (WR_TeamSettings operation_id team members_can_publish) =
     TEAM_SETTINGS_DOMAIN"
| "request_domain (WR_TeamPackAssignment kind operation_id team pack_resource_id) =
     (case kind of Assign \<Rightarrow> TEAM_PACK_ASSIGN_DOMAIN | Unassign \<Rightarrow> TEAM_PACK_UNASSIGN_DOMAIN)"
| "request_domain (WR_TeamLeave operation_id team) =
     TEAM_LEAVE_DOMAIN"
| "request_domain (WR_TeamOwnerTransfer operation_id team member transfer_code_hash) =
     TEAM_OWNER_TRANSFER_DOMAIN"
| "request_domain (WR_TeamOwnerTransferAccept operation_id secret) =
     TEAM_OWNER_TRANSFER_ACCEPT_DOMAIN"
| "request_domain (WR_TeamDelete operation_id team) =
     TEAM_DELETE_DOMAIN"
| "request_domain (WR_ResourceTransfer operation_id resource_id expected_generation destination_team) =
     RESOURCE_TRANSFER_DOMAIN"
| "request_domain (WR_PrivateRevision input) =
     PRIVATE_REVISION_DOMAIN"
| "request_domain (WR_PrivateSkillImport input) =
     PRIVATE_SKILL_IMPORT_DOMAIN"

fun request_payload :: "hash_env \<Rightarrow> wire_request \<Rightarrow> json" where
  "request_payload E (WR_CreateInstallation operation_id credential_hash) =
     JObject [(''operation_id'', JString operation_id), (''credential_hash'', JString credential_hash)]"
| "request_payload E (WR_Identity domain operation_id payload) =
     JObject [(''operation_id'', JString operation_id), (''payload'', payload)]"
| "request_payload E (WR_Subscription kind operation_id resource_id expected_generation release_version retain_on_delete) =
     JObject [(''operation_id'', JString operation_id), (''resource_id'', JString resource_id),
         (''expected_generation'', jnum expected_generation),
         (''release_version'', jopt jnum release_version),
         (''retain_on_delete'', JBool retain_on_delete)]"
| "request_payload E (WR_RenameSkill operation_id resource_id expected_generation new_name prepared_revision_operation_id) =
     JObject [(''operation_id'', JString operation_id), (''resource_id'', JString resource_id),
         (''expected_generation'', jnum expected_generation), (''new_name'', JString new_name),
         (''prepared_revision_operation_id'', jopt JString prepared_revision_operation_id)]"
| "request_payload E (WR_UnpublishSkill operation_id resource_id expected_generation) =
     JObject [(''operation_id'', JString operation_id), (''resource_id'', JString resource_id),
         (''expected_generation'', jnum expected_generation)]"
| "request_payload E (WR_DeleteSkill operation_id resource_id expected_generation) =
     JObject [(''operation_id'', JString operation_id), (''resource_id'', JString resource_id),
         (''expected_generation'', jnum expected_generation)]"
| "request_payload E (WR_HistoryPrune operation_id resource_id expected_generation) =
     JObject [(''operation_id'', JString operation_id), (''resource_id'', JString resource_id),
         (''expected_generation'', jnum expected_generation)]"
| "request_payload E (WR_DeprecateSkill operation_id resource_id expected_generation deprecated replacement_resource_id) =
     JObject [(''operation_id'', JString operation_id), (''resource_id'', JString resource_id),
         (''expected_generation'', jnum expected_generation), (''deprecated'', JBool deprecated),
         (''replacement_resource_id'', jopt JString replacement_resource_id)]"
| "request_payload E (WR_PublishSkill operation_id resource_id expected_generation public message tags) =
     JObject [(''operation_id'', JString operation_id), (''resource_id'', JString resource_id),
         (''expected_generation'', jnum expected_generation), (''public'', JBool public),
         (''message'', jopt JString message), (''tags'', JArray (map JString tags))]"
| "request_payload E (WR_RestoreSkill operation_id resource_id expected_generation target_revision_id) =
     JObject [(''operation_id'', JString operation_id), (''resource_id'', JString resource_id),
         (''expected_generation'', jnum expected_generation),
         (''target_revision_id'', JString target_revision_id)]"
| "request_payload E (WR_ShareSkill kind operation_id resource_id recipient) =
     JObject [(''operation_id'', JString operation_id), (''resource_id'', JString resource_id),
         (''recipient'', JString recipient)]"
| "request_payload E (WR_ProposalCreate operation_id source_resource_id expected_source_generation message) =
     JObject [(''operation_id'', JString operation_id),
         (''source_resource_id'', JString source_resource_id),
         (''expected_source_generation'', jnum expected_source_generation),
         (''message'', jopt JString message)]"
| "request_payload E (WR_ProposalClose kind operation_id proposal_id expected_generation) =
     JObject [(''operation_id'', JString operation_id), (''proposal_id'', JString proposal_id),
         (''expected_generation'', jnum expected_generation)]"
| "request_payload E (WR_ProposalAccept operation_id proposal_id expected_generation expected_proposed_revision_id expected_source_generation expected_target_generation) =
     JObject [(''operation_id'', JString operation_id), (''proposal_id'', JString proposal_id),
         (''expected_generation'', jnum expected_generation),
         (''expected_proposed_revision_id'', JString expected_proposed_revision_id),
         (''expected_source_generation'', jnum expected_source_generation),
         (''expected_target_generation'', jnum expected_target_generation)]"
| "request_payload E (WR_AdminQuarantine kind operation_id resource_id expected_generation release_version reason) =
     JObject [(''operation_id'', JString operation_id), (''resource_id'', JString resource_id),
         (''expected_generation'', jnum expected_generation),
         (''release_version'', jopt jnum release_version), (''reason'', JString reason)]"
| "request_payload E (WR_PackCreate operation_id owner name) =
     JObject [(''operation_id'', JString operation_id), (''owner'', JString owner),
         (''name'', JString name)]"
| "request_payload E (WR_PackMutation kind operation_id resource_id expected_generation members) =
     JObject [(''operation_id'', JString operation_id), (''resource_id'', JString resource_id),
         (''expected_generation'', jnum expected_generation),
         (''members'', JArray (map PackMemberTarget_json members))]"
| "request_payload E (WR_PackPublish operation_id resource_id expected_generation public) =
     JObject [(''operation_id'', JString operation_id), (''resource_id'', JString resource_id),
         (''expected_generation'', jnum expected_generation), (''public'', JBool public)]"
| "request_payload E (WR_PackRename operation_id resource_id expected_generation new_name) =
     JObject [(''operation_id'', JString operation_id), (''resource_id'', JString resource_id),
         (''expected_generation'', jnum expected_generation), (''new_name'', JString new_name)]"
| "request_payload E (WR_PackUnpublish operation_id resource_id expected_generation) =
     JObject [(''operation_id'', JString operation_id), (''resource_id'', JString resource_id),
         (''expected_generation'', jnum expected_generation)]"
| "request_payload E (WR_PackDelete operation_id resource_id expected_generation) =
     JObject [(''operation_id'', JString operation_id), (''resource_id'', JString resource_id),
         (''expected_generation'', jnum expected_generation)]"
| "request_payload E (WR_PackSubscription kind operation_id resource_id expected_generation) =
     JObject [(''operation_id'', JString operation_id), (''resource_id'', JString resource_id),
         (''expected_generation'', jnum expected_generation)]"
| "request_payload E (WR_ProfileUpdate operation_id bio followers_visible following_visible) =
     JObject [(''operation_id'', JString operation_id), (''bio'', jopt JString bio),
         (''followers_visible'', JBool followers_visible),
         (''following_visible'', JBool following_visible)]"
| "request_payload E (WR_Follow kind operation_id target_id) =
     JObject [(''operation_id'', JString operation_id), (''target_id'', JString target_id)]"
| "request_payload E (WR_Star kind operation_id target_id) =
     JObject [(''operation_id'', JString operation_id), (''target_id'', JString target_id)]"
| "request_payload E (WR_Topics operation_id resource_id expected_generation topics) =
     JObject [(''operation_id'', JString operation_id), (''resource_id'', JString resource_id),
         (''expected_generation'', jnum expected_generation),
         (''topics'', JArray (map JString topics))]"
| "request_payload E (WR_Report operation_id resource_id reason) =
     JObject [(''operation_id'', JString operation_id), (''resource_id'', JString resource_id),
         (''reason'', JString reason)]"
| "request_payload E (WR_TeamCreate operation_id name) =
     JObject [(''operation_id'', JString operation_id), (''name'', JString name)]"
| "request_payload E (WR_TeamInvite operation_id team role code_hash) =
     JObject [(''operation_id'', JString operation_id), (''team'', JString team),
         (''role'', TeamRole_json role), (''invite_code_hash'', JString code_hash)]"
| "request_payload E (WR_TeamInviteRevoke operation_id team invite_id) =
     JObject [(''operation_id'', JString operation_id), (''team'', JString team),
         (''invite_id'', JString invite_id)]"
| "request_payload E (WR_TeamJoin operation_id secret) =
     JObject [(''operation_id'', JString operation_id), (''code_hash'', JString (RequestHash_display E (invite_code_hash E secret)))]"
| "request_payload E (WR_TeamMemberRole operation_id team member role) =
     JObject [(''operation_id'', JString operation_id), (''team'', JString team),
         (''member'', JString member), (''role'', TeamRole_json role)]"
| "request_payload E (WR_TeamMemberRemove operation_id team member) =
     JObject [(''operation_id'', JString operation_id), (''team'', JString team),
         (''member'', JString member)]"
| "request_payload E (WR_TeamSettings operation_id team members_can_publish) =
     JObject [(''operation_id'', JString operation_id), (''team'', JString team),
         (''members_can_publish'', JBool members_can_publish)]"
| "request_payload E (WR_TeamPackAssignment kind operation_id team pack_resource_id) =
     JObject [(''operation_id'', JString operation_id), (''team'', JString team),
         (''pack_resource_id'', JString pack_resource_id)]"
| "request_payload E (WR_TeamLeave operation_id team) =
     JObject [(''operation_id'', JString operation_id), (''team'', JString team)]"
| "request_payload E (WR_TeamOwnerTransfer operation_id team member transfer_code_hash) =
     JObject [(''operation_id'', JString operation_id), (''team'', JString team),
         (''member'', JString member), (''transfer_code_hash'', JString transfer_code_hash)]"
| "request_payload E (WR_TeamOwnerTransferAccept operation_id secret) =
     JObject [(''operation_id'', JString operation_id), (''code_hash'', JString (RequestHash_display E (team_owner_transfer_code_hash E secret)))]"
| "request_payload E (WR_TeamDelete operation_id team) =
     JObject [(''operation_id'', JString operation_id), (''team'', JString team)]"
| "request_payload E (WR_ResourceTransfer operation_id resource_id expected_generation destination_team) =
     JObject [(''operation_id'', JString operation_id), (''resource_id'', JString resource_id),
         (''expected_generation'', jnum expected_generation),
         (''destination_team'', JString destination_team)]"
| "request_payload E (WR_PrivateRevision input) =
     PrivateRevisionRequestHashInput_json input"
| "request_payload E (WR_PrivateSkillImport input) =
     PrivateSkillImportRequestHashInput_json input"

text \<open>A number for every domain.\<close>

fun request_tag :: "wire_request \<Rightarrow> nat" where
  "request_tag (WR_CreateInstallation operation_id credential_hash) =
     0"
| "request_tag (WR_Identity domain operation_id payload) =
     (case domain of IMD_Claim \<Rightarrow> 1 | IMD_Login \<Rightarrow> 2 | IMD_RecoveryReset \<Rightarrow> 3 | IMD_Backup \<Rightarrow> 4 | IMD_DeviceRevoke \<Rightarrow> 5 | IMD_TokenCreate \<Rightarrow> 6 | IMD_TokenRevoke \<Rightarrow> 7 | IMD_AccountDelete \<Rightarrow> 8)"
| "request_tag (WR_Subscription kind operation_id resource_id expected_generation release_version retain_on_delete) =
     (case kind of Sub_Subscribe \<Rightarrow> 9 | Sub_Unsubscribe \<Rightarrow> 10)"
| "request_tag (WR_RenameSkill operation_id resource_id expected_generation new_name prepared_revision_operation_id) =
     11"
| "request_tag (WR_UnpublishSkill operation_id resource_id expected_generation) =
     12"
| "request_tag (WR_DeleteSkill operation_id resource_id expected_generation) =
     13"
| "request_tag (WR_HistoryPrune operation_id resource_id expected_generation) =
     14"
| "request_tag (WR_DeprecateSkill operation_id resource_id expected_generation deprecated replacement_resource_id) =
     15"
| "request_tag (WR_PublishSkill operation_id resource_id expected_generation public message tags) =
     16"
| "request_tag (WR_RestoreSkill operation_id resource_id expected_generation target_revision_id) =
     17"
| "request_tag (WR_ShareSkill kind operation_id resource_id recipient) =
     (case kind of Share \<Rightarrow> 18 | Unshare \<Rightarrow> 19)"
| "request_tag (WR_ProposalCreate operation_id source_resource_id expected_source_generation message) =
     20"
| "request_tag (WR_ProposalClose kind operation_id proposal_id expected_generation) =
     (case kind of Reject \<Rightarrow> 21 | Withdraw \<Rightarrow> 22)"
| "request_tag (WR_ProposalAccept operation_id proposal_id expected_generation expected_proposed_revision_id expected_source_generation expected_target_generation) =
     23"
| "request_tag (WR_AdminQuarantine kind operation_id resource_id expected_generation release_version reason) =
     (case kind of Quarantine \<Rightarrow> 24 | Unquarantine \<Rightarrow> 25)"
| "request_tag (WR_PackCreate operation_id owner name) =
     26"
| "request_tag (WR_PackMutation kind operation_id resource_id expected_generation members) =
     (case kind of Pack_Add \<Rightarrow> 27 | Pack_Remove \<Rightarrow> 28)"
| "request_tag (WR_PackPublish operation_id resource_id expected_generation public) =
     29"
| "request_tag (WR_PackRename operation_id resource_id expected_generation new_name) =
     30"
| "request_tag (WR_PackUnpublish operation_id resource_id expected_generation) =
     31"
| "request_tag (WR_PackDelete operation_id resource_id expected_generation) =
     32"
| "request_tag (WR_PackSubscription kind operation_id resource_id expected_generation) =
     (case kind of PackSub_Subscribe \<Rightarrow> 33 | PackSub_Unsubscribe \<Rightarrow> 34)"
| "request_tag (WR_ProfileUpdate operation_id bio followers_visible following_visible) =
     35"
| "request_tag (WR_Follow kind operation_id target_id) =
     (case kind of Follow \<Rightarrow> 36 | Unfollow \<Rightarrow> 37)"
| "request_tag (WR_Star kind operation_id target_id) =
     (case kind of Star \<Rightarrow> 38 | Unstar \<Rightarrow> 39)"
| "request_tag (WR_Topics operation_id resource_id expected_generation topics) =
     40"
| "request_tag (WR_Report operation_id resource_id reason) =
     41"
| "request_tag (WR_TeamCreate operation_id name) =
     42"
| "request_tag (WR_TeamInvite operation_id team role code_hash) =
     43"
| "request_tag (WR_TeamInviteRevoke operation_id team invite_id) =
     44"
| "request_tag (WR_TeamJoin operation_id secret) =
     45"
| "request_tag (WR_TeamMemberRole operation_id team member role) =
     46"
| "request_tag (WR_TeamMemberRemove operation_id team member) =
     47"
| "request_tag (WR_TeamSettings operation_id team members_can_publish) =
     48"
| "request_tag (WR_TeamPackAssignment kind operation_id team pack_resource_id) =
     (case kind of Assign \<Rightarrow> 49 | Unassign \<Rightarrow> 50)"
| "request_tag (WR_TeamLeave operation_id team) =
     51"
| "request_tag (WR_TeamOwnerTransfer operation_id team member transfer_code_hash) =
     52"
| "request_tag (WR_TeamOwnerTransferAccept operation_id secret) =
     53"
| "request_tag (WR_TeamDelete operation_id team) =
     54"
| "request_tag (WR_ResourceTransfer operation_id resource_id expected_generation destination_team) =
     55"
| "request_tag (WR_PrivateRevision input) =
     56"
| "request_tag (WR_PrivateSkillImport input) =
     57"

definition all_domains :: "string list" where
  "all_domains =
     [CREATE_INSTALLATION_DOMAIN, CLAIM_IDENTITY_DOMAIN, LOGIN_DOMAIN, RECOVERY_RESET_DOMAIN,
      IDENTITY_BACKUP_DOMAIN, DEVICE_REVOKE_DOMAIN, TOKEN_CREATE_DOMAIN, TOKEN_REVOKE_DOMAIN,
      ACCOUNT_DELETE_DOMAIN, SUBSCRIBE_DOMAIN, UNSUBSCRIBE_DOMAIN, RENAME_SKILL_DOMAIN,
      UNPUBLISH_SKILL_DOMAIN, DELETE_SKILL_DOMAIN, HISTORY_PRUNE_DOMAIN, DEPRECATE_SKILL_DOMAIN,
      PUBLISH_SKILL_DOMAIN, RESTORE_SKILL_DOMAIN, SHARE_SKILL_DOMAIN, UNSHARE_SKILL_DOMAIN,
      PROPOSAL_CREATE_DOMAIN, PROPOSAL_REJECT_DOMAIN, PROPOSAL_WITHDRAW_DOMAIN,
      PROPOSAL_ACCEPT_DOMAIN, QUARANTINE_DOMAIN, UNQUARANTINE_DOMAIN, PACK_CREATE_DOMAIN,
      PACK_ADD_DOMAIN, PACK_REMOVE_DOMAIN, PACK_PUBLISH_DOMAIN, PACK_RENAME_DOMAIN,
      PACK_UNPUBLISH_DOMAIN, PACK_DELETE_DOMAIN, PACK_SUBSCRIBE_DOMAIN, PACK_UNSUBSCRIBE_DOMAIN,
      PROFILE_UPDATE_DOMAIN, FOLLOW_DOMAIN, UNFOLLOW_DOMAIN, STAR_DOMAIN, UNSTAR_DOMAIN,
      TOPICS_DOMAIN, REPORT_DOMAIN, TEAM_CREATE_DOMAIN, TEAM_INVITE_DOMAIN,
      TEAM_INVITE_REVOKE_DOMAIN, TEAM_JOIN_DOMAIN, TEAM_MEMBER_ROLE_DOMAIN,
      TEAM_MEMBER_REMOVE_DOMAIN, TEAM_SETTINGS_DOMAIN, TEAM_PACK_ASSIGN_DOMAIN,
      TEAM_PACK_UNASSIGN_DOMAIN, TEAM_LEAVE_DOMAIN, TEAM_OWNER_TRANSFER_DOMAIN,
      TEAM_OWNER_TRANSFER_ACCEPT_DOMAIN, TEAM_DELETE_DOMAIN, RESOURCE_TRANSFER_DOMAIN,
      PRIVATE_REVISION_DOMAIN, PRIVATE_SKILL_IMPORT_DOMAIN]"

lemmas domain_defs =
  CREATE_INSTALLATION_DOMAIN_def CLAIM_IDENTITY_DOMAIN_def LOGIN_DOMAIN_def
  RECOVERY_RESET_DOMAIN_def IDENTITY_BACKUP_DOMAIN_def DEVICE_REVOKE_DOMAIN_def
  TOKEN_CREATE_DOMAIN_def TOKEN_REVOKE_DOMAIN_def ACCOUNT_DELETE_DOMAIN_def
  SUBSCRIBE_DOMAIN_def UNSUBSCRIBE_DOMAIN_def PRIVATE_REVISION_DOMAIN_def
  PRIVATE_SKILL_IMPORT_DOMAIN_def PUBLISH_SKILL_DOMAIN_def RESTORE_SKILL_DOMAIN_def
  RENAME_SKILL_DOMAIN_def UNPUBLISH_SKILL_DOMAIN_def DELETE_SKILL_DOMAIN_def
  DEPRECATE_SKILL_DOMAIN_def HISTORY_PRUNE_DOMAIN_def SHARE_SKILL_DOMAIN_def
  UNSHARE_SKILL_DOMAIN_def PROPOSAL_CREATE_DOMAIN_def PROPOSAL_ACCEPT_DOMAIN_def
  PROPOSAL_REJECT_DOMAIN_def PROPOSAL_WITHDRAW_DOMAIN_def PACK_CREATE_DOMAIN_def
  PACK_ADD_DOMAIN_def PACK_REMOVE_DOMAIN_def PACK_PUBLISH_DOMAIN_def PACK_RENAME_DOMAIN_def
  PACK_UNPUBLISH_DOMAIN_def PACK_DELETE_DOMAIN_def PACK_SUBSCRIBE_DOMAIN_def
  PACK_UNSUBSCRIBE_DOMAIN_def QUARANTINE_DOMAIN_def UNQUARANTINE_DOMAIN_def
  PROFILE_UPDATE_DOMAIN_def FOLLOW_DOMAIN_def UNFOLLOW_DOMAIN_def STAR_DOMAIN_def
  UNSTAR_DOMAIN_def TOPICS_DOMAIN_def REPORT_DOMAIN_def TEAM_CREATE_DOMAIN_def
  TEAM_INVITE_DOMAIN_def TEAM_INVITE_REVOKE_DOMAIN_def TEAM_JOIN_DOMAIN_def
  TEAM_MEMBER_ROLE_DOMAIN_def TEAM_MEMBER_REMOVE_DOMAIN_def TEAM_SETTINGS_DOMAIN_def
  TEAM_PACK_ASSIGN_DOMAIN_def TEAM_PACK_UNASSIGN_DOMAIN_def TEAM_LEAVE_DOMAIN_def
  TEAM_OWNER_TRANSFER_DOMAIN_def TEAM_OWNER_TRANSFER_ACCEPT_DOMAIN_def
  TEAM_DELETE_DOMAIN_def RESOURCE_TRANSFER_DOMAIN_def

lemmas request_hash_defs =
  create_installation_request_hash_def identity_mutation_request_hash_def
  subscription_request_hash_def rename_skill_request_hash_def
  unpublish_skill_request_hash_def delete_skill_request_hash_def
  history_prune_request_hash_def deprecate_skill_request_hash_def
  publish_skill_request_hash_def restore_skill_request_hash_def share_skill_request_hash_def
  proposal_create_request_hash_def proposal_close_request_hash_def
  proposal_accept_request_hash_def admin_quarantine_request_hash_def
  pack_create_request_hash_def pack_mutation_request_hash_def pack_publish_request_hash_def
  pack_rename_request_hash_def pack_unpublish_request_hash_def pack_delete_request_hash_def
  pack_subscription_request_hash_def profile_update_request_hash_def follow_request_hash_def
  star_request_hash_def resource_topics_request_hash_def report_resource_request_hash_def
  team_create_request_hash_def team_invite_request_hash_def
  team_invite_revoke_request_hash_def team_join_request_hash_def
  team_member_role_request_hash_def team_member_remove_request_hash_def
  team_settings_request_hash_def team_pack_assignment_request_hash_def
  team_leave_request_hash_def team_owner_transfer_request_hash_def
  team_owner_transfer_accept_request_hash_def team_delete_request_hash_def
  resource_transfer_request_hash_def private_revision_request_hash_def
  private_skill_import_request_hash_def lifecycle_resource_hash_def

end
