(* ===== verification/Wire_Binding.thy ===== *)
theory Wire_Binding
  imports Wire_Hash
begin

text \<open>
  What the request hashes of \<open>Wire_Hash\<close> bind.  The transcript of a request is its domain and its
  canonical payload: domains are terminated by a zero byte and all different, and the payload
  determines every field, so that two requests with one hash are the same request unless they
  are a collision of SHA-256.
\<close>

section \<open>JSON up to the order of members\<close>

primrec normal :: "json \<Rightarrow> json" where
  "normal JNull = JNull"
| "normal (JBool b) = JBool b"
| "normal (JNumber n) = JNumber n"
| "normal (JString s) = JString s"
| "normal (JArray vs) = JArray (map normal vs)"
| "normal (JObject fs) = JObject (sort_key fst (map (map_prod id normal) fs))"

text \<open>Numbers that an IEEE double, and with it canonical JSON, carries exactly.\<close>

primrec json_safe :: "json \<Rightarrow> bool" where
  "json_safe JNull = True"
| "json_safe (JBool b) = True"
| "json_safe (JNumber n) = (n \<le> 2 ^ 53)"
| "json_safe (JString s) = True"
| "json_safe (JArray vs) = list_all id (map json_safe vs)"
| "json_safe (JObject fs) = list_all snd (map (map_prod id json_safe) fs)"

text \<open>What the canonicalizer promises: the text determines the value up to member order.\<close>

definition jcs_faithful :: "(json \<Rightarrow> (string, string) result) \<Rightarrow> bool" where
  "jcs_faithful C \<longleftrightarrow> (\<forall>v w s. json_safe v \<and> json_safe w \<and> C v = Ok s \<and> C w = Ok s \<longrightarrow> normal v = normal w)"

lemma sorted_fields_eq:
  assumes "map fst xs = map fst ys" "distinct (map fst xs)" "sort_key fst xs = sort_key fst ys"
  shows "xs = ys"
proof -
  have "set xs = set ys" using assms(3) by (metis set_sort)
  then have "map_of xs = map_of ys"
    using assms(1,2) by (intro map_of_eqI) (auto simp: map_of_eq_Some_iff)
  then show ?thesis using assms(1,2) by (metis map_of_zip_inject length_map zip_map_fst_snd)
qed

lemma normal_object_eq:
  assumes "map fst fs = map fst gs" "distinct (map fst fs)"
  shows "normal (JObject fs) = normal (JObject gs) \<longleftrightarrow> map (normal \<circ> snd) fs = map (normal \<circ> snd) gs"
proof -
  let ?n = "map (map_prod id normal)"
  have k: "map fst (?n xs) = map fst xs" for xs by (simp add: comp_def)
  have "normal (JObject fs) = normal (JObject gs) \<longleftrightarrow> ?n fs = ?n gs"
    using sorted_fields_eq [of "?n fs" "?n gs"] assms k by auto
  also have "\<dots> \<longleftrightarrow> map (normal \<circ> snd) fs = map (normal \<circ> snd) gs"
  proof -
    have "?n xs = zip (map fst xs) (map (normal \<circ> snd) xs)" for xs by (induction xs) auto
    then show ?thesis using assms(1) by (metis length_map map_snd_zip)
  qed
  finally show ?thesis .
qed

lemma normal_jnum [simp]: "normal (jnum w) = jnum w"
  by (simp add: jnum_def)

lemma jnum_inj [simp]: "jnum v = jnum w \<longleftrightarrow> v = w"
  by (auto simp: jnum_def intro: unsigned_word_eqI)

lemma jopt_inj:
  assumes "\<And>u v. normal (f u) = normal (f v) \<Longrightarrow> u = v" "\<And>u. normal (f u) \<noteq> JNull"
  shows "normal (jopt f x) = normal (jopt f y) \<longleftrightarrow> x = y"
  using assms by (cases x; cases y) (auto simp: jopt_def dest: sym)

lemma jopt_string [simp]: "normal (jopt JString x) = normal (jopt JString y) \<longleftrightarrow> x = y"
  by (rule jopt_inj) auto

lemma jopt_jnum [simp]: "normal (jopt jnum x) = normal (jopt jnum y) \<longleftrightarrow> x = y"
  by (rule jopt_inj) (simp_all, simp add: jnum_def)

lemma normal_array_eq:
  assumes "\<And>u v. normal (f u) = normal (f v) \<Longrightarrow> u = v"
  shows "normal (JArray (map f xs)) = normal (JArray (map f ys)) \<longleftrightarrow> xs = ys"
  using assms by (auto simp: comp_def intro: map_injective injI)

lemma array_string [simp]: "map (normal \<circ> JString) xs = map (normal \<circ> JString) ys \<longleftrightarrow> xs = ys"
  using normal_array_eq [of JString xs ys] by simp

lemma TeamRole_json_inj [simp]: "normal (TeamRole_json r) = normal (TeamRole_json s) \<longleftrightarrow> r = s"
  by (cases r; cases s) (simp_all add: TeamRole_json_def TeamRole_as_str_def)

text \<open>Members are looked up by name, whatever the order and whichever of them are left out.\<close>

lemma normal_lookup:
  assumes "normal (JObject fs) = normal (JObject gs)" "distinct (map fst fs)" "distinct (map fst gs)"
  shows "map_option normal (map_of fs k) = map_option normal (map_of gs k)"
proof -
  let ?n = "map (map_prod id normal)"
  have lk: "map_of (?n xs) k = map_option normal (map_of xs k)" for xs by (induction xs) auto
  have "sort_key fst (?n fs) = sort_key fst (?n gs)" using assms(1) by simp
  then have "set (?n fs) = set (?n gs)" using set_sort [of fst "?n fs"] set_sort [of fst "?n gs"] by (simp only:)
  moreover have "distinct (map fst (?n fs))" "distinct (map fst (?n gs))"
    using assms(2,3) by (simp_all add: comp_def)
  ultimately have "map_of (?n fs) = map_of (?n gs)" by (simp only: map_of_inject_set)
  then show ?thesis by (simp add: lk [symmetric])
qed

lemma PackMemberTarget_json_inj:
  assumes eq: "normal (PackMemberTarget_json s) = normal (PackMemberTarget_json t)"
  shows "s = t"
proof -
  let ?r = "\<lambda>x. case x of None \<Rightarrow> [] | Some v \<Rightarrow> [(''release_version'', jnum v)]"
  have d: "distinct (map fst ((''resource_id'', a) # ?r x))" for a x
    by (simp split: option.split)
  note lk = normal_lookup [OF eq [unfolded PackMemberTarget_json_def] d d]
  have "map_of (?r x) ''release_version'' = map_option jnum x" for x by (simp split: option.split)
  with lk [of "''resource_id''"] lk [of "''release_version''"] show ?thesis
    by (cases "pmt_release_version s"; cases "pmt_release_version t") simp_all
qed

lemma ForkSyncIntent_json_inj: "normal (ForkSyncIntent_json i) = normal (ForkSyncIntent_json j) \<Longrightarrow> i = j"
  by (simp add: ForkSyncIntent_json_def normal_object_eq del: normal.simps(6))

lemma map_of_optional_member: "map_of (optional_member k x) l = (if k = l then map_option JString x else None)"
  by (cases x) (simp_all add: optional_member_def)

lemma ForkImportIntent_json_inj:
  assumes eq: "normal (ForkImportIntent_json i) = normal (ForkImportIntent_json j)"
  shows "i = j"
proof -
  have d: "distinct (map fst ([(''upstream_resource_id'', a), (''upstream_revision_id'', b),
      (''replace_subscription'', c)] @ optional_member ''promotion_head_revision_id'' x @
      optional_member ''historical_skill_name'' y))" for a b c x y
    by (simp add: optional_member_def split: option.split)
  note lk = normal_lookup [OF eq [unfolded ForkImportIntent_json_def] d d]
  have "fii_upstream_resource_id i = fii_upstream_resource_id j"
    "fii_upstream_revision_id i = fii_upstream_revision_id j"
    "fii_replace_subscription i = fii_replace_subscription j"
    using lk [of "''upstream_resource_id''"] lk [of "''upstream_revision_id''"]
      lk [of "''replace_subscription''"] by simp_all
  moreover have "fii_promotion_head_revision_id i = fii_promotion_head_revision_id j"
    using lk [of "''promotion_head_revision_id''"]
    by (cases "fii_promotion_head_revision_id i"; cases "fii_promotion_head_revision_id j")
      (simp_all add: map_of_optional_member map_add_def)
  moreover have "fii_historical_skill_name i = fii_historical_skill_name j"
    using lk [of "''historical_skill_name''"]
    by (cases "fii_historical_skill_name i"; cases "fii_historical_skill_name j")
      (simp_all add: map_of_optional_member map_add_def)
  ultimately show ?thesis by simp
qed

definition entry_kind :: "PublicSkillManifestEntry \<Rightarrow> string" where
  "entry_kind e =
     (case e of PME_File p b z x \<Rightarrow> ''file'' | PME_Directory p \<Rightarrow> ''directory'' | PME_Symlink p t \<Rightarrow> ''symlink'')"

lemma entry_kind_member:
  "\<exists>fs. PublicSkillManifestEntry_json e = JObject fs \<and> distinct (map fst fs) \<and>
     map_of fs ''kind'' = Some (JString (entry_kind e))"
  by (cases e) (simp_all add: entry_kind_def)

lemma PublicSkillManifestEntry_json_inj:
  assumes eq: "normal (PublicSkillManifestEntry_json d) = normal (PublicSkillManifestEntry_json e)"
  shows "d = e"
proof -
  obtain fs gs where "PublicSkillManifestEntry_json d = JObject fs" "PublicSkillManifestEntry_json e = JObject gs"
    "distinct (map fst fs)" "distinct (map fst gs)" "map_of fs ''kind'' = Some (JString (entry_kind d))"
    "map_of gs ''kind'' = Some (JString (entry_kind e))"
    using entry_kind_member by metis
  then have "entry_kind d = entry_kind e" using normal_lookup [of fs gs "''kind''"] eq by simp
  then show ?thesis using eq
    by (cases d; cases e) (simp_all add: entry_kind_def normal_object_eq del: normal.simps(6))
qed

lemma PublicSkillManifest_json_inj:
  "normal (PublicSkillManifest_json m) = normal (PublicSkillManifest_json n) \<Longrightarrow> m = n"
  using normal_array_eq [of PublicSkillManifestEntry_json, OF PublicSkillManifestEntry_json_inj]
  by (simp add: PublicSkillManifest_json_def normal_object_eq del: normal.simps(5,6))

lemma jopt_intents [simp]:
  "normal (jopt ForkSyncIntent_json x) = normal (jopt ForkSyncIntent_json y) \<longleftrightarrow> x = y"
  "normal (jopt ForkImportIntent_json v) = normal (jopt ForkImportIntent_json w) \<longleftrightarrow> v = w"
  by (rule jopt_inj, erule ForkSyncIntent_json_inj, simp add: ForkSyncIntent_json_def)
    (rule jopt_inj, erule ForkImportIntent_json_inj, simp add: ForkImportIntent_json_def)

section \<open>Domains\<close>

definition nul_terminated :: "string \<Rightarrow> bool" where
  "nul_terminated d \<longleftrightarrow> d \<noteq> [] \<and> last d = nul \<and> nul \<notin> set (butlast d)"

lemma nul_terminated_split: "nul_terminated d \<Longrightarrow> d = butlast d @ [nul] \<and> nul \<notin> set (butlast d)"
  by (metis append_butlast_last_id nul_terminated_def)

lemma nul_terminated_cancel:
  "nul_terminated d \<Longrightarrow> nul_terminated e \<Longrightarrow> d @ r = e @ s \<Longrightarrow> d = e \<and> r = s"
proof -
  assume d: "nul_terminated d" and e: "nul_terminated e" and eq: "d @ r = e @ s"
  define p q where "p = butlast d" and "q = butlast e"
  have pq: "d = p @ [nul]" "e = q @ [nul]" "nul \<notin> set p" "nul \<notin> set q"
    using nul_terminated_split d e by (simp_all add: p_def q_def)
  have tw: "takeWhile (\<lambda>c. c \<noteq> nul) (t @ nul # u) = t" if "nul \<notin> set t" for t u
    using that by (induction t) auto
  have "p @ nul # r = q @ nul # s" using eq pq by simp
  then have "p = q" using tw [of p r] tw [of q s] pq by metis
  with eq pq show ?thesis by simp
qed

interpretation domain_field: prefix_code "\<lambda>d. d" nul_terminated
  by unfold_locales (rule nul_terminated_cancel)

lemma all_domains_nul_terminated: "list_all nul_terminated all_domains"
  by (simp add: all_domains_def domain_defs nul_terminated_def)

lemma distinct_all_domains: "distinct all_domains"
  by (simp add: all_domains_def domain_defs)

lemma request_tag_domain:
  "request_tag r < length all_domains \<and> request_domain r = all_domains ! request_tag r"
proof (cases r)
  case (WR_Identity d p q)
  then show ?thesis by (cases d) (simp_all add: all_domains_def)
qed (simp_all add: all_domains_def split: SubscriptionMutationKind.split ShareMutationKind.split
    ProposalCloseKind.split AdminQuarantineMutationKind.split PackMutationKind.split
    PackSubscriptionMutationKind.split FollowMutationKind.split StarMutationKind.split
    TeamPackAssignmentMutationKind.split)

lemma request_domain_nul_terminated: "nul_terminated (request_domain r)"
  using request_tag_domain [of r] all_domains_nul_terminated by (simp add: list_all_length)

lemma request_hash_payload: "request_hash E r = hash_payload E (request_domain r) (request_payload E r)"
  by (cases r) (simp_all add: request_hash_defs)

section \<open>Payloads\<close>

text \<open>Free-form JSON arguments of a request, taken up to the order of their members.\<close>

fun norm_request :: "wire_request \<Rightarrow> wire_request" where
  "norm_request (WR_Identity d operation_id payload) = WR_Identity d operation_id (normal payload)"
| "norm_request (WR_PrivateSkillImport i) = WR_PrivateSkillImport (i\<lparr>psi_manifest := normal (psi_manifest i)\<rparr>)"
| "norm_request r = r"

text \<open>The secrets a request is hashed through rather than sent with.\<close>

fun request_secrets :: "wire_request \<Rightarrow> string list" where
  "request_secrets (WR_TeamJoin operation_id secret) = [secret]"
| "request_secrets (WR_TeamOwnerTransferAccept operation_id secret) = [secret]"
| "request_secrets r = []"

definition hex_faithful :: "hex_lib \<Rightarrow> bool" where
  "hex_faithful X \<longleftrightarrow> (\<forall>b. hex_decode X (hex_encode X b) = Ok b)"

lemma hex_encode_inj: "hex_faithful X \<Longrightarrow> hex_encode X a = hex_encode X b \<longleftrightarrow> a = b"
  unfolding hex_faithful_def by (metis result.inject(1))


lemma array_targets [simp]:
  "map (normal \<circ> PackMemberTarget_json) xs = map (normal \<circ> PackMemberTarget_json) ys \<longleftrightarrow> xs = ys"
  using normal_array_eq [of PackMemberTarget_json xs ys, OF PackMemberTarget_json_inj] by simp

lemma PublicSkillManifest_json_eq [simp]:
  "normal (PublicSkillManifest_json m) = normal (PublicSkillManifest_json n) \<longleftrightarrow> m = n"
  by (auto dest: PublicSkillManifest_json_inj)

lemmas kind_splits =
  IdentityMutationDomain.splits SubscriptionMutationKind.splits ShareMutationKind.splits
  ProposalCloseKind.splits AdminQuarantineMutationKind.splits PackMutationKind.splits
  PackSubscriptionMutationKind.splits FollowMutationKind.splits StarMutationKind.splits
  TeamPackAssignmentMutationKind.splits

lemma private_revision_inj:
  "normal (PrivateRevisionRequestHashInput_json i) = normal (PrivateRevisionRequestHashInput_json j) \<Longrightarrow> i = j"
  by (simp add: PrivateRevisionRequestHashInput_json_def normal_object_eq del: normal.simps(6))

lemma private_import_inj:
  "normal (PrivateSkillImportRequestHashInput_json i) = normal (PrivateSkillImportRequestHashInput_json j) \<Longrightarrow>
   i\<lparr>psi_manifest := normal (psi_manifest i)\<rparr> = j\<lparr>psi_manifest := normal (psi_manifest j)\<rparr>"
  by (simp add: PrivateSkillImportRequestHashInput_json_def normal_object_eq del: normal.simps(6))

text \<open>Which kind of request a domain belongs to.\<close>

fun request_ctor :: "wire_request \<Rightarrow> nat" where
  "request_ctor (WR_CreateInstallation _ _) = 0"
| "request_ctor (WR_Identity _ _ _) = 1"
| "request_ctor (WR_Subscription _ _ _ _ _ _) = 2"
| "request_ctor (WR_RenameSkill _ _ _ _ _) = 3"
| "request_ctor (WR_UnpublishSkill _ _ _) = 4"
| "request_ctor (WR_DeleteSkill _ _ _) = 5"
| "request_ctor (WR_HistoryPrune _ _ _) = 6"
| "request_ctor (WR_DeprecateSkill _ _ _ _ _) = 7"
| "request_ctor (WR_PublishSkill _ _ _ _ _ _) = 8"
| "request_ctor (WR_RestoreSkill _ _ _ _) = 9"
| "request_ctor (WR_ShareSkill _ _ _ _) = 10"
| "request_ctor (WR_ProposalCreate _ _ _ _) = 11"
| "request_ctor (WR_ProposalClose _ _ _ _) = 12"
| "request_ctor (WR_ProposalAccept _ _ _ _ _ _) = 13"
| "request_ctor (WR_AdminQuarantine _ _ _ _ _ _) = 14"
| "request_ctor (WR_PackCreate _ _ _) = 15"
| "request_ctor (WR_PackMutation _ _ _ _ _) = 16"
| "request_ctor (WR_PackPublish _ _ _ _) = 17"
| "request_ctor (WR_PackRename _ _ _ _) = 18"
| "request_ctor (WR_PackUnpublish _ _ _) = 19"
| "request_ctor (WR_PackDelete _ _ _) = 20"
| "request_ctor (WR_PackSubscription _ _ _ _) = 21"
| "request_ctor (WR_ProfileUpdate _ _ _ _) = 22"
| "request_ctor (WR_Follow _ _ _) = 23"
| "request_ctor (WR_Star _ _ _) = 24"
| "request_ctor (WR_Topics _ _ _ _) = 25"
| "request_ctor (WR_Report _ _ _) = 26"
| "request_ctor (WR_TeamCreate _ _) = 27"
| "request_ctor (WR_TeamInvite _ _ _ _) = 28"
| "request_ctor (WR_TeamInviteRevoke _ _ _) = 29"
| "request_ctor (WR_TeamJoin _ _) = 30"
| "request_ctor (WR_TeamMemberRole _ _ _ _) = 31"
| "request_ctor (WR_TeamMemberRemove _ _ _) = 32"
| "request_ctor (WR_TeamSettings _ _ _) = 33"
| "request_ctor (WR_TeamPackAssignment _ _ _ _) = 34"
| "request_ctor (WR_TeamLeave _ _) = 35"
| "request_ctor (WR_TeamOwnerTransfer _ _ _ _) = 36"
| "request_ctor (WR_TeamOwnerTransferAccept _ _) = 37"
| "request_ctor (WR_TeamDelete _ _) = 38"
| "request_ctor (WR_ResourceTransfer _ _ _ _) = 39"
| "request_ctor (WR_PrivateRevision _) = 40"
| "request_ctor (WR_PrivateSkillImport _) = 41"

definition ctor_of_tag :: "nat \<Rightarrow> nat" where
  "ctor_of_tag t =
     [0, 1, 1, 1, 1, 1, 1, 1, 1, 2, 2, 3, 4, 5, 6, 7, 8, 9, 10, 10, 11, 12, 12, 13,
      14, 14, 15, 16, 16, 17, 18, 19, 20, 21, 21, 22, 23, 23, 24, 24, 25, 26, 27, 28, 29, 30, 31, 32,
      33, 34, 34, 35, 36, 37, 38, 39, 40, 41] ! t"

lemma request_ctor_tag: "request_ctor r = ctor_of_tag (request_tag r)"
proof (cases r)
  case (WR_Identity d p q)
  then show ?thesis by (cases d) (simp_all add: ctor_of_tag_def)
qed (simp_all add: ctor_of_tag_def split: kind_splits)

lemma same_ctor: "request_tag r = request_tag s \<Longrightarrow> request_ctor r = request_ctor s"
  by (simp add: request_ctor_tag)

lemma display_inj:
  "hex_faithful (he_hex E) \<Longrightarrow> he_sha256 E a = he_sha256 E b \<longrightarrow> a = b \<Longrightarrow>
   RequestHash_display E (invite_code_hash E a) = RequestHash_display E (invite_code_hash E b) \<longleftrightarrow> a = b"
  "hex_faithful (he_hex E) \<Longrightarrow> he_sha256 E a = he_sha256 E b \<longrightarrow> a = b \<Longrightarrow>
   RequestHash_display E (team_owner_transfer_code_hash E a) = RequestHash_display E (team_owner_transfer_code_hash E b) \<longleftrightarrow> a = b"
  by (auto simp: RequestHash_display_def invite_code_hash_def team_owner_transfer_code_hash_def hex_encode_inj)

lemma request_payload_inj:
  assumes "request_ctor r = request_ctor s" "request_tag r = request_tag s"
    "normal (request_payload E r) = normal (request_payload E s)"
    "hex_faithful (he_hex E)" "\<And>a b. a \<in> set (request_secrets r) \<Longrightarrow> b \<in> set (request_secrets s) \<Longrightarrow> he_sha256 E a = he_sha256 E b \<longrightarrow> a = b"
  shows "norm_request r = norm_request s"
  by (cases r)
    (((insert assms(1), (cases s; simp)),
      (insert assms(2-5), simp add: normal_object_eq display_inj del: normal.simps(6) split: kind_splits)?,
      (erule private_revision_inj private_import_inj)?)[1])+

section \<open>What a request hash binds\<close>

text \<open>Everything that goes through SHA-256 for one request.\<close>

definition hash_inputs :: "hash_env \<Rightarrow> wire_request \<Rightarrow> string list" where
  "hash_inputs E r =
     (case he_canonical E (request_payload E r) of
        Ok canonical \<Rightarrow> [request_domain r @ canonical] | Err e \<Rightarrow> []) @ request_secrets r"

text \<open>A concrete canonicalizer that keeps its promise: every item is marked and every list ended.\<close>

definition enc_items :: "('a \<Rightarrow> string) \<Rightarrow> 'a list \<Rightarrow> string" where
  "enc_items f xs = concat (map (\<lambda>x. CHR ''1'' # f x) xs) @ ''0''"

lemma enc_items_cong [fundef_cong]:
  "xs = ys \<Longrightarrow> (\<And>x. x \<in> set ys \<Longrightarrow> f x = g x) \<Longrightarrow> enc_items f xs = enc_items g ys"
  by (simp add: enc_items_def cong: map_cong)

definition enc_string :: "string \<Rightarrow> string" where
  "enc_string s = enc_items (\<lambda>c. [c]) s"

fun enc_json :: "json \<Rightarrow> string" where
  "enc_json JNull = ''n''"
| "enc_json (JBool b) = (if b then ''t'' else ''f'')"
| "enc_json (JNumber n) = CHR ''d'' # enc_items (\<lambda>_. []) (replicate n ())"
| "enc_json (JString s) = CHR ''s'' # enc_string s"
| "enc_json (JArray vs) = CHR ''a'' # enc_items enc_json vs"
| "enc_json (JObject fs) = CHR ''o'' # enc_items (\<lambda>(k, v). enc_string k @ enc_json v) fs"

definition marked_canonical :: "json \<Rightarrow> (string, string) result" where
  "marked_canonical v = Ok (enc_json (normal v))"

lemma enc_items_cancel:
  assumes "\<And>x y r s. x \<in> set xs \<Longrightarrow> f x @ r = f y @ s \<Longrightarrow> x = y \<and> r = s" "enc_items f xs @ r = enc_items f ys @ s"
  shows "xs = ys \<and> r = s"
  using assms
proof (induction xs arbitrary: ys)
  case Nil
  then show ?case by (cases ys) (auto simp: enc_items_def)
next
  case (Cons x xs)
  then obtain y ys' where ys: "ys = y # ys'" by (cases ys) (auto simp: enc_items_def)
  then have "f x @ (enc_items f xs @ r) = f y @ (enc_items f ys' @ s)"
    using Cons.prems(2) by (simp add: enc_items_def)
  then have "x = y \<and> enc_items f xs @ r = enc_items f ys' @ s" using Cons.prems(1) by (meson list.set_intros(1))
  moreover from this have "xs = ys' \<and> r = s" using Cons.IH [of ys'] Cons.prems(1) by auto
  ultimately show ?case using ys by simp
qed

lemma enc_string_cancel: "enc_string a @ r = enc_string b @ s \<Longrightarrow> a = b \<and> r = s"
  unfolding enc_string_def by (erule enc_items_cancel [rotated]) auto

lemma enc_number_cancel:
  "enc_items (\<lambda>_. []) (replicate n ()) @ r = enc_items (\<lambda>_. []) (replicate m ()) @ s \<Longrightarrow> n = m \<and> r = s"
proof -
  assume "enc_items (\<lambda>_. []) (replicate n ()) @ r = enc_items (\<lambda>_. []) (replicate m ()) @ s"
  then have "replicate n () = replicate m () \<and> r = s" by (rule enc_items_cancel [rotated]) simp_all
  then show ?thesis by (metis length_replicate)
qed

lemma enc_json_cancel: "enc_json v @ r = enc_json w @ s \<Longrightarrow> v = w \<and> r = s"
proof (induction v arbitrary: w r s)
  case (JNumber n)
  then show ?case by (cases w) (auto split: if_splits dest: enc_number_cancel)
next
  case (JString t)
  then show ?case by (cases w) (auto split: if_splits dest: enc_string_cancel)
next
  case (JArray vs)
  then obtain ws where w: "w = JArray ws" "enc_items enc_json vs @ r = enc_items enc_json ws @ s"
    by (cases w) (simp_all split: if_splits)
  have "vs = ws \<and> r = s" by (rule enc_items_cancel [OF _ w(2)]) (rule JArray.IH)
  with w show ?case by simp
next
  case (JObject fs)
  have item: "p = q \<and> r = s" if p: "p \<in> set fs"
    and eq: "(\<lambda>(k, v). enc_string k @ enc_json v) p @ r = (\<lambda>(k, v). enc_string k @ enc_json v) q @ s" for p q r s
  proof -
    have "enc_string (fst p) @ enc_json (snd p) @ r = enc_string (fst q) @ enc_json (snd q) @ s"
      using eq by (simp add: case_prod_unfold)
    then have k: "fst p = fst q" "enc_json (snd p) @ r = enc_json (snd q) @ s"
      using enc_string_cancel by blast+
    moreover have "snd p = snd q \<and> r = s" using JObject.IH [OF p _ k(2)] by (simp add: snds.simps)
    ultimately show ?thesis by (simp add: prod_eq_iff)
  qed
  obtain gs where w: "w = JObject gs"
    "enc_items (\<lambda>(k, v). enc_string k @ enc_json v) fs @ r = enc_items (\<lambda>(k, v). enc_string k @ enc_json v) gs @ s"
    using JObject.prems by (cases w) (simp_all split: if_splits)
  have "fs = gs \<and> r = s" by (rule enc_items_cancel [OF item w(2)])
  with w show ?case by simp
qed (case_tac [!] w, auto split: if_splits)

lemma marked_canonical_faithful: "jcs_faithful marked_canonical"
  unfolding jcs_faithful_def marked_canonical_def
  using enc_json_cancel [where r = "[]" and s = "[]"] by auto

lemma hash_payload_Ok:
  "hash_payload E d p = Ok h \<longleftrightarrow> (\<exists>c. he_canonical E p = Ok c \<and> h = RequestHash (he_sha256 E (d @ c)))"
  by (auto simp: hash_payload_def res_simps)

text \<open>The environment of the examples: hashes and hex that keep their input.\<close>

definition plain_hex :: hex_lib where
  "plain_hex = \<lparr>hex_encode = \<lambda>b. b, hex_decode = Ok\<rparr>"

definition plain_env :: hash_env where
  "plain_env = \<lparr>he_canonical = marked_canonical, he_sha256 = \<lambda>s. s, he_hex = plain_hex\<rparr>"

lemma plain_hex_faithful: "hex_faithful plain_hex"
  by (simp add: hex_faithful_def plain_hex_def)

text \<open>Object ids are arrays of 32 bytes in the code.\<close>

definition sized_ids :: "SkillManifest \<Rightarrow> bool" where
  "sized_ids m \<longleftrightarrow> length (tree_bytes (m_root_tree m)) = 32 \<and>
     list_all (\<lambda>e. case e of ME_File p b z x \<Rightarrow> length (blob_bytes b) = 32 | _ \<Rightarrow> True) (m_entries m)"

lemma entry_wire_roundtrip:
  "hex_faithful X \<Longrightarrow> (case e of ME_File p b z x \<Rightarrow> length (blob_bytes b) = 32 | _ \<Rightarrow> True) \<Longrightarrow>
   manifest_entry_to_core X (manifest_entry_from_core X e) = Ok e"
  by (cases e) (simp_all add: hex_faithful_def object_id_from_str_def)

text \<open>Domains separate requests: the bytes hashed for two requests, whatever the payloads,
  agree exactly when the requests are of the same kind (one of the fifty-eight domains) and the
  payload bytes agree.\<close>

theorem request_domains_separate:
  "request_domain r @ p = request_domain s @ q \<longleftrightarrow> request_tag r = request_tag s \<and> p = q"
proof
  assume "request_domain r @ p = request_domain s @ q"
  then have "request_domain r = request_domain s \<and> p = q"
    by (rule domain_field.enc_cancel [OF request_domain_nul_terminated request_domain_nul_terminated])
  then show "request_tag r = request_tag s \<and> p = q"
    using request_tag_domain [of r] request_tag_domain [of s] distinct_all_domains
    by (simp add: nth_eq_iff_index_eq)
next
  assume "request_tag r = request_tag s \<and> p = q"
  then show "request_domain r @ p = request_domain s @ q"
    using request_tag_domain [of r] request_tag_domain [of s] by simp
qed

text \<open>C5. A request hash binds the request: when two requests hash to the same value, they are
  the same request, field by field (free-form JSON up to member order), unless the strings hashed
  for them collide under SHA-256.\<close>

theorem request_hash_binds:
  assumes jcs: "jcs_faithful (he_canonical E)" and hex: "hex_faithful (he_hex E)"
    and safe: "json_safe (request_payload E r)" "json_safe (request_payload E s)"
    and sha: "inj_on (he_sha256 E) (set (hash_inputs E r @ hash_inputs E s))"
    and h: "request_hash E r = Ok h" "request_hash E s = Ok h"
  shows "norm_request r = norm_request s"
proof -
  obtain c d where c: "he_canonical E (request_payload E r) = Ok c"
      and d: "he_canonical E (request_payload E s) = Ok d"
      and eq: "he_sha256 E (request_domain r @ c) = he_sha256 E (request_domain s @ d)"
    using h by (auto simp: request_hash_payload hash_payload_Ok)
  have inputs: "request_domain r @ c \<in> set (hash_inputs E r)" "request_domain s @ d \<in> set (hash_inputs E s)"
    using c d by (simp_all add: hash_inputs_def)
  have "request_domain r @ c = request_domain s @ d"
    using inj_onD [OF sha eq] inputs by simp
  then have "request_domain r = request_domain s \<and> c = d"
    by (rule domain_field.enc_cancel [OF request_domain_nul_terminated request_domain_nul_terminated])
  moreover from this have tag: "request_tag r = request_tag s"
    using request_tag_domain [of r] request_tag_domain [of s] distinct_all_domains
    by (simp add: nth_eq_iff_index_eq)
  ultimately have "normal (request_payload E r) = normal (request_payload E s)"
    using jcs safe c d unfolding jcs_faithful_def by blast
  moreover have "he_sha256 E a = he_sha256 E b \<longrightarrow> a = b"
    if "a \<in> set (request_secrets r)" "b \<in> set (request_secrets s)" for a b
    using inj_onD [OF sha, of a b] that by (simp add: hash_inputs_def)
  ultimately show ?thesis by (rule request_payload_inj [OF same_ctor [OF tag] tag _ hex])
qed

theorem request_hash_binds_witness:
  "norm_request (WR_Identity IMD_Login ''op'' (JObject [(''b'', JNull), (''a'', JBool True)])) =
   norm_request (WR_Identity IMD_Login ''op'' (JObject [(''a'', JBool True), (''b'', JNull)]))"
proof (rule request_hash_binds [where E = plain_env])
  show "jcs_faithful (he_canonical plain_env)" by (simp add: plain_env_def marked_canonical_faithful)
  show "hex_faithful (he_hex plain_env)" by (simp add: plain_env_def plain_hex_faithful)
  show "request_hash plain_env (WR_Identity IMD_Login ''op'' (JObject [(''b'', JNull), (''a'', JBool True)])) =
      Ok (RequestHash (LOGIN_DOMAIN @ enc_json (JObject [(''operation_id'', JString ''op''),
        (''payload'', JObject [(''a'', JBool True), (''b'', JNull)])])))"
    "request_hash plain_env (WR_Identity IMD_Login ''op'' (JObject [(''a'', JBool True), (''b'', JNull)])) =
      Ok (RequestHash (LOGIN_DOMAIN @ enc_json (JObject [(''operation_id'', JString ''op''),
        (''payload'', JObject [(''a'', JBool True), (''b'', JNull)])])))"
    by (simp_all add: request_hash_payload hash_payload_Ok plain_env_def marked_canonical_def
        less_char_def less_eq_char_def del: request_hash.simps enc_json.simps)
qed (simp_all add: plain_env_def inj_on_def)

text \<open>Wire manifests keep the manifest: decoding the wire form of a manifest gives the
  manifest back.\<close>

theorem manifest_wire_roundtrip:
  assumes "hex_faithful X" "sized_ids m"
  shows "manifest_to_core X (manifest_from_core X m) = Ok m"
proof -
  have "collect_res (manifest_entry_to_core X) (map (manifest_entry_from_core X) (m_entries m)) = Ok (m_entries m)"
    using assms(2) by (auto simp: collect_res_Ok_iff list_all2_map1 list_all2_same sized_ids_def list_all_iff
        intro: entry_wire_roundtrip [OF assms(1)])
  then show ?thesis
    using assms by (simp add: manifest_to_core_def manifest_from_core_def object_id_from_str_def
        hex_faithful_def sized_ids_def)
qed

theorem manifest_wire_roundtrip_witness:
  "manifest_to_core plain_hex (manifest_from_core plain_hex
     \<lparr>m_root_tree = TreeId (replicate 32 nul),
      m_entries = [ME_File ''SKILL.md'' (BlobId (replicate 32 nul)) 3 False, ME_Directory ''lib'']\<rparr>) =
   Ok \<lparr>m_root_tree = TreeId (replicate 32 nul),
      m_entries = [ME_File ''SKILL.md'' (BlobId (replicate 32 nul)) 3 False, ME_Directory ''lib'']\<rparr>"
  by (rule manifest_wire_roundtrip) (simp_all add: plain_hex_faithful sized_ids_def)

end
