(* ===== verification/Sql_Table.thy ===== *)
theory Sql_Table
  imports Ids_Locator
begin

text \<open>
  The statements the local database executes, on tables as lists of rows in storage order.
  A table is described by \<open>clash\<close> (two rows that share a primary key or another unique
  column) and \<open>admit\<close> (the CHECK and foreign-key constraints of a row); a statement that would
  break either fails and leaves the table alone.  The locale \<open>sql_table\<close> states what the
  constraints of a table have in common and shows once that every statement keeps them; it is
  interpreted for every table of the schema.
\<close>

section \<open>Operations on a database\<close>

text \<open>An operation returns a value or an error, and the database after it in both cases.\<close>

type_synonym ('s, 'a, 'e) op = "'s \<Rightarrow> ('a, 'e) result \<times> 's"

definition op_ok :: "'a \<Rightarrow> ('s, 'a, 'e) op" where
  "op_ok x s = (Ok x, s)"

definition op_err :: "'e \<Rightarrow> ('s, 'a, 'e) op" where
  "op_err e s = (Err e, s)"

definition op_res :: "('a, 'e) result \<Rightarrow> ('s, 'a, 'e) op" where
  "op_res r s = (r, s)"

text \<open>A query: the state stays as it is.\<close>

definition op_query :: "('s \<Rightarrow> ('a, 'e) result) \<Rightarrow> ('s, 'a, 'e) op" where
  "op_query q s = (q s, s)"

text \<open>Sequencing with \<open>?\<close>: an error keeps what the statements before it did.\<close>

definition op_bind :: "('s, 'a, 'e) op \<Rightarrow> ('a \<Rightarrow> ('s, 'b, 'e) op) \<Rightarrow> ('s, 'b, 'e) op" where
  "op_bind m f s = (case m s of (Ok x, t) \<Rightarrow> f x t | (Err e, t) \<Rightarrow> (Err e, t))"

text \<open>A \<open>for\<close> loop of statements.\<close>

primrec op_each :: "('a \<Rightarrow> ('s, 'b, 'e) op) \<Rightarrow> 'a list \<Rightarrow> ('s, unit, 'e) op" where
  "op_each f [] = op_ok ()"
| "op_each f (x # xs) = op_bind (f x) (\<lambda>_. op_each f xs)"

text \<open>A transaction that is dropped before its commit is rolled back.\<close>

definition transaction :: "('s, 'a, 'e) op \<Rightarrow> ('s, 'a, 'e) op" where
  "transaction m s = (case m s of (Ok x, t) \<Rightarrow> (Ok x, t) | (Err e, t) \<Rightarrow> (Err e, s))"

text \<open>\<open>if changed != 1 { return Err(QueryReturnedNoRows) }\<close>.\<close>

definition expect_one :: "'e \<Rightarrow> ('s, nat, 'e) op \<Rightarrow> ('s, unit, 'e) op" where
  "expect_one e m = op_bind m (\<lambda>changed. if changed \<noteq> 1 then op_err e else op_ok ())"

section \<open>Statements\<close>

definition sql_insert :: "('r \<Rightarrow> 'r \<Rightarrow> bool) \<Rightarrow> ('r \<Rightarrow> bool) \<Rightarrow> 'r \<Rightarrow> 'r list \<Rightarrow> 'r list option" where
  "sql_insert clash admit row t =
     (if admit row \<and> \<not> list_ex (clash row) t then Some (t @ [row]) else None)"

text \<open>
  \<open>INSERT \<dots> ON CONFLICT(key) DO UPDATE SET \<dots>\<close>: the row with the same key takes over the
  \<open>excluded\<close> columns; any other unique column still has to be free.
\<close>

definition sql_upsert ::
  "('r \<Rightarrow> 'k) \<Rightarrow> ('r \<Rightarrow> 'r \<Rightarrow> bool) \<Rightarrow> ('r \<Rightarrow> bool) \<Rightarrow> ('r \<Rightarrow> 'r) \<Rightarrow> 'r \<Rightarrow> 'r list \<Rightarrow> 'r list option" where
  "sql_upsert key clash admit set_excluded row t =
     (if \<not> list_ex (\<lambda>r. key r = key row) t then sql_insert clash admit row t
      else let t' = map (\<lambda>r. if key r = key row then set_excluded r else r) t in
        if admit row \<and> list_all (\<lambda>r. key r = key row \<longrightarrow> admit (set_excluded r) \<and>
            \<not> list_ex (\<lambda>q. key q \<noteq> key row \<and> clash (set_excluded r) q) t) t
        then Some t' else None)"

text \<open>\<open>INSERT \<dots> ON CONFLICT(key) DO NOTHING\<close>, with the number of rows inserted.\<close>

definition sql_insert_or_ignore ::
  "('r \<Rightarrow> 'k) \<Rightarrow> ('r \<Rightarrow> 'r \<Rightarrow> bool) \<Rightarrow> ('r \<Rightarrow> bool) \<Rightarrow> 'r \<Rightarrow> 'r list \<Rightarrow> ('r list \<times> nat) option" where
  "sql_insert_or_ignore key clash admit row t =
     (if list_ex (\<lambda>r. key r = key row) t then (if admit row then Some (t, 0) else None)
      else map_option (\<lambda>t'. (t', 1)) (sql_insert clash admit row t))"

definition sql_delete :: "('r \<Rightarrow> bool) \<Rightarrow> 'r list \<Rightarrow> 'r list" where
  "sql_delete P t = filter (\<lambda>r. \<not> P r) t"

definition sql_count :: "('r \<Rightarrow> bool) \<Rightarrow> 'r list \<Rightarrow> nat" where
  "sql_count P t = length (filter P t)"

definition sql_update :: "('r \<Rightarrow> bool) \<Rightarrow> ('r \<Rightarrow> bool) \<Rightarrow> ('r \<Rightarrow> 'r) \<Rightarrow> 'r list \<Rightarrow> 'r list option" where
  "sql_update admit P f t =
     (if list_all (\<lambda>r. P r \<longrightarrow> admit (f r)) t then Some (map (\<lambda>r. if P r then f r else r) t) else None)"

text \<open>\<open>query_row(\<dots>).optional()\<close>: the first row, if any.\<close>

definition sql_first :: "('r \<Rightarrow> bool) \<Rightarrow> 'r list \<Rightarrow> 'r option" where
  "sql_first P t = find P t"

section \<open>Tables and their constraints\<close>

definition table_ok :: "('r \<Rightarrow> 'r \<Rightarrow> bool) \<Rightarrow> ('r \<Rightarrow> bool) \<Rightarrow> 'r list \<Rightarrow> bool" where
  "table_ok clash admit t \<longleftrightarrow> list_all admit t \<and> sorted_wrt (\<lambda>a b. \<not> clash a b) t"

lemma table_ok_Nil [simp]: "table_ok clash admit []"
  by (simp add: table_ok_def)

lemma table_ok_filter [simp]: "table_ok clash admit t \<Longrightarrow> table_ok clash admit (sql_delete P t)"
  by (auto simp: table_ok_def sql_delete_def list_all_iff intro: sorted_wrt_filter)

lemma table_ok_insert: "table_ok clash admit t \<Longrightarrow> (\<And>a b. clash a b = clash b a) \<Longrightarrow>
   sql_insert clash admit row t = Some t' \<Longrightarrow> table_ok clash admit t'"
  by (auto simp: table_ok_def sql_insert_def sorted_wrt_append list_ex_iff list_all_iff split: if_splits)

lemma table_ok_mono: "table_ok clash admit t \<Longrightarrow> (\<And>r. r \<in> set t \<Longrightarrow> admit r \<Longrightarrow> admit' r) \<Longrightarrow> table_ok clash admit' t"
  by (auto simp: table_ok_def list_all_iff)

text \<open>A replacement that keeps the unique columns keeps the table.\<close>

lemma sorted_wrt_map_same:
  "sorted_wrt (\<lambda>a b. \<not> clash a b) t \<Longrightarrow> (\<And>a b. clash (f a) (f b) \<longrightarrow> clash a b) \<Longrightarrow>
   sorted_wrt (\<lambda>a b. \<not> clash a b) (map f t)"
  by (auto simp: sorted_wrt_map elim: sorted_wrt_mono_rel [rotated])

locale sql_table =
  fixes key :: "'r \<Rightarrow> 'k" and clash :: "'r \<Rightarrow> 'r \<Rightarrow> bool"
  assumes clash_sym: "clash a b = clash b a"
    and key_clash: "key a = key b \<Longrightarrow> clash a b"
begin

lemma insert_ok: "table_ok clash admit t \<Longrightarrow> sql_insert clash admit row t = Some t' \<Longrightarrow> table_ok clash admit t'"
  by (erule table_ok_insert) (rule clash_sym)

lemma distinct_keys: "table_ok clash admit t \<Longrightarrow> distinct (map key t)"
proof (induction t)
  case (Cons r t)
  then have "table_ok clash admit t" "key r \<notin> key ` set t"
    by (auto simp: table_ok_def dest: key_clash)
  with Cons.IH show ?case by simp
qed simp

lemma key_unique: "table_ok clash admit t \<Longrightarrow> a \<in> set t \<Longrightarrow> b \<in> set t \<Longrightarrow> key a = key b \<Longrightarrow> a = b"
  using distinct_keys [of admit t] by (auto simp: distinct_map dest: inj_onD)

lemma count_le_one: "table_ok clash admit t \<Longrightarrow> (\<And>r. P r \<Longrightarrow> key r = k) \<Longrightarrow> sql_count P t \<le> 1"
proof (induction t)
  case (Cons r t)
  have t: "table_ok clash admit t" using Cons.prems(1) by (simp add: table_ok_def)
  show ?case
  proof (cases "P r")
    case True
    have "\<not> P q" if "q \<in> set t" for q
      using Cons.prems True that by (auto simp: table_ok_def dest: key_clash)
    then have "filter P t = []" by (simp add: filter_empty_conv)
    with True show ?thesis by (simp add: sql_count_def)
  next
    case False
    with Cons.IH [OF t Cons.prems(2)] show ?thesis by (simp add: sql_count_def)
  qed
qed (simp add: sql_count_def)

lemma update_ok:
  "table_ok clash admit t \<Longrightarrow> (\<And>a b. clash (f a) (f b) = clash a b \<and> clash (f a) b = clash a b) \<Longrightarrow>
   sql_update admit P f t = Some t' \<Longrightarrow> table_ok clash admit t'"
proof -
  assume t: "table_ok clash admit t" and f: "\<And>a b. clash (f a) (f b) = clash a b \<and> clash (f a) b = clash a b"
    and u: "sql_update admit P f t = Some t'"
  have "clash a (f b) = clash a b" for a b using f [of b a] clash_sym by metis
  with f have same: "clash (if P a then f a else a) (if P b then f b else b) \<longrightarrow> clash a b" for a b
    by auto
  have t': "t' = map (\<lambda>r. if P r then f r else r) t" "\<forall>r\<in>set t. P r \<longrightarrow> admit (f r)"
    using u by (auto simp: sql_update_def list_all_iff split: if_splits)
  have "sorted_wrt (\<lambda>a b. \<not> clash a b) t'"
    unfolding t'(1) by (rule sorted_wrt_map_same, use t in \<open>simp add: table_ok_def\<close>, rule same)
  moreover have "list_all admit t'" using t t' by (auto simp: table_ok_def list_all_iff)
  ultimately show ?thesis by (simp add: table_ok_def)
qed

lemma upsert_ok:
  assumes t: "table_ok clash admit t" and k: "\<And>r. key (set_excluded r) = key r"
    and u: "sql_upsert key clash admit set_excluded row t = Some t'"
  shows "table_ok clash admit t'"
proof (cases "list_ex (\<lambda>r. key r = key row) t")
  case False
  with u t show ?thesis by (auto simp: sql_upsert_def intro: insert_ok)
next
  case True
  let ?f = "\<lambda>r. if key r = key row then set_excluded r else r"
  have t': "t' = map ?f t"
    and fresh: "\<And>r q. r \<in> set t \<Longrightarrow> key r = key row \<Longrightarrow> q \<in> set t \<Longrightarrow> key q \<noteq> key row \<Longrightarrow> \<not> clash (set_excluded r) q"
    and adm: "\<And>r. r \<in> set t \<Longrightarrow> key r = key row \<Longrightarrow> admit (set_excluded r)"
    using u True by (auto simp: sql_upsert_def Let_def list_all_iff list_ex_iff split: if_splits)
  have "sorted_wrt (\<lambda>a b. \<not> clash (?f a) (?f b)) t"
  proof (rule sorted_wrt_mono_rel [of t "\<lambda>a b. \<not> clash a b"])
    fix a b assume ab: "a \<in> set t" "b \<in> set t" "\<not> clash a b"
    then have "key a \<noteq> key b" using key_clash by blast
    with ab fresh show "\<not> clash (?f a) (?f b)" by (auto simp: clash_sym [of _ "set_excluded b"])
  qed (use t in \<open>simp add: table_ok_def\<close>)
  moreover have "list_all admit t'" using t adm by (auto simp: t' table_ok_def list_all_iff)
  ultimately show ?thesis by (simp add: table_ok_def t' sorted_wrt_map)
qed

lemma insert_or_ignore_ok:
  "table_ok clash admit t \<Longrightarrow> sql_insert_or_ignore key clash admit row t = Some (t', n) \<Longrightarrow> table_ok clash admit t'"
  by (auto simp: sql_insert_or_ignore_def split: if_splits intro: insert_ok)

end

text \<open>Keys that statements keep.\<close>

lemma sql_update_keys: "(\<And>r. key (f r) = key r) \<Longrightarrow> sql_update admit P f t = Some t' \<Longrightarrow> map key t' = map key t"
  by (auto simp: sql_update_def split: if_splits)

lemma sql_insert_keys: "sql_insert clash admit row t = Some t' \<Longrightarrow> map key t' = map key t @ [key row]"
  by (auto simp: sql_insert_def split: if_splits)

lemma sql_upsert_keys:
  "(\<And>r. key (set_excluded r) = key r) \<Longrightarrow> sql_upsert key clash admit set_excluded row t = Some t' \<Longrightarrow>
   set (map key t') = insert (key row) (set (map key t))"
proof (cases "list_ex (\<lambda>r. key r = key row) t")
  case True
  moreover assume k: "\<And>r. key (set_excluded r) = key r" and "sql_upsert key clash admit set_excluded row t = Some t'"
  ultimately have "t' = map (\<lambda>r. if key r = key row then set_excluded r else r) t"
    by (auto simp: sql_upsert_def Let_def split: if_splits)
  then have "map key t' = map key t" using k by simp
  with True show ?thesis by (metis (mono_tags, lifting) image_eqI insert_absorb list.set_map list_ex_iff)
next
  case False
  moreover assume "sql_upsert key clash admit set_excluded row t = Some t'"
  ultimately show ?thesis using sql_insert_keys [of clash admit row t t' key] by (simp add: sql_upsert_def)
qed

section \<open>Operations that keep an invariant\<close>

text \<open>
  \<open>safe_op I m\<close>: from a state that satisfies \<open>I\<close>, the operation ends in one, and when it fails
  nothing has changed.  \<open>keeps I m\<close> asks for the invariant only after success; it composes, and a
  transaction around it is safe.
\<close>

definition safe_op :: "('s \<Rightarrow> bool) \<Rightarrow> ('s, 'a, 'e) op \<Rightarrow> bool" where
  "safe_op I m \<longleftrightarrow> (\<forall>s. I s \<longrightarrow> (case m s of (Ok x, t) \<Rightarrow> I t | (Err e, t) \<Rightarrow> t = s))"

definition keeps :: "('s \<Rightarrow> bool) \<Rightarrow> ('s, 'a, 'e) op \<Rightarrow> bool" where
  "keeps I m \<longleftrightarrow> (\<forall>s x t. I s \<longrightarrow> m s = (Ok x, t) \<longrightarrow> I t)"

named_theorems safe_intros \<open>operations that keep the invariant of a database\<close>

lemma safe_keeps: "safe_op I m \<Longrightarrow> keeps I m"
  unfolding safe_op_def keeps_def by (metis (mono_tags, lifting) case_prod_conv result.simps(5))

lemma op_ok_safe [safe_intros]: "safe_op I (op_ok x)"
  by (simp add: safe_op_def op_ok_def)

lemma op_err_safe [safe_intros]: "safe_op I (op_err e)"
  by (simp add: safe_op_def op_err_def)

lemma op_res_safe [safe_intros]: "safe_op I (op_res r)"
  by (cases r) (simp_all add: safe_op_def op_res_def)

lemma op_query_safe [safe_intros]: "safe_op I (op_query q)"
  by (auto simp: safe_op_def op_query_def split: result.split)

lemma if_safe [safe_intros]: "(c \<Longrightarrow> safe_op I m) \<Longrightarrow> (\<not> c \<Longrightarrow> safe_op I n) \<Longrightarrow> safe_op I (if c then m else n)"
  by simp

lemma if_keeps [safe_intros]: "(c \<Longrightarrow> keeps I m) \<Longrightarrow> (\<not> c \<Longrightarrow> keeps I n) \<Longrightarrow> keeps I (if c then m else n)"
  by simp

lemmas read_keeps [safe_intros] =
  op_ok_safe [THEN safe_keeps] op_err_safe [THEN safe_keeps] op_res_safe [THEN safe_keeps] op_query_safe [THEN safe_keeps]

lemma op_bind_keeps [safe_intros]: "keeps I m \<Longrightarrow> (\<And>x. keeps I (f x)) \<Longrightarrow> keeps I (op_bind m f)"
proof -
  assume m: "keeps I m" and f: "\<And>x. keeps I (f x)"
  have "I t" if s: "I s" and y: "op_bind m f s = (Ok y, t)" for s y t
  proof -
    obtain x u where "m s = (Ok x, u)" "f x u = (Ok y, t)"
      using y by (cases "m s"; cases "fst (m s)") (simp_all add: op_bind_def)
    with s m f show ?thesis unfolding keeps_def by blast
  qed
  then show ?thesis by (simp add: keeps_def)
qed

lemma op_each_keeps [safe_intros]: "(\<And>x. keeps I (f x)) \<Longrightarrow> keeps I (op_each f xs)"
  by (induction xs) (auto intro!: safe_intros)

lemma transaction_safe [safe_intros]: "keeps I m \<Longrightarrow> safe_op I (transaction m)"
  unfolding safe_op_def keeps_def transaction_def by (auto split: prod.splits result.splits)

text \<open>What comes first may only read.\<close>

definition reads_only :: "('s, 'a, 'e) op \<Rightarrow> bool" where
  "reads_only m \<longleftrightarrow> (\<forall>s. snd (m s) = s)"

lemma reads_only_simps [simp]:
  "reads_only (op_res r)" "reads_only (op_query q)" "reads_only (op_ok x)" "reads_only (op_err e)"
  by (simp_all add: reads_only_def op_res_def op_query_def op_ok_def op_err_def)

lemma op_bind_read_safe: "reads_only m \<Longrightarrow> (\<And>x. safe_op I (f x)) \<Longrightarrow> safe_op I (op_bind m f)"
proof -
  assume m: "reads_only m" and f: "\<And>x. safe_op I (f x)"
  have "\<exists>r. m s = (r, s)" for s using m by (metis reads_only_def prod.collapse)
  then obtain r where r: "m s = (r s, s)" for s by metis
  have "case op_bind m f s of (Ok x, t) \<Rightarrow> I t | (Err e, t) \<Rightarrow> t = s" if "I s" for s
    using f that r [of s] by (cases "r s") (simp_all add: safe_op_def op_bind_def)
  then show ?thesis by (simp add: safe_op_def)
qed

text \<open>A statement changes the database or fails.\<close>

definition sql_exec :: "'e \<Rightarrow> ('s \<Rightarrow> ('s \<times> 'a) option) \<Rightarrow> ('s, 'a, 'e) op" where
  "sql_exec e stmt s = (case stmt s of Some (t, x) \<Rightarrow> (Ok x, t) | None \<Rightarrow> (Err e, s))"

lemma sql_exec_safe: "(\<And>s t x. I s \<Longrightarrow> stmt s = Some (t, x) \<Longrightarrow> I t) \<Longrightarrow> safe_op I (sql_exec e stmt)"
  unfolding safe_op_def sql_exec_def by (auto split: option.splits)

text \<open>A count other than one means that no row matched, so that nothing changed.\<close>

lemma expect_one_safe:
  assumes "safe_op I m" "\<And>s t n. I s \<Longrightarrow> m s = (Ok n, t) \<Longrightarrow> n \<noteq> 1 \<Longrightarrow> t = s"
  shows "safe_op I (expect_one e m)"
  unfolding safe_op_def
proof (intro allI impI)
  fix s assume I: "I s"
  obtain r t where m: "m s = (r, t)" by (cases "m s")
  have "case (r, t) of (Ok x, t) \<Rightarrow> I t | (Err e, t) \<Rightarrow> t = s" using assms(1) I m by (auto simp: safe_op_def)
  with assms(2) [OF I, of _ t] m
  show "case expect_one e m s of (Ok x, t) \<Rightarrow> I t | (Err e, t) \<Rightarrow> t = s"
    by (cases r) (auto simp: expect_one_def op_bind_def op_ok_def op_err_def)
qed

lemma expect_one_keeps: "keeps I m \<Longrightarrow> keeps I (expect_one e m)"
  unfolding expect_one_def by (auto intro!: safe_intros)

end
