(* ===== verification/Local_Schema.thy ===== *)
theory Local_Schema
  imports Sql_Table
begin

text \<open>
  \<open>crates/denju-local/src/db/types.rs\<close>, \<open>db/schema.rs\<close> and the record types of \<open>workspace_db.rs\<close>
  and \<open>discovery_db.rs\<close>: the rows of the local database, its tables with their keys, unique columns,
  checks and foreign keys, and the schema invariant.  A stored row is the record the code
  reads, extended by the columns it does not.  Columns of type INTEGER that hold a Boolean are
  Booleans; other integers are unbounded here, with the bounds of \<open>i64\<close> written out where the
  code computes with them.
\<close>

section \<open>Journal states and errors\<close>

datatype JournalState = Planned | Staged | Verified | Switched | Complete

fun JournalState_as_str :: "JournalState \<Rightarrow> string" where
  "JournalState_as_str Planned = ''planned''"
| "JournalState_as_str Staged = ''staged''"
| "JournalState_as_str Verified = ''verified''"
| "JournalState_as_str Switched = ''switched''"
| "JournalState_as_str Complete = ''complete''"

fun JournalState_next :: "JournalState \<Rightarrow> JournalState option" where
  "JournalState_next Planned = Some Staged"
| "JournalState_next Staged = Some Verified"
| "JournalState_next Verified = Some Switched"
| "JournalState_next Switched = Some Complete"
| "JournalState_next Complete = None"

text \<open>Errors of SQLite: a constraint that fails, or a query that finds no row.\<close>

datatype SqlError = SqlConstraint | QueryReturnedNoRows | FromSqlConversionFailure string | InvalidQuery

datatype LocalDbError =
    Sqlite SqlError
  | Serialization string
  | WorkerStart string
  | WorkerStopped
  | UnsupportedSchema int
  | Corrupt string
  | InvalidJournalTransition JournalState JournalState
  | InvalidLeaseTtl int

definition JournalState_from_str :: "string \<Rightarrow> (JournalState, LocalDbError) result" where
  "JournalState_from_str v =
     (if v = ''planned'' then Ok Planned
      else if v = ''staged'' then Ok Staged
      else if v = ''verified'' then Ok Verified
      else if v = ''switched'' then Ok Switched
      else if v = ''complete'' then Ok Complete
      else Err (Corrupt (''unknown journal state '' @ v)))"

lemma JournalState_roundtrip [simp]: "JournalState_from_str (JournalState_as_str s) = Ok s"
  by (cases s) (simp_all add: JournalState_from_str_def)

lemma JournalState_as_str_inj [simp]: "JournalState_as_str s = JournalState_as_str t \<longleftrightarrow> s = t"
  by (cases s; cases t) simp_all

datatype WorkspaceStatus = Clean | Queued | PausedValidation | PendingRename | Conflict | Quota

fun WorkspaceStatus_as_str :: "WorkspaceStatus \<Rightarrow> string" where
  "WorkspaceStatus_as_str Clean = ''clean''"
| "WorkspaceStatus_as_str Queued = ''queued''"
| "WorkspaceStatus_as_str PausedValidation = ''paused_validation''"
| "WorkspaceStatus_as_str PendingRename = ''pending_rename''"
| "WorkspaceStatus_as_str Conflict = ''conflict''"
| "WorkspaceStatus_as_str Quota = ''quota''"

definition WorkspaceStatus_from_str :: "string \<Rightarrow> (WorkspaceStatus, LocalDbError) result" where
  "WorkspaceStatus_from_str v =
     (if v = ''clean'' then Ok Clean
      else if v = ''queued'' then Ok Queued
      else if v = ''paused_validation'' then Ok PausedValidation
      else if v = ''pending_rename'' then Ok PendingRename
      else if v = ''conflict'' then Ok Conflict
      else if v = ''quota'' then Ok Quota
      else Err (Corrupt (''unknown workspace status '' @ v)))"

lemma WorkspaceStatus_roundtrip [simp]: "WorkspaceStatus_from_str (WorkspaceStatus_as_str s) = Ok s"
  by (cases s) (simp_all add: WorkspaceStatus_from_str_def)

section \<open>Records\<close>

record InstallationRecord =
  ins_registry_origin :: string
  ins_installation_id :: string
  ins_author_principal_id :: string
  ins_credential_backend :: string
  ins_created_at_unix_ms :: int

record IdentityRecord =
  idn_user_id :: string
  idn_namespace_id :: string
  idn_username :: string
  idn_session_id :: "string option"
  idn_session_backend :: "string option"
  idn_author_principal_id :: "string option"

record HarnessConfig =
  hc_codex_root :: string
  hc_claude_root :: string

record ServiceRecord =
  svc_kind :: string
  svc_persistent :: bool
  svc_running :: bool
  svc_detail :: "string option"

record SubscriptionRecord =
  sub_resource_id :: string
  sub_locator :: string
  sub_owner :: string
  sub_skill_name :: string
  sub_resource_generation :: int
  sub_release_version :: int
  sub_desired_revision_id :: string
  sub_harness_name :: "string option"
  sub_materialized_revision_id :: "string option"
  sub_retain_on_delete :: bool
  sub_retained_after_delete :: bool
  sub_live_private :: bool
  sub_desired_root_tree_id :: string

record LocalForkRecord =
  lf_resource_id :: string
  lf_upstream_resource_id :: string
  lf_upstream_locator :: string
  lf_created_from_revision_id :: string
  lf_sync_base_revision_id :: string
  lf_desired_name :: string
  lf_state :: string
  lf_replace_subscription :: bool

record ForkSyncConflictRecord =
  fsc_resource_id :: string
  fsc_sync_base_revision_id :: string
  fsc_fork_revision_id :: string
  fsc_upstream_revision_id :: string
  fsc_conflict_paths :: "string list"

record OwnedSkillRecord =
  os_resource_id :: string
  os_locator :: string
  os_owner :: string
  os_skill_name :: string
  os_resource_generation :: int
  os_workspace_generation :: int
  os_desired_revision_id :: string
  os_harness_name :: "string option"
  os_materialized_revision_id :: "string option"

record ManagedSkillRecord =
  mg_resource_id :: string
  mg_locator :: string
  mg_owner :: string
  mg_skill_name :: string
  mg_harness_name :: "string option"
  mg_materialized_revision_id :: "string option"

record PackSubscriptionRecord =
  ps_source_id :: string
  ps_source_kind :: string
  ps_source_label :: string
  ps_source_team_id :: "string option"
  ps_enforced :: bool
  ps_pack_resource_id :: string
  ps_locator :: string
  ps_resource_generation :: int
  ps_pack_version :: int
  ps_degraded :: bool

record PackSkillSourceRecord =
  pss_source_id :: string
  pss_pack_resource_id :: string
  pss_resource_id :: string
  pss_locator :: string
  pss_owner :: string
  pss_skill_name :: string
  pss_resource_generation :: int
  pss_desired_revision_id :: string
  pss_unavailable_reason :: "string option"

record PackMaterializedSkillRecord =
  pms_resource_id :: string
  pms_locator :: string
  pms_owner :: string
  pms_skill_name :: string
  pms_resource_generation :: int
  pms_desired_revision_id :: string
  pms_desired_root_tree_id :: string
  pms_harness_name :: "string option"
  pms_materialized_revision_id :: string

record PackSourceConflictRecord =
  psc_resource_id :: string
  psc_source_ids :: "string list"
  psc_source_labels :: "string list"
  psc_revision_ids :: "string list"
  psc_message :: string

record PackApplySkillState =
  pas_resource_id :: string
  pas_owner :: string
  pas_skill_name :: string
  pas_revision_id :: "string option"

record PackApplyJournalPayload =
  pap_old_skills :: "PackApplySkillState list"
  pap_new_skills :: "PackApplySkillState list"

record PackApplyJournal =
  paj_operation_id :: OperationId
  paj_payload :: PackApplyJournalPayload
  paj_complete :: bool

record ImportJournalPayload =
  imp_source_path :: string
  imp_owner :: string
  imp_skill_name :: string
  imp_request_hash :: string
  imp_manifest_json :: string
  imp_snapshot_sha256 :: string
  imp_snapshot_size_bytes :: u64
  imp_snapshot_path :: string
  imp_resource_id :: "string option"
  imp_locator :: "string option"
  imp_revision_id :: "string option"

record MaterializationJournalPayload =
  mat_resource_id :: string
  mat_revision_id :: string
  mat_stage_dir :: string
  mat_generation_dir :: string
  mat_canonical_path :: string

record BootstrapJournalPayload =
  boo_registry_origin :: string
  boo_credential_hash :: string
  boo_credential_backend :: "string option"
  boo_installation_id :: "string option"
  boo_author_principal_id :: "string option"

record AccountDeleteJournalPayload =
  adl_username :: string
  adl_session_backend :: string
  adl_installation_backend :: string
  adl_removed_local_skills :: nat

record WorkspaceWritebackJournalPayload =
  wbk_resource_id :: string
  wbk_skill_name :: string
  wbk_harness_name :: string
  wbk_target_root_tree_id :: string
  wbk_stage_dir :: string
  wbk_generation_dir :: string
  wbk_canonical_path :: string

text \<open>
  \<open>BootstrapJournal\<close>, \<open>AccountDeleteJournal\<close>, \<open>ImportJournal\<close>, \<open>MaterializationJournal\<close> and
  \<open>WorkspaceWritebackJournal\<close> have one shape each around their payload.
\<close>

record 'p Journal =
  jr_operation_id :: OperationId
  jr_state :: JournalState
  jr_payload :: 'p

record WorkspaceStateRecord =
  ws_resource_id :: string
  ws_base_generation :: int
  ws_base_revision_id :: string
  ws_local_head_revision_id :: string
  ws_valid_root_tree_id :: string
  ws_working_generation_path :: string
  ws_status :: WorkspaceStatus
  ws_error_message :: "string option"
  ws_pending_rename :: "string option"

record DerivedProjectionStateRecord =
  dps_resource_id :: string
  dps_harness_name :: string
  dps_baseline_root_tree_id :: string

record WorkspaceFileRecord =
  wf_resource_id :: string
  wf_path :: string
  wf_kind :: string
  wf_size_bytes :: "int option"
  wf_mtime_ns :: "int option"
  wf_executable :: "bool option"
  wf_blob_id :: "string option"
  wf_symlink_target :: "string option"

record LocalRevisionRecord =
  lr_operation_id :: string
  lr_resource_id :: string
  lr_revision_id :: string
  lr_expected_head_revision_id :: string
  lr_parent_revision_ids :: "string list"
  lr_expected_generation :: int
  lr_root_tree_id :: string
  lr_manifest_json :: string
  lr_state :: string

record WorkspaceContentConflictRecord =
  wcc_conflict_id :: string
  wcc_resource_id :: string
  wcc_base_revision_id :: string
  wcc_head_revision_ids :: "string list"
  wcc_active_revision_id :: string
  wcc_remote_generation :: int
  wcc_working_root_tree_id :: string
  wcc_resolution_required :: bool
  wcc_conflict_paths :: "string list"

record AnonymousFollowRecord =
  af_user_id :: string
  af_username :: string

record LocalDiscoveryRecord =
  ldr_resource_id :: string
  ldr_locator :: string
  ldr_owner :: string
  ldr_skill_name :: string
  ldr_resource_generation :: int
  ldr_description :: string
  ldr_license :: "string option"
  ldr_compatibility :: "string option"
  ldr_fork_upstream_locator :: "string option"

section \<open>Stored rows\<close>

record journal_row =
  oj_operation_id :: string
  oj_kind :: string
  oj_state :: string
  oj_payload_json :: string
  oj_created_at_unix_ms :: int
  oj_updated_at_unix_ms :: int

record lease_row =
  wl_resource_key :: string
  wl_holder :: string
  wl_expires_at_unix_ms :: int

record subscription_row = SubscriptionRecord +
  sub_updated_at_unix_ms :: int

record owned_row = OwnedSkillRecord +
  os_updated_at_unix_ms :: int

record identity_row = IdentityRecord +
  idn_updated_at_unix_ms :: int

record workspace_row =
  wr_resource_id :: string
  wr_base_generation :: int
  wr_base_revision_id :: string
  wr_local_head_revision_id :: string
  wr_valid_root_tree_id :: string
  wr_working_generation_path :: string
  wr_status :: string
  wr_error_message :: "string option"
  wr_pending_rename :: "string option"
  wr_updated_at_unix_ms :: int

record revision_row =
  rr_operation_id :: string
  rr_resource_id :: string
  rr_revision_id :: string
  rr_parent_revision_id :: string
  rr_merge_parent_revision_id :: "string option"
  rr_expected_generation :: int
  rr_root_tree_id :: string
  rr_manifest_json :: string
  rr_state :: string
  rr_created_at_unix_ms :: int
  rr_updated_at_unix_ms :: int

record projection_row = DerivedProjectionStateRecord +
  dps_updated_at_unix_ms :: int

record content_conflict_row =
  cr_conflict_id :: string
  cr_resource_id :: string
  cr_base_revision_id :: string
  cr_head_a_revision_id :: string
  cr_head_b_revision_id :: string
  cr_active_revision_id :: string
  cr_remote_generation :: int
  cr_working_root_tree_id :: string
  cr_resolution_required :: bool
  cr_conflict_paths_json :: string
  cr_created_at_unix_ms :: int
  cr_updated_at_unix_ms :: int

record fork_row = LocalForkRecord +
  lf_created_at_unix_ms :: int
  lf_updated_at_unix_ms :: int

record edit_lock_row =
  el_resource_id :: string
  el_message :: string
  el_updated_at_unix_ms :: int

record fork_conflict_row =
  fr_resource_id :: string
  fr_sync_base_revision_id :: string
  fr_fork_revision_id :: string
  fr_upstream_revision_id :: string
  fr_conflict_paths_json :: string
  fr_created_at_unix_ms :: int
  fr_updated_at_unix_ms :: int

record pack_subscription_row = PackSubscriptionRecord +
  ps_updated_at_unix_ms :: int

record pack_source_row = PackSkillSourceRecord +
  pss_updated_at_unix_ms :: int

record pack_materialized_row = PackMaterializedSkillRecord +
  pms_updated_at_unix_ms :: int

record source_conflict_row =
  sr_resource_id :: string
  sr_source_ids_json :: string
  sr_source_labels_json :: string
  sr_revision_ids_json :: string
  sr_message :: string
  sr_updated_at_unix_ms :: int

record pack_journal_row =
  pj_operation_id :: string
  pj_payload_json :: string
  pj_state :: string
  pj_updated_at_unix_ms :: int

record suppression_row =
  sp_source_kind :: string
  sp_resource_id :: string
  sp_enforcing_source_id :: string
  sp_updated_at_unix_ms :: int

record metadata_row =
  md_resource_id :: string
  md_description :: string
  md_license :: "string option"
  md_compatibility :: "string option"
  md_updated_at_unix_ms :: int

record follow_row = AnonymousFollowRecord +
  af_updated_at_unix_ms :: int

text \<open>The tables of schema version 14; tables with a single row are options.\<close>

record localdb =
  installation :: "InstallationRecord option"
  harness_config :: "HarnessConfig option"
  operation_journal :: "journal_row list"
  service_state :: "ServiceRecord option"
  work_leases :: "lease_row list"
  subscriptions :: "subscription_row list"
  identity_state :: "identity_row option"
  owned_skills :: "owned_row list"
  workspace_state :: "workspace_row list"
  workspace_file_index :: "WorkspaceFileRecord list"
  local_revisions :: "revision_row list"
  derived_projection_state :: "projection_row list"
  workspace_content_conflicts :: "content_conflict_row list"
  local_forks :: "fork_row list"
  subscription_edit_locks :: "edit_lock_row list"
  fork_sync_conflicts :: "fork_conflict_row list"
  pack_subscriptions :: "pack_subscription_row list"
  pack_skill_sources :: "pack_source_row list"
  pack_materialized_skills :: "pack_materialized_row list"
  pack_source_conflicts :: "source_conflict_row list"
  pack_apply_journal :: "pack_journal_row list"
  desired_source_suppressions :: "suppression_row list"
  skill_discovery_metadata :: "metadata_row list"
  anonymous_follows :: "follow_row list"

definition empty_db :: localdb where
  "empty_db =
     \<lparr>installation = None, harness_config = None, operation_journal = [], service_state = None, work_leases = [],
      subscriptions = [], identity_state = None, owned_skills = [], workspace_state = [], workspace_file_index = [],
      local_revisions = [], derived_projection_state = [], workspace_content_conflicts = [], local_forks = [],
      subscription_edit_locks = [], fork_sync_conflicts = [], pack_subscriptions = [], pack_skill_sources = [],
      pack_materialized_skills = [], pack_source_conflicts = [], pack_apply_journal = [],
      desired_source_suppressions = [], skill_discovery_metadata = [], anonymous_follows = []\<rparr>"

end
