(* ===== verification/Local_Tables.thy ===== *)
theory Local_Tables
  imports Local_Schema
begin

text \<open>
  The tables of the local schema with their constraints (\<open>db/schema.rs\<close>), the statements on
  them, and the invariant the schema gives: every row passes its checks, primary keys and unique
  columns are unique, and every foreign key has its parent.  The locale \<open>stored_table\<close> shows once,
  for any table of a database, that inserting, upserting and updating are safe; \<open>leaf_table\<close>
  adds deletion for tables no other table refers to.  They are interpreted for the twenty tables.
\<close>

named_theorems table_defs \<open>descriptions of the tables\<close>

section \<open>Tables of a database\<close>

record ('s, 'r, 'k) table =
  tb_get :: "'s \<Rightarrow> 'r list"
  tb_put :: "'r list \<Rightarrow> 's \<Rightarrow> 's"
  tb_key :: "'r \<Rightarrow> 'k"
  tb_clash :: "'r \<Rightarrow> 'r \<Rightarrow> bool"
  tb_admit :: "'s \<Rightarrow> 'r \<Rightarrow> bool"

type_synonym ('s, 'a) db_op = "('s, 'a, LocalDbError) op"

definition insert_into :: "('s, 'r, 'k) table \<Rightarrow> 'r \<Rightarrow> ('s, unit) db_op" where
  "insert_into T row =
     sql_exec (Sqlite SqlConstraint) (\<lambda>s.
       map_option (\<lambda>t. (tb_put T t s, ())) (sql_insert (tb_clash T) (tb_admit T s) row (tb_get T s)))"

definition upsert_into :: "('s, 'r, 'k) table \<Rightarrow> ('r \<Rightarrow> 'r) \<Rightarrow> 'r \<Rightarrow> ('s, unit) db_op" where
  "upsert_into T set_excluded row =
     sql_exec (Sqlite SqlConstraint) (\<lambda>s.
       map_option (\<lambda>t. (tb_put T t s, ()))
         (sql_upsert (tb_key T) (tb_clash T) (tb_admit T s) set_excluded row (tb_get T s)))"

definition insert_or_ignore :: "('s, 'r, 'k) table \<Rightarrow> 'r \<Rightarrow> ('s, nat) db_op" where
  "insert_or_ignore T row =
     sql_exec (Sqlite SqlConstraint) (\<lambda>s.
       map_option (\<lambda>(t, n). (tb_put T t s, n))
         (sql_insert_or_ignore (tb_key T) (tb_clash T) (tb_admit T s) row (tb_get T s)))"

definition update_where :: "('s, 'r, 'k) table \<Rightarrow> ('r \<Rightarrow> bool) \<Rightarrow> ('r \<Rightarrow> 'r) \<Rightarrow> ('s, nat) db_op" where
  "update_where T P f =
     sql_exec (Sqlite SqlConstraint) (\<lambda>s.
       map_option (\<lambda>t. (tb_put T t s, sql_count P (tb_get T s))) (sql_update (tb_admit T s) P f (tb_get T s)))"

text \<open>Deletion from a table without children.\<close>

definition delete_from :: "('s, 'r, 'k) table \<Rightarrow> ('r \<Rightarrow> bool) \<Rightarrow> ('s, nat) db_op" where
  "delete_from T P s = (Ok (sql_count P (tb_get T s)), tb_put T (sql_delete P (tb_get T s)) s)"

lemma sql_update_none: "sql_count P t = 0 \<Longrightarrow> sql_update admit P f t = Some t' \<Longrightarrow> t' = t"
  by (auto simp: sql_count_def sql_update_def filter_empty_conv map_idI split: if_splits)

lemma sql_delete_none: "sql_count P t = 0 \<Longrightarrow> sql_delete P t = t"
  by (simp add: sql_count_def sql_delete_def filter_empty_conv)

locale stored_table =
  fixes T :: "('s, 'r, 'k) table" and I :: "'s \<Rightarrow> bool"
  assumes sym: "tb_clash T a b = tb_clash T b a"
    and same_key: "tb_key T a = tb_key T b \<Longrightarrow> tb_clash T a b"
    and stored: "I s \<Longrightarrow> table_ok (tb_clash T) (tb_admit T s) (tb_get T s)"
    and put_ok: "I s \<Longrightarrow> table_ok (tb_clash T) (tb_admit T s) t \<Longrightarrow>
      tb_key T ` set (tb_get T s) \<subseteq> tb_key T ` set t \<Longrightarrow> I (tb_put T t s)"
    and put_get: "tb_put T (tb_get T s) s = s"
begin

sublocale rows: sql_table "tb_key T" "tb_clash T"
  by unfold_locales (rule sym, rule same_key)

lemma insert_safe: "safe_op I (insert_into T row)"
  unfolding insert_into_def
proof (rule sql_exec_safe, clarsimp)
  fix s t assume s: "I s" and t: "sql_insert (tb_clash T) (tb_admit T s) row (tb_get T s) = Some t"
  have "tb_key T ` set (tb_get T s) \<subseteq> tb_key T ` set t"
    using t by (auto simp: sql_insert_def split: if_splits)
  then show "I (tb_put T t s)" by (rule put_ok [OF s rows.insert_ok [OF stored [OF s] t]])
qed

lemma upsert_safe:
  assumes "\<And>r. tb_key T (set_excluded r) = tb_key T r"
  shows "safe_op I (upsert_into T set_excluded row)"
  unfolding upsert_into_def
proof (rule sql_exec_safe, clarsimp)
  fix s t assume s: "I s"
    and t: "sql_upsert (tb_key T) (tb_clash T) (tb_admit T s) set_excluded row (tb_get T s) = Some t"
  have "tb_key T ` set (tb_get T s) \<subseteq> tb_key T ` set t"
    using sql_upsert_keys [OF assms t] by auto
  then show "I (tb_put T t s)" by (rule put_ok [OF s rows.upsert_ok [OF stored [OF s] assms t]])
qed

lemma insert_or_ignore_safe: "safe_op I (insert_or_ignore T row)"
  unfolding insert_or_ignore_def
proof (rule sql_exec_safe, clarsimp)
  fix s t n assume s: "I s"
    and t: "sql_insert_or_ignore (tb_key T) (tb_clash T) (tb_admit T s) row (tb_get T s) = Some (t, n)"
  have "tb_key T ` set (tb_get T s) \<subseteq> tb_key T ` set t"
    using t by (auto simp: sql_insert_or_ignore_def sql_insert_def split: if_splits)
  then show "I (tb_put T t s)" by (rule put_ok [OF s rows.insert_or_ignore_ok [OF stored [OF s] t]])
qed

text \<open>Updates that leave the unique columns alone.\<close>

lemma update_safe:
  assumes f: "\<And>a b. tb_clash T (f a) (f b) = tb_clash T a b \<and> tb_clash T (f a) b = tb_clash T a b"
    "\<And>r. tb_key T (f r) = tb_key T r"
  shows "safe_op I (update_where T P f)"
  unfolding update_where_def
proof (rule sql_exec_safe, clarsimp)
  fix s t assume s: "I s" and t: "sql_update (tb_admit T s) P f (tb_get T s) = Some t"
  have "tb_key T ` set (tb_get T s) \<subseteq> tb_key T ` set t"
    using sql_update_keys [of "tb_key T" f, OF f(2) t] by (metis list.set_map order_refl)
  then show "I (tb_put T t s)" by (rule put_ok [OF s rows.update_ok [OF stored [OF s] f(1) t]])
qed

lemma update_one_safe:
  assumes "\<And>a b. tb_clash T (f a) (f b) = tb_clash T a b \<and> tb_clash T (f a) b = tb_clash T a b"
    "\<And>r. tb_key T (f r) = tb_key T r" "\<And>r. P r \<Longrightarrow> tb_key T r = k"
  shows "safe_op I (expect_one e (update_where T P f))"
proof (rule expect_one_safe [OF update_safe [OF assms(1,2)]])
  fix s t n assume s: "I s" and u: "update_where T P f s = (Ok n, t)" and n: "n \<noteq> 1"
  have "n = sql_count P (tb_get T s)" using u by (auto simp: update_where_def sql_exec_def split: option.splits)
  then have "sql_count P (tb_get T s) = 0" using rows.count_le_one [OF stored [OF s], of P k] assms(3) n by simp
  with u show "t = s"
    by (auto simp: update_where_def sql_exec_def put_get dest!: sql_update_none split: option.splits)
qed

end

locale leaf_table = stored_table +
  assumes shrink: "I s \<Longrightarrow> table_ok (tb_clash T) (tb_admit T s) t \<Longrightarrow> I (tb_put T t s)"
begin

lemma delete_safe: "safe_op I (delete_from T P)"
  using shrink [OF _ table_ok_filter [OF stored]] by (simp add: safe_op_def delete_from_def)

lemma delete_one_safe:
  assumes "\<And>r. P r \<Longrightarrow> tb_key T r = k"
  shows "safe_op I (expect_one e (delete_from T P))"
proof (rule expect_one_safe [OF delete_safe])
  fix s t n assume s: "I s" and d: "delete_from T P s = (Ok n, t)" and n: "n \<noteq> 1"
  have "sql_count P (tb_get T s) = 0"
    using d n rows.count_le_one [OF stored [OF s], of P k] assms by (simp add: delete_from_def)
  with d show "t = s" by (auto simp: delete_from_def put_get sql_delete_none)
qed

end

section \<open>The schema\<close>

definition is_owned :: "localdb \<Rightarrow> string \<Rightarrow> bool" where
  "is_owned db resource_id \<longleftrightarrow> resource_id \<in> set (map os_resource_id (owned_skills db))"

text \<open>The CHECK of \<open>workspace_file_index\<close>.\<close>

definition file_shape :: "WorkspaceFileRecord \<Rightarrow> bool" where
  "file_shape r \<longleftrightarrow>
     wf_kind r = ''file'' \<and> wf_size_bytes r \<noteq> None \<and> wf_mtime_ns r \<noteq> None \<and> wf_executable r \<noteq> None \<and>
       wf_blob_id r \<noteq> None \<and> wf_symlink_target r = None \<or>
     wf_kind r = ''directory'' \<and> wf_size_bytes r = None \<and> wf_mtime_ns r = None \<and> wf_executable r = None \<and>
       wf_blob_id r = None \<and> wf_symlink_target r = None \<or>
     wf_kind r = ''symlink'' \<and> wf_size_bytes r = None \<and> wf_mtime_ns r = None \<and> wf_executable r = None \<and>
       wf_blob_id r = None \<and> wf_symlink_target r \<noteq> None"

definition journal_t :: "(localdb, journal_row, string) table" where
  "journal_t =
     \<lparr>tb_get = operation_journal, tb_put = \<lambda>t. operation_journal_update (\<lambda>_. t),
      tb_key = oj_operation_id, tb_clash = \<lambda>a b. oj_operation_id a = oj_operation_id b,
      tb_admit = \<lambda>_ r. oj_state r \<in> set [''planned'', ''staged'', ''verified'', ''switched'', ''complete'']\<rparr>"

definition lease_t :: "(localdb, lease_row, string) table" where
  "lease_t =
     \<lparr>tb_get = work_leases, tb_put = \<lambda>t. work_leases_update (\<lambda>_. t),
      tb_key = wl_resource_key, tb_clash = \<lambda>a b. wl_resource_key a = wl_resource_key b,
      tb_admit = \<lambda>_ _. True\<rparr>"

definition subscription_t :: "(localdb, subscription_row, string) table" where
  "subscription_t =
     \<lparr>tb_get = subscriptions, tb_put = \<lambda>t. subscriptions_update (\<lambda>_. t),
      tb_key = sub_resource_id, tb_clash = \<lambda>a b. sub_resource_id a = sub_resource_id b \<or> sub_locator a = sub_locator b,
      tb_admit = \<lambda>_ _. True\<rparr>"

definition owned_t :: "(localdb, owned_row, string) table" where
  "owned_t =
     \<lparr>tb_get = owned_skills, tb_put = \<lambda>t. owned_skills_update (\<lambda>_. t),
      tb_key = os_resource_id, tb_clash = \<lambda>a b. os_resource_id a = os_resource_id b \<or> os_locator a = os_locator b,
      tb_admit = \<lambda>_ r. 0 < os_workspace_generation r\<rparr>"

definition workspace_t :: "(localdb, workspace_row, string) table" where
  "workspace_t =
     \<lparr>tb_get = workspace_state, tb_put = \<lambda>t. workspace_state_update (\<lambda>_. t),
      tb_key = wr_resource_id, tb_clash = \<lambda>a b. wr_resource_id a = wr_resource_id b,
      tb_admit = \<lambda>db r. 0 < wr_base_generation r \<and>
      wr_status r \<in> set [''clean'', ''queued'', ''paused_validation'', ''pending_rename'', ''conflict'', ''quota''] \<and>
      is_owned db (wr_resource_id r)\<rparr>"

definition file_index_t :: "(localdb, WorkspaceFileRecord, string \<times> string) table" where
  "file_index_t =
     \<lparr>tb_get = workspace_file_index, tb_put = \<lambda>t. workspace_file_index_update (\<lambda>_. t),
      tb_key = \<lambda>r. (wf_resource_id r, wf_path r), tb_clash = \<lambda>a b. wf_resource_id a = wf_resource_id b \<and> wf_path a = wf_path b,
      tb_admit = \<lambda>db r. file_shape r \<and> is_owned db (wf_resource_id r)\<rparr>"

definition revision_t :: "(localdb, revision_row, string) table" where
  "revision_t =
     \<lparr>tb_get = local_revisions, tb_put = \<lambda>t. local_revisions_update (\<lambda>_. t),
      tb_key = rr_operation_id, tb_clash = \<lambda>a b. rr_operation_id a = rr_operation_id b \<or> rr_revision_id a = rr_revision_id b,
      tb_admit = \<lambda>db r. 0 < rr_expected_generation r \<and> rr_state r \<in> set [''queued'', ''synced''] \<and> is_owned db (rr_resource_id r)\<rparr>"

definition projection_t :: "(localdb, projection_row, string) table" where
  "projection_t =
     \<lparr>tb_get = derived_projection_state, tb_put = \<lambda>t. derived_projection_state_update (\<lambda>_. t),
      tb_key = dps_resource_id, tb_clash = \<lambda>a b. dps_resource_id a = dps_resource_id b,
      tb_admit = \<lambda>db r. is_owned db (dps_resource_id r)\<rparr>"

definition content_conflict_t :: "(localdb, content_conflict_row, string) table" where
  "content_conflict_t =
     \<lparr>tb_get = workspace_content_conflicts, tb_put = \<lambda>t. workspace_content_conflicts_update (\<lambda>_. t),
      tb_key = cr_resource_id, tb_clash = \<lambda>a b. cr_resource_id a = cr_resource_id b \<or> cr_conflict_id a = cr_conflict_id b,
      tb_admit = \<lambda>db r. 0 < cr_remote_generation r \<and> cr_head_a_revision_id r \<noteq> cr_head_b_revision_id r \<and> is_owned db (cr_resource_id r)\<rparr>"

definition fork_t :: "(localdb, fork_row, string) table" where
  "fork_t =
     \<lparr>tb_get = local_forks, tb_put = \<lambda>t. local_forks_update (\<lambda>_. t),
      tb_key = lf_resource_id, tb_clash = \<lambda>a b. lf_resource_id a = lf_resource_id b \<or> lf_upstream_resource_id a = lf_upstream_resource_id b,
      tb_admit = \<lambda>db r. lf_state r \<in> set [''local'', ''name_conflict''] \<and> is_owned db (lf_resource_id r)\<rparr>"

definition edit_lock_t :: "(localdb, edit_lock_row, string) table" where
  "edit_lock_t =
     \<lparr>tb_get = subscription_edit_locks, tb_put = \<lambda>t. subscription_edit_locks_update (\<lambda>_. t),
      tb_key = el_resource_id, tb_clash = \<lambda>a b. el_resource_id a = el_resource_id b,
      tb_admit = \<lambda>db r. el_resource_id r \<in> set (map sub_resource_id (subscriptions db))\<rparr>"

definition fork_conflict_t :: "(localdb, fork_conflict_row, string) table" where
  "fork_conflict_t =
     \<lparr>tb_get = fork_sync_conflicts, tb_put = \<lambda>t. fork_sync_conflicts_update (\<lambda>_. t),
      tb_key = fr_resource_id, tb_clash = \<lambda>a b. fr_resource_id a = fr_resource_id b,
      tb_admit = \<lambda>db r. is_owned db (fr_resource_id r)\<rparr>"

definition pack_subscription_t :: "(localdb, pack_subscription_row, string) table" where
  "pack_subscription_t =
     \<lparr>tb_get = pack_subscriptions, tb_put = \<lambda>t. pack_subscriptions_update (\<lambda>_. t),
      tb_key = ps_source_id, tb_clash = \<lambda>a b. ps_source_id a = ps_source_id b,
      tb_admit = \<lambda>_ r. 0 \<le> ps_resource_generation r \<and> 0 < ps_pack_version r \<and>
      ps_source_kind r \<in> set [''direct'', ''team_assignment''] \<and>
      (ps_source_kind r = ''team_assignment'') = (ps_source_team_id r \<noteq> None) \<and>
      (ps_source_kind r = ''team_assignment'') = ps_enforced r\<rparr>"

definition pack_source_t :: "(localdb, pack_source_row, string \<times> string) table" where
  "pack_source_t =
     \<lparr>tb_get = pack_skill_sources, tb_put = \<lambda>t. pack_skill_sources_update (\<lambda>_. t),
      tb_key = \<lambda>r. (pss_source_id r, pss_resource_id r), tb_clash = \<lambda>a b. pss_source_id a = pss_source_id b \<and> pss_resource_id a = pss_resource_id b,
      tb_admit = \<lambda>db r. 0 \<le> pss_resource_generation r \<and> pss_source_id r \<in> set (map ps_source_id (pack_subscriptions db))\<rparr>"

definition pack_materialized_t :: "(localdb, pack_materialized_row, string) table" where
  "pack_materialized_t =
     \<lparr>tb_get = pack_materialized_skills, tb_put = \<lambda>t. pack_materialized_skills_update (\<lambda>_. t),
      tb_key = pms_resource_id, tb_clash = \<lambda>a b. pms_resource_id a = pms_resource_id b,
      tb_admit = \<lambda>_ r. 0 \<le> pms_resource_generation r\<rparr>"

definition source_conflict_t :: "(localdb, source_conflict_row, string) table" where
  "source_conflict_t =
     \<lparr>tb_get = pack_source_conflicts, tb_put = \<lambda>t. pack_source_conflicts_update (\<lambda>_. t),
      tb_key = sr_resource_id, tb_clash = \<lambda>a b. sr_resource_id a = sr_resource_id b,
      tb_admit = \<lambda>_ _. True\<rparr>"

definition pack_journal_t :: "(localdb, pack_journal_row, string) table" where
  "pack_journal_t =
     \<lparr>tb_get = pack_apply_journal, tb_put = \<lambda>t. pack_apply_journal_update (\<lambda>_. t),
      tb_key = pj_operation_id, tb_clash = \<lambda>a b. pj_operation_id a = pj_operation_id b,
      tb_admit = \<lambda>_ r. pj_state r \<in> set [''verified'', ''complete'']\<rparr>"

definition suppression_t :: "(localdb, suppression_row, string \<times> string) table" where
  "suppression_t =
     \<lparr>tb_get = desired_source_suppressions, tb_put = \<lambda>t. desired_source_suppressions_update (\<lambda>_. t),
      tb_key = \<lambda>r. (sp_source_kind r, sp_resource_id r), tb_clash = \<lambda>a b. sp_source_kind a = sp_source_kind b \<and> sp_resource_id a = sp_resource_id b,
      tb_admit = \<lambda>_ r. sp_source_kind r \<in> set [''subscription'', ''owned'']\<rparr>"

definition metadata_t :: "(localdb, metadata_row, string) table" where
  "metadata_t =
     \<lparr>tb_get = skill_discovery_metadata, tb_put = \<lambda>t. skill_discovery_metadata_update (\<lambda>_. t),
      tb_key = md_resource_id, tb_clash = \<lambda>a b. md_resource_id a = md_resource_id b,
      tb_admit = \<lambda>db r. is_owned db (md_resource_id r)\<rparr>"

definition follow_t :: "(localdb, follow_row, string) table" where
  "follow_t =
     \<lparr>tb_get = anonymous_follows, tb_put = \<lambda>t. anonymous_follows_update (\<lambda>_. t),
      tb_key = af_user_id, tb_clash = \<lambda>a b. af_user_id a = af_user_id b \<or> af_username a = af_username b,
      tb_admit = \<lambda>_ _. True\<rparr>"

lemmas all_tables [table_defs] =
  journal_t_def lease_t_def subscription_t_def owned_t_def workspace_t_def file_index_t_def revision_t_def projection_t_def content_conflict_t_def fork_t_def edit_lock_t_def fork_conflict_t_def pack_subscription_t_def pack_source_t_def pack_materialized_t_def source_conflict_t_def pack_journal_t_def suppression_t_def metadata_t_def follow_t_def

text \<open>The invariant of the schema.\<close>

definition holds :: "(localdb, 'r, 'k) table \<Rightarrow> localdb \<Rightarrow> bool" where
  "holds T db = table_ok (tb_clash T) (tb_admit T db) (tb_get T db)"

definition wf_db :: "localdb \<Rightarrow> bool" where
  "wf_db db \<longleftrightarrow>
     holds journal_t db \<and> holds lease_t db \<and> holds subscription_t db \<and> holds owned_t db \<and>
     holds workspace_t db \<and> holds file_index_t db \<and> holds revision_t db \<and> holds projection_t db \<and>
     holds content_conflict_t db \<and> holds fork_t db \<and> holds edit_lock_t db \<and> holds fork_conflict_t db \<and>
     holds pack_subscription_t db \<and> holds pack_source_t db \<and> holds pack_materialized_t db \<and> holds source_conflict_t db \<and>
     holds pack_journal_t db \<and> holds suppression_t db \<and> holds metadata_t db \<and> holds follow_t db"

lemma wf_db_holds:
  assumes "wf_db db"
  shows "holds journal_t db" "holds lease_t db" "holds subscription_t db" "holds owned_t db" "holds workspace_t db"
    "holds file_index_t db" "holds revision_t db" "holds projection_t db" "holds content_conflict_t db"
    "holds fork_t db" "holds edit_lock_t db" "holds fork_conflict_t db" "holds pack_subscription_t db"
    "holds pack_source_t db" "holds pack_materialized_t db" "holds source_conflict_t db" "holds pack_journal_t db"
    "holds suppression_t db" "holds metadata_t db" "holds follow_t db"
  using assms by (simp_all add: wf_db_def)

lemma wf_empty_db: "wf_db empty_db"
  by (simp add: wf_db_def holds_def empty_db_def table_defs)

text \<open>Constraints only look at the rows they are about and at the keys of their parents.\<close>

lemma table_ok_children:
  "holds T db \<Longrightarrow> tb_get T db' = tb_get T db \<Longrightarrow> (\<And>r. tb_admit T db r \<Longrightarrow> tb_admit T db' r) \<Longrightarrow> holds T db'"
  by (auto simp: holds_def intro: table_ok_mono)

lemma wf_db_put:
  "wf_db db \<Longrightarrow> table_ok (tb_clash journal_t) (tb_admit journal_t db) t1 \<Longrightarrow> wf_db (db\<lparr>operation_journal := t1\<rparr>)"
  "wf_db db \<Longrightarrow> table_ok (tb_clash lease_t) (tb_admit lease_t db) t2 \<Longrightarrow> wf_db (db\<lparr>work_leases := t2\<rparr>)"
  "wf_db db \<Longrightarrow> table_ok (tb_clash workspace_t) (tb_admit workspace_t db) t3 \<Longrightarrow> wf_db (db\<lparr>workspace_state := t3\<rparr>)"
  "wf_db db \<Longrightarrow> table_ok (tb_clash file_index_t) (tb_admit file_index_t db) t4 \<Longrightarrow> wf_db (db\<lparr>workspace_file_index := t4\<rparr>)"
  "wf_db db \<Longrightarrow> table_ok (tb_clash revision_t) (tb_admit revision_t db) t5 \<Longrightarrow> wf_db (db\<lparr>local_revisions := t5\<rparr>)"
  "wf_db db \<Longrightarrow> table_ok (tb_clash projection_t) (tb_admit projection_t db) t6 \<Longrightarrow> wf_db (db\<lparr>derived_projection_state := t6\<rparr>)"
  "wf_db db \<Longrightarrow> table_ok (tb_clash content_conflict_t) (tb_admit content_conflict_t db) t7 \<Longrightarrow> wf_db (db\<lparr>workspace_content_conflicts := t7\<rparr>)"
  "wf_db db \<Longrightarrow> table_ok (tb_clash fork_t) (tb_admit fork_t db) t8 \<Longrightarrow> wf_db (db\<lparr>local_forks := t8\<rparr>)"
  "wf_db db \<Longrightarrow> table_ok (tb_clash edit_lock_t) (tb_admit edit_lock_t db) t9 \<Longrightarrow> wf_db (db\<lparr>subscription_edit_locks := t9\<rparr>)"
  "wf_db db \<Longrightarrow> table_ok (tb_clash fork_conflict_t) (tb_admit fork_conflict_t db) t10 \<Longrightarrow> wf_db (db\<lparr>fork_sync_conflicts := t10\<rparr>)"
  "wf_db db \<Longrightarrow> table_ok (tb_clash pack_source_t) (tb_admit pack_source_t db) t11 \<Longrightarrow> wf_db (db\<lparr>pack_skill_sources := t11\<rparr>)"
  "wf_db db \<Longrightarrow> table_ok (tb_clash pack_materialized_t) (tb_admit pack_materialized_t db) t12 \<Longrightarrow> wf_db (db\<lparr>pack_materialized_skills := t12\<rparr>)"
  "wf_db db \<Longrightarrow> table_ok (tb_clash source_conflict_t) (tb_admit source_conflict_t db) t13 \<Longrightarrow> wf_db (db\<lparr>pack_source_conflicts := t13\<rparr>)"
  "wf_db db \<Longrightarrow> table_ok (tb_clash pack_journal_t) (tb_admit pack_journal_t db) t14 \<Longrightarrow> wf_db (db\<lparr>pack_apply_journal := t14\<rparr>)"
  "wf_db db \<Longrightarrow> table_ok (tb_clash suppression_t) (tb_admit suppression_t db) t15 \<Longrightarrow> wf_db (db\<lparr>desired_source_suppressions := t15\<rparr>)"
  "wf_db db \<Longrightarrow> table_ok (tb_clash metadata_t) (tb_admit metadata_t db) t16 \<Longrightarrow> wf_db (db\<lparr>skill_discovery_metadata := t16\<rparr>)"
  "wf_db db \<Longrightarrow> table_ok (tb_clash follow_t) (tb_admit follow_t db) t17 \<Longrightarrow> wf_db (db\<lparr>anonymous_follows := t17\<rparr>)"
  by (simp_all add: wf_db_def holds_def table_defs is_owned_def)

lemma wf_db_put_subscriptions:
  assumes "wf_db db" "table_ok (tb_clash subscription_t) (tb_admit subscription_t db) t" "sub_resource_id ` set (subscriptions db) \<subseteq> sub_resource_id ` set t"
  shows "wf_db (db\<lparr>subscriptions := t\<rparr>)"
proof -
  let ?db = "db\<lparr>subscriptions := t\<rparr>"
  have own: "r \<in> sub_resource_id ` set (subscriptions db) \<Longrightarrow> r \<in> sub_resource_id ` set t" for r using assms(3) by (auto simp: is_owned_def)
  note old = wf_db_holds [OF assms(1)]
  have edit_lock_t: "holds edit_lock_t ?db"
    by (rule table_ok_children [OF old(11)]) (simp_all add: edit_lock_t_def own)
  have pack_source_t: "holds pack_source_t ?db"
    by (rule table_ok_children [OF old(14)]) (simp_all add: pack_source_t_def own)
  have "holds subscription_t ?db" using assms(2) by (simp add: holds_def subscription_t_def)
  moreover have "holds journal_t ?db" "holds lease_t ?db" "holds owned_t ?db" "holds workspace_t ?db"
    "holds file_index_t ?db" "holds revision_t ?db" "holds projection_t ?db" "holds content_conflict_t ?db"
    "holds fork_t ?db" "holds fork_conflict_t ?db" "holds pack_subscription_t ?db" "holds pack_materialized_t ?db"
    "holds source_conflict_t ?db" "holds pack_journal_t ?db" "holds suppression_t ?db" "holds metadata_t ?db"
    "holds follow_t ?db"
    using old by (simp_all add: holds_def table_defs is_owned_def)
  ultimately show ?thesis using edit_lock_t pack_source_t by (simp add: wf_db_def)
qed

lemma wf_db_put_owned_skills:
  assumes "wf_db db" "table_ok (tb_clash owned_t) (tb_admit owned_t db) t" "os_resource_id ` set (owned_skills db) \<subseteq> os_resource_id ` set t"
  shows "wf_db (db\<lparr>owned_skills := t\<rparr>)"
proof -
  let ?db = "db\<lparr>owned_skills := t\<rparr>"
  have own: "is_owned db r \<Longrightarrow> is_owned ?db r" for r using assms(3) by (auto simp: is_owned_def)
  note old = wf_db_holds [OF assms(1)]
  have workspace_t: "holds workspace_t ?db"
    by (rule table_ok_children [OF old(5)]) (simp_all add: workspace_t_def own)
  have file_index_t: "holds file_index_t ?db"
    by (rule table_ok_children [OF old(6)]) (simp_all add: file_index_t_def own)
  have revision_t: "holds revision_t ?db"
    by (rule table_ok_children [OF old(7)]) (simp_all add: revision_t_def own)
  have projection_t: "holds projection_t ?db"
    by (rule table_ok_children [OF old(8)]) (simp_all add: projection_t_def own)
  have content_conflict_t: "holds content_conflict_t ?db"
    by (rule table_ok_children [OF old(9)]) (simp_all add: content_conflict_t_def own)
  have fork_t: "holds fork_t ?db"
    by (rule table_ok_children [OF old(10)]) (simp_all add: fork_t_def own)
  have fork_conflict_t: "holds fork_conflict_t ?db"
    by (rule table_ok_children [OF old(12)]) (simp_all add: fork_conflict_t_def own)
  have metadata_t: "holds metadata_t ?db"
    by (rule table_ok_children [OF old(19)]) (simp_all add: metadata_t_def own)
  have "holds owned_t ?db" using assms(2) by (simp add: holds_def owned_t_def)
  moreover have "holds journal_t ?db" "holds lease_t ?db" "holds subscription_t ?db" "holds edit_lock_t ?db"
    "holds pack_subscription_t ?db" "holds pack_source_t ?db" "holds pack_materialized_t ?db"
    "holds source_conflict_t ?db" "holds pack_journal_t ?db" "holds suppression_t ?db" "holds follow_t ?db"
    using old by (simp_all add: holds_def table_defs is_owned_def)
  ultimately show ?thesis using workspace_t file_index_t revision_t projection_t content_conflict_t fork_t fork_conflict_t metadata_t by (simp add: wf_db_def)
qed

lemma wf_db_put_pack_subscriptions:
  assumes "wf_db db" "table_ok (tb_clash pack_subscription_t) (tb_admit pack_subscription_t db) t" "ps_source_id ` set (pack_subscriptions db) \<subseteq> ps_source_id ` set t"
  shows "wf_db (db\<lparr>pack_subscriptions := t\<rparr>)"
proof -
  let ?db = "db\<lparr>pack_subscriptions := t\<rparr>"
  have own: "r \<in> ps_source_id ` set (pack_subscriptions db) \<Longrightarrow> r \<in> ps_source_id ` set t" for r using assms(3) by (auto simp: is_owned_def)
  note old = wf_db_holds [OF assms(1)]
  have pack_source_t: "holds pack_source_t ?db"
    by (rule table_ok_children [OF old(14)]) (simp_all add: pack_source_t_def own)
  have "holds pack_subscription_t ?db" using assms(2) by (simp add: holds_def pack_subscription_t_def)
  moreover have "holds journal_t ?db" "holds lease_t ?db" "holds subscription_t ?db" "holds owned_t ?db"
    "holds workspace_t ?db" "holds file_index_t ?db" "holds revision_t ?db" "holds projection_t ?db"
    "holds content_conflict_t ?db" "holds fork_t ?db" "holds edit_lock_t ?db" "holds fork_conflict_t ?db"
    "holds pack_materialized_t ?db" "holds source_conflict_t ?db" "holds pack_journal_t ?db" "holds suppression_t ?db"
    "holds metadata_t ?db" "holds follow_t ?db"
    using old by (simp_all add: holds_def table_defs is_owned_def)
  ultimately show ?thesis using pack_source_t by (simp add: wf_db_def)
qed

text \<open>The locales, for every table.\<close>

interpretation journals: leaf_table journal_t wf_db
  by unfold_locales
    (use wf_db_holds wf_db_put in \<open>(auto simp: journal_t_def)[2], simp add: holds_def, simp add: journal_t_def, simp add: journal_t_def, simp add: journal_t_def\<close>)

interpretation leases: leaf_table lease_t wf_db
  by unfold_locales
    (use wf_db_holds wf_db_put in \<open>(auto simp: lease_t_def)[2], simp add: holds_def, simp add: lease_t_def, simp add: lease_t_def, simp add: lease_t_def\<close>)

interpretation subscriptions: stored_table subscription_t wf_db
  by unfold_locales
    (use wf_db_holds wf_db_put_subscriptions in \<open>(auto simp: subscription_t_def)[2], simp add: holds_def, simp add: subscription_t_def, simp add: subscription_t_def\<close>)

interpretation owneds: stored_table owned_t wf_db
  by unfold_locales
    (use wf_db_holds wf_db_put_owned_skills in \<open>(auto simp: owned_t_def)[2], simp add: holds_def, simp add: owned_t_def, simp add: owned_t_def\<close>)

interpretation workspaces: leaf_table workspace_t wf_db
  by unfold_locales
    (use wf_db_holds wf_db_put in \<open>(auto simp: workspace_t_def)[2], simp add: holds_def, simp add: workspace_t_def, simp add: workspace_t_def, simp add: workspace_t_def\<close>)

interpretation file_indexs: leaf_table file_index_t wf_db
  by unfold_locales
    (use wf_db_holds wf_db_put in \<open>(auto simp: file_index_t_def)[2], simp add: holds_def, simp add: file_index_t_def, simp add: file_index_t_def, simp add: file_index_t_def\<close>)

interpretation revisions: leaf_table revision_t wf_db
  by unfold_locales
    (use wf_db_holds wf_db_put in \<open>(auto simp: revision_t_def)[2], simp add: holds_def, simp add: revision_t_def, simp add: revision_t_def, simp add: revision_t_def\<close>)

interpretation projections: leaf_table projection_t wf_db
  by unfold_locales
    (use wf_db_holds wf_db_put in \<open>(auto simp: projection_t_def)[2], simp add: holds_def, simp add: projection_t_def, simp add: projection_t_def, simp add: projection_t_def\<close>)

interpretation content_conflicts: leaf_table content_conflict_t wf_db
  by unfold_locales
    (use wf_db_holds wf_db_put in \<open>(auto simp: content_conflict_t_def)[2], simp add: holds_def, simp add: content_conflict_t_def, simp add: content_conflict_t_def, simp add: content_conflict_t_def\<close>)

interpretation forks: leaf_table fork_t wf_db
  by unfold_locales
    (use wf_db_holds wf_db_put in \<open>(auto simp: fork_t_def)[2], simp add: holds_def, simp add: fork_t_def, simp add: fork_t_def, simp add: fork_t_def\<close>)

interpretation edit_locks: leaf_table edit_lock_t wf_db
  by unfold_locales
    (use wf_db_holds wf_db_put in \<open>(auto simp: edit_lock_t_def)[2], simp add: holds_def, simp add: edit_lock_t_def, simp add: edit_lock_t_def, simp add: edit_lock_t_def\<close>)

interpretation fork_conflicts: leaf_table fork_conflict_t wf_db
  by unfold_locales
    (use wf_db_holds wf_db_put in \<open>(auto simp: fork_conflict_t_def)[2], simp add: holds_def, simp add: fork_conflict_t_def, simp add: fork_conflict_t_def, simp add: fork_conflict_t_def\<close>)

interpretation pack_subscriptions: stored_table pack_subscription_t wf_db
  by unfold_locales
    (use wf_db_holds wf_db_put_pack_subscriptions in \<open>(auto simp: pack_subscription_t_def)[2], simp add: holds_def, simp add: pack_subscription_t_def, simp add: pack_subscription_t_def\<close>)

interpretation pack_sources: leaf_table pack_source_t wf_db
  by unfold_locales
    (use wf_db_holds wf_db_put in \<open>(auto simp: pack_source_t_def)[2], simp add: holds_def, simp add: pack_source_t_def, simp add: pack_source_t_def, simp add: pack_source_t_def\<close>)

interpretation pack_materializeds: leaf_table pack_materialized_t wf_db
  by unfold_locales
    (use wf_db_holds wf_db_put in \<open>(auto simp: pack_materialized_t_def)[2], simp add: holds_def, simp add: pack_materialized_t_def, simp add: pack_materialized_t_def, simp add: pack_materialized_t_def\<close>)

interpretation source_conflicts: leaf_table source_conflict_t wf_db
  by unfold_locales
    (use wf_db_holds wf_db_put in \<open>(auto simp: source_conflict_t_def)[2], simp add: holds_def, simp add: source_conflict_t_def, simp add: source_conflict_t_def, simp add: source_conflict_t_def\<close>)

interpretation pack_journals: leaf_table pack_journal_t wf_db
  by unfold_locales
    (use wf_db_holds wf_db_put in \<open>(auto simp: pack_journal_t_def)[2], simp add: holds_def, simp add: pack_journal_t_def, simp add: pack_journal_t_def, simp add: pack_journal_t_def\<close>)

interpretation suppressions: leaf_table suppression_t wf_db
  by unfold_locales
    (use wf_db_holds wf_db_put in \<open>(auto simp: suppression_t_def)[2], simp add: holds_def, simp add: suppression_t_def, simp add: suppression_t_def, simp add: suppression_t_def\<close>)

interpretation metadatas: leaf_table metadata_t wf_db
  by unfold_locales
    (use wf_db_holds wf_db_put in \<open>(auto simp: metadata_t_def)[2], simp add: holds_def, simp add: metadata_t_def, simp add: metadata_t_def, simp add: metadata_t_def\<close>)

interpretation follows: leaf_table follow_t wf_db
  by unfold_locales
    (use wf_db_holds wf_db_put in \<open>(auto simp: follow_t_def)[2], simp add: holds_def, simp add: follow_t_def, simp add: follow_t_def, simp add: follow_t_def\<close>)

section \<open>Deletion with its cascades\<close>

text \<open>\<open>ON DELETE CASCADE\<close>: rows that refer to a deleted parent go with it.\<close>

definition delete_owned :: "(owned_row \<Rightarrow> bool) \<Rightarrow> (localdb, nat) db_op" where
  "delete_owned P db =
     (let gone = map os_resource_id (filter P (owned_skills db)) in
      (Ok (sql_count P (owned_skills db)),
       db\<lparr>owned_skills := sql_delete P (owned_skills db),
          workspace_state := sql_delete (\<lambda>r. wr_resource_id r \<in> set gone) (workspace_state db),
          workspace_file_index := sql_delete (\<lambda>r. wf_resource_id r \<in> set gone) (workspace_file_index db),
          local_revisions := sql_delete (\<lambda>r. rr_resource_id r \<in> set gone) (local_revisions db),
          derived_projection_state := sql_delete (\<lambda>r. dps_resource_id r \<in> set gone) (derived_projection_state db),
          workspace_content_conflicts := sql_delete (\<lambda>r. cr_resource_id r \<in> set gone) (workspace_content_conflicts db),
          local_forks := sql_delete (\<lambda>r. lf_resource_id r \<in> set gone) (local_forks db),
          fork_sync_conflicts := sql_delete (\<lambda>r. fr_resource_id r \<in> set gone) (fork_sync_conflicts db),
          skill_discovery_metadata := sql_delete (\<lambda>r. md_resource_id r \<in> set gone) (skill_discovery_metadata db)\<rparr>))"

definition delete_subscriptions :: "(subscription_row \<Rightarrow> bool) \<Rightarrow> (localdb, nat) db_op" where
  "delete_subscriptions P db =
     (let gone = map sub_resource_id (filter P (subscriptions db)) in
      (Ok (sql_count P (subscriptions db)),
       db\<lparr>subscriptions := sql_delete P (subscriptions db),
          subscription_edit_locks := sql_delete (\<lambda>r. el_resource_id r \<in> set gone) (subscription_edit_locks db)\<rparr>))"

definition delete_pack_subscriptions :: "(pack_subscription_row \<Rightarrow> bool) \<Rightarrow> (localdb, nat) db_op" where
  "delete_pack_subscriptions P db =
     (let gone = map ps_source_id (filter P (pack_subscriptions db)) in
      (Ok (sql_count P (pack_subscriptions db)),
       db\<lparr>pack_subscriptions := sql_delete P (pack_subscriptions db),
          pack_skill_sources := sql_delete (\<lambda>r. pss_source_id r \<in> set gone) (pack_skill_sources db)\<rparr>))"

lemma cascade_child:
  assumes "holds T db" "tb_get T db' = sql_delete Q (tb_get T db)"
    "\<And>r. tb_admit T db r \<Longrightarrow> \<not> Q r \<Longrightarrow> tb_admit T db' r"
  shows "holds T db'"
proof -
  have "table_ok (tb_clash T) (tb_admit T db) (sql_delete Q (tb_get T db))"
    using assms(1) by (simp add: holds_def)
  then have "table_ok (tb_clash T) (tb_admit T db') (sql_delete Q (tb_get T db))"
    by (rule table_ok_mono) (auto simp: sql_delete_def intro: assms(3))
  with assms(2) show ?thesis by (simp add: holds_def)
qed

lemma survives: "k \<in> key ` set t \<Longrightarrow> k \<notin> key ` (set t \<inter> {r. P r}) \<Longrightarrow> k \<in> key ` set (sql_delete P t)"
  by (auto simp: sql_delete_def)

lemma delete_owned_safe: "safe_op wf_db (delete_owned P)"
  unfolding safe_op_def
proof (intro allI impI)
  fix db assume wf: "wf_db db"
  let ?db = "snd (delete_owned P db)"
  note old = wf_db_holds [OF wf] and d = delete_owned_def Let_def
  have own: "is_owned ?db k" if "is_owned db k" "k \<notin> os_resource_id ` (set (owned_skills db) \<inter> {r. P r})" for k
    using survives [of k os_resource_id] that by (simp add: is_owned_def d)
  have "holds workspace_t ?db"
    by (rule cascade_child [OF old(5), where Q = "\<lambda>r. wr_resource_id r \<in> set (map os_resource_id (filter P (owned_skills db)))"])
      (simp add: workspace_t_def d, auto simp: workspace_t_def intro!: own)
  moreover have "holds file_index_t ?db"
    by (rule cascade_child [OF old(6), where Q = "\<lambda>r. wf_resource_id r \<in> set (map os_resource_id (filter P (owned_skills db)))"])
      (simp add: file_index_t_def d, auto simp: file_index_t_def intro!: own)
  moreover have "holds revision_t ?db"
    by (rule cascade_child [OF old(7), where Q = "\<lambda>r. rr_resource_id r \<in> set (map os_resource_id (filter P (owned_skills db)))"])
      (simp add: revision_t_def d, auto simp: revision_t_def intro!: own)
  moreover have "holds projection_t ?db"
    by (rule cascade_child [OF old(8), where Q = "\<lambda>r. dps_resource_id r \<in> set (map os_resource_id (filter P (owned_skills db)))"])
      (simp add: projection_t_def d, auto simp: projection_t_def intro!: own)
  moreover have "holds content_conflict_t ?db"
    by (rule cascade_child [OF old(9), where Q = "\<lambda>r. cr_resource_id r \<in> set (map os_resource_id (filter P (owned_skills db)))"])
      (simp add: content_conflict_t_def d, auto simp: content_conflict_t_def intro!: own)
  moreover have "holds fork_t ?db"
    by (rule cascade_child [OF old(10), where Q = "\<lambda>r. lf_resource_id r \<in> set (map os_resource_id (filter P (owned_skills db)))"])
      (simp add: fork_t_def d, auto simp: fork_t_def intro!: own)
  moreover have "holds fork_conflict_t ?db"
    by (rule cascade_child [OF old(12), where Q = "\<lambda>r. fr_resource_id r \<in> set (map os_resource_id (filter P (owned_skills db)))"])
      (simp add: fork_conflict_t_def d, auto simp: fork_conflict_t_def intro!: own)
  moreover have "holds metadata_t ?db"
    by (rule cascade_child [OF old(19), where Q = "\<lambda>r. md_resource_id r \<in> set (map os_resource_id (filter P (owned_skills db)))"])
      (simp add: metadata_t_def d, auto simp: metadata_t_def intro!: own)
  moreover have "holds owned_t ?db" by (rule cascade_child [OF old(4), where Q = P]) (simp_all add: owned_t_def d)
  moreover have "holds journal_t ?db" "holds lease_t ?db" "holds subscription_t ?db" "holds edit_lock_t ?db"
    "holds pack_subscription_t ?db" "holds pack_source_t ?db" "holds pack_materialized_t ?db"
    "holds source_conflict_t ?db" "holds pack_journal_t ?db" "holds suppression_t ?db" "holds follow_t ?db"
    using old by (simp_all add: holds_def table_defs d)
  ultimately have "wf_db ?db" by (simp add: wf_db_def)
  then show "case delete_owned P db of (Ok x, t) \<Rightarrow> wf_db t | (Err e, t) \<Rightarrow> t = db" by (simp add: d)
qed

lemma delete_subscriptions_safe: "safe_op wf_db (delete_subscriptions P)"
  unfolding safe_op_def
proof (intro allI impI)
  fix db assume wf: "wf_db db"
  let ?db = "snd (delete_subscriptions P db)"
  note old = wf_db_holds [OF wf] and d = delete_subscriptions_def Let_def
  have "holds edit_lock_t ?db"
    by (rule cascade_child [OF old(11), where Q = "\<lambda>r. el_resource_id r \<in> set (map sub_resource_id (filter P (subscriptions db)))"])
      (auto simp: edit_lock_t_def d sql_delete_def)
  moreover have "holds subscription_t ?db"
    by (rule cascade_child [OF old(3), where Q = P]) (simp_all add: subscription_t_def d)
  moreover have "holds journal_t ?db" "holds lease_t ?db" "holds owned_t ?db" "holds workspace_t ?db"
    "holds file_index_t ?db" "holds revision_t ?db" "holds projection_t ?db" "holds content_conflict_t ?db"
    "holds fork_t ?db" "holds fork_conflict_t ?db" "holds pack_subscription_t ?db" "holds pack_source_t ?db"
    "holds pack_materialized_t ?db" "holds source_conflict_t ?db" "holds pack_journal_t ?db" "holds suppression_t ?db"
    "holds metadata_t ?db" "holds follow_t ?db"
    using old by (simp_all add: holds_def table_defs is_owned_def d)
  ultimately have "wf_db ?db" by (simp add: wf_db_def)
  then show "case delete_subscriptions P db of (Ok x, t) \<Rightarrow> wf_db t | (Err e, t) \<Rightarrow> t = db" by (simp add: d)
qed

lemma delete_pack_subscriptions_safe: "safe_op wf_db (delete_pack_subscriptions P)"
  unfolding safe_op_def
proof (intro allI impI)
  fix db assume wf: "wf_db db"
  let ?db = "snd (delete_pack_subscriptions P db)"
  note old = wf_db_holds [OF wf] and d = delete_pack_subscriptions_def Let_def
  have "holds pack_source_t ?db"
    by (rule cascade_child [OF old(14), where Q = "\<lambda>r. pss_source_id r \<in> set (map ps_source_id (filter P (pack_subscriptions db)))"])
      (auto simp: pack_source_t_def d sql_delete_def)
  moreover have "holds pack_subscription_t ?db"
    by (rule cascade_child [OF old(13), where Q = P]) (auto simp: pack_subscription_t_def d)
  moreover have "holds journal_t ?db" "holds lease_t ?db" "holds subscription_t ?db" "holds owned_t ?db"
    "holds workspace_t ?db" "holds file_index_t ?db" "holds revision_t ?db" "holds projection_t ?db"
    "holds content_conflict_t ?db" "holds fork_t ?db" "holds edit_lock_t ?db" "holds fork_conflict_t ?db"
    "holds pack_materialized_t ?db" "holds source_conflict_t ?db" "holds pack_journal_t ?db" "holds suppression_t ?db"
    "holds metadata_t ?db" "holds follow_t ?db"
    using old by (simp_all add: holds_def table_defs is_owned_def d)
  ultimately have "wf_db ?db" by (simp add: wf_db_def)
  then show "case delete_pack_subscriptions P db of (Ok x, t) \<Rightarrow> wf_db t | (Err e, t) \<Rightarrow> t = db" by (simp add: d)
qed

text \<open>Tables with a single row have no constraint a statement could break.\<close>

lemma wf_db_singletons [simp]:
  "wf_db (db\<lparr>installation := i\<rparr>) = wf_db db" "wf_db (db\<lparr>harness_config := h\<rparr>) = wf_db db"
  "wf_db (db\<lparr>service_state := v\<rparr>) = wf_db db" "wf_db (db\<lparr>identity_state := d\<rparr>) = wf_db db"
  by (simp_all add: wf_db_def holds_def table_defs is_owned_def)

lemmas leaf_deletes [safe_intros] =
  journals.delete_safe leases.delete_safe workspaces.delete_safe file_indexs.delete_safe revisions.delete_safe
    projections.delete_safe content_conflicts.delete_safe forks.delete_safe edit_locks.delete_safe
    fork_conflicts.delete_safe pack_sources.delete_safe pack_materializeds.delete_safe source_conflicts.delete_safe
    pack_journals.delete_safe suppressions.delete_safe metadatas.delete_safe follows.delete_safe
  delete_owned_safe delete_subscriptions_safe delete_pack_subscriptions_safe

lemmas table_inserts [safe_intros] =
  journals.insert_safe leases.insert_safe subscriptions.insert_safe owneds.insert_safe workspaces.insert_safe
    file_indexs.insert_safe revisions.insert_safe projections.insert_safe content_conflicts.insert_safe
    forks.insert_safe edit_locks.insert_safe fork_conflicts.insert_safe pack_subscriptions.insert_safe
    pack_sources.insert_safe pack_materializeds.insert_safe source_conflicts.insert_safe pack_journals.insert_safe
    suppressions.insert_safe metadatas.insert_safe follows.insert_safe

lemmas table_ignores [safe_intros] = leases.insert_or_ignore_safe workspaces.insert_or_ignore_safe

lemmas all_safe_keeps [safe_intros] =
  leaf_deletes [THEN safe_keeps] table_inserts [THEN safe_keeps] table_ignores [THEN safe_keeps]

end
