(* ===== verification/Local_Db.thy ===== *)
theory Local_Db
  imports Local_Tables
begin

text \<open>
  \<open>crates/denju-local/src/db.rs\<close>: opening and migrating the local database, the single-row
  tables, the operation journal and the work leases.  \<open>LocalDatabase::call\<close> runs every operation
  on one worker thread, so an operation is a function of the database it finds.  The \<open>uuid\<close>
  crate and the JSON text of payloads are arguments.
\<close>

section \<open>Text of identifiers and payloads\<close>

record 'p codec =
  to_text :: "'p \<Rightarrow> (string, string) result"
  from_text :: "string \<Rightarrow> ('p, string) result"

definition codec_faithful :: "'p codec \<Rightarrow> bool" where
  "codec_faithful C \<longleftrightarrow> (\<forall>p s. to_text C p = Ok s \<longrightarrow> from_text C s = Ok p)"

definition serialize :: "'p codec \<Rightarrow> 'p \<Rightarrow> (localdb, string) db_op" where
  "serialize C p = op_res (map_err Serialization (to_text C p))"

definition deserialize :: "'p codec \<Rightarrow> string \<Rightarrow> ('p, LocalDbError) result" where
  "deserialize C s = map_err Serialization (from_text C s)"

fun IdError_text :: "IdError \<Rightarrow> string" where
  "IdError_text (InvalidUuid e) = ''invalid UUID: '' @ e"
| "IdError_text NotUuidV7 = ''Denju mutable IDs must be UUIDv7''"

definition operation_text :: "uuid_lib \<Rightarrow> OperationId \<Rightarrow> string" where
  "operation_text L operation_id = uu_to_string L (oid_bytes operation_id)"

definition parse_operation :: "uuid_lib \<Rightarrow> string \<Rightarrow> (OperationId, LocalDbError) result" where
  "parse_operation L s = map_err (\<lambda>e. Corrupt (IdError_text e)) (id_from_str L OperationId s)"

abbreviation no_rows :: LocalDbError where
  "no_rows \<equiv> Sqlite QueryReturnedNoRows"

text \<open>A row that is read may fail to parse: \<open>row.map(\<dots>).transpose()\<close>.\<close>

fun transpose_res :: "('a \<Rightarrow> ('b, 'e) result) \<Rightarrow> 'a option \<Rightarrow> ('b option, 'e) result" where
  "transpose_res f None = Ok None"
| "transpose_res f (Some x) = map_ok Some (f x)"

section \<open>Single rows\<close>

definition remove_subscription_record :: "string \<Rightarrow> (localdb, unit) db_op" where
  "remove_subscription_record resource_id =
     op_bind (delete_subscriptions (\<lambda>r. sub_resource_id r = resource_id)) (\<lambda>_. op_ok ())"

definition get_installation :: "(localdb, InstallationRecord option) db_op" where
  "get_installation = op_query (\<lambda>db. Ok (installation db))"

definition get_identity :: "(localdb, IdentityRecord option) db_op" where
  "get_identity = op_query (\<lambda>db. Ok (map_option IdentityRecord.truncate (identity_state db)))"

definition installation_and_identity :: "(localdb, InstallationRecord option \<times> IdentityRecord option) db_op" where
  "installation_and_identity =
     op_query (\<lambda>db. Ok (installation db, map_option IdentityRecord.truncate (identity_state db)))"

definition clear_installation :: "(localdb, unit) db_op" where
  "clear_installation db = (Ok (), db\<lparr>installation := None\<rparr>)"

definition save_identity :: "IdentityRecord \<Rightarrow> int \<Rightarrow> (localdb, unit) db_op" where
  "save_identity identity now_unix_ms db =
     (Ok (), db\<lparr>identity_state := Some
       \<lparr>idn_user_id = idn_user_id identity, idn_namespace_id = idn_namespace_id identity,
        idn_username = idn_username identity, idn_session_id = idn_session_id identity,
        idn_session_backend = idn_session_backend identity,
        idn_author_principal_id = idn_author_principal_id identity,
        idn_updated_at_unix_ms = now_unix_ms\<rparr>\<rparr>)"

definition clear_identity :: "(localdb, unit) db_op" where
  "clear_identity db = (Ok (), db\<lparr>identity_state := None\<rparr>)"

definition clear_identity_session :: "int \<Rightarrow> (localdb, unit) db_op" where
  "clear_identity_session now_unix_ms db =
     (Ok (), db\<lparr>identity_state := map_option (\<lambda>r. r\<lparr>idn_session_id := None, idn_session_backend := None,
        idn_updated_at_unix_ms := now_unix_ms\<rparr>) (identity_state db)\<rparr>)"

text \<open>The upsert leaves the creation time of an existing row alone.\<close>

definition save_installation :: "InstallationRecord \<Rightarrow> (localdb, unit) db_op" where
  "save_installation record db =
     (Ok (), db\<lparr>installation := Some (case installation db of
        None \<Rightarrow> record
      | Some old \<Rightarrow> record\<lparr>ins_created_at_unix_ms := ins_created_at_unix_ms old\<rparr>)\<rparr>)"

definition get_harness_config :: "(localdb, HarnessConfig option) db_op" where
  "get_harness_config = op_query (\<lambda>db. Ok (harness_config db))"

definition save_harness_config :: "HarnessConfig \<Rightarrow> (localdb, unit) db_op" where
  "save_harness_config config db = (Ok (), db\<lparr>harness_config := Some config\<rparr>)"

definition save_service :: "ServiceRecord \<Rightarrow> (localdb, unit) db_op" where
  "save_service service db = (Ok (), db\<lparr>service_state := Some service\<rparr>)"

definition get_service :: "(localdb, ServiceRecord option) db_op" where
  "get_service = op_query (\<lambda>db. Ok (service_state db))"

section \<open>The operation journal\<close>

definition read_journal :: "uuid_lib \<Rightarrow> 'p codec \<Rightarrow> journal_row \<Rightarrow> ('p Journal, LocalDbError) result" where
  "read_journal L C row =
     res_bind (parse_operation L (oj_operation_id row)) (\<lambda>operation_id.
     res_bind (JournalState_from_str (oj_state row)) (\<lambda>state.
     res_bind (deserialize C (oj_payload_json row)) (\<lambda>payload.
     Ok \<lparr>jr_operation_id = operation_id, jr_state = state, jr_payload = payload\<rparr>)))"

definition planned_row :: "string \<Rightarrow> string \<Rightarrow> string \<Rightarrow> int \<Rightarrow> journal_row" where
  "planned_row operation_id kind payload now_unix_ms =
     \<lparr>oj_operation_id = operation_id, oj_kind = kind, oj_state = ''planned'', oj_payload_json = payload,
      oj_created_at_unix_ms = now_unix_ms, oj_updated_at_unix_ms = now_unix_ms\<rparr>"

text \<open>\<open>ORDER BY created_at_unix_ms\<close>, equal times in storage order.\<close>

definition by_created :: "journal_row list \<Rightarrow> journal_row list" where
  "by_created rows = sort_key oj_created_at_unix_ms rows"

definition newest_first :: "journal_row list \<Rightarrow> journal_row list" where
  "newest_first rows = sort_key (\<lambda>r. - oj_created_at_unix_ms r) rows"

definition head_option :: "'a list \<Rightarrow> 'a option" where
  "head_option xs = (case xs of [] \<Rightarrow> None | x # _ \<Rightarrow> Some x)"

definition bootstrap_journal ::
  "uuid_lib \<Rightarrow> BootstrapJournalPayload codec \<Rightarrow> (localdb, BootstrapJournalPayload Journal option) db_op" where
  "bootstrap_journal L C =
     op_query (\<lambda>db. transpose_res (read_journal L C) (head_option (newest_first
       (filter (\<lambda>r. oj_kind r = ''setup_bootstrap'' \<and> oj_state r \<noteq> ''complete'') (operation_journal db)))))"

definition create_bootstrap_journal ::
  "uuid_lib \<Rightarrow> BootstrapJournalPayload codec \<Rightarrow> OperationId \<Rightarrow> BootstrapJournalPayload \<Rightarrow> int \<Rightarrow> (localdb, unit) db_op" where
  "create_bootstrap_journal L C operation_id payload now_unix_ms =
     op_bind (serialize C payload) (\<lambda>text.
     insert_into journal_t (planned_row (operation_text L operation_id) ''setup_bootstrap'' text now_unix_ms))"

definition discard_planned_bootstrap :: "uuid_lib \<Rightarrow> OperationId \<Rightarrow> (localdb, bool) db_op" where
  "discard_planned_bootstrap L operation_id =
     op_bind (delete_from journal_t (\<lambda>r. oj_operation_id r = operation_text L operation_id \<and>
       oj_kind r = ''setup_bootstrap'' \<and> oj_state r = ''planned'')) (\<lambda>changed. op_ok (changed = 1))"

text \<open>The only update of the journal that does not name a kind.\<close>

definition update_bootstrap ::
  "uuid_lib \<Rightarrow> BootstrapJournalPayload codec \<Rightarrow> OperationId \<Rightarrow> JournalState \<Rightarrow> JournalState \<Rightarrow>
   BootstrapJournalPayload \<Rightarrow> int \<Rightarrow> (localdb, unit) db_op" where
  "update_bootstrap L C operation_id expected next_state payload now_unix_ms =
     (if JournalState_next expected \<noteq> Some next_state then op_err (InvalidJournalTransition expected next_state)
      else op_bind (serialize C payload) (\<lambda>text.
        expect_one no_rows (update_where journal_t
          (\<lambda>r. oj_operation_id r = operation_text L operation_id \<and> oj_state r = JournalState_as_str expected)
          (\<lambda>r. r\<lparr>oj_state := JournalState_as_str next_state, oj_payload_json := text,
             oj_updated_at_unix_ms := now_unix_ms\<rparr>))))"

definition account_delete_journal ::
  "uuid_lib \<Rightarrow> AccountDeleteJournalPayload codec \<Rightarrow> (localdb, AccountDeleteJournalPayload Journal option) db_op" where
  "account_delete_journal L C =
     op_query (\<lambda>db. transpose_res (read_journal L C) (head_option (newest_first
       (filter (\<lambda>r. oj_kind r = ''account_delete_local'') (operation_journal db)))))"

definition create_account_delete_journal ::
  "uuid_lib \<Rightarrow> AccountDeleteJournalPayload codec \<Rightarrow> OperationId \<Rightarrow> AccountDeleteJournalPayload \<Rightarrow> int \<Rightarrow>
   (localdb, unit) db_op" where
  "create_account_delete_journal L C operation_id payload now_unix_ms =
     op_bind (serialize C payload) (\<lambda>text.
     insert_into journal_t (planned_row (operation_text L operation_id) ''account_delete_local'' text now_unix_ms))"

definition advance_account_delete_journal ::
  "uuid_lib \<Rightarrow> AccountDeleteJournalPayload codec \<Rightarrow> OperationId \<Rightarrow> JournalState \<Rightarrow> JournalState \<Rightarrow>
   AccountDeleteJournalPayload \<Rightarrow> int \<Rightarrow> (localdb, unit) db_op" where
  "advance_account_delete_journal L C operation_id expected next_state payload now_unix_ms =
     (if JournalState_next expected \<noteq> Some next_state then op_err (InvalidJournalTransition expected next_state)
      else op_bind (serialize C payload) (\<lambda>text.
        expect_one no_rows (update_where journal_t
          (\<lambda>r. oj_operation_id r = operation_text L operation_id \<and> oj_kind r = ''account_delete_local'' \<and>
             oj_state r = JournalState_as_str expected)
          (\<lambda>r. r\<lparr>oj_state := JournalState_as_str next_state, oj_payload_json := text,
             oj_updated_at_unix_ms := now_unix_ms\<rparr>))))"

definition finish_account_delete_journal :: "uuid_lib \<Rightarrow> OperationId \<Rightarrow> (localdb, unit) db_op" where
  "finish_account_delete_journal L operation_id =
     expect_one no_rows (delete_from journal_t (\<lambda>r. oj_operation_id r = operation_text L operation_id \<and>
       oj_kind r = ''account_delete_local'' \<and> oj_state r = ''switched''))"

definition incomplete_operations :: "(localdb, (string \<times> JournalState) list) db_op" where
  "incomplete_operations =
     op_query (\<lambda>db. collect_res (\<lambda>r. map_ok (Pair (oj_operation_id r)) (JournalState_from_str (oj_state r)))
       (by_created (filter (\<lambda>r. oj_state r \<noteq> ''complete'') (operation_journal db))))"

text \<open>The loop of \<open>import_journal_for_source\<close>: payloads are read until one names the path.\<close>

fun import_for_source ::
  "uuid_lib \<Rightarrow> ImportJournalPayload codec \<Rightarrow> string \<Rightarrow> journal_row list \<Rightarrow>
   (ImportJournalPayload Journal option, LocalDbError) result" where
  "import_for_source L C source_path [] = Ok None"
| "import_for_source L C source_path (row # rows) =
     res_bind (deserialize C (oj_payload_json row)) (\<lambda>payload.
     if imp_source_path payload = source_path then
       res_bind (parse_operation L (oj_operation_id row)) (\<lambda>operation_id.
       res_bind (JournalState_from_str (oj_state row)) (\<lambda>state.
       Ok (Some \<lparr>jr_operation_id = operation_id, jr_state = state, jr_payload = payload\<rparr>)))
     else import_for_source L C source_path rows)"

definition import_journal_for_source ::
  "uuid_lib \<Rightarrow> ImportJournalPayload codec \<Rightarrow> string \<Rightarrow> (localdb, ImportJournalPayload Journal option) db_op" where
  "import_journal_for_source L C source_path =
     op_query (\<lambda>db. import_for_source L C source_path (by_created
       (filter (\<lambda>r. oj_kind r = ''import_skill'' \<and> oj_state r \<noteq> ''complete'') (operation_journal db))))"

definition create_import_journal ::
  "uuid_lib \<Rightarrow> ImportJournalPayload codec \<Rightarrow> OperationId \<Rightarrow> ImportJournalPayload \<Rightarrow> int \<Rightarrow> (localdb, unit) db_op" where
  "create_import_journal L C operation_id payload now_unix_ms =
     op_bind (serialize C payload) (\<lambda>text.
     insert_into journal_t (planned_row (operation_text L operation_id) ''import_skill'' text now_unix_ms))"

definition update_import_journal ::
  "uuid_lib \<Rightarrow> ImportJournalPayload codec \<Rightarrow> OperationId \<Rightarrow> JournalState \<Rightarrow> JournalState \<Rightarrow>
   ImportJournalPayload \<Rightarrow> int \<Rightarrow> (localdb, unit) db_op" where
  "update_import_journal L C operation_id expected next_state payload now_unix_ms =
     (if JournalState_next expected \<noteq> Some next_state then op_err (InvalidJournalTransition expected next_state)
      else op_bind (serialize C payload) (\<lambda>text.
        expect_one no_rows (update_where journal_t
          (\<lambda>r. oj_operation_id r = operation_text L operation_id \<and> oj_kind r = ''import_skill'' \<and>
             oj_state r = JournalState_as_str expected)
          (\<lambda>r. r\<lparr>oj_state := JournalState_as_str next_state, oj_payload_json := text,
             oj_updated_at_unix_ms := now_unix_ms\<rparr>))))"

definition remove_subscription :: "string \<Rightarrow> (localdb, unit) db_op" where
  "remove_subscription resource_id =
     op_bind (delete_subscriptions (\<lambda>r. sub_resource_id r = resource_id)) (\<lambda>_. op_ok ())"

definition clear_subscriptions :: "(localdb, unit) db_op" where
  "clear_subscriptions = op_bind (delete_subscriptions (\<lambda>_. True)) (\<lambda>_. op_ok ())"

definition materialization_journals ::
  "uuid_lib \<Rightarrow> MaterializationJournalPayload codec \<Rightarrow> (localdb, MaterializationJournalPayload Journal list) db_op" where
  "materialization_journals L C =
     op_query (\<lambda>db. collect_res (read_journal L C) (by_created
       (filter (\<lambda>r. oj_kind r = ''materialize_skill'' \<and> oj_state r \<noteq> ''complete'') (operation_journal db))))"

definition create_materialization_journal ::
  "uuid_lib \<Rightarrow> MaterializationJournalPayload codec \<Rightarrow> OperationId \<Rightarrow> MaterializationJournalPayload \<Rightarrow> int \<Rightarrow>
   (localdb, unit) db_op" where
  "create_materialization_journal L C operation_id payload now_unix_ms =
     op_bind (serialize C payload) (\<lambda>text.
     insert_into journal_t (planned_row (operation_text L operation_id) ''materialize_skill'' text now_unix_ms))"

definition update_materialization_journal ::
  "uuid_lib \<Rightarrow> OperationId \<Rightarrow> JournalState \<Rightarrow> JournalState \<Rightarrow> int \<Rightarrow> (localdb, unit) db_op" where
  "update_materialization_journal L operation_id expected next_state now_unix_ms =
     (if JournalState_next expected \<noteq> Some next_state then op_err (InvalidJournalTransition expected next_state)
      else expect_one no_rows (update_where journal_t
        (\<lambda>r. oj_operation_id r = operation_text L operation_id \<and> oj_kind r = ''materialize_skill'' \<and>
           oj_state r = JournalState_as_str expected)
        (\<lambda>r. r\<lparr>oj_state := JournalState_as_str next_state, oj_updated_at_unix_ms := now_unix_ms\<rparr>)))"

definition discard_materialization_journal :: "uuid_lib \<Rightarrow> OperationId \<Rightarrow> (localdb, unit) db_op" where
  "discard_materialization_journal L operation_id =
     op_bind (delete_from journal_t (\<lambda>r. oj_operation_id r = operation_text L operation_id \<and>
       oj_kind r = ''materialize_skill'' \<and> oj_state r \<in> set [''planned'', ''staged''])) (\<lambda>_. op_ok ())"

section \<open>Leases\<close>

text \<open>\<open>i64::saturating_add\<close>.\<close>

definition saturating_add :: "int \<Rightarrow> int \<Rightarrow> int" where
  "saturating_add a b = max (- (2 ^ 63)) (min (2 ^ 63 - 1) (a + b))"

definition claim_lease :: "string \<Rightarrow> string \<Rightarrow> int \<Rightarrow> int \<Rightarrow> (localdb, bool) db_op" where
  "claim_lease resource_key holder now_unix_ms ttl_ms =
     (if ttl_ms \<le> 0 then op_err (InvalidLeaseTtl ttl_ms)
      else transaction (
        op_bind (delete_from lease_t (\<lambda>r. wl_resource_key r = resource_key \<and> wl_expires_at_unix_ms r \<le> now_unix_ms)) (\<lambda>_.
        op_bind (insert_or_ignore lease_t
          \<lparr>wl_resource_key = resource_key, wl_holder = holder,
           wl_expires_at_unix_ms = saturating_add now_unix_ms ttl_ms\<rparr>) (\<lambda>changed.
        op_ok (changed = 1)))))"

definition release_lease :: "string \<Rightarrow> string \<Rightarrow> (localdb, unit) db_op" where
  "release_lease resource_key holder =
     op_bind (delete_from lease_t (\<lambda>r. wl_resource_key r = resource_key \<and> wl_holder r = holder)) (\<lambda>_. op_ok ())"

text \<open>\<open>PRAGMA quick_check\<close> is SQLite's: what it reports is an argument.\<close>

definition quick_check :: "(localdb \<Rightarrow> string) \<Rightarrow> (localdb, unit) db_op" where
  "quick_check pragma = op_query (\<lambda>db. if pragma db = ''ok'' then Ok () else Err (Sqlite InvalidQuery))"

section \<open>Opening\<close>

text \<open>
  A database file as the opening code sees it: the version it carries and what running the
  \<open>n\<close>-th migration script on it gives.
\<close>

record 'f sqlite =
  user_version :: "'f \<Rightarrow> int"
  execute_batch :: "nat \<Rightarrow> 'f \<Rightarrow> ('f, LocalDbError) result"
  set_wal :: "'f \<Rightarrow> ('f, LocalDbError) result"

definition CURRENT_SCHEMA_VERSION :: int where
  "CURRENT_SCHEMA_VERSION = 14"

definition migration_for :: "int \<Rightarrow> nat option" where
  "migration_for version = (if 0 \<le> version \<and> version \<le> 13 then Some (nat version + 1) else None)"

text \<open>The loop reads the version back after each script; \<open>None\<close> when it never ends.\<close>

partial_function (option) migrate_loop ::
  "'f sqlite \<Rightarrow> int \<Rightarrow> 'f \<Rightarrow> ('f, LocalDbError) result option" where
  "migrate_loop S version f =
     (if version < CURRENT_SCHEMA_VERSION then
        (case migration_for version of
           None \<Rightarrow> Some (Err (UnsupportedSchema version))
         | Some migration \<Rightarrow>
             (case execute_batch S migration f of
                Err e \<Rightarrow> Some (Err e)
              | Ok f' \<Rightarrow> migrate_loop S (user_version S f') f'))
      else Some (Ok f))"

definition open_connection :: "'f sqlite \<Rightarrow> 'f \<Rightarrow> ('f, LocalDbError) result option" where
  "open_connection S f =
     (let version = user_version S f in
      if version > CURRENT_SCHEMA_VERSION then Some (Err (UnsupportedSchema version))
      else if version = 0 then
        (case set_wal S f of Err e \<Rightarrow> Some (Err e) | Ok f' \<Rightarrow> migrate_loop S version f')
      else migrate_loop S version f)"

end
