(* ===== verification/Local_Desired.thy ===== *)
theory Local_Desired
  imports Local_Db "HOL-Library.Product_Lexorder"
begin

text \<open>
  \<open>crates/denju-local/src/desired_db.rs\<close> and \<open>pack_db.rs\<close>: what the installation wants.
  Subscriptions, owned skills and pack members ask for revisions; suppressions record which of
  the weaker sources a stronger one has switched off; the pack catalogue and the journal of
  applying packs are replaced as a whole.
\<close>

section \<open>Suppressed sources and edit locks\<close>

definition suppressed :: "localdb \<Rightarrow> string \<Rightarrow> string \<Rightarrow> bool" where
  "suppressed db source_kind resource_id \<longleftrightarrow>
     list_ex (\<lambda>x. sp_source_kind x = source_kind \<and> sp_resource_id x = resource_id) (desired_source_suppressions db)"

definition source_suppressions :: "string \<Rightarrow> (localdb, string list) db_op" where
  "source_suppressions source_kind =
     op_query (\<lambda>db. Ok (sort (map sp_resource_id
       (filter (\<lambda>x. sp_source_kind x = source_kind) (desired_source_suppressions db)))))"

definition reconcile_source_suppressions ::
  "(string \<times> string) list \<Rightarrow> (string \<times> string) list \<Rightarrow> string list \<Rightarrow> int \<Rightarrow> (localdb, unit) db_op" where
  "reconcile_source_suppressions subs owned preserve now_unix_ms =
     transaction (
       op_bind (op_query (\<lambda>db. Ok (sort (map (\<lambda>r. (sp_source_kind r, sp_resource_id r))
         (desired_source_suppressions db))))) (\<lambda>existing.
       op_bind (op_each (\<lambda>(kind, resource_id).
           if resource_id \<notin> set preserve
           then delete_from suppression_t (\<lambda>r. sp_source_kind r = kind \<and> sp_resource_id r = resource_id)
           else op_ok 0) existing) (\<lambda>_.
       op_each (\<lambda>(kind, vals).
         op_each (\<lambda>(resource_id, enforcing_source_id).
           if resource_id \<in> set preserve then op_ok ()
           else upsert_into suppression_t
             (\<lambda>r. r\<lparr>sp_enforcing_source_id := enforcing_source_id, sp_updated_at_unix_ms := now_unix_ms\<rparr>)
             \<lparr>sp_source_kind = kind, sp_resource_id = resource_id, sp_enforcing_source_id = enforcing_source_id,
              sp_updated_at_unix_ms = now_unix_ms\<rparr>) vals)
         [(''subscription'', subs), (''owned'', owned)])))"

definition get_subscription_edit_locks :: "(localdb, string list) db_op" where
  "get_subscription_edit_locks = op_query (\<lambda>db. Ok (sort (map el_resource_id (subscription_edit_locks db))))"

definition save_subscription_edit_lock :: "string \<Rightarrow> string \<Rightarrow> int \<Rightarrow> (localdb, unit) db_op" where
  "save_subscription_edit_lock resource_id message now_unix_ms =
     upsert_into edit_lock_t (\<lambda>r. r\<lparr>el_message := message, el_updated_at_unix_ms := now_unix_ms\<rparr>)
       \<lparr>el_resource_id = resource_id, el_message = message, el_updated_at_unix_ms = now_unix_ms\<rparr>"

definition clear_subscription_edit_lock :: "string \<Rightarrow> (localdb, unit) db_op" where
  "clear_subscription_edit_lock resource_id =
     op_bind (delete_from edit_lock_t (\<lambda>r. el_resource_id r = resource_id)) (\<lambda>_. op_ok ())"

section \<open>Subscriptions and owned skills\<close>

definition get_subscriptions :: "(localdb, SubscriptionRecord list) db_op" where
  "get_subscriptions =
     op_query (\<lambda>db. Ok (map SubscriptionRecord.truncate
       (sort_key (\<lambda>r. (sub_owner r, sub_skill_name r, sub_resource_id r)) (subscriptions db))))"

definition get_owned_skills :: "(localdb, OwnedSkillRecord list) db_op" where
  "get_owned_skills =
     op_query (\<lambda>db. Ok (map OwnedSkillRecord.truncate
       (sort_key (\<lambda>r. (os_owner r, os_skill_name r, os_resource_id r)) (owned_skills db))))"

definition managed_of_subscription :: "subscription_row \<Rightarrow> ManagedSkillRecord" where
  "managed_of_subscription r =
     \<lparr>mg_resource_id = sub_resource_id r, mg_locator = sub_locator r, mg_owner = sub_owner r,
      mg_skill_name = sub_skill_name r, mg_harness_name = sub_harness_name r,
      mg_materialized_revision_id = sub_materialized_revision_id r\<rparr>"

definition managed_of_owned :: "owned_row \<Rightarrow> ManagedSkillRecord" where
  "managed_of_owned r =
     \<lparr>mg_resource_id = os_resource_id r, mg_locator = os_locator r, mg_owner = os_owner r,
      mg_skill_name = os_skill_name r, mg_harness_name = os_harness_name r,
      mg_materialized_revision_id = os_materialized_revision_id r\<rparr>"

definition managed_of_pack :: "pack_materialized_row \<Rightarrow> ManagedSkillRecord" where
  "managed_of_pack r =
     \<lparr>mg_resource_id = pms_resource_id r, mg_locator = pms_locator r, mg_owner = pms_owner r,
      mg_skill_name = pms_skill_name r, mg_harness_name = pms_harness_name r,
      mg_materialized_revision_id = Some (pms_materialized_revision_id r)\<rparr>"

text \<open>The three halves of the \<open>UNION ALL\<close>.\<close>

definition active_records :: "localdb \<Rightarrow> ManagedSkillRecord list" where
  "active_records db =
     map managed_of_subscription (filter (\<lambda>r. \<not> suppressed db ''subscription'' (sub_resource_id r)) (subscriptions db)) @
     map managed_of_owned (filter (\<lambda>r. \<not> suppressed db ''owned'' (os_resource_id r)) (owned_skills db)) @
     map managed_of_pack (pack_materialized_skills db)"

definition managed_skills :: "(localdb, ManagedSkillRecord list) db_op" where
  "managed_skills =
     op_query (\<lambda>db.
       let records = sort_key (\<lambda>r. (mg_owner r, mg_skill_name r, mg_resource_id r)) (active_records db) in
       case adjacent_dup mg_resource_id records of
         Some r \<Rightarrow> Err (Corrupt (''resource '' @ mg_resource_id r @ '' has multiple local desired-state owners''))
       | None \<Rightarrow> Ok records)"

definition upsert_owned_skill_desired :: "OwnedSkillRecord \<Rightarrow> int \<Rightarrow> (localdb, unit) db_op" where
  "upsert_owned_skill_desired record now_unix_ms =
     upsert_into owned_t
       (\<lambda>r. r\<lparr>os_locator := os_locator record, os_owner := os_owner record, os_skill_name := os_skill_name record,
          os_resource_generation := os_resource_generation record,
          os_workspace_generation := os_workspace_generation record,
          os_desired_revision_id := os_desired_revision_id record, os_updated_at_unix_ms := now_unix_ms\<rparr>)
       \<lparr>os_resource_id = os_resource_id record, os_locator = os_locator record, os_owner = os_owner record,
        os_skill_name = os_skill_name record, os_resource_generation = os_resource_generation record,
        os_workspace_generation = os_workspace_generation record,
        os_desired_revision_id = os_desired_revision_id record, os_harness_name = None,
        os_materialized_revision_id = None, os_updated_at_unix_ms = now_unix_ms\<rparr>"

definition remove_owned_skill :: "string \<Rightarrow> (localdb, unit) db_op" where
  "remove_owned_skill resource_id =
     op_bind (delete_owned (\<lambda>r. os_resource_id r = resource_id)) (\<lambda>_. op_ok ())"

definition get_subscription :: "string \<Rightarrow> (localdb, SubscriptionRecord option) db_op" where
  "get_subscription resource_id =
     op_query (\<lambda>db. Ok (map_option SubscriptionRecord.truncate
       (sql_first (\<lambda>r. sub_resource_id r = resource_id) (subscriptions db))))"

definition upsert_subscription_desired :: "SubscriptionRecord \<Rightarrow> int \<Rightarrow> (localdb, unit) db_op" where
  "upsert_subscription_desired record now_unix_ms =
     upsert_into subscription_t
       (\<lambda>r. r\<lparr>sub_locator := sub_locator record, sub_owner := sub_owner record, sub_skill_name := sub_skill_name record,
          sub_resource_generation := sub_resource_generation record,
          sub_release_version := sub_release_version record,
          sub_desired_revision_id := sub_desired_revision_id record,
          sub_retain_on_delete := sub_retain_on_delete record,
          sub_retained_after_delete := sub_retained_after_delete record,
          sub_live_private := sub_live_private record, sub_desired_root_tree_id := sub_desired_root_tree_id record,
          sub_updated_at_unix_ms := now_unix_ms\<rparr>)
       \<lparr>sub_resource_id = sub_resource_id record, sub_locator = sub_locator record, sub_owner = sub_owner record,
        sub_skill_name = sub_skill_name record, sub_resource_generation = sub_resource_generation record,
        sub_release_version = sub_release_version record, sub_desired_revision_id = sub_desired_revision_id record,
        sub_harness_name = None, sub_materialized_revision_id = None,
        sub_retain_on_delete = sub_retain_on_delete record,
        sub_retained_after_delete = sub_retained_after_delete record, sub_live_private = sub_live_private record,
        sub_desired_root_tree_id = sub_desired_root_tree_id record, sub_updated_at_unix_ms = now_unix_ms\<rparr>"

text \<open>The conditions \<open>NOT EXISTS (SELECT 1 FROM desired_source_suppressions \<dots>)\<close> read the database
  the statement runs on.\<close>

definition with_db :: "('s \<Rightarrow> ('s, 'a, 'e) op) \<Rightarrow> ('s, 'a, 'e) op" where
  "with_db f s = f s s"

definition mark_skill_materialized :: "string \<Rightarrow> string \<Rightarrow> int \<Rightarrow> (localdb, unit) db_op" where
  "mark_skill_materialized resource_id revision_id now_unix_ms =
     transaction (
       op_bind (with_db (\<lambda>db. update_where subscription_t
         (\<lambda>r. sub_resource_id r = resource_id \<and> sub_desired_revision_id r = revision_id \<and>
            \<not> suppressed db ''subscription'' (sub_resource_id r))
         (\<lambda>r. r\<lparr>sub_materialized_revision_id := Some revision_id, sub_updated_at_unix_ms := now_unix_ms\<rparr>))) (\<lambda>subscription_changed.
       op_bind (with_db (\<lambda>db. update_where owned_t
         (\<lambda>r. os_resource_id r = resource_id \<and> os_desired_revision_id r = revision_id \<and>
            \<not> suppressed db ''owned'' (os_resource_id r))
         (\<lambda>r. r\<lparr>os_materialized_revision_id := Some revision_id, os_updated_at_unix_ms := now_unix_ms\<rparr>))) (\<lambda>owned_changed.
       op_bind (update_where pack_materialized_t
         (\<lambda>r. pms_resource_id r = resource_id \<and> pms_desired_revision_id r = revision_id)
         (\<lambda>r. r\<lparr>pms_materialized_revision_id := revision_id, pms_updated_at_unix_ms := now_unix_ms\<rparr>)) (\<lambda>pack_changed.
       if subscription_changed + owned_changed + pack_changed = 0 then op_err no_rows else op_ok ()))))"

definition set_managed_harness_name :: "string \<Rightarrow> string \<Rightarrow> int \<Rightarrow> (localdb, unit) db_op" where
  "set_managed_harness_name resource_id harness_name now_unix_ms =
     transaction (
       op_bind (with_db (\<lambda>db. update_where subscription_t
         (\<lambda>r. sub_resource_id r = resource_id \<and> \<not> suppressed db ''subscription'' (sub_resource_id r))
         (\<lambda>r. r\<lparr>sub_harness_name := Some harness_name, sub_updated_at_unix_ms := now_unix_ms\<rparr>))) (\<lambda>subscription_changed.
       op_bind (with_db (\<lambda>db. update_where owned_t
         (\<lambda>r. os_resource_id r = resource_id \<and> \<not> suppressed db ''owned'' (os_resource_id r))
         (\<lambda>r. r\<lparr>os_harness_name := Some harness_name, os_updated_at_unix_ms := now_unix_ms\<rparr>))) (\<lambda>owned_changed.
       op_bind (update_where pack_materialized_t (\<lambda>r. pms_resource_id r = resource_id)
         (\<lambda>r. r\<lparr>pms_harness_name := Some harness_name, pms_updated_at_unix_ms := now_unix_ms\<rparr>)) (\<lambda>pack_changed.
       if subscription_changed + owned_changed + pack_changed \<noteq> 1 then op_err no_rows else op_ok ()))))"

section \<open>Packs\<close>

definition replace_pack_catalog ::
  "PackSubscriptionRecord list \<Rightarrow> PackSkillSourceRecord list \<Rightarrow> int \<Rightarrow> (localdb, unit) db_op" where
  "replace_pack_catalog packs sources now_unix_ms =
     transaction (
       op_bind (delete_from pack_source_t (\<lambda>_. True)) (\<lambda>_.
       op_bind (delete_pack_subscriptions (\<lambda>_. True)) (\<lambda>_.
       op_bind (op_each (\<lambda>pack. insert_into pack_subscription_t
           (PackSubscriptionRecord.extend pack (pack_subscription_row.fields now_unix_ms))) packs) (\<lambda>_.
       op_each (\<lambda>src. insert_into pack_source_t
           (PackSkillSourceRecord.extend src (pack_source_row.fields now_unix_ms))) sources))))"

definition get_pack_subscriptions :: "(localdb, PackSubscriptionRecord list) db_op" where
  "get_pack_subscriptions =
     op_query (\<lambda>db. Ok (map PackSubscriptionRecord.truncate
       (sort_key (\<lambda>r. (ps_locator r, ps_source_id r)) (pack_subscriptions db))))"

definition enforced_pack_resource_ids :: "(localdb, string list) db_op" where
  "enforced_pack_resource_ids =
     op_query (\<lambda>db. Ok (sort (remdups (map pss_resource_id
       (filter (\<lambda>s. list_ex (\<lambda>p. ps_source_id p = pss_source_id s \<and> ps_enforced p) (pack_subscriptions db))
         (pack_skill_sources db))))))"

definition get_pack_skill_sources :: "(localdb, PackSkillSourceRecord list) db_op" where
  "get_pack_skill_sources =
     op_query (\<lambda>db. Ok (map PackSkillSourceRecord.truncate
       (sort_key (\<lambda>r. (pss_resource_id r, pss_source_id r)) (pack_skill_sources db))))"

definition get_pack_materialized_skills :: "(localdb, PackMaterializedSkillRecord list) db_op" where
  "get_pack_materialized_skills =
     op_query (\<lambda>db. Ok (map PackMaterializedSkillRecord.truncate
       (sort_key (\<lambda>r. (pms_owner r, pms_skill_name r, pms_resource_id r)) (pack_materialized_skills db))))"

definition remove_pack_materialized_record :: "string \<Rightarrow> (localdb, unit) db_op" where
  "remove_pack_materialized_record resource_id =
     op_bind (delete_from pack_materialized_t (\<lambda>r. pms_resource_id r = resource_id)) (\<lambda>_. op_ok ())"

definition get_pack_source_conflicts ::
  "string list codec \<Rightarrow> (localdb, PackSourceConflictRecord list) db_op" where
  "get_pack_source_conflicts C =
     op_query (\<lambda>db. collect_res (\<lambda>r.
         res_bind (deserialize C (sr_source_ids_json r)) (\<lambda>source_ids.
         res_bind (deserialize C (sr_source_labels_json r)) (\<lambda>source_labels.
         res_bind (deserialize C (sr_revision_ids_json r)) (\<lambda>revision_ids.
         Ok \<lparr>psc_resource_id = sr_resource_id r, psc_source_ids = source_ids, psc_source_labels = source_labels,
             psc_revision_ids = revision_ids, psc_message = sr_message r\<rparr>))))
       (sort_key sr_resource_id (pack_source_conflicts db)))"

definition create_pack_apply_journal ::
  "uuid_lib \<Rightarrow> PackApplyJournalPayload codec \<Rightarrow> OperationId \<Rightarrow> PackApplyJournalPayload \<Rightarrow> int \<Rightarrow> (localdb, unit) db_op" where
  "create_pack_apply_journal L C operation_id payload now_unix_ms =
     op_bind (serialize C payload) (\<lambda>text.
     insert_into pack_journal_t
       \<lparr>pj_operation_id = operation_text L operation_id, pj_payload_json = text, pj_state = ''verified'',
        pj_updated_at_unix_ms = now_unix_ms\<rparr>)"

definition incomplete_pack_apply_journals ::
  "uuid_lib \<Rightarrow> PackApplyJournalPayload codec \<Rightarrow> (localdb, PackApplyJournal list) db_op" where
  "incomplete_pack_apply_journals L C =
     op_query (\<lambda>db. collect_res (\<lambda>r.
         res_bind (map_err (\<lambda>e. Corrupt (''invalid pack apply operation ID: '' @ IdError_text e))
           (id_from_str L OperationId (pj_operation_id r))) (\<lambda>operation_id.
         res_bind (deserialize C (pj_payload_json r)) (\<lambda>payload.
         Ok \<lparr>paj_operation_id = operation_id, paj_payload = payload, paj_complete = (pj_state r = ''complete'')\<rparr>)))
       (sort_key (\<lambda>r. (pj_updated_at_unix_ms r, pj_operation_id r))
         (filter (\<lambda>r. pj_state r \<noteq> ''complete'') (pack_apply_journal db))))"

definition discard_pack_apply_journal :: "uuid_lib \<Rightarrow> OperationId \<Rightarrow> (localdb, unit) db_op" where
  "discard_pack_apply_journal L operation_id =
     op_bind (delete_from pack_journal_t (\<lambda>r. pj_operation_id r = operation_text L operation_id)) (\<lambda>_. op_ok ())"

definition commit_pack_apply ::
  "uuid_lib \<Rightarrow> string list codec \<Rightarrow> OperationId \<Rightarrow> PackMaterializedSkillRecord list \<Rightarrow>
   PackSourceConflictRecord list \<Rightarrow> int \<Rightarrow> (localdb, unit) db_op" where
  "commit_pack_apply L C operation_id skills conflicts now_unix_ms =
     transaction (
       op_bind (delete_from pack_materialized_t (\<lambda>_. True)) (\<lambda>_.
       op_bind (op_each (\<lambda>skill. insert_into pack_materialized_t
           (PackMaterializedSkillRecord.extend skill (pack_materialized_row.fields now_unix_ms))) skills) (\<lambda>_.
       op_bind (delete_from source_conflict_t (\<lambda>_. True)) (\<lambda>_.
       op_bind (op_each (\<lambda>c.
           op_bind (serialize C (psc_source_ids c)) (\<lambda>source_ids.
           op_bind (serialize C (psc_source_labels c)) (\<lambda>source_labels.
           op_bind (serialize C (psc_revision_ids c)) (\<lambda>revision_ids.
           insert_into source_conflict_t
             \<lparr>sr_resource_id = psc_resource_id c, sr_source_ids_json = source_ids, sr_source_labels_json = source_labels,
              sr_revision_ids_json = revision_ids, sr_message = psc_message c,
              sr_updated_at_unix_ms = now_unix_ms\<rparr>)))) conflicts) (\<lambda>_.
       expect_one no_rows (update_where pack_journal_t
         (\<lambda>r. pj_operation_id r = operation_text L operation_id \<and> pj_state r = ''verified'')
         (\<lambda>r. r\<lparr>pj_state := ''complete'', pj_updated_at_unix_ms := now_unix_ms\<rparr>)))))))"

end
