(* ===== verification/Local_Workspace.thy ===== *)
theory Local_Workspace
  imports Local_Desired
begin

text \<open>
  \<open>crates/denju-local/src/workspace_db.rs\<close>, \<open>fork_db.rs\<close> and \<open>discovery_db.rs\<close>: the working copies of
  owned skills with their queue of local revisions, content conflicts and file index; local forks
  and their conflicts; the local search catalogue and anonymous follows.
\<close>

section \<open>Content conflicts\<close>

definition read_content_conflict ::
  "string list codec \<Rightarrow> content_conflict_row \<Rightarrow> (WorkspaceContentConflictRecord, LocalDbError) result" where
  "read_content_conflict C r =
     res_bind (map_err (\<lambda>e. Sqlite (FromSqlConversionFailure e)) (from_text C (cr_conflict_paths_json r))) (\<lambda>conflict_paths.
     Ok \<lparr>wcc_conflict_id = cr_conflict_id r, wcc_resource_id = cr_resource_id r,
         wcc_base_revision_id = cr_base_revision_id r,
         wcc_head_revision_ids = [cr_head_a_revision_id r, cr_head_b_revision_id r],
         wcc_active_revision_id = cr_active_revision_id r, wcc_remote_generation = cr_remote_generation r,
         wcc_working_root_tree_id = cr_working_root_tree_id r, wcc_resolution_required = cr_resolution_required r,
         wcc_conflict_paths = conflict_paths\<rparr>)"

definition workspace_content_conflict ::
  "string list codec \<Rightarrow> string \<Rightarrow> (localdb, WorkspaceContentConflictRecord option) db_op" where
  "workspace_content_conflict C resource_id =
     op_query (\<lambda>db. transpose_res (read_content_conflict C)
       (sql_first (\<lambda>r. cr_resource_id r = resource_id) (workspace_content_conflicts db)))"

definition save_workspace_content_conflict ::
  "string list codec \<Rightarrow> WorkspaceContentConflictRecord \<Rightarrow> int \<Rightarrow> (localdb, unit) db_op" where
  "save_workspace_content_conflict C conflict now_unix_ms =
     (case wcc_head_revision_ids conflict of
        [head_a, head_b] \<Rightarrow>
          if head_a = head_b
          then op_err (Corrupt ''workspace content conflict must preserve exactly two distinct heads'')
          else op_bind (serialize C (wcc_conflict_paths conflict)) (\<lambda>paths.
            upsert_into content_conflict_t
              (\<lambda>r. r\<lparr>cr_conflict_id := wcc_conflict_id conflict, cr_base_revision_id := wcc_base_revision_id conflict,
                 cr_head_a_revision_id := head_a, cr_head_b_revision_id := head_b,
                 cr_active_revision_id := wcc_active_revision_id conflict,
                 cr_remote_generation := wcc_remote_generation conflict,
                 cr_working_root_tree_id := wcc_working_root_tree_id conflict,
                 cr_resolution_required := wcc_resolution_required conflict,
                 cr_conflict_paths_json := paths, cr_updated_at_unix_ms := now_unix_ms\<rparr>)
              \<lparr>cr_conflict_id = wcc_conflict_id conflict, cr_resource_id = wcc_resource_id conflict,
               cr_base_revision_id = wcc_base_revision_id conflict, cr_head_a_revision_id = head_a,
               cr_head_b_revision_id = head_b, cr_active_revision_id = wcc_active_revision_id conflict,
               cr_remote_generation = wcc_remote_generation conflict,
               cr_working_root_tree_id = wcc_working_root_tree_id conflict,
               cr_resolution_required = wcc_resolution_required conflict, cr_conflict_paths_json = paths,
               cr_created_at_unix_ms = now_unix_ms, cr_updated_at_unix_ms = now_unix_ms\<rparr>)
      | _ \<Rightarrow> op_err (Corrupt ''workspace content conflict must preserve exactly two distinct heads''))"

definition clear_workspace_content_conflict :: "string \<Rightarrow> (localdb, unit) db_op" where
  "clear_workspace_content_conflict resource_id =
     op_bind (delete_from content_conflict_t (\<lambda>r. cr_resource_id r = resource_id)) (\<lambda>_. op_ok ())"

section \<open>Write-back journals\<close>

definition workspace_writeback_journals ::
  "uuid_lib \<Rightarrow> WorkspaceWritebackJournalPayload codec \<Rightarrow>
   (localdb, WorkspaceWritebackJournalPayload Journal list) db_op" where
  "workspace_writeback_journals L C =
     op_query (\<lambda>db. collect_res (read_journal L C) (by_created
       (filter (\<lambda>r. oj_kind r = ''workspace_writeback'' \<and> oj_state r \<noteq> ''complete'') (operation_journal db))))"

definition create_workspace_writeback_journal ::
  "uuid_lib \<Rightarrow> WorkspaceWritebackJournalPayload codec \<Rightarrow> OperationId \<Rightarrow> WorkspaceWritebackJournalPayload \<Rightarrow> int \<Rightarrow>
   (localdb, unit) db_op" where
  "create_workspace_writeback_journal L C operation_id payload now_unix_ms =
     op_bind (serialize C payload) (\<lambda>text.
     insert_into journal_t (planned_row (operation_text L operation_id) ''workspace_writeback'' text now_unix_ms))"

definition update_workspace_writeback_journal ::
  "uuid_lib \<Rightarrow> OperationId \<Rightarrow> JournalState \<Rightarrow> JournalState \<Rightarrow> int \<Rightarrow> (localdb, unit) db_op" where
  "update_workspace_writeback_journal L operation_id expected next_state now_unix_ms =
     (if JournalState_next expected \<noteq> Some next_state then op_err (InvalidJournalTransition expected next_state)
      else expect_one no_rows (update_where journal_t
        (\<lambda>r. oj_operation_id r = operation_text L operation_id \<and> oj_kind r = ''workspace_writeback'' \<and>
           oj_state r = JournalState_as_str expected)
        (\<lambda>r. r\<lparr>oj_state := JournalState_as_str next_state, oj_updated_at_unix_ms := now_unix_ms\<rparr>)))"

definition discard_workspace_writeback_journal :: "uuid_lib \<Rightarrow> OperationId \<Rightarrow> (localdb, unit) db_op" where
  "discard_workspace_writeback_journal L operation_id =
     op_bind (delete_from journal_t (\<lambda>r. oj_operation_id r = operation_text L operation_id \<and>
       oj_kind r = ''workspace_writeback'' \<and> oj_state r \<in> set [''planned'', ''staged''])) (\<lambda>_. op_ok ())"

section \<open>Workspaces\<close>

definition read_workspace :: "workspace_row \<Rightarrow> (WorkspaceStateRecord, LocalDbError) result" where
  "read_workspace r =
     res_bind (WorkspaceStatus_from_str (wr_status r)) (\<lambda>status.
     Ok \<lparr>ws_resource_id = wr_resource_id r, ws_base_generation = wr_base_generation r,
         ws_base_revision_id = wr_base_revision_id r, ws_local_head_revision_id = wr_local_head_revision_id r,
         ws_valid_root_tree_id = wr_valid_root_tree_id r, ws_working_generation_path = wr_working_generation_path r,
         ws_status = status, ws_error_message = wr_error_message r, ws_pending_rename = wr_pending_rename r\<rparr>)"

definition get_workspace_state :: "string \<Rightarrow> (localdb, WorkspaceStateRecord option) db_op" where
  "get_workspace_state resource_id =
     op_query (\<lambda>db. transpose_res read_workspace (sql_first (\<lambda>r. wr_resource_id r = resource_id) (workspace_state db)))"

definition get_workspace_states :: "(localdb, WorkspaceStateRecord list) db_op" where
  "get_workspace_states =
     op_query (\<lambda>db. collect_res read_workspace (sort_key wr_resource_id (workspace_state db)))"

definition ensure_workspace_baseline ::
  "string \<Rightarrow> int \<Rightarrow> string \<Rightarrow> string \<Rightarrow> string \<Rightarrow> int \<Rightarrow> (localdb, unit) db_op" where
  "ensure_workspace_baseline resource_id generation revision_id root_tree_id working_generation_path now_unix_ms =
     op_bind (insert_or_ignore workspace_t
       \<lparr>wr_resource_id = resource_id, wr_base_generation = generation, wr_base_revision_id = revision_id,
        wr_local_head_revision_id = revision_id, wr_valid_root_tree_id = root_tree_id,
        wr_working_generation_path = working_generation_path, wr_status = ''clean'', wr_error_message = None,
        wr_pending_rename = None, wr_updated_at_unix_ms = now_unix_ms\<rparr>) (\<lambda>_. op_ok ())"

definition advance_clean_workspace_baseline ::
  "string \<Rightarrow> int \<Rightarrow> string \<Rightarrow> string \<Rightarrow> string \<Rightarrow> int \<Rightarrow> (localdb, unit) db_op" where
  "advance_clean_workspace_baseline resource_id generation revision_id root_tree_id working_generation_path now_unix_ms =
     op_bind (update_where workspace_t (\<lambda>r. wr_resource_id r = resource_id \<and> wr_status r = ''clean'')
       (\<lambda>r. r\<lparr>wr_base_generation := generation, wr_base_revision_id := revision_id,
          wr_local_head_revision_id := revision_id, wr_valid_root_tree_id := root_tree_id,
          wr_working_generation_path := working_generation_path, wr_status := ''clean'', wr_error_message := None,
          wr_pending_rename := None, wr_updated_at_unix_ms := now_unix_ms\<rparr>)) (\<lambda>_. op_ok ())"

definition pause_workspace ::
  "string \<Rightarrow> WorkspaceStatus \<Rightarrow> string \<Rightarrow> string option \<Rightarrow> int \<Rightarrow> (localdb, unit) db_op" where
  "pause_workspace resource_id status message pending_rename now_unix_ms =
     (if status \<notin> set [PausedValidation, PendingRename, Conflict, Quota]
      then op_err (Corrupt ''pause_workspace requires a paused status'')
      else expect_one no_rows (update_where workspace_t (\<lambda>r. wr_resource_id r = resource_id)
        (\<lambda>r. r\<lparr>wr_status := WorkspaceStatus_as_str status, wr_error_message := Some message,
           wr_pending_rename := pending_rename, wr_updated_at_unix_ms := now_unix_ms\<rparr>)))"

definition queued_count :: "localdb \<Rightarrow> string \<Rightarrow> nat" where
  "queued_count db resource_id =
     sql_count (\<lambda>r. rr_resource_id r = resource_id \<and> rr_state r = ''queued'') (local_revisions db)"

definition resume_workspace :: "string \<Rightarrow> int \<Rightarrow> (localdb, unit) db_op" where
  "resume_workspace resource_id now_unix_ms =
     op_bind (op_query (\<lambda>db. Ok (queued_count db resource_id))) (\<lambda>queued.
     let status = (if queued = 0 then ''clean'' else ''queued'') in
     expect_one no_rows (update_where workspace_t (\<lambda>r. wr_resource_id r = resource_id)
       (\<lambda>r. r\<lparr>wr_status := status, wr_error_message := None, wr_pending_rename := None,
          wr_updated_at_unix_ms := now_unix_ms\<rparr>)))"

definition adopt_registry_rename_baseline ::
  "string \<Rightarrow> int \<Rightarrow> string \<Rightarrow> string \<Rightarrow> string \<Rightarrow> int \<Rightarrow> (localdb, unit) db_op" where
  "adopt_registry_rename_baseline resource_id generation revision_id root_tree_id working_generation_path now_unix_ms =
     expect_one no_rows (update_where workspace_t (\<lambda>r. wr_resource_id r = resource_id)
       (\<lambda>r. r\<lparr>wr_base_generation := generation, wr_base_revision_id := revision_id,
          wr_local_head_revision_id := revision_id, wr_valid_root_tree_id := root_tree_id,
          wr_working_generation_path := working_generation_path, wr_status := ''clean'', wr_error_message := None,
          wr_pending_rename := None, wr_updated_at_unix_ms := now_unix_ms\<rparr>))"

definition clear_workspace_file_index :: "string \<Rightarrow> (localdb, unit) db_op" where
  "clear_workspace_file_index resource_id =
     op_bind (delete_from file_index_t (\<lambda>r. wf_resource_id r = resource_id)) (\<lambda>_. op_ok ())"

definition set_workspace_working_generation :: "string \<Rightarrow> string \<Rightarrow> int \<Rightarrow> (localdb, unit) db_op" where
  "set_workspace_working_generation resource_id working_generation_path now_unix_ms =
     op_bind (update_where workspace_t (\<lambda>r. wr_resource_id r = resource_id)
       (\<lambda>r. r\<lparr>wr_working_generation_path := working_generation_path,
          wr_updated_at_unix_ms := now_unix_ms\<rparr>)) (\<lambda>_. op_ok ())"

definition get_derived_projection_state :: "string \<Rightarrow> (localdb, DerivedProjectionStateRecord option) db_op" where
  "get_derived_projection_state resource_id =
     op_query (\<lambda>db. Ok (map_option DerivedProjectionStateRecord.truncate
       (sql_first (\<lambda>r. dps_resource_id r = resource_id) (derived_projection_state db))))"

definition save_derived_projection_state :: "DerivedProjectionStateRecord \<Rightarrow> int \<Rightarrow> (localdb, unit) db_op" where
  "save_derived_projection_state state now_unix_ms =
     upsert_into projection_t
       (\<lambda>r. r\<lparr>dps_harness_name := dps_harness_name state, dps_baseline_root_tree_id := dps_baseline_root_tree_id state,
          dps_updated_at_unix_ms := now_unix_ms\<rparr>)
       (DerivedProjectionStateRecord.extend state (projection_row.fields now_unix_ms))"

definition get_workspace_file_index :: "string \<Rightarrow> (localdb, WorkspaceFileRecord list) db_op" where
  "get_workspace_file_index resource_id =
     op_query (\<lambda>db. Ok (sort_key wf_path (filter (\<lambda>r. wf_resource_id r = resource_id) (workspace_file_index db))))"

definition replace_workspace_file_index :: "string \<Rightarrow> WorkspaceFileRecord list \<Rightarrow> (localdb, unit) db_op" where
  "replace_workspace_file_index resource_id records =
     transaction (
       op_bind (delete_from file_index_t (\<lambda>r. wf_resource_id r = resource_id)) (\<lambda>_.
       op_each (insert_into file_index_t) records))"

section \<open>Local revisions\<close>

definition revision_row_of :: "LocalRevisionRecord \<Rightarrow> string option \<Rightarrow> string \<Rightarrow> int \<Rightarrow> revision_row" where
  "revision_row_of revision merge_parent state now_unix_ms =
     \<lparr>rr_operation_id = lr_operation_id revision, rr_resource_id = lr_resource_id revision,
      rr_revision_id = lr_revision_id revision, rr_parent_revision_id = lr_expected_head_revision_id revision,
      rr_merge_parent_revision_id = merge_parent, rr_expected_generation = lr_expected_generation revision,
      rr_root_tree_id = lr_root_tree_id revision, rr_manifest_json = lr_manifest_json revision, rr_state = state,
      rr_created_at_unix_ms = now_unix_ms, rr_updated_at_unix_ms = now_unix_ms\<rparr>"

definition enqueue_local_revision :: "LocalRevisionRecord \<Rightarrow> int \<Rightarrow> (localdb, unit) db_op" where
  "enqueue_local_revision revision now_unix_ms =
     (let parents = sort (lr_parent_revision_ids revision) in
      if parents = [] \<or> 2 < length parents \<or> adjacent_dup (\<lambda>p. p) parents \<noteq> None \<or>
         lr_expected_head_revision_id revision \<notin> set parents
      then op_err (Corrupt ''local revision must have one or two unique parents including its expected head'')
      else
        let merge_parent = find (\<lambda>p. p \<noteq> lr_expected_head_revision_id revision) parents in
        transaction (
          op_bind (insert_into revision_t (revision_row_of revision merge_parent ''queued'' now_unix_ms)) (\<lambda>_.
          expect_one no_rows (update_where workspace_t (\<lambda>r. wr_resource_id r = lr_resource_id revision)
            (\<lambda>r. r\<lparr>wr_local_head_revision_id := lr_revision_id revision,
               wr_valid_root_tree_id := lr_root_tree_id revision, wr_status := ''queued'', wr_error_message := None,
               wr_pending_rename := None, wr_updated_at_unix_ms := now_unix_ms\<rparr>)))))"

text \<open>The row of a revision read back; both queries build it the same way.\<close>

definition read_revision :: "revision_row \<Rightarrow> LocalRevisionRecord" where
  "read_revision r =
     \<lparr>lr_operation_id = rr_operation_id r, lr_resource_id = rr_resource_id r, lr_revision_id = rr_revision_id r,
      lr_expected_head_revision_id = rr_parent_revision_id r,
      lr_parent_revision_ids = sort (rr_parent_revision_id r #
        (case rr_merge_parent_revision_id r of None \<Rightarrow> [] | Some p \<Rightarrow> [p])),
      lr_expected_generation = rr_expected_generation r, lr_root_tree_id = rr_root_tree_id r,
      lr_manifest_json = rr_manifest_json r, lr_state = rr_state r\<rparr>"

definition queued_local_revisions :: "(localdb, LocalRevisionRecord list) db_op" where
  "queued_local_revisions =
     op_query (\<lambda>db. Ok (map read_revision
       (sort_key (\<lambda>r. (rr_resource_id r, rr_expected_generation r, rr_created_at_unix_ms r))
         (filter (\<lambda>r. rr_state r = ''queued'') (local_revisions db)))))"

definition advance_owned_metadata_generation :: "string \<Rightarrow> int \<Rightarrow> int \<Rightarrow> int \<Rightarrow> (localdb, unit) db_op" where
  "advance_owned_metadata_generation resource_id expected_generation new_generation now_unix_ms =
     (if new_generation \<le> expected_generation then op_err (Corrupt ''metadata generation did not advance'')
      else transaction (expect_one no_rows (update_where owned_t
        (\<lambda>r. os_resource_id r = resource_id \<and> os_resource_generation r = expected_generation)
        (\<lambda>r. r\<lparr>os_resource_generation := new_generation, os_updated_at_unix_ms := now_unix_ms\<rparr>))))"

definition mark_local_revision_synced :: "string \<Rightarrow> int \<Rightarrow> string \<Rightarrow> int \<Rightarrow> (localdb, unit) db_op" where
  "mark_local_revision_synced operation_id generation revision_id now_unix_ms =
     transaction (
       op_bind (op_query (\<lambda>db. ok_or (map_option rr_resource_id (sql_first
         (\<lambda>r. rr_operation_id r = operation_id \<and> rr_revision_id r = revision_id) (local_revisions db))) no_rows)) (\<lambda>resource_id.
       op_bind (update_where revision_t (\<lambda>r. rr_operation_id r = operation_id)
         (\<lambda>r. r\<lparr>rr_state := ''synced'', rr_updated_at_unix_ms := now_unix_ms\<rparr>)) (\<lambda>_.
       op_bind (update_where workspace_t (\<lambda>r. wr_resource_id r = resource_id)
         (\<lambda>r. r\<lparr>wr_base_generation := generation, wr_base_revision_id := revision_id,
            wr_updated_at_unix_ms := now_unix_ms\<rparr>)) (\<lambda>_.
       op_bind (update_where owned_t (\<lambda>r. os_resource_id r = resource_id)
         (\<lambda>r. r\<lparr>os_workspace_generation := generation, os_updated_at_unix_ms := now_unix_ms\<rparr>)) (\<lambda>_.
       op_bind (op_query (\<lambda>db. Ok (queued_count db resource_id))) (\<lambda>queued.
       if queued = 0 then
         op_bind (update_where workspace_t (\<lambda>r. wr_resource_id r = resource_id)
           (\<lambda>r. r\<lparr>wr_status := ''clean'', wr_error_message := None, wr_pending_rename := None,
              wr_updated_at_unix_ms := now_unix_ms\<rparr>)) (\<lambda>_. op_ok ())
       else op_ok ()))))))"

definition mark_local_revision_detached_stored :: "string \<Rightarrow> int \<Rightarrow> (localdb, unit) db_op" where
  "mark_local_revision_detached_stored operation_id now_unix_ms =
     expect_one no_rows (update_where revision_t
       (\<lambda>r. rr_operation_id r = operation_id \<and> rr_state r = ''queued'')
       (\<lambda>r. r\<lparr>rr_state := ''synced'', rr_updated_at_unix_ms := now_unix_ms\<rparr>))"

section \<open>Forks\<close>

definition fork_sync_conflict ::
  "string list codec \<Rightarrow> string \<Rightarrow> (localdb, ForkSyncConflictRecord option) db_op" where
  "fork_sync_conflict C resource_id =
     op_query (\<lambda>db. transpose_res (\<lambda>r.
         res_bind (deserialize C (fr_conflict_paths_json r)) (\<lambda>paths.
         Ok \<lparr>fsc_resource_id = fr_resource_id r, fsc_sync_base_revision_id = fr_sync_base_revision_id r,
             fsc_fork_revision_id = fr_fork_revision_id r, fsc_upstream_revision_id = fr_upstream_revision_id r,
             fsc_conflict_paths = paths\<rparr>))
       (sql_first (\<lambda>r. fr_resource_id r = resource_id) (fork_sync_conflicts db)))"

definition save_fork_sync_conflict ::
  "string list codec \<Rightarrow> ForkSyncConflictRecord \<Rightarrow> int \<Rightarrow> (localdb, unit) db_op" where
  "save_fork_sync_conflict C conflict now_unix_ms =
     (if fsc_conflict_paths conflict = [] then op_err (Corrupt ''fork sync conflict must contain at least one path'')
      else op_bind (serialize C (fsc_conflict_paths conflict)) (\<lambda>paths.
        upsert_into fork_conflict_t
          (\<lambda>r. r\<lparr>fr_sync_base_revision_id := fsc_sync_base_revision_id conflict,
             fr_fork_revision_id := fsc_fork_revision_id conflict,
             fr_upstream_revision_id := fsc_upstream_revision_id conflict,
             fr_conflict_paths_json := paths, fr_updated_at_unix_ms := now_unix_ms\<rparr>)
          \<lparr>fr_resource_id = fsc_resource_id conflict, fr_sync_base_revision_id = fsc_sync_base_revision_id conflict,
           fr_fork_revision_id = fsc_fork_revision_id conflict,
           fr_upstream_revision_id = fsc_upstream_revision_id conflict, fr_conflict_paths_json = paths,
           fr_created_at_unix_ms = now_unix_ms, fr_updated_at_unix_ms = now_unix_ms\<rparr>))"

definition clear_fork_sync_conflict :: "string \<Rightarrow> (localdb, unit) db_op" where
  "clear_fork_sync_conflict resource_id =
     op_bind (delete_from fork_conflict_t (\<lambda>r. fr_resource_id r = resource_id)) (\<lambda>_. op_ok ())"

definition get_local_forks :: "(localdb, LocalForkRecord list) db_op" where
  "get_local_forks =
     op_query (\<lambda>db. Ok (map LocalForkRecord.truncate (sort_key lf_resource_id (local_forks db))))"

definition local_fork_for_upstream :: "string \<Rightarrow> (localdb, LocalForkRecord option) db_op" where
  "local_fork_for_upstream upstream_resource_id =
     op_query (\<lambda>db. Ok (map_option LocalForkRecord.truncate
       (sql_first (\<lambda>r. lf_upstream_resource_id r = upstream_resource_id) (local_forks db))))"

definition save_local_fork :: "LocalForkRecord \<Rightarrow> int \<Rightarrow> (localdb, unit) db_op" where
  "save_local_fork fork now_unix_ms =
     upsert_into fork_t
       (\<lambda>r. r\<lparr>lf_sync_base_revision_id := lf_sync_base_revision_id fork, lf_desired_name := lf_desired_name fork,
          lf_state := lf_state fork, lf_updated_at_unix_ms := now_unix_ms\<rparr>)
       (LocalForkRecord.extend fork (fork_row.fields now_unix_ms now_unix_ms))"

definition remove_local_fork :: "string \<Rightarrow> (localdb, unit) db_op" where
  "remove_local_fork resource_id =
     op_bind (delete_from fork_t (\<lambda>r. lf_resource_id r = resource_id)) (\<lambda>_. op_ok ())"

definition local_revision_history :: "string \<Rightarrow> (localdb, LocalRevisionRecord list) db_op" where
  "local_revision_history resource_id =
     op_query (\<lambda>db. Ok (map read_revision (sort_key (\<lambda>r. (rr_created_at_unix_ms r, rr_operation_id r))
       (filter (\<lambda>r. rr_resource_id r = resource_id) (local_revisions db)))))"

text \<open>\<open>i64::checked_add(1)\<close>.\<close>

definition checked_succ :: "int \<Rightarrow> int option" where
  "checked_succ n = (if n + 1 < 2 ^ 63 then Some (n + 1) else None)"

definition commit_local_only_revision :: "LocalRevisionRecord \<Rightarrow> int \<Rightarrow> (localdb, unit) db_op" where
  "commit_local_only_revision revision now_unix_ms =
     (if sort (lr_parent_revision_ids revision) \<noteq> [lr_expected_head_revision_id revision]
      then op_err (Corrupt ''local-only fork revisions require exactly one expected-head parent'')
      else case checked_succ (lr_expected_generation revision) of
        None \<Rightarrow> op_err (Corrupt ''local fork generation overflow'')
      | Some next_generation \<Rightarrow> transaction (
          op_bind (insert_into revision_t (revision_row_of revision None ''synced'' now_unix_ms)) (\<lambda>_.
          op_bind (update_where owned_t (\<lambda>r. os_resource_id r = lr_resource_id revision)
            (\<lambda>r. r\<lparr>os_resource_generation := next_generation, os_workspace_generation := next_generation,
               os_desired_revision_id := lr_revision_id revision,
               os_materialized_revision_id := Some (lr_revision_id revision),
               os_updated_at_unix_ms := now_unix_ms\<rparr>)) (\<lambda>_.
          op_bind (update_where workspace_t (\<lambda>r. wr_resource_id r = lr_resource_id revision)
            (\<lambda>r. r\<lparr>wr_base_generation := next_generation, wr_base_revision_id := lr_revision_id revision,
               wr_local_head_revision_id := lr_revision_id revision,
               wr_valid_root_tree_id := lr_root_tree_id revision, wr_status := ''clean'', wr_error_message := None,
               wr_pending_rename := None, wr_updated_at_unix_ms := now_unix_ms\<rparr>)) (\<lambda>_. op_ok ())))))"

definition record_local_fork_revision :: "LocalRevisionRecord \<Rightarrow> int \<Rightarrow> (localdb, unit) db_op" where
  "record_local_fork_revision revision now_unix_ms =
     (if lr_parent_revision_ids revision \<noteq> [lr_expected_head_revision_id revision]
      then op_err (Corrupt ''initial local fork revision requires one upstream parent'')
      else insert_into revision_t (revision_row_of revision None ''synced'' now_unix_ms))"

section \<open>Catalogue and follows\<close>

definition read_local_discovery_records :: "localdb \<Rightarrow> LocalDiscoveryRecord list" where
  "read_local_discovery_records db =
     concat (map (\<lambda>o'. concat (map (\<lambda>md.
         map (\<lambda>upstream. \<lparr>ldr_resource_id = os_resource_id o', ldr_locator = os_locator o', ldr_owner = os_owner o',
             ldr_skill_name = os_skill_name o', ldr_resource_generation = os_resource_generation o',
             ldr_description = md_description md, ldr_license = md_license md,
             ldr_compatibility = md_compatibility md, ldr_fork_upstream_locator = upstream\<rparr>)
           (case filter (\<lambda>f. lf_resource_id f = os_resource_id o') (local_forks db) of
              [] \<Rightarrow> [None] | fs \<Rightarrow> map (Some \<circ> lf_upstream_locator) fs))
         (filter (\<lambda>md. md_resource_id md = os_resource_id o') (skill_discovery_metadata db))))
       (sort_key (\<lambda>r. (os_owner r, os_skill_name r, os_resource_id r)) (owned_skills db)))"

record LocalCatalogState =
  lcs_installation :: "InstallationRecord option"
  lcs_identity :: "IdentityRecord option"
  lcs_owned_skills :: "OwnedSkillRecord list"
  lcs_discovery_records :: "LocalDiscoveryRecord list"

definition catalog_state :: "(localdb, LocalCatalogState) db_op" where
  "catalog_state =
     op_query (\<lambda>db.
       let owned = map OwnedSkillRecord.truncate
         (sort_key (\<lambda>r. (os_owner r, os_skill_name r, os_resource_id r)) (owned_skills db)) in
       Ok \<lparr>lcs_installation = installation db,
           lcs_identity = map_option IdentityRecord.truncate (identity_state db),
           lcs_owned_skills = owned,
           lcs_discovery_records = (if owned = [] then [] else read_local_discovery_records db)\<rparr>)"

definition upsert_skill_discovery_metadata ::
  "string \<Rightarrow> string \<Rightarrow> string option \<Rightarrow> string option \<Rightarrow> int \<Rightarrow> (localdb, unit) db_op" where
  "upsert_skill_discovery_metadata resource_id description license compatibility now_unix_ms =
     upsert_into metadata_t
       (\<lambda>r. r\<lparr>md_description := description, md_license := license, md_compatibility := compatibility,
          md_updated_at_unix_ms := now_unix_ms\<rparr>)
       \<lparr>md_resource_id = resource_id, md_description = description, md_license = license,
        md_compatibility = compatibility, md_updated_at_unix_ms = now_unix_ms\<rparr>"

definition local_discovery_records :: "(localdb, LocalDiscoveryRecord list) db_op" where
  "local_discovery_records = op_query (\<lambda>db. Ok (read_local_discovery_records db))"

definition upsert_anonymous_follow :: "AnonymousFollowRecord \<Rightarrow> int \<Rightarrow> (localdb, unit) db_op" where
  "upsert_anonymous_follow record now_unix_ms =
     upsert_into follow_t
       (\<lambda>r. r\<lparr>af_username := af_username record, af_updated_at_unix_ms := now_unix_ms\<rparr>)
       (AnonymousFollowRecord.extend record (follow_row.fields now_unix_ms))"

definition get_anonymous_follows :: "(localdb, AnonymousFollowRecord list) db_op" where
  "get_anonymous_follows =
     op_query (\<lambda>db. Ok (map AnonymousFollowRecord.truncate
       (sort_key (\<lambda>r. (af_username r, af_user_id r)) (anonymous_follows db))))"

definition remove_anonymous_follow :: "string \<Rightarrow> (localdb, unit) db_op" where
  "remove_anonymous_follow user_id =
     op_bind (delete_from follow_t (\<lambda>r. af_user_id r = user_id)) (\<lambda>_. op_ok ())"

end
