(* ===== verification/Local_Invariant.thy ===== *)
theory Local_Invariant
  imports Local_Workspace
begin

text \<open>
  What every operation of the local database keeps.  \<open>db_mutation\<close> lists the operations that
  write; each is safe: a database that satisfies its schema satisfies it afterwards, and an
  operation that fails has changed nothing.
\<close>

section \<open>Updates that keep the unique columns\<close>

lemma op_bind_ok_safe [safe_intros]: "safe_op I m \<Longrightarrow> safe_op I (op_bind m (\<lambda>x. op_ok (g x)))"
  unfolding safe_op_def op_bind_def op_ok_def
proof (intro allI impI)
  fix s assume m: "\<forall>s. I s \<longrightarrow> (case m s of (Ok x, t) \<Rightarrow> I t | (Err e, t) \<Rightarrow> t = s)" and s: "I s"
  obtain r t where "m s = (r, t)" by (cases "m s")
  with m s show "case (case m s of (Ok x, t) \<Rightarrow> (Ok (g x), t) | (Err e, t) \<Rightarrow> (Err e, t)) of
      (Ok x, t) \<Rightarrow> I t | (Err e, t) \<Rightarrow> t = s"
    by (cases r) auto
qed

lemma with_db_keeps [safe_intros]: "(\<And>s. keeps I (f s)) \<Longrightarrow> keeps I (with_db f)"
  by (simp add: keeps_def with_db_def)

lemma prod_keeps [safe_intros]: "(\<And>a b. p = (a, b) \<Longrightarrow> keeps I (f a b)) \<Longrightarrow> keeps I (case p of (a, b) \<Rightarrow> f a b)"
  by (cases p) simp

lemma journal_update_one:
  assumes "\<And>r. oj_operation_id (f r) = oj_operation_id r" "\<And>r. P r \<Longrightarrow> oj_operation_id r = k"
  shows "safe_op wf_db (expect_one e (update_where journal_t P f))"
  by (rule journals.update_one_safe) (auto simp: journal_t_def assms)

lemma workspace_update:
  assumes "\<And>r. wr_resource_id (f r) = wr_resource_id r"
  shows "safe_op wf_db (update_where workspace_t P f)"
  by (rule workspaces.update_safe) (auto simp: workspace_t_def assms)

lemma workspace_update_one:
  assumes "\<And>r. wr_resource_id (f r) = wr_resource_id r" "\<And>r. P r \<Longrightarrow> wr_resource_id r = k"
  shows "safe_op wf_db (expect_one e (update_where workspace_t P f))"
  by (rule workspaces.update_one_safe) (auto simp: workspace_t_def assms)

lemma revision_update:
  assumes "\<And>r. rr_operation_id (f r) = rr_operation_id r" "\<And>r. rr_revision_id (f r) = rr_revision_id r"
  shows "safe_op wf_db (update_where revision_t P f)"
  by (rule revisions.update_safe) (auto simp: revision_t_def assms)

lemma revision_update_one:
  assumes "\<And>r. rr_operation_id (f r) = rr_operation_id r" "\<And>r. rr_revision_id (f r) = rr_revision_id r"
    "\<And>r. P r \<Longrightarrow> rr_operation_id r = k"
  shows "safe_op wf_db (expect_one e (update_where revision_t P f))"
  by (rule revisions.update_one_safe) (auto simp: revision_t_def assms)

lemma owned_update:
  assumes "\<And>r. os_resource_id (f r) = os_resource_id r" "\<And>r. os_locator (f r) = os_locator r"
  shows "safe_op wf_db (update_where owned_t P f)"
  by (rule owneds.update_safe) (auto simp: owned_t_def assms)

lemma subscription_update:
  assumes "\<And>r. sub_resource_id (f r) = sub_resource_id r" "\<And>r. sub_locator (f r) = sub_locator r"
  shows "safe_op wf_db (update_where subscription_t P f)"
  by (rule subscriptions.update_safe) (auto simp: subscription_t_def assms)

lemma pack_materialized_update:
  assumes "\<And>r. pms_resource_id (f r) = pms_resource_id r"
  shows "safe_op wf_db (update_where pack_materialized_t P f)"
  by (rule pack_materializeds.update_safe) (auto simp: pack_materialized_t_def assms)

lemma pack_journal_update:
  assumes "\<And>r. pj_operation_id (f r) = pj_operation_id r"
  shows "safe_op wf_db (update_where pack_journal_t P f)"
  by (rule pack_journals.update_safe) (auto simp: pack_journal_t_def assms)

lemma journal_delete_one:
  assumes "\<And>r. P r \<Longrightarrow> oj_operation_id r = k"
  shows "safe_op wf_db (expect_one e (delete_from journal_t P))"
  by (rule journals.delete_one_safe) (auto simp: journal_t_def assms)

lemmas updates_keep = workspace_update [THEN safe_keeps] revision_update [THEN safe_keeps]
  owned_update [THEN safe_keeps] subscription_update [THEN safe_keeps]
  pack_materialized_update [THEN safe_keeps] pack_journal_update [THEN safe_keeps]

text \<open>Serializing only reads.\<close>

lemma serialize_safe: "(\<And>text. safe_op I (f text)) \<Longrightarrow> safe_op I (op_bind (serialize C p) f)"
  by (rule op_bind_read_safe) (simp_all add: serialize_def)

lemma serialize_keeps [safe_intros]: "keeps I (serialize C p)"
  unfolding serialize_def by (rule safe_intros)

section \<open>The operations\<close>

lemmas journal_writes =
  create_bootstrap_journal_def update_bootstrap_def create_account_delete_journal_def
  advance_account_delete_journal_def finish_account_delete_journal_def create_import_journal_def
  update_import_journal_def create_materialization_journal_def update_materialization_journal_def
  discard_materialization_journal_def discard_planned_bootstrap_def create_workspace_writeback_journal_def
  update_workspace_writeback_journal_def discard_workspace_writeback_journal_def

lemma journal_ops_safe:
  "safe_op wf_db (create_bootstrap_journal L CB i pb n)"
  "safe_op wf_db (update_bootstrap L CB i x y pb n)"
  "safe_op wf_db (discard_planned_bootstrap L i)"
  "safe_op wf_db (create_account_delete_journal L CA i pa n)"
  "safe_op wf_db (advance_account_delete_journal L CA i x y pa n)"
  "safe_op wf_db (finish_account_delete_journal L i)"
  "safe_op wf_db (create_import_journal L CI i pi n)"
  "safe_op wf_db (update_import_journal L CI i x y pi n)"
  "safe_op wf_db (create_materialization_journal L CM i pm n)"
  "safe_op wf_db (update_materialization_journal L i x y n)"
  "safe_op wf_db (discard_materialization_journal L i)"
  "safe_op wf_db (create_workspace_writeback_journal L CW i pw n)"
  "safe_op wf_db (update_workspace_writeback_journal L i x y n)"
  "safe_op wf_db (discard_workspace_writeback_journal L i)"
  unfolding journal_writes
  by (intro safe_intros serialize_safe journal_update_one [where k = "operation_text L i"]
      journal_delete_one [where k = "operation_text L i"]; simp)+

lemma single_row_ops_safe:
  "safe_op wf_db clear_installation" "safe_op wf_db (save_installation r)"
  "safe_op wf_db (save_identity d n)" "safe_op wf_db clear_identity" "safe_op wf_db (clear_identity_session n)"
  "safe_op wf_db (save_harness_config h)" "safe_op wf_db (save_service v)"
  by (simp_all add: safe_op_def clear_installation_def save_installation_def save_identity_def clear_identity_def
      clear_identity_session_def save_harness_config_def save_service_def)

lemma lease_ops_safe: "safe_op wf_db (claim_lease k h n t)" "safe_op wf_db (release_lease k h)"
  unfolding claim_lease_def release_lease_def by (intro safe_intros)+

lemma deletes_safe:
  "safe_op wf_db (remove_subscription_record i)" "safe_op wf_db (remove_subscription i)"
  "safe_op wf_db clear_subscriptions" "safe_op wf_db (clear_subscription_edit_lock i)"
  "safe_op wf_db (remove_owned_skill i)" "safe_op wf_db (remove_pack_materialized_record i)"
  "safe_op wf_db (discard_pack_apply_journal L o')" "safe_op wf_db (clear_workspace_content_conflict i)"
  "safe_op wf_db (clear_workspace_file_index i)" "safe_op wf_db (clear_fork_sync_conflict i)"
  "safe_op wf_db (remove_local_fork i)" "safe_op wf_db (remove_anonymous_follow i)"
  unfolding remove_subscription_record_def remove_subscription_def clear_subscriptions_def
    clear_subscription_edit_lock_def remove_owned_skill_def remove_pack_materialized_record_def
    discard_pack_apply_journal_def clear_workspace_content_conflict_def clear_workspace_file_index_def
    clear_fork_sync_conflict_def remove_local_fork_def remove_anonymous_follow_def
  by (intro safe_intros)+

lemma upserts_safe:
  "safe_op wf_db (save_subscription_edit_lock i m n)" "safe_op wf_db (upsert_owned_skill_desired r1 n)"
  "safe_op wf_db (upsert_subscription_desired r2 n)" "safe_op wf_db (save_derived_projection_state r3 n)"
  "safe_op wf_db (save_local_fork r4 n)" "safe_op wf_db (upsert_skill_discovery_metadata i d l c n)"
  "safe_op wf_db (upsert_anonymous_follow r5 n)" "safe_op wf_db (save_fork_sync_conflict C r6 n)"
  unfolding save_subscription_edit_lock_def upsert_owned_skill_desired_def upsert_subscription_desired_def
    save_derived_projection_state_def save_local_fork_def upsert_skill_discovery_metadata_def
    upsert_anonymous_follow_def save_fork_sync_conflict_def
  by (intro safe_intros serialize_safe edit_locks.upsert_safe owneds.upsert_safe subscriptions.upsert_safe
      projections.upsert_safe forks.upsert_safe metadatas.upsert_safe follows.upsert_safe
      fork_conflicts.upsert_safe; simp add: table_defs)+

lemma save_workspace_content_conflict_safe: "safe_op wf_db (save_workspace_content_conflict C r n)"
proof (cases "\<exists>a b. wcc_head_revision_ids r = [a, b]")
  case True
  then obtain a b where "wcc_head_revision_ids r = [a, b]" by blast
  then show ?thesis
    by (simp only: save_workspace_content_conflict_def list.case)
      (intro safe_intros serialize_safe content_conflicts.upsert_safe, simp add: content_conflict_t_def)
next
  case False
  then have "save_workspace_content_conflict C r n =
      op_err (Corrupt ''workspace content conflict must preserve exactly two distinct heads'')"
    by (auto simp: save_workspace_content_conflict_def split: list.split)
  then show ?thesis by (simp add: op_err_safe)
qed

lemma workspace_ops_safe:
  "safe_op wf_db (ensure_workspace_baseline i g v t p n)"
  "safe_op wf_db (advance_clean_workspace_baseline i g v t p n)"
  "safe_op wf_db (pause_workspace i st m pr n)" "safe_op wf_db (adopt_registry_rename_baseline i g v t p n)"
  "safe_op wf_db (set_workspace_working_generation i p n)"
  "safe_op wf_db (mark_local_revision_detached_stored i n)"
  unfolding ensure_workspace_baseline_def advance_clean_workspace_baseline_def pause_workspace_def
    adopt_registry_rename_baseline_def set_workspace_working_generation_def
    mark_local_revision_detached_stored_def
  by (intro safe_intros workspace_update workspace_update_one [where k = i] revision_update_one [where k = i]; simp)+

lemma resume_workspace_safe: "safe_op wf_db (resume_workspace i n)"
  unfolding resume_workspace_def Let_def
  by (intro op_bind_read_safe workspace_update_one [where k = i]; simp)

lemma revision_ops_safe:
  "safe_op wf_db (enqueue_local_revision r n)" "safe_op wf_db (mark_local_revision_synced i g v n)"
  "safe_op wf_db (advance_owned_metadata_generation i e g n)" "safe_op wf_db (record_local_fork_revision r n)"
  "safe_op wf_db (replace_workspace_file_index i fs)"
  unfolding enqueue_local_revision_def mark_local_revision_synced_def advance_owned_metadata_generation_def
    record_local_fork_revision_def replace_workspace_file_index_def Let_def
  by (intro safe_intros expect_one_keeps updates_keep; simp)+

lemma commit_local_only_revision_safe: "safe_op wf_db (commit_local_only_revision r n)"
  unfolding commit_local_only_revision_def
  by (cases "checked_succ (lr_expected_generation r)")
    (simp_all only: option.case, (intro safe_intros updates_keep; simp)+)

lemma desired_ops_safe:
  "safe_op wf_db (reconcile_source_suppressions ss os ps n)" "safe_op wf_db (mark_skill_materialized i v n)"
  "safe_op wf_db (set_managed_harness_name i h n)"
  unfolding reconcile_source_suppressions_def mark_skill_materialized_def set_managed_harness_name_def
  by (intro safe_intros updates_keep suppressions.upsert_safe [THEN safe_keeps]; simp add: suppression_t_def)+

lemma pack_ops_safe:
  "safe_op wf_db (replace_pack_catalog packs sources n)" "safe_op wf_db (create_pack_apply_journal L C i p n)"
  "safe_op wf_db (commit_pack_apply L CS i skills conflicts n)"
  unfolding replace_pack_catalog_def create_pack_apply_journal_def commit_pack_apply_def
  by (intro safe_intros serialize_safe expect_one_keeps updates_keep; simp)+

section \<open>All operations that write\<close>

definition forget :: "('s, 'a, 'e) op \<Rightarrow> ('s, unit, 'e) op" where
  "forget m = op_bind m (\<lambda>_. op_ok ())"

inductive db_mutation :: "(localdb, unit) db_op \<Rightarrow> bool" where
  "db_mutation (remove_subscription_record i)"
| "db_mutation (remove_subscription i)"
| "db_mutation clear_subscriptions"
| "db_mutation clear_installation"
| "db_mutation (save_installation installation_record)"
| "db_mutation (save_identity identity now)"
| "db_mutation clear_identity"
| "db_mutation (clear_identity_session now)"
| "db_mutation (save_harness_config config)"
| "db_mutation (save_service service)"
| "db_mutation (create_bootstrap_journal L CB op_id pb now)"
| "db_mutation (forget (discard_planned_bootstrap L op_id))"
| "db_mutation (update_bootstrap L CB op_id x y pb now)"
| "db_mutation (create_account_delete_journal L CA op_id pa now)"
| "db_mutation (advance_account_delete_journal L CA op_id x y pa now)"
| "db_mutation (finish_account_delete_journal L op_id)"
| "db_mutation (create_import_journal L CI op_id pi now)"
| "db_mutation (update_import_journal L CI op_id x y pi now)"
| "db_mutation (create_materialization_journal L CM op_id pm now)"
| "db_mutation (update_materialization_journal L op_id x y now)"
| "db_mutation (discard_materialization_journal L op_id)"
| "db_mutation (create_workspace_writeback_journal L CW op_id pw now)"
| "db_mutation (update_workspace_writeback_journal L op_id x y now)"
| "db_mutation (discard_workspace_writeback_journal L op_id)"
| "db_mutation (forget (claim_lease k h now ttl))"
| "db_mutation (release_lease k h)"
| "db_mutation (reconcile_source_suppressions subs owned preserve now)"
| "db_mutation (save_subscription_edit_lock i msg now)"
| "db_mutation (clear_subscription_edit_lock i)"
| "db_mutation (upsert_owned_skill_desired owned_record now)"
| "db_mutation (remove_owned_skill i)"
| "db_mutation (upsert_subscription_desired subscription_record now)"
| "db_mutation (mark_skill_materialized i v now)"
| "db_mutation (set_managed_harness_name i hn now)"
| "db_mutation (replace_pack_catalog packs sources now)"
| "db_mutation (remove_pack_materialized_record i)"
| "db_mutation (create_pack_apply_journal L CP op_id pp now)"
| "db_mutation (discard_pack_apply_journal L op_id)"
| "db_mutation (commit_pack_apply L CS op_id skills conflicts now)"
| "db_mutation (save_workspace_content_conflict CS content_conflict now)"
| "db_mutation (clear_workspace_content_conflict i)"
| "db_mutation (ensure_workspace_baseline i g v t p now)"
| "db_mutation (advance_clean_workspace_baseline i g v t p now)"
| "db_mutation (pause_workspace i status msg pending now)"
| "db_mutation (resume_workspace i now)"
| "db_mutation (adopt_registry_rename_baseline i g v t p now)"
| "db_mutation (clear_workspace_file_index i)"
| "db_mutation (set_workspace_working_generation i p now)"
| "db_mutation (save_derived_projection_state projection now)"
| "db_mutation (replace_workspace_file_index i files)"
| "db_mutation (enqueue_local_revision revision now)"
| "db_mutation (advance_owned_metadata_generation i e g now)"
| "db_mutation (mark_local_revision_synced i g v now)"
| "db_mutation (mark_local_revision_detached_stored i now)"
| "db_mutation (save_fork_sync_conflict CS fork_conflict now)"
| "db_mutation (clear_fork_sync_conflict i)"
| "db_mutation (save_local_fork fork now)"
| "db_mutation (remove_local_fork i)"
| "db_mutation (commit_local_only_revision revision now)"
| "db_mutation (record_local_fork_revision revision now)"
| "db_mutation (upsert_skill_discovery_metadata i description license compatibility now)"
| "db_mutation (upsert_anonymous_follow follow now)"
| "db_mutation (remove_anonymous_follow i)"

lemmas all_ops_safe =
  journal_ops_safe single_row_ops_safe lease_ops_safe deletes_safe upserts_safe
  save_workspace_content_conflict_safe workspace_ops_safe resume_workspace_safe revision_ops_safe
  commit_local_only_revision_safe desired_ops_safe pack_ops_safe

lemma forget_safe: "safe_op I m \<Longrightarrow> safe_op I (forget m)"
  unfolding forget_def by (rule op_bind_ok_safe)

lemma db_mutation_safe: "db_mutation m \<Longrightarrow> safe_op wf_db m"
  by (induction rule: db_mutation.induct) (rule all_ops_safe | (rule forget_safe, rule all_ops_safe))+

text \<open>The databases an installation can have.\<close>

inductive reachable_db :: "localdb \<Rightarrow> bool" where
  fresh: "reachable_db empty_db"
| step: "reachable_db db \<Longrightarrow> db_mutation m \<Longrightarrow> reachable_db (snd (m db))"

lemma safe_opD: "safe_op I m \<Longrightarrow> I s \<Longrightarrow> I (snd (m s)) \<and> (fst (m s) = Err e \<longrightarrow> snd (m s) = s)"
  by (cases "m s"; cases "fst (m s)") (auto simp: safe_op_def dest!: spec [of _ s])

lemma reachable_wf: "reachable_db db \<Longrightarrow> wf_db db"
proof (induction rule: reachable_db.induct)
  case fresh
  show ?case by (rule wf_empty_db)
next
  case (step db m)
  then show ?case using safe_opD [OF db_mutation_safe] by blast
qed


section \<open>What an operation leaves alone\<close>

definition frame :: "('s \<Rightarrow> 'v) \<Rightarrow> ('s, 'a, 'e) op \<Rightarrow> bool" where
  "frame g m \<longleftrightarrow> (\<forall>s. g (snd (m s)) = g s)"

named_theorems frame_intros \<open>parts of the database an operation leaves alone\<close>

lemma frame_read [frame_intros]:
  "frame g (op_ok x)" "frame g (op_err e)" "frame g (op_res r)" "frame g (op_query q)"
  by (simp_all add: frame_def op_ok_def op_err_def op_res_def op_query_def)

lemma frame_serialize [frame_intros]: "frame g (serialize C p)"
  unfolding serialize_def by (rule frame_intros)

lemma frame_if [frame_intros]: "frame g m \<Longrightarrow> frame g n \<Longrightarrow> frame g (if c then m else n)"
  by simp

lemma frame_prod [frame_intros]: "(\<And>a b. frame g (f a b)) \<Longrightarrow> frame g (case p of (a, b) \<Rightarrow> f a b)"
  by (cases p) simp

lemma frame_bind [frame_intros]: "frame g m \<Longrightarrow> (\<And>x. frame g (f x)) \<Longrightarrow> frame g (op_bind m f)"
proof -
  assume m: "frame g m" and f: "\<And>x. frame g (f x)"
  have "g (snd (op_bind m f s)) = g s" for s
  proof (cases "m s")
    case (Pair r t)
    have "g t = g s" using m Pair unfolding frame_def by (metis snd_conv)
    with Pair f show ?thesis by (cases r) (simp_all add: op_bind_def frame_def)
  qed
  then show ?thesis by (simp add: frame_def)
qed

lemma frame_each [frame_intros]: "(\<And>x. frame g (f x)) \<Longrightarrow> frame g (op_each f xs)"
  by (induction xs) (simp_all add: frame_intros)

lemma frame_transaction [frame_intros]: "frame g m \<Longrightarrow> frame g (transaction m)"
  unfolding frame_def transaction_def by (auto split: prod.splits result.splits) (metis snd_conv)

lemma frame_expect_one [frame_intros]: "frame g m \<Longrightarrow> frame g (expect_one e m)"
  unfolding expect_one_def by (intro frame_intros)

lemma frame_with_db [frame_intros]: "(\<And>s. frame g (f s)) \<Longrightarrow> frame g (with_db f)"
  by (simp add: frame_def with_db_def)

lemma frame_table [frame_intros]:
  assumes "\<And>t s. g (tb_put T t s) = g s"
  shows "frame g (insert_into T row)" "frame g (upsert_into T f row)" "frame g (insert_or_ignore T row)"
    "frame g (update_where T P f)" "frame g (delete_from T P)"
  using assms by (auto simp: frame_def insert_into_def upsert_into_def insert_or_ignore_def update_where_def
      delete_from_def sql_exec_def split: option.split)

section \<open>The journal only moves forward\<close>

text \<open>A row of the journal before and after: same kind and birth, same state or the next one.\<close>

definition forward :: "journal_row \<Rightarrow> journal_row \<Rightarrow> bool" where
  "forward r r' \<longleftrightarrow> oj_kind r' = oj_kind r \<and> oj_created_at_unix_ms r' = oj_created_at_unix_ms r \<and>
     (oj_state r' = oj_state r \<or>
      (\<exists>s s'. JournalState_from_str (oj_state r) = Ok s \<and> JournalState_from_str (oj_state r') = Ok s' \<and>
         JournalState_next s = Some s'))"

definition journal_step :: "localdb \<Rightarrow> localdb \<Rightarrow> bool" where
  "journal_step db db' \<longleftrightarrow> (\<forall>r \<in> set (operation_journal db). \<forall>r' \<in> set (operation_journal db').
     oj_operation_id r' = oj_operation_id r \<longrightarrow> forward r r')"

definition steps_journal :: "(localdb, 'a) db_op \<Rightarrow> bool" where
  "steps_journal m \<longleftrightarrow> (\<forall>db. wf_db db \<longrightarrow> journal_step db (snd (m db)))"

lemma journal_unique:
  "wf_db db \<Longrightarrow> r \<in> set (operation_journal db) \<Longrightarrow> q \<in> set (operation_journal db) \<Longrightarrow>
   oj_operation_id r = oj_operation_id q \<Longrightarrow> r = q"
  using journals.rows.key_unique [OF journals.stored] by (simp add: journal_t_def)

lemma forward_refl [simp]: "forward r r"
  by (simp add: forward_def)

lemma journal_step_subset:
  "wf_db db \<Longrightarrow> set (operation_journal db') \<subseteq> set (operation_journal db) \<Longrightarrow> journal_step db db'"
  unfolding journal_step_def by (metis forward_refl journal_unique subsetD)

lemma frame_steps: "frame operation_journal m \<Longrightarrow> steps_journal m"
  unfolding steps_journal_def frame_def by (metis journal_step_subset order_refl)

lemma insert_steps: "steps_journal (insert_into journal_t row)"
  unfolding steps_journal_def
proof (intro allI impI)
  fix db assume wf: "wf_db db"
  let ?i = "sql_insert (tb_clash journal_t) (tb_admit journal_t db) row (tb_get journal_t db)"
  have i: "snd (insert_into journal_t row db) = (case ?i of None \<Rightarrow> db | Some t \<Rightarrow> db\<lparr>operation_journal := t\<rparr>)"
    by (simp add: insert_into_def sql_exec_def journal_t_def split: option.split)
  show "journal_step db (snd (insert_into journal_t row db))"
  proof (cases ?i)
    case None
    with wf i show ?thesis by (simp add: journal_step_subset)
  next
    case (Some t)
    then have "t = operation_journal db @ [row]" "oj_operation_id row \<notin> oj_operation_id ` set (operation_journal db)"
      by (auto simp: journal_t_def sql_insert_def list_ex_iff split: if_splits)
    with Some i show ?thesis unfolding journal_step_def using journal_unique [OF wf] by force
  qed
qed

lemma delete_steps: "steps_journal (delete_from journal_t P)"
  unfolding steps_journal_def
  by (auto simp: delete_from_def journal_t_def sql_delete_def intro: journal_step_subset)

lemma update_steps:
  assumes "\<And>r. oj_operation_id (f r) = oj_operation_id r" "\<And>r. P r \<Longrightarrow> forward r (f r)"
  shows "steps_journal (update_where journal_t P f)"
  unfolding steps_journal_def
proof (intro allI impI)
  fix db assume wf: "wf_db db"
  let ?db = "snd (update_where journal_t P f db)"
  have "set (operation_journal ?db) \<subseteq> (\<lambda>r. if P r then f r else r) ` set (operation_journal db) \<union> set (operation_journal db)"
    by (auto simp: update_where_def sql_exec_def journal_t_def sql_update_def split: option.splits if_splits)
  then show "journal_step db ?db"
    unfolding journal_step_def using assms journal_unique [OF wf] by (fastforce split: if_splits)
qed

lemma bind_steps:
  "steps_journal m \<Longrightarrow> (\<And>x. reads_only (f x)) \<Longrightarrow> steps_journal (op_bind m f)"
  "reads_only n \<Longrightarrow> (\<And>x. steps_journal (g x)) \<Longrightarrow> steps_journal (op_bind n g)"
proof -
  assume m: "steps_journal m" and f: "\<And>x. reads_only (f x)"
  have "snd (op_bind m f db) = snd (m db)" for db
    using f by (cases "m db"; cases "fst (m db)") (simp_all add: op_bind_def reads_only_def)
  with m show "steps_journal (op_bind m f)" by (simp add: steps_journal_def)
next
  assume n: "reads_only n" and g: "\<And>x. steps_journal (g x)"
  have "snd (op_bind n g db) = db \<or> (\<exists>x. snd (op_bind n g db) = snd (g x db))" for db
  proof (cases "n db")
    case (Pair r t)
    have "t = db" using n Pair unfolding reads_only_def by (metis snd_conv)
    with Pair show ?thesis by (cases r) (auto simp: op_bind_def)
  qed
  with g show "steps_journal (op_bind n g)"
    unfolding steps_journal_def by (metis journal_step_subset order_refl)
qed

lemma if_steps: "steps_journal m \<Longrightarrow> (\<not> c \<Longrightarrow> steps_journal n) \<Longrightarrow> steps_journal (if c then m else n)"
  by simp

lemma moved_on:
  "\<not> JournalState_next x \<noteq> Some y \<Longrightarrow> oj_state r = JournalState_as_str x \<Longrightarrow>
   oj_kind r' = oj_kind r \<Longrightarrow> oj_created_at_unix_ms r' = oj_created_at_unix_ms r \<Longrightarrow>
   oj_state r' = JournalState_as_str y \<Longrightarrow> forward r r'"
  by (auto simp: forward_def)

lemma expect_one_steps: "steps_journal m \<Longrightarrow> steps_journal (expect_one e m)"
  unfolding expect_one_def by (rule bind_steps) simp_all

lemma journal_ops_step:
  "steps_journal (create_bootstrap_journal L CB i pb n)"
  "steps_journal (update_bootstrap L CB i x y pb n)"
  "steps_journal (discard_planned_bootstrap L i)"
  "steps_journal (create_account_delete_journal L CA i pa n)"
  "steps_journal (advance_account_delete_journal L CA i x y pa n)"
  "steps_journal (finish_account_delete_journal L i)"
  "steps_journal (create_import_journal L CI i pi n)"
  "steps_journal (update_import_journal L CI i x y pi n)"
  "steps_journal (create_materialization_journal L CM i pm n)"
  "steps_journal (update_materialization_journal L i x y n)"
  "steps_journal (discard_materialization_journal L i)"
  "steps_journal (create_workspace_writeback_journal L CW i pw n)"
  "steps_journal (update_workspace_writeback_journal L i x y n)"
  "steps_journal (discard_workspace_writeback_journal L i)"
  unfolding journal_writes serialize_def
  by (intro if_steps frame_steps [OF frame_read(2)] bind_steps(2) expect_one_steps update_steps insert_steps
        bind_steps(1) [OF delete_steps] delete_steps; (simp; fail)?; (elim conjE)?; (rule moved_on; simp)?)+

lemma other_ops_frame:
  "frame operation_journal (remove_subscription_record i)" "frame operation_journal (remove_subscription i)"
  "frame operation_journal clear_subscriptions" "frame operation_journal clear_installation"
  "frame operation_journal (save_installation r)" "frame operation_journal (save_identity d n)"
  "frame operation_journal clear_identity" "frame operation_journal (clear_identity_session n)"
  "frame operation_journal (save_harness_config hc)" "frame operation_journal (save_service v)"
  "frame operation_journal (remove_owned_skill i)"
  by (simp_all add: frame_def remove_subscription_record_def remove_subscription_def clear_subscriptions_def
      clear_installation_def save_installation_def save_identity_def clear_identity_def
      clear_identity_session_def save_harness_config_def save_service_def remove_owned_skill_def
      op_bind_def op_ok_def delete_subscriptions_def delete_owned_def Let_def)

lemma delete_packs_frame [frame_intros]: "frame operation_journal (delete_pack_subscriptions P)"
  by (simp add: frame_def delete_pack_subscriptions_def Let_def)

lemma frame_case_list [frame_intros]:
  "frame g m \<Longrightarrow> (\<And>x xs. frame g (f x xs)) \<Longrightarrow> frame g (case ys of [] \<Rightarrow> m | x # xs \<Rightarrow> f x xs)"
  by (cases ys) simp_all

lemma frame_case_option [frame_intros]:
  "frame g m \<Longrightarrow> (\<And>x. frame g (f x)) \<Longrightarrow> frame g (case y of None \<Rightarrow> m | Some x \<Rightarrow> f x)"
  by (cases y) simp_all

lemma table_ops_frame:
  "frame operation_journal (claim_lease k h n ttl)" "frame operation_journal (release_lease k h)"
  "frame operation_journal (reconcile_source_suppressions ss os ps n)"
  "frame operation_journal (save_subscription_edit_lock i m n)"
  "frame operation_journal (clear_subscription_edit_lock i)"
  "frame operation_journal (upsert_owned_skill_desired r1 n)"
  "frame operation_journal (upsert_subscription_desired r2 n)"
  "frame operation_journal (mark_skill_materialized i v n)"
  "frame operation_journal (set_managed_harness_name i hn n)"
  "frame operation_journal (replace_pack_catalog packs sources n)"
  "frame operation_journal (remove_pack_materialized_record i)"
  "frame operation_journal (create_pack_apply_journal L CP o' pp n)"
  "frame operation_journal (discard_pack_apply_journal L o')"
  "frame operation_journal (commit_pack_apply L CS o' skills conflicts n)"
  "frame operation_journal (save_workspace_content_conflict CS r3 n)"
  "frame operation_journal (clear_workspace_content_conflict i)"
  unfolding claim_lease_def release_lease_def reconcile_source_suppressions_def save_subscription_edit_lock_def
    clear_subscription_edit_lock_def upsert_owned_skill_desired_def upsert_subscription_desired_def
    mark_skill_materialized_def set_managed_harness_name_def replace_pack_catalog_def
    remove_pack_materialized_record_def create_pack_apply_journal_def discard_pack_apply_journal_def
    commit_pack_apply_def save_workspace_content_conflict_def clear_workspace_content_conflict_def
  by (intro frame_intros; simp add: table_defs)+

lemma workspace_ops_frame:
  "frame operation_journal (ensure_workspace_baseline i g v t p n)"
  "frame operation_journal (advance_clean_workspace_baseline i g v t p n)"
  "frame operation_journal (pause_workspace i st m pr n)" "frame operation_journal (resume_workspace i n)"
  "frame operation_journal (adopt_registry_rename_baseline i g v t p n)"
  "frame operation_journal (clear_workspace_file_index i)"
  "frame operation_journal (set_workspace_working_generation i p n)"
  "frame operation_journal (save_derived_projection_state r4 n)"
  "frame operation_journal (replace_workspace_file_index i fs)"
  "frame operation_journal (enqueue_local_revision r5 n)"
  "frame operation_journal (advance_owned_metadata_generation i e g n)"
  "frame operation_journal (mark_local_revision_synced i g v n)"
  "frame operation_journal (mark_local_revision_detached_stored i n)"
  "frame operation_journal (save_fork_sync_conflict CS r6 n)"
  "frame operation_journal (clear_fork_sync_conflict i)" "frame operation_journal (save_local_fork r7 n)"
  "frame operation_journal (remove_local_fork i)" "frame operation_journal (commit_local_only_revision r5 n)"
  "frame operation_journal (record_local_fork_revision r5 n)"
  "frame operation_journal (upsert_skill_discovery_metadata i d l c n)"
  "frame operation_journal (upsert_anonymous_follow r8 n)" "frame operation_journal (remove_anonymous_follow i)"
  unfolding ensure_workspace_baseline_def advance_clean_workspace_baseline_def pause_workspace_def
    resume_workspace_def adopt_registry_rename_baseline_def clear_workspace_file_index_def
    set_workspace_working_generation_def save_derived_projection_state_def replace_workspace_file_index_def
    enqueue_local_revision_def advance_owned_metadata_generation_def mark_local_revision_synced_def
    mark_local_revision_detached_stored_def save_fork_sync_conflict_def clear_fork_sync_conflict_def
    save_local_fork_def remove_local_fork_def commit_local_only_revision_def record_local_fork_revision_def
    upsert_skill_discovery_metadata_def upsert_anonymous_follow_def remove_anonymous_follow_def Let_def
  by (intro frame_intros; simp add: table_defs)+

lemma forget_steps: "steps_journal m \<Longrightarrow> steps_journal (forget m)"
  unfolding forget_def by (rule bind_steps(1)) simp_all

lemma db_mutation_steps: "db_mutation m \<Longrightarrow> steps_journal m"
  by (induction rule: db_mutation.induct)
    (rule journal_ops_step
       | (rule frame_steps, rule other_ops_frame table_ops_frame workspace_ops_frame)
       | (rule forget_steps, rule journal_ops_step)
       | (rule forget_steps, rule frame_steps, rule table_ops_frame))+

section \<open>The properties\<close>

text \<open>An example installation: one owned skill with its workspace, and a planned materialization.\<close>

definition plain_uuid :: uuid_lib where
  "plain_uuid = \<lparr>uu_version_num = \<lambda>_. 7, uu_parse_str = Ok, uu_to_string = \<lambda>b. b\<rparr>"

definition blank_codec :: "'p codec" where
  "blank_codec = \<lparr>to_text = \<lambda>_. Ok ''{}'', from_text = \<lambda>_. Err ''blank''\<rparr>"

definition example_owned :: OwnedSkillRecord where
  "example_owned =
     \<lparr>os_resource_id = ''r'', os_locator = ''@a/review'', os_owner = ''a'', os_skill_name = ''review'',
      os_resource_generation = 1, os_workspace_generation = 1, os_desired_revision_id = ''v'', os_harness_name = None,
      os_materialized_revision_id = None\<rparr>"

definition owned_db :: localdb where
  "owned_db = snd (ensure_workspace_baseline ''r'' 1 ''v'' ''t'' ''p'' 2 (snd (upsert_owned_skill_desired example_owned 1 empty_db)))"

definition example_materialization :: MaterializationJournalPayload where
  "example_materialization =
     \<lparr>mat_resource_id = ''r'', mat_revision_id = ''v'', mat_stage_dir = ''s'', mat_generation_dir = ''g'',
      mat_canonical_path = ''c''\<rparr>"

definition planned_db :: localdb where
  "planned_db = snd (create_materialization_journal plain_uuid blank_codec (OperationId ''op'') example_materialization 3 owned_db)"

lemma owned_db_reachable: "reachable_db owned_db"
  unfolding owned_db_def by (intro reachable_db.intros db_mutation.intros)

lemma planned_db_reachable: "reachable_db planned_db"
  unfolding planned_db_def by (intro reachable_db.step owned_db_reachable db_mutation.intros)

lemmas db_eval =
  op_bind_def op_ok_def op_err_def op_res_def op_query_def transaction_def expect_one_def sql_exec_def
  insert_into_def upsert_into_def insert_or_ignore_def update_where_def delete_from_def sql_insert_def
  sql_upsert_def sql_insert_or_ignore_def sql_update_def sql_delete_def sql_count_def sql_first_def
  empty_db_def is_owned_def

lemma owned_db_rows:
  "map wr_resource_id (workspace_state owned_db) = [''r'']" "operation_journal owned_db = []"
  by (simp_all add: owned_db_def example_owned_def ensure_workspace_baseline_def upsert_owned_skill_desired_def
      db_eval owned_t_def workspace_t_def)

lemma planned_db_rows: "operation_journal planned_db = [planned_row ''op'' ''materialize_skill'' ''{}'' 3]"
  by (simp add: planned_db_def create_materialization_journal_def serialize_def blank_codec_def plain_uuid_def
      operation_text_def planned_row_def db_eval journal_t_def owned_db_rows)







end
