(* ===== verification/Local_Protocols.thy ===== *)
theory Local_Protocols
  imports Local_Invariant
begin

text \<open>
  Three protocols on the local database: work leases exclude each other until they expire,
  opening a database always ends and ends at the current schema, and a queued revision is read
  back as it was written.  Also two gaps the model shows.
\<close>

section \<open>Leases\<close>

text \<open>What two processes can do to the leases.\<close>

datatype lease_event =
    Claim string string int int
  | Release string string

fun lease_do :: "lease_event \<Rightarrow> (localdb, bool) db_op" where
  "lease_do (Claim k h now ttl) = claim_lease k h now ttl"
| "lease_do (Release k h) = op_bind (release_lease k h) (\<lambda>_. op_ok False)"

fun lease_run :: "lease_event list \<Rightarrow> localdb \<Rightarrow> (bool, LocalDbError) result list \<times> localdb" where
  "lease_run [] db = ([], db)"
| "lease_run (ev # evs) db =
     (let (r, db1) = lease_do ev db; (rs, db2) = lease_run evs db1 in (r # rs, db2))"

text \<open>Events that cannot end the lease of \<open>h\<close> on \<open>k\<close> before \<open>expiry\<close>.\<close>

fun harmless :: "string \<Rightarrow> string \<Rightarrow> int \<Rightarrow> lease_event \<Rightarrow> bool" where
  "harmless k h expiry (Claim k' h' now ttl) \<longleftrightarrow> k' = k \<longrightarrow> now < expiry"
| "harmless k h expiry (Release k' h') \<longleftrightarrow> k' = k \<longrightarrow> h' \<noteq> h"

fun claims :: "string \<Rightarrow> lease_event \<Rightarrow> bool" where
  "claims k (Claim k' h' now ttl) \<longleftrightarrow> k' = k"
| "claims k (Release k' h') \<longleftrightarrow> False"

lemma claim_lease_eq:
  assumes "0 < ttl"
  shows "claim_lease k h now ttl db =
    (let t = sql_delete (\<lambda>r. wl_resource_key r = k \<and> wl_expires_at_unix_ms r \<le> now) (work_leases db) in
     if list_ex (\<lambda>r. wl_resource_key r = k) t then (Ok False, db\<lparr>work_leases := t\<rparr>)
     else (Ok True, db\<lparr>work_leases := t @ [\<lparr>wl_resource_key = k, wl_holder = h,
        wl_expires_at_unix_ms = saturating_add now ttl\<rparr>]\<rparr>))"
proof -
  have e: "list_ex (\<lambda>r. k = wl_resource_key r) t = list_ex (\<lambda>r. wl_resource_key r = k) t" for t
    by (auto simp: list_ex_iff)
  show ?thesis
    using assms by (simp add: claim_lease_def transaction_def op_bind_def op_ok_def delete_from_def
        insert_or_ignore_def sql_exec_def sql_insert_or_ignore_def sql_insert_def lease_t_def Let_def e)
qed

lemma claim_lease_bad_ttl: "ttl \<le> 0 \<Longrightarrow> claim_lease k h now ttl db = (Err (InvalidLeaseTtl ttl), db)"
  by (simp add: claim_lease_def op_err_def)

lemma harmless_keeps:
  assumes row: "r \<in> set (work_leases db)" "wl_resource_key r = k" "wl_holder r = h"
    and ev: "harmless k h (wl_expires_at_unix_ms r) ev"
  shows "r \<in> set (work_leases (snd (lease_do ev db))) \<and> (claims k ev \<longrightarrow> fst (lease_do ev db) \<noteq> Ok True)"
proof (cases ev)
  case (Claim k' h' now ttl)
  show ?thesis
  proof (cases "0 < ttl")
    case True
    let ?t = "sql_delete (\<lambda>r. wl_resource_key r = k' \<and> wl_expires_at_unix_ms r \<le> now) (work_leases db)"
    have "r \<in> set ?t" using row ev Claim by (auto simp: sql_delete_def)
    moreover from this have "k' = k \<longrightarrow> list_ex (\<lambda>r. wl_resource_key r = k) ?t"
      using row by (auto simp: list_ex_iff)
    ultimately show ?thesis using Claim True by (auto simp: claim_lease_eq Let_def)
  next
    case False
    then show ?thesis using Claim row by (simp add: claim_lease_bad_ttl)
  qed
next
  case (Release k' h')
  with row ev show ?thesis
    by (auto simp: release_lease_def op_bind_def op_ok_def delete_from_def lease_t_def sql_delete_def)
qed

lemma lease_run_keeps:
  assumes "r \<in> set (work_leases db)" "wl_resource_key r = k" "wl_holder r = h"
    "list_all (harmless k h (wl_expires_at_unix_ms r)) evs"
  shows "r \<in> set (work_leases (snd (lease_run evs db))) \<and>
    list_all2 (\<lambda>ev res. claims k ev \<longrightarrow> res \<noteq> Ok True) evs (fst (lease_run evs db))"
  using assms
proof (induction evs arbitrary: db)
  case (Cons ev evs)
  have now: "r \<in> set (work_leases (snd (lease_do ev db)))" "claims k ev \<longrightarrow> fst (lease_do ev db) \<noteq> Ok True"
    using harmless_keeps [of r db k h ev] Cons.prems by auto
  from Cons.IH [OF now(1)] Cons.prems now(2) show ?case
    by (auto simp: Let_def case_prod_unfold)
qed simp

section \<open>Migrations\<close>

text \<open>What every migration script promises: it ends by setting the version to its number.\<close>

definition scripts_set_version :: "'f sqlite \<Rightarrow> bool" where
  "scripts_set_version S \<longleftrightarrow> (\<forall>n f f'. execute_batch S n f = Ok f' \<longrightarrow> user_version S f' = int n)"

lemma migrate_loop_ends:
  assumes S: "scripts_set_version S" and v: "0 \<le> v" "v \<le> 14" "k = nat (14 - v)" "v = 14 \<longrightarrow> user_version S f = 14"
  shows "\<exists>r. migrate_loop S v f = Some r \<and> (\<forall>f'. r = Ok f' \<longrightarrow> user_version S f' = 14) \<and>
    ((\<forall>n f. is_ok (execute_batch S n f)) \<longrightarrow> is_ok r)"
  using v
proof (induction k arbitrary: v f)
  case 0
  then show ?case by (simp add: migrate_loop.simps CURRENT_SCHEMA_VERSION_def)
next
  case (Suc k)
  then have lt: "v < 14" "migration_for v = Some (nat v + 1)" by (simp_all add: migration_for_def)
  show ?case
  proof (cases "execute_batch S (nat v + 1) f")
    case (Ok f')
    then have v': "user_version S f' = v + 1" using S Suc.prems(1) by (auto simp: scripts_set_version_def)
    have "migrate_loop S v f = migrate_loop S (v + 1) f'"
      using lt Ok v' by (subst migrate_loop.simps) (simp add: CURRENT_SCHEMA_VERSION_def)
    moreover have "0 \<le> v + 1" "v + 1 \<le> 14" "k = nat (14 - (v + 1))" using Suc.prems lt by auto
    ultimately show ?thesis using Suc.IH [of "v + 1" f'] v' by simp
  next
    case (Err e)
    have "migrate_loop S v f = Some (result.Err e)"
      using lt Err by (subst migrate_loop.simps) (simp add: CURRENT_SCHEMA_VERSION_def)
    moreover have "\<not> (\<forall>n f. is_ok (execute_batch S n f))" using Err by (metis is_ok.simps(2))
    ultimately show ?thesis by simp
  qed
qed

lemma migrate_loop_rejects: "v < 0 \<Longrightarrow> migrate_loop S v f = Some (Err (UnsupportedSchema v))"
  by (subst migrate_loop.simps) (simp add: CURRENT_SCHEMA_VERSION_def migration_for_def)

section \<open>The queue of local revisions\<close>

text \<open>What the queue gives back for a revision: its parents sorted, its state \<open>queued\<close>.\<close>

definition as_queued :: "LocalRevisionRecord \<Rightarrow> LocalRevisionRecord" where
  "as_queued r = r\<lparr>lr_parent_revision_ids := sort (lr_parent_revision_ids r), lr_state := ''queued''\<rparr>"

text \<open>The two columns for the parents hold the sorted list.\<close>

lemma parent_columns:
  assumes "h \<in> set ps" "length ps \<le> 2" "distinct ps" "sorted ps"
  shows "sort (h # (case find (\<lambda>p. p \<noteq> h) ps of None \<Rightarrow> [] | Some p \<Rightarrow> [p])) = (ps :: string list)"
proof -
  consider a where "ps = [a]" | a b where "ps = [a, b]"
    using assms(1,2) by (cases ps; cases "tl ps") (auto split: if_splits)
  then show ?thesis
  proof cases
    case 1
    with assms show ?thesis by simp
  next
    case 2
    with assms have "h = a \<or> h = b" "a < b" by auto
    with 2 show ?thesis by (auto simp: less_imp_le)
  qed
qed

lemma transaction_Ok: "transaction m s = (Ok x, t) \<longleftrightarrow> m s = (Ok x, t)"
  by (cases "m s"; cases "fst (m s)") (simp_all add: transaction_def)

lemma op_bind_Ok: "op_bind m f s = (Ok y, t) \<longleftrightarrow> (\<exists>x u. m s = (Ok x, u) \<and> f x u = (Ok y, t))"
  by (cases "m s"; cases "fst (m s)") (simp_all add: op_bind_def)

lemma frameD: "frame g m \<Longrightarrow> m s = (r, t) \<Longrightarrow> g t = g s"
  unfolding frame_def by (metis snd_conv)

lemma insert_revision_Ok:
  "insert_into revision_t row db = (Ok (), db') \<Longrightarrow> local_revisions db' = local_revisions db @ [row]"
  by (auto simp: insert_into_def sql_exec_def revision_t_def sql_insert_def split: if_splits)

lemma enqueue_Ok:
  assumes "enqueue_local_revision r now db = (Ok (), db')"
  shows "local_revisions db' = local_revisions db @
      [revision_row_of r (find (\<lambda>p. p \<noteq> lr_expected_head_revision_id r) (sort (lr_parent_revision_ids r))) ''queued'' now] \<and>
    lr_expected_head_revision_id r \<in> set (lr_parent_revision_ids r) \<and> length (lr_parent_revision_ids r) \<le> 2 \<and>
    distinct (lr_parent_revision_ids r)"
proof -
  let ?ps = "sort (lr_parent_revision_ids r)"
  have guard: "length ?ps \<le> 2" "adjacent_dup (\<lambda>p. p) ?ps = None" "lr_expected_head_revision_id r \<in> set ?ps"
    using assms by (auto simp: enqueue_local_revision_def Let_def op_err_def split: if_splits)
  then obtain db1 f where i: "insert_into revision_t (revision_row_of r
        (find (\<lambda>p. p \<noteq> lr_expected_head_revision_id r) ?ps) ''queued'' now) db = (Ok (), db1)"
    and u: "expect_one no_rows (update_where workspace_t (\<lambda>w. wr_resource_id w = lr_resource_id r) f) db1 = (Ok (), db')"
    using assms by (auto simp: enqueue_local_revision_def Let_def op_err_def transaction_Ok op_bind_Ok split: if_splits)
  have "frame local_revisions (expect_one no_rows (update_where workspace_t (\<lambda>w. wr_resource_id w = lr_resource_id r) f))"
    by (intro frame_intros) (simp add: workspace_t_def)
  from frameD [OF this u] insert_revision_Ok [OF i] guard show ?thesis
    using adjacent_dup_None_sorted [of "\<lambda>p. p" ?ps] by simp
qed

section \<open>The properties\<close>

text \<open>C29. A lease excludes everybody: once a claim of a key has succeeded, then as long as
  claims of that key come before the expiry and its holder does not release it, the lease stays in
  place and no claim of the key succeeds, whoever makes it.\<close>

theorem lease_is_exclusive:
  assumes "claim_lease k h now ttl db = (Ok True, db1)"
    and "list_all (harmless k h (saturating_add now ttl)) evs"
  shows "\<lparr>wl_resource_key = k, wl_holder = h, wl_expires_at_unix_ms = saturating_add now ttl\<rparr>
      \<in> set (work_leases (snd (lease_run evs db1))) \<and>
    list_all2 (\<lambda>ev res. claims k ev \<longrightarrow> res \<noteq> Ok True) evs (fst (lease_run evs db1))"
proof -
  have "0 < ttl" using assms(1) claim_lease_bad_ttl [of ttl k h now db] by (cases "0 < ttl") auto
  then have "\<lparr>wl_resource_key = k, wl_holder = h, wl_expires_at_unix_ms = saturating_add now ttl\<rparr> \<in> set (work_leases db1)"
    using assms(1) by (auto simp: claim_lease_eq Let_def split: if_splits)
  from lease_run_keeps [OF this, of k h evs] assms(2) show ?thesis by simp
qed

theorem lease_is_exclusive_witness:
  "fst (lease_run [Claim ''k'' ''b'' 12 5, Release ''k'' ''b'', Claim ''k'' ''a'' 14 5]
     (snd (claim_lease ''k'' ''a'' 10 5 empty_db))) = [Ok False, Ok False, Ok False] \<and>
   \<lparr>wl_resource_key = ''k'', wl_holder = ''a'', wl_expires_at_unix_ms = saturating_add 10 5\<rparr>
     \<in> set (work_leases (snd (lease_run [Claim ''k'' ''b'' 12 5, Release ''k'' ''b'', Claim ''k'' ''a'' 14 5]
       (snd (claim_lease ''k'' ''a'' 10 5 empty_db)))))"
proof
  let ?evs = "[Claim ''k'' ''b'' 12 5, Release ''k'' ''b'', Claim ''k'' ''a'' 14 5]"
  let ?db = "snd (claim_lease ''k'' ''a'' 10 5 empty_db)"
  show "fst (lease_run ?evs ?db) = [Ok False, Ok False, Ok False]"
    by (simp add: claim_lease_eq release_lease_def lease_t_def db_eval saturating_add_def Let_def)
  have "claim_lease ''k'' ''a'' 10 5 empty_db = (Ok True, ?db)" by (simp add: claim_lease_eq db_eval Let_def)
  moreover have "list_all (harmless ''k'' ''a'' (saturating_add 10 5)) ?evs" by (simp add: saturating_add_def)
  ultimately show "\<lparr>wl_resource_key = ''k'', wl_holder = ''a'', wl_expires_at_unix_ms = saturating_add 10 5\<rparr>
      \<in> set (work_leases (snd (lease_run ?evs ?db)))"
    using lease_is_exclusive by blast
qed


definition counting_sqlite :: "int sqlite" where
  "counting_sqlite = \<lparr>user_version = \<lambda>v. v, execute_batch = \<lambda>n v. Ok (int n), set_wal = Ok\<rparr>"


text \<open>A queued revision is read back: after a revision has been enqueued, the queue holds it with
  its parents in order, and the expected head and the optional merge parent of the row are exactly
  the parents it was given.\<close>

theorem enqueued_revision_is_read_back:
  assumes "enqueue_local_revision r now db = (Ok (), db')"
  shows "\<exists>rs. queued_local_revisions db' = (Ok rs, db') \<and> as_queued r \<in> set rs"
proof -
  let ?ps = "sort (lr_parent_revision_ids r)"
  let ?row = "revision_row_of r (find (\<lambda>p. p \<noteq> lr_expected_head_revision_id r) ?ps) ''queued'' now"
  have e: "local_revisions db' = local_revisions db @ [?row]" "lr_expected_head_revision_id r \<in> set ?ps"
      "length ?ps \<le> 2" "distinct ?ps"
    using enqueue_Ok [OF assms] by simp_all
  have "read_revision ?row = as_queued r"
    using parent_columns [OF e(2-4)] by (simp add: read_revision_def revision_row_of_def as_queued_def)
  moreover have "?row \<in> set (filter (\<lambda>r. rr_state r = ''queued'') (local_revisions db'))"
    using e(1) by (simp add: revision_row_of_def)
  ultimately show ?thesis by (force simp: queued_local_revisions_def op_query_def)
qed

definition example_revision :: LocalRevisionRecord where
  "example_revision =
     \<lparr>lr_operation_id = ''o1'', lr_resource_id = ''r'', lr_revision_id = ''w'', lr_expected_head_revision_id = ''v'',
      lr_parent_revision_ids = [''v'', ''u''], lr_expected_generation = 1, lr_root_tree_id = ''t2'',
      lr_manifest_json = ''{}'', lr_state = ''new''\<rparr>"

theorem enqueued_revision_is_read_back_witness:
  "\<exists>rs. queued_local_revisions (snd (enqueue_local_revision example_revision 5 owned_db)) =
       (Ok rs, snd (enqueue_local_revision example_revision 5 owned_db)) \<and> as_queued example_revision \<in> set rs"
proof (rule enqueued_revision_is_read_back)
  have "fst (enqueue_local_revision example_revision 5 owned_db) = Ok ()"
    by (simp add: enqueue_local_revision_def example_revision_def revision_row_of_def owned_db_def example_owned_def
        ensure_workspace_baseline_def upsert_owned_skill_desired_def db_eval owned_t_def workspace_t_def revision_t_def)
  then show "enqueue_local_revision example_revision 5 owned_db =
      (Ok (), snd (enqueue_local_revision example_revision 5 owned_db))"
    by (metis prod.collapse)
qed

section \<open>Gaps\<close>

text \<open>\<open>update_bootstrap\<close> has no condition on the kind: it advances an entry of another operation and
  replaces its payload.\<close>

theorem bootstrap_update_reaches_other_kinds:
  "update_bootstrap plain_uuid blank_codec (OperationId ''op'') Planned Staged payload 4 planned_db =
     (Ok (), planned_db\<lparr>operation_journal :=
       [(planned_row ''op'' ''materialize_skill'' ''{}'' 3)\<lparr>oj_state := ''staged'', oj_updated_at_unix_ms := 4\<rparr>]\<rparr>)"
  by (simp add: update_bootstrap_def serialize_def blank_codec_def plain_uuid_def operation_text_def planned_row_def
      db_eval journal_t_def planned_db_rows)

text \<open>\<open>managed_skills\<close> looks for a resource with two owners among neighbours, but orders by owner and
  name first: when the two records disagree on these, the duplicate is not found.\<close>

definition example_subscription :: SubscriptionRecord where
  "example_subscription =
     \<lparr>sub_resource_id = ''r'', sub_locator = ''@a/x'', sub_owner = ''a'', sub_skill_name = ''x'',
      sub_resource_generation = 2, sub_release_version = 1, sub_desired_revision_id = ''v'', sub_harness_name = None,
      sub_materialized_revision_id = None, sub_retain_on_delete = False, sub_retained_after_delete = False,
      sub_live_private = False, sub_desired_root_tree_id = ''t''\<rparr>"

definition example_pack_skill :: PackMaterializedSkillRecord where
  "example_pack_skill =
     \<lparr>pms_resource_id = ''r'', pms_locator = ''@c/y'', pms_owner = ''c'', pms_skill_name = ''y'',
      pms_resource_generation = 1, pms_desired_revision_id = ''v'', pms_desired_root_tree_id = ''t'',
      pms_harness_name = None, pms_materialized_revision_id = ''v''\<rparr>"

definition doubled_db :: localdb where
  "doubled_db =
     snd (upsert_subscription_desired example_subscription 4
     (snd (upsert_owned_skill_desired (example_owned\<lparr>os_resource_id := ''q'', os_owner := ''b'', os_locator := ''@b/review''\<rparr>) 3
     (snd (commit_pack_apply plain_uuid blank_codec (OperationId ''op'') [example_pack_skill] [] 2
     (snd (create_pack_apply_journal plain_uuid blank_codec (OperationId ''op'') \<lparr>pap_old_skills = [], pap_new_skills = []\<rparr> 1
       empty_db)))))))"

theorem managed_skills_misses_duplicates:
  "reachable_db doubled_db \<and>
   map_ok (map mg_resource_id) (fst (managed_skills doubled_db)) = Ok [''r'', ''q'', ''r'']"
proof
  show "reachable_db doubled_db" unfolding doubled_db_def by (intro reachable_db.intros db_mutation.intros)
  show "map_ok (map mg_resource_id) (fst (managed_skills doubled_db)) = Ok [''r'', ''q'', ''r'']"
    by (simp add: doubled_db_def managed_skills_def active_records_def suppressed_def managed_of_subscription_def
        managed_of_owned_def managed_of_pack_def upsert_subscription_desired_def upsert_owned_skill_desired_def
        commit_pack_apply_def create_pack_apply_journal_def serialize_def blank_codec_def plain_uuid_def
        operation_text_def example_subscription_def example_pack_skill_def example_owned_def table_defs db_eval
        PackMaterializedSkillRecord.defs pack_materialized_row.defs)
qed

end
