(* ===== verification/File_System.thy ===== *)
theory File_System
  imports Sql_Table "HOL-Library.AList"
begin

text \<open>
  The part of \<open>std::fs\<close> and of the kernel below it that \<open>denju-local\<close> uses.  A file system is a
  tree of directories, files with their bytes and executable bit, and symbolic links; an absolute
  path is the list of its components.  A system call resolves its path through the links it meets
  and then does one thing or fails.  A process runs in a \<open>world\<close>: the tree, the database beside it
  and the number of effects so far.  A schedule says which effects fail, so that one run stands for
  every pattern of failures, and a crash is the schedule on which every effect from some point on
  fails.  Calls of the standard library that make several system calls (\<open>create_dir_all\<close>,
  \<open>remove_dir_all\<close>, \<open>write\<close>, \<open>copy\<close>) are sequences of such steps.
\<close>

section \<open>Trees\<close>

datatype node = FileN string bool | LinkN string | DirN "(string \<times> node) list"

type_synonym path = "string list"

fun node_at :: "node \<Rightarrow> path \<Rightarrow> node option" where
  "node_at n [] = Some n"
| "node_at (DirN es) (c # cs) = (case map_of es c of None \<Rightarrow> None | Some m \<Rightarrow> node_at m cs)"
| "node_at (FileN b x) (c # cs) = None"
| "node_at (LinkN t) (c # cs) = None"

text \<open>Bind, replace or unbind the name at the end of a path whose parents are directories.\<close>

fun set_at :: "path \<Rightarrow> node option \<Rightarrow> node \<Rightarrow> node" where
  "set_at [c] x (DirN es) = DirN (case x of None \<Rightarrow> AList.delete c es | Some m \<Rightarrow> AList.update c m es)"
| "set_at (c # d # cs) x (DirN es) =
     (case map_of es c of None \<Rightarrow> DirN es | Some m \<Rightarrow> DirN (AList.update c (set_at (d # cs) x m) es))"
| "set_at p x n = n"

text \<open>What \<open>lstat\<close> and a read of the file or link show of one path.\<close>

datatype stat = S_File string bool | S_Link string | S_Dir

fun stat_of :: "node \<Rightarrow> stat" where
  "stat_of (FileN b x) = S_File b x"
| "stat_of (LinkN t) = S_Link t"
| "stat_of (DirN es) = S_Dir"

definition peek :: "node \<Rightarrow> path \<Rightarrow> stat option" where
  "peek fs p = map_option stat_of (node_at fs p)"

fun is_link :: "stat option \<Rightarrow> bool" where
  "is_link (Some (S_Link t)) = True"
| "is_link s = False"

lemma node_at_append:
  "node_at n (p @ q) = (case node_at n p of None \<Rightarrow> None | Some m \<Rightarrow> node_at m q)"
  by (induction n p rule: node_at.induct) (auto split: option.splits)

lemma peek_None_append: "peek fs p = None \<Longrightarrow> peek fs (p @ q) = None"
  by (simp add: peek_def node_at_append)

lemma peek_below_dir: "peek fs (p @ c # q) \<noteq> None \<Longrightarrow> peek fs p = Some S_Dir"
  by (auto simp: peek_def node_at_append split: option.splits elim: node_at.elims)

lemma stat_of_Dir [simp]: "stat_of n = S_Dir \<longleftrightarrow> (\<exists>es. n = DirN es)"
  by (cases n) auto

lemma peek_Dir_iff: "peek fs p = Some S_Dir \<longleftrightarrow> (\<exists>es. node_at fs p = Some (DirN es))"
  by (auto simp: peek_def)

lemma set_at_Nil [simp]: "set_at [] x n = n"
  by (cases n) auto

lemma node_at_set_at_same:
  "node_at n p = Some (DirN es) \<Longrightarrow>
   node_at (set_at (p @ [c]) x n) (p @ c # q) = (case x of None \<Rightarrow> None | Some m \<Rightarrow> node_at m q)"
proof (induction n p arbitrary: es rule: node_at.induct)
  case (1 n)
  then show ?case by (auto simp: AList.update_conv' AList.delete_conv' split: option.splits)
next
  case (2 fs d ds)
  then show ?case by (cases ds) (auto simp: AList.update_conv' split: option.splits)
qed auto

lemma node_at_set_at_apart:
  "\<not> prefix p q \<Longrightarrow> \<not> prefix q p \<Longrightarrow> node_at (set_at p x n) q = node_at n q"
proof (induction p x n arbitrary: q rule: set_at.induct)
  case (1 c x es)
  then show ?case by (cases q) (auto simp: AList.update_conv' AList.delete_conv' split: option.splits)
next
  case (2 c d cs x es)
  then show ?case by (cases q) (auto simp: AList.update_conv' split: option.splits)
qed auto

lemma peek_set_at_other: "\<not> prefix p q \<Longrightarrow> peek (set_at p x n) q = peek n q"
proof (induction p x n arbitrary: q rule: set_at.induct)
  case (1 c x es)
  then show ?case
    by (cases q) (auto simp: peek_def AList.update_conv' AList.delete_conv' split: option.splits)
next
  case (2 c d cs x es)
  show ?case
  proof (cases q)
    case Nil
    then show ?thesis by (auto simp: peek_def split: option.splits)
  next
    case (Cons a q')
    with 2 show ?thesis by (auto simp: peek_def AList.update_conv' split: option.splits)
  qed
qed auto

lemma peek_set_at_below:
  "peek n p = Some S_Dir \<Longrightarrow>
   peek (set_at (p @ [c]) x n) (p @ c # q) = (case x of None \<Rightarrow> None | Some m \<Rightarrow> peek m q)"
  by (auto simp: peek_Dir_iff peek_def node_at_set_at_same split: option.splits)

section \<open>Paths as text\<close>

text \<open>
  \<open>Path::components\<close>: empty components and \<open>.\<close> disappear; \<open>PathBuf\<close> compares by components.
  A string after \<open>join\<close> that is itself absolute replaces the path.
\<close>

definition path_components :: "string \<Rightarrow> path" where
  "path_components s = filter (\<lambda>c. c \<noteq> [] \<and> c \<noteq> ''.'') (split_on (CHR ''/'') s)"

definition is_absolute :: "string \<Rightarrow> bool" where
  "is_absolute s = prefix ''/'' s"

definition path_join :: "path \<Rightarrow> string \<Rightarrow> path" where
  "path_join p s = (if is_absolute s then path_components s else p @ path_components s)"

text \<open>\<open>path.display().to_string()\<close> of an absolute path.\<close>

definition path_text :: "path \<Rightarrow> string" where
  "path_text p = (if p = [] then ''/'' else concat (map (\<lambda>c. CHR ''/'' # c) p))"

definition plain_name :: "string \<Rightarrow> bool" where
  "plain_name c \<longleftrightarrow> c \<noteq> [] \<and> c \<noteq> ''.'' \<and> c \<noteq> ''..'' \<and> CHR ''/'' \<notin> set c"

lemma path_components_plain: "plain_name c \<Longrightarrow> path_components c = [c]"
  by (simp add: path_components_def plain_name_def split_on_single)

lemma plain_not_absolute: "plain_name c \<Longrightarrow> \<not> is_absolute c"
  by (cases c) (auto simp: plain_name_def is_absolute_def)

lemma path_join_plain [simp]: "plain_name c \<Longrightarrow> path_join p c = p @ [c]"
  by (simp add: path_join_def path_components_plain plain_not_absolute)

lemma path_components_slash: "path_components (CHR ''/'' # s) = path_components s"
  by (simp add: path_components_def)

lemma path_components_append_slash: "CHR ''/'' \<notin> set c \<Longrightarrow> path_components (c @ CHR ''/'' # s) = path_components c @ path_components s"
  by (simp add: path_components_def split_on_append_sep split_on_single)

lemma path_components_text_aux:
  "list_all plain_name p \<Longrightarrow> p \<noteq> [] \<Longrightarrow> path_components (concat (map (\<lambda>c. CHR ''/'' # c) p)) = p"
proof (induction p)
  case (Cons c p)
  show ?case
  proof (cases p)
    case Nil
    with Cons show ?thesis by (simp add: path_components_slash path_components_plain)
  next
    case (Cons d p')
    have c: "plain_name c" "CHR ''/'' \<notin> set c" using Cons.prems by (auto simp: plain_name_def)
    have "path_components (concat (map (\<lambda>c. CHR ''/'' # c) (c # p))) =
        path_components (c @ CHR ''/'' # (d @ concat (map (\<lambda>c. CHR ''/'' # c) p')))"
      using Cons by (simp add: path_components_slash)
    also have "\<dots> = [c] @ path_components (concat (map (\<lambda>c. CHR ''/'' # c) p))"
      using c Cons by (simp add: path_components_append_slash path_components_plain path_components_slash)
    finally show ?thesis using Cons Cons.IH Cons.prems by simp
  qed
qed simp

lemma path_components_text [simp]: "list_all plain_name p \<Longrightarrow> path_components (path_text p) = p"
  by (auto simp: path_text_def path_components_text_aux) (simp add: path_components_def)

lemma path_text_absolute [simp]: "is_absolute (path_text p)"
  by (cases p) (auto simp: path_text_def is_absolute_def)

section \<open>Resolution\<close>

datatype IoError =
    NotFound | AlreadyExists | NotADirectory | IsADirectory | DirectoryNotEmpty | FilesystemLoop
  | InvalidInput | IoOther string

text \<open>
  The walk of the kernel along a path from the directory \<open>cur\<close>.  The last component may be missing.
  A link in the middle is always followed, one at the end only when \<open>follow\<close>; \<open>links\<close> is what is
  left of the limit on links (40 on Linux), after which the call fails.
\<close>

function walk_path :: "node \<Rightarrow> nat \<Rightarrow> bool \<Rightarrow> path \<Rightarrow> path \<Rightarrow> (path, IoError) result" where
  "walk_path fs links follow cur [] = Ok cur"
| "walk_path fs links follow cur (c # cs) =
     (if c = ''..'' then walk_path fs links follow (butlast cur) cs
      else case peek fs (cur @ [c]) of
        None \<Rightarrow> if peek fs cur = Some S_Dir then (if cs = [] then Ok (cur @ [c]) else Err NotFound) else Err NotADirectory
      | Some S_Dir \<Rightarrow> walk_path fs links follow (cur @ [c]) cs
      | Some (S_File b x) \<Rightarrow> if cs = [] then Ok (cur @ [c]) else Err NotADirectory
      | Some (S_Link t) \<Rightarrow>
          if cs = [] \<and> \<not> follow then Ok (cur @ [c])
          else (case links of
                  0 \<Rightarrow> Err FilesystemLoop
                | Suc left \<Rightarrow> walk_path fs left follow (if is_absolute t then [] else cur) (path_components t @ cs)))"
  by pat_completeness auto
termination
  by (relation "measures [\<lambda>(_, links, _, _, _). links, \<lambda>(_, _, _, _, cs). length cs]") auto

definition MAX_LINKS :: nat where
  "MAX_LINKS = 40"

definition locate :: "node \<Rightarrow> path \<Rightarrow> (path, IoError) result" where
  "locate fs p = walk_path fs MAX_LINKS False [] p"

definition locate_follow :: "node \<Rightarrow> path \<Rightarrow> (path, IoError) result" where
  "locate_follow fs p = walk_path fs MAX_LINKS True [] p"

text \<open>\<open>fs::symlink_metadata\<close>, \<open>fs::metadata\<close>, \<open>fs::canonicalize\<close>, \<open>fs::read_link\<close>, \<open>fs::read\<close>.\<close>

definition symlink_metadata :: "node \<Rightarrow> path \<Rightarrow> (stat, IoError) result" where
  "symlink_metadata fs p = res_bind (locate fs p) (\<lambda>q. ok_or (peek fs q) NotFound)"

definition canonicalize :: "node \<Rightarrow> path \<Rightarrow> (path, IoError) result" where
  "canonicalize fs p = res_bind (locate_follow fs p) (\<lambda>q. if peek fs q = None then Err NotFound else Ok q)"

definition metadata :: "node \<Rightarrow> path \<Rightarrow> (stat, IoError) result" where
  "metadata fs p = res_bind (locate_follow fs p) (\<lambda>q. ok_or (peek fs q) NotFound)"

definition fs_read :: "node \<Rightarrow> path \<Rightarrow> (string, IoError) result" where
  "fs_read fs p = res_bind (metadata fs p) (\<lambda>s. case s of S_File b x \<Rightarrow> Ok b | _ \<Rightarrow> Err IsADirectory)"

definition fs_exists :: "node \<Rightarrow> path \<Rightarrow> bool" where
  "fs_exists fs p = is_ok (metadata fs p)"

definition is_dir :: "node \<Rightarrow> path \<Rightarrow> bool" where
  "is_dir fs p = (metadata fs p = Ok S_Dir)"

definition is_file :: "node \<Rightarrow> path \<Rightarrow> bool" where
  "is_file fs p = (case metadata fs p of Ok (S_File b x) \<Rightarrow> True | _ \<Rightarrow> False)"

text \<open>\<open>fs::read_dir\<close>: the names bound in a directory.\<close>

definition read_dir :: "node \<Rightarrow> path \<Rightarrow> (string list, IoError) result" where
  "read_dir fs p = res_bind (canonicalize fs p) (\<lambda>q.
     case node_at fs q of Some (DirN es) \<Rightarrow> Ok (remdups (filter (\<lambda>c. c \<notin> {''.'', ''..''}) (map fst es))) | _ \<Rightarrow> Err NotADirectory)"

section \<open>System calls\<close>

definition sys_mkdir :: "path \<Rightarrow> node \<Rightarrow> (node, IoError) result" where
  "sys_mkdir p fs = res_bind (locate fs p) (\<lambda>q.
     if peek fs q \<noteq> None then Err AlreadyExists else Ok (set_at q (Some (DirN [])) fs))"

definition sys_symlink :: "string \<Rightarrow> path \<Rightarrow> node \<Rightarrow> (node, IoError) result" where
  "sys_symlink target p fs = res_bind (locate fs p) (\<lambda>q.
     if peek fs q \<noteq> None then Err AlreadyExists else Ok (set_at q (Some (LinkN target)) fs))"

definition sys_unlink :: "path \<Rightarrow> node \<Rightarrow> (node, IoError) result" where
  "sys_unlink p fs = res_bind (locate fs p) (\<lambda>q.
     case peek fs q of
       None \<Rightarrow> Err NotFound
     | Some S_Dir \<Rightarrow> Err IsADirectory
     | Some _ \<Rightarrow> Ok (set_at q None fs))"

definition sys_rmdir :: "path \<Rightarrow> node \<Rightarrow> (node, IoError) result" where
  "sys_rmdir p fs = res_bind (locate fs p) (\<lambda>q.
     if q = [] then Err InvalidInput
     else case node_at fs q of
       None \<Rightarrow> Err NotFound
     | Some (DirN []) \<Rightarrow> Ok (set_at q None fs)
     | Some (DirN _) \<Rightarrow> Err DirectoryNotEmpty
     | Some _ \<Rightarrow> Err NotADirectory)"

text \<open>A directory replaces nothing or an empty directory, anything else replaces nothing or a file or link.\<close>

definition may_replace :: "node \<Rightarrow> node option \<Rightarrow> (unit, IoError) result" where
  "may_replace n old =
     (case old of
        None \<Rightarrow> Ok ()
      | Some m \<Rightarrow>
          (if stat_of n = S_Dir then
             (if stat_of m \<noteq> S_Dir then Err NotADirectory
              else if m \<noteq> DirN [] then Err DirectoryNotEmpty else Ok ())
           else if stat_of m = S_Dir then Err IsADirectory else Ok ()))"

definition sys_rename :: "path \<Rightarrow> path \<Rightarrow> node \<Rightarrow> (node, IoError) result" where
  "sys_rename src dst fs =
     res_bind (locate fs src) (\<lambda>a.
     res_bind (locate fs dst) (\<lambda>b.
     res_bind (ok_or (node_at fs a) NotFound) (\<lambda>n.
     if a = b then Ok fs
     else if a = [] \<or> prefix a b then Err InvalidInput
     else if prefix b a then Err DirectoryNotEmpty
     else res_bind (may_replace n (node_at fs b)) (\<lambda>_.
       Ok (set_at b (Some n) (set_at a None fs))))))"

text \<open>Opening for writing with \<open>create\<close> and \<open>truncate\<close>, or with \<open>create_new\<close>.\<close>

definition sys_create :: "path \<Rightarrow> node \<Rightarrow> (node, IoError) result" where
  "sys_create p fs = res_bind (locate_follow fs p) (\<lambda>q.
     case peek fs q of
       None \<Rightarrow> Ok (set_at q (Some (FileN [] False)) fs)
     | Some (S_File b x) \<Rightarrow> Ok (set_at q (Some (FileN [] x)) fs)
     | Some _ \<Rightarrow> Err IsADirectory)"

definition sys_create_new :: "path \<Rightarrow> node \<Rightarrow> (node, IoError) result" where
  "sys_create_new p fs = res_bind (locate fs p) (\<lambda>q.
     if peek fs q \<noteq> None then Err AlreadyExists else Ok (set_at q (Some (FileN [] False)) fs))"

text \<open>One byte at a time, so that a write may stop after any of them.\<close>

definition sys_append :: "path \<Rightarrow> char \<Rightarrow> node \<Rightarrow> (node, IoError) result" where
  "sys_append p byte fs = res_bind (locate_follow fs p) (\<lambda>q.
     case peek fs q of
       Some (S_File b x) \<Rightarrow> Ok (set_at q (Some (FileN (b @ [byte]) x)) fs)
     | Some _ \<Rightarrow> Err IsADirectory
     | None \<Rightarrow> Err NotFound)"

definition sys_chmod :: "path \<Rightarrow> bool \<Rightarrow> node \<Rightarrow> (node, IoError) result" where
  "sys_chmod p executable fs = res_bind (locate_follow fs p) (\<lambda>q.
     case peek fs q of
       Some (S_File b x) \<Rightarrow> Ok (set_at q (Some (FileN b executable)) fs)
     | Some _ \<Rightarrow> Ok fs
     | None \<Rightarrow> Err NotFound)"

text \<open>\<open>File::open(dir)\<close> and \<open>sync_all\<close>: nothing the tree shows changes.\<close>

definition sys_sync :: "path \<Rightarrow> node \<Rightarrow> (node, IoError) result" where
  "sys_sync p fs = map_ok (\<lambda>_. fs) (metadata fs p)"

section \<open>Processes\<close>

record 'd world =
  w_fs :: node
  w_db :: 'd
  w_tick :: nat

text \<open>
  What the machine does at each effect: whether it fails, what the clock shows and which random
  identifier a request for one gets.  Reads of the tree are determined by the tree.
\<close>

record 'e machine =
  fs_fault :: "nat \<Rightarrow> IoError option"
  db_fault :: "nat \<Rightarrow> 'e option"
  clock :: "nat \<Rightarrow> int"
  fresh :: "nat \<Rightarrow> string"

definition tick :: "'d world \<Rightarrow> 'd world" where
  "tick w = w\<lparr>w_tick := Suc (w_tick w)\<rparr>"

definition sys :: "'e machine \<Rightarrow> (node \<Rightarrow> (node, IoError) result) \<Rightarrow> ('d world, unit, IoError) op" where
  "sys M f w =
     (case fs_fault M (w_tick w) of
        Some e \<Rightarrow> (Err e, tick w)
      | None \<Rightarrow> (case f (w_fs w) of
          Ok fs \<Rightarrow> (Ok (), tick (w\<lparr>w_fs := fs\<rparr>))
        | Err e \<Rightarrow> (Err e, tick w)))"

text \<open>A call of the database runs as one transaction or not at all.\<close>

definition db_call :: "'e machine \<Rightarrow> ('d, 'a, 'e) op \<Rightarrow> ('d world, 'a, 'e) op" where
  "db_call M f w =
     (case db_fault M (w_tick w) of
        Some e \<Rightarrow> (Err e, tick w)
      | None \<Rightarrow> (case f (w_db w) of (r, db) \<Rightarrow> (r, tick (w\<lparr>w_db := db\<rparr>))))"

definition now_unix_ms :: "'e machine \<Rightarrow> 'd world \<Rightarrow> int" where
  "now_unix_ms M w = min (clock M (w_tick w)) (2 ^ 63 - 1)"

text \<open>\<open>db.call(\<dots>, now_unix_ms())\<close>.\<close>

definition db_call_now :: "'e machine \<Rightarrow> (int \<Rightarrow> ('d, 'a, 'e) op) \<Rightarrow> ('d world, 'a, 'e) op" where
  "db_call_now M f w = db_call M (f (now_unix_ms M w)) w"

definition fresh_id :: "'e machine \<Rightarrow> ('d world, string, 'f) op" where
  "fresh_id M w = (Ok (fresh M (w_tick w)), tick w)"

text \<open>A look at the tree.\<close>

definition look :: "(node \<Rightarrow> ('a, 'f) result) \<Rightarrow> ('d world, 'a, 'f) op" where
  "look q w = (q (w_fs w), w)"

text \<open>\<open>From\<close> conversions of errors, an ignored result, and a \<open>match\<close> on the result of a call.\<close>

definition op_map_err :: "('e \<Rightarrow> 'f) \<Rightarrow> ('s, 'a, 'e) op \<Rightarrow> ('s, 'a, 'f) op" where
  "op_map_err h m s = (case m s of (r, t) \<Rightarrow> (map_err h r, t))"

definition op_ignore :: "('s, 'a, 'e) op \<Rightarrow> ('s, unit, 'f) op" where
  "op_ignore m s = (Ok (), snd (m s))"

definition op_match :: "('s, 'a, 'e) op \<Rightarrow> (('a, 'e) result \<Rightarrow> ('s, 'b, 'f) op) \<Rightarrow> ('s, 'b, 'f) op" where
  "op_match m k s = (case m s of (r, t) \<Rightarrow> k r t)"

section \<open>Calls of the standard library\<close>

definition create_dir :: "'e machine \<Rightarrow> path \<Rightarrow> ('d world, unit, IoError) op" where
  "create_dir M p = sys M (sys_mkdir p)"

definition remove_file :: "'e machine \<Rightarrow> path \<Rightarrow> ('d world, unit, IoError) op" where
  "remove_file M p = sys M (sys_unlink p)"

definition remove_dir :: "'e machine \<Rightarrow> path \<Rightarrow> ('d world, unit, IoError) op" where
  "remove_dir M p = sys M (sys_rmdir p)"

definition fs_rename :: "'e machine \<Rightarrow> path \<Rightarrow> path \<Rightarrow> ('d world, unit, IoError) op" where
  "fs_rename M src dst = sys M (sys_rename src dst)"

definition symlink :: "'e machine \<Rightarrow> string \<Rightarrow> path \<Rightarrow> ('d world, unit, IoError) op" where
  "symlink M target p = sys M (sys_symlink target p)"

definition set_executable :: "'e machine \<Rightarrow> path \<Rightarrow> bool \<Rightarrow> ('d world, unit, IoError) op" where
  "set_executable M p x = sys M (sys_chmod p x)"

definition sync_dir :: "'e machine \<Rightarrow> path \<Rightarrow> ('d world, unit, IoError) op" where
  "sync_dir M p = sys M (sys_sync p)"

text \<open>A failed \<open>mkdir\<close> is forgiven when the directory is there.\<close>

definition mkdir_unless_dir :: "'e machine \<Rightarrow> path \<Rightarrow> ('d world, unit, IoError) op" where
  "mkdir_unless_dir M p =
     op_match (create_dir M p) (\<lambda>r. case r of
       Ok u \<Rightarrow> op_ok ()
     | Err e \<Rightarrow> look (\<lambda>fs. if is_dir fs p then Ok () else Err e))"

fun create_dir_all :: "'e machine \<Rightarrow> path \<Rightarrow> ('d world, unit, IoError) op" where
  "create_dir_all M p =
     (if p = [] then op_ok ()
      else op_match (create_dir M p) (\<lambda>r. case r of
        Ok u \<Rightarrow> op_ok ()
      | Err e \<Rightarrow>
          if e = NotFound then
            op_bind (create_dir_all M (butlast p)) (\<lambda>_. mkdir_unless_dir M p)
          else look (\<lambda>fs. if is_dir fs p then Ok () else Err e)))"

declare create_dir_all.simps [simp del]

text \<open>
  The names below a directory, children before their parent: \<open>True\<close> marks a directory.  A
  directory lists a name once, and never \<open>.\<close> and \<open>..\<close>.
\<close>

fun removals :: "path \<Rightarrow> node \<Rightarrow> (path \<times> bool) list"
  and removals_of :: "path \<Rightarrow> string list \<Rightarrow> (string \<times> node) list \<Rightarrow> (path \<times> bool) list" where
  "removals p (DirN es) = removals_of p [''.'', ''..''] es @ [(p, True)]"
| "removals p (FileN b x) = [(p, False)]"
| "removals p (LinkN t) = [(p, False)]"
| "removals_of p seen [] = []"
| "removals_of p seen ((c, n) # es) =
     (if c \<in> set seen then removals_of p seen es
      else removals (p @ [c]) n @ removals_of p (c # seen) es)"

definition remove_entry :: "'e machine \<Rightarrow> path \<times> bool \<Rightarrow> ('d world, unit, IoError) op" where
  "remove_entry M e = (if snd e then remove_dir M (fst e) else remove_file M (fst e))"

text \<open>A link is removed itself, a directory with everything below it, a file is refused.\<close>

definition remove_dir_all :: "'e machine \<Rightarrow> path \<Rightarrow> ('d world, unit, IoError) op" where
  "remove_dir_all M p =
     op_bind (look (\<lambda>fs. locate fs p)) (\<lambda>q.
     op_bind (look (\<lambda>fs. ok_or (node_at fs q) NotFound)) (\<lambda>n.
     case n of
       FileN b x \<Rightarrow> op_err NotADirectory
     | _ \<Rightarrow> op_each (remove_entry M) (removals q n)))"

definition append_all :: "'e machine \<Rightarrow> path \<Rightarrow> string \<Rightarrow> ('d world, unit, IoError) op" where
  "append_all M p bytes = op_each (\<lambda>byte. sys M (sys_append p byte)) bytes"

definition fs_write :: "'e machine \<Rightarrow> path \<Rightarrow> string \<Rightarrow> ('d world, unit, IoError) op" where
  "fs_write M p bytes = op_bind (sys M (sys_create p)) (\<lambda>_. append_all M p bytes)"

definition write_new :: "'e machine \<Rightarrow> path \<Rightarrow> string \<Rightarrow> ('d world, unit, IoError) op" where
  "write_new M p bytes = op_bind (sys M (sys_create_new p)) (\<lambda>_. append_all M p bytes)"

text \<open>\<open>fs::copy\<close>: the bytes and the permissions of the source.\<close>

definition fs_copy :: "'e machine \<Rightarrow> path \<Rightarrow> path \<Rightarrow> ('d world, unit, IoError) op" where
  "fs_copy M src dst =
     op_bind (look (\<lambda>fs. metadata fs src)) (\<lambda>s. case s of
       S_File b x \<Rightarrow> op_bind (fs_write M dst b) (\<lambda>_. set_executable M dst x)
     | _ \<Rightarrow> op_err InvalidInput)"

end
