(* ===== verification/File_Frames.thy ===== *)
theory File_Frames
  imports File_System
begin

text \<open>
  What system calls leave alone.  A path without links above its last component names itself, and
  every call but \<open>rename\<close> changes what one path shows; \<open>rename\<close> moves a subtree.  Runs are reasoned
  about with triples that speak of every outcome, failures included, and with \<open>confined\<close>: outside an
  area the tree shows what it showed at the start, and inside it links stand in known places only.
\<close>

section \<open>Triples\<close>

definition triple :: "('s \<Rightarrow> bool) \<Rightarrow> ('s, 'a, 'e) op \<Rightarrow> (('a, 'e) result \<Rightarrow> 's \<Rightarrow> bool) \<Rightarrow> bool" where
  "triple P m Q \<longleftrightarrow> (\<forall>s. P s \<longrightarrow> Q (fst (m s)) (snd (m s)))"

definition always :: "('s \<Rightarrow> bool) \<Rightarrow> ('s, 'a, 'e) op \<Rightarrow> bool" where
  "always I m \<longleftrightarrow> (\<forall>s. I s \<longrightarrow> I (snd (m s)))"

named_theorems always_intros \<open>operations that keep an invariant whatever their outcome\<close>

lemma always_read [always_intros]:
  "always I (op_ok x)" "always I (op_err e)" "always I (op_res r)" "always I (op_query q)"
  by (auto simp: always_def op_ok_def op_err_def op_res_def op_query_def)

lemma always_look [always_intros]: "always I (look q)"
  by (simp add: always_def look_def)

lemma always_bind [always_intros]:
  "always I m \<Longrightarrow> (\<And>x. always I (f x)) \<Longrightarrow> always I (op_bind m f)"
  by (fastforce simp: always_def op_bind_def split: prod.split result.split)

lemma always_match [always_intros]:
  "always I m \<Longrightarrow> (\<And>r. always I (k r)) \<Longrightarrow> always I (op_match m k)"
  by (fastforce simp: always_def op_match_def split: prod.split)

lemma always_each [always_intros]:
  "(\<And>x. x \<in> set xs \<Longrightarrow> always I (f x)) \<Longrightarrow> always I (op_each f xs)"
  by (induction xs) (auto intro!: always_intros)

lemma always_map_err [always_intros]: "always I m \<Longrightarrow> always I (op_map_err h m)"
  by (fastforce simp: always_def op_map_err_def split: prod.split)

lemma always_ignore [always_intros]: "always I m \<Longrightarrow> always I (op_ignore m)"
  by (simp add: always_def op_ignore_def)

lemma always_if [always_intros]:
  "(c \<Longrightarrow> always I m) \<Longrightarrow> (\<not> c \<Longrightarrow> always I n) \<Longrightarrow> always I (if c then m else n)"
  by simp

lemma always_result [always_intros]:
  "(\<And>x. r = Ok x \<Longrightarrow> always I (f x)) \<Longrightarrow> (\<And>e. r = Err e \<Longrightarrow> always I (g e)) \<Longrightarrow>
   always I (case r of Ok x \<Rightarrow> f x | Err e \<Rightarrow> g e)"
  by (cases r) auto

lemma always_option [always_intros]:
  "always I m \<Longrightarrow> (\<And>x. y = Some x \<Longrightarrow> always I (f x)) \<Longrightarrow> always I (case y of None \<Rightarrow> m | Some x \<Rightarrow> f x)"
  by (cases y) auto

lemma always_stat [always_intros]:
  "(\<And>b x. s = S_File b x \<Longrightarrow> always I (f b x)) \<Longrightarrow> (\<And>t. s = S_Link t \<Longrightarrow> always I (g t)) \<Longrightarrow>
   (s = S_Dir \<Longrightarrow> always I h) \<Longrightarrow> always I (case s of S_File b x \<Rightarrow> f b x | S_Link t \<Rightarrow> g t | S_Dir \<Rightarrow> h)"
  by (cases s) auto

lemma triple_bind:
  assumes "triple P m (\<lambda>r s. case r of Ok x \<Rightarrow> R x s | Err e \<Rightarrow> Q (Err e) s)" and "\<And>x. triple (R x) (f x) Q"
  shows "triple P (op_bind m f) Q"
  using assms unfolding triple_def op_bind_def
  by (fastforce split: prod.split result.splits)

lemma triple_always: "always I m \<Longrightarrow> triple I m (\<lambda>_. I)"
  by (simp add: always_def triple_def)

lemma triple_conseq:
  "triple P m Q \<Longrightarrow> (\<And>s. P' s \<Longrightarrow> P s) \<Longrightarrow> (\<And>r s. Q r s \<Longrightarrow> Q' r s) \<Longrightarrow> triple P' m Q'"
  by (auto simp: triple_def)

lemma triple_conj: "triple P m Q \<Longrightarrow> triple P m R \<Longrightarrow> triple P m (\<lambda>r s. Q r s \<and> R r s)"
  by (auto simp: triple_def)

section \<open>Paths that name themselves\<close>

definition plain :: "node \<Rightarrow> path \<Rightarrow> bool" where
  "plain fs p \<longleftrightarrow> ''..'' \<notin> set p \<and> (\<forall>r. strict_prefix r p \<longrightarrow> \<not> is_link (peek fs r))"

definition solid :: "node \<Rightarrow> path \<Rightarrow> bool" where
  "solid fs p \<longleftrightarrow> plain fs p \<and> \<not> is_link (peek fs p)"

lemma is_link_iff: "is_link s \<longleftrightarrow> (\<exists>t. s = Some (S_Link t))"
  by (cases s rule: is_link.cases) auto

lemma peek_Nil [simp]: "peek fs [] = Some (stat_of fs)"
  by (simp add: peek_def)

lemma peek_strict_prefix: "peek fs q \<noteq> None \<Longrightarrow> strict_prefix r q \<Longrightarrow> peek fs r = Some S_Dir"
  by (auto simp: strict_prefix_def prefix_def elim!: peek_below_dir) (metis neq_Nil_conv peek_below_dir option.distinct(1))

lemma walk_same:
  assumes "walk_path fs links follow cur cs = Ok q" and "''..'' \<notin> set cs"
    and "\<And>a b. cs = a @ b \<Longrightarrow> a \<noteq> [] \<Longrightarrow> b \<noteq> [] \<or> follow \<Longrightarrow> \<not> is_link (peek fs (cur @ a))"
  shows "q = cur @ cs"
  using assms
proof (induction cs arbitrary: cur)
  case (Cons c cs)
  have nolink: "\<not> is_link (peek fs (cur @ [c]))" if "cs \<noteq> [] \<or> follow"
    using Cons.prems(3) [of "[c]" cs] that by auto
  have rest: "\<And>a b. cs = a @ b \<Longrightarrow> a \<noteq> [] \<Longrightarrow> b \<noteq> [] \<or> follow \<Longrightarrow> \<not> is_link (peek fs ((cur @ [c]) @ a))"
    using Cons.prems(3) [of "c # a" b for a b] by simp
  show ?case
    using Cons.prems(1,2) nolink Cons.IH [OF _ _ rest]
    by (auto split: option.splits stat.splits if_splits nat.splits)
qed simp

lemma locate_plain: "plain fs p \<Longrightarrow> locate fs p = Ok q \<Longrightarrow> q = p"
  unfolding locate_def by (drule walk_same) (auto simp: plain_def strict_prefix_def prefix_def)

lemma locate_solid: "solid fs p \<Longrightarrow> locate_follow fs p = Ok q \<Longrightarrow> q = p"
  unfolding locate_follow_def
  by (drule walk_same) (auto simp: solid_def plain_def strict_prefix_def prefix_def; metis append.right_neutral)+

lemma walk_through_dirs:
  assumes "''..'' \<notin> set cs" and "cs \<noteq> []" and "\<And>a b. cs = a @ b \<Longrightarrow> b \<noteq> [] \<Longrightarrow> peek fs (cur @ a) = Some S_Dir"
    and "follow \<Longrightarrow> \<not> is_link (peek fs (cur @ cs))"
  shows "walk_path fs links follow cur cs = Ok (cur @ cs)"
  using assms
proof (induction cs arbitrary: cur)
  case (Cons c cs)
  have cur: "peek fs cur = Some S_Dir" using Cons.prems(3) [of "[]"] by simp
  have rest: "\<And>a b. cs = a @ b \<Longrightarrow> b \<noteq> [] \<Longrightarrow> peek fs ((cur @ [c]) @ a) = Some S_Dir"
    using Cons.prems(3) [of "c # a" b for a b] by simp
  show ?case
  proof (cases "cs = []")
    case True
    with Cons.prems cur show ?thesis by (auto split: option.splits stat.splits)
  next
    case False
    have "peek fs (cur @ [c]) = Some S_Dir" using rest [of "[]" cs] False by simp
    moreover have "walk_path fs links follow (cur @ [c]) cs = Ok ((cur @ [c]) @ cs)"
      using Cons.IH [OF _ False rest] Cons.prems by simp
    ultimately show ?thesis using Cons.prems by auto
  qed
qed simp

definition parents_real :: "node \<Rightarrow> path \<Rightarrow> bool" where
  "parents_real fs p \<longleftrightarrow> ''..'' \<notin> set p \<and> (\<forall>r. strict_prefix r p \<longrightarrow> peek fs r = Some S_Dir)"

lemma locate_real: "parents_real fs p \<Longrightarrow> locate fs p = Ok p"
proof (cases "p = []")
  case False
  assume "parents_real fs p"
  then show ?thesis unfolding locate_def parents_real_def
    using walk_through_dirs [of p fs "[]" False MAX_LINKS] False by (auto simp: strict_prefix_def)
qed (simp add: locate_def)

lemma locate_follow_real: "parents_real fs p \<Longrightarrow> \<not> is_link (peek fs p) \<Longrightarrow> locate_follow fs p = Ok p"
proof (cases "p = []")
  case False
  assume "parents_real fs p" "\<not> is_link (peek fs p)"
  then show ?thesis unfolding locate_follow_def parents_real_def
    using walk_through_dirs [of p fs "[]" True MAX_LINKS] False by (auto simp: strict_prefix_def)
qed (simp add: locate_follow_def)

lemma parents_real_plain: "parents_real fs p \<Longrightarrow> plain fs p"
  by (auto simp: parents_real_def plain_def)

lemma walk_parent:
  "walk_path fs links follow cur cs = Ok q \<Longrightarrow> (cur \<noteq> [] \<Longrightarrow> peek fs (butlast cur) = Some S_Dir) \<Longrightarrow>
   q \<noteq> [] \<Longrightarrow> peek fs (butlast q) = Some S_Dir"
proof (induction fs links follow cur cs rule: walk_path.induct)
  case (2 fs links follow cur c cs)
  have up: "peek fs (butlast (butlast cur)) = Some S_Dir" if "butlast cur \<noteq> []"
    using 2(5) that peek_strict_prefix [of fs "butlast cur" "butlast (butlast cur)"]
    by (metis append_butlast_last_id butlast.simps(1) option.distinct(1) prefix_snocD strict_prefixI' )
  have here: "peek fs cur = Some S_Dir" if "peek fs (cur @ [c]) \<noteq> None"
    using that peek_below_dir [of fs cur c "[]"] by simp
  show ?case
  proof (cases "c = ''..''")
    case True
    with 2(4,6) 2(1) [OF _ _ up] show ?thesis by simp
  next
    case False
    note step = 2(4) [simplified walk_path.simps False if_False]
    show ?thesis
    proof (cases "peek fs (cur @ [c])")
      case None
      with step show ?thesis by (auto split: if_splits)
    next
      case (Some s)
      show ?thesis
      proof (cases s)
        case (S_Link t)
        show ?thesis
        proof (cases "cs = [] \<and> \<not> follow")
          case True
          with step Some S_Link here show ?thesis by auto
        next
          case seen: False
          then obtain left where "links = Suc left"
            using step Some S_Link by (auto split: nat.splits)
          with step Some S_Link seen 2(2) [OF False Some S_Link seen] 2(5,6) show ?thesis
            by (cases "is_absolute t") auto
        qed
      qed (use step Some here 2(3) [OF False Some] 2(6) in \<open>auto split: if_splits\<close>)
    qed
  qed
qed simp

lemma locate_parent: "locate fs p = Ok q \<Longrightarrow> q \<noteq> [] \<Longrightarrow> peek fs (butlast q) = Some S_Dir"
  unfolding locate_def by (rule walk_parent) auto

lemma locate_follow_parent: "locate_follow fs p = Ok q \<Longrightarrow> q \<noteq> [] \<Longrightarrow> peek fs (butlast q) = Some S_Dir"
  unfolding locate_follow_def by (rule walk_parent) auto

section \<open>What one call changes\<close>

definition leaf :: "node option \<Rightarrow> bool" where
  "leaf x \<longleftrightarrow> (\<forall>n es. x = Some n \<longrightarrow> n = DirN es \<longrightarrow> es = [])"

lemma leaf_simps [simp]: "leaf None" "leaf (Some (FileN b x))" "leaf (Some (LinkN t))" "leaf (Some (DirN []))"
  by (auto simp: leaf_def)

lemma leaf_below: "leaf (node_at fs q) \<Longrightarrow> peek fs (q @ c # r) = None"
  by (cases "node_at fs q"; cases "the (node_at fs q)") (auto simp: peek_def node_at_append leaf_def)

lemma leaf_not_dir: "peek fs q \<noteq> Some S_Dir \<Longrightarrow> leaf (node_at fs q)"
  by (auto simp: leaf_def peek_def)

lemma set_at_leaf:
  assumes "q \<noteq> []" "peek fs (butlast q) = Some S_Dir" "leaf (node_at fs q)" "leaf x"
  shows "peek (set_at q x fs) r = (if r = q then map_option stat_of x else peek fs r)"
proof (cases "prefix q r")
  case True
  obtain d c where q: "q = d @ [c]" using assms(1) by (cases q rule: rev_cases) auto
  obtain u where r: "r = q @ u" using True by (auto simp: prefix_def)
  have same: "peek (set_at q x fs) r = (case x of None \<Rightarrow> None | Some m \<Rightarrow> peek m u)"
    using assms(2) q r by (simp add: peek_set_at_below)
  show ?thesis
  proof (cases u)
    case Nil
    with same r show ?thesis by (auto split: option.splits)
  next
    case (Cons a u')
    have "peek fs r = None" using leaf_below [OF assms(3)] r Cons by simp
    moreover have "peek m u = None" if "x = Some m" for m
      using assms(4) that Cons by (cases m) (auto simp: leaf_def peek_def)
    ultimately show ?thesis using same r Cons by (auto split: option.splits)
  qed
qed (auto simp: peek_set_at_other)

definition changes_only :: "path \<Rightarrow> stat option \<Rightarrow> node \<Rightarrow> node \<Rightarrow> bool" where
  "changes_only q s fs fs' \<longleftrightarrow> (\<forall>r. peek fs' r = (if r = q then s else peek fs r)) \<and>
     (\<forall>r. \<not> prefix r q \<longrightarrow> node_at fs' r = node_at fs r)"

lemma changes_only_set_at:
  "q \<noteq> [] \<Longrightarrow> peek fs (butlast q) = Some S_Dir \<Longrightarrow> leaf (node_at fs q) \<Longrightarrow> leaf x \<Longrightarrow>
   changes_only q (map_option stat_of x) fs (set_at q x fs)"
  unfolding changes_only_def
proof (intro conjI allI impI)
  assume q: "q \<noteq> []" "peek fs (butlast q) = Some S_Dir" "leaf (node_at fs q)" "leaf x"
  show at: "peek (set_at q x fs) r = (if r = q then map_option stat_of x else peek fs r)" for r
    using set_at_leaf [OF q] .
  show "node_at (set_at q x fs) r = node_at fs r" if r: "\<not> prefix r q" for r
  proof (cases "prefix q r")
    case True
    then obtain c u where "r = q @ c # u" using r by (metis append_Nil2 list.exhaust prefixE prefix_order.refl)
    then have "peek fs r = None" "peek (set_at q x fs) r = None"
      using leaf_below [OF q(3), of c u] at [of r] by simp_all
    then show ?thesis by (simp add: peek_def)
  qed (simp add: node_at_set_at_apart r)
qed

lemma changes_only_refl: "peek fs q = s \<Longrightarrow> changes_only q s fs fs"
  by (auto simp: changes_only_def)

lemma root_exists: "peek fs q = None \<Longrightarrow> q \<noteq> []"
  by auto

lemma new_entry_changes:
  assumes "locate fs p = Ok q" "peek fs q = None" "leaf (Some n)"
  shows "changes_only q (Some (stat_of n)) fs (set_at q (Some n) fs)"
proof -
  have "q \<noteq> []" using assms(2) by (rule root_exists)
  then show ?thesis
    using changes_only_set_at [of q fs "Some n"] locate_parent [OF assms(1)] leaf_not_dir [of fs q] assms(2,3) by simp
qed

lemma sys_mkdir_changes:
  "sys_mkdir p fs = Ok fs' \<Longrightarrow> \<exists>q. locate fs p = Ok q \<and> peek fs q = None \<and> changes_only q (Some S_Dir) fs fs'"
  using new_entry_changes [of fs p _ "DirN []"] by (auto simp: sys_mkdir_def res_simps split: if_splits)

lemma sys_symlink_changes:
  "sys_symlink t p fs = Ok fs' \<Longrightarrow> \<exists>q. locate fs p = Ok q \<and> peek fs q = None \<and> changes_only q (Some (S_Link t)) fs fs'"
  using new_entry_changes [of fs p _ "LinkN t"] by (auto simp: sys_symlink_def res_simps split: if_splits)

lemma sys_create_new_changes:
  "sys_create_new p fs = Ok fs' \<Longrightarrow>
   \<exists>q. locate fs p = Ok q \<and> peek fs q = None \<and> changes_only q (Some (S_File [] False)) fs fs'"
  using new_entry_changes [of fs p _ "FileN [] False"] by (auto simp: sys_create_new_def res_simps split: if_splits)

lemma sys_unlink_changes:
  assumes "sys_unlink p fs = Ok fs'"
  shows "\<exists>q. locate fs p = Ok q \<and> (q = [] \<and> fs' = fs \<or>
    peek fs q \<noteq> Some S_Dir \<and> peek fs q \<noteq> None \<and> changes_only q None fs fs')"
proof -
  obtain q s where q: "locate fs p = Ok q" "peek fs q = Some s" "s \<noteq> S_Dir" "fs' = set_at q None fs"
  proof -
    obtain q where q: "locate fs p = Ok q" using assms by (cases "locate fs p") (auto simp: sys_unlink_def)
    then obtain s where "peek fs q = Some s" using assms by (cases "peek fs q") (auto simp: sys_unlink_def)
    with assms q that [of q s] show ?thesis by (cases s) (auto simp: sys_unlink_def)
  qed
  show ?thesis
  proof (cases "q = []")
    case False
    then have "changes_only q None fs fs'"
      using changes_only_set_at [of q fs None] locate_parent [OF q(1)] leaf_not_dir [of fs q] q by simp
    with q show ?thesis by auto
  qed (use q in auto)
qed

lemma sys_rmdir_changes:
  assumes "sys_rmdir p fs = Ok fs'"
  shows "\<exists>q. locate fs p = Ok q \<and> q \<noteq> [] \<and> peek fs q = Some S_Dir \<and> changes_only q None fs fs'"
proof -
  obtain q where q: "locate fs p = Ok q" "q \<noteq> []" "node_at fs q = Some (DirN [])" "fs' = set_at q None fs"
  proof -
    obtain q where q: "locate fs p = Ok q" "q \<noteq> []"
      using assms by (cases "locate fs p") (auto simp: sys_rmdir_def split: if_splits)
    obtain n where n: "node_at fs q = Some n" using assms q by (cases "node_at fs q") (auto simp: sys_rmdir_def)
    then obtain es where "n = DirN es" using assms q by (cases n) (auto simp: sys_rmdir_def)
    with assms q n that [of q] show ?thesis by (cases es) (auto simp: sys_rmdir_def)
  qed
  then have "changes_only q None fs fs'"
    using changes_only_set_at [of q fs None] locate_parent [OF q(1)] by simp
  with q show ?thesis by (auto simp: peek_def)
qed

text \<open>The three calls that follow a link at the end write a file.\<close>

lemma file_write_changes:
  assumes "locate_follow fs p = Ok q" "peek fs q = None \<or> (\<exists>b x. peek fs q = Some (S_File b x))"
  shows "q = [] \<or> changes_only q (Some (S_File b x)) fs (set_at q (Some (FileN b x)) fs)"
  using changes_only_set_at [of q fs "Some (FileN b x)"] locate_follow_parent [OF assms(1)]
    leaf_not_dir [of fs q] assms(2) by (cases "q = []") auto

definition writes_file :: "path \<Rightarrow> node \<Rightarrow> node \<Rightarrow> bool" where
  "writes_file p fs fs' \<longleftrightarrow> fs' = fs \<or> (\<exists>q b x. locate_follow fs p = Ok q \<and>
     (peek fs q = None \<or> (\<exists>b x. peek fs q = Some (S_File b x))) \<and> changes_only q (Some (S_File b x)) fs fs')"

lemma writes_file_refl [simp]: "writes_file p fs fs"
  by (simp add: writes_file_def)

lemma writes_file_set_at:
  assumes "locate_follow fs p = Ok q" "peek fs q = None \<or> (\<exists>b x. peek fs q = Some (S_File b x))"
  shows "writes_file p fs (set_at q (Some (FileN b x)) fs)"
  using file_write_changes [OF assms, of b x] assms unfolding writes_file_def by (cases "q = []") auto

lemma sys_create_writes:
  assumes "sys_create p fs = Ok fs'"
  shows "writes_file p fs fs'"
proof -
  obtain q where q: "locate_follow fs p = Ok q" using assms by (cases "locate_follow fs p") (auto simp: sys_create_def)
  show ?thesis
  proof (cases "peek fs q")
    case None
    with assms q writes_file_set_at [OF q] show ?thesis by (auto simp: sys_create_def)
  next
    case (Some s)
    with assms q writes_file_set_at [OF q] show ?thesis
      by (cases s) (auto simp: sys_create_def)
  qed
qed

lemma sys_append_writes:
  assumes "sys_append p c fs = Ok fs'"
  shows "writes_file p fs fs'"
proof -
  obtain q where q: "locate_follow fs p = Ok q" using assms by (cases "locate_follow fs p") (auto simp: sys_append_def)
  show ?thesis
  proof (cases "peek fs q")
    case None
    with assms q writes_file_set_at [OF q] show ?thesis by (auto simp: sys_append_def)
  next
    case (Some s)
    with assms q writes_file_set_at [OF q] show ?thesis
      by (cases s) (auto simp: sys_append_def)
  qed
qed

lemma sys_chmod_writes:
  assumes "sys_chmod p x fs = Ok fs'"
  shows "writes_file p fs fs'"
proof -
  obtain q where q: "locate_follow fs p = Ok q" using assms by (cases "locate_follow fs p") (auto simp: sys_chmod_def)
  show ?thesis
  proof (cases "peek fs q")
    case None
    with assms q writes_file_set_at [OF q] show ?thesis by (auto simp: sys_chmod_def)
  next
    case (Some s)
    with assms q writes_file_set_at [OF q] show ?thesis
      by (cases s) (auto simp: sys_chmod_def)
  qed
qed

text \<open>A rename moves everything below its source.\<close>

lemma sys_rename_changes:
  assumes "sys_rename src dst fs = Ok fs'"
  shows "\<exists>a b n. locate fs src = Ok a \<and> locate fs dst = Ok b \<and> node_at fs a = Some n \<and>
    (fs' = fs \<and> a = b \<or>
     \<not> prefix a b \<and> \<not> prefix b a \<and> may_replace n (node_at fs b) = Ok () \<and> node_at fs' b = Some n \<and>
     (\<forall>r. \<not> prefix a r \<and> \<not> prefix b r \<longrightarrow> peek fs' r = peek fs r) \<and> (\<forall>r. prefix a r \<longrightarrow> peek fs' r = None) \<and>
     (\<forall>r. \<not> prefix a r \<and> \<not> prefix r a \<and> \<not> prefix b r \<and> \<not> prefix r b \<longrightarrow> node_at fs' r = node_at fs r))"
proof -
  obtain a b n where ab: "locate fs src = Ok a" "locate fs dst = Ok b" "node_at fs a = Some n"
    and rest: "a = b \<and> fs' = fs \<or>
      \<not> prefix a b \<and> \<not> prefix b a \<and> may_replace n (node_at fs b) = Ok () \<and> fs' = set_at b (Some n) (set_at a None fs)"
    using assms by (auto simp: sys_rename_def res_simps split: if_splits)
  show ?thesis
  proof (cases "a = b \<and> fs' = fs")
    case False
    with rest have apart: "\<not> prefix a b" "\<not> prefix b a" and r: "may_replace n (node_at fs b) = Ok ()"
      and fs': "fs' = set_at b (Some n) (set_at a None fs)" by auto
    obtain da ca db cb where d: "a = da @ [ca]" "b = db @ [cb]"
      using apart by (cases a rule: rev_cases; cases b rule: rev_cases) auto
    have pa: "peek fs da = Some S_Dir" using locate_parent [OF ab(1)] d by simp
    have "peek fs db = Some S_Dir" using locate_parent [OF ab(2)] d by simp
    then have pb: "peek (set_at a None fs) db = Some S_Dir"
      using apart(1) d by (subst peek_set_at_other) auto
    obtain es where "node_at (set_at a None fs) db = Some (DirN es)" using pb by (auto simp: peek_Dir_iff)
    then have "node_at fs' b = Some n"
      using node_at_set_at_same [of "set_at a None fs" db es cb "Some n" "[]"] d fs' by simp
    moreover have "peek fs' r = peek fs r" if "\<not> prefix a r \<and> \<not> prefix b r" for r
      using that fs' by (simp add: peek_set_at_other)
    moreover have "peek fs' r = None" if below: "prefix a r" for r
    proof -
      have "\<not> prefix b r" using below apart by (metis prefix_same_cases)
      moreover obtain u where "r = da @ ca # u" using below d by (auto simp: prefix_def)
      ultimately show ?thesis using fs' pa d by (simp add: peek_set_at_other peek_set_at_below)
    qed
    moreover have "node_at fs' r = node_at fs r"
      if "\<not> prefix a r \<and> \<not> prefix r a \<and> \<not> prefix b r \<and> \<not> prefix r b" for r
      using that fs' by (simp add: node_at_set_at_apart)
    ultimately show ?thesis using ab apart r by blast
  qed (use ab in blast)
qed

section \<open>Confinement\<close>

text \<open>
  Outside the area \<open>A\<close> the tree \<open>fs\<close> shows what \<open>fs0\<close> showed, the links inside it are at
  places in \<open>K\<close>, and subtrees with nothing of the area in them are the same.
\<close>

definition confined :: "node \<Rightarrow> path set \<Rightarrow> path set \<Rightarrow> node \<Rightarrow> bool" where
  "confined fs0 A K fs \<longleftrightarrow> (\<forall>q. q \<notin> A \<longrightarrow> peek fs q = peek fs0 q) \<and> (\<forall>q \<in> A. is_link (peek fs q) \<longrightarrow> q \<in> K) \<and>
     (\<forall>q. (\<forall>r \<in> A. \<not> prefix q r) \<longrightarrow> node_at fs q = node_at fs0 q)"

text \<open>A path that no link can stand in front of, in any tree so confined.\<close>

definition clear_path :: "node \<Rightarrow> path set \<Rightarrow> path set \<Rightarrow> path \<Rightarrow> bool" where
  "clear_path fs0 A K p \<longleftrightarrow> ''..'' \<notin> set p \<and>
     (\<forall>r. strict_prefix r p \<longrightarrow> (if r \<in> A then r \<notin> K else \<not> is_link (peek fs0 r)))"

lemma clear_path_plain: "clear_path fs0 A K p \<Longrightarrow> confined fs0 A K fs \<Longrightarrow> plain fs p"
  unfolding clear_path_def confined_def plain_def by metis

lemma clear_path_solid: "clear_path fs0 A K p \<Longrightarrow> confined fs0 A K fs \<Longrightarrow> p \<in> A \<Longrightarrow> p \<notin> K \<Longrightarrow> solid fs p"
  using clear_path_plain unfolding solid_def confined_def by blast

lemma confined_change:
  "confined fs0 A K fs \<Longrightarrow> changes_only q s fs fs' \<Longrightarrow> q \<in> A \<Longrightarrow> (is_link s \<longrightarrow> q \<in> K) \<Longrightarrow> confined fs0 A K fs'"
  by (auto simp: confined_def changes_only_def)

text \<open>The calls on a clear path of the area keep a tree confined.\<close>

lemma mkdir_confined:
  assumes "confined fs0 A K fs" "clear_path fs0 A K p" "p \<in> A \<or> peek fs0 p \<noteq> None" "sys_mkdir p fs = Ok fs'"
  shows "confined fs0 A K fs'"
proof -
  have p: "locate fs p = Ok q \<Longrightarrow> q = p" for q using locate_plain [OF clear_path_plain [OF assms(2,1)]] .
  then have "peek fs p = None" "changes_only p (Some S_Dir) fs fs'" using sys_mkdir_changes [OF assms(4)] by auto
  moreover have "p \<in> A" using calculation assms(1,3) by (auto simp: confined_def)
  ultimately show ?thesis using confined_change [OF assms(1)] by simp
qed

lemma symlink_confined:
  assumes "confined fs0 A K fs" "clear_path fs0 A K p" "p \<in> A" "p \<in> K" "sys_symlink t p fs = Ok fs'"
  shows "confined fs0 A K fs'"
  using sys_symlink_changes [OF assms(5)] locate_plain [OF clear_path_plain [OF assms(2,1)]]
    confined_change [OF assms(1) _ assms(3)] assms(4) by auto

lemma create_new_confined:
  assumes "confined fs0 A K fs" "clear_path fs0 A K p" "p \<in> A" "sys_create_new p fs = Ok fs'"
  shows "confined fs0 A K fs'"
  using sys_create_new_changes [OF assms(4)] locate_plain [OF clear_path_plain [OF assms(2,1)]]
    confined_change [OF assms(1) _ assms(3)] by auto

lemma unlink_confined:
  assumes "confined fs0 A K fs" "clear_path fs0 A K p" "p \<in> A" "sys_unlink p fs = Ok fs'"
  shows "confined fs0 A K fs'"
  using sys_unlink_changes [OF assms(4)] locate_plain [OF clear_path_plain [OF assms(2,1)]]
    confined_change [OF assms(1) _ assms(3)] assms(1) by auto

lemma rmdir_confined:
  assumes "confined fs0 A K fs" "clear_path fs0 A K p" "p \<in> A" "sys_rmdir p fs = Ok fs'"
  shows "confined fs0 A K fs'"
  using sys_rmdir_changes [OF assms(4)] locate_plain [OF clear_path_plain [OF assms(2,1)]]
    confined_change [OF assms(1) _ assms(3)] by auto

lemma writes_confined:
  assumes "confined fs0 A K fs" "clear_path fs0 A K p" "p \<in> A" "p \<notin> K" "writes_file p fs fs'"
  shows "confined fs0 A K fs'"
  using assms(5) locate_solid [OF clear_path_solid [OF assms(2,1,3,4)]]
    confined_change [OF assms(1) _ assms(3)] assms(1) unfolding writes_file_def by auto

lemma rename_plain:
  assumes "plain fs a" "plain fs b" "sys_rename a b fs = Ok fs'"
  obtains n where "node_at fs a = Some n" "fs' = fs" "a = b"
  | n where "node_at fs a = Some n" "node_at fs' b = Some n" "\<not> prefix a b" "\<not> prefix b a"
    "may_replace n (node_at fs b) = Ok ()" "\<And>r. prefix a r \<Longrightarrow> peek fs' r = None"
    "\<And>r. \<not> prefix a r \<Longrightarrow> \<not> prefix b r \<Longrightarrow> peek fs' r = peek fs r"
    "\<And>r. \<not> prefix a r \<Longrightarrow> \<not> prefix r a \<Longrightarrow> \<not> prefix b r \<Longrightarrow> \<not> prefix r b \<Longrightarrow> node_at fs' r = node_at fs r"
proof -
  obtain a' b' n where e: "locate fs a = Ok a'" "locate fs b = Ok b'" "node_at fs a' = Some n"
    and c: "fs' = fs \<and> a' = b' \<or>
     \<not> prefix a' b' \<and> \<not> prefix b' a' \<and> may_replace n (node_at fs b') = Ok () \<and> node_at fs' b' = Some n \<and>
     (\<forall>r. \<not> prefix a' r \<and> \<not> prefix b' r \<longrightarrow> peek fs' r = peek fs r) \<and> (\<forall>r. prefix a' r \<longrightarrow> peek fs' r = None) \<and>
     (\<forall>r. \<not> prefix a' r \<and> \<not> prefix r a' \<and> \<not> prefix b' r \<and> \<not> prefix r b' \<longrightarrow> node_at fs' r = node_at fs r)"
    using sys_rename_changes [OF assms(3)] by blast
  have ab: "a' = a" "b' = b" using locate_plain assms(1,2) e by blast+
  note e = e(3) [unfolded ab]
  from c [unfolded ab] show ?thesis
  proof (elim disjE conjE)
    assume "fs' = fs" "a = b"
    with e show ?thesis by (rule that(1))
  next
    assume "\<not> prefix a b" "\<not> prefix b a" "may_replace n (node_at fs b) = Ok ()" "node_at fs' b = Some n"
      and "\<forall>r. \<not> prefix a r \<and> \<not> prefix b r \<longrightarrow> peek fs' r = peek fs r" "\<forall>r. prefix a r \<longrightarrow> peek fs' r = None"
      and "\<forall>r. \<not> prefix a r \<and> \<not> prefix r a \<and> \<not> prefix b r \<and> \<not> prefix r b \<longrightarrow> node_at fs' r = node_at fs r"
    with e show ?thesis by (intro that(2) [of n]) blast+
  qed
qed

lemma rename_confined:
  assumes "confined fs0 A K fs" "clear_path fs0 A K a" "clear_path fs0 A K b"
    and "\<And>r. prefix a r \<or> prefix b r \<Longrightarrow> r \<in> A" and "\<And>r. a @ r \<in> K \<Longrightarrow> b @ r \<in> K" and "sys_rename a b fs = Ok fs'"
  shows "confined fs0 A K fs'"
proof -
  have "plain fs a" "plain fs b" using clear_path_plain [OF _ assms(1)] assms(2,3) by blast+
  then show ?thesis using assms(6)
  proof (cases rule: rename_plain)
    case (2 n)
    note b = 2(2) and n = 2(1) and gone = 2(6) and other = 2(7) and apart = 2(8)
    have moved: "peek fs' (b @ r) = peek fs (a @ r)" for r
      using n b by (simp add: peek_def node_at_append)
    have "peek fs' q = peek fs0 q" if "q \<notin> A" for q
      using that assms(1,4) other [of q] unfolding confined_def by auto
    moreover have "q \<in> K" if q: "q \<in> A" "is_link (peek fs' q)" for q
    proof (cases "prefix b q")
      case True
      then obtain r where "q = b @ r" by (auto simp: prefix_def)
      with q moved assms(1,4,5) show ?thesis unfolding confined_def by auto
    next
      case False
      with q gone other [of q] assms(1) show ?thesis unfolding confined_def by (cases "prefix a q") auto
    qed
    moreover have "node_at fs' q = node_at fs0 q" if q: "\<forall>r \<in> A. \<not> prefix q r" for q
    proof -
      have "\<not> prefix a q" "\<not> prefix b q" using q assms(4) [of q] by auto
      moreover have "\<not> prefix q a" "\<not> prefix q b" using q assms(4) [of a] assms(4) [of b] by auto
      ultimately show ?thesis using q apart [of q] assms(1) unfolding confined_def by auto
    qed
    ultimately show ?thesis unfolding confined_def by blast
  qed (use assms(1) in simp)
qed

lemma confined_refl: "confined fs A {q. is_link (peek fs q)} fs"
  by (simp add: confined_def)

lemma confined_trans:
  assumes "confined fs0 A K fs" "confined fs A' {q. is_link (peek fs q)} fs'" "A' \<subseteq> A"
  shows "confined fs0 A K fs'"
  using assms unfolding confined_def by (metis (mono_tags, lifting) mem_Collect_eq subset_eq)

section \<open>Confined operations\<close>

abbreviation within :: "node \<Rightarrow> path set \<Rightarrow> path set \<Rightarrow> ('d world, 'a, 'e) op \<Rightarrow> bool" where
  "within fs0 A K m \<equiv> always (\<lambda>w. confined fs0 A K (w_fs w)) m"

lemma tick_simps [simp]: "w_fs (tick w) = w_fs w" "w_db (tick w) = w_db w" "w_tick (tick w) = Suc (w_tick w)"
  by (simp_all add: tick_def)

lemma always_sys:
  "(\<And>fs fs'. I fs \<Longrightarrow> f fs = Ok fs' \<Longrightarrow> I fs') \<Longrightarrow> always (\<lambda>w. I (w_fs w)) (sys M f)"
  by (auto simp: always_def sys_def split: option.split result.split)

lemma always_db_call [always_intros]: "always (\<lambda>w. I (w_fs w)) (db_call M f)"
  by (auto simp: always_def db_call_def split: option.split prod.split)

lemma always_db_call_now [always_intros]: "always (\<lambda>w. I (w_fs w)) (db_call_now M f)"
  using always_db_call [of I M] unfolding always_def db_call_now_def by blast

lemma always_fresh [always_intros]: "always (\<lambda>w. I (w_fs w)) (fresh_id M)"
  by (simp add: always_def fresh_id_def)

lemma within_create_dir:
  "clear_path fs0 A K p \<Longrightarrow> p \<in> A \<or> peek fs0 p \<noteq> None \<Longrightarrow> within fs0 A K (create_dir M p)"
  unfolding create_dir_def by (rule always_sys) (rule mkdir_confined)

lemma within_symlink:
  "clear_path fs0 A K p \<Longrightarrow> p \<in> A \<Longrightarrow> p \<in> K \<Longrightarrow> within fs0 A K (symlink M t p)"
  unfolding symlink_def by (rule always_sys) (rule symlink_confined)

lemma within_remove_file: "clear_path fs0 A K p \<Longrightarrow> p \<in> A \<Longrightarrow> within fs0 A K (remove_file M p)"
  unfolding remove_file_def by (rule always_sys) (rule unlink_confined)

lemma within_remove_dir: "clear_path fs0 A K p \<Longrightarrow> p \<in> A \<Longrightarrow> within fs0 A K (remove_dir M p)"
  unfolding remove_dir_def by (rule always_sys) (rule rmdir_confined)

lemma within_rename:
  "clear_path fs0 A K a \<Longrightarrow> clear_path fs0 A K b \<Longrightarrow> (\<And>r. prefix a r \<or> prefix b r \<Longrightarrow> r \<in> A) \<Longrightarrow>
   (\<And>r. a @ r \<in> K \<Longrightarrow> b @ r \<in> K) \<Longrightarrow> within fs0 A K (fs_rename M a b)"
  unfolding fs_rename_def by (rule always_sys) (rule rename_confined)

lemma within_sync [always_intros]: "always (\<lambda>w. I (w_fs w)) (sync_dir M p)"
  unfolding sync_dir_def by (rule always_sys) (auto simp: sys_sync_def res_simps)

lemma within_append_all:
  "clear_path fs0 A K p \<Longrightarrow> p \<in> A \<Longrightarrow> p \<notin> K \<Longrightarrow> within fs0 A K (append_all M p bytes)"
  unfolding append_all_def by (intro always_each always_sys) (auto intro: writes_confined sys_append_writes)

lemma within_write:
  "clear_path fs0 A K p \<Longrightarrow> p \<in> A \<Longrightarrow> p \<notin> K \<Longrightarrow> within fs0 A K (fs_write M p bytes)"
  unfolding fs_write_def
  by (intro always_bind always_sys within_append_all) (auto intro: writes_confined sys_create_writes)

lemma within_write_new:
  "clear_path fs0 A K p \<Longrightarrow> p \<in> A \<Longrightarrow> p \<notin> K \<Longrightarrow> within fs0 A K (write_new M p bytes)"
  unfolding write_new_def by (intro always_bind always_sys within_append_all) (auto intro: create_new_confined)

lemma within_set_executable:
  "clear_path fs0 A K p \<Longrightarrow> p \<in> A \<Longrightarrow> p \<notin> K \<Longrightarrow> within fs0 A K (set_executable M p x)"
  unfolding set_executable_def by (rule always_sys) (auto intro: writes_confined sys_chmod_writes)

lemma within_copy:
  "clear_path fs0 A K p \<Longrightarrow> p \<in> A \<Longrightarrow> p \<notin> K \<Longrightarrow> within fs0 A K (fs_copy M src p)"
  unfolding fs_copy_def by (intro always_intros within_write within_set_executable)

lemma clear_path_butlast: "clear_path fs0 A K p \<Longrightarrow> clear_path fs0 A K (butlast p)"
  unfolding clear_path_def
  by (metis in_set_butlastD append_butlast_last_id butlast.simps(1) prefix_order.less_trans strict_prefixI')

text \<open>Directories above the area have to be there already.\<close>

definition reachable_dir :: "node \<Rightarrow> path set \<Rightarrow> path \<Rightarrow> bool" where
  "reachable_dir fs0 A p \<longleftrightarrow> (\<forall>r. prefix r p \<longrightarrow> r \<in> A \<or> peek fs0 r \<noteq> None)"

lemma within_create_dir_all:
  "clear_path fs0 A K p \<Longrightarrow> reachable_dir fs0 A p \<Longrightarrow> within fs0 A K (create_dir_all M p)"
proof (induction M p rule: create_dir_all.induct)
  case (1 M p)
  have "reachable_dir fs0 A (butlast p)" using 1(3) unfolding reachable_dir_def
    by (meson prefixeq_butlast prefix_order.trans)
  note IH = 1(1) [OF _ _ clear_path_butlast [OF 1(2)] this]
  have dir: "within fs0 A K (create_dir M p)"
    using within_create_dir [OF 1(2)] 1(3) by (simp add: reachable_dir_def)
  then have "within fs0 A K (mkdir_unless_dir M p)"
    unfolding mkdir_unless_dir_def by (intro always_intros)
  with IH dir show ?case by (subst create_dir_all.simps) (intro always_intros; simp)
qed

lemma removals_exist:
  "(r, b) \<in> set (removals p n) \<Longrightarrow> \<exists>s. r = p @ s \<and> node_at n s \<noteq> None \<and> ''..'' \<notin> set s"
  "(r, b) \<in> set (removals_of p seen es) \<Longrightarrow> ''..'' \<in> set seen \<Longrightarrow>
     \<exists>c s m. r = p @ c # s \<and> c \<notin> set seen \<and> map_of es c = Some m \<and> node_at m s \<noteq> None \<and> ''..'' \<notin> set s"
proof (induction p n and p seen es rule: removals_removals_of.induct)
  case (1 p es)
  show ?case
  proof (cases "r = p \<and> b")
    case False
    then have "(r, b) \<in> set (removals_of p [''.'', ''..''] es)" using 1(2) by auto
    from 1(1) [OF this] obtain c s m where "r = p @ c # s" "map_of es c = Some m" "node_at m s \<noteq> None"
      "''..'' \<notin> set (c # s)" by auto
    then show ?thesis by (intro exI [of _ "c # s"]) simp
  qed auto
next
  case (5 p seen c n es)
  show ?case
  proof (cases "c \<in> set seen")
    case True
    with 5(1) [OF True] 5(4,5) obtain d s m where "r = p @ d # s" "d \<notin> set seen" "map_of es d = Some m"
      "node_at m s \<noteq> None" "''..'' \<notin> set s" by auto
    with True show ?thesis by (intro exI [of _ d] exI [of _ s] exI [of _ m]) auto
  next
    case False
    show ?thesis
    proof (cases "(r, b) \<in> set (removals (p @ [c]) n)")
      case True
      with 5(2) [OF False] obtain s where "r = (p @ [c]) @ s" "node_at n s \<noteq> None" "''..'' \<notin> set s" by blast
      with False show ?thesis by (intro exI [of _ c] exI [of _ s] exI [of _ n]) simp
    next
      case other: False
      then have "(r, b) \<in> set (removals_of p (c # seen) es)" using 5(4) False by simp
      from 5(3) [OF False this] 5(5) show ?thesis by fastforce
    qed
  qed
qed auto

lemma within_remove_entry:
  assumes "''..'' \<notin> set p" "node_at fs p = Some n" "e \<in> set (removals p n)"
  shows "within fs {r. prefix p r} {q. is_link (peek fs q)} (remove_entry M e)"
proof -
  let ?B = "{r. prefix p r}" and ?L = "{q. is_link (peek fs q)}"
  obtain r b where rb: "e = (r, b)" by (cases e)
  with assms(3) removals_exist(1) obtain s where s: "r = p @ s" "node_at n s \<noteq> None" "''..'' \<notin> set s" by blast
  then have ex: "peek fs r \<noteq> None" using assms(2) by (simp add: peek_def node_at_append)
  have "clear_path fs ?B ?L r"
    unfolding clear_path_def
  proof (intro conjI allI impI)
    show "''..'' \<notin> set r" using s assms(1) by simp
    fix u assume "strict_prefix u r"
    then have "peek fs u = Some S_Dir" using peek_strict_prefix [OF ex] by blast
    then show "if u \<in> ?B then u \<notin> ?L else \<not> is_link (peek fs u)" by simp
  qed
  then show ?thesis
    using s rb by (auto simp: remove_entry_def intro: within_remove_dir within_remove_file)
qed

lemma within_remove_dir_all:
  assumes "clear_path fs0 A K p" "\<And>r. prefix p r \<Longrightarrow> r \<in> A"
  shows "within fs0 A K (remove_dir_all M p :: ('d world, unit, IoError) op)"
  unfolding always_def
proof (intro allI impI)
  fix w :: "'d world" assume w: "confined fs0 A K (w_fs w)"
  let ?fs = "w_fs w" and ?B = "{r. prefix p r}" and ?L = "{q. is_link (peek (w_fs w) q)}"
  have q: "locate ?fs p = Ok q \<Longrightarrow> q = p" for q
    using locate_plain [OF clear_path_plain [OF assms(1) w]] .
  have dots: "''..'' \<notin> set p" using assms(1) by (simp add: clear_path_def)
  have each: "within ?fs ?B ?L (op_each (remove_entry M) (removals p n))" if "node_at ?fs p = Some n" for n
    using within_remove_entry [OF dots that] by (rule always_each)
  have "confined ?fs ?B ?L (w_fs (snd (remove_dir_all M p w)))"
  proof (cases "locate ?fs p")
    case (Ok x)
    with q have x: "x = p" by simp
    show ?thesis
    proof (cases "node_at ?fs p")
      case (Some n)
      show ?thesis
        using each [OF Some] confined_refl [of ?fs ?B] Ok x Some
        by (cases n) (auto simp: remove_dir_all_def op_bind_def look_def op_err_def always_def)
    qed (use Ok x confined_refl in \<open>auto simp: remove_dir_all_def op_bind_def look_def\<close>)
  qed (use confined_refl in \<open>auto simp: remove_dir_all_def op_bind_def look_def\<close>)
  then show "confined fs0 A K (w_fs (snd (remove_dir_all M p w)))"
    using confined_trans [OF w _] assms(2) by blast
qed

end
