(* ===== verification/Materialize.thy ===== *)
theory Materialize
  imports Snapshot Local_Workspace File_Frames
begin

text \<open>
  \<open>crates/denju-local/src/materialize.rs\<close> and the layout of \<open>paths.rs\<close>: writing a verified
  generation of a skill, exposing it at its canonical path, and finishing or discarding what a
  crashed process left behind.  The Unix variants of the platform-dependent lines are modelled.
\<close>

section \<open>Layout\<close>

record LocalPaths =
  lp_home :: path
  lp_root :: path
  lp_state_db :: path
  lp_objects :: path
  lp_generations :: path
  lp_derived :: path
  lp_skills :: path
  lp_quarantine :: path
  lp_imports :: path
  lp_run :: path
  lp_logs :: path
  lp_credentials :: path

definition from_home :: "path \<Rightarrow> LocalPaths" where
  "from_home home = (let root = path_join home ''.denju'' in
     \<lparr>lp_home = home, lp_root = root, lp_state_db = path_join root ''state.db'',
      lp_objects = path_join root ''objects/blobs/sha256'', lp_generations = path_join root ''generations'',
      lp_derived = path_join root ''derived'', lp_skills = path_join root ''skills'',
      lp_quarantine = path_join root ''quarantine'', lp_imports = path_join root ''staging/imports'',
      lp_run = path_join root ''run'', lp_logs = path_join root ''logs'',
      lp_credentials = path_join root ''credentials''\<rparr>)"

definition ensure_local_layout :: "'e machine \<Rightarrow> LocalPaths \<Rightarrow> ('d world, unit, IoError) op" where
  "ensure_local_layout M P = op_each (create_dir_all M)
     [lp_root P, lp_objects P, lp_generations P, lp_derived P, lp_skills P, lp_quarantine P, lp_imports P,
      lp_run P, lp_logs P, lp_credentials P]"

definition create_native_directory_link :: "'e machine \<Rightarrow> path \<Rightarrow> path \<Rightarrow> ('d world, unit, IoError) op" where
  "create_native_directory_link M target link = symlink M (path_text target) link"

definition cleanup_link_check :: "'e machine \<Rightarrow> path \<Rightarrow> path \<Rightarrow> ('d world, unit, 'f) op" where
  "cleanup_link_check M target link =
     op_bind (op_ignore (remove_file M link)) (\<lambda>_.
     op_bind (op_ignore (remove_dir M link)) (\<lambda>_.
     op_ignore (remove_dir_all M target)))"

datatype LocalPathError = LP_Io IoError | NativeLinkUnavailable IoError

definition verify_native_directory_links :: "'e machine \<Rightarrow> LocalPaths \<Rightarrow> ('d world, unit, LocalPathError) op" where
  "verify_native_directory_links M P =
     (let target = path_join (lp_run P) ''link-check-target''; link = path_join (lp_run P) ''link-check-link'' in
      op_bind (op_ignore (remove_file M link)) (\<lambda>_.
      op_bind (op_ignore (remove_dir_all M target)) (\<lambda>_.
      op_bind (op_map_err LP_Io (create_dir_all M target)) (\<lambda>_.
      op_bind (op_map_err NativeLinkUnavailable (create_native_directory_link M target link)) (\<lambda>_.
      op_bind (op_map_err LP_Io (look (\<lambda>fs. symlink_metadata fs link))) (\<lambda>meta.
      op_bind (cleanup_link_check M target link) (\<lambda>_.
      if is_link (Some meta) then op_ok ()
      else op_err (NativeLinkUnavailable (IoOther ''created link is not a native symbolic link'')))))))))"

section \<open>Libraries and data\<close>

text \<open>
  What the code takes from outside: Unicode tables, YAML, SHA-256, archives, UUIDs, hexadecimal
  text, the JSON of the journals, and the order in which \<open>walkdir\<close> lists what is below a directory.
\<close>

record ('v, 'm) libs =
  lb_unicode :: unicode_tables
  lb_yaml :: "('v, 'm) yaml_lib"
  lb_sha :: "string \<Rightarrow> string"
  lb_archive :: archive_lib
  lb_uuid :: uuid_lib
  lb_hex :: "string \<Rightarrow> string"
  lb_unhex :: "string \<Rightarrow> (string, string) result"
  lb_walk :: "node \<Rightarrow> path list"
  lb_materialization :: "MaterializationJournalPayload codec"
  lb_writeback :: "WorkspaceWritebackJournalPayload codec"

datatype MaterializationError =
    MZ_Snapshot SnapshotError
  | MZ_Database LocalDbError
  | MZ_Io IoError
  | MZ_Walk IoError
  | MZ_ManifestMismatch
  | MZ_Corrupt string
  | MZ_Busy string
  | MZ_RefuseOverwrite path

record DesiredSkillMaterialization =
  dsm_resource_id :: ResourceId
  dsm_owner :: string
  dsm_skill_name :: string
  dsm_revision_id :: RevisionId
  dsm_manifest :: SkillManifest

type_synonym local_machine = "LocalDbError machine"
type_synonym 'a mz_op = "(localdb world, 'a, MaterializationError) op"

abbreviation mz_io :: "(localdb world, 'a, IoError) op \<Rightarrow> 'a mz_op" where
  "mz_io m \<equiv> op_map_err MZ_Io m"

abbreviation mz_db :: "local_machine \<Rightarrow> (int \<Rightarrow> (localdb, 'a) db_op) \<Rightarrow> 'a mz_op" where
  "mz_db M f \<equiv> op_map_err MZ_Database (db_call_now M f)"

definition resource_text :: "('v, 'm) libs \<Rightarrow> ResourceId \<Rightarrow> string" where
  "resource_text E r = uu_to_string (lb_uuid E) (rid_bytes r)"

definition revision_text :: "('v, 'm) libs \<Rightarrow> RevisionId \<Rightarrow> string" where
  "revision_text E r = lb_hex E (revision_bytes r)"

definition new_operation_id :: "('v, 'm) libs \<Rightarrow> local_machine \<Rightarrow> OperationId mz_op" where
  "new_operation_id E M =
     op_bind (fresh_id M) (\<lambda>uuid.
     op_res (map_err (\<lambda>e. MZ_Corrupt (IdError_text e)) (id_from_uuid (lb_uuid E) OperationId uuid)))"

section \<open>Links\<close>

definition atomic_switch_directory_link ::
  "('v, 'm) libs \<Rightarrow> local_machine \<Rightarrow> path \<Rightarrow> path \<Rightarrow> OperationId \<Rightarrow> unit mz_op" where
  "atomic_switch_directory_link E M target link operation_id =
     (if link = [] then op_err (MZ_Corrupt ''canonical link has no parent'')
      else let parent = butlast link;
               temporary = path_join parent (''.denju-link-'' @ operation_text (lb_uuid E) operation_id) in
        op_bind (mz_io (create_dir_all M parent)) (\<lambda>_.
        op_bind (look (\<lambda>fs.
          if fs_exists fs link \<or> is_ok (symlink_metadata fs link) then
            res_bind (map_err MZ_Io (symlink_metadata fs link)) (\<lambda>meta.
            if \<not> is_link (Some meta) then Err (MZ_RefuseOverwrite link) else Ok ())
          else Ok ())) (\<lambda>_.
        op_bind (op_ignore (remove_file M temporary)) (\<lambda>_.
        op_bind (op_ignore (remove_dir M temporary)) (\<lambda>_.
        op_bind (mz_io (create_native_directory_link M target temporary)) (\<lambda>_.
        op_match (fs_rename M temporary link) (\<lambda>r. case r of
          Err e \<Rightarrow>
            op_bind (op_ignore (remove_file M temporary)) (\<lambda>_.
            op_bind (op_ignore (remove_dir M temporary)) (\<lambda>_.
            op_err (MZ_Io e)))
        | Ok _ \<Rightarrow> mz_io (sync_dir M parent))))))))"

definition remove_owned_link :: "local_machine \<Rightarrow> path \<Rightarrow> unit mz_op" where
  "remove_owned_link M path =
     op_match (look (\<lambda>fs. symlink_metadata fs path)) (\<lambda>r. case r of
       Err _ \<Rightarrow> op_ok ()
     | Ok meta \<Rightarrow>
         if \<not> is_link (Some meta) then op_err (MZ_RefuseOverwrite path)
         else mz_io (remove_file M path))"

definition remove_canonical_skill :: "local_machine \<Rightarrow> LocalPaths \<Rightarrow> string \<Rightarrow> string \<Rightarrow> unit mz_op" where
  "remove_canonical_skill M P owner skill_name =
     (let canonical = path_join (path_join (lp_skills P) owner) skill_name in
      op_bind (remove_owned_link M canonical) (\<lambda>_.
      if canonical = [] then op_ok () else op_ignore (remove_dir M (butlast canonical))))"

section \<open>Reading and writing generations\<close>

text \<open>\<open>replace('\\', "/")\<close>.\<close>

definition forward_slashes :: "string \<Rightarrow> string" where
  "forward_slashes s = map (\<lambda>c. if c = CHR 0x5C then slash else c) s"

fun read_entry :: "path \<Rightarrow> node \<Rightarrow> (OwnedSkillEntry, MaterializationError) result" where
  "read_entry relative n =
     res_bind (ok_or (from_utf8 (join_with slash relative)) (MZ_Corrupt ''generation path is not UTF-8'')) (\<lambda>text.
     let path = forward_slashes text in
     case n of
       LinkN t \<Rightarrow>
         res_bind (ok_or (from_utf8 t) (MZ_Corrupt ''symlink target is not UTF-8'')) (\<lambda>target.
         Ok (OE_Symlink path (forward_slashes target)))
     | DirN es \<Rightarrow> Ok (OE_Directory path)
     | FileN bytes executable \<Rightarrow> Ok (OE_File path bytes executable))"

text \<open>\<open>WalkDir::new(root).follow_links(false).min_depth(1)\<close>: the root itself is followed.\<close>

definition walk_below :: "('v, 'm) libs \<Rightarrow> node \<Rightarrow> path \<Rightarrow> ((path \<times> node) list, IoError) result" where
  "walk_below E fs root =
     res_bind (canonicalize fs root) (\<lambda>q.
     res_bind (ok_or (node_at fs q) NotFound) (\<lambda>n.
     Ok (map (\<lambda>p. (p, the (node_at n p))) (filter (\<lambda>p. node_at n p \<noteq> None) (lb_walk E n)))))"

definition read_generation ::
  "('v, 'm) libs \<Rightarrow> node \<Rightarrow> path \<Rightarrow> (OwnedSkillEntry list, MaterializationError) result" where
  "read_generation E fs root =
     res_bind (map_err MZ_Walk (walk_below E fs root)) (\<lambda>items.
     collect_res (\<lambda>(relative, n). read_entry relative n) items)"

definition verify_generation ::
  "('v, 'm) libs \<Rightarrow> path \<Rightarrow> string \<Rightarrow> SkillManifest \<Rightarrow> node \<Rightarrow> (unit, MaterializationError) result" where
  "verify_generation E root skill_name expected fs =
     res_bind (read_generation E fs root) (\<lambda>entries.
     res_bind (map_err MZ_Snapshot
       (build_skill_manifest (lb_unicode E) (lb_yaml E) (lb_sha E) skill_name entries)) (\<lambda>actual.
     if actual \<noteq> expected then Err MZ_ManifestMismatch else Ok ()))"

definition store_cas_blob :: "('v, 'm) libs \<Rightarrow> local_machine \<Rightarrow> LocalPaths \<Rightarrow> string \<Rightarrow> path mz_op" where
  "store_cas_blob E M P bytes =
     (let blob = BlobId_hash (lb_sha E) bytes; id = lb_hex E (blob_bytes blob);
          directory = path_join (lp_objects P) (take 2 id); destination = path_join directory id in
      op_bind (mz_io (create_dir_all M directory)) (\<lambda>_.
      op_bind (look (\<lambda>fs. Ok (is_file fs destination))) (\<lambda>present.
      if present then
        op_bind (look (\<lambda>fs. map_err MZ_Io (fs_read fs destination))) (\<lambda>found.
        if BlobId_hash (lb_sha E) found \<noteq> blob
        then op_err (MZ_Corrupt (''local CAS object '' @ id @ '' does not match its content''))
        else op_ok destination)
      else
        op_bind (fresh_id M) (\<lambda>uuid.
        let temporary = path_join directory (''.'' @ id @ ''.tmp-'' @ uu_to_string (lb_uuid E) uuid) in
        op_bind (mz_io (write_new M temporary bytes)) (\<lambda>_.
        op_bind (mz_io (sync_dir M temporary)) (\<lambda>_.
        op_bind (mz_io (fs_rename M temporary destination)) (\<lambda>_.
        op_bind (mz_io (sync_dir M directory)) (\<lambda>_.
        op_ok destination))))))))"

fun directory_path :: "OwnedSkillEntry \<Rightarrow> string option" where
  "directory_path (OE_Directory path) = Some path"
| "directory_path e = None"

definition directories_by_depth :: "OwnedSkillEntry list \<Rightarrow> string list" where
  "directories_by_depth entries =
     sort_key (\<lambda>path. length (split_on slash path)) (List.map_filter directory_path entries)"

definition create_parent :: "local_machine \<Rightarrow> path \<Rightarrow> unit mz_op" where
  "create_parent M destination = (if destination = [] then op_ok () else mz_io (create_dir_all M (butlast destination)))"

fun write_entry :: "('v, 'm) libs \<Rightarrow> local_machine \<Rightarrow> LocalPaths \<Rightarrow> path \<Rightarrow> OwnedSkillEntry \<Rightarrow> unit mz_op" where
  "write_entry E M P root (OE_File path bytes executable) =
     op_bind (store_cas_blob E M P bytes) (\<lambda>cas.
     op_bind (create_parent M (path_join root path)) (\<lambda>_.
     op_bind (mz_io (fs_copy M cas (path_join root path))) (\<lambda>_.
     mz_io (set_executable M (path_join root path) executable))))"
| "write_entry E M P root (OE_Directory path) = op_ok ()"
| "write_entry E M P root (OE_Symlink path target) =
     op_bind (create_parent M (path_join root path)) (\<lambda>_. mz_io (symlink M target (path_join root path)))"

definition write_generation ::
  "('v, 'm) libs \<Rightarrow> local_machine \<Rightarrow> LocalPaths \<Rightarrow> path \<Rightarrow> OwnedSkillEntry list \<Rightarrow> unit mz_op" where
  "write_generation E M P root entries =
     op_bind (mz_io (create_dir_all M root)) (\<lambda>_.
     op_bind (op_each (\<lambda>path. mz_io (create_dir_all M (path_join root path))) (directories_by_depth entries)) (\<lambda>_.
     op_bind (op_each (write_entry E M P root) entries) (\<lambda>_.
     mz_io (sync_dir M root))))"

fun write_unmanaged_entry :: "local_machine \<Rightarrow> path \<Rightarrow> OwnedSkillEntry \<Rightarrow> unit mz_op" where
  "write_unmanaged_entry M root (OE_File path bytes executable) =
     op_bind (create_parent M (path_join root path)) (\<lambda>_.
     op_bind (mz_io (fs_write M (path_join root path) bytes)) (\<lambda>_.
     mz_io (set_executable M (path_join root path) executable)))"
| "write_unmanaged_entry M root (OE_Directory path) = op_ok ()"
| "write_unmanaged_entry M root (OE_Symlink path target) =
     op_bind (create_parent M (path_join root path)) (\<lambda>_. mz_io (symlink M target (path_join root path)))"

definition write_unmanaged_entries :: "local_machine \<Rightarrow> path \<Rightarrow> OwnedSkillEntry list \<Rightarrow> unit mz_op" where
  "write_unmanaged_entries M root entries =
     op_bind (op_each (\<lambda>path. mz_io (create_dir_all M (path_join root path))) (directories_by_depth entries)) (\<lambda>_.
     op_bind (op_each (write_unmanaged_entry M root) entries) (\<lambda>_.
     mz_io (sync_dir M root)))"

definition validated_snapshot ::
  "('v, 'm) libs \<Rightarrow> string \<Rightarrow> SkillManifest \<Rightarrow> string \<Rightarrow> (OwnedSkillEntry list, MaterializationError) result" where
  "validated_snapshot E skill_name manifest snapshot =
     map_err MZ_Snapshot (validate_skill_snapshot (lb_unicode E) (lb_yaml E) (lb_sha E) (lb_archive E)
       skill_name manifest snapshot)"

definition export_skill_snapshot ::
  "('v, 'm) libs \<Rightarrow> local_machine \<Rightarrow> string \<Rightarrow> SkillManifest \<Rightarrow> string \<Rightarrow> path \<Rightarrow> unit mz_op" where
  "export_skill_snapshot E M skill_name manifest snapshot destination =
     op_bind (look (\<lambda>fs. if fs_exists fs destination
       then Err (MZ_Corrupt (''export destination already exists: '' @ path_text destination)) else Ok ())) (\<lambda>_.
     op_bind (op_res (validated_snapshot E skill_name manifest snapshot)) (\<lambda>entries.
     op_bind (mz_io (create_dir_all M destination)) (\<lambda>_.
     op_match (write_unmanaged_entries M destination entries) (\<lambda>result. case result of
       Ok _ \<Rightarrow> op_ok ()
     | Err e \<Rightarrow> op_bind (op_ignore (remove_dir_all M destination)) (\<lambda>_. op_err e)))))"

section \<open>Materializing\<close>

definition canonical_targets_generation :: "path \<Rightarrow> path \<Rightarrow> node \<Rightarrow> (bool, MaterializationError) result" where
  "canonical_targets_generation canonical_path generation_dir fs =
     (case canonicalize fs canonical_path of
        Ok canonical \<Rightarrow> map_ok (\<lambda>generation. canonical = generation) (map_err MZ_Io (canonicalize fs generation_dir))
      | Err e \<Rightarrow> if e = NotFound then Ok False else Err (MZ_Io e))"

definition canonical_path_of :: "LocalPaths \<Rightarrow> string \<Rightarrow> string \<Rightarrow> path" where
  "canonical_path_of P owner skill_name = path_join (path_join (lp_skills P) owner) skill_name"

definition generation_path :: "LocalPaths \<Rightarrow> string \<Rightarrow> string \<Rightarrow> path" where
  "generation_path P resource_id revision_id = path_join (path_join (lp_generations P) resource_id) revision_id"

text \<open>
  Whether an existing generation can be used: a dirty one that is not the active working tree is
  removed, an active one is an error.
\<close>

definition reuse_generation ::
  "('v, 'm) libs \<Rightarrow> local_machine \<Rightarrow> path \<Rightarrow> path \<Rightarrow> path \<Rightarrow> string \<Rightarrow> SkillManifest \<Rightarrow> bool mz_op" where
  "reuse_generation E M resource_root generation_dir canonical_path skill_name manifest =
     op_bind (look (\<lambda>fs. Ok (is_dir fs generation_dir))) (\<lambda>present.
     if \<not> present then op_ok False
     else op_match (look (verify_generation E generation_dir skill_name manifest)) (\<lambda>r. case r of
       Ok _ \<Rightarrow> op_ok True
     | Err e \<Rightarrow>
         if e \<noteq> MZ_ManifestMismatch then op_err e
         else op_bind (look (canonical_targets_generation canonical_path generation_dir)) (\<lambda>active.
           if active then op_err MZ_ManifestMismatch
           else
             op_bind (mz_io (remove_dir_all M generation_dir)) (\<lambda>_.
             op_bind (mz_io (sync_dir M resource_root)) (\<lambda>_.
             op_ok False)))))"

definition stage_skill_generation ::
  "('v, 'm) libs \<Rightarrow> local_machine \<Rightarrow> LocalPaths \<Rightarrow> DesiredSkillMaterialization \<Rightarrow> string \<Rightarrow> OperationId \<Rightarrow> path mz_op" where
  "stage_skill_generation E M P desired snapshot operation_id =
     op_bind (op_res (validated_snapshot E (dsm_skill_name desired) (dsm_manifest desired) snapshot)) (\<lambda>entries.
     let resource_root = path_join (lp_generations P) (resource_text E (dsm_resource_id desired));
         generation_dir = path_join resource_root (revision_text E (dsm_revision_id desired));
         stage_dir = path_join resource_root (''.rename-stage-'' @ operation_text (lb_uuid E) operation_id) in
     op_bind (mz_io (create_dir_all M resource_root)) (\<lambda>_.
     op_bind (reuse_generation E M resource_root generation_dir
       (canonical_path_of P (dsm_owner desired) (dsm_skill_name desired)) (dsm_skill_name desired) (dsm_manifest desired)) (\<lambda>ready.
     if ready then op_ok generation_dir
     else
       op_bind (op_ignore (remove_dir_all M stage_dir)) (\<lambda>_.
       op_bind (write_generation E M P stage_dir entries) (\<lambda>_.
       op_bind (look (verify_generation E stage_dir (dsm_skill_name desired) (dsm_manifest desired))) (\<lambda>_.
       op_match (fs_rename M stage_dir generation_dir) (\<lambda>r. case r of
         Ok _ \<Rightarrow> op_bind (mz_io (sync_dir M resource_root)) (\<lambda>_. op_ok generation_dir)
       | Err e \<Rightarrow>
           op_bind (look (\<lambda>fs. Ok (is_dir fs generation_dir))) (\<lambda>present.
           if present then
             op_bind (op_ignore (remove_dir_all M stage_dir)) (\<lambda>_.
             op_bind (look (verify_generation E generation_dir (dsm_skill_name desired) (dsm_manifest desired))) (\<lambda>_.
             op_ok generation_dir))
           else op_err (MZ_Io e)))))))))"

definition switch_staged_skill_generation ::
  "('v, 'm) libs \<Rightarrow> local_machine \<Rightarrow> LocalPaths \<Rightarrow> DesiredSkillMaterialization \<Rightarrow> path \<Rightarrow> OperationId \<Rightarrow> unit mz_op" where
  "switch_staged_skill_generation E M P desired generation_dir operation_id =
     (let expected = generation_path P (resource_text E (dsm_resource_id desired)) (revision_text E (dsm_revision_id desired)) in
      op_bind (look (\<lambda>fs. if generation_dir \<noteq> expected \<or> \<not> is_dir fs generation_dir
        then Err (MZ_Corrupt (''unexpected staged generation path '' @ path_text generation_dir)) else Ok ())) (\<lambda>_.
      op_bind (look (verify_generation E generation_dir (dsm_skill_name desired) (dsm_manifest desired))) (\<lambda>_.
      atomic_switch_directory_link E M generation_dir
        (canonical_path_of P (dsm_owner desired) (dsm_skill_name desired)) operation_id)))"

definition restore_skill_generation ::
  "('v, 'm) libs \<Rightarrow> local_machine \<Rightarrow> LocalPaths \<Rightarrow> string \<Rightarrow> string \<Rightarrow> string \<Rightarrow> string option \<Rightarrow> OperationId \<Rightarrow> unit mz_op" where
  "restore_skill_generation E M P resource_id owner skill_name revision_id operation_id =
     (case revision_id of
        None \<Rightarrow> remove_canonical_skill M P owner skill_name
      | Some revision \<Rightarrow>
          (let generation = generation_path P resource_id revision in
           op_bind (look (\<lambda>fs. if is_dir fs generation then Ok ()
             else Err (MZ_Corrupt (''rollback generation is missing: '' @ path_text generation)))) (\<lambda>_.
           atomic_switch_directory_link E M generation (canonical_path_of P owner skill_name) operation_id)))"

abbreviation advance_journal ::
  "('v, 'm) libs \<Rightarrow> local_machine \<Rightarrow> OperationId \<Rightarrow> JournalState \<Rightarrow> JournalState \<Rightarrow> unit mz_op" where
  "advance_journal E M operation_id expected next_state \<equiv>
     mz_db M (update_materialization_journal (lb_uuid E) operation_id expected next_state)"

definition materialize_with_lease ::
  "('v, 'm) libs \<Rightarrow> local_machine \<Rightarrow> LocalPaths \<Rightarrow> DesiredSkillMaterialization \<Rightarrow> OwnedSkillEntry list \<Rightarrow>
   OperationId \<Rightarrow> path mz_op" where
  "materialize_with_lease E M P desired entries operation_id =
     (let resource_id = resource_text E (dsm_resource_id desired);
          revision_id = revision_text E (dsm_revision_id desired);
          resource_root = path_join (lp_generations P) resource_id;
          stage_dir = path_join resource_root (''.stage-'' @ operation_text (lb_uuid E) operation_id);
          generation_dir = path_join resource_root revision_id;
          canonical_path = canonical_path_of P (dsm_owner desired) (dsm_skill_name desired);
          payload = \<lparr>mat_resource_id = resource_id, mat_revision_id = revision_id, mat_stage_dir = path_text stage_dir,
            mat_generation_dir = path_text generation_dir, mat_canonical_path = path_text canonical_path\<rparr> in
      op_bind (mz_io (create_dir_all M resource_root)) (\<lambda>_.
      op_bind (mz_db M (create_materialization_journal (lb_uuid E) (lb_materialization E) operation_id payload)) (\<lambda>_.
      op_bind (reuse_generation E M resource_root generation_dir canonical_path
        (dsm_skill_name desired) (dsm_manifest desired)) (\<lambda>generation_ready.
      op_bind (if generation_ready then op_ok ()
        else op_bind (op_ignore (remove_dir_all M stage_dir)) (\<lambda>_. write_generation E M P stage_dir entries)) (\<lambda>_.
      op_bind (advance_journal E M operation_id Planned Staged) (\<lambda>_.
      op_bind (look (\<lambda>fs. Ok (is_dir fs generation_dir))) (\<lambda>present.
      op_bind (if present then op_ok ()
        else op_bind (look (verify_generation E stage_dir (dsm_skill_name desired) (dsm_manifest desired))) (\<lambda>_.
             op_bind (mz_io (fs_rename M stage_dir generation_dir)) (\<lambda>_.
             mz_io (sync_dir M resource_root)))) (\<lambda>_.
      op_bind (advance_journal E M operation_id Staged Verified) (\<lambda>_.
      op_bind (atomic_switch_directory_link E M generation_dir canonical_path operation_id) (\<lambda>_.
      op_bind (advance_journal E M operation_id Verified Switched) (\<lambda>_.
      op_bind (mz_db M (mark_skill_materialized resource_id revision_id)) (\<lambda>_.
      op_bind (advance_journal E M operation_id Switched Complete) (\<lambda>_.
      op_ok generation_dir)))))))))))))"

text \<open>Finishing one journal entry that a process left incomplete.\<close>

definition recover_materialization ::
  "('v, 'm) libs \<Rightarrow> local_machine \<Rightarrow> MaterializationJournalPayload Journal \<Rightarrow> unit mz_op" where
  "recover_materialization E M journal =
     (let payload = jr_payload journal;
          stage = path_components (mat_stage_dir payload);
          generation = path_components (mat_generation_dir payload);
          canonical = path_components (mat_canonical_path payload);
          operation_id = jr_operation_id journal;
          finish = op_bind (mz_db M (mark_skill_materialized (mat_resource_id payload) (mat_revision_id payload))) (\<lambda>_.
            advance_journal E M operation_id Switched Complete) in
      case jr_state journal of
        Planned \<Rightarrow> op_bind (op_ignore (remove_dir_all M stage)) (\<lambda>_.
          mz_db M (\<lambda>_. discard_materialization_journal (lb_uuid E) operation_id))
      | Staged \<Rightarrow> op_bind (op_ignore (remove_dir_all M stage)) (\<lambda>_.
          mz_db M (\<lambda>_. discard_materialization_journal (lb_uuid E) operation_id))
      | Verified \<Rightarrow>
          op_bind (look (\<lambda>fs. if is_dir fs generation then Ok ()
            else Err (MZ_Corrupt (''verified generation is missing for '' @ mat_resource_id payload)))) (\<lambda>_.
          op_bind (atomic_switch_directory_link E M generation canonical operation_id) (\<lambda>_.
          op_bind (advance_journal E M operation_id Verified Switched) (\<lambda>_.
          finish)))
      | Switched \<Rightarrow>
          op_bind (look (\<lambda>fs. map_err MZ_Io (canonicalize fs canonical))) (\<lambda>target.
          op_bind (look (\<lambda>fs. map_err MZ_Io (canonicalize fs generation))) (\<lambda>expected.
          if target \<noteq> expected
          then op_err (MZ_Corrupt (''switched canonical path does not target verified generation for '' @ mat_resource_id payload))
          else finish))
      | Complete \<Rightarrow> op_ok ())"

definition recover_materializations :: "('v, 'm) libs \<Rightarrow> local_machine \<Rightarrow> unit mz_op" where
  "recover_materializations E M =
     op_bind (mz_db M (\<lambda>_. materialization_journals (lb_uuid E) (lb_materialization E))) (\<lambda>journals.
     op_each (recover_materialization E M) journals)"

definition materialize_skill_snapshot ::
  "('v, 'm) libs \<Rightarrow> local_machine \<Rightarrow> LocalPaths \<Rightarrow> DesiredSkillMaterialization \<Rightarrow> string \<Rightarrow> path mz_op" where
  "materialize_skill_snapshot E M P desired snapshot =
     op_bind (recover_materializations E M) (\<lambda>_.
     op_bind (op_res (validated_snapshot E (dsm_skill_name desired) (dsm_manifest desired) snapshot)) (\<lambda>entries.
     op_bind (new_operation_id E M) (\<lambda>operation_id.
     let holder = operation_text (lb_uuid E) operation_id;
         resource_key = ''skill:'' @ resource_text E (dsm_resource_id desired) in
     op_bind (mz_db M (\<lambda>now. claim_lease resource_key holder now 60000)) (\<lambda>claimed.
     if \<not> claimed then op_err (MZ_Busy (resource_text E (dsm_resource_id desired)))
     else op_match (materialize_with_lease E M P desired entries operation_id) (\<lambda>result.
       op_bind (op_ignore (db_call_now M (\<lambda>_. release_lease resource_key holder))) (\<lambda>_.
       op_res result))))))"

section \<open>Stale canonical links\<close>

text \<open>The inner loop removes the links of one owner that no record asks for.\<close>

definition reconcile_owner ::
  "local_machine \<Rightarrow> LocalPaths \<Rightarrow> (string \<times> string) set \<Rightarrow> string \<Rightarrow> nat mz_op" where
  "reconcile_owner M P desired owner =
     (let owner_path = lp_skills P @ [owner] in
      if from_utf8 owner = None then op_err (MZ_Corrupt ''canonical owner directory is not UTF-8'')
      else op_bind (look (\<lambda>fs. if is_dir fs owner_path then map_err MZ_Io (read_dir fs owner_path)
        else Err (MZ_Corrupt (''unexpected canonical owner entry '' @ path_text owner_path)))) (\<lambda>names.
      op_bind (op_each (\<lambda>skill_name.
        if from_utf8 skill_name = None then op_err (MZ_Corrupt ''canonical skill name is not UTF-8'')
        else if (owner, skill_name) \<in> desired then op_ok ()
        else remove_owned_link M (owner_path @ [skill_name])) names) (\<lambda>_.
      op_bind (op_ignore (remove_dir M owner_path)) (\<lambda>_.
      op_ok (length (filter (\<lambda>n. (owner, n) \<notin> desired) names))))))"

primrec reconcile_owners ::
  "local_machine \<Rightarrow> LocalPaths \<Rightarrow> (string \<times> string) set \<Rightarrow> nat \<Rightarrow> string list \<Rightarrow> nat mz_op" where
  "reconcile_owners M P desired removed [] = op_ok removed"
| "reconcile_owners M P desired removed (owner # owners) =
     op_bind (reconcile_owner M P desired owner) (\<lambda>n. reconcile_owners M P desired (removed + n) owners)"

definition reconcile_canonical_links :: "local_machine \<Rightarrow> LocalPaths \<Rightarrow> nat mz_op" where
  "reconcile_canonical_links M P =
     op_bind (mz_db M (\<lambda>_. managed_skills)) (\<lambda>records.
     op_bind (look (\<lambda>fs. map_err MZ_Io (read_dir fs (lp_skills P)))) (\<lambda>owners.
     reconcile_owners M P (set (map (\<lambda>r. (mg_owner r, mg_skill_name r)) records)) 0 owners))"

end
