(* ===== verification/Materialize_Safety.thy ===== *)
theory Materialize_Safety
  imports Materialize
begin

text \<open>
  What materializing a skill may touch, whatever fails on the way.  The lemmas follow the phases of
  \<open>materialize_with_lease\<close>: up to the switch only the object store, the stage and the generation
  change; the switch replaces the canonical link by one to a generation that verifies.
\<close>

section \<open>Names\<close>

definition name_text :: "string \<Rightarrow> bool" where
  "name_text s \<longleftrightarrow> s \<noteq> [] \<and> set s \<subseteq> set ''0123456789abcdef-''"

text \<open>What is documented of the texts of UUIDs and of hexadecimal, and that a hash is not empty.\<close>

definition libs_plain :: "('v, 'm) libs \<Rightarrow> bool" where
  "libs_plain E \<longleftrightarrow> (\<forall>b. name_text (uu_to_string (lb_uuid E) b)) \<and> (\<forall>b. b \<noteq> [] \<longrightarrow> name_text (lb_hex E b)) \<and>
     (\<forall>b. lb_sha E b \<noteq> [])"

lemma name_text_plain: "name_text s \<Longrightarrow> plain_name s"
  by (auto simp: name_text_def plain_name_def)

lemma name_text_append: "name_text s \<Longrightarrow> slash \<notin> set x \<Longrightarrow> plain_name (x @ s)"
proof -
  assume s: "name_text s" and x: "slash \<notin> set x"
  have "CHR ''.'' \<notin> set s" "slash \<notin> set s" "s \<noteq> []" using s by (auto simp: name_text_def)
  then have "last (x @ s) \<noteq> CHR ''.''" by (metis last_appendR last_in_set)
  then have "x @ s \<noteq> ''.''" "x @ s \<noteq> ''..''" by (metis last.simps list.distinct(1))+
  then show ?thesis using x \<open>slash \<notin> set s\<close> \<open>s \<noteq> []\<close> by (simp add: plain_name_def)
qed

lemma name_text_take: "name_text s \<Longrightarrow> name_text (take 2 s)"
proof -
  assume s: "name_text s"
  then have "take 2 s \<noteq> []" by (cases s) (simp_all add: name_text_def)
  with s show ?thesis unfolding name_text_def using set_take_subset [of 2 s] by blast
qed

lemma operation_name: "libs_plain E \<Longrightarrow> slash \<notin> set x \<Longrightarrow> plain_name (x @ operation_text (lb_uuid E) op)"
  by (simp add: libs_plain_def operation_text_def name_text_append)

lemma resource_name: "libs_plain E \<Longrightarrow> plain_name (resource_text E r)"
  by (simp add: libs_plain_def resource_text_def name_text_plain)

lemma revision_name: "libs_plain E \<Longrightarrow> revision_bytes r \<noteq> [] \<Longrightarrow> plain_name (revision_text E r)"
  by (simp add: libs_plain_def revision_text_def name_text_plain)

section \<open>The paths of a materialization\<close>

definition layout_ok :: "LocalPaths \<Rightarrow> node \<Rightarrow> bool" where
  "layout_ok P fs \<longleftrightarrow> (\<exists>home. P = from_home home \<and> list_all plain_name home) \<and>
     peek fs (lp_skills P) = Some S_Dir \<and> peek fs (lp_generations P) = Some S_Dir \<and>
     peek fs (lp_objects P) = Some S_Dir \<and> (\<forall>q. prefix (lp_objects P) q \<longrightarrow> \<not> is_link (peek fs q))"

definition denju_root :: "LocalPaths \<Rightarrow> path" where
  "denju_root P = lp_home P @ [''.denju'']"

lemma path_join_relative: "\<not> is_absolute s \<Longrightarrow> path_join p s = p @ path_components s"
  by (simp add: path_join_def)

lemma objects_components: "path_components ''objects/blobs/sha256'' = [''objects'', ''blobs'', ''sha256'']"
proof -
  have "plain_name ''objects''" "plain_name ''blobs''" "plain_name ''sha256''" by (simp_all add: plain_name_def)
  then show ?thesis
    using path_components_append_slash [of "''objects''" "''blobs/sha256''"]
      path_components_append_slash [of "''blobs''" "''sha256''"] by (simp add: path_components_plain)
qed

lemma layout_paths:
  assumes "layout_ok P fs"
  shows "lp_skills P = denju_root P @ [''skills'']" "lp_generations P = denju_root P @ [''generations'']"
    "lp_objects P = denju_root P @ [''objects'', ''blobs'', ''sha256'']" "list_all plain_name (denju_root P)"
proof -
  obtain home where P: "P = from_home home" "list_all plain_name home" using assms by (auto simp: layout_ok_def)
  have pl: "plain_name ''.denju''" "plain_name ''skills''" "plain_name ''generations''"
    by (simp_all add: plain_name_def)
  show "lp_skills P = denju_root P @ [''skills'']" "lp_generations P = denju_root P @ [''generations'']"
    by (simp_all add: P from_home_def denju_root_def Let_def pl)
  show "lp_objects P = denju_root P @ [''objects'', ''blobs'', ''sha256'']"
    by (simp add: P from_home_def denju_root_def Let_def pl path_join_relative is_absolute_def objects_components)
  show "list_all plain_name (denju_root P)" using P(2) by (simp add: P(1) from_home_def denju_root_def pl Let_def)
qed

definition resource_root :: "('v, 'm) libs \<Rightarrow> LocalPaths \<Rightarrow> DesiredSkillMaterialization \<Rightarrow> path" where
  "resource_root E P d = path_join (lp_generations P) (resource_text E (dsm_resource_id d))"

definition stage_dir :: "('v, 'm) libs \<Rightarrow> LocalPaths \<Rightarrow> DesiredSkillMaterialization \<Rightarrow> OperationId \<Rightarrow> path" where
  "stage_dir E P d op = path_join (resource_root E P d) (''.stage-'' @ operation_text (lb_uuid E) op)"

definition generation_dir :: "('v, 'm) libs \<Rightarrow> LocalPaths \<Rightarrow> DesiredSkillMaterialization \<Rightarrow> path" where
  "generation_dir E P d = path_join (resource_root E P d) (revision_text E (dsm_revision_id d))"

definition canonical_link :: "LocalPaths \<Rightarrow> DesiredSkillMaterialization \<Rightarrow> path" where
  "canonical_link P d = canonical_path_of P (dsm_owner d) (dsm_skill_name d)"

definition switch_link :: "('v, 'm) libs \<Rightarrow> LocalPaths \<Rightarrow> DesiredSkillMaterialization \<Rightarrow> OperationId \<Rightarrow> path" where
  "switch_link E P d op = path_join (butlast (canonical_link P d)) (''.denju-link-'' @ operation_text (lb_uuid E) op)"

text \<open>
  The state in which a materialization starts: the layout is in place, its names are names, the
  directories it writes to are not links, and the names of a new operation are not taken.
\<close>

definition mat_ready ::
  "('v, 'm) libs \<Rightarrow> LocalPaths \<Rightarrow> DesiredSkillMaterialization \<Rightarrow> OperationId \<Rightarrow> node \<Rightarrow> bool" where
  "mat_ready E P d op fs \<longleftrightarrow> libs_plain E \<and> layout_ok P fs \<and> plain_name (dsm_owner d) \<and> skill_name_spec (dsm_skill_name d) \<and>
     revision_bytes (dsm_revision_id d) \<noteq> [] \<and> \<not> is_link (peek fs (butlast (canonical_link P d))) \<and>
     \<not> is_link (peek fs (resource_root E P d)) \<and> \<not> is_link (peek fs (generation_dir E P d)) \<and>
     peek fs (stage_dir E P d op) = None \<and> peek fs (switch_link E P d op) = None"

lemma skill_name_no_dot: "skill_name_spec n \<Longrightarrow> CHR ''.'' \<notin> set n"
proof
  assume "skill_name_spec n" "CHR ''.'' \<in> set n"
  then have "skill_name_byte (CHR ''.'')"
    using skill_name_groups [of n] by (auto simp: skill_name_spec_def list_all_iff)
  then show False by (simp add: skill_name_byte_def ascii_lowercase_def ascii_digit_def)
qed

lemma skill_name_plain: "skill_name_spec n \<Longrightarrow> plain_name n"
  using skill_name_no_dot [of n] skill_name_no_slash [of n] by (auto simp: plain_name_def skill_name_spec_def)

lemma ready_layout: "mat_ready E P d op fs \<Longrightarrow> layout_ok P fs" "mat_ready E P d op fs \<Longrightarrow> libs_plain E"
  by (simp_all add: mat_ready_def)

lemma the_paths:
  assumes "mat_ready E P d op fs"
  shows "resource_root E P d = denju_root P @ [''generations'', resource_text E (dsm_resource_id d)]"
    and "stage_dir E P d op = denju_root P @ [''generations'', resource_text E (dsm_resource_id d), ''.stage-'' @ operation_text (lb_uuid E) op]"
    and "generation_dir E P d = denju_root P @ [''generations'', resource_text E (dsm_resource_id d), revision_text E (dsm_revision_id d)]"
    and "canonical_link P d = denju_root P @ [''skills'', dsm_owner d, dsm_skill_name d]"
    and "switch_link E P d op = denju_root P @ [''skills'', dsm_owner d, ''.denju-link-'' @ operation_text (lb_uuid E) op]"
proof -
  note paths = layout_paths [OF ready_layout(1) [OF assms]] and E = ready_layout(2) [OF assms]
  have n: "plain_name (dsm_owner d)" "plain_name (dsm_skill_name d)" "revision_bytes (dsm_revision_id d) \<noteq> []"
    using assms by (simp_all add: mat_ready_def skill_name_plain)
  have s: "plain_name (''.stage-'' @ operation_text (lb_uuid E) op)" "plain_name (''.denju-link-'' @ operation_text (lb_uuid E) op)"
    by (rule operation_name [OF E]; simp)+
  show root: "resource_root E P d = denju_root P @ [''generations'', resource_text E (dsm_resource_id d)]"
    using resource_name [OF E] by (simp add: resource_root_def paths)
  show "stage_dir E P d op = denju_root P @ [''generations'', resource_text E (dsm_resource_id d), ''.stage-'' @ operation_text (lb_uuid E) op]"
    unfolding stage_dir_def root path_join_plain [OF s(1)] by simp
  show "generation_dir E P d = denju_root P @ [''generations'', resource_text E (dsm_resource_id d), revision_text E (dsm_revision_id d)]"
    unfolding generation_dir_def root using revision_name [OF E n(3)] by simp
  show canonical: "canonical_link P d = denju_root P @ [''skills'', dsm_owner d, dsm_skill_name d]"
    using n by (simp add: canonical_link_def canonical_path_of_def paths)
  show "switch_link E P d op = denju_root P @ [''skills'', dsm_owner d, ''.denju-link-'' @ operation_text (lb_uuid E) op]"
    unfolding switch_link_def canonical path_join_plain [OF s(2)] by (simp add: butlast_append)
qed

section \<open>Areas\<close>

definition below :: "path \<Rightarrow> path set" where
  "below p = {q. prefix p q}"

lemma below_iff [simp]: "q \<in> below p \<longleftrightarrow> prefix p q"
  by (simp add: below_def)

text \<open>Where the links of the staged entries go.\<close>

definition link_places :: "path \<Rightarrow> OwnedSkillEntry list \<Rightarrow> path set" where
  "link_places root entries = {root @ path_components path | path target. OE_Symlink path target \<in> set entries}"

definition build_links ::
  "('v, 'm) libs \<Rightarrow> LocalPaths \<Rightarrow> DesiredSkillMaterialization \<Rightarrow> OperationId \<Rightarrow> OwnedSkillEntry list \<Rightarrow> path set" where
  "build_links E P d op entries =
     link_places (stage_dir E P d op) entries \<union> {q. strict_prefix (generation_dir E P d) q}"

definition switch_area ::
  "('v, 'm) libs \<Rightarrow> LocalPaths \<Rightarrow> DesiredSkillMaterialization \<Rightarrow> OperationId \<Rightarrow> path set" where
  "switch_area E P d op = {butlast (canonical_link P d)} \<union> below (switch_link E P d op) \<union> below (canonical_link P d)"

section \<open>Entries of a validated skill\<close>

definition entry_comps :: "OwnedSkillEntry \<Rightarrow> path" where
  "entry_comps e = split_on slash (oe_path e)"

definition entries_ok :: "OwnedSkillEntry list \<Rightarrow> bool" where
  "entries_ok es \<longleftrightarrow> distinct (map oe_path es) \<and>
     (\<forall>e \<in> set es. list_all plain_name (entry_comps e) \<and>
       (\<forall>pre. pre \<noteq> [] \<longrightarrow> strict_prefix pre (entry_comps e) \<longrightarrow> OE_Directory (join_with slash pre) \<in> set es))"

lemma parsed_components_plain:
  assumes "path_parses U p"
  shows "list_all plain_name (split_on slash p)"
  unfolding list_all_iff
proof
  fix c assume c: "c \<in> set (split_on slash p)"
  then have "validate_component c False = Ok ()" using assms by (auto simp: path_parses_def parse_Ok_iff)
  moreover have "slash \<notin> set c" using c by (rule split_on_no_sep)
  ultimately show "plain_name c" by (auto simp: plain_name_def validate_component_def split: if_splits)
qed

lemma ancestors_are_prefixes:
  "pre \<noteq> [] \<Longrightarrow> strict_prefix pre (split_on slash p) \<Longrightarrow> join_with slash pre \<in> set (ancestors (PortablePath p))"
proof -
  assume pre: "pre \<noteq> []" "strict_prefix pre (split_on slash p)"
  then obtain u where u: "split_on slash p = pre @ u" "u \<noteq> []" by (auto simp: strict_prefix_def prefix_def)
  then have take: "take (length pre) (split_on slash p) = pre" and len: "length pre \<in> set [1..<length (split_on slash p)]"
    using pre by (simp_all add: Suc_le_eq)
  have "(\<lambda>n. join_with slash (take n (split_on slash p))) (length pre) \<in>
      (\<lambda>n. join_with slash (take n (split_on slash p))) ` set [1..<length (split_on slash p)]"
    using len by (rule imageI)
  then show ?thesis unfolding ancestors_def components_def set_map PortablePath.sel take .
qed

lemma manifest_entries_ok:
  assumes "build_skill_manifest U Y H n es = Ok m"
  shows "entries_ok es"
proof -
  obtain vs where vs: "validate_skill_directory U Y n (map as_skill_entry es) = Ok vs"
    using assms by (auto simp: build_skill_manifest_Ok_iff)
  have conf: "tree_conforms U (map portable_of (map as_skill_entry es))"
    using vs by (simp add: validate_skill_directory_Ok_iff)
  have "OE_Directory (join_with slash pre) \<in> set es"
    if e: "e \<in> set es" and pre: "pre \<noteq> []" "strict_prefix pre (entry_comps e)" for e pre
  proof -
    have "join_with slash pre \<in> set (ancestors (PortablePath (oe_path e)))"
      using ancestors_are_prefixes pre by (simp add: entry_comps_def)
    then have "is_directory_of (map portable_of (map as_skill_entry es)) (join_with slash pre)"
      using conf e unfolding tree_conforms_def by (force simp: portable_of_def)
    then obtain f where f: "f \<in> set es" "oe_path f = join_with slash pre" "se_kind (as_skill_entry f) = PE_Directory"
      by (auto simp: is_directory_of_def portable_of_def)
    have "f = OE_Directory (join_with slash pre)" using f(2,3) by (cases f) auto
    with f(1) show ?thesis by simp
  qed
  then show ?thesis
    using validated_directory_facts(1,2) [OF vs] parsed_components_plain
    unfolding entries_ok_def entry_comps_def by blast
qed

lemma entry_comps_nonempty [simp]: "entry_comps e \<noteq> []"
  by (simp add: entry_comps_def)

lemma entry_join:
  assumes "entries_ok es" "e \<in> set es"
  shows "path_components (oe_path e) = entry_comps e" "path_join root (oe_path e) = root @ entry_comps e"
proof -
  have p: "list_all plain_name (split_on slash (oe_path e))" using assms by (simp add: entries_ok_def entry_comps_def)
  then show c: "path_components (oe_path e) = entry_comps e"
    unfolding path_components_def entry_comps_def
    by (intro filter_True) (auto simp: list_all_iff plain_name_def)
  obtain a as where "split_on slash (oe_path e) = a # as" by (cases "split_on slash (oe_path e)") auto
  with p have "plain_name a" by simp
  have "\<not> is_absolute (oe_path e)"
  proof
    assume "is_absolute (oe_path e)"
    then obtain s where "oe_path e = slash # s" by (cases "oe_path e") (auto simp: is_absolute_def)
    with p show False by (simp add: plain_name_def)
  qed
  then show "path_join root (oe_path e) = root @ entry_comps e" using c by (simp add: path_join_relative)
qed

lemma comps_inj: "entries_ok es \<Longrightarrow> e \<in> set es \<Longrightarrow> f \<in> set es \<Longrightarrow> entry_comps e = entry_comps f \<Longrightarrow> e = f"
  unfolding entries_ok_def entry_comps_def by (metis distinct_map inj_onD join_split)

text \<open>No entry lies below a link.\<close>

lemma nothing_below_link:
  assumes "entries_ok es" "e \<in> set es" "OE_Symlink p t \<in> set es"
  shows "\<not> strict_prefix (entry_comps (OE_Symlink p t)) (entry_comps e)"
proof
  assume "strict_prefix (entry_comps (OE_Symlink p t)) (entry_comps e)"
  then have "OE_Directory (join_with slash (entry_comps (OE_Symlink p t))) \<in> set es"
    using assms entry_comps_nonempty unfolding entries_ok_def by blast
  then have "OE_Directory p \<in> set es" by (simp add: entry_comps_def)
  then have "OE_Directory p = OE_Symlink p t" using comps_inj [OF assms(1) _ assms(3)] by (simp add: entry_comps_def)
  then show False by simp
qed

section \<open>Writing stays inside\<close>

text \<open>A directory whose content may be written: nothing above it is a link, links inside are known.\<close>

definition writable :: "node \<Rightarrow> path set \<Rightarrow> path set \<Rightarrow> path \<Rightarrow> path set \<Rightarrow> bool" where
  "writable fs0 A K root L \<longleftrightarrow> clear_path fs0 A K root \<and> reachable_dir fs0 A root \<and> below root \<subseteq> A \<and>
     (\<forall>q \<in> K. prefix root q \<longrightarrow> q \<in> L)"

lemma strict_prefix_append:
  assumes "strict_prefix r (a @ b)"
  obtains "strict_prefix r a" | c where "r = a @ c" "strict_prefix c b"
  using assms by (auto simp: strict_prefix_def prefix_append) (metis append_Nil2 Nil_prefix)

lemma prefix_append_cases:
  assumes "prefix r (a @ b)"
  obtains "prefix r a" | c where "r = a @ c" "prefix c b"
  using assms by (auto simp: prefix_append)

lemma writable_clear:
  assumes "writable fs0 A K root L" "''..'' \<notin> set cs" "\<And>pre. strict_prefix pre cs \<Longrightarrow> root @ pre \<notin> L"
  shows "clear_path fs0 A K (root @ cs)"
  unfolding clear_path_def
proof (intro conjI allI impI)
  show "''..'' \<notin> set (root @ cs)" using assms(1,2) by (simp add: writable_def clear_path_def)
  fix r assume "strict_prefix r (root @ cs)"
  then show "if r \<in> A then r \<notin> K else \<not> is_link (peek fs0 r)"
  proof (cases rule: strict_prefix_append)
    case 1
    then show ?thesis using assms(1) by (simp add: writable_def clear_path_def)
  next
    case (2 c)
    then have "r \<in> A" "r \<notin> K" using assms(1,3) by (auto simp: writable_def)
    then show ?thesis by simp
  qed
qed

lemma writable_reachable: "writable fs0 A K root L \<Longrightarrow> reachable_dir fs0 A (root @ cs)"
  unfolding reachable_dir_def writable_def by (auto elim!: prefix_append_cases)

lemma writable_area: "writable fs0 A K root L \<Longrightarrow> root @ cs \<in> A"
  by (auto simp: writable_def)

lemma within_store:
  assumes "writable fs0 A K (lp_objects P) {}" "libs_plain E"
  shows "within fs0 A K (store_cas_blob E M P bytes)"
proof -
  let ?id = "lb_hex E (blob_bytes (BlobId_hash (lb_sha E) bytes))"
  have id: "name_text ?id" using assms(2) by (simp add: libs_plain_def BlobId_hash_def)
  have n: "plain_name (take 2 ?id)" "plain_name ?id" using id name_text_take name_text_plain by blast+
  have t: "plain_name ((''.'' @ ?id @ ''.tmp-'') @ uu_to_string (lb_uuid E) u)" for u
    using assms(2) id by (intro name_text_append) (auto simp: libs_plain_def name_text_def)
  have no_dots: "''..'' \<notin> set cs" if "list_all plain_name cs" for cs
    using that by (auto simp: list_all_iff plain_name_def)
  have clear: "clear_path fs0 A K (lp_objects P @ cs)" if "list_all plain_name cs" for cs
    using writable_clear [OF assms(1) no_dots [OF that]] by simp
  have K: "lp_objects P @ cs \<notin> K" for cs using assms(1) by (auto simp: writable_def)
  have dir: "path_join (lp_objects P) (take 2 ?id) = lp_objects P @ [take 2 ?id]"
    and dst: "path_join (lp_objects P @ [take 2 ?id]) ?id = lp_objects P @ [take 2 ?id, ?id]"
    and tmp: "path_join (lp_objects P @ [take 2 ?id]) (''.'' @ ?id @ ''.tmp-'' @ uu_to_string (lb_uuid E) u) =
      lp_objects P @ [take 2 ?id, ''.'' @ ?id @ ''.tmp-'' @ uu_to_string (lb_uuid E) u]" for u
    using n path_join_plain [OF t [of u]] by simp_all
  have in_A: "\<And>r. prefix (lp_objects P @ cs) r \<Longrightarrow> r \<in> A" for cs
    using assms(1) by (auto simp: writable_def prefix_def)
  show ?thesis
    unfolding store_cas_blob_def Let_def dir dst tmp
  proof (intro always_intros within_create_dir_all within_write_new within_rename)
    fix u
    let ?t = "''.'' @ ?id @ ''.tmp-'' @ uu_to_string (lb_uuid E) u"
    show "clear_path fs0 A K (lp_objects P @ [take 2 ?id])"
      "clear_path fs0 A K (lp_objects P @ [take 2 ?id, ?id])" "clear_path fs0 A K (lp_objects P @ [take 2 ?id, ?t])"
      using clear n t [of u] by simp_all
    show "lp_objects P @ [take 2 ?id, ?t] \<in> A" by (rule writable_area [OF assms(1)])
    show "lp_objects P @ [take 2 ?id, ?t] \<notin> K" by (rule K)
    show "reachable_dir fs0 A (lp_objects P @ [take 2 ?id])" by (rule writable_reachable [OF assms(1)])
    fix r
    show "prefix (lp_objects P @ [take 2 ?id, ?t]) r \<or> prefix (lp_objects P @ [take 2 ?id, ?id]) r \<Longrightarrow> r \<in> A"
      using in_A by blast
    show "(lp_objects P @ [take 2 ?id, ?t]) @ r \<in> K \<Longrightarrow> (lp_objects P @ [take 2 ?id, ?id]) @ r \<in> K"
      using K [of "[take 2 ?id, ?t] @ r"] by simp
  qed (use clear n t in simp_all)
qed

lemma link_place_comps:
  "entries_ok es \<Longrightarrow> root @ cs \<in> link_places root es \<Longrightarrow>
   \<exists>p t. OE_Symlink p t \<in> set es \<and> cs = entry_comps (OE_Symlink p t)"
  using entry_join(1) [of es "OE_Symlink p t" for p t] by (fastforce simp: link_places_def)

lemma entry_clear:
  assumes "writable fs0 A K root (link_places root es)" "entries_ok es" "e \<in> set es"
  shows "clear_path fs0 A K (root @ entry_comps e)"
proof (rule writable_clear [OF assms(1)])
  show "''..'' \<notin> set (entry_comps e)"
    using assms(2,3) by (auto simp: entries_ok_def list_all_iff plain_name_def)
  fix pre assume "strict_prefix pre (entry_comps e)"
  then show "root @ pre \<notin> link_places root es"
    using link_place_comps [OF assms(2), of root pre] nothing_below_link [OF assms(2,3)] by blast
qed

lemma within_create_parent:
  assumes "clear_path fs0 A K p" "reachable_dir fs0 A p"
  shows "within fs0 A K (create_parent M p)"
proof -
  have "reachable_dir fs0 A (butlast p)"
    using assms(2) unfolding reachable_dir_def by (meson prefixeq_butlast prefix_order.trans)
  then show ?thesis unfolding create_parent_def
    by (intro always_intros within_create_dir_all clear_path_butlast assms(1))
qed

lemma within_write_entry:
  assumes "writable fs0 A K root (link_places root es)" "writable fs0 A K (lp_objects P) {}" "libs_plain E"
    and "link_places root es \<subseteq> K" "entries_ok es" "e \<in> set es"
  shows "within fs0 A K (write_entry E M P root e)"
proof -
  note clear = entry_clear [OF assms(1,5,6)] and reach = writable_reachable [OF assms(1)]
    and area = writable_area [OF assms(1)] and join = entry_join(2) [OF assms(5,6), of root]
  show ?thesis
  proof (cases e)
    case (OE_File p b x)
    have "root @ entry_comps e \<notin> K"
    proof
      assume "root @ entry_comps e \<in> K"
      then have "root @ entry_comps e \<in> link_places root es" using assms(1) by (auto simp: writable_def)
      then show False
        using link_place_comps [OF assms(5)] comps_inj [OF assms(5,6)] OE_File by blast
    qed
    with OE_File clear reach area join show ?thesis
      by (auto intro!: always_intros within_store [OF assms(2,3)] within_create_parent within_copy within_set_executable)
  next
    case (OE_Symlink p t)
    have "root @ entry_comps e \<in> K"
      using assms(4,6) entry_join(1) [OF assms(5,6)] OE_Symlink unfolding link_places_def by fastforce
    with OE_Symlink clear reach area join show ?thesis
      by (auto intro!: always_intros within_create_parent within_symlink)
  qed (auto intro: always_intros)
qed

lemma directories_by_depth_set: "p \<in> set (directories_by_depth es) \<longleftrightarrow> OE_Directory p \<in> set es"
  unfolding directories_by_depth_def set_sort
  by (auto simp: map_filter_def image_iff elim!: directory_path.elims)

lemma within_write_generation:
  assumes "writable fs0 A K root (link_places root es)" "writable fs0 A K (lp_objects P) {}" "libs_plain E"
    and "link_places root es \<subseteq> K" "entries_ok es"
  shows "within fs0 A K (write_generation E M P root es)"
  unfolding write_generation_def
proof (intro always_intros within_create_dir_all)
  show "within fs0 A K (write_entry E M P root e)" if "e \<in> set es" for e
    using within_write_entry [OF assms that] .
  show "clear_path fs0 A K root" "reachable_dir fs0 A root" using assms(1) by (simp_all add: writable_def)
  fix p assume "p \<in> set (directories_by_depth es)"
  then have e: "OE_Directory p \<in> set es" by (simp add: directories_by_depth_set)
  have "path_join root p = root @ entry_comps (OE_Directory p)" using entry_join(2) [OF assms(5) e] by simp
  then show "clear_path fs0 A K (path_join root p)" "reachable_dir fs0 A (path_join root p)"
    using entry_clear [OF assms(1,5) e] writable_reachable [OF assms(1)] by simp_all
qed

lemma within_switch:
  assumes "clear_path fs0 A K link" "link \<noteq> []" "reachable_dir fs0 A (butlast link)" "below link \<subseteq> A" "link \<in> K"
    and "tmp = path_join (butlast link) (''.denju-link-'' @ operation_text (lb_uuid E) op)"
    and "clear_path fs0 A K tmp" "below tmp \<subseteq> A" "tmp \<in> K" "\<And>c r. tmp @ c # r \<notin> K"
  shows "within fs0 A K (atomic_switch_directory_link E M target link op)"
proof -
  have "tmp \<in> A" using assms(8) by auto
  moreover have "link @ r \<in> K" if "tmp @ r \<in> K" for r using that assms(5,10) by (cases r) auto
  moreover have "r \<in> A" if "prefix tmp r \<or> prefix link r" for r using that assms(4,8) by auto
  ultimately show ?thesis
    unfolding atomic_switch_directory_link_def Let_def assms(6) [symmetric] create_native_directory_link_def
    by (intro always_intros within_create_dir_all within_remove_file within_remove_dir within_symlink within_rename
        clear_path_butlast assms(1,3,7,9))
qed

section \<open>The phases of a materialization\<close>

lemma dir_prefix: "peek fs p = Some S_Dir \<Longrightarrow> prefix r p \<Longrightarrow> peek fs r = Some S_Dir"
  by (cases "r = p") (auto intro: peek_strict_prefix simp: strict_prefix_def)

lemma plain_no_dots: "list_all plain_name p \<Longrightarrow> ''..'' \<notin> set p"
  by (auto simp: list_all_iff plain_name_def)

lemma prefix_snoc_cases: "prefix r (p @ [c]) \<Longrightarrow> prefix r p \<or> r = p @ [c]"
  by (auto simp: prefix_snoc)

lemma ready_names:
  assumes "mat_ready E P d op fs"
  shows "list_all plain_name (resource_root E P d)" "list_all plain_name (stage_dir E P d op)"
    "list_all plain_name (generation_dir E P d)" "list_all plain_name (canonical_link P d)"
    "list_all plain_name (switch_link E P d op)" "list_all plain_name (lp_objects P)"
proof -
  note E = ready_layout(2) [OF assms] and paths = layout_paths [OF ready_layout(1) [OF assms]]
  have n: "plain_name (dsm_owner d)" "plain_name (dsm_skill_name d)" "plain_name (revision_text E (dsm_revision_id d))"
    "plain_name (resource_text E (dsm_resource_id d))"
    using assms revision_name [OF E] resource_name [OF E] by (simp_all add: mat_ready_def skill_name_plain)
  have s: "plain_name (''.stage-'' @ operation_text (lb_uuid E) op)" "plain_name (''.denju-link-'' @ operation_text (lb_uuid E) op)"
    by (rule operation_name [OF E]; simp)+
  have k: "plain_name ''generations''" "plain_name ''skills''" "plain_name ''objects''" "plain_name ''blobs''" "plain_name ''sha256''"
    by (simp_all add: plain_name_def)
  show "list_all plain_name (resource_root E P d)" "list_all plain_name (stage_dir E P d op)"
    "list_all plain_name (generation_dir E P d)" "list_all plain_name (canonical_link P d)"
    "list_all plain_name (switch_link E P d op)" "list_all plain_name (lp_objects P)"
    unfolding the_paths [OF assms] paths(3) using paths(4) n s k by simp_all
qed

lemma ready_shape:
  assumes "mat_ready E P d op fs"
  shows "\<exists>c. stage_dir E P d op = resource_root E P d @ [c]" "\<exists>c. generation_dir E P d = resource_root E P d @ [c]"
    "\<exists>c. resource_root E P d = lp_generations P @ [c]" "\<exists>c. canonical_link P d = butlast (canonical_link P d) @ [c]"
    "\<exists>c. butlast (canonical_link P d) = lp_skills P @ [c]" "\<exists>c. switch_link E P d op = butlast (canonical_link P d) @ [c]"
    "stage_dir E P d op \<noteq> generation_dir E P d"
proof -
  note paths = layout_paths [OF ready_layout(1) [OF assms]] and E = ready_layout(2) [OF assms]
  show "\<exists>c. stage_dir E P d op = resource_root E P d @ [c]" "\<exists>c. generation_dir E P d = resource_root E P d @ [c]"
    "\<exists>c. resource_root E P d = lp_generations P @ [c]" "\<exists>c. canonical_link P d = butlast (canonical_link P d) @ [c]"
    "\<exists>c. butlast (canonical_link P d) = lp_skills P @ [c]" "\<exists>c. switch_link E P d op = butlast (canonical_link P d) @ [c]"
    by (simp_all add: the_paths [OF assms] paths butlast_append)
  have "name_text (revision_text E (dsm_revision_id d))"
    using assms E by (simp add: mat_ready_def libs_plain_def revision_text_def)
  then have "CHR ''.'' \<notin> set (revision_text E (dsm_revision_id d))" by (auto simp: name_text_def)
  then have "revision_text E (dsm_revision_id d) \<noteq> ''.stage-'' @ operation_text (lb_uuid E) op" by (metis list.set_intros(1) append_Cons)
  then show "stage_dir E P d op \<noteq> generation_dir E P d" unfolding the_paths [OF assms] by simp
qed

lemma ready_dirs:
  assumes "mat_ready E P d op fs"
  shows "prefix r (lp_generations P) \<or> prefix r (lp_skills P) \<or> prefix r (lp_objects P) \<Longrightarrow> peek fs r = Some S_Dir"
    "\<not> is_link (peek fs (resource_root E P d))" "\<not> is_link (peek fs (generation_dir E P d))"
    "\<not> is_link (peek fs (butlast (canonical_link P d)))" "peek fs (stage_dir E P d op) = None"
  using ready_layout(1) [OF assms] assms by (auto simp: layout_ok_def mat_ready_def intro: dir_prefix)

lemma build_links_deep:
  assumes "mat_ready E P d op fs" "q \<in> build_links E P d op es" "entries_ok es"
  shows "prefix (resource_root E P d) q" "length (resource_root E P d) + 1 < length q"
proof -
  obtain a b where ab: "stage_dir E P d op = resource_root E P d @ [a]" "generation_dir E P d = resource_root E P d @ [b]"
    using ready_shape(1,2) [OF assms(1)] by auto
  have "\<exists>c u. q = resource_root E P d @ c # u \<and> u \<noteq> []"
  proof (cases "q \<in> link_places (stage_dir E P d op) es")
    case True
    then obtain p t where "OE_Symlink p t \<in> set es" "q = stage_dir E P d op @ path_components p"
      by (auto simp: link_places_def)
    then have "q = resource_root E P d @ a # entry_comps (OE_Symlink p t)"
      using ab entry_join(1) [OF assms(3)] by fastforce
    then show ?thesis using entry_comps_nonempty by blast
  next
    case False
    then have "strict_prefix (generation_dir E P d) q" using assms(2) by (simp add: build_links_def)
    then obtain u where "q = generation_dir E P d @ u" "u \<noteq> []" by (auto simp: strict_prefix_def prefix_def)
    then show ?thesis using ab by auto
  qed
  then show "prefix (resource_root E P d) q" "length (resource_root E P d) + 1 < length q" by auto
qed

text \<open>The area of some of the parts a materialization writes, and where links may be in all of them.\<close>

datatype part = Objects | Stage | Gen | Switch

definition mat_area ::
  "('v, 'm) libs \<Rightarrow> LocalPaths \<Rightarrow> DesiredSkillMaterialization \<Rightarrow> OperationId \<Rightarrow> part set \<Rightarrow> path set" where
  "mat_area E P d op S = {resource_root E P d} \<union> (if Objects \<in> S then below (lp_objects P) else {}) \<union>
     (if Stage \<in> S then below (stage_dir E P d op) else {}) \<union> (if Gen \<in> S then below (generation_dir E P d) else {}) \<union>
     (if Switch \<in> S then switch_area E P d op else {})"

definition mat_links ::
  "('v, 'm) libs \<Rightarrow> LocalPaths \<Rightarrow> DesiredSkillMaterialization \<Rightarrow> OperationId \<Rightarrow> OwnedSkillEntry list \<Rightarrow> path set" where
  "mat_links E P d op es =
     build_links E P d op es \<union> {q. q = switch_link E P d op \<or> prefix (canonical_link P d) q}"

lemma mat_links_cases:
  assumes "mat_ready E P d op fs" "entries_ok es" "q \<in> mat_links E P d op es"
  shows "prefix (resource_root E P d) q \<and> length (resource_root E P d) + 1 < length q \<or>
    q = switch_link E P d op \<or> prefix (canonical_link P d) q"
  using assms(3) build_links_deep [OF assms(1) _ assms(2)] by (auto simp: mat_links_def)

lemma roots_apart:
  assumes "mat_ready E P d op fs"
  shows "\<not> prefix (resource_root E P d) (switch_link E P d op @ u)" "\<not> prefix (resource_root E P d) (canonical_link P d @ u)"
    "\<not> prefix (lp_objects P) (switch_link E P d op @ u)" "\<not> prefix (lp_objects P) (canonical_link P d @ u)"
    "\<not> prefix (lp_objects P) (resource_root E P d @ u)" "\<not> prefix (resource_root E P d) (lp_objects P @ u)"
    "\<not> prefix (canonical_link P d) (lp_objects P @ u)" "\<not> prefix (canonical_link P d) (resource_root E P d @ u)"
    "\<not> prefix (switch_link E P d op) (resource_root E P d @ u)" "\<not> prefix (butlast (canonical_link P d)) (resource_root E P d @ u)"
  unfolding the_paths [OF assms] layout_paths [OF ready_layout(1) [OF assms]] by (simp_all add: butlast_append)

lemma short_is_no_link:
  assumes "mat_ready E P d op fs" "entries_ok es" "length q \<le> length (resource_root E P d) + 1" "prefix (resource_root E P d) q"
  shows "q \<notin> mat_links E P d op es"
proof
  assume "q \<in> mat_links E P d op es"
  from mat_links_cases [OF assms(1,2) this] assms(3) obtain u where "q = switch_link E P d op @ u \<or> q = canonical_link P d @ u"
    by (auto simp: prefix_def)
  with assms(4) roots_apart(1,2) [OF assms(1), of u] show False by auto
qed

lemma above_is_no_link:
  assumes "mat_ready E P d op fs" "entries_ok es" "prefix q (lp_generations P) \<or> prefix q (lp_skills P) \<or> prefix q (lp_objects P)"
  shows "q \<notin> mat_links E P d op es"
proof
  assume "q \<in> mat_links E P d op es"
  note links = mat_links_cases [OF assms(1,2) this] and paths = the_paths [OF assms(1)]
  have len: "length q \<le> length (denju_root P) + 3"
    using assms(3) unfolding layout_paths [OF ready_layout(1) [OF assms(1)]] by (auto dest: prefix_length_le)
  have objects: "q = lp_objects P" if l: "length q = length (denju_root P) + 3"
  proof -
    have "prefix q (lp_objects P)" using assms(3) l
      unfolding layout_paths [OF ready_layout(1) [OF assms(1)]] by (auto dest: prefix_length_le)
    then obtain u where u: "lp_objects P = q @ u" by (auto simp: prefix_def)
    moreover from this have "length (lp_objects P) = length q + length u" by simp
    then have "u = []" using l unfolding layout_paths [OF ready_layout(1) [OF assms(1)]] by simp
    ultimately show ?thesis by simp
  qed
  have "q = switch_link E P d op \<or> prefix (canonical_link P d) q" using links len unfolding paths by auto
  moreover from this have "q = lp_objects P"
    using len by (intro objects) (auto simp: paths dest: prefix_length_le)
  ultimately show False
    using roots_apart(3,7) [OF assms(1), of "[]"] by auto
qed

lemma ready_root_clear:
  assumes "mat_ready E P d op fs" "entries_ok es"
  shows "clear_path fs (mat_area E P d op S) (mat_links E P d op es) (resource_root E P d)"
    "reachable_dir fs (mat_area E P d op S) (resource_root E P d)"
proof -
  obtain c where c: "resource_root E P d = lp_generations P @ [c]" using ready_shape(3) [OF assms(1)] by auto
  show "clear_path fs (mat_area E P d op S) (mat_links E P d op es) (resource_root E P d)"
    unfolding clear_path_def
  proof (intro conjI allI impI)
    show "''..'' \<notin> set (resource_root E P d)" using plain_no_dots ready_names(1) [OF assms(1)] by blast
    fix r assume "strict_prefix r (resource_root E P d)"
    then have r: "prefix r (lp_generations P)" using c prefix_snoc_cases by (metis strict_prefix_def)
    then show "if r \<in> mat_area E P d op S then r \<notin> mat_links E P d op es else \<not> is_link (peek fs r)"
      using above_is_no_link [OF assms] ready_dirs(1) [OF assms(1)] by auto
  qed
  show "reachable_dir fs (mat_area E P d op S) (resource_root E P d)"
    unfolding reachable_dir_def
  proof (intro allI impI)
    fix r assume "prefix r (resource_root E P d)"
    then show "r \<in> mat_area E P d op S \<or> peek fs r \<noteq> None"
      using prefix_snoc_cases [of r "lp_generations P" c] c ready_dirs(1) [OF assms(1)]
      by (auto simp: mat_area_def)
  qed
qed

lemma ready_stage_writable:
  assumes "mat_ready E P d op fs" "entries_ok es" "Stage \<in> S"
  shows "writable fs (mat_area E P d op S) (mat_links E P d op es) (stage_dir E P d op)
    (link_places (stage_dir E P d op) es)"
proof -
  obtain c where c: "stage_dir E P d op = resource_root E P d @ [c]" using ready_shape(1) [OF assms(1)] by auto
  obtain g where g: "generation_dir E P d = resource_root E P d @ [g]" using ready_shape(2) [OF assms(1)] by auto
  have cg: "c \<noteq> g" using ready_shape(7) [OF assms(1)] c g by auto
  note root = ready_root_clear [OF assms(1,2), of S]
  have "clear_path fs (mat_area E P d op S) (mat_links E P d op es) (stage_dir E P d op)"
    unfolding clear_path_def
  proof (intro conjI allI impI)
    show "''..'' \<notin> set (stage_dir E P d op)" using plain_no_dots ready_names(2) [OF assms(1)] by blast
    fix r assume "strict_prefix r (stage_dir E P d op)"
    then consider "strict_prefix r (resource_root E P d)" | "r = resource_root E P d"
      using c prefix_snoc_cases by (metis strict_prefix_def)
    then show "if r \<in> mat_area E P d op S then r \<notin> mat_links E P d op es else \<not> is_link (peek fs r)"
    proof cases
      case 2
      then show ?thesis using short_is_no_link [OF assms(1,2)] by (simp add: mat_area_def)
    qed (use root(1) in \<open>simp add: clear_path_def\<close>)
  qed
  moreover have "reachable_dir fs (mat_area E P d op S) (stage_dir E P d op)"
    unfolding reachable_dir_def
  proof (intro allI impI)
    fix r assume "prefix r (stage_dir E P d op)"
    then show "r \<in> mat_area E P d op S \<or> peek fs r \<noteq> None"
      using prefix_snoc_cases [of r "resource_root E P d" c] c root(2)
      by (auto simp: reachable_dir_def) (auto simp: mat_area_def assms(3))
  qed
  moreover have "below (stage_dir E P d op) \<subseteq> mat_area E P d op S" by (auto simp: mat_area_def assms(3))
  moreover have "q \<in> link_places (stage_dir E P d op) es"
    if q: "q \<in> mat_links E P d op es" "prefix (stage_dir E P d op) q" for q
  proof -
    obtain u where u: "q = resource_root E P d @ c # u" using q(2) c by (auto simp: prefix_def)
    then have "q \<noteq> switch_link E P d op" "\<not> prefix (canonical_link P d) q"
      using roots_apart(1) [OF assms(1), of "[]"] roots_apart(8) [OF assms(1)] by (metis append_Nil2 prefixI)+
    then have "q \<in> build_links E P d op es" using q by (auto simp: mat_links_def split: if_splits)
    then show ?thesis using q(2) c g cg by (auto simp: build_links_def strict_prefix_def prefix_def)
  qed
  ultimately show ?thesis by (auto simp: writable_def)
qed

lemma ready_objects_writable:
  assumes "mat_ready E P d op fs" "entries_ok es" "Objects \<in> S"
  shows "writable fs (mat_area E P d op S) (mat_links E P d op es) (lp_objects P) {}"
proof -
  have "clear_path fs (mat_area E P d op S) (mat_links E P d op es) (lp_objects P)"
    unfolding clear_path_def
  proof (intro conjI allI impI)
    show "''..'' \<notin> set (lp_objects P)" using plain_no_dots ready_names(6) [OF assms(1)] by blast
    fix r assume "strict_prefix r (lp_objects P)"
    then have "prefix r (lp_objects P)" by (simp add: strict_prefix_def)
    then show "if r \<in> mat_area E P d op S then r \<notin> mat_links E P d op es else \<not> is_link (peek fs r)"
      using above_is_no_link [OF assms(1,2)] ready_dirs(1) [OF assms(1)] by auto
  qed
  moreover have "reachable_dir fs (mat_area E P d op S) (lp_objects P)"
    using ready_dirs(1) [OF assms(1)] by (auto simp: reachable_dir_def)
  moreover have "below (lp_objects P) \<subseteq> mat_area E P d op S" by (auto simp: mat_area_def assms(3))
  moreover have "\<not> prefix (lp_objects P) q" if link: "q \<in> mat_links E P d op es" for q
  proof -
    obtain u where "q = resource_root E P d @ u \<or> q = switch_link E P d op @ u \<or> q = canonical_link P d @ u"
      using mat_links_cases [OF assms(1,2) link] by (auto simp: prefix_def)
    then show ?thesis using roots_apart(3,4,5) [OF assms(1), of u] by auto
  qed
  ultimately show ?thesis by (auto simp: writable_def)
qed

lemma ready_generation_clear:
  assumes "mat_ready E P d op fs" "entries_ok es"
  shows "clear_path fs (mat_area E P d op S) (mat_links E P d op es) (generation_dir E P d)"
proof -
  obtain g where g: "generation_dir E P d = resource_root E P d @ [g]" using ready_shape(2) [OF assms(1)] by auto
  show ?thesis
    unfolding clear_path_def
  proof (intro conjI allI impI)
    show "''..'' \<notin> set (generation_dir E P d)" using plain_no_dots ready_names(3) [OF assms(1)] by blast
    fix r assume "strict_prefix r (generation_dir E P d)"
    then consider "strict_prefix r (resource_root E P d)" | "r = resource_root E P d"
      using g prefix_snoc_cases by (metis strict_prefix_def)
    then show "if r \<in> mat_area E P d op S then r \<notin> mat_links E P d op es else \<not> is_link (peek fs r)"
    proof cases
      case 2
      then show ?thesis using short_is_no_link [OF assms] by (simp add: mat_area_def)
    qed (use ready_root_clear(1) [OF assms, of S] in \<open>simp add: clear_path_def\<close>)
  qed
qed

lemma below_generation: "prefix (generation_dir E P d) r \<Longrightarrow> Gen \<in> S \<Longrightarrow> r \<in> mat_area E P d op S"
  and below_stage: "prefix (stage_dir E P d op) r \<Longrightarrow> Stage \<in> S \<Longrightarrow> r \<in> mat_area E P d op S"
  by (simp_all add: mat_area_def)

text \<open>The two halves of \<open>materialize_with_lease\<close>, before and after the journal says \<open>verified\<close>.\<close>

definition stage_if_needed ::
  "('v, 'm) libs \<Rightarrow> local_machine \<Rightarrow> LocalPaths \<Rightarrow> DesiredSkillMaterialization \<Rightarrow> OwnedSkillEntry list \<Rightarrow> OperationId \<Rightarrow>
   bool \<Rightarrow> unit mz_op" where
  "stage_if_needed E M P d es op ready =
     (if ready then op_ok ()
      else op_bind (op_ignore (remove_dir_all M (stage_dir E P d op))) (\<lambda>_. write_generation E M P (stage_dir E P d op) es))"

definition promote_stage ::
  "('v, 'm) libs \<Rightarrow> local_machine \<Rightarrow> LocalPaths \<Rightarrow> DesiredSkillMaterialization \<Rightarrow> OperationId \<Rightarrow> bool \<Rightarrow> unit mz_op" where
  "promote_stage E M P d op present =
     (if present then op_ok ()
      else op_bind (look (verify_generation E (stage_dir E P d op) (dsm_skill_name d) (dsm_manifest d))) (\<lambda>_.
           op_bind (mz_io (fs_rename M (stage_dir E P d op) (generation_dir E P d))) (\<lambda>_.
           mz_io (sync_dir M (resource_root E P d)))))"

definition mat_payload ::
  "('v, 'm) libs \<Rightarrow> LocalPaths \<Rightarrow> DesiredSkillMaterialization \<Rightarrow> OperationId \<Rightarrow> MaterializationJournalPayload" where
  "mat_payload E P d op =
     \<lparr>mat_resource_id = resource_text E (dsm_resource_id d), mat_revision_id = revision_text E (dsm_revision_id d),
      mat_stage_dir = path_text (stage_dir E P d op), mat_generation_dir = path_text (generation_dir E P d),
      mat_canonical_path = path_text (canonical_link P d)\<rparr>"

definition build_phase ::
  "('v, 'm) libs \<Rightarrow> local_machine \<Rightarrow> LocalPaths \<Rightarrow> DesiredSkillMaterialization \<Rightarrow> OwnedSkillEntry list \<Rightarrow> OperationId \<Rightarrow>
   unit mz_op" where
  "build_phase E M P d es op =
     op_bind (mz_io (create_dir_all M (resource_root E P d))) (\<lambda>_.
     op_bind (mz_db M (create_materialization_journal (lb_uuid E) (lb_materialization E) op (mat_payload E P d op))) (\<lambda>_.
     op_bind (reuse_generation E M (resource_root E P d) (generation_dir E P d) (canonical_link P d)
       (dsm_skill_name d) (dsm_manifest d)) (\<lambda>ready.
     op_bind (stage_if_needed E M P d es op ready) (\<lambda>_.
     op_bind (advance_journal E M op Planned Staged) (\<lambda>_.
     op_bind (look (\<lambda>fs. Ok (is_dir fs (generation_dir E P d)))) (\<lambda>present.
     promote_stage E M P d op present))))))"

definition switch_phase ::
  "('v, 'm) libs \<Rightarrow> local_machine \<Rightarrow> LocalPaths \<Rightarrow> DesiredSkillMaterialization \<Rightarrow> OperationId \<Rightarrow> path mz_op" where
  "switch_phase E M P d op =
     op_bind (advance_journal E M op Staged Verified) (\<lambda>_.
     op_bind (atomic_switch_directory_link E M (generation_dir E P d) (canonical_link P d) op) (\<lambda>_.
     op_bind (advance_journal E M op Verified Switched) (\<lambda>_.
     op_bind (mz_db M (mark_skill_materialized (resource_text E (dsm_resource_id d)) (revision_text E (dsm_revision_id d)))) (\<lambda>_.
     op_bind (advance_journal E M op Switched Complete) (\<lambda>_.
     op_ok (generation_dir E P d))))))"

lemma op_bind_assoc: "op_bind (op_bind m f) g = op_bind m (\<lambda>x. op_bind (f x) g)"
  by (auto simp: op_bind_def split: prod.split result.split)

lemma materialize_phases:
  "materialize_with_lease E M P d es op = op_bind (build_phase E M P d es op) (\<lambda>_. switch_phase E M P d op)"
  unfolding materialize_with_lease_def build_phase_def switch_phase_def stage_if_needed_def promote_stage_def mat_payload_def
    resource_root_def stage_dir_def generation_dir_def canonical_link_def Let_def op_bind_assoc by (rule refl)

lemma within_reuse:
  assumes "mat_ready E P d op fs" "entries_ok es" "Gen \<in> S"
  shows "within fs (mat_area E P d op S) (mat_links E P d op es)
    (reuse_generation E M (resource_root E P d) (generation_dir E P d) (canonical_link P d) n m)"
  unfolding reuse_generation_def
  by (intro always_intros within_remove_dir_all ready_generation_clear [OF assms(1,2)] below_generation assms(3))

lemma within_stage:
  assumes "mat_ready E P d op fs" "entries_ok es" "Stage \<in> S" "Objects \<in> S"
  shows "within fs (mat_area E P d op S) (mat_links E P d op es) (stage_if_needed E M P d es op ready)"
proof -
  note w = ready_stage_writable [OF assms(1,2,3)]
  have "clear_path fs (mat_area E P d op S) (mat_links E P d op es) (stage_dir E P d op)"
    using w by (simp add: writable_def)
  moreover have "link_places (stage_dir E P d op) es \<subseteq> mat_links E P d op es"
    by (auto simp: mat_links_def build_links_def)
  ultimately show ?thesis
    unfolding stage_if_needed_def
    by (intro always_intros within_remove_dir_all below_stage assms(3)
        within_write_generation [OF w ready_objects_writable [OF assms(1,2,4)] ready_layout(2) [OF assms(1)] _ assms(2)])
qed

lemma within_promote:
  assumes "mat_ready E P d op fs" "entries_ok es" "Stage \<in> S" "Gen \<in> S"
  shows "within fs (mat_area E P d op S) (mat_links E P d op es) (promote_stage E M P d op present)"
proof -
  note w = ready_stage_writable [OF assms(1,2,3)]
  have "clear_path fs (mat_area E P d op S) (mat_links E P d op es) (stage_dir E P d op)"
    using w by (simp add: writable_def)
  moreover have "generation_dir E P d @ r \<in> mat_links E P d op es" if "stage_dir E P d op @ r \<in> mat_links E P d op es" for r
  proof -
    have "stage_dir E P d op @ r \<in> link_places (stage_dir E P d op) es" using w that by (auto simp: writable_def)
    then have "r \<noteq> []" using link_place_comps [OF assms(2), of "stage_dir E P d op" r] entry_comps_nonempty by auto
    then show ?thesis by (auto simp: mat_links_def build_links_def strict_prefix_def)
  qed
  moreover have "r \<in> mat_area E P d op S" if "prefix (stage_dir E P d op) r \<or> prefix (generation_dir E P d) r" for r
    using that below_generation below_stage assms(3,4) by blast
  ultimately show ?thesis
    unfolding promote_stage_def by (intro always_intros within_rename ready_generation_clear [OF assms(1,2)])
qed

lemma within_build:
  assumes "mat_ready E P d op fs" "entries_ok es" "Objects \<in> S" "Stage \<in> S" "Gen \<in> S"
  shows "within fs (mat_area E P d op S) (mat_links E P d op es) (build_phase E M P d es op)"
  unfolding build_phase_def
  by (intro always_intros within_create_dir_all within_reuse within_stage within_promote ready_root_clear [OF assms(1,2)] assms)

lemma within_switch_at:
  assumes "mat_ready E P d op fs0" "\<And>r. prefix r (lp_skills P) \<Longrightarrow> peek fs r = Some S_Dir"
    and "switch_area E P d op \<subseteq> A" "switch_link E P d op \<in> K" "canonical_link P d \<in> K"
    and "\<And>r. prefix r (butlast (canonical_link P d)) \<Longrightarrow> r \<notin> K" "\<And>c r. switch_link E P d op @ c # r \<notin> K"
  shows "within fs A K (atomic_switch_directory_link E M target (canonical_link P d) op)"
proof -
  obtain c o' t where c: "canonical_link P d = butlast (canonical_link P d) @ [c]"
    and o': "butlast (canonical_link P d) = lp_skills P @ [o']"
    and t: "switch_link E P d op = butlast (canonical_link P d) @ [t]"
    using ready_shape(4-6) [OF assms(1)] by auto
  have clear: "clear_path fs A K (butlast (canonical_link P d) @ [x])" if "plain_name x" for x
    unfolding clear_path_def
  proof (intro conjI allI impI)
    show "''..'' \<notin> set (butlast (canonical_link P d) @ [x])"
      using plain_no_dots [OF ready_names(4) [OF assms(1)]] that by (auto simp: plain_name_def dest: in_set_butlastD)
    fix r assume "strict_prefix r (butlast (canonical_link P d) @ [x])"
    then have r: "prefix r (butlast (canonical_link P d))" using prefix_snoc_cases by (metis strict_prefix_def)
    then have "r \<notin> A \<Longrightarrow> prefix r (lp_skills P)"
      using prefix_snoc_cases [of r "lp_skills P" o'] o' assms(3) by (auto simp: switch_area_def)
    then show "if r \<in> A then r \<notin> K else \<not> is_link (peek fs r)" using assms(2,6) r by auto
  qed
  have names: "plain_name c" "plain_name t"
    using ready_names(4,5) [OF assms(1)] by (metis c list.pred_inject(2) list_all_append, metis t list.pred_inject(2) list_all_append)
  show ?thesis
  proof (rule within_switch [where tmp = "switch_link E P d op"])
    show "clear_path fs A K (canonical_link P d)" using clear [OF names(1)] c by simp
    show "canonical_link P d \<noteq> []" using c by (metis snoc_eq_iff_butlast)
    show "reachable_dir fs A (butlast (canonical_link P d))"
      unfolding reachable_dir_def
      using prefix_snoc_cases [of _ "lp_skills P" o'] o' assms(2,3) by (auto simp: switch_area_def)
    show "below (canonical_link P d) \<subseteq> A" "below (switch_link E P d op) \<subseteq> A" using assms(3) by (auto simp: switch_area_def)
    show "switch_link E P d op = path_join (butlast (canonical_link P d)) (''.denju-link-'' @ operation_text (lb_uuid E) op)"
      by (simp add: switch_link_def)
    show "clear_path fs A K (switch_link E P d op)" using clear [OF names(2)] t by simp
  qed (use assms in auto)
qed

lemma switch_links_apart:
  assumes "mat_ready E P d op fs"
  shows "\<not> prefix (canonical_link P d) (switch_link E P d op @ r)"
proof -
  have "CHR ''.'' \<notin> set (dsm_skill_name d)" using assms skill_name_no_dot by (simp add: mat_ready_def)
  then have "dsm_skill_name d \<noteq> ''.denju-link-'' @ operation_text (lb_uuid E) op"
    by (metis append_Cons list.set_intros(1))
  then show ?thesis unfolding the_paths [OF assms] by simp
qed

lemma within_materialize:
  assumes "mat_ready E P d op fs" "entries_ok es" "S = {Objects, Stage, Gen, Switch}"
  shows "within fs (mat_area E P d op S) (mat_links E P d op es) (materialize_with_lease E M P d es op)"
proof -
  have sw: "switch_area E P d op \<subseteq> mat_area E P d op S" using assms(3) by (auto simp: mat_area_def)
  have "r \<notin> mat_links E P d op es" if "prefix r (butlast (canonical_link P d))" for r
  proof
    assume r: "r \<in> mat_links E P d op es"
    have "length r \<le> length (resource_root E P d)" "\<not> prefix (canonical_link P d) r" "r \<noteq> switch_link E P d op"
      using that by (auto simp: the_paths [OF assms(1)] butlast_append dest!: prefix_length_le)
    with mat_links_cases [OF assms(1,2) r] show False by auto
  qed
  moreover have "switch_link E P d op @ c # r \<notin> mat_links E P d op es" for c r
    using mat_links_cases [OF assms(1,2)] switch_links_apart [OF assms(1), of "c # r"]
      roots_apart(1) [OF assms(1), of "c # r"] by fastforce
  moreover have "switch_link E P d op \<in> mat_links E P d op es" "canonical_link P d \<in> mat_links E P d op es"
    by (simp_all add: mat_links_def)
  ultimately have "within fs (mat_area E P d op S) (mat_links E P d op es)
      (atomic_switch_directory_link E M (generation_dir E P d) (canonical_link P d) op)"
    using within_switch_at [OF assms(1) _ sw] ready_dirs(1) [OF assms(1)] by blast
  moreover have "within fs (mat_area E P d op S) (mat_links E P d op es) (build_phase E M P d es op)"
    using within_build [OF assms(1,2)] assms(3) by simp
  ultimately show ?thesis
    unfolding materialize_phases switch_phase_def by (intro always_intros)
qed

lemma ready_confined:
  assumes "mat_ready E P d op fs" "entries_ok es"
  shows "confined fs (mat_area E P d op S) (mat_links E P d op es) fs"
proof -
  have none: "peek fs (stage_dir E P d op @ r) = None" "peek fs (switch_link E P d op @ r) = None" for r
    using assms(1) peek_None_append by (auto simp: mat_ready_def)
  have objects: "\<not> is_link (peek fs q)" if "prefix (lp_objects P) q" for q
    using ready_layout(1) [OF assms(1)] that by (simp add: layout_ok_def)
  have "q \<in> mat_links E P d op es" if q: "q \<in> mat_area E P d op S" "is_link (peek fs q)" for q
  proof -
    consider "q = resource_root E P d" | "prefix (lp_objects P) q" | "prefix (stage_dir E P d op) q" | "prefix (generation_dir E P d) q"
      | "q = butlast (canonical_link P d)" | "prefix (switch_link E P d op) q" | "prefix (canonical_link P d) q"
      using q(1) by (auto simp: mat_area_def switch_area_def split: if_splits)
    then show ?thesis
    proof cases
      case 4
      then show ?thesis
        using ready_dirs(3) [OF assms(1)] q(2) by (cases "q = generation_dir E P d") (auto simp: mat_links_def build_links_def strict_prefix_def)
    qed (use q(2) objects none ready_dirs(2,4) [OF assms(1)] in \<open>auto simp: mat_links_def prefix_def\<close>)
  qed
  then show ?thesis by (auto simp: confined_def)
qed

section \<open>Verified trees\<close>

definition tree_verifies :: "('v, 'm) libs \<Rightarrow> string \<Rightarrow> SkillManifest \<Rightarrow> node \<Rightarrow> bool" where
  "tree_verifies E skill_name manifest n \<longleftrightarrow>
     (\<exists>es. collect_res (\<lambda>(relative, m). read_entry relative m)
         (map (\<lambda>p. (p, the (node_at n p))) (filter (\<lambda>p. node_at n p \<noteq> None) (lb_walk E n))) = Ok es \<and>
       build_skill_manifest (lb_unicode E) (lb_yaml E) (lb_sha E) skill_name es = Ok manifest)"

lemma verify_generation_Ok:
  "verify_generation E root skill_name manifest fs = Ok () \<longleftrightarrow>
     (\<exists>q n. canonicalize fs root = Ok q \<and> node_at fs q = Some n \<and> tree_verifies E skill_name manifest n)"
  unfolding verify_generation_def read_generation_def walk_below_def tree_verifies_def by (auto simp: res_simps)

lemma canonicalize_solid: "solid fs p \<Longrightarrow> canonicalize fs p = Ok q \<Longrightarrow> q = p"
  by (auto simp: canonicalize_def res_simps split: if_splits dest: locate_solid)

lemma canonicalize_real: "solid fs p \<Longrightarrow> peek fs p \<noteq> None \<Longrightarrow> canonicalize fs p = Ok p"
proof -
  assume p: "solid fs p" "peek fs p \<noteq> None"
  then have "parents_real fs p" using peek_strict_prefix [OF p(2)] by (auto simp: parents_real_def solid_def plain_def)
  then show ?thesis using locate_follow_real [of fs p] p by (auto simp: canonicalize_def solid_def)
qed

lemma verify_solid:
  "solid fs p \<Longrightarrow> verify_generation E p skill_name manifest fs = Ok () \<longleftrightarrow>
     (\<exists>n. node_at fs p = Some n \<and> tree_verifies E skill_name manifest n)"
  unfolding verify_generation_Ok
  using canonicalize_solid canonicalize_real [of fs p] by (fastforce simp: peek_def)

lemma metadata_solid: "solid fs p \<Longrightarrow> metadata fs p = Ok s \<longleftrightarrow> peek fs p = Some s"
  using canonicalize_real [of fs p] locate_solid [of fs p]
  by (auto simp: metadata_def canonicalize_def res_simps split: if_splits)

lemma is_dir_solid: "solid fs p \<Longrightarrow> is_dir fs p \<longleftrightarrow> peek fs p = Some S_Dir"
  by (simp add: is_dir_def metadata_solid)

section \<open>Outcomes\<close>

lemma op_bind_cases:
  assumes "op_bind m f s = (r, t)"
  obtains e where "m s = (Err e, t)" "r = Err e" | x u where "m s = (Ok x, u)" "f x u = (r, t)"
  using assms by (auto simp: op_bind_def split: prod.splits result.splits)

lemma op_match_cases:
  assumes "op_match m k s = (r, t)"
  obtains x u where "m s = (x, u)" "k x u = (r, t)"
  using assms by (auto simp: op_match_def split: prod.splits)

lemma op_map_err_cases:
  assumes "op_map_err h m s = (r, t)"
  obtains e where "m s = (Err e, t)" "r = Err (h e)" | x where "m s = (Ok x, t)" "r = Ok x"
  using assms by (auto simp: op_map_err_def split: prod.splits) (metis map_err.simps result.exhaust)

lemma look_cases: "look q w = (r, t) \<longleftrightarrow> r = q (w_fs w) \<and> t = w"
  by (auto simp: look_def)

lemma alwaysD: "always I m \<Longrightarrow> m s = (r, t) \<Longrightarrow> I s \<Longrightarrow> I t"
  by (metis always_def snd_conv)

lemma db_call_now_fs: "db_call_now M f w = (r, t) \<Longrightarrow> w_fs t = w_fs w"
  by (auto simp: db_call_now_def db_call_def split: option.splits prod.splits)

lemma mz_db_fs: "mz_db M f w = (r, t) \<Longrightarrow> w_fs t = w_fs w"
  by (auto elim!: op_map_err_cases dest: db_call_now_fs)

lemma sync_fs: "mz_io (sync_dir M p) w = (r, t) \<Longrightarrow> w_fs t = w_fs w"
  by (auto simp: sync_dir_def sys_def sys_sync_def res_simps elim!: op_map_err_cases split: option.splits result.splits)

lemma sys_cases:
  assumes "sys M f w = (r, t)"
  obtains e where "r = Err e" "w_fs t = w_fs w" | fs where "r = Ok ()" "f (w_fs w) = Ok fs" "w_fs t = fs"
  using assms by (auto simp: sys_def split: option.splits result.splits)

end
