(* ===== verification/Materialize_Outcome.thy ===== *)
theory Materialize_Outcome
  imports Materialize_Safety
begin

text \<open>
  How a materialization ends, whatever fails on the way: the canonical link is as it was or leads to
  a generation that verifies, and a working tree that was active is as it was.
\<close>

lemma withinD: "within fs0 A K m \<Longrightarrow> m w = (r, t) \<Longrightarrow> confined fs0 A K (w_fs w) \<Longrightarrow> confined fs0 A K (w_fs t)"
  using alwaysD [of "\<lambda>w. confined fs0 A K (w_fs w)"] .

section \<open>The switch\<close>

definition clear_switch :: "local_machine \<Rightarrow> path \<Rightarrow> path \<Rightarrow> unit mz_op" where
  "clear_switch M link tmp =
     op_bind (mz_io (create_dir_all M (butlast link))) (\<lambda>_.
     op_bind (look (\<lambda>fs.
       if fs_exists fs link \<or> is_ok (symlink_metadata fs link) then
         res_bind (map_err MZ_Io (symlink_metadata fs link)) (\<lambda>meta.
         if \<not> is_link (Some meta) then Err (MZ_RefuseOverwrite link) else Ok ())
       else Ok ())) (\<lambda>_.
     op_bind (op_ignore (remove_file M tmp)) (\<lambda>_.
     op_ignore (remove_dir M tmp))))"

definition prepare_switch :: "local_machine \<Rightarrow> path \<Rightarrow> path \<Rightarrow> path \<Rightarrow> unit mz_op" where
  "prepare_switch M target link tmp =
     op_bind (clear_switch M link tmp) (\<lambda>_. mz_io (create_native_directory_link M target tmp))"

definition finish_switch :: "local_machine \<Rightarrow> path \<Rightarrow> path \<Rightarrow> unit mz_op" where
  "finish_switch M link tmp =
     op_match (fs_rename M tmp link) (\<lambda>r. case r of
       Err e \<Rightarrow>
         op_bind (op_ignore (remove_file M tmp)) (\<lambda>_.
         op_bind (op_ignore (remove_dir M tmp)) (\<lambda>_.
         op_err (MZ_Io e)))
     | Ok _ \<Rightarrow> mz_io (sync_dir M (butlast link)))"

lemma switch_steps:
  assumes "link \<noteq> []" "tmp = path_join (butlast link) (''.denju-link-'' @ operation_text (lb_uuid E) op)"
  shows "atomic_switch_directory_link E M target link op =
    op_bind (prepare_switch M target link tmp) (\<lambda>_. finish_switch M link tmp)"
  unfolding atomic_switch_directory_link_def prepare_switch_def clear_switch_def finish_switch_def op_bind_assoc Let_def assms(2)
  using assms(1) by simp

text \<open>The paths of a switch: the link and the temporary beside it, below directories that are no links.\<close>

definition switch_ready :: "path \<Rightarrow> path \<Rightarrow> node \<Rightarrow> bool" where
  "switch_ready link tmp fs \<longleftrightarrow> link \<noteq> [] \<and> tmp \<noteq> [] \<and> butlast tmp = butlast link \<and> tmp \<noteq> link \<and>
     ''..'' \<notin> set link \<and> ''..'' \<notin> set tmp \<and> (\<forall>r. prefix r (butlast link) \<longrightarrow> \<not> is_link (peek fs r)) \<and>
     butlast link \<noteq> [] \<and> (\<forall>r. strict_prefix r (butlast link) \<longrightarrow> peek fs r = Some S_Dir) \<and> leaf (node_at fs tmp)"

lemma switch_within:
  assumes "switch_ready link tmp fs"
  shows "within fs ({butlast link} \<union> below tmp) {tmp} (clear_switch M link tmp)"
    "within fs ({butlast link} \<union> below tmp) {tmp} (remove_file M tmp)" 
    "within fs ({butlast link} \<union> below tmp) {tmp} (remove_dir M tmp)" 
    "confined fs ({butlast link} \<union> below tmp) {tmp} fs"
    "clear_path fs ({butlast link} \<union> below tmp) {tmp} tmp" "clear_path fs ({butlast link} \<union> below tmp) {tmp} link"
    "within fs ({butlast link} \<union> below tmp) {tmp} (create_native_directory_link M target tmp)"
proof -
  let ?A = "{butlast link} \<union> below tmp" and ?K = "{tmp}"
  have up: "r = butlast link \<or> strict_prefix r (butlast link)" if "strict_prefix r p" "butlast p = butlast link" "p \<noteq> []" for r p
    using that by (metis append_butlast_last_id prefix_snoc_cases strict_prefix_def)
  have short: "r \<noteq> tmp" "\<not> prefix tmp r" if "prefix r (butlast link)" for r
    using that assms unfolding switch_ready_def
    by (metis append_butlast_last_id length_append_singleton not_less_eq_eq order_refl prefix_length_le prefix_order.trans)+
  have clear: "clear_path fs ?A ?K p" if "butlast p = butlast link" "p \<noteq> []" "''..'' \<notin> set p" for p
    unfolding clear_path_def
  proof (intro conjI allI impI)
    fix r assume "strict_prefix r p"
    with up that have "prefix r (butlast link)" by (metis prefix_order.less_imp_le prefix_order.refl)
    with short [OF this] assms show "if r \<in> ?A then r \<notin> ?K else \<not> is_link (peek fs r)"
      by (auto simp: switch_ready_def)
  qed (use that in simp)
  show tmp: "clear_path fs ?A ?K tmp" and link: "clear_path fs ?A ?K link"
    using clear assms by (simp_all add: switch_ready_def)
  have reach: "reachable_dir fs ?A (butlast link)"
    using assms unfolding reachable_dir_def switch_ready_def by (auto simp: strict_prefix_def)
  show rm: "within fs ?A ?K (remove_file M tmp)" "within fs ?A ?K (remove_dir M tmp)"
    using within_remove_file [OF tmp] within_remove_dir [OF tmp] by simp_all
  show "within fs ?A ?K (create_native_directory_link M target tmp)"
    unfolding create_native_directory_link_def using within_symlink [OF tmp] by simp
  show "within fs ?A ?K (clear_switch M link tmp)"
    unfolding clear_switch_def
    by (intro always_intros within_create_dir_all clear_path_butlast [OF link] reach rm)
  show "confined fs ?A ?K fs"
  proof -
    have "q = tmp" if q: "q \<in> ?A" "is_link (peek fs q)" for q
    proof (cases "q = butlast link")
      case True
      with q assms show ?thesis by (auto simp: switch_ready_def)
    next
      case False
      then obtain u where "q = tmp @ u" using q by (auto simp: prefix_def)
      then show ?thesis using q leaf_below [of fs tmp] assms by (cases u) (auto simp: switch_ready_def)
    qed
    then show ?thesis by (auto simp: confined_def)
  qed
qed

text \<open>Up to the rename a switch does not touch the link, and the rename moves the new one there.\<close>

lemma switch_apart:
  assumes "switch_ready link tmp fs"
  shows "link \<noteq> butlast link" "\<not> prefix tmp link"
proof -
  have nonempty: "link \<noteq> []" "tmp \<noteq> []" and b: "butlast tmp = butlast link" "tmp \<noteq> link"
    using assms by (simp_all add: switch_ready_def)
  then show "link \<noteq> butlast link" by (metis append_butlast_last_id not_Cons_self2 self_append_conv)
  have "length tmp = length link" using nonempty b(1) by (metis append_butlast_last_id length_append_singleton)
  then show "\<not> prefix tmp link" using b(2) by (auto simp: prefix_def)
qed

lemma prepare_outcome:
  assumes "switch_ready link tmp (w_fs w)" "prepare_switch M target link tmp w = (r, u)"
  shows "confined (w_fs w) ({butlast link} \<union> below tmp) {tmp} (w_fs u)"
    "r = Ok x \<Longrightarrow> peek (w_fs u) tmp = Some (S_Link (path_text target))"
proof -
  note steps = switch_within [OF assms(1)]
  show "confined (w_fs w) ({butlast link} \<union> below tmp) {tmp} (w_fs u)"
  proof (rule withinD)
    show "within (w_fs w) ({butlast link} \<union> below tmp) {tmp} (prepare_switch M target link tmp)"
      unfolding prepare_switch_def by (intro always_intros steps(1,7))
  qed (rule assms(2) steps(4))+
  show "peek (w_fs u) tmp = Some (S_Link (path_text target))" if r: "r = Ok x"
    using assms(2) [unfolded prepare_switch_def]
  proof (cases rule: op_bind_cases)
    case (2 y v)
    have "confined (w_fs w) ({butlast link} \<union> below tmp) {tmp} (w_fs v)"
      by (rule withinD [OF steps(1) 2(1) steps(4)])
    then have plain: "plain (w_fs v) tmp" by (rule clear_path_plain [OF steps(5)])
    from 2(2) r have "symlink M (path_text target) tmp v = (Ok x, u)"
      by (auto simp: create_native_directory_link_def elim!: op_map_err_cases)
    then have "sys_symlink (path_text target) tmp (w_fs v) = Ok (w_fs u)"
      unfolding symlink_def by (auto elim!: sys_cases)
    from sys_symlink_changes [OF this] locate_plain [OF plain] show ?thesis by (auto simp: changes_only_def)
  qed (use r in simp)
qed

lemma switch_outcome:
  assumes ready: "switch_ready link tmp (w_fs w)"
    and tmp: "tmp = path_join (butlast link) (''.denju-link-'' @ operation_text (lb_uuid E) op)"
    and run: "atomic_switch_directory_link E M target link op w = (r, w')"
  shows "peek (w_fs w') link = Some (S_Link (path_text target)) \<or>
    r \<noteq> Ok () \<and> peek (w_fs w') link = peek (w_fs w) link"
proof -
  let ?fs = "w_fs w" and ?A = "{butlast link} \<union> below tmp" and ?K = "{tmp}"
  have link: "link \<noteq> []" using ready by (simp add: switch_ready_def)
  have apart: "link \<notin> ?A" using switch_apart [OF ready] by simp
  note steps = switch_within [OF ready]
  have same: "peek fs link = peek ?fs link" if "confined ?fs ?A ?K fs" for fs
    using that apart by (simp add: confined_def)
  note run = run [unfolded switch_steps [OF link tmp]]
  from run show ?thesis
  proof (cases rule: op_bind_cases)
    case (1 e)
    then show ?thesis using prepare_outcome(1) [OF ready 1(1)] same by auto
  next
    case (2 x u)
    have cu: "confined ?fs ?A ?K (w_fs u)" and made: "peek (w_fs u) tmp = Some (S_Link (path_text target))"
      using prepare_outcome [OF ready 2(1)] by simp_all
    from 2(2) [unfolded finish_switch_def] show ?thesis
    proof (cases rule: op_match_cases)
      case mv: (1 y v)
      from mv(1) [unfolded fs_rename_def] show ?thesis
      proof (cases rule: sys_cases)
        case (1 e)
        have cv: "confined ?fs ?A ?K (w_fs v)" using cu 1(2) by simp
        have clean: "within ?fs ?A ?K (op_bind (op_ignore (remove_file M tmp)) (\<lambda>_. op_bind (op_ignore (remove_dir M tmp)) (\<lambda>_. op_err (MZ_Io e))))"
          by (intro always_intros steps(2,3))
        have "op_bind (op_ignore (remove_file M tmp)) (\<lambda>_. op_bind (op_ignore (remove_dir M tmp)) (\<lambda>_. op_err (MZ_Io e))) v = (r, w')"
          using mv(2) 1(1) by simp
        then have "confined ?fs ?A ?K (w_fs w')" by (rule withinD [OF clean _ cv])
        moreover have "r \<noteq> Ok ()" using mv(2) 1(1) by (auto simp: op_bind_def op_ignore_def op_err_def)
        ultimately show ?thesis using same by simp
      next
        case (2 fs)
        have plains: "plain (w_fs u) tmp" "plain (w_fs u) link"
          using clear_path_plain [OF steps(5) cu] clear_path_plain [OF steps(6) cu] .
        have "w_fs w' = w_fs v" using mv(2) 2(1) sync_fs by auto
        from plains 2(2) show ?thesis
        proof (cases rule: rename_plain)
          case (1 n)
          then show ?thesis using ready by (simp add: switch_ready_def)
        next
          case (2 n)
          then have "peek fs link = peek (w_fs u) tmp" by (simp add: peek_def)
          with made \<open>w_fs w' = w_fs v\<close> \<open>w_fs v = fs\<close> show ?thesis by simp
        qed
      qed
    qed
  qed
qed

section \<open>Building the generation\<close>

lemma ready_solid:
  assumes "mat_ready E P d op fs0" "entries_ok es" "confined fs0 (mat_area E P d op S) (mat_links E P d op es) fs"
  shows "solid fs (generation_dir E P d)" "Stage \<in> S \<Longrightarrow> solid fs (stage_dir E P d op)"
proof -
  obtain g c where g: "generation_dir E P d = resource_root E P d @ [g]" and c: "stage_dir E P d op = resource_root E P d @ [c]"
    using ready_shape(1,2) [OF assms(1)] by auto
  have "generation_dir E P d \<notin> mat_links E P d op es" "stage_dir E P d op \<notin> mat_links E P d op es"
    using short_is_no_link [OF assms(1,2)] g c by simp_all
  moreover have "\<not> is_link (peek fs (generation_dir E P d))"
    using calculation(1) assms(3) ready_dirs(3) [OF assms(1)]
    by (cases "generation_dir E P d \<in> mat_area E P d op S") (auto simp: confined_def)
  moreover have "\<not> is_link (peek fs (stage_dir E P d op))" if "Stage \<in> S"
    using calculation(2) assms(3) below_stage [OF _ that] unfolding confined_def by (meson prefix_order.refl)
  moreover have "plain fs (stage_dir E P d op)" if "Stage \<in> S"
    using ready_stage_writable [OF assms(1,2) that] clear_path_plain [OF _ assms(3)] by (simp add: writable_def)
  ultimately show "solid fs (generation_dir E P d)" "Stage \<in> S \<Longrightarrow> solid fs (stage_dir E P d op)"
    using clear_path_plain [OF ready_generation_clear [OF assms(1,2)] assms(3)] by (auto simp: solid_def)
qed

text \<open>A state in which nothing but the resource directory and the generation changed is ready too.\<close>

lemma ready_preserved:
  assumes "mat_ready E P d op fs0" "entries_ok es" "S \<subseteq> {Gen}"
    and "confined fs0 (mat_area E P d op S) (mat_links E P d op es) fs"
  shows "mat_ready E P d op fs"
proof -
  have outside: "q \<notin> mat_area E P d op S" if "\<not> prefix (resource_root E P d) q" for q
    using that assms(3) ready_shape(2) [OF assms(1)] by (auto simp: mat_area_def prefix_def)
  have same: "peek fs q = peek fs0 q" if "\<not> prefix (resource_root E P d) q" for q
    using outside [OF that] assms(4) by (simp add: confined_def)
  have "\<not> prefix (resource_root E P d) (lp_skills P)" "\<not> prefix (resource_root E P d) (lp_generations P)"
    "\<not> prefix (resource_root E P d) (butlast (canonical_link P d))"
    unfolding the_paths [OF assms(1)] layout_paths [OF ready_layout(1) [OF assms(1)]] by (simp_all add: butlast_append)
  moreover have "\<not> prefix (resource_root E P d) q" if "prefix (lp_objects P) q" for q
    using that roots_apart(6) [OF assms(1)] by (auto simp: prefix_def)
  ultimately have layout: "layout_ok P fs"
    using ready_layout(1) [OF assms(1)] same unfolding layout_ok_def by auto
  have "stage_dir E P d op \<notin> mat_area E P d op S"
  proof -
    obtain g c where "generation_dir E P d = resource_root E P d @ [g]" "stage_dir E P d op = resource_root E P d @ [c]" "c \<noteq> g"
      using ready_shape(1,2,7) [OF assms(1)] by auto
    then show ?thesis using assms(3) by (auto simp: mat_area_def)
  qed
  then have "peek fs (stage_dir E P d op) = None" using assms(4) ready_dirs(5) [OF assms(1)] by (simp add: confined_def)
  moreover have "\<not> is_link (peek fs (resource_root E P d))"
    using assms(4) short_is_no_link [OF assms(1,2), of "resource_root E P d"]
    by (auto simp: confined_def mat_area_def)
  moreover have "\<not> is_link (peek fs (generation_dir E P d))"
    using ready_solid(1) [OF assms(1,2,4)] by (simp add: solid_def)
  moreover have "\<not> is_link (peek fs (butlast (canonical_link P d)))" "peek fs (switch_link E P d op) = None"
    using same [of "butlast (canonical_link P d)"] same [of "switch_link E P d op"] ready_dirs(4) [OF assms(1)] assms(1)
      roots_apart(1) [OF assms(1), of "[]"] \<open>\<not> prefix (resource_root E P d) (butlast (canonical_link P d))\<close>
    by (simp_all add: mat_ready_def)
  ultimately show ?thesis using layout assms(1) by (simp add: mat_ready_def)
qed

text \<open>A directory that was removed without an error is gone.\<close>

lemma op_each_snoc_Ok: "op_each f (xs @ [x]) s = (Ok u, t) \<Longrightarrow> \<exists>v y. f x v = (Ok y, t) \<and> op_each f xs s = (Ok (), v)"
proof (induction xs arbitrary: s)
  case (Cons a xs)
  then show ?case by (auto simp: op_ok_def elim!: op_bind_cases) (auto simp: op_bind_def)
qed (auto simp: op_ok_def elim!: op_bind_cases)

lemma removals_last: "n \<noteq> FileN b x \<Longrightarrow> \<exists>xs k. removals p n = xs @ [(p, k)]"
  by (cases n) auto

lemma remove_dir_all_gone:
  assumes "clear_path fs0 A K p" "confined fs0 A K (w_fs w)" "p \<noteq> []"
    and "remove_dir_all M p w = (Ok u, w')"
  shows "peek (w_fs w') p = None"
proof -
  let ?fs = "w_fs w"
  have q: "locate ?fs p = Ok q \<Longrightarrow> q = p" for q
    using locate_plain [OF clear_path_plain [OF assms(1,2)]] .
  have dots: "''..'' \<notin> set p" using assms(1) by (simp add: clear_path_def)
  obtain n where n: "node_at ?fs p = Some n" and each: "op_each (remove_entry M) (removals p n) w = (Ok u, w')"
  proof -
    obtain x where x: "locate ?fs p = Ok x"
      using assms(4) by (cases "locate ?fs p") (auto simp: remove_dir_all_def op_bind_def look_def)
    with q have x: "locate ?fs p = Ok p" by simp
    then obtain n where n: "node_at ?fs p = Some n"
      using assms(4) by (cases "node_at ?fs p") (auto simp: remove_dir_all_def op_bind_def look_def)
    have "op_each (remove_entry M) (removals p n) w = (Ok u, w')"
      using assms(4) x n by (cases n) (auto simp: remove_dir_all_def op_bind_def look_def op_err_def)
    with n that show ?thesis by blast
  qed
  moreover obtain xs k where xs: "removals p n = xs @ [(p, k)]" by (cases n) auto
  ultimately obtain v y where v: "remove_entry M (p, k) v = (Ok y, w')" and pre: "op_each (remove_entry M) xs w = (Ok (), v)"
    using op_each_snoc_Ok by metis
  have "confined ?fs {r. prefix p r} {q. is_link (peek ?fs q)} (w_fs v)"
  proof (rule withinD)
    show "within ?fs {r. prefix p r} {q. is_link (peek ?fs q)} (op_each (remove_entry M) xs)"
      by (rule always_each, rule within_remove_entry [OF dots n]) (simp add: xs)
  qed (rule pre confined_refl)+
  then have "plain (w_fs v) p"
    using clear_path_plain [OF assms(1,2)] unfolding plain_def confined_def
    by (metis mem_Collect_eq prefix_order.less_le_not_le)
  with v show ?thesis
    using sys_rmdir_changes [of p "w_fs v" "w_fs w'"] sys_unlink_changes [of p "w_fs v" "w_fs w'"] locate_plain [of "w_fs v" p] assms(3)
    by (auto simp: remove_entry_def remove_dir_def remove_file_def changes_only_def elim!: sys_cases split: if_splits)
qed

lemma reuse_outcome:
  assumes ready: "mat_ready E P d op (w_fs w)" "entries_ok es"
    and run: "reuse_generation E M (resource_root E P d) (generation_dir E P d) (canonical_link P d)
      (dsm_skill_name d) (dsm_manifest d) w = (Ok b, w')"
  shows "b \<Longrightarrow> \<exists>n. node_at (w_fs w') (generation_dir E P d) = Some n \<and> tree_verifies E (dsm_skill_name d) (dsm_manifest d) n"
    "\<not> b \<Longrightarrow> peek (w_fs w') (generation_dir E P d) \<noteq> Some S_Dir"
proof -
  let ?g = "generation_dir E P d" and ?fs = "w_fs w"
  have c: "confined ?fs (mat_area E P d op {Gen}) (mat_links E P d op es) ?fs" using ready_confined [OF ready] .
  note solid = ready_solid(1) [OF ready c]
  have g: "?g \<noteq> []" using ready_shape(2) [OF ready(1)] by auto
  let ?v = "verify_generation E ?g (dsm_skill_name d) (dsm_manifest d) ?fs"
  let ?a = "canonical_targets_generation (canonical_link P d) ?g ?fs"
  have "(b \<and> w' = w \<and> ?v = Ok ()) \<or> (\<not> b \<and> peek (w_fs w') ?g \<noteq> Some S_Dir)"
  proof (cases "is_dir ?fs ?g")
    case False
    then show ?thesis using run is_dir_solid [OF solid]
      by (auto simp: reuse_generation_def op_bind_def look_def op_ok_def)
  next
    case dir: True
    show ?thesis
    proof (cases ?v)
      case (Ok x)
      then show ?thesis using run dir by (auto simp: reuse_generation_def op_bind_def op_match_def look_def op_ok_def)
    next
      case (Err e)
      with run dir have e: "e = MZ_ManifestMismatch" and a: "?a = Ok False"
        and rest: "op_bind (mz_io (remove_dir_all M ?g)) (\<lambda>_. op_bind (mz_io (sync_dir M (resource_root E P d))) (\<lambda>_. op_ok False)) w = (Ok b, w')"
        by (cases ?a; auto simp: reuse_generation_def op_bind_def op_match_def look_def op_err_def split: if_splits)+
      from rest obtain u t where rm: "remove_dir_all M ?g w = (Ok u, t)"
        and sy: "op_bind (mz_io (sync_dir M (resource_root E P d))) (\<lambda>_. op_ok False) t = (Ok b, w')"
        by (auto elim!: op_bind_cases [of "mz_io (remove_dir_all M ?g)"] op_map_err_cases)
      have "w_fs w' = w_fs t" "\<not> b" using sy by (auto simp: op_ok_def elim!: op_bind_cases dest: sync_fs)
      with remove_dir_all_gone [OF ready_generation_clear [OF ready] c g rm] show ?thesis by simp
    qed
  qed
  then show "b \<Longrightarrow> \<exists>n. node_at (w_fs w') ?g = Some n \<and> tree_verifies E (dsm_skill_name d) (dsm_manifest d) n"
    "\<not> b \<Longrightarrow> peek (w_fs w') ?g \<noteq> Some S_Dir"
    using verify_solid [OF solid] by auto
qed

text \<open>Staging does not touch the generation, and a stage that verifies becomes one that does.\<close>

lemma stage_leaves_generation:
  assumes ready: "mat_ready E P d op (w_fs w)" "entries_ok es" and run: "stage_if_needed E M P d es op b w = (r, w')"
  shows "node_at (w_fs w') (generation_dir E P d) = node_at (w_fs w) (generation_dir E P d)"
    "confined (w_fs w) (mat_area E P d op {Objects, Stage}) (mat_links E P d op es) (w_fs w')"
proof -
  show c: "confined (w_fs w) (mat_area E P d op {Objects, Stage}) (mat_links E P d op es) (w_fs w')"
    by (rule withinD [OF within_stage [OF ready] run ready_confined [OF ready]]) simp_all
  obtain g k where g: "generation_dir E P d = resource_root E P d @ [g]" and k: "stage_dir E P d op = resource_root E P d @ [k]" "k \<noteq> g"
    using ready_shape(1,2,7) [OF ready(1)] by auto
  have "\<not> prefix (generation_dir E P d) r" if r: "r \<in> mat_area E P d op {Objects, Stage}" for r
  proof -
    consider "r = resource_root E P d" | "prefix (lp_objects P) r" | "prefix (stage_dir E P d op) r"
      using r by (auto simp: mat_area_def)
    then show ?thesis
    proof cases
      case 2
      then obtain u where "r = lp_objects P @ u" by (auto simp: prefix_def)
      then show ?thesis using roots_apart(6) [OF ready(1), of u] prefix_order.trans g by (metis prefixI)
    qed (use g k in \<open>auto simp: prefix_def\<close>)
  qed
  with c show "node_at (w_fs w') (generation_dir E P d) = node_at (w_fs w) (generation_dir E P d)"
    by (simp add: confined_def)
qed

lemma promote_outcome:
  assumes ready: "mat_ready E P d op fs0" "entries_ok es"
    and c: "confined fs0 (mat_area E P d op S) (mat_links E P d op es) (w_fs w)" "Stage \<in> S"
    and run: "promote_stage E M P d op False w = (Ok u, w')"
  shows "\<exists>n. node_at (w_fs w') (generation_dir E P d) = Some n \<and> tree_verifies E (dsm_skill_name d) (dsm_manifest d) n"
proof -
  let ?s = "stage_dir E P d op" and ?g = "generation_dir E P d"
  note solid = ready_solid [OF ready c(1)]
  from run obtain v where v: "verify_generation E ?s (dsm_skill_name d) (dsm_manifest d) (w_fs w) = Ok ()"
    and mv: "mz_io (fs_rename M ?s ?g) w = (Ok (), v)" and sy: "mz_io (sync_dir M (resource_root E P d)) v = (Ok u, w')"
    unfolding promote_stage_def by (auto simp: look_cases elim!: op_bind_cases)
  obtain n where n: "node_at (w_fs w) ?s = Some n" "tree_verifies E (dsm_skill_name d) (dsm_manifest d) n"
    using v unfolding verify_solid [OF solid(2) [OF c(2)]] by blast
  have mv: "sys_rename ?s ?g (w_fs w) = Ok (w_fs v)"
    using mv by (auto simp: fs_rename_def elim!: op_map_err_cases sys_cases)
  have plains: "plain (w_fs w) ?s" "plain (w_fs w) ?g" using solid(1) solid(2) [OF c(2)] by (simp_all add: solid_def)
  from plains mv n(1) have "node_at (w_fs v) ?g = Some n" by (cases rule: rename_plain) auto
  then show ?thesis using n(2) sync_fs [OF sy] by auto
qed

lemma build_outcome:
  assumes ready: "mat_ready E P d op (w_fs w)" "entries_ok es" and run: "build_phase E M P d es op w = (Ok u, w')"
  shows "\<exists>n. node_at (w_fs w') (generation_dir E P d) = Some n \<and> tree_verifies E (dsm_skill_name d) (dsm_manifest d) n"
proof -
  let ?g = "generation_dir E P d" and ?K = "mat_links E P d op es"
  from run obtain w1 w2 w3 w4 w5 b where
    s1: "mz_io (create_dir_all M (resource_root E P d)) w = (Ok (), w1)" and
    s2: "mz_db M (create_materialization_journal (lb_uuid E) (lb_materialization E) op (mat_payload E P d op)) w1 = (Ok (), w2)" and
    s3: "reuse_generation E M (resource_root E P d) ?g (canonical_link P d) (dsm_skill_name d) (dsm_manifest d) w2 = (Ok b, w3)" and
    s4: "stage_if_needed E M P d es op b w3 = (Ok (), w4)" and
    s5: "advance_journal E M op Planned Staged w4 = (Ok (), w5)" and
    s6: "promote_stage E M P d op (is_dir (w_fs w5) ?g) w5 = (Ok u, w')"
    unfolding build_phase_def by (auto simp: look_cases elim!: op_bind_cases)
  have c1: "confined (w_fs w) (mat_area E P d op {}) ?K (w_fs w1)"
  proof (rule withinD)
    show "within (w_fs w) (mat_area E P d op {}) ?K (mz_io (create_dir_all M (resource_root E P d)))"
      by (intro always_intros within_create_dir_all ready_root_clear [OF ready])
  qed (rule s1 ready_confined [OF ready])+
  then have r2: "mat_ready E P d op (w_fs w2)" using ready_preserved [OF ready, of "{}"] mz_db_fs [OF s2] by simp
  have "confined (w_fs w2) (mat_area E P d op {Gen}) ?K (w_fs w3)"
    by (rule withinD [OF within_reuse [OF r2 ready(2)] s3 ready_confined [OF r2 ready(2)]]) simp
  then have r3: "mat_ready E P d op (w_fs w3)" using ready_preserved [OF r2 ready(2), of "{Gen}"] by simp
  note stage = stage_leaves_generation [OF r3 ready(2) s4]
  have w5: "w_fs w5 = w_fs w4" using mz_db_fs [OF s5] .
  have solid: "solid (w_fs w5) ?g" using ready_solid(1) [OF r3 ready(2) stage(2)] w5 by simp
  show ?thesis
  proof (cases "is_dir (w_fs w5) ?g")
    case True
    then have "peek (w_fs w3) ?g = Some S_Dir" using is_dir_solid [OF solid] w5 stage(1) by (simp add: peek_def)
    then have b using reuse_outcome(2) [OF r2 ready(2) s3] by blast
    moreover have "w' = w5" using s6 True by (simp add: promote_stage_def op_ok_def)
    ultimately show ?thesis using reuse_outcome(1) [OF r2 ready(2) s3] stage(1) w5 by simp
  next
    case False
    then show ?thesis using promote_outcome [OF r3 ready(2), of "{Objects, Stage}" w5 M u w'] stage(2) w5 s6 by simp
  qed
qed

section \<open>After the build\<close>

lemma link_free_above:
  assumes "mat_ready E P d op fs" "entries_ok es" "prefix r (butlast (canonical_link P d))"
  shows "r \<notin> mat_links E P d op es"
proof
  assume r: "r \<in> mat_links E P d op es"
  have "length r \<le> length (resource_root E P d)" "\<not> prefix (canonical_link P d) r" "r \<noteq> switch_link E P d op"
    using assms(3) by (auto simp: the_paths [OF assms(1)] butlast_append dest!: prefix_length_le)
  with mat_links_cases [OF assms(1,2) r] show False by auto
qed

text \<open>What the build leaves alone: the paths of the switch, and a generation that is active.\<close>

lemma built_is_switch_ready:
  assumes ready: "mat_ready E P d op fs0" "entries_ok es"
    and c: "confined fs0 (mat_area E P d op {Objects, Stage, Gen}) (mat_links E P d op es) fs"
  shows "switch_ready (canonical_link P d) (switch_link E P d op) fs"
    "within fs (switch_area E P d op) (mat_links E P d op es) (atomic_switch_directory_link E M target (canonical_link P d) op)"
    "confined fs (switch_area E P d op) (mat_links E P d op es) fs"
    "peek fs (canonical_link P d) = peek fs0 (canonical_link P d)"
proof -
  let ?l = "canonical_link P d" and ?t = "switch_link E P d op" and ?A = "mat_area E P d op {Objects, Stage, Gen}"
  obtain k o' x where k: "?l = butlast ?l @ [k]" and o': "butlast ?l = lp_skills P @ [o']" and x: "?t = butlast ?l @ [x]"
    using ready_shape(4-6) [OF ready(1)] by auto
  have outside: "q \<notin> ?A" if q: "prefix q (butlast ?l) \<or> prefix ?t q \<or> prefix ?l q" for q
  proof
    assume "q \<in> ?A"
    then have "prefix (resource_root E P d) q \<or> prefix (lp_objects P) q"
      using ready_shape(1,2) [OF ready(1)] by (auto simp: mat_area_def split: if_splits dest: append_prefixD)
    then obtain u where "q = resource_root E P d @ u \<or> q = lp_objects P @ u" by (auto simp: prefix_def)
    then show False
      using q unfolding the_paths [OF ready(1)] layout_paths [OF ready_layout(1) [OF ready(1)]]
      by (auto simp: prefix_def butlast_append append_eq_append_conv2 Cons_eq_append_conv append_eq_Cons_conv)
  qed
  have same: "peek fs q = peek fs0 q" if "prefix q (butlast ?l) \<or> prefix ?t q \<or> prefix ?l q" for q
    using outside [OF that] c by (simp add: confined_def)
  show "peek fs ?l = peek fs0 ?l" using same by simp
  have dirs: "peek fs r = Some S_Dir" if "prefix r (lp_skills P)" for r
  proof -
    have "prefix r (butlast ?l)" using that o' prefix_prefix by metis
    then show ?thesis using same [of r] that ready_dirs(1) [OF ready(1)] by simp
  qed
  have "peek fs ?t = None" using same [of ?t] ready(1) by (simp add: mat_ready_def)
  then have "leaf (node_at fs ?t)" by (intro leaf_not_dir) simp
  moreover have "''..'' \<notin> set ?l" "''..'' \<notin> set ?t"
    using plain_no_dots ready_names(4,5) [OF ready(1)] by blast+
  moreover have "?t \<noteq> ?l" using switch_links_apart [OF ready(1), of "[]"] by auto
  moreover have "\<not> is_link (peek fs r)" if "prefix r (butlast ?l)" for r
    using prefix_snoc_cases [of r "lp_skills P" o'] that o' dirs same [of "butlast ?l"] ready_dirs(4) [OF ready(1)] by auto
  moreover have "peek fs r = Some S_Dir" if "strict_prefix r (butlast ?l)" for r
    using prefix_snoc_cases [of r "lp_skills P" o'] that o' dirs by (auto simp: strict_prefix_def)
  ultimately show "switch_ready ?l ?t fs"
    unfolding switch_ready_def using k o' x by (metis butlast_snoc snoc_eq_iff_butlast)
  show "confined fs (switch_area E P d op) (mat_links E P d op es) fs"
  proof -
    have "q \<in> mat_links E P d op es" if q: "q \<in> switch_area E P d op" "is_link (peek fs q)" for q
    proof -
      have "is_link (peek fs0 q)" using same [of q] q by (auto simp: switch_area_def)
      then show ?thesis
        using ready_confined [OF ready, of "{Switch}"] q(1) by (auto simp: confined_def mat_area_def)
    qed
    then show ?thesis by (auto simp: confined_def)
  qed
  have "r \<notin> mat_links E P d op es" if "prefix r (butlast ?l)" for r
    using link_free_above [OF ready that] .
  moreover have "?t @ b # r \<notin> mat_links E P d op es" for b r
    using mat_links_cases [OF ready] switch_links_apart [OF ready(1), of "b # r"]
      roots_apart(1) [OF ready(1), of "b # r"] by fastforce
  moreover have "?t \<in> mat_links E P d op es" "?l \<in> mat_links E P d op es" by (simp_all add: mat_links_def)
  ultimately show "within fs (switch_area E P d op) (mat_links E P d op es) (atomic_switch_directory_link E M target ?l op)"
    using within_switch_at [OF ready(1) dirs] by blast
qed

lemma switch_leaves_generation:
  assumes ready: "mat_ready E P d op fs0" "entries_ok es"
    and c: "confined fs0 (mat_area E P d op {Objects, Stage, Gen}) (mat_links E P d op es) (w_fs w)"
    and run: "switch_phase E M P d op w = (r, w')"
  shows "node_at (w_fs w') (generation_dir E P d) = node_at (w_fs w) (generation_dir E P d)"
proof -
  note sw = built_is_switch_ready [OF ready c]
  have "within (w_fs w) (switch_area E P d op) (mat_links E P d op es) (switch_phase E M P d op)"
    unfolding switch_phase_def by (intro always_intros sw(2))
  from withinD [OF this run sw(3)]
  have "confined (w_fs w) (switch_area E P d op) (mat_links E P d op es) (w_fs w')" .
  moreover have "\<not> prefix (generation_dir E P d) r" if "r \<in> switch_area E P d op" for r
    using that unfolding switch_area_def the_paths [OF ready(1)] by (auto simp: prefix_def butlast_append)
  ultimately show ?thesis by (simp add: confined_def)
qed

lemma build_confined:
  assumes "mat_ready E P d op (w_fs w)" "entries_ok es" "build_phase E M P d es op w = (r, w')"
  shows "confined (w_fs w) (mat_area E P d op {Objects, Stage, Gen}) (mat_links E P d op es) (w_fs w')"
  by (rule withinD [OF within_build [OF assms(1,2)] assms(3) ready_confined [OF assms(1,2)]]) simp_all

lemma switch_phase_outcome:
  assumes ready: "switch_ready (canonical_link P d) (switch_link E P d op) (w_fs w)"
    and run: "switch_phase E M P d op w = (r, w')"
  shows "peek (w_fs w') (canonical_link P d) = Some (S_Link (path_text (generation_dir E P d))) \<and>
      (\<forall>p. r = Ok p \<longrightarrow> p = generation_dir E P d) \<or>
    (\<forall>p. r \<noteq> Ok p) \<and> peek (w_fs w') (canonical_link P d) = peek (w_fs w) (canonical_link P d)"
proof -
  let ?sw = "atomic_switch_directory_link E M (generation_dir E P d) (canonical_link P d) op"
  let ?rest = "\<lambda>_. op_bind (advance_journal E M op Verified Switched) (\<lambda>_.
     op_bind (mz_db M (mark_skill_materialized (resource_text E (dsm_resource_id d)) (revision_text E (dsm_revision_id d)))) (\<lambda>_.
     op_bind (advance_journal E M op Switched Complete) (\<lambda>_. op_ok (generation_dir E P d))))"
  from run [unfolded switch_phase_def] show ?thesis
  proof (cases rule: op_bind_cases)
    case (1 e)
    then show ?thesis using mz_db_fs [OF 1(1)] by simp
  next
    case (2 x u)
    have u: "w_fs u = w_fs w" using mz_db_fs [OF 2(1)] .
    from 2(2) show ?thesis
    proof (cases rule: op_bind_cases)
      case (1 e)
      then show ?thesis using switch_outcome [OF _ switch_link_def 1(1)] ready u by auto
    next
      case (2 y v)
      have link: "peek (w_fs v) (canonical_link P d) = Some (S_Link (path_text (generation_dir E P d)))"
        using switch_outcome [OF _ switch_link_def 2(1)] ready u by auto
      from 2(2) have "w_fs w' = w_fs v \<and> (\<forall>p. r = Ok p \<longrightarrow> p = generation_dir E P d)"
        by (auto simp: op_ok_def elim!: op_bind_cases dest!: mz_db_fs)
      with link show ?thesis by simp
    qed
  qed
qed

text \<open>An active working tree: the build finds it, and either it verifies or the build stops.\<close>

lemma create_dir_all_present:
  assumes "\<And>r. prefix r p \<Longrightarrow> peek (w_fs w) r = Some S_Dir" "''..'' \<notin> set p" "create_dir_all M p w = (r, w')"
  shows "w_fs w' = w_fs w"
proof -
  have "within (w_fs w) {} {} (create_dir_all M p)"
    using assms(1,2) by (intro within_create_dir_all) (auto simp: clear_path_def reachable_dir_def strict_prefix_def)
  from withinD [OF this assms(3)] have "confined (w_fs w) {} {} (w_fs w')" by (simp add: confined_def)
  then have "node_at (w_fs w') [] = node_at (w_fs w) []" unfolding confined_def by blast
  then show ?thesis by simp
qed

lemma create_root_present:
  assumes "mat_ready E P d op (w_fs w)" "peek (w_fs w) (generation_dir E P d) = Some S_Dir"
    and "mz_io (create_dir_all M (resource_root E P d)) w = (r, w')"
  shows "w_fs w' = w_fs w"
proof -
  obtain c where "generation_dir E P d = resource_root E P d @ [c]" using ready_shape(2) [OF assms(1)] by auto
  then show ?thesis
    using assms(3) create_dir_all_present [of "resource_root E P d" w M] dir_prefix [OF assms(2)]
      plain_no_dots [OF ready_names(1) [OF assms(1)]] by (auto elim!: op_map_err_cases)
qed

lemma staged_active:
  assumes ready: "mat_ready E P d op fs" "entries_ok es" and dir: "is_dir fs (generation_dir E P d)" and w: "w_fs w = fs"
    and run: "op_bind (stage_if_needed E M P d es op b) (\<lambda>_. op_bind (advance_journal E M op Planned Staged) (\<lambda>_.
      op_bind (look (\<lambda>fs. Ok (is_dir fs (generation_dir E P d)))) (\<lambda>present. promote_stage E M P d op present))) w = (r, w')"
  shows "node_at (w_fs w') (generation_dir E P d) = node_at fs (generation_dir E P d)"
proof -
  let ?g = "generation_dir E P d"
  have r: "mat_ready E P d op (w_fs w)" using ready(1) w by simp
  from run show ?thesis
  proof (cases rule: op_bind_cases)
    case (1 e)
    then show ?thesis using stage_leaves_generation(1) [OF r ready(2)] w by simp
  next
    case (2 x v)
    note staged = stage_leaves_generation [OF r ready(2) 2(1)]
    have "is_dir (w_fs v) ?g"
      using is_dir_solid [OF ready_solid(1) [OF r ready(2) staged(2)]] staged(1) dir w
        is_dir_solid [OF ready_solid(1) [OF ready ready_confined [OF ready]]] by (simp add: peek_def)
    then have "w_fs w' = w_fs v"
      using 2(2) by (auto simp: look_cases promote_stage_def op_ok_def elim!: op_bind_cases dest!: mz_db_fs)
    then show ?thesis using staged(1) w by simp
  qed
qed

lemma build_keeps_active:
  assumes ready: "mat_ready E P d op (w_fs w)" "entries_ok es" and run: "build_phase E M P d es op w = (r, w')"
    and active: "canonicalize (w_fs w) (canonical_link P d) = Ok (generation_dir E P d)"
      "peek (w_fs w) (generation_dir E P d) = Some S_Dir"
  shows "node_at (w_fs w') (generation_dir E P d) = node_at (w_fs w) (generation_dir E P d)"
proof -
  let ?g = "generation_dir E P d"
  have solid: "solid (w_fs w) ?g" using ready_solid(1) [OF ready ready_confined [OF ready]] .
  have dir: "is_dir (w_fs w) ?g" using is_dir_solid [OF solid] active(2) by simp
  have targets: "canonical_targets_generation (canonical_link P d) ?g (w_fs w) = Ok True"
    using canonicalize_real [OF solid] active by (simp add: canonical_targets_generation_def res_simps)
  have root: "w_fs t = w_fs w" if "mz_io (create_dir_all M (resource_root E P d)) w = (q, t)" for q t
    by (rule create_root_present [OF ready(1) active(2) that])
  have reuse: "w_fs t = w_fs v" if "w_fs v = w_fs w"
    "reuse_generation E M (resource_root E P d) ?g (canonical_link P d) (dsm_skill_name d) (dsm_manifest d) v = (q, t)" for q v t
    using that dir targets
    by (auto simp: reuse_generation_def op_bind_def op_match_def look_def op_ok_def op_err_def split: result.splits if_splits)
  from run [unfolded build_phase_def] show ?thesis
  proof (cases rule: op_bind_cases)
    case (1 e) then show ?thesis using root by simp
  next
    case (2 x1 w1)
    note w1 = root [OF 2(1)]
    from 2(2) show ?thesis
    proof (cases rule: op_bind_cases)
      case (1 e) then show ?thesis using mz_db_fs [OF 1(1)] w1 by simp
    next
      case (2 x2 w2)
      have w2: "w_fs w2 = w_fs w" using mz_db_fs [OF 2(1)] w1 by simp
      from 2(2) show ?thesis
      proof (cases rule: op_bind_cases)
        case (1 e) then show ?thesis using reuse [OF w2 1(1)] w2 by simp
      next
        case (2 b w3)
        have w3: "w_fs w3 = w_fs w" using reuse [OF w2 2(1)] w2 by simp
        show ?thesis using staged_active [of E P d op "w_fs w" es w3 M b r w'] ready dir w3 2(2) by blast
      qed
    qed
  qed
qed

end
