(* ===== verification/Materialize_Props.thy ===== *)
theory Materialize_Props
  imports Materialize_Outcome
begin

text \<open>
  What holds of a materialization under every schedule of failures: it stays in its own places, what
  becomes visible is verified, and an active working tree survives.
\<close>

section \<open>The properties\<close>

lemma validated_entries_ok: "validated_snapshot E n m snapshot = Ok es \<Longrightarrow> entries_ok es"
  unfolding validated_snapshot_def res_simps validate_skill_snapshot_Ok_iff using manifest_entries_ok by blast

text \<open>
  An example machine: the skill is installed, its generation has been edited, and the generation
  asked for has the same revision.
\<close>

definition example_libs :: "(flat_yaml, (flat_yaml \<times> flat_yaml) list) libs" where
  "example_libs =
     \<lparr>lb_unicode = ascii_tables, lb_yaml = flat_lib, lb_sha = zero_hash,
      lb_archive = one_archive (map item_of (sort_key oe_path example_dir)),
      lb_uuid = \<lparr>uu_version_num = \<lambda>_. 7, uu_parse_str = Ok, uu_to_string = \<lambda>_. ''a''\<rparr>,
      lb_hex = \<lambda>_. ''b'', lb_unhex = Ok, lb_walk = \<lambda>n. [[''SKILL.md'']],
      lb_materialization = \<lparr>to_text = \<lambda>_. Ok ''{}'', from_text = \<lambda>_. Err ''blank''\<rparr>,
      lb_writeback = \<lparr>to_text = \<lambda>_. Ok ''{}'', from_text = \<lambda>_. Err ''blank''\<rparr>\<rparr>"

definition example_desired :: "SkillManifest \<Rightarrow> DesiredSkillMaterialization" where
  "example_desired m =
     \<lparr>dsm_resource_id = ResourceId ''r'', dsm_owner = ''alice'', dsm_skill_name = ''review'',
      dsm_revision_id = RevisionId ''v'', dsm_manifest = m\<rparr>"

definition example_tree :: "(string \<times> node) list \<Rightarrow> (string \<times> node) list \<Rightarrow> node" where
  "example_tree links files = DirN [(''.denju'', DirN
     [(''skills'', DirN [(''alice'', DirN links)]),
      (''generations'', DirN [(''a'', DirN [(''b'', DirN files)])]),
      (''objects'', DirN [(''blobs'', DirN [(''sha256'', DirN [])])])])]"

definition example_disk :: node where
  "example_disk = example_tree [(''review'', LinkN (path_text [''.denju'', ''generations'', ''a'', ''b'']))]
     [(''SKILL.md'', FileN ''edited'' False)]"

definition example_world :: "localdb world" where
  "example_world = \<lparr>w_fs = example_disk, w_db = empty_db, w_tick = 0\<rparr>"

lemma example_texts:
  "resource_text example_libs x = ''a''" "revision_text example_libs y = ''b''" "operation_text (lb_uuid example_libs) op = ''a''"
  "dsm_owner (example_desired m) = ''alice''" "dsm_skill_name (example_desired m) = ''review''"
  by (simp_all add: example_libs_def resource_text_def revision_text_def operation_text_def example_desired_def)

lemma example_paths:
  "lp_skills (from_home []) = [''.denju'', ''skills'']" "lp_generations (from_home []) = [''.denju'', ''generations'']"
  "lp_objects (from_home []) = [''.denju'', ''objects'', ''blobs'', ''sha256'']"
  "resource_root example_libs (from_home []) (example_desired m) = [''.denju'', ''generations'', ''a'']"
  "generation_dir example_libs (from_home []) (example_desired m) = [''.denju'', ''generations'', ''a'', ''b'']"
  "stage_dir example_libs (from_home []) (example_desired m) op = [''.denju'', ''generations'', ''a'', ''.stage-a'']"
  "canonical_link (from_home []) (example_desired m) = [''.denju'', ''skills'', ''alice'', ''review'']"
  "switch_link example_libs (from_home []) (example_desired m) op = [''.denju'', ''skills'', ''alice'', ''.denju-link-a'']"
proof -
  have n: "plain_name ''.denju''" "plain_name ''skills''" "plain_name ''generations''" "plain_name ''a''" "plain_name ''b''"
    "plain_name ''.stage-a''" "plain_name ''alice''" "plain_name ''review''" "plain_name ''.denju-link-a''"
    by (simp_all add: plain_name_def)
  show skills: "lp_skills (from_home []) = [''.denju'', ''skills'']"
    and gens: "lp_generations (from_home []) = [''.denju'', ''generations'']"
    and "lp_objects (from_home []) = [''.denju'', ''objects'', ''blobs'', ''sha256'']"
    using n by (simp_all add: from_home_def Let_def path_join_relative is_absolute_def objects_components)
  show root: "resource_root example_libs (from_home []) (example_desired m) = [''.denju'', ''generations'', ''a'']"
    using n by (simp add: resource_root_def gens example_texts)
  show "generation_dir example_libs (from_home []) (example_desired m) = [''.denju'', ''generations'', ''a'', ''b'']"
    "stage_dir example_libs (from_home []) (example_desired m) op = [''.denju'', ''generations'', ''a'', ''.stage-a'']"
    using n by (simp_all add: generation_dir_def stage_dir_def root example_texts)
  show link: "canonical_link (from_home []) (example_desired m) = [''.denju'', ''skills'', ''alice'', ''review'']"
    using n by (simp add: canonical_link_def canonical_path_of_def skills example_texts)
  show "switch_link example_libs (from_home []) (example_desired m) op = [''.denju'', ''skills'', ''alice'', ''.denju-link-a'']"
    using n by (simp add: switch_link_def link example_texts)
qed

lemma example_layout: "layout_ok (from_home []) (example_tree links files)"
proof -
  have "\<not> is_link (peek (example_tree links files) (lp_objects (from_home []) @ u))" for u
    by (cases u) (simp_all add: example_paths example_tree_def peek_def)
  then show ?thesis
    unfolding layout_ok_def
    by (intro conjI allI impI exI [of _ "[]"]) (auto simp only: prefix_def, simp_all add: example_paths example_tree_def peek_def)
qed

lemma example_libs_plain: "libs_plain example_libs"
  by (simp add: libs_plain_def example_libs_def name_text_def zero_hash_def)

lemma example_tree_ready:
  assumes "map_of links ''.denju-link-a'' = None"
  shows "mat_ready example_libs (from_home []) (example_desired m) op (example_tree links files)"
proof -
  have "skill_name_spec ''review''" by (simp add: skill_name_spec_def skill_name_byte_def ascii_lowercase_def)
  then show ?thesis
    unfolding mat_ready_def example_paths using example_layout example_libs_plain
    by (simp add: example_desired_def example_tree_def peek_def plain_name_def assms)
qed

lemma example_ready: "mat_ready example_libs (from_home []) (example_desired m) op example_disk"
  unfolding example_disk_def by (rule example_tree_ready) simp

lemma example_active: "canonicalize example_disk [''.denju'', ''skills'', ''alice'', ''review''] = Ok [''.denju'', ''generations'', ''a'', ''b'']"
proof -
  have "list_all plain_name [''.denju'', ''generations'', ''a'', ''b'']" by (simp add: plain_name_def)
  then show ?thesis
    by (simp add: canonicalize_def locate_follow_def MAX_LINKS_def example_disk_def example_tree_def peek_def res_simps)
qed

lemma example_validated:
  "\<exists>m s. validated_snapshot example_libs (dsm_skill_name (example_desired m)) (dsm_manifest (example_desired m)) s =
     Ok (sort_key oe_path example_dir)"
proof -
  let ?A = "one_archive (map item_of (sort_key oe_path example_dir))"
  obtain snap where "build_deterministic_skill_snapshot ascii_tables flat_lib zero_hash ?A ''review'' example_dir = Ok snap"
    using example_dir_snapshot by blast
  from snapshot_roundtrip [OF this one_archive_reads_back example_dir_text]
  show ?thesis
    by (intro exI [of _ "ds_manifest snap"] exI [of _ "ds_bytes snap"])
      (simp add: validated_snapshot_def example_libs_def example_desired_def res_simps)
qed

text \<open>C31. A materialization touches nothing but its own places, whichever of its system calls or
  database calls fail and wherever it is cut off: outside the resource's directory entry, the
  content store, the stage, the generation and the links at the canonical path, every path of the
  machine is what it was.\<close>

theorem materialization_is_confined:
  assumes "mat_ready E P d op (w_fs w)"
    and "validated_snapshot E (dsm_skill_name d) (dsm_manifest d) snapshot = Ok es"
    and "materialize_with_lease E M P d es op w = (r, w')"
    and "q \<notin> mat_area E P d op {Objects, Stage, Gen, Switch}"
  shows "peek (w_fs w') q = peek (w_fs w) q"
proof -
  note ok = validated_entries_ok [OF assms(2)]
  have "confined (w_fs w) (mat_area E P d op {Objects, Stage, Gen, Switch}) (mat_links E P d op es) (w_fs w')"
    by (rule withinD [OF within_materialize [OF assms(1) ok refl] assms(3) ready_confined [OF assms(1) ok]])
  then show ?thesis using assms(4) by (simp add: confined_def)
qed

theorem materialization_is_confined_witness:
  "\<exists>m. \<forall>M op. peek (w_fs (snd (materialize_with_lease example_libs M (from_home []) (example_desired m)
      (sort_key oe_path example_dir) op example_world))) [''.denju'', ''skills'', ''alice'', ''other''] = None"
proof -
  obtain m s where v: "validated_snapshot example_libs (dsm_skill_name (example_desired m)) (dsm_manifest (example_desired m)) s =
     Ok (sort_key oe_path example_dir)" using example_validated by blast
  have ready: "mat_ready example_libs (from_home []) (example_desired m) op (w_fs example_world)" for op
    using example_ready by (simp add: example_world_def)
  have out: "[''.denju'', ''skills'', ''alice'', ''other''] \<notin>
      mat_area example_libs (from_home []) (example_desired m) op {Objects, Stage, Gen, Switch}" for op
    by (simp add: mat_area_def switch_area_def example_paths)
  have "peek (w_fs example_world) [''.denju'', ''skills'', ''alice'', ''other''] = None"
    by (simp add: example_world_def example_disk_def example_tree_def peek_def)
  then show ?thesis
    using materialization_is_confined [OF ready v prod.collapse [symmetric] out] by metis
qed

text \<open>C2. Only verified content becomes visible: however a materialization ends, the canonical link
  is as it was before, or it leads to the generation and the tree there hashes to the manifest that
  was asked for.  A successful run returns the generation and is the second case.\<close>

theorem visible_generation_is_verified:
  assumes "mat_ready E P d op (w_fs w)"
    and "validated_snapshot E (dsm_skill_name d) (dsm_manifest d) snapshot = Ok es"
    and "materialize_with_lease E M P d es op w = (r, w')"
  shows "(\<forall>p. r \<noteq> Ok p) \<and> peek (w_fs w') (canonical_link P d) = peek (w_fs w) (canonical_link P d) \<or>
    (\<forall>p. r = Ok p \<longrightarrow> p = generation_dir E P d) \<and>
    peek (w_fs w') (canonical_link P d) = Some (S_Link (path_text (generation_dir E P d))) \<and>
    (\<exists>n. node_at (w_fs w') (generation_dir E P d) = Some n \<and> tree_verifies E (dsm_skill_name d) (dsm_manifest d) n)"
proof -
  note ok = validated_entries_ok [OF assms(2)]
  from assms(3) [unfolded materialize_phases] show ?thesis
  proof (cases rule: op_bind_cases)
    case (1 e)
    then show ?thesis
      using built_is_switch_ready(4) [OF assms(1) ok build_confined [OF assms(1) ok 1(1)]] by simp
  next
    case (2 x u)
    note built = build_confined [OF assms(1) ok 2(1)]
    note ready = built_is_switch_ready [OF assms(1) ok built]
    have "\<exists>n. node_at (w_fs w') (generation_dir E P d) = Some n \<and> tree_verifies E (dsm_skill_name d) (dsm_manifest d) n"
      using build_outcome [OF assms(1) ok 2(1)] switch_leaves_generation [OF assms(1) ok built 2(2)] by simp
    then show ?thesis using switch_phase_outcome [OF ready(1) 2(2)] ready(4) by auto
  qed
qed

theorem visible_generation_is_verified_witness:
  "\<exists>m. \<forall>M op. peek (w_fs (snd (materialize_with_lease example_libs M (from_home []) (example_desired m)
      (sort_key oe_path example_dir) op example_world))) (canonical_link (from_home []) (example_desired m)) =
    Some (S_Link (path_text (generation_dir example_libs (from_home []) (example_desired m))))"
proof -
  obtain m s where v: "validated_snapshot example_libs (dsm_skill_name (example_desired m)) (dsm_manifest (example_desired m)) s =
     Ok (sort_key oe_path example_dir)" using example_validated by blast
  have ready: "mat_ready example_libs (from_home []) (example_desired m) op (w_fs example_world)" for op
    using example_ready by (simp add: example_world_def)
  have "peek (w_fs example_world) (canonical_link (from_home []) (example_desired m)) =
      Some (S_Link (path_text (generation_dir example_libs (from_home []) (example_desired m))))"
    unfolding example_paths by (simp add: example_world_def example_disk_def example_tree_def peek_def)
  then show ?thesis
    using visible_generation_is_verified [OF ready v prod.collapse [symmetric]] by metis
qed

text \<open>C32. Local edits survive: while the canonical path leads to the generation that is asked for,
  its tree is exactly what it was however the materialization ends, edited or not.\<close>

theorem active_working_tree_survives:
  assumes "mat_ready E P d op (w_fs w)"
    and "validated_snapshot E (dsm_skill_name d) (dsm_manifest d) snapshot = Ok es"
    and "materialize_with_lease E M P d es op w = (r, w')"
    and "canonicalize (w_fs w) (canonical_link P d) = Ok (generation_dir E P d)"
    and "peek (w_fs w) (generation_dir E P d) = Some S_Dir"
  shows "node_at (w_fs w') (generation_dir E P d) = node_at (w_fs w) (generation_dir E P d)"
proof -
  note ok = validated_entries_ok [OF assms(2)]
  from assms(3) [unfolded materialize_phases] show ?thesis
  proof (cases rule: op_bind_cases)
    case (1 e)
    show ?thesis by (rule build_keeps_active [OF assms(1) ok 1(1) assms(4,5)])
  next
    case (2 x u)
    show ?thesis
      using build_keeps_active [OF assms(1) ok 2(1) assms(4,5)]
        switch_leaves_generation [OF assms(1) ok build_confined [OF assms(1) ok 2(1)] 2(2)] by simp
  qed
qed

theorem active_working_tree_survives_witness:
  "\<exists>m. \<forall>M op. node_at (w_fs (snd (materialize_with_lease example_libs M (from_home []) (example_desired m)
      (sort_key oe_path example_dir) op example_world))) [''.denju'', ''generations'', ''a'', ''b''] =
    Some (DirN [(''SKILL.md'', FileN ''edited'' False)])"
proof -
  obtain m s where v: "validated_snapshot example_libs (dsm_skill_name (example_desired m)) (dsm_manifest (example_desired m)) s =
     Ok (sort_key oe_path example_dir)" using example_validated by blast
  have ready: "mat_ready example_libs (from_home []) (example_desired m) op (w_fs example_world)" for op
    using example_ready by (simp add: example_world_def)
  have a: "canonicalize (w_fs example_world) (canonical_link (from_home []) (example_desired m)) =
      Ok (generation_dir example_libs (from_home []) (example_desired m))"
    using example_active by (simp add: example_paths example_world_def)
  have dir: "peek (w_fs example_world) (generation_dir example_libs (from_home []) (example_desired m)) = Some S_Dir"
    unfolding example_paths by (simp add: example_world_def example_disk_def example_tree_def peek_def)
  have "node_at (w_fs example_world) [''.denju'', ''generations'', ''a'', ''b''] = Some (DirN [(''SKILL.md'', FileN ''edited'' False)])"
    by (simp add: example_world_def example_disk_def example_tree_def)
  then show ?thesis
    using active_working_tree_survives [OF ready v prod.collapse [symmetric] a dir, unfolded example_paths] by metis
qed

text \<open>C33. A cached generation whose edits left no valid skill is never rebuilt: when its directory
  is there and verifying it fails with anything but a difference of manifests, the installation
  fails and leaves it there, so that the next one fails in the same way.\<close>

theorem invalid_cache_is_never_rebuilt:
  assumes "mat_ready E P d op (w_fs w)" and "validated_snapshot E (dsm_skill_name d) (dsm_manifest d) snapshot = Ok es"
    and "peek (w_fs w) (generation_dir E P d) = Some S_Dir"
    and "verify_generation E (generation_dir E P d) (dsm_skill_name d) (dsm_manifest d) (w_fs w) = Err e" "e \<noteq> MZ_ManifestMismatch"
    and "materialize_with_lease E M P d es op w = (r, w')"
  shows "(\<forall>p. r \<noteq> Ok p) \<and> w_fs w' = w_fs w"
proof -
  note ready = assms(1) validated_entries_ok [OF assms(2)]
  have dir: "is_dir (w_fs w) (generation_dir E P d)"
    using is_dir_solid [OF ready_solid(1) [OF ready ready_confined [OF ready]]] assms(3) by simp
  have root: "w_fs t = w_fs w" if "mz_io (create_dir_all M (resource_root E P d)) w = (q, t)" for q t
    by (rule create_root_present [OF assms(1,3) that])
  have reuse: "q = Err e \<and> t = v" if "w_fs v = w_fs w"
    "reuse_generation E M (resource_root E P d) (generation_dir E P d) (canonical_link P d) (dsm_skill_name d) (dsm_manifest d) v = (q, t)" for q v t
    using that dir assms(4,5) by (auto simp: reuse_generation_def op_bind_def op_match_def look_def op_err_def)
  show ?thesis
    using assms(6) [unfolded materialize_phases build_phase_def op_bind_assoc]
    by (auto elim!: op_bind_cases dest!: root mz_db_fs dest: reuse) (metis reuse)
qed

lemma example_cache_invalid:
  "\<exists>e. verify_generation example_libs [''.denju'', ''generations'', ''a'', ''b''] ''review'' m (example_tree links []) = Err (MZ_Snapshot e)"
proof -
  have "walk_below example_libs (example_tree links []) [''.denju'', ''generations'', ''a'', ''b''] = Ok []"
    by (simp add: walk_below_def canonicalize_def locate_follow_def MAX_LINKS_def example_tree_def example_libs_def peek_def res_simps)
  then have read: "read_generation example_libs (example_tree links []) [''.denju'', ''generations'', ''a'', ''b''] = Ok []"
    by (simp add: read_generation_def res_simps)
  have "build_skill_manifest U Y H n [] \<noteq> Ok k" for U H n k and Y :: "('a, 'b) yaml_lib"
    by (auto simp: build_skill_manifest_Ok_iff validate_skill_directory_Ok_iff has_skill_md_def)
  then obtain e where "build_skill_manifest (lb_unicode example_libs) (lb_yaml example_libs) (lb_sha example_libs) ''review'' [] = Err e"
    by (metis result.exhaust)
  then show ?thesis by (simp add: verify_generation_def read res_simps)
qed

theorem invalid_cache_is_never_rebuilt_witness:
  "\<exists>m. \<forall>M op db. (\<forall>p. fst (materialize_with_lease example_libs M (from_home []) (example_desired m)
      (sort_key oe_path example_dir) op \<lparr>w_fs = example_tree [] [], w_db = db, w_tick = 0\<rparr>) \<noteq> Ok p)"
proof -
  obtain m s where v: "validated_snapshot example_libs (dsm_skill_name (example_desired m)) (dsm_manifest (example_desired m)) s =
     Ok (sort_key oe_path example_dir)" using example_validated by blast
  let ?w = "\<lambda>db. \<lparr>w_fs = example_tree [] [], w_db = db, w_tick = 0\<rparr> :: localdb world"
  have ready: "mat_ready example_libs (from_home []) (example_desired m) op (w_fs (?w db))" for op db
    using example_tree_ready [of "[]" m _ "[]"] by simp
  have dir: "peek (w_fs (?w db)) (generation_dir example_libs (from_home []) (example_desired m)) = Some S_Dir" for db
    unfolding example_paths by (simp add: example_tree_def peek_def)
  obtain e where e: "verify_generation example_libs (generation_dir example_libs (from_home []) (example_desired m))
      (dsm_skill_name (example_desired m)) (dsm_manifest (example_desired m)) (w_fs (?w db)) = Err (MZ_Snapshot e)" for db
    unfolding example_paths example_texts using example_cache_invalid [of m "[]"] by (auto simp: example_desired_def)
  show ?thesis
    using invalid_cache_is_never_rebuilt [OF ready v dir e _ prod.collapse [symmetric]] by blast
qed

end
