(* ===== verification/Materialize_Recovery.thy ===== *)
theory Materialize_Recovery
  imports Materialize_Outcome
begin

text \<open>
  Two ways in which a skill stays uninstallable: a cached generation that is no valid skill any more,
  and a journal entry whose skill is no longer wanted at the revision it was written for.
\<close>

section \<open>File operations and the database\<close>

lemma db_frame_sys [always_intros]: "always (\<lambda>w. I (w_db w)) (sys M f)"
  by (auto simp: always_def sys_def tick_def split: option.split result.split)

lemma db_frame_create_dir_all [always_intros]: "always (\<lambda>w. I (w_db w)) (create_dir_all M p)"
proof (induction p rule: length_induct)
  case (1 p)
  show ?case
  proof (cases "p = []")
    case False
    then have "length (butlast p) < length p" by (cases p) auto
    with 1 have ih: "always (\<lambda>w. I (w_db w)) (create_dir_all M (butlast p))" by blast
    show ?thesis
      unfolding create_dir_all.simps [of M p] create_dir_def mkdir_unless_dir_def by (intro always_intros ih)
  qed (simp add: create_dir_all.simps always_intros)
qed

lemma db_frame_remove_dir_all [always_intros]: "always (\<lambda>w. I (w_db w)) (remove_dir_all M p)"
  unfolding remove_dir_all_def remove_entry_def remove_file_def remove_dir_def
  by (intro always_intros) (auto intro!: always_intros split: option.split node.split)

lemma db_frame_switch [always_intros]:
  "always (\<lambda>w. I (w_db w)) (atomic_switch_directory_link E M target link op)"
  unfolding atomic_switch_directory_link_def create_native_directory_link_def Let_def
    symlink_def remove_file_def remove_dir_def fs_rename_def sync_dir_def
  by (intro always_intros)

section \<open>Orphaned journal entries\<close>

text \<open>No record asks for this revision of the resource.\<close>

definition orphaned :: "string \<Rightarrow> string \<Rightarrow> localdb \<Rightarrow> bool" where
  "orphaned resource revision db \<longleftrightarrow>
     (\<forall>r \<in> set (subscriptions db). (sub_resource_id r, sub_desired_revision_id r) \<noteq> (resource, revision)) \<and>
     (\<forall>r \<in> set (owned_skills db). (os_resource_id r, os_desired_revision_id r) \<noteq> (resource, revision)) \<and>
     (\<forall>r \<in> set (pack_materialized_skills db). (pms_resource_id r, pms_desired_revision_id r) \<noteq> (resource, revision))"

lemma orphaned_update:
  assumes "orphaned x v db"
  shows "update_where subscription_t P (\<lambda>r. r\<lparr>sub_materialized_revision_id := a, sub_updated_at_unix_ms := now\<rparr>) db = (r, db') \<Longrightarrow> orphaned x v db'"
    "update_where owned_t Q (\<lambda>r. r\<lparr>os_materialized_revision_id := a, os_updated_at_unix_ms := now\<rparr>) db = (r, db') \<Longrightarrow> orphaned x v db'"
    "update_where pack_materialized_t R (\<lambda>r. r\<lparr>pms_materialized_revision_id := b, pms_updated_at_unix_ms := now\<rparr>) db = (r, db') \<Longrightarrow> orphaned x v db'"
    "update_where journal_t S f db = (r, db') \<Longrightarrow> orphaned x v db'"
    "delete_from journal_t S db = (r', db') \<Longrightarrow> orphaned x v db'"
  using assms
  by (auto simp: update_where_def delete_from_def sql_exec_def sql_update_def orphaned_def
      subscription_t_def owned_t_def pack_materialized_t_def journal_t_def split: option.splits if_splits; blast)+

lemma orphaned_always:
  "always (orphaned x v) (mark_skill_materialized a b now)"
  "always (orphaned x v) (update_materialization_journal L op j k now)"
  "always (orphaned x v) (discard_materialization_journal L op)"
proof -
  have tr: "always I m \<Longrightarrow> always I (transaction m)" for I :: "localdb \<Rightarrow> bool" and m :: "(localdb, unit) db_op"
    by (fastforce simp: always_def transaction_def split: prod.split result.split)
  have wd: "(\<And>db. always I (f db)) \<Longrightarrow> always I (with_db f)" for I :: "localdb \<Rightarrow> bool" and f :: "localdb \<Rightarrow> (localdb, nat) db_op"
    by (simp add: always_def with_db_def)
  have step: "(\<And>db r db'. I db \<Longrightarrow> m db = (r, db') \<Longrightarrow> I db') \<Longrightarrow> always I m" for I :: "localdb \<Rightarrow> bool" and m :: "(localdb, nat) db_op"
    by (auto simp: always_def) (metis prod.collapse)
  show "always (orphaned x v) (mark_skill_materialized a b now)"
    unfolding mark_skill_materialized_def by (intro tr wd always_intros step) (blast intro: orphaned_update)+
  show "always (orphaned x v) (update_materialization_journal L op j k now)"
    unfolding update_materialization_journal_def expect_one_def by (intro always_intros step) (blast intro: orphaned_update)
  show "always (orphaned x v) (discard_materialization_journal L op)"
    unfolding discard_materialization_journal_def by (intro always_intros step) (blast intro: orphaned_update)
qed

lemma orphan_not_marked: "orphaned x v db \<Longrightarrow> mark_skill_materialized x v now db = (r, db') \<Longrightarrow> r \<noteq> Ok u"
  by (auto simp: mark_skill_materialized_def transaction_def with_db_def op_bind_def update_where_def sql_exec_def sql_update_def
      sql_count_def orphaned_def subscription_t_def owned_t_def pack_materialized_t_def op_err_def op_ok_def 
      filter_empty_conv split: option.splits if_splits prod.splits result.splits)

lemma op_each_Ok_member:
  assumes "op_each f xs s = (Ok u, t)" "\<And>x. x \<in> set xs \<Longrightarrow> always I (f x)" "I s" "x \<in> set xs"
  obtains s' y t' where "I s'" "f x s' = (Ok y, t')"
  using assms
proof (induction xs arbitrary: s)
  case (Cons a xs)
  from Cons.prems(2) obtain y v where a: "f a s = (Ok y, v)" and rest: "op_each f xs v = (Ok u, t)"
    by (auto elim: op_bind_cases)
  have "always I (f a)" using Cons.prems(3) by simp
  from alwaysD [OF this a Cons.prems(4)] have "I v" .
  show ?case
  proof (cases "x = a")
    case True
    show ?thesis by (rule Cons.prems(1)) (use a True Cons.prems(4) in auto)
  next
    case False
    show ?thesis by (rule Cons.IH [of v]) (use Cons.prems rest \<open>I v\<close> False in auto)
  qed
qed simp

lemma orphaned_calls [always_intros]:
  "always (\<lambda>w. orphaned x v (w_db w)) (db_call_now M (mark_skill_materialized a b))"
  "always (\<lambda>w. orphaned x v (w_db w)) (db_call_now M (update_materialization_journal L op j k))"
  "always (\<lambda>w. orphaned x v (w_db w)) (db_call_now M (\<lambda>_. discard_materialization_journal L op))"
proof -
  have call: "always (\<lambda>w. I (w_db w)) (db_call_now M f)" if "\<And>n. always I (f n)"
    for I :: "localdb \<Rightarrow> bool" and f :: "int \<Rightarrow> (localdb, unit) db_op"
    using that unfolding always_def db_call_now_def db_call_def
    by (auto simp: tick_def split: option.split prod.split) (metis snd_conv)
  show "always (\<lambda>w. orphaned x v (w_db w)) (db_call_now M (mark_skill_materialized a b))"
    "always (\<lambda>w. orphaned x v (w_db w)) (db_call_now M (update_materialization_journal L op j k))"
    "always (\<lambda>w. orphaned x v (w_db w)) (db_call_now M (\<lambda>_. discard_materialization_journal L op))"
    by (rule call, rule orphaned_always)+
qed

lemma orphaned_recover: "always (\<lambda>w. orphaned x v (w_db w)) (recover_materialization E M j)"
  unfolding recover_materialization_def Let_def by (cases "jr_state j") (auto intro!: always_intros)

lemma orphan_call_fails:
  "orphaned x v (w_db w) \<Longrightarrow> mz_db M (mark_skill_materialized x v) w = (r, t) \<Longrightarrow> r \<noteq> Ok u"
  using orphan_not_marked [of x v "w_db w"]
  by (auto simp: db_call_now_def db_call_def elim!: op_map_err_cases split: option.splits prod.splits)

lemma orphan_stops_recovery:
  assumes "orphaned (mat_resource_id (jr_payload j)) (mat_revision_id (jr_payload j)) (w_db w)"
    and "jr_state j = Verified \<or> jr_state j = Switched"
  shows "recover_materialization E M j w \<noteq> (Ok u, t)"
proof
  let ?x = "mat_resource_id (jr_payload j)" and ?v = "mat_revision_id (jr_payload j)"
  assume run: "recover_materialization E M j w = (Ok u, t)"
  from assms(2) show False
  proof
    assume "jr_state j = Verified"
    with run obtain w1 w2 w3 where sw: "atomic_switch_directory_link E M (path_components (mat_generation_dir (jr_payload j)))
          (path_components (mat_canonical_path (jr_payload j))) (jr_operation_id j) w = (Ok (), w1)"
      and up: "advance_journal E M (jr_operation_id j) Verified Switched w1 = (Ok (), w2)"
      and fin: "mz_db M (mark_skill_materialized ?x ?v) w2 = (Ok (), w3)"
      unfolding recover_materialization_def by (auto simp: Let_def look_cases elim!: op_bind_cases)
    have "orphaned ?x ?v (w_db w1)" using alwaysD [OF db_frame_switch [of "orphaned ?x ?v"] sw] assms(1) by simp
    then have "orphaned ?x ?v (w_db w2)"
      using alwaysD [of "\<lambda>w. orphaned ?x ?v (w_db w)", OF always_map_err [OF orphaned_calls(2)] up] by simp
    with fin orphan_call_fails show False by blast
  next
    assume "jr_state j = Switched"
    with run obtain w3 where "mz_db M (mark_skill_materialized ?x ?v) w = (Ok (), w3)"
      unfolding recover_materialization_def by (auto simp: Let_def look_cases op_err_def elim!: op_bind_cases split: if_splits)
    with orphan_call_fails [OF assms(1)] show False by blast
  qed
qed

section \<open>The properties\<close>

text \<open>An example: a verified entry for a skill that was unsubscribed since.\<close>

definition stale_payload :: MaterializationJournalPayload where
  "stale_payload =
     \<lparr>mat_resource_id = ''r'', mat_revision_id = ''v'', mat_stage_dir = ''/s'', mat_generation_dir = ''/g'',
      mat_canonical_path = ''/c''\<rparr>"

definition stale_codec :: "MaterializationJournalPayload codec" where
  "stale_codec = \<lparr>to_text = \<lambda>_. Ok ''{}'', from_text = \<lambda>_. Ok stale_payload\<rparr>"

definition stale_uuid :: uuid_lib where
  "stale_uuid = \<lparr>uu_version_num = \<lambda>_. 7, uu_parse_str = Ok, uu_to_string = \<lambda>b. b\<rparr>"

definition stale_db :: localdb where
  "stale_db =
     snd (update_materialization_journal stale_uuid (OperationId ''op'') Staged Verified 3
     (snd (update_materialization_journal stale_uuid (OperationId ''op'') Planned Staged 2
     (snd (create_materialization_journal stale_uuid stale_codec (OperationId ''op'') stale_payload 1 empty_db)))))"

lemma stale_db_eval: "stale_db = empty_db\<lparr>operation_journal :=
    [(planned_row ''op'' ''materialize_skill'' ''{}'' 1)\<lparr>oj_state := ''verified'', oj_updated_at_unix_ms := 3\<rparr>]\<rparr>"
  by (simp add: stale_db_def update_materialization_journal_def create_materialization_journal_def serialize_def stale_codec_def
      stale_uuid_def operation_text_def planned_row_def insert_into_def update_where_def expect_one_def sql_exec_def sql_insert_def
      sql_update_def sql_count_def journal_t_def empty_db_def op_bind_def op_ok_def op_res_def)

text \<open>C34. An unfinished installation is not forgotten when its skill is unsubscribed or moves on:
  while the journal holds a verified or switched entry whose revision no record asks for, recovery
  fails, and with it every installation of every skill, whatever else the machine does.\<close>

theorem orphaned_journal_blocks_installs:
  assumes "fst (materialization_journals (lb_uuid E) (lb_materialization E) (w_db w)) = Ok js" and "j \<in> set js"
    and "jr_state j = Verified \<or> jr_state j = Switched"
    and "orphaned (mat_resource_id (jr_payload j)) (mat_revision_id (jr_payload j)) (w_db w)"
  shows "fst (recover_materializations E M w) \<noteq> Ok () \<and> (\<forall>p. fst (materialize_skill_snapshot E M P d snapshot w) \<noteq> Ok p)"
proof -
  let ?x = "mat_resource_id (jr_payload j)" and ?v = "mat_revision_id (jr_payload j)"
  have "fst (recover_materializations E M w) \<noteq> Ok ()"
  proof
    assume "fst (recover_materializations E M w) = Ok ()"
    then obtain t where "recover_materializations E M w = (Ok (), t)" by (metis prod.collapse)
    then have "op_each (recover_materialization E M) js (tick w) = (Ok (), t)"
      using assms(1) unfolding recover_materializations_def
      by (auto simp: db_call_now_def db_call_def materialization_journals_def op_query_def
          elim!: op_bind_cases op_map_err_cases split: option.splits)
    moreover have "orphaned ?x ?v (w_db (tick w))" using assms(4) by (simp add: tick_def)
    ultimately show False
      using op_each_Ok_member [of "recover_materialization E M" js "tick w" "()" t "\<lambda>w. orphaned ?x ?v (w_db w)" j]
        orphaned_recover assms(2) orphan_stops_recovery [OF _ assms(3)] by metis
  qed
  moreover from this obtain e t where "recover_materializations E M w = (Err e, t)"
    by (metis old.unit.exhaust prod.collapse result.exhaust)
  then have "fst (materialize_skill_snapshot E M P d snapshot w) = Err e"
    by (simp add: materialize_skill_snapshot_def op_bind_def)
  ultimately show ?thesis by simp
qed

theorem orphaned_journal_blocks_installs_witness:
  "\<forall>M P d s (E :: (nat, nat) libs). \<forall>p. fst (materialize_skill_snapshot (E\<lparr>lb_uuid := stale_uuid, lb_materialization := stale_codec\<rparr>) M P d s
     \<lparr>w_fs = DirN [], w_db = stale_db, w_tick = 0\<rparr>) \<noteq> Ok p"
proof -
  let ?j = "\<lparr>jr_operation_id = OperationId ''op'', jr_state = Verified, jr_payload = stale_payload\<rparr>"
  have "fst (materialization_journals stale_uuid stale_codec stale_db) = Ok [?j]"
    by (simp add: stale_db_eval materialization_journals_def by_created_def read_journal_def planned_row_def stale_uuid_def
        stale_codec_def parse_operation_def id_from_str_def id_from_uuid_def JournalState_from_str_def deserialize_def op_query_def empty_db_def res_simps)
  moreover have "orphaned ''r'' ''v'' stale_db" by (simp add: stale_db_eval orphaned_def empty_db_def)
  ultimately show ?thesis
    using orphaned_journal_blocks_installs [of "E\<lparr>lb_uuid := stale_uuid, lb_materialization := stale_codec\<rparr>"
        "\<lparr>w_fs = DirN [], w_db = stale_db, w_tick = 0\<rparr>" "[?j]" ?j for E :: "(nat, nat) libs"]
    by (auto simp: stale_payload_def)
qed

end
