(* ===== verification/Harness.thy ===== *)
theory Harness
  imports Materialize
begin

text \<open>
  \<open>crates/denju-local/src/source.rs\<close> and \<open>harness.rs\<close>: reading a skill directory of the user without
  following links, where the harnesses look for skills, and which entries there are not Denju's.
\<close>

section \<open>Reading a source directory\<close>

datatype SourceError =
    SourceNotDirectory string
  | SourceIo IoError
  | SourceWalk IoError
  | NonUtf8Path
  | NonUtf8LinkTarget

fun source_entry :: "path \<Rightarrow> node \<Rightarrow> (OwnedSkillEntry, SourceError) result" where
  "source_entry relative n =
     res_bind (ok_or (from_utf8 (join_with slash relative)) NonUtf8Path) (\<lambda>text.
     let path = forward_slashes text in
     case n of
       LinkN t \<Rightarrow>
         res_bind (ok_or (from_utf8 t) NonUtf8LinkTarget) (\<lambda>target.
         Ok (OE_Symlink path (forward_slashes target)))
     | DirN es \<Rightarrow> Ok (OE_Directory path)
     | FileN bytes executable \<Rightarrow> Ok (OE_File path bytes executable))"

definition read_skill_source :: "('v, 'm) libs \<Rightarrow> node \<Rightarrow> path \<Rightarrow> (OwnedSkillEntry list, SourceError) result" where
  "read_skill_source E fs root =
     res_bind (map_err SourceIo (symlink_metadata fs root)) (\<lambda>meta.
     if meta \<noteq> S_Dir then Err (SourceNotDirectory (path_text root))
     else
       res_bind (map_err SourceWalk (walk_below E fs root)) (\<lambda>items.
       collect_res (\<lambda>(relative, n). source_entry relative n) items))"

section \<open>Harness roots\<close>

record ResolvedHarnessRoots =
  codex_root :: path
  claude_root :: path

record HarnessEnvironment =
  claude_config_dir :: "string option"

datatype HarnessError =
    HN_Io IoError
  | UnmanagedOldCodexRoot path
  | HN_Walk IoError
  | UnsafeTestHarnessRoot path string

definition CODEX_MARKER :: string where
  "CODEX_MARKER = ''.denju-managed-v1''"

text \<open>\<open>fs::canonicalize(p).unwrap_or_else(|_| p.clone())\<close>.\<close>

definition resolved :: "node \<Rightarrow> path \<Rightarrow> path" where
  "resolved fs p = (case canonicalize fs p of Ok q \<Rightarrow> q | Err _ \<Rightarrow> p)"

definition unique_harness_roots :: "ResolvedHarnessRoots \<Rightarrow> node \<Rightarrow> path list" where
  "unique_harness_roots roots fs =
     (let codex = resolved fs (codex_root roots); claude = resolved fs (claude_root roots) in
      if claude = codex then [codex] else [codex, claude])"

definition managed_skill_storage_roots :: "LocalPaths \<Rightarrow> node \<Rightarrow> path list" where
  "managed_skill_storage_roots P fs =
     [resolved fs (lp_skills P), resolved fs (lp_generations P), resolved fs (lp_derived P)]"

definition is_managed_skill_target :: "path list \<Rightarrow> path \<Rightarrow> node \<Rightarrow> bool" where
  "is_managed_skill_target managed_roots path fs =
     (case canonicalize fs path of
        Ok target \<Rightarrow> list_ex (\<lambda>managed_root. prefix managed_root target) managed_roots
      | Err _ \<Rightarrow> False)"

text \<open>Every component below the home is looked at, deepest last.\<close>

fun check_test_components :: "path \<Rightarrow> path \<Rightarrow> path \<Rightarrow> node \<Rightarrow> (unit, HarnessError) result" where
  "check_test_components root cursor [] fs = Ok ()"
| "check_test_components root cursor (component # rest) fs =
     (if component = ''..'' then Err (UnsafeTestHarnessRoot root ''contains a non-normal path component'')
      else let cursor = cursor @ [component] in
        case symlink_metadata fs cursor of
          Ok meta \<Rightarrow>
            if is_link (Some meta)
            then Err (UnsafeTestHarnessRoot root (''test harness ancestor is a symlink: '' @ path_text cursor))
            else check_test_components root cursor rest fs
        | Err e \<Rightarrow> if e = NotFound then check_test_components root cursor rest fs else Err (HN_Io e))"

definition validate_isolated_test_root :: "path \<Rightarrow> path \<Rightarrow> node \<Rightarrow> (unit, HarnessError) result" where
  "validate_isolated_test_root home root fs =
     (if \<not> prefix home root then Err (UnsafeTestHarnessRoot root ''outside DENJU_TEST_HOME'')
      else check_test_components root home (drop (length home) root) fs)"

definition isolated_test_harness_roots :: "LocalPaths \<Rightarrow> node \<Rightarrow> (ResolvedHarnessRoots, HarnessError) result" where
  "isolated_test_harness_roots P fs =
     (let roots = \<lparr>codex_root = path_join (lp_home P) ''.agents/skills'', claude_root = path_join (lp_home P) ''.claude/skills''\<rparr> in
      res_bind (validate_isolated_test_root (lp_home P) (codex_root roots) fs) (\<lambda>_.
      res_bind (validate_isolated_test_root (lp_home P) (claude_root roots) fs) (\<lambda>_.
      Ok roots)))"

definition resolve_harness_roots_for ::
  "LocalPaths \<Rightarrow> HarnessConfig option \<Rightarrow> HarnessEnvironment \<Rightarrow> (ResolvedHarnessRoots, HarnessError) result" where
  "resolve_harness_roots_for P recorded environment =
     Ok \<lparr>codex_root = path_join (lp_home P) ''.agents/skills'',
         claude_root =
           (case claude_config_dir environment of
              Some dir \<Rightarrow> path_join (path_join (lp_home P) dir) ''skills''
            | None \<Rightarrow>
                (case recorded of
                   Some config \<Rightarrow> path_components (hc_claude_root config)
                 | None \<Rightarrow> path_join (lp_home P) ''.claude/skills''))\<rparr>"

text \<open>The first argument: whether the variable of the test home is set.\<close>

definition resolve_harness_roots ::
  "bool \<Rightarrow> HarnessEnvironment \<Rightarrow> LocalPaths \<Rightarrow> HarnessConfig option \<Rightarrow> node \<Rightarrow> (ResolvedHarnessRoots, HarnessError) result" where
  "resolve_harness_roots test_home environment P recorded fs =
     (if test_home then isolated_test_harness_roots P fs else resolve_harness_roots_for P recorded environment)"

definition prepare_harness_roots :: "local_machine \<Rightarrow> ResolvedHarnessRoots \<Rightarrow> (localdb world, unit, HarnessError) op" where
  "prepare_harness_roots M roots =
     op_bind (op_map_err HN_Io (create_dir_all M (codex_root roots))) (\<lambda>_.
     op_map_err HN_Io (create_dir_all M (claude_root roots)))"

definition is_managed_codex_root :: "path \<Rightarrow> node \<Rightarrow> bool" where
  "is_managed_codex_root path fs = is_file fs (path_join path CODEX_MARKER)"

definition remove_old_codex_projection ::
  "local_machine \<Rightarrow> HarnessConfig option \<Rightarrow> ResolvedHarnessRoots \<Rightarrow> (localdb world, unit, HarnessError) op" where
  "remove_old_codex_projection M old current =
     (case old of
        None \<Rightarrow> op_ok ()
      | Some config \<Rightarrow>
          (let root = path_components (hc_codex_root config) in
           op_bind (look (\<lambda>fs. Ok (root = codex_root current \<or> \<not> fs_exists fs root))) (\<lambda>nothing.
           if nothing then op_ok ()
           else op_bind (look (\<lambda>fs. Ok (is_managed_codex_root root fs))) (\<lambda>managed.
             if \<not> managed then op_err (UnmanagedOldCodexRoot root)
             else op_map_err HN_Io (remove_dir_all M root)))))"

section \<open>Entries that are not Denju's\<close>

text \<open>\<open>WalkDir::new(root).follow_links(false).max_depth(6)\<close>, the root first.\<close>

definition walk_shallow :: "('v, 'm) libs \<Rightarrow> node \<Rightarrow> path \<Rightarrow> ((path \<times> node) list, IoError) result" where
  "walk_shallow E fs root =
     res_bind (canonicalize fs root) (\<lambda>q.
     res_bind (ok_or (node_at fs q) NotFound) (\<lambda>n.
     res_bind (walk_below E fs root) (\<lambda>items.
     Ok (([], n) # filter (\<lambda>(p, _). length p \<le> 6) items))))"

definition skill_dir_of :: "node \<Rightarrow> path \<Rightarrow> node \<Rightarrow> path option" where
  "skill_dir_of fs path n =
     (if path \<noteq> [] \<and> last path = ''SKILL.md'' \<and> is_file fs path then Some (butlast path)
      else if is_link (Some (stat_of n)) \<and> is_file fs (path_join path ''SKILL.md'') then Some path
      else None)"

definition collect_skills ::
  "('v, 'm) libs \<Rightarrow> path list \<Rightarrow> node \<Rightarrow> path \<Rightarrow> (path list, HarnessError) result" where
  "collect_skills E managed_roots fs root =
     (if \<not> fs_exists fs root then Ok []
      else map_ok (\<lambda>items. filter (\<lambda>dir. \<not> is_managed_skill_target managed_roots dir fs)
             (List.map_filter (\<lambda>(relative, n). skill_dir_of fs (root @ relative) n) items))
           (map_err HN_Walk (walk_shallow E fs root)))"

text \<open>A \<open>BTreeSet\<close> of paths, in order.\<close>

definition detect_unmanaged_skills ::
  "('v, 'm) libs \<Rightarrow> LocalPaths \<Rightarrow> ResolvedHarnessRoots \<Rightarrow> node \<Rightarrow> (path list, HarnessError) result" where
  "detect_unmanaged_skills E P roots fs =
     map_ok (\<lambda>found. sort (remdups (concat found)))
       (collect_res (collect_skills E (managed_skill_storage_roots P fs) fs) (unique_harness_roots roots fs))"

end
