(* ===== verification/Projection.thy ===== *)
theory Projection
  imports Harness Sync
begin

text \<open>
  \<open>crates/denju-local/src/projection.rs\<close>: the links under which the harnesses see the managed skills,
  the derived copies of skills whose names collide, and the way edits of such a copy come back.
\<close>

section \<open>Errors\<close>

text \<open>\<open>Corrupt(error.to_string())\<close> carries the error.\<close>

datatype reason = Text string | SkillReason SkillValidationError | SnapshotReason SnapshotError | IdReason IdError

datatype ProjectionError =
    PJ_Io IoError
  | PJ_Database LocalDbError
  | PJ_Materialization MaterializationError
  | PJ_Harness HarnessError
  | PJ_Source SourceError
  | PJ_Walk IoError
  | PJ_Corrupt reason
  | PJ_RefuseOverwrite path
  | DivergedDerivedEdit string
  | PJ_Panic

type_synonym 'a pj_op = "(localdb world, 'a, ProjectionError) op"

abbreviation pj_io :: "(localdb world, 'a, IoError) op \<Rightarrow> 'a pj_op" where
  "pj_io m \<equiv> op_map_err PJ_Io m"

abbreviation pj_db :: "local_machine \<Rightarrow> (int \<Rightarrow> (localdb, 'a) db_op) \<Rightarrow> 'a pj_op" where
  "pj_db M f \<equiv> op_map_err PJ_Database (db_call_now M f)"

abbreviation pj_mz :: "'a mz_op \<Rightarrow> 'a pj_op" where
  "pj_mz m \<equiv> op_map_err PJ_Materialization m"

primrec op_collect :: "('x \<Rightarrow> ('s, 'a, 'e) op) \<Rightarrow> 'x list \<Rightarrow> ('s, 'a list, 'e) op" where
  "op_collect f [] = op_ok []"
| "op_collect f (x # xs) = op_bind (f x) (\<lambda>y. op_bind (op_collect f xs) (\<lambda>ys. op_ok (y # ys)))"

section \<open>Contents\<close>

definition tree_text :: "('v, 'm) libs \<Rightarrow> SkillManifest \<Rightarrow> string" where
  "tree_text E manifest = lb_hex E (tree_bytes (m_root_tree manifest))"

definition manifest_of_entries ::
  "('v, 'm) libs \<Rightarrow> string \<Rightarrow> OwnedSkillEntry list \<Rightarrow> (SkillManifest, ProjectionError) result" where
  "manifest_of_entries E skill_name entries =
     map_err (\<lambda>e. PJ_Corrupt (SnapshotReason e))
       (build_skill_manifest (lb_unicode E) (lb_yaml E) (lb_sha E) skill_name entries)"

definition skill_manifest :: "('v, 'm) libs \<Rightarrow> path \<Rightarrow> string \<Rightarrow> node \<Rightarrow> (SkillManifest, ProjectionError) result" where
  "skill_manifest E root skill_name fs =
     res_bind (map_err PJ_Source (read_skill_source E fs root)) (manifest_of_entries E skill_name)"

definition verify_writeback_generation ::
  "('v, 'm) libs \<Rightarrow> path \<Rightarrow> string \<Rightarrow> string \<Rightarrow> node \<Rightarrow> (unit, ProjectionError) result" where
  "verify_writeback_generation E root skill_name expected_root_tree_id fs =
     res_bind (skill_manifest E root skill_name fs) (\<lambda>manifest.
     if tree_text E manifest \<noteq> expected_root_tree_id
     then Err (PJ_Corrupt (Text ''workspace writeback generation failed semantic verification''))
     else Ok ())"

fun renamed_entry :: "('v, 'm) libs \<Rightarrow> string \<Rightarrow> string \<Rightarrow> OwnedSkillEntry \<Rightarrow> (OwnedSkillEntry, ProjectionError) result" where
  "renamed_entry E harness_name skill_name (OE_File path bytes executable) =
     (if path = ''SKILL.md'' then
        res_bind (map_err (\<lambda>e. PJ_Corrupt (SkillReason e)) (rewrite_skill_document_name (lb_yaml E) harness_name bytes skill_name)) (\<lambda>bytes.
        Ok (OE_File path bytes executable))
      else Ok (OE_File path bytes executable))"
| "renamed_entry E harness_name skill_name e = Ok e"

fun is_skill_md :: "OwnedSkillEntry \<Rightarrow> bool" where
  "is_skill_md (OE_File path bytes executable) = (path = ''SKILL.md'')"
| "is_skill_md e = False"

definition canonicalized_derived ::
  "('v, 'm) libs \<Rightarrow> path \<Rightarrow> string \<Rightarrow> string \<Rightarrow> node \<Rightarrow> (SkillManifest \<times> OwnedSkillEntry list, ProjectionError) result" where
  "canonicalized_derived E root harness_name skill_name fs =
     res_bind (map_err PJ_Source (read_skill_source E fs root)) (\<lambda>read.
     res_bind (collect_res (renamed_entry E harness_name skill_name) read) (\<lambda>entries.
     if \<not> list_ex is_skill_md entries then Err (PJ_Corrupt (Text ''derived projection is missing SKILL.md''))
     else map_ok (\<lambda>manifest. (manifest, entries)) (manifest_of_entries E skill_name entries)))"

definition canonicalized_derived_manifest ::
  "('v, 'm) libs \<Rightarrow> path \<Rightarrow> string \<Rightarrow> string \<Rightarrow> node \<Rightarrow> (SkillManifest, ProjectionError) result" where
  "canonicalized_derived_manifest E root harness_name skill_name fs =
     map_ok fst (canonicalized_derived E root harness_name skill_name fs)"

section \<open>Derived views\<close>

fun copy_derived_item ::
  "('v, 'm) libs \<Rightarrow> local_machine \<Rightarrow> path \<Rightarrow> path \<Rightarrow> string \<Rightarrow> string \<Rightarrow> path \<times> node \<Rightarrow> unit pj_op" where
  "copy_derived_item E M source destination canonical_name harness_name (relative, DirN es) =
     pj_io (create_dir_all M (destination @ relative))"
| "copy_derived_item E M source destination canonical_name harness_name (relative, LinkN t) =
     pj_io (symlink M t (destination @ relative))"
| "copy_derived_item E M source destination canonical_name harness_name (relative, FileN b x) =
     (if relative = [''SKILL.md''] then
        op_bind (look (\<lambda>fs. map_err PJ_Io (fs_read fs (source @ relative)))) (\<lambda>canonical.
        op_bind (op_res (map_err (\<lambda>e. PJ_Corrupt (SkillReason e))
          (rewrite_skill_document_name (lb_yaml E) canonical_name canonical harness_name))) (\<lambda>rewritten.
        pj_io (fs_write M (destination @ relative) rewritten)))
      else pj_io (fs_copy M (source @ relative) (destination @ relative)))"

definition check_skill_md :: "('v, 'm) libs \<Rightarrow> path \<Rightarrow> string \<Rightarrow> node \<Rightarrow> (unit, ProjectionError) result" where
  "check_skill_md E root harness_name fs =
     res_bind (map_err PJ_Io (fs_read fs (path_join root ''SKILL.md''))) (\<lambda>skill_md.
     map_ok (\<lambda>_. ()) (map_err (\<lambda>e. PJ_Corrupt (SkillReason e)) (parse_skill_document (lb_yaml E) harness_name skill_md)))"

definition copy_derived_tree ::
  "('v, 'm) libs \<Rightarrow> local_machine \<Rightarrow> path \<Rightarrow> path \<Rightarrow> string \<Rightarrow> string \<Rightarrow> unit pj_op" where
  "copy_derived_tree E M source destination canonical_name harness_name =
     op_bind (pj_io (create_dir_all M destination)) (\<lambda>_.
     op_bind (look (\<lambda>fs. map_err PJ_Walk (walk_below E fs source))) (\<lambda>items.
     op_bind (op_each (copy_derived_item E M source destination canonical_name harness_name) items) (\<lambda>_.
     look (check_skill_md E destination harness_name))))"

definition derived_root :: "LocalPaths \<Rightarrow> string \<Rightarrow> string \<Rightarrow> string \<Rightarrow> path" where
  "derived_root P resource_id revision harness_name =
     path_join (path_join (lp_derived P) resource_id) (revision @ ''-'' @ harness_name)"

definition derived_view ::
  "('v, 'm) libs \<Rightarrow> local_machine \<Rightarrow> LocalPaths \<Rightarrow> ManagedSkillRecord \<Rightarrow> path \<Rightarrow> string \<Rightarrow> (path \<times> bool) pj_op" where
  "derived_view E M P record canonical harness_name =
     (case mg_materialized_revision_id record of
        None \<Rightarrow> op_err (PJ_Corrupt (Text ''derived projection has no materialized revision''))
      | Some revision \<Rightarrow>
          (let root = derived_root P (mg_resource_id record) revision harness_name in
           op_bind (look (\<lambda>fs. Ok (is_dir fs root))) (\<lambda>present.
           if present then op_bind (look (check_skill_md E root harness_name)) (\<lambda>_. op_ok (root, False))
           else
             op_bind (look (\<lambda>fs. map_err PJ_Io (canonicalize fs canonical))) (\<lambda>source.
             if root = [] then op_err (PJ_Corrupt (Text ''derived root has no parent''))
             else let parent = butlast root in
               op_bind (pj_io (create_dir_all M parent)) (\<lambda>_.
               op_bind (fresh_id M) (\<lambda>uuid.
               let stage = path_join parent (''.stage-'' @ uu_to_string (lb_uuid E) uuid) in
               op_bind (copy_derived_tree E M source stage (mg_skill_name record) harness_name) (\<lambda>_.
               op_bind (pj_io (fs_rename M stage root)) (\<lambda>_.
               op_ok (root, True)))))))))"

section \<open>Links in the harness roots\<close>

definition remove_managed_projection_link :: "local_machine \<Rightarrow> LocalPaths \<Rightarrow> path \<Rightarrow> unit pj_op" where
  "remove_managed_projection_link M P link =
     op_match (look (\<lambda>fs. symlink_metadata fs link)) (\<lambda>r. case r of
       Err _ \<Rightarrow> op_ok ()
     | Ok meta \<Rightarrow>
         if \<not> is_link (Some meta) then op_err (PJ_RefuseOverwrite link)
         else
           op_bind (look (\<lambda>fs. map_err (\<lambda>_. PJ_RefuseOverwrite link) (canonicalize fs link))) (\<lambda>target.
           op_bind (look (\<lambda>fs. Ok (resolved fs (lp_root P)))) (\<lambda>managed_root.
           if \<not> prefix managed_root target then op_err (PJ_RefuseOverwrite link)
           else pj_mz (remove_owned_link M link))))"

definition create_projection_link :: "local_machine \<Rightarrow> LocalPaths \<Rightarrow> path \<Rightarrow> path \<Rightarrow> unit pj_op" where
  "create_projection_link M P target link =
     op_bind (if link = [] then op_ok () else pj_io (create_dir_all M (butlast link))) (\<lambda>_.
     op_bind (look (\<lambda>fs. Ok (is_ok (symlink_metadata fs link)))) (\<lambda>present.
     op_bind (if \<not> present then op_ok False
       else
         op_bind (look (\<lambda>fs. Ok (canonicalize fs link))) (\<lambda>actual.
         op_bind (look (\<lambda>fs. map_err PJ_Io (canonicalize fs target))) (\<lambda>expected.
         if actual = Ok expected then op_ok True
         else op_bind (remove_managed_projection_link M P link) (\<lambda>_. op_ok False)))) (\<lambda>done.
     if done then op_ok () else pj_io (create_native_directory_link M target link))))"

definition remove_managed_projection ::
  "local_machine \<Rightarrow> LocalPaths \<Rightarrow> ResolvedHarnessRoots \<Rightarrow> string option \<Rightarrow> unit pj_op" where
  "remove_managed_projection M P roots harness_name =
     (case harness_name of
        None \<Rightarrow> op_ok ()
      | Some name \<Rightarrow>
          op_bind (look (\<lambda>fs. Ok (unique_harness_roots roots fs))) (\<lambda>found.
          op_each (\<lambda>root. remove_managed_projection_link M P (path_join root name)) found))"

definition remove_subscription_projection ::
  "local_machine \<Rightarrow> LocalPaths \<Rightarrow> ResolvedHarnessRoots \<Rightarrow> SubscriptionRecord \<Rightarrow> unit pj_op" where
  "remove_subscription_projection M P roots record = remove_managed_projection M P roots (sub_harness_name record)"

definition remove_managed_skill_projection ::
  "local_machine \<Rightarrow> LocalPaths \<Rightarrow> ResolvedHarnessRoots \<Rightarrow> ManagedSkillRecord \<Rightarrow> unit pj_op" where
  "remove_managed_skill_projection M P roots record = remove_managed_projection M P roots (mg_harness_name record)"

definition remove_stale_link :: "local_machine \<Rightarrow> LocalPaths \<Rightarrow> path \<Rightarrow> unit pj_op" where
  "remove_stale_link M P link =
     op_match (remove_managed_projection_link M P link) (\<lambda>r. case r of
       Ok _ \<Rightarrow> op_ok ()
     | Err e \<Rightarrow> (case e of PJ_RefuseOverwrite _ \<Rightarrow> op_ok () | _ \<Rightarrow> op_err e))"

definition remove_stale_managed_projection ::
  "local_machine \<Rightarrow> LocalPaths \<Rightarrow> ResolvedHarnessRoots \<Rightarrow> string option \<Rightarrow> unit pj_op" where
  "remove_stale_managed_projection M P roots harness_name =
     (case harness_name of
        None \<Rightarrow> op_ok ()
      | Some name \<Rightarrow>
          op_bind (look (\<lambda>fs. Ok (unique_harness_roots roots fs))) (\<lambda>found.
          op_each (\<lambda>root. remove_stale_link M P (path_join root name)) found))"

definition utf8_names :: "string list \<Rightarrow> string list" where
  "utf8_names names = filter (\<lambda>n. from_utf8 n \<noteq> None) names"

definition root_names :: "LocalPaths \<Rightarrow> node \<Rightarrow> path \<Rightarrow> (string list, ProjectionError) result" where
  "root_names P fs root =
     (if \<not> is_dir fs root then Ok []
      else map_ok (filter (\<lambda>name. \<not> is_managed_skill_target (managed_skill_storage_roots P fs) (root @ [name]) fs))
             (map_err PJ_Io (read_dir fs root)))"

definition unmanaged_names ::
  "('v, 'm) libs \<Rightarrow> LocalPaths \<Rightarrow> ResolvedHarnessRoots \<Rightarrow> node \<Rightarrow> (string set, ProjectionError) result" where
  "unmanaged_names E P roots fs =
     res_bind (map_err PJ_Harness (detect_unmanaged_skills E P roots fs)) (\<lambda>dirs.
     res_bind (collect_res (root_names P fs) (unique_harness_roots roots fs)) (\<lambda>entries.
     Ok (set (utf8_names (map last (filter (\<lambda>d. d \<noteq> []) dirs) @ concat entries)))))"

section \<open>Reconciling the harness views\<close>

definition managed_name :: "('v, 'm) libs \<Rightarrow> ManagedSkillRecord \<Rightarrow> (ManagedSkillName, ProjectionError) result" where
  "managed_name E record =
     res_bind (map_err (\<lambda>e. PJ_Corrupt (IdReason e)) (id_from_str (lb_uuid E) ResourceId (mg_resource_id record))) (\<lambda>resource_id.
     Ok \<lparr>ms_resource_id = resource_id, ms_owner = mg_owner record, ms_skill_name = mg_skill_name record,
         ms_previous = mg_harness_name record\<rparr>)"

definition desired_name :: "('v, 'm) libs \<Rightarrow> ProjectionAssignment list \<Rightarrow> ManagedSkillRecord \<Rightarrow> string option" where
  "desired_name E assignments record =
     map_option pa_harness_name (find (\<lambda>a. resource_text E (pa_resource_id a) = mg_resource_id record) assignments)"

definition remove_if_renamed ::
  "('v, 'm) libs \<Rightarrow> local_machine \<Rightarrow> LocalPaths \<Rightarrow> ResolvedHarnessRoots \<Rightarrow> ProjectionAssignment list \<Rightarrow>
   ManagedSkillRecord \<Rightarrow> unit pj_op" where
  "remove_if_renamed E M P roots assignments record =
     (if mg_harness_name record \<noteq> None \<and> mg_harness_name record \<noteq> desired_name E assignments record
      then remove_stale_managed_projection M P roots (mg_harness_name record)
      else op_ok ())"

text \<open>The baseline of a derived view of an owned skill, recorded when both sides agree.\<close>

definition record_derived_baseline ::
  "('v, 'm) libs \<Rightarrow> local_machine \<Rightarrow> LocalPaths \<Rightarrow> ManagedSkillRecord \<Rightarrow> path \<Rightarrow> string \<Rightarrow> bool \<Rightarrow> unit pj_op" where
  "record_derived_baseline E M P record target harness_name derived_created =
     op_bind (pj_db M (\<lambda>_. get_derived_projection_state (mg_resource_id record))) (\<lambda>existing.
     if \<not> (derived_created \<or> (case existing of None \<Rightarrow> True | Some state \<Rightarrow> dps_harness_name state \<noteq> harness_name)) then op_ok ()
     else
       op_bind (look (\<lambda>fs. map_err PJ_Io (canonicalize fs (canonical_path_of P (mg_owner record) (mg_skill_name record))))) (\<lambda>canonical_root.
       op_bind (look (skill_manifest E canonical_root (mg_skill_name record))) (\<lambda>canonical_manifest.
       op_bind (look (canonicalized_derived_manifest E target harness_name (mg_skill_name record))) (\<lambda>derived_manifest.
       if canonical_manifest \<noteq> derived_manifest then op_ok ()
       else pj_db M (save_derived_projection_state
         \<lparr>dps_resource_id = mg_resource_id record, dps_harness_name = harness_name,
          dps_baseline_root_tree_id = tree_text E canonical_manifest\<rparr>)))))"

definition project_skill ::
  "('v, 'm) libs \<Rightarrow> local_machine \<Rightarrow> LocalPaths \<Rightarrow> ResolvedHarnessRoots \<Rightarrow> ManagedSkillRecord list \<Rightarrow> string list \<Rightarrow>
   ProjectionAssignment \<Rightarrow> (string \<times> string) pj_op" where
  "project_skill E M P roots managed_records owned_ids assignment =
     (case find (\<lambda>record. mg_resource_id record = resource_text E (pa_resource_id assignment)) managed_records of
        None \<Rightarrow> op_err (PJ_Corrupt (Text ''projection assignment lost its resource''))
      | Some record \<Rightarrow>
          (let canonical = canonical_path_of P (mg_owner record) (mg_skill_name record); name = pa_harness_name assignment in
           op_bind (look (\<lambda>fs. if fs_exists fs canonical then Ok ()
             else Err (PJ_Corrupt (Text (''canonical skill is missing for '' @ mg_locator record))))) (\<lambda>_.
           op_bind (if pa_derived assignment then derived_view E M P record canonical name else op_ok (canonical, False)) (\<lambda>(target, derived_created).
           op_bind (look (\<lambda>fs. Ok (unique_harness_roots roots fs))) (\<lambda>found.
           op_bind (op_each (\<lambda>root. create_projection_link M P target (path_join root name)) found) (\<lambda>_.
           op_bind (if mg_harness_name record = Some name then op_ok ()
             else pj_db M (set_managed_harness_name (mg_resource_id record) name)) (\<lambda>_.
           op_bind (if pa_derived assignment \<and> mg_resource_id record \<in> set owned_ids
             then record_derived_baseline E M P record target name derived_created else op_ok ()) (\<lambda>_.
           op_ok (mg_locator record, name)))))))))"

definition reconcile_harness_projections ::
  "('v, 'm) libs \<Rightarrow> local_machine \<Rightarrow> LocalPaths \<Rightarrow> ResolvedHarnessRoots \<Rightarrow> (string \<times> string) list pj_op" where
  "reconcile_harness_projections E M P roots =
     op_bind (pj_db M (\<lambda>_. managed_skills)) (\<lambda>managed_records.
     op_bind (pj_db M (\<lambda>_. get_owned_skills)) (\<lambda>owned.
     op_bind (look (unmanaged_names E P roots)) (\<lambda>reserved.
     op_bind (op_res (collect_res (managed_name E)
       (filter (\<lambda>r. mg_materialized_revision_id r \<noteq> None) managed_records))) (\<lambda>managed.
     case allocate_projection_names managed reserved of
       None \<Rightarrow> op_err PJ_Panic
     | Some assignments \<Rightarrow>
         op_bind (op_each (remove_if_renamed E M P roots assignments) managed_records) (\<lambda>_.
         op_collect (project_skill E M P roots managed_records (map os_resource_id owned)) assignments)))))"

section \<open>Edits of a derived view\<close>

abbreviation advance_writeback ::
  "('v, 'm) libs \<Rightarrow> local_machine \<Rightarrow> OperationId \<Rightarrow> JournalState \<Rightarrow> JournalState \<Rightarrow> unit pj_op" where
  "advance_writeback E M operation_id expected next_state \<equiv>
     pj_db M (update_workspace_writeback_journal (lb_uuid E) operation_id expected next_state)"

definition save_baseline :: "local_machine \<Rightarrow> string \<Rightarrow> string \<Rightarrow> string \<Rightarrow> unit pj_op" where
  "save_baseline M resource_id harness_name root_tree_id =
     pj_db M (save_derived_projection_state
       \<lparr>dps_resource_id = resource_id, dps_harness_name = harness_name, dps_baseline_root_tree_id = root_tree_id\<rparr>)"

text \<open>The derived view was edited: it becomes a generation of the canonical skill.\<close>

definition write_back ::
  "('v, 'm) libs \<Rightarrow> local_machine \<Rightarrow> LocalPaths \<Rightarrow> OwnedSkillRecord \<Rightarrow> string \<Rightarrow> path \<Rightarrow> string \<Rightarrow> OwnedSkillEntry list \<Rightarrow> bool pj_op" where
  "write_back E M P record harness_name canonical derived_root_id derived_entries =
     op_bind (fresh_id M) (\<lambda>uuid.
     op_bind (op_res (map_err (\<lambda>e. PJ_Corrupt (IdReason e)) (id_from_uuid (lb_uuid E) OperationId uuid))) (\<lambda>operation.
     let resource_root = path_join (lp_generations P) (os_resource_id record);
         stage = path_join resource_root (''.writeback-'' @ operation_text (lb_uuid E) operation);
         generation = path_join resource_root (''workspace-'' @ operation_text (lb_uuid E) operation);
         payload = \<lparr>wbk_resource_id = os_resource_id record, wbk_skill_name = os_skill_name record,
           wbk_harness_name = harness_name, wbk_target_root_tree_id = derived_root_id, wbk_stage_dir = path_text stage,
           wbk_generation_dir = path_text generation, wbk_canonical_path = path_text canonical\<rparr> in
     op_bind (pj_io (create_dir_all M resource_root)) (\<lambda>_.
     op_bind (pj_db M (create_workspace_writeback_journal (lb_uuid E) (lb_writeback E) operation payload)) (\<lambda>_.
     op_bind (pj_mz (write_generation E M P stage derived_entries)) (\<lambda>_.
     op_bind (advance_writeback E M operation Planned Staged) (\<lambda>_.
     op_bind (look (verify_writeback_generation E stage (os_skill_name record) derived_root_id)) (\<lambda>_.
     op_bind (pj_io (fs_rename M stage generation)) (\<lambda>_.
     op_bind (advance_writeback E M operation Staged Verified) (\<lambda>_.
     op_bind (pj_mz (atomic_switch_directory_link E M generation canonical operation)) (\<lambda>_.
     op_bind (advance_writeback E M operation Verified Switched) (\<lambda>_.
     op_bind (pj_db M (set_workspace_working_generation (os_resource_id record) (path_text generation))) (\<lambda>_.
     op_bind (save_baseline M (os_resource_id record) harness_name derived_root_id) (\<lambda>_.
     op_bind (advance_writeback E M operation Switched Complete) (\<lambda>_.
     op_ok True))))))))))))))"

text \<open>The canonical skill was edited: the derived view is copied again.\<close>

definition refresh_derived ::
  "('v, 'm) libs \<Rightarrow> local_machine \<Rightarrow> OwnedSkillRecord \<Rightarrow> string \<Rightarrow> path \<Rightarrow> path \<Rightarrow> string \<Rightarrow> bool pj_op" where
  "refresh_derived E M record harness_name derived canonical_root canonical_root_id =
     op_bind (pj_io (remove_dir_all M derived)) (\<lambda>_.
     op_bind (copy_derived_tree E M canonical_root derived (os_skill_name record) harness_name) (\<lambda>_.
     op_bind (save_baseline M (os_resource_id record) harness_name canonical_root_id) (\<lambda>_.
     op_ok False)))"

definition reconcile_edits ::
  "('v, 'm) libs \<Rightarrow> local_machine \<Rightarrow> LocalPaths \<Rightarrow> OwnedSkillRecord \<Rightarrow> string \<Rightarrow> path \<Rightarrow> bool pj_op" where
  "reconcile_edits E M P record harness_name derived =
     (let canonical = canonical_path_of P (os_owner record) (os_skill_name record) in
      op_bind (look (\<lambda>fs. map_err PJ_Io (canonicalize fs canonical))) (\<lambda>canonical_root.
      op_bind (look (skill_manifest E canonical_root (os_skill_name record))) (\<lambda>canonical_manifest.
      op_bind (look (canonicalized_derived E derived harness_name (os_skill_name record))) (\<lambda>(derived_manifest, derived_entries).
      let canonical_root_id = tree_text E canonical_manifest; derived_root_id = tree_text E derived_manifest in
      op_bind (pj_db M (\<lambda>_. get_derived_projection_state (os_resource_id record))) (\<lambda>baseline.
      if canonical_root_id = derived_root_id then
        op_bind (save_baseline M (os_resource_id record) harness_name canonical_root_id) (\<lambda>_. op_ok False)
      else case baseline of
        None \<Rightarrow> op_err (DivergedDerivedEdit (os_locator record))
      | Some state \<Rightarrow>
          if dps_harness_name state \<noteq> harness_name then op_err (DivergedDerivedEdit (os_locator record))
          else
            (let canonical_changed = (canonical_root_id \<noteq> dps_baseline_root_tree_id state);
                 derived_changed = (derived_root_id \<noteq> dps_baseline_root_tree_id state) in
             if \<not> canonical_changed \<and> derived_changed
             then write_back E M P record harness_name canonical derived_root_id derived_entries
             else if canonical_changed \<and> \<not> derived_changed
             then refresh_derived E M record harness_name derived canonical_root canonical_root_id
             else if canonical_changed \<and> derived_changed then op_err (DivergedDerivedEdit (os_locator record))
             else op_ok False))))))"

definition reconcile_owned_derived_projection ::
  "('v, 'm) libs \<Rightarrow> local_machine \<Rightarrow> LocalPaths \<Rightarrow> OwnedSkillRecord \<Rightarrow> bool pj_op" where
  "reconcile_owned_derived_projection E M P record =
     (case os_harness_name record of
        None \<Rightarrow> op_ok False
      | Some harness_name \<Rightarrow>
          if harness_name = os_skill_name record then op_ok False
          else case os_materialized_revision_id record of
            None \<Rightarrow> op_ok False
          | Some revision \<Rightarrow>
              (let derived = derived_root P (os_resource_id record) revision harness_name in
               op_bind (look (\<lambda>fs. Ok (is_dir fs derived))) (\<lambda>present.
               if \<not> present then op_ok False else reconcile_edits E M P record harness_name derived)))"

section \<open>Finishing a write back\<close>

text \<open>Whether the entry went on to \<open>verified\<close>, or was given up.\<close>

definition promote_writeback ::
  "('v, 'm) libs \<Rightarrow> local_machine \<Rightarrow> OperationId \<Rightarrow> WorkspaceWritebackJournalPayload \<Rightarrow> path \<Rightarrow> path \<Rightarrow> bool pj_op" where
  "promote_writeback E M operation_id payload stage generation =
     (let verify = (\<lambda>p. look (verify_writeback_generation E p (wbk_skill_name payload) (wbk_target_root_tree_id payload)));
          go_on = op_bind (advance_writeback E M operation_id Staged Verified) (\<lambda>_. op_ok True) in
      op_bind (look (\<lambda>fs. Ok (is_dir fs generation))) (\<lambda>promoted.
      op_bind (look (\<lambda>fs. Ok (is_dir fs stage))) (\<lambda>staged.
      if promoted then op_bind (verify generation) (\<lambda>_. go_on)
      else if staged then op_bind (verify stage) (\<lambda>_. op_bind (pj_io (fs_rename M stage generation)) (\<lambda>_. go_on))
      else op_bind (pj_db M (\<lambda>_. discard_workspace_writeback_journal (lb_uuid E) operation_id)) (\<lambda>_. op_ok False))))"

definition switch_writeback ::
  "('v, 'm) libs \<Rightarrow> local_machine \<Rightarrow> OperationId \<Rightarrow> WorkspaceWritebackJournalPayload \<Rightarrow> path \<Rightarrow> path \<Rightarrow> unit pj_op" where
  "switch_writeback E M operation_id payload generation canonical =
     op_bind (look (verify_writeback_generation E generation (wbk_skill_name payload) (wbk_target_root_tree_id payload))) (\<lambda>_.
     op_bind (pj_mz (atomic_switch_directory_link E M generation canonical operation_id)) (\<lambda>_.
     advance_writeback E M operation_id Verified Switched))"

definition complete_writeback ::
  "('v, 'm) libs \<Rightarrow> local_machine \<Rightarrow> OperationId \<Rightarrow> WorkspaceWritebackJournalPayload \<Rightarrow> path \<Rightarrow> path \<Rightarrow> unit pj_op" where
  "complete_writeback E M operation_id payload generation canonical =
     op_bind (look (\<lambda>fs. map_err PJ_Io (canonicalize fs canonical))) (\<lambda>actual.
     op_bind (look (\<lambda>fs. map_err PJ_Io (canonicalize fs generation))) (\<lambda>expected.
     op_bind (if actual = expected then op_ok ()
       else pj_mz (atomic_switch_directory_link E M generation canonical operation_id)) (\<lambda>_.
     op_bind (pj_db M (set_workspace_working_generation (wbk_resource_id payload) (path_text generation))) (\<lambda>_.
     op_bind (save_baseline M (wbk_resource_id payload) (wbk_harness_name payload) (wbk_target_root_tree_id payload)) (\<lambda>_.
     advance_writeback E M operation_id Switched Complete)))))"

definition recover_writeback ::
  "('v, 'm) libs \<Rightarrow> local_machine \<Rightarrow> LocalPaths \<Rightarrow> WorkspaceWritebackJournalPayload Journal \<Rightarrow> unit pj_op" where
  "recover_writeback E M P journal =
     (let payload = jr_payload journal; operation_id = jr_operation_id journal;
          stage = path_components (wbk_stage_dir payload);
          generation = path_components (wbk_generation_dir payload);
          canonical = path_components (wbk_canonical_path payload);
          complete = complete_writeback E M operation_id payload generation canonical;
          switch = op_bind (switch_writeback E M operation_id payload generation canonical) (\<lambda>_. complete) in
      if \<not> prefix (lp_generations P) stage \<or> \<not> prefix (lp_generations P) generation \<or> \<not> prefix (lp_skills P) canonical
      then op_err (PJ_Corrupt (Text ''workspace writeback journal points outside Denju managed paths''))
      else case jr_state journal of
        Planned \<Rightarrow> op_bind (op_ignore (remove_dir_all M stage)) (\<lambda>_.
          pj_db M (\<lambda>_. discard_workspace_writeback_journal (lb_uuid E) operation_id))
      | Staged \<Rightarrow> op_bind (promote_writeback E M operation_id payload stage generation) (\<lambda>go_on.
          if go_on then switch else op_ok ())
      | Verified \<Rightarrow> switch
      | Switched \<Rightarrow> complete
      | Complete \<Rightarrow> op_ok ())"

definition recover_workspace_writebacks :: "('v, 'm) libs \<Rightarrow> local_machine \<Rightarrow> LocalPaths \<Rightarrow> unit pj_op" where
  "recover_workspace_writebacks E M P =
     op_bind (pj_db M (\<lambda>_. workspace_writeback_journals (lb_uuid E) (lb_writeback E))) (\<lambda>journals.
     op_each (recover_writeback E M P) journals)"

end
