(* ===== verification/Projection_Safety.thy ===== *)
theory Projection_Safety
  imports Projection Materialize_Outcome
begin

text \<open>
  What reconciling the harness views may touch, whatever fails on the way: derived copies below the
  store of derived views, and links directly inside the harness roots.
\<close>

section \<open>The state of a machine with harness roots\<close>

text \<open>
  Both harness roots are directories, no link stands before them or among the first names of the
  store of derived views, and the names of new stages are not taken.
\<close>

definition harness_dirs :: "LocalPaths \<Rightarrow> ResolvedHarnessRoots \<Rightarrow> node \<Rightarrow> bool" where
  "harness_dirs P roots fs \<longleftrightarrow> (\<forall>r \<in> {codex_root roots, claude_root roots}.
     peek fs r = Some S_Dir \<and> ''..'' \<notin> set r \<and> \<not> prefix (lp_derived P) r)"

definition stage_name :: "('v, 'm) libs \<Rightarrow> string \<Rightarrow> string" where
  "stage_name E u = ''.stage-'' @ uu_to_string (lb_uuid E) u"

definition derived_clean :: "('v, 'm) libs \<Rightarrow> LocalPaths \<Rightarrow> node \<Rightarrow> bool" where
  "derived_clean E P fs \<longleftrightarrow> ''..'' \<notin> set (lp_derived P) \<and> peek fs (lp_derived P) = Some S_Dir \<and>
     (\<forall>c. \<not> is_link (peek fs (lp_derived P @ [c]))) \<and>
     (\<forall>c u. peek fs (lp_derived P @ [c, stage_name E u]) = None)"

definition proj_ready :: "('v, 'm) libs \<Rightarrow> LocalPaths \<Rightarrow> ResolvedHarnessRoots \<Rightarrow> node \<Rightarrow> bool" where
  "proj_ready E P roots fs \<longleftrightarrow> harness_dirs P roots fs \<and> derived_clean E P fs"

text \<open>Outside the derived views only links directly inside a harness root come and go.\<close>

definition projected :: "LocalPaths \<Rightarrow> ResolvedHarnessRoots \<Rightarrow> node \<Rightarrow> node \<Rightarrow> bool" where
  "projected P roots fs0 fs \<longleftrightarrow> (\<forall>q. prefix (lp_derived P) q \<or> peek fs q = peek fs0 q \<or>
     (peek fs0 q = None \<or> is_link (peek fs0 q)) \<and> (\<exists>r \<in> {codex_root roots, claude_root roots}. \<exists>n. q = r @ [n]))"

lemma projected_refl [simp]: "projected P roots fs fs"
  by (simp add: projected_def)

lemma projected_dir: "projected P roots fs0 fs \<Longrightarrow> peek fs0 q = Some S_Dir \<Longrightarrow> \<not> prefix (lp_derived P) q \<Longrightarrow> peek fs q = Some S_Dir"
proof -
  assume "projected P roots fs0 fs" and q: "peek fs0 q = Some S_Dir" "\<not> prefix (lp_derived P) q"
  then have "peek fs q = peek fs0 q \<or> peek fs0 q = None \<or> is_link (peek fs0 q)" unfolding projected_def by blast
  with q(1) show ?thesis by simp
qed

lemma harness_dirs_keep: "projected P roots fs0 fs \<Longrightarrow> harness_dirs P roots fs0 \<Longrightarrow> harness_dirs P roots fs"
  using projected_dir by (auto simp: harness_dirs_def)

lemma resolved_dir: "peek fs r = Some S_Dir \<Longrightarrow> ''..'' \<notin> set r \<Longrightarrow> resolved fs r = r"
proof -
  assume r: "peek fs r = Some S_Dir" "''..'' \<notin> set r"
  then have "solid fs r" unfolding solid_def plain_def
    using dir_prefix [OF r(1)] by (auto simp: strict_prefix_def)
  then show ?thesis using canonicalize_real [of fs r] r(1) by (simp add: resolved_def)
qed

lemma harness_roots_found:
  "harness_dirs P roots fs \<Longrightarrow> r \<in> set (unique_harness_roots roots fs) \<Longrightarrow> r = codex_root roots \<or> r = claude_root roots"
  using resolved_dir by (auto simp: harness_dirs_def unique_harness_roots_def Let_def split: if_splits)

section \<open>Links in the roots\<close>

text \<open>A place for a link: a name directly inside a harness root.\<close>

definition link_place :: "ResolvedHarnessRoots \<Rightarrow> path \<Rightarrow> bool" where
  "link_place roots q \<longleftrightarrow> (\<exists>r \<in> {codex_root roots, claude_root roots}. \<exists>n. q = r @ [n] \<and> n \<noteq> ''..'')"

lemma link_place_real:
  assumes "harness_dirs P roots fs" "link_place roots q"
  shows "parents_real fs q" "plain fs q" "\<not> prefix (lp_derived P) (butlast q)" "q \<noteq> []"
    "\<exists>r \<in> {codex_root roots, claude_root roots}. \<exists>n. q = r @ [n]" "peek fs (butlast q) = Some S_Dir" "''..'' \<notin> set q"
proof -
  obtain r n where q: "q = r @ [n]" "n \<noteq> ''..''" "r = codex_root roots \<or> r = claude_root roots"
    using assms(2) by (auto simp: link_place_def)
  have r: "peek fs r = Some S_Dir" "''..'' \<notin> set r" "\<not> prefix (lp_derived P) r"
    using assms(1) q(3) by (auto simp: harness_dirs_def)
  show real: "parents_real fs q" unfolding parents_real_def
    using q(1,2) r(2) dir_prefix [OF r(1)] prefix_snoc_cases [of _ r n] by (auto simp: strict_prefix_def)
  then show "plain fs q" by (rule parents_real_plain)
  show "\<not> prefix (lp_derived P) (butlast q)" "q \<noteq> []" "peek fs (butlast q) = Some S_Dir" "''..'' \<notin> set q" using q r by simp_all
  show "\<exists>r \<in> {codex_root roots, claude_root roots}. \<exists>n. q = r @ [n]" using q by auto
qed

lemma not_below_derived:
  assumes "harness_dirs P roots fs" "link_place roots q" "derived_clean E P fs" "peek fs q = None \<or> is_link (peek fs q)"
  shows "\<not> prefix (lp_derived P) q"
proof
  assume p: "prefix (lp_derived P) q"
  have "q = lp_derived P"
    using p link_place_real(3,4) [OF assms(1,2)] by (metis append_butlast_last_id prefix_snoc_cases)
  then show False using assms(3,4) by (auto simp: derived_clean_def)
qed

lemma link_change:
  assumes "proj_ready E P roots fs" "projected P roots fs0 fs" "link_place roots q"
    and "peek fs q = None \<or> is_link (peek fs q)" "changes_only q s fs fs'" "s = None \<or> is_link s"
  shows "proj_ready E P roots fs' \<and> projected P roots fs0 fs'"
proof -
  have hd: "harness_dirs P roots fs" and dc: "derived_clean E P fs" using assms(1) by (simp_all add: proj_ready_def)
  note out = not_below_derived [OF hd assms(3) dc assms(4)]
  have at: "peek fs' r = (if r = q then s else peek fs r)" for r using assms(5) by (simp add: changes_only_def)
  have dir: "peek fs' r = Some S_Dir" if "peek fs r = Some S_Dir" for r using at [of r] that assms(4) by auto
  have "harness_dirs P roots fs'" using hd dir by (auto simp: harness_dirs_def)
  moreover have "derived_clean E P fs'"
    using dc dir at out unfolding derived_clean_def by (metis prefixI)
  moreover have "projected P roots fs0 fs'"
  proof -
    have "peek fs0 q = None \<or> is_link (peek fs0 q)" using assms(2,4) out unfolding projected_def by metis
    then show ?thesis
      using assms(2) at link_place_real(5) [OF hd assms(3)] unfolding projected_def by metis
  qed
  ultimately show ?thesis by (simp add: proj_ready_def)
qed

abbreviation proj_inv :: "('v, 'm) libs \<Rightarrow> LocalPaths \<Rightarrow> ResolvedHarnessRoots \<Rightarrow> node \<Rightarrow> 'd world \<Rightarrow> bool" where
  "proj_inv E P roots fs0 w \<equiv> proj_ready E P roots (w_fs w) \<and> projected P roots fs0 (w_fs w)"

lemma symlink_at_place:
  "link_place roots q \<Longrightarrow> always (proj_inv E P roots fs0) (symlink M t q)"
  unfolding symlink_def
proof (rule always_sys)
  fix fs fs' assume q: "link_place roots q" and I: "proj_ready E P roots fs \<and> projected P roots fs0 fs" and run: "sys_symlink t q fs = Ok fs'"
  have hd: "harness_dirs P roots fs" using I by (simp add: proj_ready_def)
  from sys_symlink_changes [OF run] locate_plain [OF link_place_real(2) [OF hd q]]
  have "peek fs q = None" "changes_only q (Some (S_Link t)) fs fs'" by auto
  then show "proj_ready E P roots fs' \<and> projected P roots fs0 fs'" using link_change [of E P roots fs fs0 q] I q by simp
qed

text \<open>Only a link is removed: the call fails on a directory, and a file is refused before it.\<close>

lemma remove_owned_link_at_place:
  "link_place roots q \<Longrightarrow> always (proj_inv E P roots fs0) (remove_owned_link M q)"
  unfolding always_def
proof (intro allI impI)
  fix w :: "localdb world" assume q: "link_place roots q" and I: "proj_inv E P roots fs0 w"
  obtain r w' where run: "remove_owned_link M q w = (r, w')" by (metis prod.collapse)
  have hd: "harness_dirs P roots (w_fs w)" using I by (simp add: proj_ready_def)
  note plain = link_place_real(2) [OF hd q]
  show "proj_inv E P roots fs0 (snd (remove_owned_link M q w))"
  proof (cases "w_fs w' = w_fs w")
    case True
    with I run show ?thesis by simp
  next
    case False
    have "\<exists>m. symlink_metadata (w_fs w) q = Ok m \<and> is_link (Some m)"
      using run False by (auto simp: remove_owned_link_def look_cases op_ok_def op_err_def elim!: op_match_cases split: result.splits if_splits)
    then have "is_link (peek (w_fs w) q)"
      using locate_plain [OF plain] by (auto simp: symlink_metadata_def res_simps)
    moreover have "sys_unlink q (w_fs w) = Ok (w_fs w')"
      using run False by (auto simp: remove_owned_link_def remove_file_def look_cases op_ok_def op_err_def
          elim!: op_match_cases op_map_err_cases sys_cases split: result.splits if_splits)
    ultimately have "changes_only q None (w_fs w) (w_fs w')"
      using sys_unlink_changes locate_plain [OF plain] link_place_real(4) [OF hd q] by blast
    then show ?thesis
      using link_change [of E P roots "w_fs w" fs0 q None] I q \<open>is_link (peek (w_fs w) q)\<close> run by simp
  qed
qed

lemma link_place_join:
  "r = codex_root roots \<or> r = claude_root roots \<Longrightarrow> plain_name n \<Longrightarrow> path_join r n = r @ [n] \<and> link_place roots (path_join r n)"
  by (auto simp: link_place_def plain_name_def)

lemma remove_link_at_place:
  "link_place roots q \<Longrightarrow> always (proj_inv E P roots fs0) (remove_managed_projection_link M P q)"
  unfolding remove_managed_projection_link_def
  by (intro always_intros remove_owned_link_at_place)

lemma create_link_at_place:
  assumes "link_place roots q"
  shows "always (proj_inv E P roots fs0) (create_projection_link M P target q)"
proof -
  have dirs: "always (proj_inv E P roots fs0 :: localdb world \<Rightarrow> bool) (create_dir_all M (butlast q))" for M :: local_machine
    unfolding always_def
  proof (intro allI impI)
    fix w :: "localdb world" assume I: "proj_inv E P roots fs0 w"
    have hd: "harness_dirs P roots (w_fs w)" using I by (simp add: proj_ready_def)
    obtain r w' where run: "create_dir_all M (butlast q) w = (r, w')" by (metis prod.collapse)
    have "w_fs w' = w_fs w"
      using create_dir_all_present [OF _ _ run] dir_prefix [OF link_place_real(6) [OF hd assms]]
        link_place_real(7) [OF hd assms] by (auto dest: in_set_butlastD)
    then show "proj_inv E P roots fs0 (snd (create_dir_all M (butlast q) w))" using I run by simp
  qed
  show ?thesis
    unfolding create_projection_link_def create_native_directory_link_def
    by (intro always_intros dirs symlink_at_place remove_link_at_place assms)
qed

text \<open>A loop over the roots found now, in which every root keeps its place.\<close>

lemma each_root:
  fixes f :: "path \<Rightarrow> unit pj_op"
  assumes "\<And>r. r = codex_root roots \<or> r = claude_root roots \<Longrightarrow> always (proj_inv E P roots fs0) (f r)"
  shows "always (proj_inv E P roots fs0) (op_bind (look (\<lambda>fs. Ok (unique_harness_roots roots fs))) (\<lambda>found. op_each f found))"
  unfolding always_def
proof (intro allI impI)
  fix w :: "localdb world" assume I: "proj_inv E P roots fs0 w"
  have hd: "harness_dirs P roots (w_fs w)" using I by (simp add: proj_ready_def)
  have "always (proj_inv E P roots fs0) (op_each f (unique_harness_roots roots (w_fs w)))"
    by (rule always_each, rule assms, rule harness_roots_found [OF hd])
  then show "proj_inv E P roots fs0 (snd (op_bind (look (\<lambda>fs. Ok (unique_harness_roots roots fs))) (\<lambda>found. op_each f found) w))"
    using I by (simp add: always_def op_bind_def look_def)
qed

lemma remove_stale_keeps:
  assumes "\<And>n. name = Some n \<Longrightarrow> plain_name n"
  shows "always (proj_inv E P roots fs0) (remove_stale_managed_projection M P roots name)"
proof (cases name)
  case (Some n)
  have "always (proj_inv E P roots fs0) (remove_stale_link M P (path_join r n))" if "r = codex_root roots \<or> r = claude_root roots" for r
  proof -
    have "always (proj_inv E P roots fs0) (case e of PJ_RefuseOverwrite x \<Rightarrow> op_ok () | _ \<Rightarrow> op_err e)" for e :: ProjectionError
      by (cases e) (auto intro: always_intros)
    then show ?thesis
      unfolding remove_stale_link_def
      using link_place_join [OF that assms [OF Some]] remove_link_at_place by (intro always_intros) auto
  qed
  then show ?thesis unfolding remove_stale_managed_projection_def Some option.case by (rule each_root)
qed (auto simp: remove_stale_managed_projection_def intro: always_intros)

section \<open>Copies\<close>

text \<open>\<open>walkdir\<close> lists names of directory entries.\<close>

definition walks_plainly :: "('v, 'm) libs \<Rightarrow> bool" where
  "walks_plainly E \<longleftrightarrow> (\<forall>n. \<forall>p \<in> set (lb_walk E n). ''..'' \<notin> set p)"

definition link_paths :: "node \<Rightarrow> path set" where
  "link_paths n = {p. is_link (peek n p)}"

lemma walk_below_items:
  assumes "walk_below E fs source = Ok items" "walks_plainly E"
  obtains n where "\<And>p m. (p, m) \<in> set items \<Longrightarrow> node_at n p = Some m \<and> ''..'' \<notin> set p"
proof -
  obtain q n where "items = map (\<lambda>p. (p, the (node_at n p))) (filter (\<lambda>p. node_at n p \<noteq> None) (lb_walk E n))"
    using assms(1) by (auto simp: walk_below_def res_simps)
  then have "node_at n p = Some m \<and> ''..'' \<notin> set p" if "(p, m) \<in> set items" for p m
    using that assms(2) by (auto simp: walks_plainly_def)
  then show ?thesis by (rule that)
qed

lemma within_copy_item:
  assumes "writable fs0 A K dest ((@) dest ` link_paths n)" "(@) dest ` link_paths n \<subseteq> K"
    and "node_at n p = Some m" "''..'' \<notin> set p"
  shows "within fs0 A K (copy_derived_item E M source dest c h (p, m))"
proof -
  have "dest @ pre \<notin> (@) dest ` link_paths n" if "strict_prefix pre p" for pre
    using peek_strict_prefix [of n p pre] that assms(3) by (auto simp: link_paths_def peek_def)
  with assms(1,4) have clear: "clear_path fs0 A K (dest @ p)" by (rule writable_clear)
  note reach = writable_reachable [OF assms(1), of p] and area = writable_area [OF assms(1), of p]
  have notlink: "dest @ p \<notin> K" if "p \<notin> link_paths n"
    using assms(1) that by (auto simp: writable_def)
  show ?thesis
  proof (cases m)
    case (FileN b x)
    then have "dest @ p \<notin> K" using notlink assms(3) by (simp add: link_paths_def peek_def)
    then show ?thesis unfolding FileN copy_derived_item.simps
      using clear area by (intro always_intros within_write within_copy)
  next
    case (LinkN t)
    then have "p \<in> link_paths n" using assms(3) by (simp add: link_paths_def peek_def)
    then have "dest @ p \<in> K" using assms(2) by auto
    then show ?thesis unfolding LinkN copy_derived_item.simps using clear area by (intro always_intros within_symlink)
  next
    case (DirN es)
    then show ?thesis unfolding DirN copy_derived_item.simps
      using clear reach by (intro always_intros within_create_dir_all)
  qed
qed

text \<open>The places of one derived view: the directory of the resource, its stage and the view.\<close>

definition view_area :: "path \<Rightarrow> path \<Rightarrow> path set" where
  "view_area stage root = {butlast root} \<union> below stage \<union> below root"

definition view_links :: "path \<Rightarrow> path \<Rightarrow> node \<Rightarrow> path set" where
  "view_links stage root n = (@) stage ` link_paths n \<union> (@) root ` link_paths n \<union> {root}"

definition view_places :: "('v, 'm) libs \<Rightarrow> LocalPaths \<Rightarrow> node \<Rightarrow> path \<Rightarrow> path \<Rightarrow> bool" where
  "view_places E P fs stage root \<longleftrightarrow> derived_clean E P fs \<and> peek fs root \<noteq> Some S_Dir \<and>
     (\<exists>rid view u. stage = lp_derived P @ [rid, stage_name E u] \<and> root = lp_derived P @ [rid, view] \<and>
        rid \<noteq> ''..'' \<and> view \<noteq> ''..'' \<and> CHR ''.'' \<noteq> hd view \<and> view \<noteq> [])"

lemma stage_name_dots: "stage_name E u \<noteq> ''..''" "hd (stage_name E u) = CHR ''.''"
  by (simp_all add: stage_name_def)

lemma prefix_two: "prefix r (d @ [a, b]) \<longleftrightarrow> prefix r d \<or> r = d @ [a] \<or> r = d @ [a, b]"
  using prefix_snoc_cases [of r "d @ [a]" b] prefix_snoc_cases [of r d a]
  by (auto simp: prefix_def)

lemma view_writable:
  assumes "view_places E P fs stage root"
  shows "writable fs (view_area stage root) (view_links stage root n) stage ((@) stage ` link_paths n)"
    "clear_path fs (view_area stage root) (view_links stage root n) root"
    "clear_path fs (view_area stage root) (view_links stage root n) (butlast root)"
    "reachable_dir fs (view_area stage root) (butlast root)"
    "confined fs (view_area stage root) (view_links stage root n) fs"
proof -
  let ?A = "view_area stage root" and ?K = "view_links stage root n" and ?d = "lp_derived P"
  obtain rid view u where st: "stage = ?d @ [rid, stage_name E u]" and ro: "root = ?d @ [rid, view]"
    and names: "rid \<noteq> ''..''" "view \<noteq> ''..''" "CHR ''.'' \<noteq> hd view" "view \<noteq> []" and dc: "derived_clean E P fs"
    and nodir: "peek fs root \<noteq> Some S_Dir"
    using assms by (auto simp: view_places_def)
  have apart: "stage_name E u \<noteq> view" using names(3) stage_name_dots(2) [of E u] by auto
  have d: "''..'' \<notin> set ?d" "peek fs ?d = Some S_Dir" "\<not> is_link (peek fs (?d @ [rid]))" "peek fs stage = None"
    using dc st by (auto simp: derived_clean_def)
  have up: "peek fs r = Some S_Dir" if "prefix r ?d" for r using dir_prefix [OF d(2) that] .
  have short: "r \<notin> ?K" if "length r \<le> length ?d + 1" for r
    using that st ro by (auto simp: view_links_def)
  have parent: "butlast root = ?d @ [rid]" using ro by (simp add: butlast_append)
  have ok: "if r \<in> ?A then r \<notin> ?K else \<not> is_link (peek fs r)" if "prefix r ?d \<or> r = ?d @ [rid]" for r
    using that short [of r] up [of r] d(3) prefix_length_le [of r ?d] by auto
  have clear: "clear_path fs ?A ?K (?d @ [rid, x])" if "x \<noteq> ''..''" for x
    unfolding clear_path_def
  proof (intro conjI allI impI)
    show "''..'' \<notin> set (?d @ [rid, x])" using d(1) names(1) that by simp
    fix r assume "strict_prefix r (?d @ [rid, x])"
    then have "prefix r ?d \<or> r = ?d @ [rid]" using prefix_two [of r ?d rid x] by (auto simp: strict_prefix_def)
    then show "if r \<in> ?A then r \<notin> ?K else \<not> is_link (peek fs r)" by (rule ok)
  qed
  show root: "clear_path fs ?A ?K root" using clear [OF names(2)] ro by simp
  then show "clear_path fs ?A ?K (butlast root)" by (rule clear_path_butlast)
  have reach: "reachable_dir fs ?A (?d @ [rid])"
    unfolding reachable_dir_def using up prefix_snoc_cases [of _ ?d rid] parent by (auto simp: view_area_def)
  then show "reachable_dir fs ?A (butlast root)" using parent by simp
  have "reachable_dir fs ?A stage" unfolding reachable_dir_def
    using reach prefix_two [of _ ?d rid "stage_name E u"] st by (auto simp: reachable_dir_def view_area_def)
  moreover have "q \<in> (@) stage ` link_paths n" if "q \<in> ?K" "prefix stage q" for q
    using that st ro apart by (auto simp: view_links_def prefix_def)
  ultimately show "writable fs ?A ?K stage ((@) stage ` link_paths n)"
    using clear [OF stage_name_dots(1)] st by (auto simp: writable_def view_area_def)
  have "q \<in> ?K" if q: "q \<in> ?A" "is_link (peek fs q)" for q
  proof -
    consider "q = butlast root" | r where "q = stage @ r" | r where "q = root @ r"
      using q(1) by (auto simp: view_area_def prefix_def)
    then show ?thesis
    proof cases
      case 2
      then show ?thesis using q(2) peek_None_append [OF d(4)] by simp
    next
      case 3
      then show ?thesis
        using q(2) leaf_below [OF leaf_not_dir [OF nodir]] by (cases r) (auto simp: view_links_def)
    qed (use q(2) d(3) parent in simp)
  qed
  then show "confined fs ?A ?K fs" by (auto simp: confined_def)
qed

lemma copy_confined:
  assumes places: "view_places E P fs stage root" and walk: "walks_plainly E"
    and c: "\<And>n. confined fs (view_area stage root) (view_links stage root n) (w_fs w)"
    and run: "copy_derived_tree E M source stage cn h w = (r, w')"
  shows "\<exists>n. confined fs (view_area stage root) (view_links stage root n) (w_fs w')"
proof -
  let ?A = "view_area stage root" and ?K = "view_links stage root"
  note wr = view_writable [OF places]
  have dirs: "within fs ?A (?K n) (pj_io (create_dir_all M stage))" for n
    using wr(1) [of n] by (intro always_intros within_create_dir_all) (simp_all add: writable_def)
  from run [unfolded copy_derived_tree_def] show ?thesis
  proof (cases rule: op_bind_cases)
    case (1 e)
    show ?thesis using withinD [OF dirs 1(1) c] by blast
  next
    case (2 x v)
    have cv: "confined fs ?A (?K n) (w_fs v)" for n by (rule withinD [OF dirs 2(1) c])
    from 2(2) show ?thesis
    proof (cases rule: op_bind_cases)
      case (1 e)
      then show ?thesis using cv by (auto simp: look_cases)
    next
      case (2 items t)
      have walked: "walk_below E (w_fs v) source = Ok items" and t: "t = v" using 2(1) by (auto simp: look_cases eq_commute [of "Ok items"] map_err_Ok_iff)
      obtain n where n: "\<And>p m. (p, m) \<in> set items \<Longrightarrow> node_at n p = Some m \<and> ''..'' \<notin> set p"
        using walk_below_items [OF walked walk] by blast
      have "within fs ?A (?K n) (op_bind (op_each (copy_derived_item E M source stage cn h) items) (\<lambda>_. look (check_skill_md E stage h)))"
      proof (intro always_intros)
        fix i assume "i \<in> set items"
        moreover obtain p m where "i = (p, m)" by (cases i)
        ultimately have i: "i = (p, m)" "node_at n p = Some m" "''..'' \<notin> set p" using n by blast+
        show "within fs ?A (?K n) (copy_derived_item E M source stage cn h i)"
          unfolding i(1) by (rule within_copy_item [OF wr(1) _ i(2,3)]) (auto simp: view_links_def)
      qed
      from withinD [OF this 2(2)] t cv show ?thesis by blast
    qed
  qed
qed

text \<open>Making a view changes nothing but the view, and leaves no stage behind when it succeeds.\<close>

lemma view_outcome:
  assumes places: "view_places E P fs stage root" and walk: "walks_plainly E"
    and c: "\<And>n. confined fs (view_area stage root) (view_links stage root n) (w_fs w)"
    and run: "op_bind (copy_derived_tree E M source stage cn h) (\<lambda>_. op_bind (pj_io (fs_rename M stage root)) (\<lambda>_. op_ok x)) w = (r, w')"
  shows "(\<exists>n. confined fs (view_area stage root) (view_links stage root n) (w_fs w')) \<and> (r = Ok y \<longrightarrow> peek (w_fs w') stage = None)"
proof -
  let ?A = "view_area stage root" and ?K = "view_links stage root"
  note wr = view_writable [OF places]
  obtain rid view u where st: "stage = lp_derived P @ [rid, stage_name E u]" and ro: "root = lp_derived P @ [rid, view]"
    and view: "CHR ''.'' \<noteq> hd view" using places by (auto simp: view_places_def)
  have apart: "stage \<noteq> root" using st ro view stage_name_dots(2) [of E u] by auto
  from run show ?thesis
  proof (cases rule: op_bind_cases)
    case (1 e)
    then show ?thesis using copy_confined [OF places walk c 1(1)] by auto
  next
    case (2 z v)
    obtain n where cv: "confined fs ?A (?K n) (w_fs v)" using copy_confined [OF places walk c 2(1)] by blast
    have st_clear: "clear_path fs ?A (?K n) stage" using wr(1) [of n] by (simp add: writable_def)
    have "root @ p \<in> ?K n" if "stage @ p \<in> ?K n" for p
      using that st ro apart by (auto simp: view_links_def)
    then have ren: "within fs ?A (?K n) (fs_rename M stage root)"
      by (intro within_rename st_clear wr(2)) (auto simp: view_area_def)
    from 2(2) obtain q where mv: "fs_rename M stage root v = (q, w')" and ok: "r = Ok y \<Longrightarrow> q = Ok ()"
      by (auto simp: op_ok_def elim!: op_bind_cases op_map_err_cases)
    have "peek (w_fs w') stage = None" if "r = Ok y"
    proof -
      have "sys_rename stage root (w_fs v) = Ok (w_fs w')" using mv ok [OF that] by (auto simp: fs_rename_def elim!: sys_cases)
      then show ?thesis
        using clear_path_plain [OF st_clear cv] clear_path_plain [OF wr(2) cv] apart
        by (auto elim: rename_plain)
    qed
    then show ?thesis using withinD [OF ren mv cv] by blast
  qed
qed

lemma view_area_below: "view_places E P fs stage root \<Longrightarrow> q \<in> view_area stage root \<Longrightarrow> prefix (lp_derived P) q \<and> q \<noteq> lp_derived P"
  by (auto simp: view_places_def view_area_def butlast_append prefix_def)

lemma view_keeps_ready:
  assumes places: "view_places E P fs stage root" and inv: "proj_ready E P roots fs" "projected P roots fs0 fs"
    and c: "confined fs (view_area stage root) (view_links stage root n) fs'"
  shows "projected P roots fs0 fs'" "peek fs' stage = None \<Longrightarrow> proj_ready E P roots fs'"
proof -
  let ?A = "view_area stage root" and ?d = "lp_derived P"
  have same: "peek fs' q = peek fs q" if "\<not> prefix ?d q \<or> q = ?d" for q
    using that view_area_below [OF places, of q] c by (auto simp: confined_def)
  then show "projected P roots fs0 fs'" using inv(2) unfolding projected_def by metis
  obtain rid view u where st: "stage = ?d @ [rid, stage_name E u]" and ro: "root = ?d @ [rid, view]"
    and view: "CHR ''.'' \<noteq> hd view" using places by (auto simp: view_places_def)
  have dc: "derived_clean E P fs" and hd: "harness_dirs P roots fs" using inv(1) by (simp_all add: proj_ready_def)
  assume gone: "peek fs' stage = None"
  have "harness_dirs P roots fs'" using hd same by (auto simp: harness_dirs_def)
  moreover have "\<not> is_link (peek fs' (?d @ [x]))" for x
  proof (cases "?d @ [x] \<in> ?A")
    case True
    moreover have "?d @ [x] \<notin> view_links stage root n" using st ro by (auto simp: view_links_def)
    ultimately show ?thesis using c by (auto simp: confined_def)
  next
    case False
    then show ?thesis using c dc by (simp add: confined_def derived_clean_def)
  qed
  moreover have "peek fs' (?d @ [x, stage_name E y]) = None" for x y
  proof (cases "?d @ [x, stage_name E y] \<in> ?A")
    case True
    then have "?d @ [x, stage_name E y] = stage"
      using st ro view stage_name_dots(2) [of E y] by (auto simp: view_area_def butlast_append prefix_def)
    then show ?thesis using gone by simp
  next
    case False
    then show ?thesis using c dc by (simp add: confined_def derived_clean_def)
  qed
  ultimately show "proj_ready E P roots fs'"
    using dc same [of ?d] by (simp add: proj_ready_def derived_clean_def)
qed

lemma derived_root_shape:
  assumes "plain_name rid" "name_text vis" "plain_name h"
  shows "derived_root P rid vis h = lp_derived P @ [rid, vis @ ''-'' @ h]" "vis @ ''-'' @ h \<noteq> ''..''"
    "hd (vis @ ''-'' @ h) \<noteq> CHR ''.''"
proof -
  have "vis \<noteq> []" "CHR ''.'' \<notin> set vis" "slash \<notin> set vis" using assms(2) by (auto simp: name_text_def)
  then have h: "hd (vis @ ''-'' @ h) \<noteq> CHR ''.''" "slash \<notin> set (vis @ ''-'' @ h)"
    using assms(3) by (auto simp: plain_name_def dest: hd_in_set)
  then have "vis @ ''-'' @ h \<noteq> ''.''" "vis @ ''-'' @ h \<noteq> ''..''" by (metis list.sel(1))+
  then have "plain_name (vis @ ''-'' @ h)" using h(2) \<open>vis \<noteq> []\<close> by (simp add: plain_name_def)
  with h assms(1) show "derived_root P rid vis h = lp_derived P @ [rid, vis @ ''-'' @ h]" "vis @ ''-'' @ h \<noteq> ''..''"
    "hd (vis @ ''-'' @ h) \<noteq> CHR ''.''"
    by (auto simp: derived_root_def plain_name_def)
qed

text \<open>The step of one derived view keeps what holds between the steps, unless it fails.\<close>

definition keeps_ready :: "('v, 'm) libs \<Rightarrow> LocalPaths \<Rightarrow> ResolvedHarnessRoots \<Rightarrow> node \<Rightarrow> 'a pj_op \<Rightarrow> bool" where
  "keeps_ready E P roots fs0 m \<longleftrightarrow> triple (proj_inv E P roots fs0) m
     (\<lambda>r w. projected P roots fs0 (w_fs w) \<and> (is_ok r \<longrightarrow> proj_ready E P roots (w_fs w)))"

lemma always_keeps: "always (proj_inv E P roots fs0) m \<Longrightarrow> keeps_ready E P roots fs0 m"
  by (auto simp: keeps_ready_def triple_def always_def)

lemma keeps_bind:
  "keeps_ready E P roots fs0 m \<Longrightarrow> (\<And>x. keeps_ready E P roots fs0 (f x)) \<Longrightarrow> keeps_ready E P roots fs0 (op_bind m f)"
  by (fastforce simp: keeps_ready_def triple_def op_bind_def split: prod.splits result.splits)

lemma keeps_db [always_intros]: "always (proj_inv E P roots fs0) (pj_db M f)"
  using always_db_call_now [of "\<lambda>fs. proj_ready E P roots fs \<and> projected P roots fs0 fs" M f]
  by (rule always_map_err)

lemma derived_view_keeps:
  assumes "walks_plainly E" "plain_name (mg_resource_id record)" "plain_name h"
    and "\<And>v. mg_materialized_revision_id record = Some v \<Longrightarrow> name_text v"
    and "libs_plain E"
  shows "keeps_ready E P roots fs0 (derived_view E M P record canonical h)"
  unfolding keeps_ready_def triple_def
proof (intro allI impI)
  fix w :: "localdb world" assume I: "proj_inv E P roots fs0 w"
  obtain r w' where run: "derived_view E M P record canonical h w = (r, w')" by (metis prod.collapse)
  have "projected P roots fs0 (w_fs w') \<and> (is_ok r \<longrightarrow> proj_ready E P roots (w_fs w'))"
  proof (cases "w_fs w' = w_fs w")
    case True
    then show ?thesis using I by simp
  next
    case changed: False
    obtain v where v: "mg_materialized_revision_id record = Some v"
      using run changed by (cases "mg_materialized_revision_id record") (auto simp: derived_view_def op_err_def)
    let ?root = "derived_root P (mg_resource_id record) v h"
    note shape = derived_root_shape [OF assms(2) assms(4) [OF v] assms(3)]
    have dc: "derived_clean E P (w_fs w)" using I by (simp add: proj_ready_def)
    from run v changed have nodir: "\<not> is_dir (w_fs w) ?root"
      by (auto simp: derived_view_def Let_def look_cases op_ok_def elim!: op_bind_cases split: if_splits)
    have "rid \<noteq> ''..''" if "rid = mg_resource_id record" for rid using that assms(2) by (simp add: plain_name_def)
    have rootpeek: "peek (w_fs w) ?root \<noteq> Some S_Dir"
    proof
      assume dir: "peek (w_fs w) ?root = Some S_Dir"
      have "''..'' \<notin> set ?root" using shape(1,2) dc assms(2) by (auto simp: derived_clean_def plain_name_def)
      then have "solid (w_fs w) ?root" using dir_prefix [OF dir] dir by (auto simp: solid_def plain_def strict_prefix_def)
      then show False using is_dir_solid nodir dir by blast
    qed
    obtain source where src: "canonicalize (w_fs w) canonical = Ok source"
      and rest: "op_bind (pj_io (create_dir_all M (butlast ?root))) (\<lambda>_. op_bind (fresh_id M) (\<lambda>uuid.
          op_bind (copy_derived_tree E M source (path_join (butlast ?root) (''.stage-'' @ uu_to_string (lb_uuid E) uuid)) (mg_skill_name record) h) (\<lambda>_.
          op_bind (pj_io (fs_rename M (path_join (butlast ?root) (''.stage-'' @ uu_to_string (lb_uuid E) uuid)) ?root)) (\<lambda>_.
          op_ok (?root, True))))) w = (r, w')"
      using run v nodir shape(1) changed
      by (cases "canonicalize (w_fs w) canonical") (auto simp: derived_view_def Let_def op_bind_def look_def)
    have parent: "butlast ?root = lp_derived P @ [mg_resource_id record]" using shape(1) by (simp add: butlast_append)
    have stage: "path_join (butlast ?root) (''.stage-'' @ uu_to_string (lb_uuid E) u) = lp_derived P @ [mg_resource_id record, stage_name E u]" for u
    proof -
      have "plain_name (''.stage-'' @ uu_to_string (lb_uuid E) u)"
        using assms(5) by (intro name_text_append) (simp_all add: libs_plain_def)
      then show ?thesis by (simp add: parent stage_name_def)
    qed
    have places: "view_places E P (w_fs w) (lp_derived P @ [mg_resource_id record, stage_name E u]) ?root" for u
      using dc rootpeek shape assms(2) unfolding view_places_def by (auto simp: plain_name_def)
    note wr = view_writable [OF places]
    have dirs: "within (w_fs w) (view_area (lp_derived P @ [mg_resource_id record, stage_name E u]) ?root)
        (view_links (lp_derived P @ [mg_resource_id record, stage_name E u]) ?root n) (pj_io (create_dir_all M (butlast ?root)))" for u n
      by (intro always_intros within_create_dir_all wr(3,4))
    from rest show ?thesis
    proof (cases rule: op_bind_cases)
      case (1 e)
      then show ?thesis
        using view_keeps_ready(1) [OF places _ _ withinD [OF dirs 1(1) wr(5)]] I by auto
    next
      case (2 x t)
      have ct: "confined (w_fs w) (view_area (lp_derived P @ [mg_resource_id record, stage_name E u]) ?root)
        (view_links (lp_derived P @ [mg_resource_id record, stage_name E u]) ?root n) (w_fs t)" for u n
        by (rule withinD [OF dirs 2(1) wr(5)])
      let ?u = "fresh M (w_tick t)"
      from 2(2) have "op_bind (copy_derived_tree E M source (lp_derived P @ [mg_resource_id record, stage_name E ?u]) (mg_skill_name record) h) (\<lambda>_.
          op_bind (pj_io (fs_rename M (lp_derived P @ [mg_resource_id record, stage_name E ?u]) ?root)) (\<lambda>_. op_ok (?root, True))) (tick t) = (r, w')"
        unfolding stage by (simp add: fresh_id_def op_bind_def [of "fresh_id M"])
      note out = view_outcome [OF places assms(1) _ this, simplified tick_simps, OF ct]
      obtain n where cn: "confined (w_fs w) (view_area (lp_derived P @ [mg_resource_id record, stage_name E ?u]) ?root)
        (view_links (lp_derived P @ [mg_resource_id record, stage_name E ?u]) ?root n) (w_fs w')"
        and gone: "\<And>y. r = Ok y \<Longrightarrow> peek (w_fs w') (lp_derived P @ [mg_resource_id record, stage_name E ?u]) = None"
        using out by blast
      then show ?thesis using view_keeps_ready [OF places _ _ cn] I by (cases r) auto
    qed
  qed
  then show "projected P roots fs0 (w_fs (snd (derived_view E M P record canonical h w))) \<and>
      (is_ok (fst (derived_view E M P record canonical h w)) \<longrightarrow> proj_ready E P roots (w_fs (snd (derived_view E M P record canonical h w))))"
    by (simp add: run)
qed

section \<open>Reconciling\<close>

lemma keeps_collect: "(\<And>x. x \<in> set xs \<Longrightarrow> keeps_ready E P roots fs0 (f x)) \<Longrightarrow> keeps_ready E P roots fs0 (op_collect f xs)"
  by (induction xs) (simp_all add: keeps_bind always_keeps [OF always_read(1)])

lemma keeps_each: "(\<And>x. x \<in> set xs \<Longrightarrow> keeps_ready E P roots fs0 (f x)) \<Longrightarrow> keeps_ready E P roots fs0 (op_each f xs)"
  by (induction xs) (simp_all add: keeps_bind always_keeps [OF always_read(1)])

lemma baseline_keeps: "always (proj_inv E P roots fs0) (record_derived_baseline E' M P' record target h created)"
  unfolding record_derived_baseline_def by (intro always_intros)

text \<open>The records the database hands out: names are skill names, revisions are hexadecimal text.\<close>

definition record_ok :: "ManagedSkillRecord \<Rightarrow> bool" where
  "record_ok record \<longleftrightarrow> skill_name_spec (mg_skill_name record) \<and>
     (case mg_harness_name record of None \<Rightarrow> True | Some n \<Rightarrow> plain_name n) \<and>
     (case mg_materialized_revision_id record of None \<Rightarrow> True | Some v \<Rightarrow> name_text v)"

definition records_ok :: "('v, 'm) libs \<Rightarrow> ManagedSkillRecord list \<Rightarrow> bool" where
  "records_ok E records \<longleftrightarrow> list_all record_ok records \<and>
     (case collect_res (managed_name E) (filter (\<lambda>r. mg_materialized_revision_id r \<noteq> None) records) of
        Ok managed \<Rightarrow> ids_distinct managed | Err _ \<Rightarrow> True)"

lemma project_skill_keeps:
  assumes "walks_plainly E" "libs_plain E" "list_all record_ok records" "skill_name_spec (pa_harness_name a)"
  shows "keeps_ready E P roots fs0 (project_skill E M P roots records owned a)"
proof (cases "find (\<lambda>record. mg_resource_id record = resource_text E (pa_resource_id a)) records")
  case None
  then show ?thesis unfolding project_skill_def by (auto intro!: always_keeps always_intros)
next
  case (Some rc)
  then have "rc \<in> set records" and id: "mg_resource_id rc = resource_text E (pa_resource_id a)"
    by (auto simp: find_Some_iff)
  then have rec: "record_ok rc" using assms(3) by (simp add: list_all_iff)
  have h: "plain_name (pa_harness_name a)" using assms(4) by (rule skill_name_plain)
  have view: "keeps_ready E P roots fs0 (derived_view E M P rc canonical (pa_harness_name a))" for canonical
    by (rule derived_view_keeps [OF assms(1) _ h _ assms(2)])
      (use rec id resource_name [OF assms(2)] in \<open>auto simp: record_ok_def\<close>)
  have links: "always (proj_inv E P roots fs0) (op_bind (look (\<lambda>fs. Ok (unique_harness_roots roots fs)))
      (\<lambda>found. op_each (\<lambda>root. create_projection_link M P target (path_join root (pa_harness_name a))) found))" for target
    by (rule each_root, rule create_link_at_place) (use link_place_join h in blast)
  let ?rest = "\<lambda>target created. op_bind (op_bind (look (\<lambda>fs. Ok (unique_harness_roots roots fs)))
      (\<lambda>found. op_each (\<lambda>root. create_projection_link M P target (path_join root (pa_harness_name a))) found)) (\<lambda>_.
     op_bind (if mg_harness_name rc = Some (pa_harness_name a) then op_ok ()
       else pj_db M (set_managed_harness_name (mg_resource_id rc) (pa_harness_name a))) (\<lambda>_.
     op_bind (if pa_derived a \<and> mg_resource_id rc \<in> set owned
       then record_derived_baseline E M P rc target (pa_harness_name a) created else op_ok ()) (\<lambda>_.
     op_ok (mg_locator rc, pa_harness_name a))))"
  have rest: "keeps_ready E P roots fs0 (?rest target created)" for target created
    by (intro always_keeps always_intros links baseline_keeps)
  have eq: "project_skill E M P roots records owned a =
     op_bind (look (\<lambda>fs. if fs_exists fs (canonical_path_of P (mg_owner rc) (mg_skill_name rc)) then Ok ()
       else Err (PJ_Corrupt (Text (''canonical skill is missing for '' @ mg_locator rc))))) (\<lambda>_.
     op_bind (if pa_derived a then derived_view E M P rc (canonical_path_of P (mg_owner rc) (mg_skill_name rc)) (pa_harness_name a)
       else op_ok (canonical_path_of P (mg_owner rc) (mg_skill_name rc), False)) (\<lambda>(target, created). ?rest target created))"
    by (simp add: project_skill_def Some Let_def op_bind_assoc)
  have tail: "keeps_ready E P roots fs0 (case x of (target, created) \<Rightarrow> ?rest target created)" for x
    using rest by (cases x) simp
  have first: "keeps_ready E P roots fs0 (if pa_derived a then derived_view E M P rc canonical (pa_harness_name a) else op_ok (canonical, False))" for canonical
    using view by (simp add: always_keeps [OF always_read(1)])
  show ?thesis unfolding eq by (rule keeps_bind [OF always_keeps [OF always_look] keeps_bind [OF first tail]])
qed

lemma remove_if_renamed_keeps:
  assumes "record_ok record"
  shows "keeps_ready E P roots fs0 (remove_if_renamed E' M P roots assignments record)"
  unfolding remove_if_renamed_def
  using assms by (intro always_keeps always_intros remove_stale_keeps) (auto simp: record_ok_def split: option.splits)

lemma keepsD:
  "keeps_ready E P roots fs0 m \<Longrightarrow> proj_inv E P roots fs0 w \<Longrightarrow> m w = (r, w') \<Longrightarrow> projected P roots fs0 (w_fs w')"
  by (auto simp: keeps_ready_def triple_def dest!: spec [of _ w])

lemma op_bind_res_Ok: "op_bind (op_res (Ok x)) f = f x"
  by (rule ext) (simp add: op_bind_def op_res_def)

lemma list_all2_member: "list_all2 R xs ys \<Longrightarrow> y \<in> set ys \<Longrightarrow> \<exists>x \<in> set xs. R x y"
  by (induction rule: list_all2_induct) auto

lemma reconcile_projected:
  assumes ready: "proj_ready E P roots (w_fs w)" "walks_plainly E" "libs_plain E"
    and records: "\<And>rs. fst (managed_skills (w_db w)) = Ok rs \<Longrightarrow> records_ok E rs"
    and run: "reconcile_harness_projections E M P roots w = (r, w')"
  shows "projected P roots (w_fs w) (w_fs w')"
proof -
  from run [unfolded reconcile_harness_projections_def] show ?thesis
  proof (cases rule: op_bind_cases)
    case (1 e)
    then have "w_fs w' = w_fs w" by (auto elim!: op_map_err_cases dest: db_call_now_fs)
    then show ?thesis by simp
  next
    case (2 rs v)
    have v: "w_fs v = w_fs w" using 2(1) by (auto elim!: op_map_err_cases dest: db_call_now_fs)
    have ok: "records_ok E rs"
    proof -
      have "fst (managed_skills (w_db w)) = Ok rs"
        using 2(1) by (auto simp: db_call_now_def db_call_def elim!: op_map_err_cases split: option.splits prod.splits)
      then show ?thesis by (rule records)
    qed
    then have all: "list_all record_ok rs" by (simp add: records_ok_def)
    have names: "skill_name_spec (pa_harness_name a)"
      if m: "collect_res (managed_name E) (filter (\<lambda>r. mg_materialized_revision_id r \<noteq> None) rs) = Ok managed"
        and al: "allocate_projection_names managed reserved = Some as" and a: "a \<in> set as" for managed reserved as a
    proof -
      have "ids_distinct managed" using ok m by (simp add: records_ok_def)
      moreover have "skill_name_spec (ms_skill_name s)" if sm: "s \<in> set managed" for s
      proof -
        obtain x where "x \<in> set rs" "managed_name E x = Ok s"
          using list_all2_member [OF m [unfolded collect_res_Ok_iff] sm] by auto
        then show ?thesis using all by (auto simp: managed_name_def res_simps list_all_iff record_ok_def)
      qed
      ultimately have "\<forall>n \<in> set (names_of as). skill_name_spec n" using allocated_names [OF al] by blast
      then show ?thesis using a by auto
    qed
    have "keeps_ready E P roots (w_fs w) (op_bind (pj_db M (\<lambda>_. get_owned_skills)) (\<lambda>owned.
     op_bind (look (unmanaged_names E P roots)) (\<lambda>reserved.
     op_bind (op_res (collect_res (managed_name E) (filter (\<lambda>r. mg_materialized_revision_id r \<noteq> None) rs))) (\<lambda>managed.
     case allocate_projection_names managed reserved of
       None \<Rightarrow> op_err PJ_Panic
     | Some assignments \<Rightarrow>
         op_bind (op_each (remove_if_renamed E M P roots assignments) rs) (\<lambda>_.
         op_collect (project_skill E M P roots rs (map os_resource_id owned)) assignments)))))" (is "keeps_ready _ _ _ _ ?m")
    proof (rule keeps_bind [OF always_keeps [OF keeps_db]], rule keeps_bind [OF always_keeps [OF always_look]])
      fix owned reserved
      show "keeps_ready E P roots (w_fs w) (op_bind (op_res (collect_res (managed_name E) (filter (\<lambda>r. mg_materialized_revision_id r \<noteq> None) rs))) (\<lambda>managed.
         case allocate_projection_names managed reserved of None \<Rightarrow> op_err PJ_Panic
         | Some assignments \<Rightarrow> op_bind (op_each (remove_if_renamed E M P roots assignments) rs) (\<lambda>_.
             op_collect (project_skill E M P roots rs (map os_resource_id owned)) assignments)))"
      proof (cases "collect_res (managed_name E) (filter (\<lambda>r. mg_materialized_revision_id r \<noteq> None) rs)")
        case (Ok managed)
        have "keeps_ready E P roots (w_fs w) (case allocate_projection_names managed reserved of None \<Rightarrow> op_err PJ_Panic
         | Some assignments \<Rightarrow> op_bind (op_each (remove_if_renamed E M P roots assignments) rs) (\<lambda>_.
             op_collect (project_skill E M P roots rs (map os_resource_id owned)) assignments))"
        proof (cases "allocate_projection_names managed reserved")
          case (Some as)
          show ?thesis unfolding Some option.case
            by (intro keeps_bind keeps_each keeps_collect remove_if_renamed_keeps project_skill_keeps ready all names [OF Ok Some])
              (use all in \<open>auto simp: list_all_iff\<close>)
        qed (auto intro!: always_keeps always_intros)
        then show ?thesis unfolding Ok op_bind_res_Ok .
      next
        case (Err e)
        show ?thesis unfolding Err by (simp add: op_bind_def op_res_def keeps_ready_def triple_def)
      qed
    qed
    from keepsD [OF this _ 2(2)] show ?thesis using v ready(1) by simp
  qed
qed

end
