(* ===== verification/Projection_Props.thy ===== *)
theory Projection_Props
  imports Projection_Safety
begin

text \<open>What reconciling the harness views guarantees whatever fails on the way.\<close>

section \<open>An example\<close>

text \<open>Two skills called \<open>review\<close>, a user's own skill and a user's link in a harness root.\<close>

definition harness_libs :: "(flat_yaml, (flat_yaml \<times> flat_yaml) list) libs" where
  "harness_libs =
     \<lparr>lb_unicode = ascii_tables, lb_yaml = flat_lib, lb_sha = zero_hash, lb_archive = one_archive [],
      lb_uuid = \<lparr>uu_version_num = \<lambda>_. 7, uu_parse_str = Ok, uu_to_string = \<lambda>_. ''a''\<rparr>,
      lb_hex = \<lambda>_. ''b'', lb_unhex = Ok, lb_walk = \<lambda>n. [[''SKILL.md'']],
      lb_materialization = \<lparr>to_text = \<lambda>_. Ok ''{}'', from_text = \<lambda>_. Err ''blank''\<rparr>,
      lb_writeback = \<lparr>to_text = \<lambda>_. Ok ''{}'', from_text = \<lambda>_. Err ''blank''\<rparr>\<rparr>"

definition harness_roots :: ResolvedHarnessRoots where
  "harness_roots = \<lparr>codex_root = [''.agents'', ''skills''], claude_root = [''.claude'', ''skills'']\<rparr>"

definition harness_disk :: node where
  "harness_disk = DirN
     [(''.denju'', DirN [(''derived'', DirN []), (''skills'', DirN []), (''generations'', DirN [])]),
      (''.agents'', DirN [(''skills'', DirN [(''mine'', DirN [(''SKILL.md'', FileN ''text'' False)])])]),
      (''.claude'', DirN [(''skills'', DirN [(''review'', LinkN ''/elsewhere'')])])]"

lemma harness_derived: "lp_derived (from_home []) = [''.denju'', ''derived'']"
proof -
  have "plain_name ''.denju''" "plain_name ''derived''" by (simp_all add: plain_name_def)
  then show ?thesis by (simp add: from_home_def Let_def)
qed

lemma harness_ready: "proj_ready harness_libs (from_home []) harness_roots harness_disk" "walks_plainly harness_libs" "libs_plain harness_libs"
  by (simp_all add: proj_ready_def harness_dirs_def derived_clean_def harness_derived harness_roots_def harness_disk_def peek_def
      walks_plainly_def harness_libs_def libs_plain_def name_text_def zero_hash_def)

definition harness_db :: localdb where
  "harness_db = empty_db\<lparr>owned_skills :=
     [\<lparr>os_resource_id = ''a'', os_locator = ''@alice/review'', os_owner = ''alice'', os_skill_name = ''review'',
       os_resource_generation = 1, os_workspace_generation = 1, os_desired_revision_id = ''b'',
       os_harness_name = Some ''old'', os_materialized_revision_id = Some ''b'', os_updated_at_unix_ms = 0\<rparr>]\<rparr>"

definition harness_world :: "localdb world" where
  "harness_world = \<lparr>w_fs = harness_disk, w_db = harness_db, w_tick = 0\<rparr>"

lemma harness_records: "fst (managed_skills (w_db harness_world)) = Ok rs \<Longrightarrow> records_ok harness_libs rs"
  by (auto simp: managed_skills_def active_records_def harness_world_def harness_db_def empty_db_def records_ok_def
      ids_distinct_def op_query_def managed_of_owned_def record_ok_def plain_name_def name_text_def managed_name_def
      harness_libs_def id_from_str_def id_from_uuid_def res_simps suppressed_def skill_name_spec_def ascii_lowercase_def split: result.splits)

section \<open>The properties\<close>

text \<open>C36. Reconciling the harness views touches nothing of the user's, whichever of its system or
  database calls fail and wherever it is cut off.  Outside the store of derived views, a path keeps
  what it holds unless it is a name directly inside a harness root at which there was nothing or a
  link: files and directories stay as they are everywhere.\<close>

theorem reconciling_keeps_user_files:
  assumes "proj_ready E P roots (w_fs w)" and "walks_plainly E" and "libs_plain E"
    and "\<And>rs. fst (managed_skills (w_db w)) = Ok rs \<Longrightarrow> records_ok E rs"
    and "reconcile_harness_projections E M P roots w = (r, w')"
    and "\<not> prefix (lp_derived P) q"
    and "peek (w_fs w) q \<noteq> None \<and> \<not> is_link (peek (w_fs w) q) \<or>
      q \<noteq> codex_root roots @ [last q] \<and> q \<noteq> claude_root roots @ [last q]"
  shows "peek (w_fs w') q = peek (w_fs w) q"
proof -
  have "projected P roots (w_fs w) (w_fs w')" by (rule reconcile_projected [OF assms(1-3) _ assms(5)]) (rule assms(4))
  then show ?thesis using assms(6,7) unfolding projected_def by (metis insertE last_snoc singletonD)
qed

theorem reconciling_keeps_user_files_witness:
  "\<forall>M. peek (w_fs (snd (reconcile_harness_projections harness_libs M (from_home []) harness_roots harness_world)))
    [''.agents'', ''skills'', ''mine'', ''SKILL.md''] = Some (S_File ''text'' False)"
proof
  fix M
  have "peek (w_fs harness_world) [''.agents'', ''skills'', ''mine'', ''SKILL.md''] = Some (S_File ''text'' False)"
    by (simp add: harness_world_def harness_disk_def peek_def)
  then show "peek (w_fs (snd (reconcile_harness_projections harness_libs M (from_home []) harness_roots harness_world)))
      [''.agents'', ''skills'', ''mine'', ''SKILL.md''] = Some (S_File ''text'' False)"
    using reconciling_keeps_user_files [of harness_libs "from_home []" harness_roots harness_world M
        "fst (reconcile_harness_projections harness_libs M (from_home []) harness_roots harness_world)"
        "snd (reconcile_harness_projections harness_libs M (from_home []) harness_roots harness_world)"
        "[''.agents'', ''skills'', ''mine'', ''SKILL.md'']"]
      harness_ready harness_records by (simp add: harness_derived harness_world_def)
qed

end
