(* ===== verification/Local_Lifecycle.thy ===== *)
theory Local_Lifecycle
  imports Projection
begin

text \<open>
  \<open>crates/denju-local/src/lifecycle.rs\<close>: journalled removal and renaming of managed skills, and the
  copy of a quarantined generation.
\<close>

section \<open>Data\<close>

datatype ManagedDesiredKind = MD_Subscription | MD_Owned | MD_Pack

record RemovePayload =
  rm_resource_id :: string
  rm_owner :: string
  rm_skill_name :: string
  rm_harness_name :: "string option"
  rm_desired_kind :: ManagedDesiredKind

record RenamePayload =
  rn_resource_id :: string
  rn_old_owner :: string
  rn_old_name :: string
  rn_old_harness_name :: "string option"
  rn_new_owner :: string
  rn_new_name :: string
  rn_new_locator :: string
  rn_remote_resource_generation :: int
  rn_remote_workspace_generation :: int
  rn_remote_revision_id :: string
  rn_remote_root_tree_id :: string
  rn_working_generation_path :: string
  rn_preserve_working :: bool

datatype LocalLifecyclePayload = LC_Remove RemovePayload | LC_Rename RenamePayload

record RegistryRenameState =
  rr_resource_id :: string
  rr_owner :: string
  rr_name :: string
  rr_locator :: string
  rr_resource_generation :: int
  rr_workspace_generation :: int
  rr_revision_id :: string
  rr_root_tree_id :: string

text \<open>Where the code stores the text of an error, the error itself is kept.\<close>

datatype ll_reason =
    LL_Text string
  | LL_Id IdError
  | LL_ObjectId ObjectIdError
  | LL_Walk IoError
  | LL_Unavailable string IoError
  | LL_Path string PortablePathError
  | LL_Tree PortableTreeError

datatype LocalLifecycleError =
    LL_Database LocalDbError
  | LL_Io IoError
  | LL_Projection ProjectionError
  | LL_Materialization MaterializationError
  | LL_Corrupt ll_reason

type_synonym 'a ll_op = "(localdb world, 'a, LocalLifecycleError) op"

abbreviation ll_io :: "(localdb world, 'a, IoError) op \<Rightarrow> 'a ll_op" where
  "ll_io m \<equiv> op_map_err LL_Io m"

abbreviation ll_db :: "local_machine \<Rightarrow> (int \<Rightarrow> (localdb, 'a) db_op) \<Rightarrow> 'a ll_op" where
  "ll_db M f \<equiv> op_map_err LL_Database (db_call_now M f)"

section \<open>The journal\<close>

definition create_local_lifecycle_journal ::
  "uuid_lib \<Rightarrow> LocalLifecyclePayload codec \<Rightarrow> OperationId \<Rightarrow> LocalLifecyclePayload \<Rightarrow> int \<Rightarrow> (localdb, unit) db_op" where
  "create_local_lifecycle_journal L C operation_id payload now =
     op_bind (serialize C payload) (\<lambda>text.
     insert_into journal_t (planned_row (operation_text L operation_id) ''lifecycle_local'' text now))"

definition local_lifecycle_journals ::
  "uuid_lib \<Rightarrow> LocalLifecyclePayload codec \<Rightarrow> (localdb, LocalLifecyclePayload Journal list) db_op" where
  "local_lifecycle_journals L C =
     op_query (\<lambda>db. collect_res (read_journal L C) (by_created
       (filter (\<lambda>r. oj_kind r = ''lifecycle_local'' \<and> oj_state r \<noteq> ''complete'') (operation_journal db))))"

definition local_lifecycle_state :: "uuid_lib \<Rightarrow> OperationId \<Rightarrow> (localdb, JournalState) db_op" where
  "local_lifecycle_state L operation_id =
     op_query (\<lambda>db.
       case sql_first (\<lambda>r. oj_operation_id r = operation_text L operation_id \<and> oj_kind r = ''lifecycle_local'') (operation_journal db) of
         None \<Rightarrow> Err no_rows
       | Some r \<Rightarrow> JournalState_from_str (oj_state r))"

definition advance_local_lifecycle :: "uuid_lib \<Rightarrow> OperationId \<Rightarrow> JournalState \<Rightarrow> int \<Rightarrow> (localdb, unit) db_op" where
  "advance_local_lifecycle L operation_id expected now =
     (case JournalState_next expected of
        None \<Rightarrow> op_err (InvalidJournalTransition expected expected)
      | Some next_state \<Rightarrow>
          expect_one no_rows (update_where journal_t
            (\<lambda>r. oj_operation_id r = operation_text L operation_id \<and> oj_kind r = ''lifecycle_local'' \<and>
               oj_state r = JournalState_as_str expected)
            (\<lambda>r. r\<lparr>oj_state := JournalState_as_str next_state, oj_updated_at_unix_ms := now\<rparr>)))"

section \<open>Links\<close>

definition ensure_canonical_link ::
  "('v, 'm) libs \<Rightarrow> local_machine \<Rightarrow> path \<Rightarrow> path \<Rightarrow> OperationId \<Rightarrow> unit ll_op" where
  "ensure_canonical_link E M target link operation_id =
     op_match (look (\<lambda>fs. canonicalize fs link)) (\<lambda>r. case r of
       Ok existing \<Rightarrow>
         op_bind (look (\<lambda>fs. map_err LL_Io (canonicalize fs target))) (\<lambda>wanted.
         if existing = wanted then op_ok ()
         else op_err (LL_Corrupt (LL_Text (''rename destination '' @ path_text link @ '' already points elsewhere''))))
     | Err _ \<Rightarrow>
         if link = [] then op_err (LL_Corrupt (LL_Text (''rename destination has no parent: '' @ path_text link)))
         else let parent = butlast link; stage = path_join parent (''.denju-rename-'' @ operation_text (lb_uuid E) operation_id) in
           op_bind (ll_io (create_dir_all M parent)) (\<lambda>_.
           op_bind (op_ignore (remove_file M stage)) (\<lambda>_.
           op_bind (op_ignore (remove_dir M stage)) (\<lambda>_.
           op_bind (ll_io (create_native_directory_link M target stage)) (\<lambda>_.
           ll_io (fs_rename M stage link))))))"

section \<open>Recovery\<close>

definition advance_to :: "('v, 'm) libs \<Rightarrow> local_machine \<Rightarrow> OperationId \<Rightarrow> JournalState \<Rightarrow> unit ll_op" where
  "advance_to E M operation_id expected = ll_db M (advance_local_lifecycle (lb_uuid E) operation_id expected)"

text \<open>One step of an entry: read its state again, and act when it is the one of the step.\<close>

definition in_state :: "('v, 'm) libs \<Rightarrow> local_machine \<Rightarrow> OperationId \<Rightarrow> JournalState \<Rightarrow> unit ll_op \<Rightarrow> unit ll_op" where
  "in_state E M operation_id expected step =
     op_bind (ll_db M (\<lambda>_. local_lifecycle_state (lb_uuid E) operation_id)) (\<lambda>state.
     if state = expected then op_bind step (\<lambda>_. advance_to E M operation_id expected) else op_ok ())"

definition old_record :: "string \<Rightarrow> string \<Rightarrow> string \<Rightarrow> string option \<Rightarrow> ManagedSkillRecord" where
  "old_record resource_id owner skill_name harness_name =
     \<lparr>mg_resource_id = resource_id, mg_locator = ''@'' @ owner @ ''/'' @ skill_name, mg_owner = owner,
      mg_skill_name = skill_name, mg_harness_name = harness_name, mg_materialized_revision_id = None\<rparr>"

definition remove_desired :: "local_machine \<Rightarrow> ManagedDesiredKind \<Rightarrow> string \<Rightarrow> unit ll_op" where
  "remove_desired M desired_kind resource_id =
     (case desired_kind of
        MD_Subscription \<Rightarrow> ll_db M (\<lambda>_. remove_subscription resource_id)
      | MD_Owned \<Rightarrow> ll_db M (\<lambda>_. remove_owned_skill resource_id)
      | MD_Pack \<Rightarrow> ll_db M (\<lambda>_. remove_pack_materialized_record resource_id))"

definition recover_remove ::
  "('v, 'm) libs \<Rightarrow> local_machine \<Rightarrow> LocalPaths \<Rightarrow> ResolvedHarnessRoots \<Rightarrow> OperationId \<Rightarrow> JournalState \<Rightarrow> RemovePayload \<Rightarrow>
   unit ll_op" where
  "recover_remove E M P roots operation_id state payload =
     op_bind (if state = Planned then
         op_bind (op_map_err LL_Projection (remove_managed_skill_projection M P roots
           (old_record (rm_resource_id payload) (rm_owner payload) (rm_skill_name payload) (rm_harness_name payload)))) (\<lambda>_.
         advance_to E M operation_id Planned)
       else op_ok ()) (\<lambda>_.
     op_bind (in_state E M operation_id Staged
       (op_map_err LL_Materialization (remove_canonical_skill M P (rm_owner payload) (rm_skill_name payload)))) (\<lambda>_.
     op_bind (in_state E M operation_id Verified (remove_desired M (rm_desired_kind payload) (rm_resource_id payload))) (\<lambda>_.
     in_state E M operation_id Switched (op_ok ()))))"

definition adopt_rename :: "local_machine \<Rightarrow> RenamePayload \<Rightarrow> unit ll_op" where
  "adopt_rename M payload =
     op_bind (ll_db M (\<lambda>_. get_owned_skills)) (\<lambda>owned.
     case find (\<lambda>r. os_resource_id r = rn_resource_id payload) owned of
       None \<Rightarrow> op_err (LL_Corrupt (LL_Text (''rename lost owned resource '' @ rn_resource_id payload)))
     | Some existing \<Rightarrow>
         op_bind (ll_db M (upsert_owned_skill_desired
           \<lparr>os_resource_id = rn_resource_id payload, os_locator = rn_new_locator payload, os_owner = rn_new_owner payload,
            os_skill_name = rn_new_name payload, os_resource_generation = rn_remote_resource_generation payload,
            os_workspace_generation = rn_remote_workspace_generation payload,
            os_desired_revision_id = rn_remote_revision_id payload, os_harness_name = os_harness_name existing,
            os_materialized_revision_id = os_materialized_revision_id existing\<rparr>)) (\<lambda>_.
         op_bind (ll_db M (adopt_registry_rename_baseline (rn_resource_id payload) (rn_remote_workspace_generation payload)
           (rn_remote_revision_id payload) (rn_remote_root_tree_id payload) (rn_working_generation_path payload))) (\<lambda>_.
         if rn_preserve_working payload then op_ok ()
         else ll_db M (mark_skill_materialized (rn_resource_id payload) (rn_remote_revision_id payload)))))"

definition recover_rename ::
  "('v, 'm) libs \<Rightarrow> local_machine \<Rightarrow> LocalPaths \<Rightarrow> ResolvedHarnessRoots \<Rightarrow> OperationId \<Rightarrow> JournalState \<Rightarrow> RenamePayload \<Rightarrow>
   unit ll_op" where
  "recover_rename E M P roots operation_id state payload =
     op_bind (if state = Planned then
         op_bind (ensure_canonical_link E M (path_components (rn_working_generation_path payload))
           (canonical_path_of P (rn_new_owner payload) (rn_new_name payload)) operation_id) (\<lambda>_.
         advance_to E M operation_id Planned)
       else op_ok ()) (\<lambda>_.
     op_bind (in_state E M operation_id Staged (adopt_rename M payload)) (\<lambda>_.
     op_bind (in_state E M operation_id Verified
       (op_bind (op_map_err LL_Projection (remove_managed_skill_projection M P roots
         (old_record (rn_resource_id payload) (rn_old_owner payload) (rn_old_name payload) (rn_old_harness_name payload)))) (\<lambda>_.
       op_map_err LL_Materialization (remove_canonical_skill M P (rn_old_owner payload) (rn_old_name payload))))) (\<lambda>_.
     in_state E M operation_id Switched
       (op_bind (op_map_err LL_Projection (reconcile_harness_projections E M P roots)) (\<lambda>_. op_ok ())))))"

definition recover_lifecycle_entry ::
  "('v, 'm) libs \<Rightarrow> local_machine \<Rightarrow> LocalPaths \<Rightarrow> ResolvedHarnessRoots \<Rightarrow> LocalLifecyclePayload Journal \<Rightarrow> unit ll_op" where
  "recover_lifecycle_entry E M P roots journal =
     (case jr_payload journal of
        LC_Remove payload \<Rightarrow> recover_remove E M P roots (jr_operation_id journal) (jr_state journal) payload
      | LC_Rename payload \<Rightarrow> recover_rename E M P roots (jr_operation_id journal) (jr_state journal) payload)"

definition recover_local_lifecycle ::
  "('v, 'm) libs \<Rightarrow> LocalLifecyclePayload codec \<Rightarrow> local_machine \<Rightarrow> LocalPaths \<Rightarrow> ResolvedHarnessRoots \<Rightarrow> unit ll_op" where
  "recover_local_lifecycle E C M P roots =
     op_bind (ll_db M (\<lambda>_. local_lifecycle_journals (lb_uuid E) C)) (\<lambda>journals.
     op_each (recover_lifecycle_entry E M P roots) journals)"

section \<open>Operations\<close>

definition new_lifecycle_id :: "('v, 'm) libs \<Rightarrow> local_machine \<Rightarrow> OperationId ll_op" where
  "new_lifecycle_id E M =
     op_bind (fresh_id M) (\<lambda>uuid.
     op_res (map_err (\<lambda>e. LL_Corrupt (LL_Id e)) (id_from_uuid (lb_uuid E) OperationId uuid)))"

definition journaled_remove_managed_skill ::
  "('v, 'm) libs \<Rightarrow> LocalLifecyclePayload codec \<Rightarrow> local_machine \<Rightarrow> LocalPaths \<Rightarrow> ResolvedHarnessRoots \<Rightarrow>
   ManagedSkillRecord \<Rightarrow> ManagedDesiredKind \<Rightarrow> unit ll_op" where
  "journaled_remove_managed_skill E C M P roots record desired_kind =
     op_bind (new_lifecycle_id E M) (\<lambda>operation_id.
     op_bind (ll_db M (create_local_lifecycle_journal (lb_uuid E) C operation_id
       (LC_Remove \<lparr>rm_resource_id = mg_resource_id record, rm_owner = mg_owner record,
          rm_skill_name = mg_skill_name record, rm_harness_name = mg_harness_name record,
          rm_desired_kind = desired_kind\<rparr>))) (\<lambda>_.
     recover_local_lifecycle E C M P roots))"

definition apply_registry_rename ::
  "('v, 'm) libs \<Rightarrow> LocalLifecyclePayload codec \<Rightarrow> local_machine \<Rightarrow> LocalPaths \<Rightarrow> ResolvedHarnessRoots \<Rightarrow>
   ManagedSkillRecord \<Rightarrow> RegistryRenameState \<Rightarrow> bool \<Rightarrow> (SkillManifest \<times> string) option \<Rightarrow> unit ll_op" where
  "apply_registry_rename E C M P roots old remote preserve_working authoritative_snapshot =
     op_bind (op_res (map_err (\<lambda>e. LL_Corrupt (LL_Id e)) (id_from_str (lb_uuid E) ResourceId (rr_resource_id remote)))) (\<lambda>resource_id.
     if resource_text E resource_id \<noteq> mg_resource_id old
     then op_err (LL_Corrupt (LL_Text ''rename response changed the immutable resource ID''))
     else
       op_bind (new_lifecycle_id E M) (\<lambda>operation_id.
       op_bind
         (if preserve_working then
            (if authoritative_snapshot \<noteq> None
             then op_err (LL_Corrupt (LL_Text ''pending rename cannot replace preserved working bytes''))
             else look (\<lambda>fs. map_err LL_Io (canonicalize fs (canonical_path_of P (mg_owner old) (mg_skill_name old)))))
          else case authoritative_snapshot of
            None \<Rightarrow> op_err (LL_Corrupt (LL_Text ''authoritative rename snapshot is required for a clean workspace''))
          | Some (manifest, snapshot) \<Rightarrow>
              op_bind (op_res (map_err (\<lambda>e. LL_Corrupt (LL_ObjectId e))
                (object_id_from_str (lb_unhex E) RevisionId (rr_revision_id remote)))) (\<lambda>revision_id.
              op_map_err LL_Materialization (stage_skill_generation E M P
                \<lparr>dsm_resource_id = resource_id, dsm_owner = rr_owner remote, dsm_skill_name = rr_name remote,
                 dsm_revision_id = revision_id, dsm_manifest = manifest\<rparr> snapshot operation_id))) (\<lambda>working_generation.
       op_bind (ll_db M (create_local_lifecycle_journal (lb_uuid E) C operation_id
         (LC_Rename \<lparr>rn_resource_id = rr_resource_id remote, rn_old_owner = mg_owner old, rn_old_name = mg_skill_name old,
            rn_old_harness_name = mg_harness_name old, rn_new_owner = rr_owner remote, rn_new_name = rr_name remote,
            rn_new_locator = rr_locator remote, rn_remote_resource_generation = rr_resource_generation remote,
            rn_remote_workspace_generation = rr_workspace_generation remote, rn_remote_revision_id = rr_revision_id remote,
            rn_remote_root_tree_id = rr_root_tree_id remote, rn_working_generation_path = path_text working_generation,
            rn_preserve_working = preserve_working\<rparr>))) (\<lambda>_.
       recover_local_lifecycle E C M P roots))))"

section \<open>Quarantine\<close>

fun portable_kind :: "node \<Rightarrow> (PortableEntryKind, LocalLifecycleError) result" where
  "portable_kind (DirN es) = Ok PE_Directory"
| "portable_kind (FileN b x) = Ok (PE_File False)"
| "portable_kind (LinkN t) =
     map_ok PE_Symlink (ok_or (from_utf8 t)
       (LL_Corrupt (LL_Text ''quarantined generation contains a non-UTF-8 symlink target'')))"

definition portable_item :: "('v, 'm) libs \<Rightarrow> path \<times> node \<Rightarrow> (PortableEntry, LocalLifecycleError) result" where
  "portable_item E item =
     (case item of (relative, n) \<Rightarrow>
      res_bind (if list_all (\<lambda>c. from_utf8 c \<noteq> None) relative then Ok (join_with slash relative)
        else Err (LL_Corrupt (LL_Text ''quarantined generation contains a non-UTF-8 path''))) (\<lambda>path.
      res_bind (portable_kind n) (\<lambda>kind.
      map_err (\<lambda>e. LL_Corrupt (LL_Path path e)) (PortableEntry_new (lb_unicode E) path kind))))"

definition validate_quarantine_source :: "('v, 'm) libs \<Rightarrow> path \<Rightarrow> node \<Rightarrow> (unit, LocalLifecycleError) result" where
  "validate_quarantine_source E source fs =
     res_bind (map_err (\<lambda>e. LL_Corrupt (LL_Walk e)) (walk_below E fs source)) (\<lambda>items.
     res_bind (collect_res (portable_item E) items) (\<lambda>portable.
     map_ok (\<lambda>_. ()) (map_err (\<lambda>e. LL_Corrupt (LL_Tree e)) (validate_portable_tree (lb_unicode E) portable))))"

fun copy_quarantine_item :: "local_machine \<Rightarrow> path \<Rightarrow> path \<Rightarrow> path \<times> node \<Rightarrow> unit ll_op" where
  "copy_quarantine_item M source destination (relative, DirN es) = ll_io (create_dir M (destination @ relative))"
| "copy_quarantine_item M source destination (relative, FileN b x) =
     op_bind (if destination @ relative = [] then op_ok () else ll_io (create_dir_all M (butlast (destination @ relative)))) (\<lambda>_.
     op_bind (ll_io (fs_copy M (source @ relative) (destination @ relative))) (\<lambda>_.
     op_bind (look (\<lambda>fs. map_err LL_Io (metadata fs (source @ relative)))) (\<lambda>meta.
     ll_io (set_executable M (destination @ relative) (case meta of S_File _ executable \<Rightarrow> executable | _ \<Rightarrow> x)))))"
| "copy_quarantine_item M source destination (relative, LinkN t) =
     op_bind (if destination @ relative = [] then op_ok () else ll_io (create_dir_all M (butlast (destination @ relative)))) (\<lambda>_.
     if is_absolute t then op_err (LL_Corrupt (LL_Text ''quarantined generation contains an absolute symlink''))
     else ll_io (symlink M t (destination @ relative)))"

definition copy_quarantine_tree :: "('v, 'm) libs \<Rightarrow> local_machine \<Rightarrow> path \<Rightarrow> path \<Rightarrow> unit ll_op" where
  "copy_quarantine_tree E M source destination =
     op_bind (look (validate_quarantine_source E source)) (\<lambda>_.
     op_bind (ll_io (create_dir M destination)) (\<lambda>_.
     op_match
       (op_bind (look (\<lambda>fs. map_err (\<lambda>e. LL_Corrupt (LL_Walk e)) (walk_below E fs source))) (\<lambda>items.
        op_each (copy_quarantine_item M source destination) items)) (\<lambda>result. case result of
         Ok _ \<Rightarrow> op_ok ()
       | Err e \<Rightarrow> op_bind (op_ignore (remove_dir_all M destination)) (\<lambda>_. op_err e))))"

definition preserve_quarantined_managed_skill_for ::
  "('v, 'm) libs \<Rightarrow> local_machine \<Rightarrow> LocalPaths \<Rightarrow> ManagedSkillRecord \<Rightarrow> string \<Rightarrow> path ll_op" where
  "preserve_quarantined_managed_skill_for E M P record quarantine_resource_id =
     op_bind (op_res (map_err (\<lambda>e. LL_Corrupt (LL_Id e)) (id_from_str (lb_uuid E) ResourceId quarantine_resource_id))) (\<lambda>_.
     case mg_materialized_revision_id record of
       None \<Rightarrow> op_err (LL_Corrupt (LL_Text (mg_locator record @ '' has no materialized revision to quarantine'')))
     | Some revision_id \<Rightarrow>
         (let source = path_join (path_join (lp_generations P) (mg_resource_id record)) revision_id;
              destination = path_join (path_join (lp_quarantine P) quarantine_resource_id) revision_id in
          op_bind (look (\<lambda>fs. Ok (fs_exists fs destination))) (\<lambda>present.
          if present then
            op_bind (look (\<lambda>fs. map_err LL_Io (canonicalize fs destination))) (\<lambda>found.
            op_bind (look (\<lambda>fs. map_err LL_Io (canonicalize fs (lp_quarantine P)))) (\<lambda>quarantine_root.
            if \<not> prefix quarantine_root found
            then op_err (LL_Corrupt (LL_Text ''quarantined generation escaped the Denju quarantine root''))
            else op_ok found))
          else
            op_bind (look (\<lambda>fs. map_err (\<lambda>e. LL_Corrupt (LL_Unavailable (mg_locator record) e)) (canonicalize fs source))) (\<lambda>source.
            op_bind (look (\<lambda>fs. map_err LL_Io (canonicalize fs (lp_generations P)))) (\<lambda>generations_root.
            if \<not> prefix generations_root source
            then op_err (LL_Corrupt (LL_Text ''materialized generation escaped the Denju generations root''))
            else
              op_bind (if destination = [] then op_ok () else ll_io (create_dir_all M (butlast destination))) (\<lambda>_.
              op_bind (look (\<lambda>fs. if is_ok (symlink_metadata fs destination)
                then Err (LL_Corrupt (LL_Text (''quarantine destination already exists unexpectedly: '' @ path_text destination)))
                else Ok ())) (\<lambda>_.
              op_bind (fresh_id M) (\<lambda>uuid.
              let stage = path_join (butlast destination) (''.stage-'' @ uu_to_string (lb_uuid E) uuid) in
              op_bind (copy_quarantine_tree E M source stage) (\<lambda>_.
              op_bind (ll_io (fs_rename M stage destination)) (\<lambda>_.
              look (\<lambda>fs. map_err LL_Io (canonicalize fs destination))))))))))))"

definition preserve_quarantined_managed_skill ::
  "('v, 'm) libs \<Rightarrow> local_machine \<Rightarrow> LocalPaths \<Rightarrow> ManagedSkillRecord \<Rightarrow> path ll_op" where
  "preserve_quarantined_managed_skill E M P record =
     preserve_quarantined_managed_skill_for E M P record (mg_resource_id record)"

end
