(* ===== verification/Lifecycle_Props.thy ===== *)
theory Lifecycle_Props
  imports Local_Lifecycle Projection_Safety
begin

text \<open>
  The journalled removal of a managed skill under crashes: however often it is cut off and resumed, the
  record of the skill goes only after its link is gone.
\<close>

section \<open>Removing only removes\<close>

definition shrinks :: "node \<Rightarrow> node \<Rightarrow> bool" where
  "shrinks fs0 fs \<longleftrightarrow> (\<forall>q. peek fs q = peek fs0 q \<or> peek fs q = None)"

lemma shrinks_refl [simp]: "shrinks fs fs"
  by (simp add: shrinks_def)

lemma shrinks_trans: "shrinks fs0 fs1 \<Longrightarrow> shrinks fs1 fs2 \<Longrightarrow> shrinks fs0 fs2"
  unfolding shrinks_def by metis

lemma changes_shrink: "changes_only q None fs fs' \<Longrightarrow> shrinks fs fs'"
  by (simp add: changes_only_def shrinks_def)

lemma shrinks_plain: "shrinks fs0 fs \<Longrightarrow> plain fs0 p \<Longrightarrow> plain fs p"
  unfolding shrinks_def plain_def by (metis is_link.simps(2))

lemma shrinks_None: "shrinks fs0 fs \<Longrightarrow> peek fs0 p = None \<Longrightarrow> peek fs p = None"
  unfolding shrinks_def by metis

abbreviation shrinking :: "(localdb world, 'a, 'e) op \<Rightarrow> bool" where
  "shrinking m \<equiv> (\<forall>fs0 db0. always (\<lambda>w. shrinks fs0 (w_fs w) \<and> w_db w = db0) m)"

lemma shrinkD: "shrinking m \<Longrightarrow> m w = (r, t) \<Longrightarrow> shrinks (w_fs w) (w_fs t) \<and> w_db t = w_db w"
  using alwaysD [of "\<lambda>v. shrinks (w_fs w) (w_fs v) \<and> w_db v = w_db w" m w r t] by simp

lemma shrinking_sys:
  assumes "\<And>fs fs'. f fs = Ok fs' \<Longrightarrow> shrinks fs fs'"
  shows "always (\<lambda>w. shrinks fs0 (w_fs w) \<and> w_db w = db0) (sys M f)"
  using assms by (auto simp: always_def sys_def intro: shrinks_trans split: option.split result.split)

lemma shrinking_unlink [always_intros]: "always (\<lambda>w. shrinks fs0 (w_fs w) \<and> w_db w = db0) (remove_file M p)"
  unfolding remove_file_def by (rule shrinking_sys) (auto dest!: sys_unlink_changes intro: changes_shrink)

lemma shrinking_rmdir [always_intros]: "always (\<lambda>w. shrinks fs0 (w_fs w) \<and> w_db w = db0) (remove_dir M p)"
  unfolding remove_dir_def by (rule shrinking_sys) (auto dest!: sys_rmdir_changes intro: changes_shrink)

lemma shrinking_projection: "shrinking (remove_managed_skill_projection M P roots rc)"
  unfolding remove_managed_skill_projection_def remove_managed_projection_def remove_managed_projection_link_def remove_owned_link_def
  by (intro allI always_intros)

lemma shrinking_canonical: "shrinking (remove_canonical_skill M P owner skill_name)"
  unfolding remove_canonical_skill_def remove_owned_link_def Let_def by (intro allI always_intros)

lemma absent_metadata: "plain fs p \<Longrightarrow> symlink_metadata fs p = Err e \<Longrightarrow> peek fs p = None"
proof (rule ccontr)
  assume p: "plain fs p" "symlink_metadata fs p = Err e" "peek fs p \<noteq> None"
  then have "parents_real fs p" using peek_strict_prefix [of fs p] by (auto simp: parents_real_def plain_def)
  then show False using locate_real p by (auto simp: symlink_metadata_def res_simps)
qed

lemma remove_canonical_gone:
  assumes "plain (w_fs w) (canonical_path_of P owner name)" "canonical_path_of P owner name \<noteq> []"
    and run: "remove_canonical_skill M P owner name w = (Ok u, w')"
  shows "peek (w_fs w') (canonical_path_of P owner name) = None"
proof -
  let ?c = "canonical_path_of P owner name"
  obtain v where first: "remove_owned_link M ?c w = (Ok (), v)"
    and rest: "(op_ignore (remove_dir M (butlast ?c)) :: unit mz_op) v = (Ok u, w')"
    using run assms(2) unfolding remove_canonical_skill_def canonical_path_of_def Let_def by (auto elim!: op_bind_cases)
  have "peek (w_fs v) ?c = None"
  proof (cases "symlink_metadata (w_fs w) ?c")
    case (Err e)
    then show ?thesis using first absent_metadata [OF assms(1)]
      by (auto simp: remove_owned_link_def op_match_def look_def op_ok_def)
  next
    case (Ok m)
    then have "remove_file M ?c w = (Ok (), v)"
      using first by (auto simp: remove_owned_link_def op_match_def look_def op_err_def elim!: op_map_err_cases split: if_splits)
    then have "sys_unlink ?c (w_fs w) = Ok (w_fs v)" unfolding remove_file_def by (auto elim: sys_cases)
    then show ?thesis using locate_plain [OF assms(1)] assms(2) by (auto dest!: sys_unlink_changes simp: changes_only_def)
  qed
  moreover have "shrinks (w_fs v) (w_fs w')"
    using shrinkD [where m = "op_ignore (remove_dir M (butlast ?c)) :: unit mz_op" and w = v] rest by (simp add: always_intros)
  ultimately show ?thesis by (rule shrinks_None [rotated])
qed

section \<open>The journal\<close>

definition lifecycle_row :: "('v, 'm) libs \<Rightarrow> OperationId \<Rightarrow> JournalState \<Rightarrow> localdb \<Rightarrow> bool" where
  "lifecycle_row E operation_id state db \<longleftrightarrow> (\<exists>row.
     filter (\<lambda>r. oj_operation_id r = operation_text (lb_uuid E) operation_id) (operation_journal db) = [row] \<and>
     oj_kind row = ''lifecycle_local'' \<and> oj_state row = JournalState_as_str state)"

lemma find_filter: "find P xs = (case filter P xs of [] \<Rightarrow> None | x # _ \<Rightarrow> Some x)"
  by (induction xs) auto

lemma lifecycle_rows:
  assumes "lifecycle_row E op st db"
  obtains row where "oj_kind row = ''lifecycle_local''" "oj_state row = JournalState_as_str st"
    "\<forall>Q. filter (\<lambda>r. oj_operation_id r = operation_text (lb_uuid E) op \<and> Q r) (operation_journal db) = (if Q row then [row] else [])"
    "row \<in> set (operation_journal db)" "oj_operation_id row = operation_text (lb_uuid E) op"
proof -
  obtain row where row: "filter (\<lambda>r. oj_operation_id r = operation_text (lb_uuid E) op) (operation_journal db) = [row]"
    "oj_kind row = ''lifecycle_local''" "oj_state row = JournalState_as_str st" using assms by (auto simp: lifecycle_row_def)
  have "filter (\<lambda>r. oj_operation_id r = operation_text (lb_uuid E) op \<and> Q r) (operation_journal db) = (if Q row then [row] else [])" for Q
    using arg_cong [OF row(1), of "filter Q"] by (simp add: conj_commute)
  moreover have "row \<in> set (filter (\<lambda>r. oj_operation_id r = operation_text (lb_uuid E) op) (operation_journal db))"
    unfolding row(1) by simp
  ultimately show ?thesis using row(2,3) that by simp
qed

lemma lifecycle_state:
  assumes "lifecycle_row E op st db"
  shows "local_lifecycle_state (lb_uuid E) op db = (Ok st, db)"
proof -
  from assms obtain row where "oj_kind row = ''lifecycle_local''" "oj_state row = JournalState_as_str st"
    "\<forall>Q. filter (\<lambda>r. oj_operation_id r = operation_text (lb_uuid E) op \<and> Q r) (operation_journal db) = (if Q row then [row] else [])"
    by (rule lifecycle_rows)
  then show ?thesis by (simp add: local_lifecycle_state_def op_query_def sql_first_def find_filter)
qed

lemma lifecycle_row_unique: "lifecycle_row E op s db \<Longrightarrow> lifecycle_row E op t db \<Longrightarrow> s = t"
  by (auto simp: lifecycle_row_def)

text \<open>A record of a managed skill.\<close>

definition desired_present :: "ManagedDesiredKind \<Rightarrow> string \<Rightarrow> localdb \<Rightarrow> bool" where
  "desired_present kind resource_id db =
     (case kind of
        MD_Subscription \<Rightarrow> resource_id \<in> sub_resource_id ` set (subscriptions db)
      | MD_Owned \<Rightarrow> resource_id \<in> os_resource_id ` set (owned_skills db)
      | MD_Pack \<Rightarrow> resource_id \<in> pms_resource_id ` set (pack_materialized_skills db))"

lemma advance_lifecycle:
  assumes "lifecycle_row E op st db" "JournalState_next st = Some n"
  shows "\<exists>db'. (advance_local_lifecycle (lb_uuid E) op st now db = (Ok (), db') \<and> lifecycle_row E op n db' \<or>
      db' = db \<and> (\<exists>e. advance_local_lifecycle (lb_uuid E) op st now db = (Err e, db))) \<and>
    (\<forall>k x. desired_present k x db' = desired_present k x db)"
proof -
  let ?P = "\<lambda>r. oj_operation_id r = operation_text (lb_uuid E) op \<and> oj_kind r = ''lifecycle_local'' \<and> oj_state r = JournalState_as_str st"
  let ?f = "\<lambda>r. r\<lparr>oj_state := JournalState_as_str n, oj_updated_at_unix_ms := now\<rparr>"
  let ?g = "\<lambda>r. if ?P r then ?f r else r"
  from assms(1) obtain row where row: "oj_kind row = ''lifecycle_local''" "oj_state row = JournalState_as_str st"
    "\<forall>Q. filter (\<lambda>r. oj_operation_id r = operation_text (lb_uuid E) op \<and> Q r) (operation_journal db) = (if Q row then [row] else [])"
    "row \<in> set (operation_journal db)" "oj_operation_id row = operation_text (lb_uuid E) op"
    by (rule lifecycle_rows)
  have count: "sql_count ?P (operation_journal db) = 1" using row(1,2) row(3) [rule_format, of "\<lambda>r. oj_kind r = ''lifecycle_local'' \<and> oj_state r = JournalState_as_str st"]
    by (simp add: sql_count_def)
  have key: "oj_operation_id (?g r) = oj_operation_id r" for r by simp
  have "filter (\<lambda>r. oj_operation_id r = operation_text (lb_uuid E) op) (map ?g (operation_journal db)) = [?f row]"
    using row(3) [rule_format, of "\<lambda>_. True"] row(1,2,5) by (simp add: filter_map comp_def key)
  then have moved: "lifecycle_row E op n (db\<lparr>operation_journal := map ?g (operation_journal db)\<rparr>)"
    using row(1) by (simp add: lifecycle_row_def)
  show ?thesis
  proof (cases "sql_update (tb_admit journal_t db) ?P ?f (operation_journal db)")
    case None
    then have "\<exists>e. advance_local_lifecycle (lb_uuid E) op st now db = (Err e, db)"
      by (simp add: advance_local_lifecycle_def assms(2) expect_one_def op_bind_def update_where_def sql_exec_def journal_t_def)
    then show ?thesis by (intro exI [of _ db]) simp
  next
    case (Some t)
    then have t: "t = map ?g (operation_journal db)" by (auto simp: sql_update_def split: if_splits)
    have "advance_local_lifecycle (lb_uuid E) op st now db = (Ok (), db\<lparr>operation_journal := t\<rparr>)"
      using Some count
      by (simp add: advance_local_lifecycle_def assms(2) expect_one_def op_bind_def update_where_def sql_exec_def journal_t_def op_ok_def)
    then show ?thesis
      using moved t by (intro exI [of _ "db\<lparr>operation_journal := t\<rparr>"]) (simp add: desired_present_def split: ManagedDesiredKind.splits)
  qed
qed

lemma remove_desired_gone:
  assumes "remove_desired M kind x w = (r, w')"
  shows "w_fs w' = w_fs w" "operation_journal (w_db w') = operation_journal (w_db w)"
    "is_ok r \<Longrightarrow> \<not> desired_present kind x (w_db w')" "\<not> is_ok r \<Longrightarrow> w_db w' = w_db w"
  using assms
  by (cases kind; auto simp: remove_desired_def db_call_now_def db_call_def remove_subscription_def remove_owned_skill_def
      remove_pack_materialized_record_def delete_subscriptions_def delete_owned_def delete_from_def pack_materialized_t_def Let_def
      op_bind_def op_ok_def sql_delete_def desired_present_def tick_def elim!: op_map_err_cases split: option.splits)+

section \<open>The invariant of a removal\<close>

definition removing ::
  "('v, 'm) libs \<Rightarrow> LocalPaths \<Rightarrow> OperationId \<Rightarrow> RemovePayload \<Rightarrow> JournalState set \<Rightarrow> localdb world \<Rightarrow> bool" where
  "removing E P operation_id payload passed w \<longleftrightarrow>
     (let canonical = canonical_path_of P (rm_owner payload) (rm_skill_name payload) in
      canonical \<noteq> [] \<and> plain (w_fs w) canonical \<and> (\<exists>st. st \<notin> passed \<and> lifecycle_row E operation_id st (w_db w) \<and>
      (st \<in> {Planned, Staged} \<longrightarrow> desired_present (rm_desired_kind payload) (rm_resource_id payload) (w_db w)) \<and>
      (st \<notin> {Planned, Staged} \<longrightarrow> peek (w_fs w) canonical = None) \<and>
      (st \<in> {Switched, Complete} \<longrightarrow> \<not> desired_present (rm_desired_kind payload) (rm_resource_id payload) (w_db w))))"

text \<open>
  A step of the removal: it may fail after removing some paths; when it succeeds, what the next state
  stands for holds.
\<close>

definition step_of ::
  "('v, 'm) libs \<Rightarrow> LocalPaths \<Rightarrow> OperationId \<Rightarrow> RemovePayload \<Rightarrow> JournalState \<Rightarrow> unit ll_op \<Rightarrow> bool" where
  "step_of E P operation_id payload st step \<longleftrightarrow>
     (let canonical = canonical_path_of P (rm_owner payload) (rm_skill_name payload);
          present = desired_present (rm_desired_kind payload) (rm_resource_id payload) in
      \<forall>w r w'. plain (w_fs w) canonical \<longrightarrow> canonical \<noteq> [] \<longrightarrow> step w = (r, w') \<longrightarrow>
        shrinks (w_fs w) (w_fs w') \<and> operation_journal (w_db w') = operation_journal (w_db w) \<and>
        (\<not> is_ok r \<or> st \<noteq> Verified \<longrightarrow> present (w_db w') = present (w_db w)) \<and>
        (is_ok r \<and> st = Staged \<longrightarrow> peek (w_fs w') canonical = None) \<and>
        (is_ok r \<and> st = Verified \<longrightarrow> \<not> present (w_db w')))"

lemma op_map_err_ok: "op_map_err h m w = (r, w') \<Longrightarrow> \<exists>r'. m w = (r', w') \<and> is_ok r' = is_ok r \<and> (\<forall>x. r = Ok x \<longrightarrow> r' = Ok x)"
  by (auto elim!: op_map_err_cases)

lemma removal_steps:
  "step_of E P op payload Planned (op_map_err LL_Projection (remove_managed_skill_projection M P roots rc))"
  "step_of E P op payload Staged (op_map_err LL_Materialization (remove_canonical_skill M P (rm_owner payload) (rm_skill_name payload)))"
  "step_of E P op payload Verified (remove_desired M (rm_desired_kind payload) (rm_resource_id payload))"
  "step_of E P op payload Switched (op_ok ())"
proof -
  show "step_of E P op payload Planned (op_map_err LL_Projection (remove_managed_skill_projection M P roots rc))"
    unfolding step_of_def Let_def by (auto dest!: op_map_err_ok shrinkD [OF shrinking_projection])
  show "step_of E P op payload Staged (op_map_err LL_Materialization (remove_canonical_skill M P (rm_owner payload) (rm_skill_name payload)))"
    unfolding step_of_def Let_def
    by (auto simp: is_ok_iff dest!: op_map_err_ok dest: shrinkD [OF shrinking_canonical] remove_canonical_gone)
  show "step_of E P op payload Verified (remove_desired M (rm_desired_kind payload) (rm_resource_id payload))"
    unfolding step_of_def Let_def
  proof (intro allI impI)
    fix w w' :: "localdb world" and r assume "remove_desired M (rm_desired_kind payload) (rm_resource_id payload) w = (r, w')"
    from remove_desired_gone [OF this]
    show "shrinks (w_fs w) (w_fs w') \<and> operation_journal (w_db w') = operation_journal (w_db w) \<and>
        (\<not> is_ok r \<or> Verified \<noteq> Verified \<longrightarrow> desired_present (rm_desired_kind payload) (rm_resource_id payload) (w_db w') =
          desired_present (rm_desired_kind payload) (rm_resource_id payload) (w_db w)) \<and>
        (is_ok r \<and> Verified = Staged \<longrightarrow> peek (w_fs w') (canonical_path_of P (rm_owner payload) (rm_skill_name payload)) = None) \<and>
        (is_ok r \<and> Verified = Verified \<longrightarrow> \<not> desired_present (rm_desired_kind payload) (rm_resource_id payload) (w_db w'))" by simp
  qed
  show "step_of E P op payload Switched (op_ok ())"
    unfolding step_of_def Let_def by (auto simp: op_ok_def)
qed

lemma lifecycle_row_journal: "operation_journal db' = operation_journal db \<Longrightarrow> lifecycle_row E op st db \<Longrightarrow> lifecycle_row E op st db'"
  by (simp add: lifecycle_row_def)

lemma advance_to_runs:
  assumes "lifecycle_row E op st (w_db w)" "JournalState_next st = Some n" "advance_to E M op st w = (r, w')"
  shows "w_fs w' = w_fs w" "is_ok r \<Longrightarrow> lifecycle_row E op n (w_db w')" "\<not> is_ok r \<Longrightarrow> w_db w' = w_db w"
    "desired_present k x (w_db w') = desired_present k x (w_db w)"
proof -
  obtain db' where d: "advance_local_lifecycle (lb_uuid E) op st (now_unix_ms M w) (w_db w) = (Ok (), db') \<and> lifecycle_row E op n db' \<or>
      db' = w_db w \<and> (\<exists>e. advance_local_lifecycle (lb_uuid E) op st (now_unix_ms M w) (w_db w) = (Err e, w_db w))"
    "\<forall>k x. desired_present k x db' = desired_present k x (w_db w)" using advance_lifecycle [OF assms(1,2)] by blast
  show "w_fs w' = w_fs w" "is_ok r \<Longrightarrow> lifecycle_row E op n (w_db w')" "\<not> is_ok r \<Longrightarrow> w_db w' = w_db w"
    "desired_present k x (w_db w') = desired_present k x (w_db w)"
    using assms(3) d by (auto simp: advance_to_def db_call_now_def db_call_def elim!: op_map_err_cases split: option.splits)
qed

lemma removingI:
  assumes "canonical_path_of P (rm_owner payload) (rm_skill_name payload) \<noteq> []"
    "plain (w_fs w) (canonical_path_of P (rm_owner payload) (rm_skill_name payload))" "lifecycle_row E op st (w_db w)" "st \<notin> passed"
    "st \<in> {Planned, Staged} \<Longrightarrow> desired_present (rm_desired_kind payload) (rm_resource_id payload) (w_db w)"
    "st \<notin> {Planned, Staged} \<Longrightarrow> peek (w_fs w) (canonical_path_of P (rm_owner payload) (rm_skill_name payload)) = None"
    "st \<in> {Switched, Complete} \<Longrightarrow> \<not> desired_present (rm_desired_kind payload) (rm_resource_id payload) (w_db w)"
  shows "removing E P op payload passed w"
  using assms unfolding removing_def Let_def by blast

lemma perform_step:
  assumes inv: "removing E P op payload passed w" and st: "lifecycle_row E op st (w_db w)" "JournalState_next st = Some n"
    and passed: "n \<notin> passed"
    and step: "step_of E P op payload st step"
    and run: "op_bind step (\<lambda>_. advance_to E M op st) w = (r, w')"
  shows "removing E P op payload passed w' \<and> (is_ok r \<longrightarrow> removing E P op payload (insert st passed) w')"
proof -
  let ?c = "canonical_path_of P (rm_owner payload) (rm_skill_name payload)"
  let ?present = "desired_present (rm_desired_kind payload) (rm_resource_id payload)"
  have c: "?c \<noteq> []" "plain (w_fs w) ?c" and now: "st \<notin> passed" "st \<in> {Planned, Staged} \<Longrightarrow> ?present (w_db w)"
      "st \<notin> {Planned, Staged} \<Longrightarrow> peek (w_fs w) ?c = None" "st \<in> {Switched, Complete} \<Longrightarrow> \<not> ?present (w_db w)"
    using inv lifecycle_row_unique [OF st(1)] unfolding removing_def Let_def by blast+
  note does = step [unfolded step_of_def Let_def, rule_format, OF c(2,1)]
  from run show ?thesis
  proof (cases rule: op_bind_cases)
    case (1 e)
    have fs: "shrinks (w_fs w) (w_fs w')" "operation_journal (w_db w') = operation_journal (w_db w)" "?present (w_db w') = ?present (w_db w)"
      using does [OF 1(1)] by simp_all
    show ?thesis
      using 1 removingI [OF c(1) shrinks_plain [OF fs(1) c(2)] lifecycle_row_journal [OF fs(2) st(1)] now(1)] now fs(3)
        shrinks_None [OF fs(1)] by simp
  next
    case (2 x v)
    have fs: "shrinks (w_fs w) (w_fs v)" "operation_journal (w_db v) = operation_journal (w_db w)"
      "st \<noteq> Verified \<Longrightarrow> ?present (w_db v) = ?present (w_db w)" "st = Staged \<Longrightarrow> peek (w_fs v) ?c = None"
      "st = Verified \<Longrightarrow> \<not> ?present (w_db v)" using does [OF 2(1)] by simp_all
    have row: "lifecycle_row E op st (w_db v)" by (rule lifecycle_row_journal [OF fs(2) st(1)])
    note adv = advance_to_runs [OF row st(2) 2(2)]
    have plain: "plain (w_fs w') ?c" using shrinks_plain [OF fs(1) c(2)] adv(1) by simp
    have gone: "peek (w_fs w') ?c = None" if "st \<notin> {Planned}"
      using that now(3) shrinks_None [OF fs(1)] fs(4) adv(1) by (cases "st = Staged") auto
    show ?thesis
    proof (cases "is_ok r")
      case True
      have "removing E P op payload (insert st passed) w'"
        by (rule removingI [OF c(1) plain adv(2) [OF True]]) (use st(2) passed now fs gone adv(4) in \<open>cases st; simp\<close>)+
      then show ?thesis unfolding removing_def Let_def by blast
    next
      case False
      have "removing E P op payload passed w'"
        by (rule removingI [OF c(1) plain _ now(1)]) (use st(2) row adv(3) [OF False] now fs gone in \<open>cases st; simp\<close>)+
      then show ?thesis using False by simp
    qed
  qed
qed

lemma in_state_removes:
  assumes inv: "removing E P op payload passed w" and step: "step_of E P op payload st step"
    and "JournalState_next st = Some n" "n \<notin> passed"
    and run: "in_state E M op st step w = (r, w')"
  shows "removing E P op payload passed w' \<and> (is_ok r \<longrightarrow> removing E P op payload (insert st passed) w')"
proof -
  obtain s where row: "lifecycle_row E op s (w_db w)" "s \<notin> passed" using inv unfolding removing_def Let_def by blast
  have ticked: "removing E P op payload X (tick w) = removing E P op payload X w" for X by (simp add: removing_def)
  show ?thesis
  proof (cases "db_fault M (w_tick w)")
    case (Some e)
    then have "r = Err (LL_Database e)" "w' = tick w"
      using run by (auto simp: in_state_def op_bind_def op_map_err_def db_call_now_def db_call_def)
    then show ?thesis using inv ticked by simp
  next
    case None
    then have rest: "(if s = st then op_bind step (\<lambda>_. advance_to E M op st) else op_ok ()) (tick w) = (r, w')"
      using run lifecycle_state [OF row(1)] by (simp add: in_state_def op_bind_def op_map_err_def db_call_now_def db_call_def tick_def)
    show ?thesis
    proof (cases "s = st")
      case True
      with rest have "op_bind step (\<lambda>_. advance_to E M op st) (tick w) = (r, w')" by simp
      from perform_step [OF _ _ assms(3,4) step this] show ?thesis using inv ticked row True by simp
    next
      case False
      then have "w' = tick w" using rest by (simp add: op_ok_def)
      moreover have "removing E P op payload (insert st passed) w"
        using inv lifecycle_row_unique [OF row(1)] False unfolding removing_def Let_def by blast
      ultimately show ?thesis using inv ticked by simp
    qed
  qed
qed

lemma recover_remove_keeps:
  assumes inv: "removing E P op payload {} w" and st: "lifecycle_row E op st (w_db w)"
    and run: "recover_remove E M P roots op st payload w = (r, w')"
  shows "removing E P op payload {} w' \<and> (is_ok r \<longrightarrow> removing E P op payload {Planned, Staged, Verified, Switched} w')"
proof -
  have weaker: "removing E P op payload X v \<Longrightarrow> removing E P op payload {} v" for X v unfolding removing_def Let_def by blast
  from run [unfolded recover_remove_def] show ?thesis
  proof (cases rule: op_bind_cases)
    case (1 e)
    then have "op_bind (op_map_err LL_Projection (remove_managed_skill_projection M P roots
           (old_record (rm_resource_id payload) (rm_owner payload) (rm_skill_name payload) (rm_harness_name payload)))) (\<lambda>_.
         advance_to E M op Planned) w = (r, w')" and "st = Planned" by (auto simp: op_ok_def split: if_splits)
    from perform_step [OF inv st [unfolded this(2)] _ _ removal_steps(1) this(1)] 1 show ?thesis by simp
  next
    case (2 u v)
    have v: "removing E P op payload {Planned} v"
    proof (cases "st = Planned")
      case True
      then have "op_bind (op_map_err LL_Projection (remove_managed_skill_projection M P roots
             (old_record (rm_resource_id payload) (rm_owner payload) (rm_skill_name payload) (rm_harness_name payload)))) (\<lambda>_.
           advance_to E M op Planned) w = (Ok u, v)" using 2(1) by simp
      from perform_step [OF inv st [unfolded True] _ _ removal_steps(1) this] show ?thesis by simp
    next
      case False
      then have "v = w" using 2(1) by (simp add: op_ok_def)
      then show ?thesis using inv lifecycle_row_unique [OF st] False unfolding removing_def Let_def by blast
    qed
    from 2(2) show ?thesis
    proof (cases rule: op_bind_cases)
      case (1 e)
      from in_state_removes [OF v removal_steps(2) _ _ 1(1)] 1 weaker show ?thesis by auto
    next
      case (2 u2 v2)
      have v2: "removing E P op payload {Staged, Planned} v2"
        using in_state_removes [OF v removal_steps(2) _ _ 2(1)] by simp
      from 2(2) show ?thesis
      proof (cases rule: op_bind_cases)
        case (1 e)
        from in_state_removes [OF v2 removal_steps(3) _ _ 1(1)] 1 weaker show ?thesis by auto
      next
        case (2 u3 v3)
        have v3: "removing E P op payload {Verified, Staged, Planned} v3"
          using in_state_removes [OF v2 removal_steps(3) _ _ 2(1)] by simp
        have "{Switched, Verified, Staged, Planned} = {Planned, Staged, Verified, Switched}" by blast
        with in_state_removes [OF v3 removal_steps(4) _ _ 2(2)] weaker show ?thesis by auto
      qed
    qed
  qed
qed

section \<open>The properties\<close>

text \<open>The worlds a removal passes through when each run is cut off somewhere and another one resumes it.\<close>

inductive removal_runs ::
  "('v, 'm) libs \<Rightarrow> LocalPaths \<Rightarrow> ResolvedHarnessRoots \<Rightarrow> OperationId \<Rightarrow> RemovePayload \<Rightarrow> localdb world \<Rightarrow> localdb world \<Rightarrow> bool"
  for E P roots operation_id payload w where
  planned: "removal_runs E P roots operation_id payload w w"
| resumed: "removal_runs E P roots operation_id payload w v \<Longrightarrow>
    fst (local_lifecycle_state (lb_uuid E) operation_id (w_db v)) = Ok state \<Longrightarrow>
    recover_remove E M P roots operation_id state payload v = (r, v') \<Longrightarrow> removal_runs E P roots operation_id payload w v'"

lemma removal_runs_inv:
  "removal_runs E P roots op payload w v \<Longrightarrow> removing E P op payload {} w \<Longrightarrow> removing E P op payload {} v"
proof (induction rule: removal_runs.induct)
  case (resumed v state M r v')
  then obtain s where row: "lifecycle_row E op s (w_db v)" unfolding removing_def Let_def by blast
  then have "s = state" using resumed.hyps(2) lifecycle_state [OF row] by simp
  with recover_remove_keeps [OF _ row] resumed show ?case by blast
qed

text \<open>C6. Removing a managed skill is safe against crashes.  However often its removal is cut off and
  resumed, on any machine, the record of the skill is gone only when nothing is left at the
  canonical path, and whenever a run returns successfully the journal entry is complete, the record
  is gone and so is the link.  So no skill is left installed that the database does not know.\<close>

theorem removal_survives_crashes:
  assumes "lifecycle_row E operation_id Planned (w_db w)"
    and "desired_present (rm_desired_kind payload) (rm_resource_id payload) (w_db w)"
    and "plain (w_fs w) (canonical_path_of P (rm_owner payload) (rm_skill_name payload))"
    and "canonical_path_of P (rm_owner payload) (rm_skill_name payload) \<noteq> []"
    and "removal_runs E P roots operation_id payload w v"
  shows "(desired_present (rm_desired_kind payload) (rm_resource_id payload) (w_db v) \<or>
      peek (w_fs v) (canonical_path_of P (rm_owner payload) (rm_skill_name payload)) = None) \<and>
    (\<forall>state M v'. fst (local_lifecycle_state (lb_uuid E) operation_id (w_db v)) = Ok state \<longrightarrow>
      recover_remove E M P roots operation_id state payload v = (Ok (), v') \<longrightarrow>
      fst (local_lifecycle_state (lb_uuid E) operation_id (w_db v')) = Ok Complete \<and>
      \<not> desired_present (rm_desired_kind payload) (rm_resource_id payload) (w_db v') \<and>
      peek (w_fs v') (canonical_path_of P (rm_owner payload) (rm_skill_name payload)) = None)"
proof -
  have "removing E P operation_id payload {} w" by (rule removingI [OF assms(4,3,1)]) (use assms(2) in auto)
  then have inv: "removing E P operation_id payload {} v" by (rule removal_runs_inv [OF assms(5)])
  show ?thesis
  proof (intro conjI allI impI)
    show "desired_present (rm_desired_kind payload) (rm_resource_id payload) (w_db v) \<or>
        peek (w_fs v) (canonical_path_of P (rm_owner payload) (rm_skill_name payload)) = None"
      using inv unfolding removing_def Let_def by (elim conjE exE) metis
    fix state M v'
    assume state: "fst (local_lifecycle_state (lb_uuid E) operation_id (w_db v)) = Ok state"
      and run: "recover_remove E M P roots operation_id state payload v = (Ok (), v')"
    obtain s where row: "lifecycle_row E operation_id s (w_db v)" using inv unfolding removing_def Let_def by blast
    then have "s = state" using state lifecycle_state [OF row] by simp
    with recover_remove_keeps [OF inv row] run have "removing E P operation_id payload {Planned, Staged, Verified, Switched} v'" by simp
    then obtain t where t: "t \<notin> {Planned, Staged, Verified, Switched}" "lifecycle_row E operation_id t (w_db v')"
      and rest: "peek (w_fs v') (canonical_path_of P (rm_owner payload) (rm_skill_name payload)) = None \<or> t \<in> {Planned, Staged}"
        "\<not> desired_present (rm_desired_kind payload) (rm_resource_id payload) (w_db v') \<or> t \<notin> {Switched, Complete}"
      unfolding removing_def Let_def by blast
    have "t = Complete" using t(1) by (cases t) auto
    then show "fst (local_lifecycle_state (lb_uuid E) operation_id (w_db v')) = Ok Complete"
      "\<not> desired_present (rm_desired_kind payload) (rm_resource_id payload) (w_db v')"
      "peek (w_fs v') (canonical_path_of P (rm_owner payload) (rm_skill_name payload)) = None"
      using rest lifecycle_state [OF t(2)] by auto
  qed
qed

text \<open>An example: the removal of an installed skill of the user, on a machine that fails at any point.\<close>

definition removal_payload :: RemovePayload where
  "removal_payload = \<lparr>rm_resource_id = ''a'', rm_owner = ''alice'', rm_skill_name = ''review'', rm_harness_name = None,
     rm_desired_kind = MD_Owned\<rparr>"

definition removal_world :: "localdb world" where
  "removal_world =
     \<lparr>w_fs = DirN [(''.denju'', DirN [(''skills'', DirN [(''alice'', DirN [(''review'', LinkN ''/g'')])])]), (''g'', DirN [])],
      w_db = empty_db\<lparr>owned_skills :=
          [\<lparr>os_resource_id = ''a'', os_locator = ''@alice/review'', os_owner = ''alice'', os_skill_name = ''review'',
            os_resource_generation = 1, os_workspace_generation = 1, os_desired_revision_id = ''b'',
            os_harness_name = None, os_materialized_revision_id = Some ''b'', os_updated_at_unix_ms = 0\<rparr>],
        operation_journal := [planned_row ''op'' ''lifecycle_local'' ''{}'' 0]\<rparr>,
      w_tick = 0\<rparr>"

definition removal_roots :: ResolvedHarnessRoots where
  "removal_roots = \<lparr>codex_root = [''.agents'', ''skills''], claude_root = [''.claude'', ''skills'']\<rparr>"

definition removal_libs :: "(flat_yaml, (flat_yaml \<times> flat_yaml) list) libs" where
  "removal_libs =
     \<lparr>lb_unicode = ascii_tables, lb_yaml = flat_lib, lb_sha = zero_hash, lb_archive = one_archive [],
      lb_uuid = \<lparr>uu_version_num = \<lambda>_. 7, uu_parse_str = Ok, uu_to_string = \<lambda>b. b\<rparr>,
      lb_hex = \<lambda>_. ''b'', lb_unhex = Ok, lb_walk = \<lambda>n. [],
      lb_materialization = \<lparr>to_text = \<lambda>_. Ok ''{}'', from_text = \<lambda>_. Err ''blank''\<rparr>,
      lb_writeback = \<lparr>to_text = \<lambda>_. Ok ''{}'', from_text = \<lambda>_. Err ''blank''\<rparr>\<rparr>"

theorem removal_survives_crashes_witness:
  "\<forall>M. let v = snd (recover_remove removal_libs M (from_home []) removal_roots (OperationId ''op'') Planned removal_payload removal_world)
     in desired_present MD_Owned ''a'' (w_db v) \<or> peek (w_fs v) [''.denju'', ''skills'', ''alice'', ''review''] = None"
proof
  fix M
  obtain r v where run: "recover_remove removal_libs M (from_home []) removal_roots (OperationId ''op'') Planned removal_payload removal_world = (r, v)"
    by (metis prod.collapse)
  have "plain_name ''.denju''" "plain_name ''skills''" "plain_name ''alice''" "plain_name ''review''" by (simp_all add: plain_name_def)
  then have c: "canonical_path_of (from_home []) ''alice'' ''review'' = [''.denju'', ''skills'', ''alice'', ''review'']"
    by (simp add: canonical_path_of_def from_home_def Let_def)
  have row: "lifecycle_row removal_libs (OperationId ''op'') Planned (w_db removal_world)"
    by (simp add: lifecycle_row_def removal_world_def planned_row_def removal_libs_def operation_text_def)
  have there: "desired_present MD_Owned ''a'' (w_db removal_world)" by (simp add: desired_present_def removal_world_def)
  have "peek (w_fs removal_world) [''.denju'', ''skills'', ''alice'', ''review''] \<noteq> None" by (simp add: removal_world_def peek_def)
  then have pl: "plain (w_fs removal_world) [''.denju'', ''skills'', ''alice'', ''review'']"
    using peek_strict_prefix [of "w_fs removal_world"] by (auto simp: plain_def)
  have runs: "removal_runs removal_libs (from_home []) removal_roots (OperationId ''op'') removal_payload removal_world v"
    using removal_runs.resumed [OF removal_runs.planned _ run] lifecycle_state [OF row] by simp
  note p = removal_payload_def
  from removal_survives_crashes [of removal_libs "OperationId ''op''" removal_world removal_payload "from_home []" removal_roots v]
  show "let v = snd (recover_remove removal_libs M (from_home []) removal_roots (OperationId ''op'') Planned removal_payload removal_world)
     in desired_present MD_Owned ''a'' (w_db v) \<or> peek (w_fs v) [''.denju'', ''skills'', ''alice'', ''review''] = None"
    using row there pl runs run by (simp add: removal_payload_def c)
qed

end
