(* ===== verification/Workspace_Scan.thy ===== *)
theory Workspace_Scan
  imports Materialize
begin

text \<open>
  \<open>crates/denju-local/src/workspace.rs\<close> and \<open>workspace_watch.rs\<close>: the scan of an owned workspace that
  hashes only what changed since the last one, the objects it stores, and the queue of hints of the
  file watcher.
\<close>

section \<open>Data\<close>

record WorkspaceScanStats =
  hashed_files :: nat
  reused_files :: nat

record WorkspaceScan =
  wsc_manifest :: SkillManifest
  wsc_stats :: WorkspaceScanStats
  wsc_working_generation_path :: path

record FilesystemScan = WorkspaceScan +
  fsc_index :: "WorkspaceFileRecord list"

text \<open>Where the code stores the text of an error, the error itself is kept.\<close>

datatype ws_reason = WS_Text string | WS_Object ObjectIdError | WS_Skill SkillValidationError | WS_Snapshot SnapshotError

datatype WorkspaceScanError =
    WS_Io IoError
  | WS_Database LocalDbError
  | WS_Walk IoError
  | MissingCanonical path
  | UnmanagedCanonical path
  | PendingRename string
  | WS_Validation ws_reason
  | WS_Corrupt ws_reason

type_synonym 'a ws_op = "(localdb world, 'a, WorkspaceScanError) op"

abbreviation ws_io :: "(localdb world, 'a, IoError) op \<Rightarrow> 'a ws_op" where
  "ws_io m \<equiv> op_map_err WS_Io m"

section \<open>Objects\<close>

definition blob_text :: "('v, 'm) libs \<Rightarrow> BlobId \<Rightarrow> string" where
  "blob_text E blob = lb_hex E (blob_bytes blob)"

definition workspace_blob_path :: "('v, 'm) libs \<Rightarrow> LocalPaths \<Rightarrow> BlobId \<Rightarrow> path" where
  "workspace_blob_path E P blob =
     (let id = blob_text E blob in path_join (path_join (lp_objects P) (take 2 id)) id)"

definition store_workspace_blob :: "('v, 'm) libs \<Rightarrow> local_machine \<Rightarrow> LocalPaths \<Rightarrow> BlobId \<Rightarrow> string \<Rightarrow> unit ws_op" where
  "store_workspace_blob E M P blob bytes =
     (let destination = workspace_blob_path E P blob in
      op_bind (look (\<lambda>fs. Ok (is_file fs destination))) (\<lambda>present.
      if present then
        op_bind (look (\<lambda>fs. map_err WS_Io (fs_read fs destination))) (\<lambda>found.
        if BlobId_hash (lb_sha E) found \<noteq> blob
        then op_err (WS_Corrupt (WS_Text (''local CAS object '' @ blob_text E blob @ '' does not match its content'')))
        else op_ok ())
      else if destination = [] then op_err (WS_Corrupt (WS_Text ''CAS path has no parent''))
      else
        (let parent = butlast destination in
         op_bind (ws_io (create_dir_all M parent)) (\<lambda>_.
         op_bind (fresh_id M) (\<lambda>uuid.
         let temporary = path_join parent (''.'' @ blob_text E blob @ ''.tmp-'' @ uu_to_string (lb_uuid E) uuid) in
         op_bind (ws_io (write_new M temporary bytes)) (\<lambda>_.
         op_bind (ws_io (sync_dir M temporary)) (\<lambda>_.
         ws_io (fs_rename M temporary destination))))))))"

fun file_bytes :: "OwnedSkillEntry \<Rightarrow> string option" where
  "file_bytes (OE_File path bytes executable) = Some bytes"
| "file_bytes e = None"

definition store_workspace_entries :: "('v, 'm) libs \<Rightarrow> local_machine \<Rightarrow> LocalPaths \<Rightarrow> OwnedSkillEntry list \<Rightarrow> unit ws_op" where
  "store_workspace_entries E M P entries =
     op_each (\<lambda>entry. case file_bytes entry of
       Some bytes \<Rightarrow> store_workspace_blob E M P (BlobId_hash (lb_sha E) bytes) bytes
     | None \<Rightarrow> op_ok ()) entries"

fun entry_from_manifest ::
  "('v, 'm) libs \<Rightarrow> LocalPaths \<Rightarrow> node \<Rightarrow> SkillManifestEntry \<Rightarrow> (OwnedSkillEntry, WorkspaceScanError) result" where
  "entry_from_manifest E P fs (ME_File path blob file_size executable) =
     res_bind (map_err WS_Io (fs_read fs (workspace_blob_path E P blob))) (\<lambda>bytes.
     if BlobId_hash (lb_sha E) bytes \<noteq> blob \<or> int (length bytes) \<noteq> uint file_size
     then Err (WS_Corrupt (WS_Text (''local CAS object '' @ blob_text E blob @ '' does not match revision manifest'')))
     else Ok (OE_File path bytes executable))"
| "entry_from_manifest E P fs (ME_Directory path) = Ok (OE_Directory path)"
| "entry_from_manifest E P fs (ME_Symlink path target) = Ok (OE_Symlink path target)"

definition workspace_entries_from_manifest ::
  "('v, 'm) libs \<Rightarrow> LocalPaths \<Rightarrow> SkillManifest \<Rightarrow> node \<Rightarrow> (OwnedSkillEntry list, WorkspaceScanError) result" where
  "workspace_entries_from_manifest E P manifest fs = collect_res (entry_from_manifest E P fs) (m_entries manifest)"

section \<open>The scan\<close>

text \<open>The modification times of the files, in nanoseconds since the epoch, are given.\<close>

definition metadata_mtime_ns :: "int \<Rightarrow> (int, WorkspaceScanError) result" where
  "metadata_mtime_ns nanos =
     (if nanos < 0 then Err (WS_Corrupt (WS_Text ''second time provided was later than self''))
      else if nanos \<ge> 2 ^ 63 then Err (WS_Corrupt (WS_Text ''mtime is out of range''))
      else Ok nanos)"

record scan_state =
  ss_entries :: "SkillManifestEntry list"
  ss_index :: "WorkspaceFileRecord list"
  ss_skill_md :: "string option"
  ss_stats :: WorkspaceScanStats

definition index_row :: "string \<Rightarrow> string \<Rightarrow> string \<Rightarrow> WorkspaceFileRecord" where
  "index_row resource_id path kind =
     \<lparr>wf_resource_id = resource_id, wf_path = path, wf_kind = kind, wf_size_bytes = None, wf_mtime_ns = None,
      wf_executable = None, wf_blob_id = None, wf_symlink_target = None\<rparr>"

definition push_entry :: "SkillManifestEntry \<Rightarrow> WorkspaceFileRecord \<Rightarrow> scan_state \<Rightarrow> scan_state" where
  "push_entry entry row s = s\<lparr>ss_entries := ss_entries s @ [entry], ss_index := ss_index s @ [row]\<rparr>"

definition reusable_row :: "bool \<Rightarrow> WorkspaceFileRecord option \<Rightarrow> int \<Rightarrow> int \<Rightarrow> bool \<Rightarrow> bool" where
  "reusable_row force_full_hash old file_size mtime_ns executable \<longleftrightarrow>
     \<not> force_full_hash \<and> (case old of
       None \<Rightarrow> False
     | Some row \<Rightarrow> wf_kind row = ''file'' \<and> wf_size_bytes row = Some file_size \<and> wf_mtime_ns row = Some mtime_ns \<and>
         wf_executable row = Some executable \<and> wf_blob_id row \<noteq> None)"

text \<open>The identity of a file, from the index or from its bytes, and the bytes when they were read.\<close>

definition scan_blob ::
  "('v, 'm) libs \<Rightarrow> local_machine \<Rightarrow> LocalPaths \<Rightarrow> path \<Rightarrow> string \<Rightarrow> bool \<Rightarrow> WorkspaceFileRecord option \<Rightarrow>
   (BlobId \<times> string option) ws_op" where
  "scan_blob E M P file path reusable old =
     (if reusable then
        op_bind (op_res (map_err (\<lambda>e. WS_Corrupt (WS_Object e))
          (object_id_from_str (lb_unhex E) BlobId (the (wf_blob_id (the old)))))) (\<lambda>blob.
        if path = ''SKILL.md'' then
          op_bind (look (\<lambda>fs. map_err WS_Io (fs_read fs file))) (\<lambda>bytes. op_ok (blob, Some bytes))
        else op_ok (blob, None))
      else
        op_bind (look (\<lambda>fs. map_err WS_Io (fs_read fs file))) (\<lambda>bytes.
        op_bind (store_workspace_blob E M P (BlobId_hash (lb_sha E) bytes) bytes) (\<lambda>_.
        op_ok (BlobId_hash (lb_sha E) bytes, Some bytes))))"

definition scan_file ::
  "('v, 'm) libs \<Rightarrow> local_machine \<Rightarrow> LocalPaths \<Rightarrow> (path \<Rightarrow> int) \<Rightarrow> string \<Rightarrow> (string \<rightharpoonup> WorkspaceFileRecord) \<Rightarrow> bool \<Rightarrow>
   path \<Rightarrow> string \<Rightarrow> nat \<Rightarrow> bool \<Rightarrow> scan_state \<Rightarrow> scan_state ws_op" where
  "scan_file E M P mtime resource_id previous force_full_hash file path len executable s =
     (let file_size = int len in
      if file_size \<ge> 2 ^ 63 then op_err (WS_Corrupt (WS_Text ''file is too large''))
      else
        op_bind (op_res (metadata_mtime_ns (mtime file))) (\<lambda>mtime_ns.
        let reusable = reusable_row force_full_hash (previous path) file_size mtime_ns executable in
        op_bind (scan_blob E M P file path reusable (previous path)) (\<lambda>(blob, bytes).
        op_bind (look (\<lambda>fs. Ok (if path = ''SKILL.md'' then
            (case bytes of Some b \<Rightarrow> Some b | None \<Rightarrow> (case fs_read fs file of Ok b \<Rightarrow> Some b | Err _ \<Rightarrow> None))
          else ss_skill_md s))) (\<lambda>skill_md.
        op_ok (push_entry (ME_File path blob (word_of_int file_size) executable)
          ((index_row resource_id path ''file'')\<lparr>wf_size_bytes := Some file_size, wf_mtime_ns := Some mtime_ns,
             wf_executable := Some executable, wf_blob_id := Some (blob_text E blob)\<rparr>)
          (s\<lparr>ss_skill_md := skill_md,
             ss_stats := (if reusable then (ss_stats s)\<lparr>reused_files := reused_files (ss_stats s) + 1\<rparr>
                          else (ss_stats s)\<lparr>hashed_files := hashed_files (ss_stats s) + 1\<rparr>)\<rparr>))))))"

definition scan_item ::
  "('v, 'm) libs \<Rightarrow> local_machine \<Rightarrow> LocalPaths \<Rightarrow> (path \<Rightarrow> int) \<Rightarrow> string \<Rightarrow> (string \<rightharpoonup> WorkspaceFileRecord) \<Rightarrow> bool \<Rightarrow>
   path \<Rightarrow> path \<times> node \<Rightarrow> scan_state \<Rightarrow> scan_state ws_op" where
  "scan_item E M P mtime resource_id previous force_full_hash root item s =
     (case item of (relative, n) \<Rightarrow>
      op_bind (op_res (ok_or (from_utf8 (join_with slash relative)) (WS_Corrupt (WS_Text ''workspace path is not UTF-8'')))) (\<lambda>text.
      let path = forward_slashes text in
      case n of
        LinkN t \<Rightarrow>
          op_bind (op_res (ok_or (from_utf8 t) (WS_Corrupt (WS_Text ''workspace symlink target is not UTF-8'')))) (\<lambda>target.
          let target = forward_slashes target in
          op_ok (push_entry (ME_Symlink path target) ((index_row resource_id path ''symlink'')\<lparr>wf_symlink_target := Some target\<rparr>) s))
      | DirN es \<Rightarrow> op_ok (push_entry (ME_Directory path) (index_row resource_id path ''directory'') s)
      | FileN bytes executable \<Rightarrow>
          scan_file E M P mtime resource_id previous force_full_hash (root @ relative) path (length bytes) executable s))"

primrec scan_items ::
  "('v, 'm) libs \<Rightarrow> local_machine \<Rightarrow> LocalPaths \<Rightarrow> (path \<Rightarrow> int) \<Rightarrow> string \<Rightarrow> (string \<rightharpoonup> WorkspaceFileRecord) \<Rightarrow> bool \<Rightarrow>
   path \<Rightarrow> (path \<times> node) list \<Rightarrow> scan_state \<Rightarrow> scan_state ws_op" where
  "scan_items E M P mtime resource_id previous force_full_hash root [] s = op_ok s"
| "scan_items E M P mtime resource_id previous force_full_hash root (item # items) s =
     op_bind (scan_item E M P mtime resource_id previous force_full_hash root item s) (\<lambda>s.
     scan_items E M P mtime resource_id previous force_full_hash root items s)"

definition scan_root :: "LocalPaths \<Rightarrow> OwnedSkillRecord \<Rightarrow> node \<Rightarrow> (path, WorkspaceScanError) result" where
  "scan_root P record fs =
     (let canonical = canonical_path_of P (os_owner record) (os_skill_name record) in
      res_bind (map_err (\<lambda>e. if e = NotFound then MissingCanonical canonical else WS_Io e) (canonicalize fs canonical)) (\<lambda>root.
      res_bind (map_err WS_Io (canonicalize fs (lp_generations P))) (\<lambda>generations.
      if \<not> prefix generations root then Err (UnmanagedCanonical root) else Ok root)))"

definition empty_scan :: scan_state where
  "empty_scan = \<lparr>ss_entries = [], ss_index = [], ss_skill_md = None, ss_stats = \<lparr>hashed_files = 0, reused_files = 0\<rparr>\<rparr>"

text \<open>The manifest of what was found, unless the document declares another name.\<close>

definition scan_manifest :: "('v, 'm) libs \<Rightarrow> string \<Rightarrow> scan_state \<Rightarrow> (SkillManifest, WorkspaceScanError) result" where
  "scan_manifest E skill_name s =
     res_bind (ok_or (ss_skill_md s) (WS_Validation (WS_Text ''skill directory must contain SKILL.md''))) (\<lambda>skill_md.
     res_bind (map_err (\<lambda>e. WS_Validation (WS_Skill e)) (skill_document_declared_name (lb_yaml E) skill_md)) (\<lambda>declared.
     if declared \<noteq> skill_name then Err (PendingRename declared)
     else map_err (\<lambda>e. WS_Validation (WS_Snapshot e))
       (build_skill_manifest_from_hashed_entries (lb_unicode E) (lb_yaml E) (lb_sha E) skill_name skill_md (ss_entries s))))"

definition scan_filesystem ::
  "('v, 'm) libs \<Rightarrow> local_machine \<Rightarrow> LocalPaths \<Rightarrow> (path \<Rightarrow> int) \<Rightarrow> OwnedSkillRecord \<Rightarrow> (string \<rightharpoonup> WorkspaceFileRecord) \<Rightarrow>
   bool \<Rightarrow> FilesystemScan ws_op" where
  "scan_filesystem E M P mtime record previous force_full_hash =
     op_bind (look (scan_root P record)) (\<lambda>root.
     op_bind (look (\<lambda>fs. map_err WS_Walk (walk_below E fs root))) (\<lambda>items.
     op_bind (scan_items E M P mtime (os_resource_id record) previous force_full_hash root items empty_scan) (\<lambda>s.
     op_bind (op_res (scan_manifest E (os_skill_name record) s)) (\<lambda>manifest.
     op_ok \<lparr>wsc_manifest = manifest, wsc_stats = ss_stats s, wsc_working_generation_path = root, fsc_index = ss_index s\<rparr>))))"

definition previous_index :: "WorkspaceFileRecord list \<Rightarrow> (string \<rightharpoonup> WorkspaceFileRecord)" where
  "previous_index rows = map_of (rev (map (\<lambda>row. (wf_path row, row)) rows))"

definition scan_owned_workspace ::
  "('v, 'm) libs \<Rightarrow> local_machine \<Rightarrow> LocalPaths \<Rightarrow> (path \<Rightarrow> int) \<Rightarrow> OwnedSkillRecord \<Rightarrow> bool \<Rightarrow> WorkspaceScan ws_op" where
  "scan_owned_workspace E M P mtime record force_full_hash =
     op_bind (op_map_err WS_Database (db_call_now M (\<lambda>_. get_workspace_file_index (os_resource_id record)))) (\<lambda>rows.
     op_bind (scan_filesystem E M P mtime record (previous_index rows) force_full_hash) (\<lambda>scan.
     op_bind (op_map_err WS_Database (db_call_now M (\<lambda>_. replace_workspace_file_index (os_resource_id record) (fsc_index scan)))) (\<lambda>_.
     op_ok (WorkspaceScan.truncate scan))))"

section \<open>The watcher\<close>

text \<open>
  The state the callback of the watcher and its reader share: a bounded queue of hints and a flag
  that asks for a full scan.  Each atomic access is one operation.
\<close>

record WorkspaceWatcher =
  ww_queue :: "bool list"
  ww_force_full_scan :: bool

definition WATCH_CAPACITY :: nat where
  "WATCH_CAPACITY = 64"

definition watch_start :: WorkspaceWatcher where
  "watch_start = \<lparr>ww_queue = [], ww_force_full_scan = False\<rparr>"

text \<open>The callback: the flag for an error, then the hint, and the flag again when the queue is full.\<close>

definition watch_flag :: "bool \<Rightarrow> WorkspaceWatcher \<Rightarrow> WorkspaceWatcher" where
  "watch_flag full_scan w = (if full_scan then w\<lparr>ww_force_full_scan := True\<rparr> else w)"

definition watch_send :: "bool \<Rightarrow> WorkspaceWatcher \<Rightarrow> WorkspaceWatcher \<times> bool" where
  "watch_send full_scan w =
     (if length (ww_queue w) < WATCH_CAPACITY then (w\<lparr>ww_queue := ww_queue w @ [full_scan]\<rparr>, True) else (w, False))"

definition watch_event :: "bool \<Rightarrow> WorkspaceWatcher \<Rightarrow> WorkspaceWatcher" where
  "watch_event full_scan w =
     (case watch_send full_scan (watch_flag full_scan w) of (w, sent) \<Rightarrow> if sent then w else watch_flag True w)"

text \<open>\<open>swap(false)\<close> is not reached when the hint is true already.\<close>

definition watch_swap :: "bool \<Rightarrow> WorkspaceWatcher \<Rightarrow> bool \<times> WorkspaceWatcher" where
  "watch_swap full_scan w = (if full_scan then (True, w) else (ww_force_full_scan w, w\<lparr>ww_force_full_scan := False\<rparr>))"

text \<open>The reader waits for a hint; \<open>None\<close> while there is none.\<close>

definition changed :: "WorkspaceWatcher \<Rightarrow> (bool \<times> WorkspaceWatcher) option" where
  "changed w = (case ww_queue w of [] \<Rightarrow> None | hint # rest \<Rightarrow> Some (watch_swap hint (w\<lparr>ww_queue := rest\<rparr>)))"

definition drain_full_scan_hint :: "bool \<Rightarrow> WorkspaceWatcher \<Rightarrow> bool \<times> WorkspaceWatcher" where
  "drain_full_scan_hint full_scan w =
     watch_swap (fold (\<or>) (ww_queue w) full_scan) (w\<lparr>ww_queue := []\<rparr>)"

end
