(* ===== verification/Scan_Props.thy ===== *)
theory Scan_Props
  imports Workspace_Scan Projection_Safety Materialize_Props
begin

text \<open>
  The incremental scan of an owned workspace against a full read of the same tree, and the hints of
  the file watcher.
\<close>

section \<open>Canonical paths\<close>

text \<open>What \<open>canonicalize\<close> returns holds no link and no \<open>..\<close>.\<close>

lemma walk_real:
  "walk_path fs links True cur cs = Ok q \<Longrightarrow> ''..'' \<notin> set cur \<Longrightarrow> cur = [] \<or> peek fs cur = Some S_Dir \<Longrightarrow>
   ''..'' \<notin> set q \<and> (q = [] \<or> \<not> is_link (peek fs q))"
proof (induction fs links True cur cs rule: walk_path.induct)
  case (2 fs links cur c cs)
  have up: "butlast cur = [] \<or> peek fs (butlast cur) = Some S_Dir"
    using 2(6) dir_prefix [of fs cur "butlast cur"] by (auto intro: prefixeq_butlast)
  have dots: "''..'' \<notin> set (butlast cur)" using 2(5) by (auto dest: in_set_butlastD)
  show ?case
  proof (cases "c = ''..''")
    case True
    with 2(4) 2(1) [OF _ _ dots up] show ?thesis by simp
  next
    case False
    note step = 2(4) [simplified walk_path.simps False if_False]
    show ?thesis
    proof (cases "peek fs (cur @ [c])")
      case None
      with step False 2(5) show ?thesis by (auto split: if_splits)
    next
      case (Some s)
      show ?thesis
      proof (cases s)
        case (S_Link t)
        then obtain left where "links = Suc left" using step Some by (auto split: nat.splits)
        with step Some S_Link False 2(2) [OF False Some S_Link] 2(5,6) show ?thesis by (cases "is_absolute t") auto
      qed (use step Some False 2(3) [OF False Some] 2(5) in \<open>auto split: if_splits\<close>)
    qed
  qed
qed auto

lemma canonicalize_result:
  assumes "canonicalize fs p = Ok q"
  shows "''..'' \<notin> set q" "q = [] \<or> solid fs q" "peek fs q \<noteq> None"
proof -
  have q: "walk_path fs MAX_LINKS True [] p = Ok q" "peek fs q \<noteq> None"
    using assms by (auto simp: canonicalize_def locate_follow_def res_simps split: if_splits)
  then show "''..'' \<notin> set q" "peek fs q \<noteq> None" using walk_real [OF q(1)] by simp_all
  show "q = [] \<or> solid fs q"
    using walk_real [OF q(1)] peek_strict_prefix [OF q(2)] by (auto simp: solid_def plain_def)
qed

section \<open>The objects\<close>

lemma objects_writable:
  assumes "layout_ok P fs"
  shows "writable fs (below (lp_objects P)) {} (lp_objects P) {}" "confined fs (below (lp_objects P)) {} fs"
proof -
  have obj: "peek fs (lp_objects P) = Some S_Dir" "\<And>q. prefix (lp_objects P) q \<Longrightarrow> \<not> is_link (peek fs q)"
    using assms by (simp_all add: layout_ok_def)
  have "list_all plain_name (lp_objects P)" using layout_paths(3,4) [OF assms] by (simp add: plain_name_def)
  then have dots: "''..'' \<notin> set (lp_objects P)" by (rule plain_no_dots)
  have "clear_path fs (below (lp_objects P)) {} (lp_objects P)" "reachable_dir fs (below (lp_objects P)) (lp_objects P)"
    using dots dir_prefix [OF obj(1)] by (auto simp: clear_path_def reachable_dir_def strict_prefix_def)
  then show "writable fs (below (lp_objects P)) {} (lp_objects P) {}" by (simp add: writable_def)
  show "confined fs (below (lp_objects P)) {} fs" using obj(2) by (simp add: confined_def)
qed

lemma within_store_workspace:
  assumes "writable fs0 A K (lp_objects P) {}" "libs_plain E"
  shows "within fs0 A K (store_workspace_blob E M P (BlobId_hash (lb_sha E) b) bytes)"
proof -
  let ?id = "blob_text E (BlobId_hash (lb_sha E) b)"
  have id: "name_text ?id" using assms(2) by (simp add: libs_plain_def BlobId_hash_def blob_text_def)
  have n: "plain_name (take 2 ?id)" "plain_name ?id" using id name_text_take name_text_plain by blast+
  have t: "plain_name (''.'' @ ?id @ ''.tmp-'' @ uu_to_string (lb_uuid E) u)" for u
    using name_text_append [of "uu_to_string (lb_uuid E) u" "''.'' @ ?id @ ''.tmp-''"] assms(2) id
    by (auto simp: libs_plain_def name_text_def)
  have clear: "clear_path fs0 A K (lp_objects P @ cs)" if "list_all plain_name cs" for cs
    using writable_clear [OF assms(1) plain_no_dots [OF that]] by simp
  have K: "lp_objects P @ cs \<notin> K" for cs using assms(1) by (auto simp: writable_def)
  have dst: "workspace_blob_path E P (BlobId_hash (lb_sha E) b) = lp_objects P @ [take 2 ?id, ?id]"
    using n by (simp add: workspace_blob_path_def Let_def)
  have tmp: "path_join (butlast (lp_objects P @ [take 2 ?id, ?id])) (''.'' @ ?id @ ''.tmp-'' @ uu_to_string (lb_uuid E) u) =
      lp_objects P @ [take 2 ?id, ''.'' @ ?id @ ''.tmp-'' @ uu_to_string (lb_uuid E) u]" for u
    using path_join_plain [OF t [of u]] by (simp add: butlast_append)
  have parent: "butlast (lp_objects P @ [take 2 ?id, ?id]) = lp_objects P @ [take 2 ?id]" by (simp add: butlast_append)
  have in_A: "\<And>r. prefix (lp_objects P @ cs) r \<Longrightarrow> r \<in> A" for cs
    using assms(1) by (auto simp: writable_def prefix_def)
  show ?thesis
    unfolding store_workspace_blob_def Let_def dst tmp unfolding parent
  proof (intro always_intros within_create_dir_all within_write_new within_rename)
    fix u
    let ?t = "''.'' @ ?id @ ''.tmp-'' @ uu_to_string (lb_uuid E) u"
    show "clear_path fs0 A K (lp_objects P @ [take 2 ?id])"
      "clear_path fs0 A K (lp_objects P @ [take 2 ?id, ?id])" "clear_path fs0 A K (lp_objects P @ [take 2 ?id, ?t])"
      using clear n t [of u] by simp_all
    show "lp_objects P @ [take 2 ?id, ?t] \<in> A" by (rule writable_area [OF assms(1)])
    show "lp_objects P @ [take 2 ?id, ?t] \<notin> K" by (rule K)
    show "reachable_dir fs0 A (lp_objects P @ [take 2 ?id])" by (rule writable_reachable [OF assms(1)])
    fix r
    show "prefix (lp_objects P @ [take 2 ?id, ?t]) r \<or> prefix (lp_objects P @ [take 2 ?id, ?id]) r \<Longrightarrow> r \<in> A"
      using in_A by blast
    show "(lp_objects P @ [take 2 ?id, ?t]) @ r \<in> K \<Longrightarrow> (lp_objects P @ [take 2 ?id, ?id]) @ r \<in> K"
      using K [of "[take 2 ?id, ?t] @ r"] by simp
  qed (use clear n t in simp_all)
qed

text \<open>A file that no path of the area leads to is read as it was.\<close>

lemma read_stays:
  assumes "confined fs0 A K fs" "\<And>r. prefix r p \<Longrightarrow> r \<notin> A" "''..'' \<notin> set p" "peek fs0 p = Some (S_File b x)"
  shows "fs_read fs p = Ok b"
proof -
  have eq: "peek fs r = peek fs0 r" if "prefix r p" for r using assms(1,2) that by (simp add: confined_def)
  have p: "peek fs p = Some (S_File b x)" using eq assms(4) by simp
  then have "solid fs p" using assms(3) peek_strict_prefix [of fs p] by (auto simp: solid_def plain_def)
  moreover have "parents_real fs p" using assms(3) p peek_strict_prefix [of fs p] by (auto simp: parents_real_def)
  ultimately show ?thesis using p locate_follow_real [of fs p]
    by (simp add: fs_read_def metadata_def res_simps)
qed

section \<open>From hashed entries back to entries\<close>

lemma hashed_entries_complete:
  assumes "build_skill_manifest_from_hashed_entries U Y H n bytes (map (manifest_of H) es) = Ok m"
    and "list_all oe_small es" "has_skill_md (map as_skill_entry es) bytes"
  shows "build_skill_manifest U Y H n es = Ok m"
proof -
  obtain doc trees ts where doc: "parse_skill_document Y n bytes = Ok doc"
    and entries: "m_entries m = canonical_entries H es"
    and tr: "build_manifest_tree_objects U H (canonical_entries H es) = Ok trees" "find_root trees = Ok (m_root_tree m)"
    and declared: "validate_declared_skill_manifest U H m = Ok ts"
    using assms(1) by (auto simp: build_skill_manifest_from_hashed_entries_def canonical_entries_def res_simps Let_def split: if_splits)
  note d = declared [unfolded validate_declared_Ok_iff entries]
  have "mset (map me_portable (canonical_entries H es)) = mset (map portable_of (map as_skill_entry es))"
    by (simp add: canonical_entries_def multiset.map_comp comp_def me_portable_manifest_of)
  then have "tree_conforms U (map portable_of (map as_skill_entry es))"
    using d tree_conforms_perm by blast
  moreover have "\<forall>e \<in> set (map as_skill_entry es). path_parses U (se_path e)"
    using d by (auto simp: canonical_entries_set)
  moreover have "validate_skill_name n = Ok ()"
    using doc by (auto simp: parse_skill_document_def res_simps split: if_splits prod.splits)
  ultimately have "\<exists>vs. validate_skill_directory U Y n (map as_skill_entry es) = Ok vs"
    unfolding validate_skill_directory_Ok_iff using assms(3) doc by blast
  then show ?thesis using assms(2) entries tr by (auto simp: build_skill_manifest_Ok_iff)
qed

section \<open>The scan\<close>

text \<open>
  What the scan relies on when it does not hash a file again: a row of the index with the size, the
  modification time and the mode of the file has the identity of its bytes.
\<close>

definition index_truthful ::
  "('v, 'm) libs \<Rightarrow> (path \<Rightarrow> int) \<Rightarrow> (string \<rightharpoonup> WorkspaceFileRecord) \<Rightarrow> path \<Rightarrow> node \<Rightarrow> bool" where
  "index_truthful E mtime previous root fs \<longleftrightarrow> (\<forall>p bytes x row blob.
     peek fs (root @ p) = Some (S_File bytes x) \<longrightarrow> previous (forward_slashes (join_with slash p)) = Some row \<longrightarrow>
     wf_size_bytes row = Some (int (length bytes)) \<longrightarrow> wf_mtime_ns row = Some (mtime (root @ p)) \<longrightarrow>
     wf_executable row = Some x \<longrightarrow> wf_blob_id row \<noteq> None \<longrightarrow>
     object_id_from_str (lb_unhex E) BlobId (the (wf_blob_id row)) = Ok blob \<longrightarrow> blob = BlobId_hash (lb_sha E) bytes)"

text \<open>The state of a scan after the entries \<open>es\<close>.\<close>

definition scanned :: "('v, 'm) libs \<Rightarrow> OwnedSkillEntry list \<Rightarrow> scan_state \<Rightarrow> bool" where
  "scanned E es s \<longleftrightarrow> ss_entries s = map (manifest_of (lb_sha E)) es \<and> list_all oe_small es \<and>
     (\<forall>b. ss_skill_md s = Some b \<longrightarrow> has_skill_md (map as_skill_entry es) b)"

text \<open>A tree in the store of generations, seen through runs that only add objects.\<close>

definition scan_place :: "LocalPaths \<Rightarrow> path \<Rightarrow> node \<Rightarrow> bool" where
  "scan_place P root fs \<longleftrightarrow> layout_ok P fs \<and> prefix (lp_generations P) root \<and> solid fs root"

abbreviation objects_only :: "LocalPaths \<Rightarrow> node \<Rightarrow> node \<Rightarrow> bool" where
  "objects_only P fs0 fs \<equiv> confined fs0 (below (lp_objects P)) {} fs"

lemma scan_place_apart: "scan_place P root fs \<Longrightarrow> prefix r (root @ p) \<Longrightarrow> r \<notin> below (lp_objects P)"
proof
  assume "scan_place P root fs" "prefix r (root @ p)" "r \<in> below (lp_objects P)"
  then have "prefix (lp_objects P) (root @ p)" "prefix (lp_generations P) (root @ p)" and l: "layout_ok P fs"
    by (auto simp: scan_place_def intro: prefix_order.trans prefix_prefix)
  then show False using layout_paths(2,3) [OF l] by (auto simp: prefix_def)
qed

lemma scan_read:
  assumes "scan_place P root fs0" "objects_only P fs0 fs" "''..'' \<notin> set p" "peek fs0 (root @ p) = Some (S_File b x)"
  shows "fs_read fs (root @ p) = Ok b"
proof (rule read_stays [OF assms(2) scan_place_apart [OF assms(1)] _ assms(4)])
  show "''..'' \<notin> set (root @ p)" using assms(1,3) by (simp add: scan_place_def solid_def plain_def)
qed

lemma scan_blob_result:
  assumes place: "scan_place P root fs0" "libs_plain E" "''..'' \<notin> set p" "peek fs0 (root @ p) = Some (S_File b x)"
    and old: "\<And>blob. reusable \<Longrightarrow> object_id_from_str (lb_unhex E) BlobId (the (wf_blob_id (the old))) = Ok blob \<Longrightarrow> blob = BlobId_hash (lb_sha E) b"
    and fs: "objects_only P fs0 (w_fs w)"
    and run: "scan_blob E M P (root @ p) path reusable old w = (r, w')"
  shows "objects_only P fs0 (w_fs w')" "r = Ok (blob, bytes) \<Longrightarrow> blob = BlobId_hash (lb_sha E) b \<and> (\<forall>c. bytes = Some c \<longrightarrow> c = b)"
proof -
  note store = within_store_workspace [OF objects_writable(1) place(2)]
  have lay: "layout_ok P fs0" using place(1) by (simp add: scan_place_def)
  have "within fs0 (below (lp_objects P)) {} (scan_blob E M P (root @ p) path reusable old)"
  proof (cases reusable)
    case True
    then show ?thesis unfolding scan_blob_def by (auto intro!: always_intros)
  next
    case False
    have read: "op_bind (look (\<lambda>fs. map_err WS_Io (fs_read fs (root @ p)))) (\<lambda>bytes.
        op_bind (store_workspace_blob E M P (BlobId_hash (lb_sha E) bytes) bytes) (\<lambda>_. op_ok (BlobId_hash (lb_sha E) bytes, Some bytes))) =
        scan_blob E M P (root @ p) path reusable old" using False by (simp add: scan_blob_def)
    show ?thesis unfolding read [symmetric] by (intro always_intros store [OF lay])
  qed
  from withinD [OF this run fs] show "objects_only P fs0 (w_fs w')" .
  show "r = Ok (blob, bytes) \<Longrightarrow> blob = BlobId_hash (lb_sha E) b \<and> (\<forall>c. bytes = Some c \<longrightarrow> c = b)"
    using run scan_read [OF place(1) fs place(3,4)] old
    by (auto simp: scan_blob_def look_cases op_ok_def op_res_def res_simps elim!: op_bind_cases split: if_splits result.splits)
qed

lemma scanned_push:
  assumes "scanned E es s" "oe_small e" "ss_entries s' = ss_entries s @ [manifest_of (lb_sha E) e]"
    and "ss_skill_md s' = ss_skill_md s \<or> (\<exists>b x. e = OE_File skill_md_name b x \<and> ss_skill_md s' = Some b)"
  shows "scanned E (es @ [e]) s'"
  using assms unfolding scanned_def has_skill_md_owned by auto

lemma scan_file_result:
  assumes place: "scan_place P root fs0" "libs_plain E" "''..'' \<notin> set p" "peek fs0 (root @ p) = Some (S_File b x)"
    and path: "path = forward_slashes (join_with slash p)"
    and old: "\<not> force \<Longrightarrow> index_truthful E mtime previous root fs0"
    and fs: "objects_only P fs0 (w_fs w)" and s: "scanned E es s"
    and run: "scan_file E M P mtime resource_id previous force (root @ p) path (length b) x s w = (r, w')"
  shows "objects_only P fs0 (w_fs w') \<and> (r = Ok s' \<longrightarrow> scanned E (es @ [OE_File path b x]) s')"
proof (cases "int (length b) \<ge> 2 ^ 63")
  case True
  then show ?thesis using run fs by (auto simp: scan_file_def Let_def op_err_def)
next
  case small: False
  show ?thesis
  proof (cases "metadata_mtime_ns (mtime (root @ p))")
    case (Err e)
    then show ?thesis using run fs small by (auto simp: scan_file_def Let_def op_res_def op_bind_def)
  next
    case (Ok ns)
    then have ns: "ns = mtime (root @ p)" by (auto simp: metadata_mtime_ns_def split: if_splits)
    let ?reuse = "reusable_row force (previous path) (int (length b)) ns x"
    have truthful: "blob = BlobId_hash (lb_sha E) b" if "?reuse"
      "object_id_from_str (lb_unhex E) BlobId (the (wf_blob_id (the (previous path)))) = Ok blob" for blob
      using that old place(4) unfolding index_truthful_def reusable_row_def path ns by (auto split: option.splits)
    note blob = scan_blob_result [OF place truthful fs]
    obtain r1 w1 where first: "scan_blob E M P (root @ p) path ?reuse (previous path) w = (r1, w1)" by (metis prod.collapse)
    have w1: "objects_only P fs0 (w_fs w1)" by (rule blob(1) [OF _ _ first])
    show ?thesis
    proof (cases r1)
      case (Err e)
      then show ?thesis using run first w1 small Ok
        by (auto simp: scan_file_def Let_def op_bind_def op_res_def)
    next
      case ok1: (Ok y)
      obtain blob bytes where y: "y = (blob, bytes)" by (cases y)
      have id: "blob = BlobId_hash (lb_sha E) b" "\<forall>c. bytes = Some c \<longrightarrow> c = b"
        using blob(2) [OF _ _ first, of blob bytes] ok1 y by auto
      have read: "fs_read (w_fs w1) (root @ p) = Ok b" by (rule scan_read [OF place(1) w1 place(3,4)])
      have size: "word_of_int (int (length b)) = (of_nat (length b) :: 64 word)" by simp
      have "w' = w1 \<and> (r = Ok s' \<longrightarrow> ss_entries s' = ss_entries s @ [manifest_of (lb_sha E) (OE_File path b x)] \<and>
          ss_skill_md s' = (if path = ''SKILL.md'' then Some b else ss_skill_md s))"
        using run first ok1 y id read small Ok
        by (auto simp: scan_file_def Let_def op_bind_def op_res_def look_def op_ok_def push_entry_def split: option.splits)
      then show ?thesis
        using w1 small by (auto intro!: scanned_push [OF s] simp: skill_md_name_def)
    qed
  qed
qed

lemma scan_item_result:
  assumes place: "scan_place P root fs0" "libs_plain E" "''..'' \<notin> set p" "node_at fs0 (root @ p) = Some n"
    and old: "\<not> force \<Longrightarrow> index_truthful E mtime previous root fs0"
    and fs: "objects_only P fs0 (w_fs w)" and s: "scanned E es s"
    and run: "scan_item E M P mtime resource_id previous force root (p, n) s w = (r, w')"
  shows "objects_only P fs0 (w_fs w') \<and> (r = Ok s' \<longrightarrow> (\<exists>e. read_entry p n = Ok e \<and> scanned E (es @ [e]) s'))"
proof (cases "from_utf8 (join_with slash p)")
  case None
  then show ?thesis using run fs by (auto simp: scan_item_def op_res_def op_bind_def)
next
  case (Some utf8)
  then have utf8: "utf8 = join_with slash p" by (auto simp: from_utf8_def split: if_splits)
  show ?thesis
  proof (cases n)
    case (FileN b x)
    have peek: "peek fs0 (root @ p) = Some (S_File b x)" using place(4) FileN by (simp add: peek_def)
    have "scan_file E M P mtime resource_id previous force (root @ p) (forward_slashes (join_with slash p)) (length b) x s w = (r, w')"
      using run Some FileN utf8 by (simp add: scan_item_def op_res_def op_bind_def)
    from scan_file_result [OF place(1-3) peek refl old fs s this] show ?thesis
      using Some FileN utf8 by (auto simp: res_simps)
  next
    case (LinkN t)
    then show ?thesis using run Some fs
      by (cases "from_utf8 t") (auto simp: scan_item_def op_res_def op_bind_def op_ok_def Let_def push_entry_def intro!: scanned_push [OF s])
  next
    case (DirN ms)
    then show ?thesis using run Some fs
      by (auto simp: scan_item_def op_res_def op_bind_def op_ok_def Let_def push_entry_def intro!: scanned_push [OF s])
  qed
qed

lemma scan_items_result:
  assumes place: "scan_place P root fs0" "libs_plain E"
    and items: "\<And>p n. (p, n) \<in> set items \<Longrightarrow> node_at fs0 (root @ p) = Some n \<and> ''..'' \<notin> set p"
    and old: "\<not> force \<Longrightarrow> index_truthful E mtime previous root fs0"
    and "objects_only P fs0 (w_fs w)" "scanned E es s"
    and "scan_items E M P mtime resource_id previous force root items s w = (r, w')"
  shows "objects_only P fs0 (w_fs w') \<and>
    (r = Ok s' \<longrightarrow> (\<exists>fs. collect_res (\<lambda>(p, n). read_entry p n) items = Ok fs \<and> scanned E (es @ fs) s'))"
  using items assms(5-)
proof (induction items arbitrary: s es w)
  case Nil
  then show ?case by (auto simp: op_ok_def)
next
  case (Cons item items)
  obtain p n where item: "item = (p, n)" by (cases item)
  have here: "node_at fs0 (root @ p) = Some n" "''..'' \<notin> set p" using Cons.prems(1) item by auto
  from Cons.prems(4) [unfolded scan_items.simps item] show ?case
  proof (cases rule: op_bind_cases)
    case (1 e)
    then show ?thesis using scan_item_result [OF place here(2,1) old Cons.prems(2,3) 1(1)] by auto
  next
    case (2 s1 v)
    from scan_item_result [OF place here(2,1) old Cons.prems(2,3) 2(1), of s1]
    obtain e where v: "objects_only P fs0 (w_fs v)" and e: "read_entry p n = Ok e" "scanned E (es @ [e]) s1" by auto
    from Cons.IH [OF _ v e(2) 2(2)] Cons.prems(1) e(1) show ?thesis by (force simp: item)
  qed
qed

lemma scan_root_place:
  assumes "scan_root P record fs = Ok root" "layout_ok P fs"
  shows "scan_place P root fs"
proof -
  note paths = layout_paths [OF assms(2)]
  have "list_all plain_name (lp_generations P)" using paths(2,4) by (simp add: plain_name_def)
  then have "solid fs (lp_generations P)"
    using assms(2) plain_no_dots dir_prefix [of fs "lp_generations P"]
    by (auto simp: layout_ok_def solid_def plain_def strict_prefix_def)
  then have "prefix (lp_generations P) root \<and> (\<exists>p. canonicalize fs p = Ok root)"
    using assms(1) by (auto simp: scan_root_def Let_def res_simps split: if_splits dest: canonicalize_solid)
  moreover from this have "root \<noteq> []" using paths(2) by auto
  ultimately show ?thesis using canonicalize_result(2) [of fs _ root] assms(2) unfolding scan_place_def by blast
qed

lemma walk_below_at:
  assumes "walk_below E fs root = Ok items" "solid fs root" "walks_plainly E" "(p, n) \<in> set items"
  shows "node_at fs (root @ p) = Some n \<and> ''..'' \<notin> set p"
proof -
  obtain q m where q: "canonicalize fs root = Ok q" "node_at fs q = Some m"
    and items: "items = map (\<lambda>p. (p, the (node_at m p))) (filter (\<lambda>p. node_at m p \<noteq> None) (lb_walk E m))"
    using assms(1) by (auto simp: walk_below_def res_simps)
  have "q = root" by (rule canonicalize_solid [OF assms(2) q(1)])
  then show ?thesis using q(2) items assms(3,4) by (auto simp: walks_plainly_def node_at_append)
qed

section \<open>The properties\<close>


text \<open>An example: neither file has changed since the last scan.\<close>

definition scan_libs :: "(flat_yaml, (flat_yaml \<times> flat_yaml) list) libs" where
  "scan_libs = example_libs\<lparr>lb_unhex := \<lambda>h. Ok (zero_hash (if h = ''c'' then example_md else ''note'')),
     lb_walk := \<lambda>_. [[''SKILL.md''], [''notes.txt'']]\<rparr>"

definition scan_world :: "localdb world" where
  "scan_world = \<lparr>w_fs = example_tree [(''review'', LinkN (path_text [''.denju'', ''generations'', ''a'', ''b'']))]
     [(''SKILL.md'', FileN example_md False), (''notes.txt'', FileN ''note'' False)], w_db = empty_db, w_tick = 0\<rparr>"

definition scan_record :: OwnedSkillRecord where
  "scan_record = \<lparr>os_resource_id = ''a'', os_locator = ''@alice/review'', os_owner = ''alice'', os_skill_name = ''review'',
     os_resource_generation = 1, os_workspace_generation = 1, os_desired_revision_id = ''b'',
     os_harness_name = None, os_materialized_revision_id = Some ''b''\<rparr>"

definition scan_row :: "string \<Rightarrow> string \<Rightarrow> string \<Rightarrow> WorkspaceFileRecord" where
  "scan_row path bytes blob = (index_row ''a'' path ''file'')\<lparr>wf_size_bytes := Some (int (length bytes)), wf_mtime_ns := Some 7,
     wf_executable := Some False, wf_blob_id := Some blob\<rparr>"

definition scan_index :: "string \<rightharpoonup> WorkspaceFileRecord" where
  "scan_index = previous_index [scan_row ''SKILL.md'' example_md ''c'', scan_row ''notes.txt'' ''note'' ''d'']"

definition scan_machine :: local_machine where
  "scan_machine = \<lparr>fs_fault = \<lambda>_. None, db_fault = \<lambda>_. None, clock = \<lambda>_. 0, fresh = \<lambda>_. ''u''\<rparr>"

lemma scan_example_owner: "os_resource_id scan_record = ''a''" "os_skill_name scan_record = ''review''"
  by (simp_all add: scan_record_def)

lemma scan_canonical: "canonicalize (w_fs scan_world) [''.denju'', ''skills'', ''alice'', ''review''] = Ok [''.denju'', ''generations'', ''a'', ''b'']"
  "canonicalize (w_fs scan_world) [''.denju'', ''generations''] = Ok [''.denju'', ''generations'']"
  "canonicalize (w_fs scan_world) [''.denju'', ''generations'', ''a'', ''b''] = Ok [''.denju'', ''generations'', ''a'', ''b'']"
proof -
  have "list_all plain_name [''.denju'', ''generations'', ''a'', ''b'']" by (simp add: plain_name_def)
  then show "canonicalize (w_fs scan_world) [''.denju'', ''skills'', ''alice'', ''review''] = Ok [''.denju'', ''generations'', ''a'', ''b'']"
    "canonicalize (w_fs scan_world) [''.denju'', ''generations''] = Ok [''.denju'', ''generations'']"
    "canonicalize (w_fs scan_world) [''.denju'', ''generations'', ''a'', ''b''] = Ok [''.denju'', ''generations'', ''a'', ''b'']"
    by (simp_all add: canonicalize_def locate_follow_def MAX_LINKS_def scan_world_def example_tree_def peek_def res_simps)
qed

lemma scan_example_root: "scan_root (from_home []) scan_record (w_fs scan_world) = Ok [''.denju'', ''generations'', ''a'', ''b'']"
proof -
  have "plain_name ''alice''" "plain_name ''review''" by (simp_all add: plain_name_def)
  then show ?thesis
    by (simp add: scan_root_def Let_def canonical_path_of_def example_paths scan_record_def scan_canonical res_simps)
qed

lemma scan_example_items:
  "walk_below scan_libs (w_fs scan_world) [''.denju'', ''generations'', ''a'', ''b''] =
     Ok [([''SKILL.md''], FileN example_md False), ([''notes.txt''], FileN ''note'' False)]"
  by (simp add: walk_below_def scan_canonical res_simps) (simp add: scan_world_def example_tree_def scan_libs_def)

lemma scan_example_read:
  "fs_read (w_fs scan_world) [''.denju'', ''generations'', ''a'', ''b'', ''SKILL.md''] = Ok example_md"
  by (simp add: fs_read_def metadata_def locate_follow_def scan_world_def example_tree_def peek_def res_simps)

definition scan_final :: scan_state where
  "scan_final = \<lparr>ss_entries = [ME_File ''SKILL.md'' (BlobId_hash zero_hash example_md) (of_nat (length example_md)) False,
       ME_File ''notes.txt'' (BlobId_hash zero_hash ''note'') 4 False],
     ss_index = [scan_row ''SKILL.md'' example_md ''b'', scan_row ''notes.txt'' ''note'' ''b''],
     ss_skill_md = Some example_md, ss_stats = \<lparr>hashed_files = 0, reused_files = 2\<rparr>\<rparr>"

lemma scan_example_state:
  "scan_items scan_libs M (from_home []) (\<lambda>_. 7) ''a'' scan_index False [''.denju'', ''generations'', ''a'', ''b'']
     [([''SKILL.md''], FileN example_md False), ([''notes.txt''], FileN ''note'' False)] empty_scan scan_world = (Ok scan_final, scan_world)"
proof -
  have utf: "from_utf8 ''SKILL.md'' = Some ''SKILL.md''" "from_utf8 ''notes.txt'' = Some ''notes.txt''" by code_simp+
  have len: "length example_md < 100" "length (zero_hash b) = 32" for b by (simp_all add: example_md_def zero_hash_def)
  show ?thesis
    using len(1)
    by (simp add: scan_item_def scan_file_def utf len(2) op_bind_def op_res_def Let_def forward_slashes_def metadata_mtime_ns_def
        scan_index_def previous_index_def scan_row_def index_row_def reusable_row_def scan_blob_def object_id_from_str_def
        look_def op_ok_def push_entry_def empty_scan_def scan_final_def blob_text_def BlobId_hash_def scan_libs_def
        example_libs_def scan_example_read res_simps)
qed

definition scan_dir :: "OwnedSkillEntry list" where
  "scan_dir = [OE_File ''SKILL.md'' example_md False, OE_File ''notes.txt'' ''note'' False]"

lemma scan_example_manifest: "\<exists>m. scan_manifest scan_libs ''review'' scan_final = Ok m"
proof -
  have "is_ok (validate_skill_directory ascii_tables flat_lib ''review'' (map as_skill_entry scan_dir))" by code_simp
  then obtain vs where vs: "validate_skill_directory ascii_tables flat_lib ''review'' (map as_skill_entry scan_dir) = Ok vs"
    by (auto simp: is_ok_iff)
  have d: "skill_document_declared_name flat_lib example_md = Ok ''review''" by code_simp
  have fits: "sizes_fit zero_hash scan_dir"
    by (simp add: sizes_fit_def scan_dir_def BlobId_hash_def zero_hash_def example_md_def)
  obtain m where m: "build_skill_manifest ascii_tables flat_lib zero_hash ''review'' scan_dir = Ok m"
      "m_entries m = canonical_entries zero_hash scan_dir"
    using valid_directory_has_manifest [OF vs fits ascii_nfc zero_hash32] by blast
  have "has_skill_md (map as_skill_entry scan_dir) example_md" unfolding has_skill_md_owned by (auto simp: scan_dir_def skill_md_name_def)
  from hashed_entries_reproduce [OF m(1) this, of "map (manifest_of zero_hash) scan_dir"] m(2) d show ?thesis
    by (simp add: canonical_entries_mset scan_manifest_def scan_final_def scan_dir_def scan_libs_def example_libs_def res_simps)
qed

lemma scan_index_truthful: "index_truthful scan_libs (\<lambda>_. 7) scan_index [''.denju'', ''generations'', ''a'', ''b''] (w_fs scan_world)"
  unfolding index_truthful_def
proof (intro allI impI)
  fix p bytes x row blob
  assume at: "peek (w_fs scan_world) ([''.denju'', ''generations'', ''a'', ''b''] @ p) = Some (S_File bytes x)"
    and row: "scan_index (forward_slashes (join_with slash p)) = Some row"
    and id: "object_id_from_str (lb_unhex scan_libs) BlobId (the (wf_blob_id row)) = Ok blob"
  obtain c q where p: "p = c # q" using at by (cases p) (auto simp: scan_world_def example_tree_def peek_def)
  then have "p = [''SKILL.md''] \<and> bytes = example_md \<or> p = [''notes.txt''] \<and> bytes = ''note''"
    using at by (cases q) (auto simp: scan_world_def example_tree_def peek_def split: if_splits)
  then show "blob = BlobId_hash (lb_sha scan_libs) bytes"
    using row id by (auto simp: scan_index_def previous_index_def scan_row_def index_row_def forward_slashes_def
        object_id_from_str_def scan_libs_def example_libs_def BlobId_hash_def zero_hash_def res_simps split: if_splits)
qed


end
