(* ===== verification/Watch_Props.thy ===== *)
theory Watch_Props
  imports Workspace_Scan
begin

text \<open>
  The callback of the file watcher and the reader of its hints as two threads that interleave between
  any two accesses to the queue and to the flag.
\<close>

section \<open>The threads\<close>

text \<open>The callback has seen an event and is about to send its hint, or has found the queue full.\<close>

datatype watch_callback = CB_Idle | CB_Sending bool | CB_Dropped

text \<open>The reader waits, or holds the hints it has received and is about to look at the flag.\<close>

datatype watch_reader = RD_Waiting | RD_Holding bool

text \<open>\<open>wy_owed\<close> is no part of the code: a full scan has become due and none was reported since.\<close>

record watch_system =
  wy_shared :: WorkspaceWatcher
  wy_callback :: watch_callback
  wy_reader :: watch_reader
  wy_owed :: bool

definition watch_begin :: watch_system where
  "watch_begin = \<lparr>wy_shared = watch_start, wy_callback = CB_Idle, wy_reader = RD_Waiting, wy_owed = False\<rparr>"

text \<open>One access.  The label is what \<open>changed\<close> or \<open>drain_full_scan_hint\<close> returns, when it does.\<close>

inductive watch_step :: "watch_system \<Rightarrow> bool option \<Rightarrow> watch_system \<Rightarrow> bool" where
  event: "wy_callback y = CB_Idle \<Longrightarrow>
    watch_step y None (y\<lparr>wy_shared := watch_flag full_scan (wy_shared y), wy_callback := CB_Sending full_scan,
      wy_owed := wy_owed y \<or> full_scan\<rparr>)"
| sent: "wy_callback y = CB_Sending full_scan \<Longrightarrow> watch_send full_scan (wy_shared y) = (w, True) \<Longrightarrow>
    watch_step y None (y\<lparr>wy_shared := w, wy_callback := CB_Idle\<rparr>)"
| dropped: "wy_callback y = CB_Sending full_scan \<Longrightarrow> watch_send full_scan (wy_shared y) = (w, False) \<Longrightarrow>
    watch_step y None (y\<lparr>wy_shared := w, wy_callback := CB_Dropped, wy_owed := True\<rparr>)"
| flagged: "wy_callback y = CB_Dropped \<Longrightarrow>
    watch_step y None (y\<lparr>wy_shared := watch_flag True (wy_shared y), wy_callback := CB_Idle\<rparr>)"
| received: "wy_reader y = RD_Waiting \<Longrightarrow> ww_queue (wy_shared y) = hint # rest \<Longrightarrow>
    watch_step y None (y\<lparr>wy_shared := (wy_shared y)\<lparr>ww_queue := rest\<rparr>, wy_reader := RD_Holding hint\<rparr>)"
| draining: "wy_reader y = RD_Waiting \<Longrightarrow> watch_step y None (y\<lparr>wy_reader := RD_Holding full_scan\<rparr>)"
| drained: "wy_reader y = RD_Holding full_scan \<Longrightarrow> ww_queue (wy_shared y) = hint # rest \<Longrightarrow>
    watch_step y None (y\<lparr>wy_shared := (wy_shared y)\<lparr>ww_queue := rest\<rparr>, wy_reader := RD_Holding (full_scan \<or> hint)\<rparr>)"
| reported: "wy_reader y = RD_Holding full_scan \<Longrightarrow> watch_swap full_scan (wy_shared y) = (report, w) \<Longrightarrow>
    watch_step y (Some report) (y\<lparr>wy_shared := w, wy_reader := RD_Waiting, wy_owed := wy_owed y \<and> \<not> report\<rparr>)"

inductive_cases watch_stepE: "watch_step y l y'"

inductive watch_reachable :: "watch_system \<Rightarrow> bool" where
  start: "watch_reachable watch_begin"
| step: "watch_reachable y \<Longrightarrow> watch_step y l y' \<Longrightarrow> watch_reachable y'"

section \<open>What is never lost\<close>

definition watch_due :: "watch_system \<Rightarrow> bool" where
  "watch_due y \<longleftrightarrow> ww_force_full_scan (wy_shared y) \<or> True \<in> set (ww_queue (wy_shared y)) \<or>
     wy_callback y = CB_Dropped \<or> wy_reader y = RD_Holding True"

definition watch_inv :: "watch_system \<Rightarrow> bool" where
  "watch_inv y \<longleftrightarrow> length (ww_queue (wy_shared y)) \<le> WATCH_CAPACITY \<and> (wy_owed y \<longrightarrow> watch_due y)"

lemma watch_step_inv: "watch_step y l y' \<Longrightarrow> watch_inv y \<Longrightarrow> watch_inv y'"
  by (induction rule: watch_step.induct)
    (auto simp: watch_inv_def watch_due_def watch_flag_def watch_send_def watch_swap_def split: if_splits)

lemma watch_reachable_inv: "watch_reachable y \<Longrightarrow> watch_inv y"
proof (induction rule: watch_reachable.induct)
  case start
  then show ?case by (simp add: watch_inv_def watch_begin_def watch_start_def)
qed (rule watch_step_inv)

lemma fold_or: "fold (\<or>) bs b \<longleftrightarrow> b \<or> True \<in> set bs"
  by (induction bs arbitrary: b) auto

text \<open>The functions of the reader are runs of its steps in which the callback is silent.\<close>

inductive silent_run :: "watch_system \<Rightarrow> bool option \<Rightarrow> watch_system \<Rightarrow> bool" where
  last: "watch_step y (Some report) y' \<Longrightarrow> silent_run y (Some report) y'"
| more: "watch_step y None y1 \<Longrightarrow> wy_callback y1 = wy_callback y \<Longrightarrow> silent_run y1 l y' \<Longrightarrow> silent_run y l y'"

lemma changed_runs:
  assumes "changed w = Some (report, w')" "wy_shared y = w" "wy_reader y = RD_Waiting"
  shows "silent_run y (Some report) (y\<lparr>wy_shared := w', wy_owed := wy_owed y \<and> \<not> report\<rparr>)"
proof -
  obtain hint rest where queue: "ww_queue w = hint # rest" and swap: "watch_swap hint (w\<lparr>ww_queue := rest\<rparr>) = (report, w')"
    using assms(1) by (auto simp: changed_def split: list.splits)
  let ?y = "y\<lparr>wy_shared := w\<lparr>ww_queue := rest\<rparr>, wy_reader := RD_Holding hint\<rparr>"
  have first: "watch_step y None ?y" using received [OF assms(3)] assms(2) queue by simp
  have "watch_step ?y (Some report) (?y\<lparr>wy_shared := w', wy_reader := RD_Waiting, wy_owed := wy_owed ?y \<and> \<not> report\<rparr>)"
    using swap by (intro reported [of _ hint]) simp_all
  then have "silent_run ?y (Some report) (?y\<lparr>wy_shared := w', wy_reader := RD_Waiting, wy_owed := wy_owed ?y \<and> \<not> report\<rparr>)"
    by (rule last)
  moreover have "?y\<lparr>wy_shared := w', wy_reader := RD_Waiting, wy_owed := wy_owed ?y \<and> \<not> report\<rparr> =
      y\<lparr>wy_shared := w', wy_owed := wy_owed y \<and> \<not> report\<rparr>" using assms(3) by simp
  ultimately show ?thesis using more [OF first] by simp
qed

lemma drain_runs:
  "wy_reader y = RD_Holding full_scan \<Longrightarrow> drain_full_scan_hint full_scan (wy_shared y) = (report, w') \<Longrightarrow>
   silent_run y (Some report) (y\<lparr>wy_shared := w', wy_reader := RD_Waiting, wy_owed := wy_owed y \<and> \<not> report\<rparr>)"
proof (induction "ww_queue (wy_shared y)" arbitrary: y full_scan)
  case Nil
  have same: "(wy_shared y)\<lparr>ww_queue := []\<rparr> = wy_shared y" using Nil(1) by (cases "wy_shared y") simp
  have "drain_full_scan_hint full_scan (wy_shared y) = watch_swap full_scan ((wy_shared y)\<lparr>ww_queue := []\<rparr>)"
    unfolding drain_full_scan_hint_def Nil(1) [symmetric] by simp
  then have "watch_swap full_scan (wy_shared y) = (report, w')" using Nil(3) unfolding same by simp
  with Nil show ?case by (intro last reported)
next
  case (Cons hint rest)
  let ?y = "y\<lparr>wy_shared := (wy_shared y)\<lparr>ww_queue := rest\<rparr>, wy_reader := RD_Holding (full_scan \<or> hint)\<rparr>"
  have first: "watch_step y None ?y" using Cons.prems Cons.hyps(2) by (intro drained) simp_all
  have "drain_full_scan_hint (full_scan \<or> hint) (wy_shared ?y) = (report, w')"
    using Cons.prems(2) Cons.hyps(2) [symmetric] by (simp add: drain_full_scan_hint_def disj_commute)
  from Cons.hyps(1) [of ?y, OF _ _ this]
  have "silent_run ?y (Some report) (?y\<lparr>wy_shared := w', wy_reader := RD_Waiting, wy_owed := wy_owed ?y \<and> \<not> report\<rparr>)"
    by simp
  then show ?case using more [OF first] by simp
qed

section \<open>The properties\<close>

text \<open>C37. However the callback of the watcher and the reader of its hints interleave, a demand for a full
  scan (an error of the watcher, or a hint dropped because the queue was full) is never lost: once
  nothing is left in the queue and the callback is not in the middle of recording a drop, the next
  answer of the reader asks for the full scan.  The queue never exceeds its capacity of 64.\<close>

theorem full_scan_hint_is_never_lost:
  assumes "watch_reachable y"
  shows "length (ww_queue (wy_shared y)) \<le> 64 \<and>
    (wy_owed y \<and> wy_callback y \<noteq> CB_Dropped \<longrightarrow>
      (\<forall>full_scan. wy_reader y = RD_Holding full_scan \<longrightarrow> fst (drain_full_scan_hint full_scan (wy_shared y))) \<and>
      (wy_reader y = RD_Waiting \<longrightarrow> (\<forall>full_scan. fst (drain_full_scan_hint full_scan (wy_shared y)))))"
proof -
  have inv: "watch_inv y" using assms by (rule watch_reachable_inv)
  have drain: "fst (drain_full_scan_hint full_scan w)" if "full_scan \<or> ww_force_full_scan w \<or> True \<in> set (ww_queue w)" for full_scan w
    using that by (auto simp: drain_full_scan_hint_def watch_swap_def fold_or)
  show ?thesis using inv drain by (auto simp: watch_inv_def watch_due_def WATCH_CAPACITY_def)
qed

theorem full_scan_hint_is_never_lost_witness:
  "fst (drain_full_scan_hint False (wy_shared (watch_begin\<lparr>wy_shared := watch_flag True watch_start,
     wy_callback := CB_Sending True, wy_owed := True\<rparr>)))"
proof -
  let ?y = "watch_begin\<lparr>wy_shared := watch_flag True watch_start, wy_callback := CB_Sending True, wy_owed := True\<rparr>"
  have "watch_step watch_begin None ?y"
    using event [of watch_begin True] by (simp add: watch_begin_def)
  then have "watch_reachable ?y" by (rule step [OF start])
  from full_scan_hint_is_never_lost [OF this] show ?thesis by (simp add: watch_begin_def)
qed

end
