(* ===== verification/Revision_Graph.thy ===== *)
theory Revision_Graph
  imports Objects "HOL-Library.Product_Lexorder"
begin

text \<open>
  \<open>crates/denju-registry/src/revision_graph.rs\<close>: questions on the history graph the registry asks
  its database.  The recursive queries (\<open>WITH RECURSIVE \<dots> UNION \<dots>\<close>) are evaluated the way the
  database documents it: every round joins the rows the previous round added with the parent
  table, keeps the rows not seen before, and stops when a round adds none.  The locale
  \<open>recursive_query\<close> shows once that such an evaluation returns the rows reachable from the start;
  it is interpreted for the ancestry query and for the one that carries depths.
\<close>

section \<open>Errors of the registry\<close>

datatype ApiErrorCode =
    InvalidRequest | InvalidRequestHash | OperationConflict | GenerationConflict | Unauthorized
  | NotFound | QuotaExceeded | Internal | Unavailable

record ApiError =
  err_code :: ApiErrorCode
  err_message :: string

definition ApiError_new :: "ApiErrorCode \<Rightarrow> string \<Rightarrow> ApiError" where
  "ApiError_new c m = \<lparr>err_code = c, err_message = m\<rparr>"

definition decode_32 :: "string \<Rightarrow> string \<Rightarrow> (string, ApiError) result" where
  "decode_32 v field =
     (if length v = 32 then Ok v else Err (ApiError_new Internal (field @ '' is not a 32-byte value'')))"

section \<open>The parent table\<close>

record parent_row =
  rp_revision_id :: string
  rp_parent_revision_id :: string
  rp_ordinal :: nat

definition parents_of :: "parent_row list \<Rightarrow> string \<Rightarrow> string list" where
  "parents_of rp r = map rp_parent_revision_id (filter (\<lambda>p. rp_revision_id p = r) rp)"

lemma parents_of_bounded: "set (parents_of rp r) \<subseteq> rp_parent_revision_id ` set rp"
  by (auto simp: parents_of_def)

text \<open>One round: the joined rows that are new, without duplicates.\<close>

definition fresh_rows :: "('a \<Rightarrow> 'a list) \<Rightarrow> 'a list \<Rightarrow> 'a list \<Rightarrow> 'a list" where
  "fresh_rows step seen work = remdups (filter (\<lambda>x. x \<notin> set seen) (concat (map step work)))"

lemma set_fresh_rows: "set (fresh_rows step seen work) = (\<Union>x \<in> set work. set (step x)) - set seen"
  by (auto simp: fresh_rows_def)

lemma fresh_rows_shrink:
  assumes "fresh_rows step seen work \<noteq> []" "\<And>x. set (step x) \<subseteq> U" "finite U"
  shows "card (U - set (seen @ fresh_rows step seen work)) < card (U - set seen)"
proof (rule psubset_card_mono)
  obtain y where "y \<in> set (fresh_rows step seen work)" using assms(1) by (cases "fresh_rows step seen work") auto
  moreover have "set (fresh_rows step seen work) \<subseteq> U - set seen" using assms(2) by (auto simp: set_fresh_rows)
  ultimately show "U - set (seen @ fresh_rows step seen work) \<subset> U - set seen" by auto
qed (use assms(3) in simp)

function ancestry_rounds :: "parent_row list \<Rightarrow> string list \<Rightarrow> string list \<Rightarrow> string list" where
  "ancestry_rounds rp seen work =
     (let new = fresh_rows (parents_of rp) seen work
      in if new = [] then seen else ancestry_rounds rp (seen @ new) new)"
  by pat_completeness auto
termination
proof (relation "measure (\<lambda>(rp, seen, work). card (rp_parent_revision_id ` set rp - set seen))")
  fix rp seen work new
  assume "new = fresh_rows (parents_of rp) seen work" "new \<noteq> []"
  then show "((rp, seen @ new, new), rp, seen, work)
      \<in> measure (\<lambda>(rp, seen, work). card (rp_parent_revision_id ` set rp - set seen))"
    using fresh_rows_shrink [of "parents_of rp" seen work, OF _ parents_of_bounded] by simp
qed simp

declare ancestry_rounds.simps [simp del]

definition ancestry :: "parent_row list \<Rightarrow> string list \<Rightarrow> string list" where
  "ancestry rp start = ancestry_rounds rp (remdups start) (remdups start)"

definition revision_is_ancestor :: "parent_row list \<Rightarrow> string \<Rightarrow> string \<Rightarrow> (bool, ApiError) result" where
  "revision_is_ancestor rp ancestor descendant =
     Ok (list_ex (\<lambda>r. r = ancestor) (ancestry rp [descendant]))"

section \<open>Depths and the merge base\<close>

definition DEPTH_LIMIT :: nat where
  "DEPTH_LIMIT = 4096"

definition deeper_rows :: "parent_row list \<Rightarrow> string \<times> nat \<Rightarrow> (string \<times> nat) list" where
  "deeper_rows rp a =
     (if snd a < DEPTH_LIMIT then map (\<lambda>p. (p, snd a + 1)) (parents_of rp (fst a)) else [])"

lemma deeper_rows_bounded: "set (deeper_rows rp a) \<subseteq> rp_parent_revision_id ` set rp \<times> {..DEPTH_LIMIT}"
  using parents_of_bounded [of rp "fst a"] by (auto simp: deeper_rows_def)

function depth_rounds :: "parent_row list \<Rightarrow> (string \<times> nat) list \<Rightarrow> (string \<times> nat) list \<Rightarrow> (string \<times> nat) list" where
  "depth_rounds rp seen work =
     (let new = fresh_rows (deeper_rows rp) seen work
      in if new = [] then seen else depth_rounds rp (seen @ new) new)"
  by pat_completeness auto
termination
proof (relation "measure (\<lambda>(rp, seen, work). card (rp_parent_revision_id ` set rp \<times> {..DEPTH_LIMIT} - set seen))")
  fix rp seen work new
  assume "new = fresh_rows (deeper_rows rp) seen work" "new \<noteq> []"
  then show "((rp, seen @ new, new), rp, seen, work)
      \<in> measure (\<lambda>(rp, seen, work). card (rp_parent_revision_id ` set rp \<times> {..DEPTH_LIMIT} - set seen))"
    using fresh_rows_shrink [of "deeper_rows rp" seen work, OF _ deeper_rows_bounded] by simp
qed simp

declare depth_rounds.simps [simp del]

definition depths :: "parent_row list \<Rightarrow> string \<Rightarrow> (string \<times> nat) list" where
  "depths rp r = depth_rounds rp [(r, 0)] [(r, 0)]"

text \<open>\<open>SELECT revision_id, min(depth) \<dots> GROUP BY revision_id\<close>.\<close>

definition min_depth :: "(string \<times> nat) list \<Rightarrow> string \<Rightarrow> nat" where
  "min_depth rows r = Min (set (map snd (filter (\<lambda>x. fst x = r) rows)))"

definition min_depths :: "(string \<times> nat) list \<Rightarrow> (string \<times> nat) list" where
  "min_depths rows = map (\<lambda>r. (r, min_depth rows r)) (remdups (map fst rows))"

text \<open>The join of the two ancestries, with the key it is ordered by.\<close>

definition common_rows :: "parent_row list \<Rightarrow> string \<Rightarrow> string \<Rightarrow> (nat \<times> nat \<times> string) list" where
  "common_rows rp left right =
     concat (map (\<lambda>l. map (\<lambda>r. (max (snd l) (snd r), snd l + snd r, fst l))
       (filter (\<lambda>r. fst r = fst l) (min_depths (depths rp right)))) (min_depths (depths rp left)))"

definition merge_base :: "parent_row list \<Rightarrow> string \<Rightarrow> string \<Rightarrow> (string, ApiError) result" where
  "merge_base rp left right =
     (case sort (common_rows rp left right) of
        [] \<Rightarrow> Err (ApiError_new GenerationConflict
          ''maintainer workspace and latest team release have no common revision ancestry'')
      | k # _ \<Rightarrow>
          (let base = snd (snd k)
           in if length base = 32 then Ok base
              else Err (ApiError_new Internal ''stored merge-base revision ID has invalid length'')))"

section \<open>Recursive queries compute reachability\<close>

definition query_edges :: "('a \<Rightarrow> 'a list) \<Rightarrow> ('a \<times> 'a) set" where
  "query_edges step = {(x, y). y \<in> set (step x)}"

locale recursive_query =
  fixes step :: "'a \<Rightarrow> 'a list" and rounds :: "'a list \<Rightarrow> 'a list \<Rightarrow> 'a list" and U :: "'a set"
  assumes rounds_eq: "rounds seen work =
      (let new = fresh_rows step seen work in if new = [] then seen else rounds (seen @ new) new)"
    and step_bounded: "set (step x) \<subseteq> U" and U_finite: "finite U"
begin

lemma rounds_closed:
  assumes "set work \<subseteq> set seen" "\<And>x. x \<in> set seen \<Longrightarrow> x \<notin> set work \<Longrightarrow> set (step x) \<subseteq> set seen"
  shows "set seen \<subseteq> set (rounds seen work) \<and>
    (\<forall>x \<in> set (rounds seen work). set (step x) \<subseteq> set (rounds seen work)) \<and>
    set (rounds seen work) \<subseteq> (query_edges step)\<^sup>* `` set seen"
  using assms
proof (induction "card (U - set seen)" arbitrary: seen work rule: less_induct)
  case less
  define fresh where "fresh = fresh_rows step seen work"
  have set_fresh: "set fresh = (\<Union>x \<in> set work. set (step x)) - set seen" by (simp add: fresh_def set_fresh_rows)
  show ?case
  proof (cases "fresh = []")
    case True
    then have "rounds seen work = seen" by (subst rounds_eq) (simp add: fresh_def)
    moreover have "set (step x) \<subseteq> set seen" if "x \<in> set seen" for x
      using that set_fresh True less.prems(2) [of x] by (cases "x \<in> set work") auto
    ultimately show ?thesis by auto
  next
    case False
    have eq: "rounds seen work = rounds (seen @ fresh) fresh"
      using False by (subst rounds_eq) (simp add: fresh_def Let_def)
    have "card (U - set (seen @ fresh)) < card (U - set seen)"
      using fresh_rows_shrink [of step seen work U] False step_bounded U_finite by (simp add: fresh_def)
    moreover have "set (step x) \<subseteq> set (seen @ fresh)" if "x \<in> set (seen @ fresh)" "x \<notin> set fresh" for x
      using that less.prems(2) [of x] set_fresh by auto
    ultimately have IH: "set (seen @ fresh) \<subseteq> set (rounds seen work)"
      "\<forall>x \<in> set (rounds seen work). set (step x) \<subseteq> set (rounds seen work)"
      "set (rounds seen work) \<subseteq> (query_edges step)\<^sup>* `` set (seen @ fresh)"
      using less.hyps [of "seen @ fresh" "fresh"] eq by auto
    have "set fresh \<subseteq> (query_edges step)\<^sup>* `` set seen" using less.prems(1) set_fresh by (auto simp: query_edges_def)
    then have "(query_edges step)\<^sup>* `` set (seen @ fresh) \<subseteq> (query_edges step)\<^sup>* `` set seen" by (auto intro: rtrancl_trans)
    with IH show ?thesis by auto
  qed
qed

lemma rounds_reach: "set (rounds start start) = (query_edges step)\<^sup>* `` set start"
proof
  note closed = rounds_closed [of start start]
  show "set (rounds start start) \<subseteq> (query_edges step)\<^sup>* `` set start" using closed by simp
  have "y \<in> set (rounds start start)" if "(x, y) \<in> (query_edges step)\<^sup>*" "x \<in> set start" for x y
    using that by induction (use closed in \<open>auto simp: query_edges_def\<close>)
  then show "(query_edges step)\<^sup>* `` set start \<subseteq> set (rounds start start)" by auto
qed

end

interpretation anc: recursive_query "parents_of rp" "ancestry_rounds rp" "rp_parent_revision_id ` set rp" for rp
  by unfold_locales (rule ancestry_rounds.simps, rule parents_of_bounded, simp)

interpretation dep: recursive_query "deeper_rows rp" "depth_rounds rp"
  "rp_parent_revision_id ` set rp \<times> {..DEPTH_LIMIT}" for rp
  by unfold_locales (rule depth_rounds.simps, rule deeper_rows_bounded, simp)

section \<open>Ancestors\<close>

definition parent_edges :: "parent_row list \<Rightarrow> (string \<times> string) set" where
  "parent_edges rp = {(r, p). \<exists>row \<in> set rp. rp_revision_id row = r \<and> rp_parent_revision_id row = p}"

lemma query_edges_parents [simp]: "query_edges (parents_of rp) = parent_edges rp"
  by (auto simp: query_edges_def parent_edges_def parents_of_def)

lemma set_ancestry: "set (ancestry rp start) = (parent_edges rp)\<^sup>* `` set start"
  using anc.rounds_reach [of rp "remdups start"] by (simp add: ancestry_def)

lemma ancestry_mono: "set rp \<subseteq> set rq \<Longrightarrow> set start \<subseteq> set start' \<Longrightarrow> set (ancestry rp start) \<subseteq> set (ancestry rq start')"
  unfolding set_ancestry
  by (rule Image_mono [OF rtrancl_mono]) (auto simp: parent_edges_def)

lemma revision_is_ancestor_iff: "revision_is_ancestor rp a d = Ok b \<longleftrightarrow> b = ((d, a) \<in> (parent_edges rp)\<^sup>*)"
  by (auto simp: revision_is_ancestor_def list_ex_iff set_ancestry)

section \<open>Depths\<close>

lemma deeper_path:
  "((x, m), (y, n)) \<in> (query_edges (deeper_rows rp))\<^sup>* \<longleftrightarrow>
     m \<le> n \<and> (n \<le> DEPTH_LIMIT \<or> n = m) \<and> (x, y) \<in> parent_edges rp ^^ (n - m)"
proof
  assume "((x, m), (y, n)) \<in> (query_edges (deeper_rows rp))\<^sup>*"
  then show "m \<le> n \<and> (n \<le> DEPTH_LIMIT \<or> n = m) \<and> (x, y) \<in> parent_edges rp ^^ (n - m)"
  proof (induction "(y, n)" arbitrary: y n rule: rtrancl_induct)
    case (step z)
    obtain u k where z: "z = (u, k)" by (cases z)
    have e: "(u, y) \<in> parent_edges rp" "n = Suc k" "k < DEPTH_LIMIT"
      using step(2) unfolding z query_edges_parents [symmetric]
      by (auto simp: query_edges_def deeper_rows_def split: if_splits)
    have IH: "m \<le> k" "(x, u) \<in> parent_edges rp ^^ (k - m)" using step(3) [OF z] by auto
    have "(x, y) \<in> parent_edges rp ^^ Suc (k - m)" using IH(2) e(1) by (rule relpow_Suc_I)
    then show ?case using IH(1) e(2,3) by (simp add: Suc_diff_le)
  qed simp
next
  assume a: "m \<le> n \<and> (n \<le> DEPTH_LIMIT \<or> n = m) \<and> (x, y) \<in> parent_edges rp ^^ (n - m)"
  have "((x, m), (y, m + k)) \<in> (query_edges (deeper_rows rp))\<^sup>*"
    if "(x, y) \<in> parent_edges rp ^^ k" "m + k \<le> DEPTH_LIMIT \<or> k = 0" for k y
    using that
  proof (induction k arbitrary: y)
    case (Suc k)
    obtain u where u: "(x, u) \<in> parent_edges rp ^^ k" "(u, y) \<in> parent_edges rp"
      using Suc.prems(1) by auto
    have "((u, m + k), (y, m + Suc k)) \<in> query_edges (deeper_rows rp)"
      using u(2) Suc.prems(2) unfolding query_edges_parents [symmetric]
      by (auto simp: query_edges_def deeper_rows_def)
    with Suc.IH [OF u(1)] Suc.prems(2) show ?case by (auto intro: rtrancl_into_rtrancl)
  qed simp
  from this [of y "n - m"] a show "((x, m), (y, n)) \<in> (query_edges (deeper_rows rp))\<^sup>*" by auto
qed

lemma set_depths: "(y, n) \<in> set (depths rp x) \<longleftrightarrow> n \<le> DEPTH_LIMIT \<and> (x, y) \<in> parent_edges rp ^^ n"
  using dep.rounds_reach [of rp "[(x, 0)]"] by (auto simp: depths_def deeper_path DEPTH_LIMIT_def)

section \<open>The merge base\<close>

text \<open>The distance to an ancestor, as far as the query looks.\<close>

definition ancestor_at :: "parent_row list \<Rightarrow> string \<Rightarrow> string \<Rightarrow> nat \<Rightarrow> bool" where
  "ancestor_at rp x y d \<longleftrightarrow> d \<le> DEPTH_LIMIT \<and> (x, y) \<in> parent_edges rp ^^ d \<and>
     (\<forall>m < d. (x, y) \<notin> parent_edges rp ^^ m)"

lemma ancestor_at_exists:
  assumes "(x, y) \<in> parent_edges rp ^^ n" "n \<le> DEPTH_LIMIT"
  obtains d where "d \<le> n" "ancestor_at rp x y d"
proof
  let ?d = "LEAST m. (x, y) \<in> parent_edges rp ^^ m"
  show le: "?d \<le> n" using assms(1) by (rule Least_le)
  show "ancestor_at rp x y ?d"
    using le assms(2) LeastI [of "\<lambda>m. (x, y) \<in> parent_edges rp ^^ m", OF assms(1)] not_less_Least
    by (force simp: ancestor_at_def)
qed

lemma ancestor_at_unique: "ancestor_at rp x y d \<Longrightarrow> ancestor_at rp x y e \<Longrightarrow> d = e"
  unfolding ancestor_at_def by (metis linorder_neqE_nat)

lemma ancestor_at_rtrancl: "ancestor_at rp x y d \<Longrightarrow> (x, y) \<in> (parent_edges rp)\<^sup>*"
  by (auto simp: ancestor_at_def relpow_imp_rtrancl)

lemma set_min_depths: "(y, d) \<in> set (min_depths (depths rp x)) \<longleftrightarrow> ancestor_at rp x y d"
proof -
  let ?S = "set (map snd (filter (\<lambda>q. fst q = y) (depths rp x)))"
  have S: "n \<in> ?S \<longleftrightarrow> n \<le> DEPTH_LIMIT \<and> (x, y) \<in> parent_edges rp ^^ n" for n
    using set_depths [of y n rp x] by force
  have iff: "(y, d) \<in> set (min_depths (depths rp x)) \<longleftrightarrow> ?S \<noteq> {} \<and> d = Min ?S"
    by (force simp: min_depths_def min_depth_def image_iff)
  show ?thesis
  proof
    assume "(y, d) \<in> set (min_depths (depths rp x))"
    then have d: "?S \<noteq> {}" "d = Min ?S" using iff by auto
    have "d \<in> ?S" unfolding d(2) using d(1) by (intro Min_in) auto
    moreover have "(x, y) \<notin> parent_edges rp ^^ m" if "m < d" for m
    proof
      assume "(x, y) \<in> parent_edges rp ^^ m"
      then have "m \<in> ?S" using S [of m] S [of d] that \<open>d \<in> ?S\<close> by simp
      then have "d \<le> m" unfolding d(2) by (intro Min_le) auto
      then show False using that by simp
    qed
    ultimately show "ancestor_at rp x y d" using S by (simp add: ancestor_at_def)
  next
    assume a: "ancestor_at rp x y d"
    then have "d \<in> ?S" using S by (simp add: ancestor_at_def)
    moreover have "Min ?S = d"
    proof (rule Min_eqI)
      fix n assume "n \<in> ?S"
      then show "d \<le> n" using a S [of n] by (meson ancestor_at_def not_le)
    qed (use \<open>d \<in> ?S\<close> in auto)
    ultimately show "(y, d) \<in> set (min_depths (depths rp x))" unfolding iff by (metis empty_iff)
  qed
qed

lemma set_common_rows:
  "(k, n, b) \<in> set (common_rows rp x y) \<longleftrightarrow>
     (\<exists>l r. ancestor_at rp x b l \<and> ancestor_at rp y b r \<and> k = max l r \<and> n = l + r)"
  unfolding set_min_depths [symmetric] common_rows_def by (auto simp: image_iff) force+

lemma common_rows_commute: "set (common_rows rp x y) = set (common_rows rp y x)"
proof -
  have "z \<in> set (common_rows rp x y) \<longleftrightarrow> z \<in> set (common_rows rp y x)" for z
  proof (cases z)
    case (fields k n b)
    show ?thesis unfolding fields set_common_rows by (metis add.commute max.commute)
  qed
  then show ?thesis by blast
qed

lemma merge_base_cases:
  obtains (none) "common_rows rp x y = []" "merge_base rp x y = Err (ApiError_new GenerationConflict
      ''maintainer workspace and latest team release have no common revision ancestry'')"
  | (some) k n b where "(k, n, b) \<in> set (common_rows rp x y)"
      "\<And>z. z \<in> set (common_rows rp x y) \<Longrightarrow> (k, n, b) \<le> z"
      "merge_base rp x y = (if length b = 32 then Ok b
         else Err (ApiError_new Internal ''stored merge-base revision ID has invalid length''))"
proof -
  have keep: "set (sort (common_rows rp x y)) = set (common_rows rp x y)" by simp
  show ?thesis
  proof (cases "sort (common_rows rp x y)")
  case Nil
  then have "common_rows rp x y = []" using keep by auto
  with Nil show ?thesis using none by (simp add: merge_base_def)
next
  case (Cons q qs)
  obtain k n b where q: "q = (k, n, b)" by (cases q)
  have "sorted (q # qs)" using sorted_sort [of "common_rows rp x y"] by (simp add: Cons)
  then have "q \<le> z" if "z \<in> set (common_rows rp x y)" for z
    using that keep by (auto simp: Cons)
  moreover have "q \<in> set (common_rows rp x y)" using keep by (auto simp: Cons)
  ultimately show ?thesis using some [of k n b] Cons by (simp add: merge_base_def q Let_def)
  qed
qed

lemma merge_base_commute: "merge_base rp x y = merge_base rp y x"
proof (cases rule: merge_base_cases [of rp x y])
  case none
  show ?thesis
    by (cases rule: merge_base_cases [of rp y x])
      (use none common_rows_commute [of rp x y] in auto)
next
  case xy: (some k n b)
  show ?thesis
  proof (cases rule: merge_base_cases [of rp y x])
    case none
    then show ?thesis using xy(1) common_rows_commute [of rp x y] by auto
  next
    case yx: (some k' n' b')
    have "(k, n, b) = (k', n', b')"
      using xy(1,2) yx(1,2) common_rows_commute [of rp x y] by (metis order_antisym)
    then show ?thesis using xy(3) yx(3) by simp
  qed
qed

lemma relpow_single_valued:
  "single_valued E \<Longrightarrow> (x, b) \<in> E ^^ i \<Longrightarrow> (x, c) \<in> E ^^ j \<Longrightarrow> i \<le> j \<Longrightarrow> (b, c) \<in> E\<^sup>*"
proof (induction i arbitrary: x j)
  case 0
  then show ?case by (auto simp: relpow_imp_rtrancl)
next
  case (Suc i)
  obtain j' where j: "j = Suc j'" using Suc.prems(4) by (cases j) auto
  obtain u v where "(x, u) \<in> E" "(u, b) \<in> E ^^ i" "(x, v) \<in> E" "(v, c) \<in> E ^^ j'"
    using relpow_Suc_D2 [OF Suc.prems(2)] relpow_Suc_D2 [of x c j' E] Suc.prems(3) j by blast
  moreover from this have "u = v" using Suc.prems(1) by (auto dest: single_valuedD)
  ultimately show ?case using Suc.IH [of u j'] Suc.prems(1,4) j by simp
qed

text \<open>All identifiers the query can return have the width of the column.\<close>

definition wide_ids :: "parent_row list \<Rightarrow> string \<Rightarrow> bool" where
  "wide_ids rp x \<longleftrightarrow> length x = 32 \<and> list_all (\<lambda>row. length (rp_parent_revision_id row) = 32) rp"

lemma wide_ancestor: "(x, y) \<in> (parent_edges rp)\<^sup>* \<Longrightarrow> wide_ids rp x \<Longrightarrow> length y = 32"
  by (induction rule: rtrancl_induct) (auto simp: wide_ids_def parent_edges_def list_all_iff)

lemma merge_base_Ok:
  assumes "merge_base rp x y = Ok b"
  obtains l r where "ancestor_at rp x b l" "ancestor_at rp y b r"
    "\<And>c l' r'. ancestor_at rp x c l' \<Longrightarrow> ancestor_at rp y c r' \<Longrightarrow> max l r \<le> max l' r'"
    "\<And>c l' r'. ancestor_at rp x c l' \<Longrightarrow> ancestor_at rp y c r' \<Longrightarrow> max l r = max l' r' \<Longrightarrow> l + r \<le> l' + r'"
proof (cases rule: merge_base_cases [of rp x y])
  case none
  then show ?thesis using assms by simp
next
  case (some k n b')
  have b: "b' = b" using some(3) assms by (simp split: if_splits)
  obtain l r where lr: "ancestor_at rp x b l" "ancestor_at rp y b r" "k = max l r" "n = l + r"
    using some(1) unfolding set_common_rows b by blast
  have least: "(max l r, l + r, b) \<le> (max l' r', l' + r', c)"
    if "ancestor_at rp x c l'" "ancestor_at rp y c r'" for c l' r'
  proof -
    have "(max l' r', l' + r', c) \<in> set (common_rows rp x y)" unfolding set_common_rows using that by blast
    from some(2) [OF this] show ?thesis unfolding lr(3,4) b .
  qed
  show ?thesis
  proof (rule that [OF lr(1,2)])
    fix c l' r' assume "ancestor_at rp x c l'" "ancestor_at rp y c r'"
    from least [OF this] show "max l r \<le> max l' r'" by (auto simp: less_eq_prod_def)
  next
    fix c l' r' assume "ancestor_at rp x c l'" "ancestor_at rp y c r'" "max l r = max l' r'"
    from least [OF this(1,2)] this(3) show "l + r \<le> l' + r'" by (auto simp: less_eq_prod_def)
  qed
qed

lemma merge_base_total:
  assumes "wide_ids rp x" "(x, c) \<in> parent_edges rp ^^ n" "(y, c) \<in> parent_edges rp ^^ m" "n \<le> DEPTH_LIMIT" "m \<le> DEPTH_LIMIT"
  shows "\<exists>b. merge_base rp x y = Ok b"
proof (cases rule: merge_base_cases [of rp x y])
  case none
  obtain l where "ancestor_at rp x c l" using ancestor_at_exists [OF assms(2,4)] .
  moreover obtain r where "ancestor_at rp y c r" using ancestor_at_exists [OF assms(3,5)] .
  ultimately have "(max l r, l + r, c) \<in> set (common_rows rp x y)" unfolding set_common_rows by blast
  then show ?thesis using none by simp
next
  case (some k n b)
  then obtain l where "ancestor_at rp x b l" unfolding set_common_rows by blast
  then have "length b = 32" using wide_ancestor [OF ancestor_at_rtrancl assms(1)] by blast
  then show ?thesis using some(3) by simp
qed

lemma merge_base_linear:
  assumes "single_valued (parent_edges rp)" "merge_base rp x y = Ok b"
    "ancestor_at rp x c i" "ancestor_at rp y c j"
  shows "(b, c) \<in> (parent_edges rp)\<^sup>*"
proof -
  obtain l r where lr: "ancestor_at rp x b l" "ancestor_at rp y b r"
    and least: "\<And>c l' r'. ancestor_at rp x c l' \<Longrightarrow> ancestor_at rp y c r' \<Longrightarrow> max l r \<le> max l' r'"
    by (rule merge_base_Ok [OF assms(2)]) blast
  have "max l r \<le> max i j" using least assms(3,4) by blast
  then have "l \<le> i \<or> r \<le> j" by auto
  moreover have "(x, b) \<in> parent_edges rp ^^ l" "(x, c) \<in> parent_edges rp ^^ i"
    "(y, b) \<in> parent_edges rp ^^ r" "(y, c) \<in> parent_edges rp ^^ j"
    using lr assms(3,4) by (auto simp: ancestor_at_def)
  ultimately show ?thesis using relpow_single_valued [OF assms(1)] by blast
qed

section \<open>Properties\<close>

text \<open>C40. Merge base: when the two revisions have a common ancestor at most 4096 steps away from
  both, \<open>merge_base\<close> returns a revision that is an ancestor of both, and no common ancestor is nearer:
  none has a smaller larger distance, nor the same with a smaller sum of distances; the answer does
  not depend on the order of the two revisions; and where every revision has at most one parent, every
  common ancestor in range is an ancestor of the answer.\<close>

theorem merge_base_is_nearest_common_ancestor:
  assumes "wide_ids rp x"
    and "(x, c) \<in> parent_edges rp ^^ n" "n \<le> 4096" and "(y, c) \<in> parent_edges rp ^^ m" "m \<le> 4096"
  shows "\<exists>b l r. merge_base rp x y = Ok b \<and> merge_base rp y x = Ok b \<and>
    ancestor_at rp x b l \<and> ancestor_at rp y b r \<and>
    (\<forall>d i j. ancestor_at rp x d i \<and> ancestor_at rp y d j \<longrightarrow>
       max l r \<le> max i j \<and> (max l r = max i j \<longrightarrow> l + r \<le> i + j)) \<and>
    (single_valued (parent_edges rp) \<longrightarrow>
       (\<forall>d i j. ancestor_at rp x d i \<and> ancestor_at rp y d j \<longrightarrow> (b, d) \<in> (parent_edges rp)\<^sup>*))"
proof -
  obtain b where b: "merge_base rp x y = Ok b"
    using merge_base_total [OF assms(1,2,4)] assms(3,5) by (auto simp: DEPTH_LIMIT_def)
  have lowest: "\<forall>d i j. ancestor_at rp x d i \<and> ancestor_at rp y d j \<longrightarrow> (b, d) \<in> (parent_edges rp)\<^sup>*"
    if "single_valued (parent_edges rp)"
    using merge_base_linear [OF that b] by blast
  from b show ?thesis
    by (rule merge_base_Ok) (use b lowest merge_base_commute [of rp x y] in \<open>metis (no_types, lifting)\<close>)
qed

definition example_history :: "parent_row list" where
  "example_history =
     (let r = replicate 32 CHR ''r''; b = replicate 32 CHR ''b''; l = replicate 32 CHR ''l''; u = replicate 32 CHR ''u''
      in [\<lparr>rp_revision_id = b, rp_parent_revision_id = r, rp_ordinal = 0\<rparr>,
          \<lparr>rp_revision_id = l, rp_parent_revision_id = b, rp_ordinal = 0\<rparr>,
          \<lparr>rp_revision_id = u, rp_parent_revision_id = b, rp_ordinal = 0\<rparr>])"

theorem merge_base_is_nearest_common_ancestor_witness:
  "\<exists>b l r. merge_base example_history (replicate 32 CHR ''l'') (replicate 32 CHR ''u'') = Ok b \<and>
     merge_base example_history (replicate 32 CHR ''u'') (replicate 32 CHR ''l'') = Ok b \<and>
     ancestor_at example_history (replicate 32 CHR ''l'') b l \<and> ancestor_at example_history (replicate 32 CHR ''u'') b r"
proof -
  have "wide_ids example_history (replicate 32 CHR ''l'')" by code_simp
  moreover have "(replicate 32 CHR ''l'', replicate 32 CHR ''b'') \<in> parent_edges example_history ^^ 1"
    "(replicate 32 CHR ''u'', replicate 32 CHR ''b'') \<in> parent_edges example_history ^^ 1"
    by (auto simp: parent_edges_def example_history_def Let_def)
  ultimately show ?thesis
    using merge_base_is_nearest_common_ancestor [of example_history "replicate 32 CHR ''l''" "replicate 32 CHR ''b''" 1 "replicate 32 CHR ''u''" 1]
    by fastforce
qed

end
