(* ===== verification/Registry_Schema.thy ===== *)
theory Registry_Schema
  imports Revision_Graph Wire_Hash Sql_Table
begin

text \<open>
  The registry's database as its request handlers see it: the tables of
  \<open>crates/denju-registry/migrations\<close> the modelled handlers use, and the row-level security a request
  runs under.  \<open>begin_actor_tx\<close> (\<open>rls.rs\<close>) binds the transaction to its user or installation; the
  policies of the migrations then decide which rows a statement sees and which it may write, and
  they are modelled from their SQL (\<open>0015\<close>, \<open>0016\<close>, \<open>0017\<close>).  PostgreSQL joins the policies of a table
  that apply to a command by \<open>OR\<close>, and a policy \<open>FOR ALL\<close> applies to \<open>SELECT\<close> too.  No operator is bound
  in these transactions.  JSON columns hold the values the handlers write and read.
\<close>

section \<open>Rows\<close>

record user_row =
  us_id :: string
  us_namespace_id :: "string option"
  us_author_principal_id :: string
  us_deleted :: bool

record namespace_row =
  ns_id :: string
  ns_slug :: string
  ns_kind :: string

record team_row =
  tr_namespace_id :: string
  tr_members_can_publish :: bool

record membership_row =
  mb_team_namespace_id :: string
  mb_user_id :: string
  mb_role :: string

record resource_row =
  re_id :: string
  re_owner_namespace_id :: "string option"
  re_slug :: string
  re_kind :: string
  re_visibility :: string
  re_description :: string
  re_license :: "string option"
  re_compatibility :: "string option"
  re_generation :: int
  re_latest_release_version :: "int option"
  re_deleted :: bool
  re_tombstone_release_version :: "int option"

record quarantine_row =
  qu_resource_id :: string
  qu_release_version :: "int option"
  qu_lifted :: bool

record snapshot_row =
  sn_resource_id :: string
  sn_revision_id :: string
  sn_manifest_json :: PublicSkillManifest
  sn_snapshot_key :: string
  sn_snapshot_sha256 :: string
  sn_snapshot_size :: int

record release_row =
  rl_resource_id :: string
  rl_version :: int
  rl_revision_id :: string

record private_workspace_row =
  wk_resource_id :: string
  wk_user_id :: string
  wk_description :: string
  wk_license :: "string option"
  wk_compatibility :: "string option"
  wk_revision_id :: string
  wk_generation :: int
  wk_manifest_json :: PublicSkillManifest
  wk_snapshot_key :: string
  wk_snapshot_sha256 :: string
  wk_snapshot_size :: int

record conflict_row =
  cf_conflict_id :: string
  cf_resource_id :: string
  cf_user_id :: string
  cf_base_revision_id :: string
  cf_head_a_revision_id :: string
  cf_head_b_revision_id :: string
  cf_active_revision_id :: string
  cf_detected_generation :: int
  cf_resolution_revision_id :: "string option"
  cf_created_at :: int
  cf_resolved :: bool

record skill_fork_row =
  fk_resource_id :: string
  fk_upstream_resource_id :: string
  fk_sync_base_revision_id :: string
  fk_promotion_head_revision_id :: "string option"
  fk_promotion_pending :: bool

record share_row =
  sh_resource_id :: string
  sh_recipient_user_id :: string

record proposal_row =
  pp_proposer_user_id :: string
  pp_source_resource_id :: string
  pp_target_resource_id :: string

record author_link_row =
  au_author_principal_id :: string
  au_user_id :: string

record retained_row =
  rt_subject_id :: string
  rt_resource_id :: string
  rt_retain_on_delete :: bool

record stored_revision_row =
  rv_revision_id :: string
  rv_root_tree_id :: string
  rv_author_principal_id :: string
  rv_operation_id :: string

record tree_entry_row =
  ter_tree_id :: string
  ter_name :: string
  ter_kind :: TreeEntryKind

record canonical_blob_row =
  cb_blob_id :: string
  cb_size_bytes :: int
  cb_object_key :: string

text \<open>Reachability of blobs from a revision, a resource or a namespace, with its count.\<close>

record reach_row =
  bl_holder_id :: string
  bl_blob_id :: string
  bl_reference_count :: int

text \<open>The outcome a private revision ends with, stored for replays.\<close>

record PrivateWorkspaceConflict =
  pwc_conflict_id :: string
  pwc_resource_id :: string
  pwc_base_revision_id :: string
  pwc_head_revision_ids :: "string list"
  pwc_active_revision_id :: string
  pwc_generation :: u64
  pwc_resolution_revision_id :: "string option"

record PrivateRevisionResponse =
  prr_resource_id :: string
  prr_generation :: u64
  prr_revision_id :: string
  prr_description :: string
  prr_manifest :: PublicSkillManifest

datatype PrivateRevisionCommitResponse =
    Advanced PrivateRevisionResponse
  | Diverged string string PrivateWorkspaceConflict

record revision_operation_row =
  ro_user_id :: string
  ro_operation_id :: string
  ro_request_hash :: string
  ro_namespace_id :: string
  ro_resource_id :: string
  ro_expected_generation :: int
  ro_expected_head_revision_id :: string
  ro_revision_id :: string
  ro_root_tree_id :: string
  ro_manifest_json :: PublicSkillManifest
  ro_revision_author_principal_id :: "string option"
  ro_fork_sync_base_revision_id :: "string option"
  ro_fork_sync_upstream_revision_id :: "string option"
  ro_historical_skill_name :: "string option"
  ro_state :: string
  ro_outcome_json :: "PrivateRevisionCommitResponse option"

record operation_parent_row =
  pa_user_id :: string
  pa_operation_id :: string
  pa_ordinal :: nat
  pa_parent_revision_id :: string

record staging_row =
  sg_user_id :: string
  sg_operation_id :: string
  sg_blob_id :: string
  sg_size_bytes :: int
  sg_staging_key :: string

record restore_operation_row =
  so_user_id :: string
  so_operation_id :: string
  so_request_hash :: string
  so_resource_id :: string
  so_outcome_json :: PrivateRevisionResponse

text \<open>\<open>ResourceWakePayload\<close>, stored with the event and with its outbox entry.\<close>

record wake_payload =
  wp_resource_id :: string
  wp_generation :: u64

record authority_event_row =
  ae_id :: int
  ae_event_kind :: string
  ae_resource_id :: string
  ae_resource_generation :: int
  ae_payload_json :: wake_payload

record outbox_row =
  ob_event_id :: int
  ob_event_kind :: string
  ob_payload_json :: wake_payload
  ob_dispatched :: bool

record registry =
  rg_users :: "user_row list"
  rg_namespaces :: "namespace_row list"
  rg_teams :: "team_row list"
  rg_memberships :: "membership_row list"
  rg_resources :: "resource_row list"
  rg_quarantines :: "quarantine_row list"
  rg_releases :: "release_row list"
  rg_snapshots :: "snapshot_row list"
  rg_workspaces :: "private_workspace_row list"
  rg_conflicts :: "conflict_row list"
  rg_forks :: "skill_fork_row list"
  rg_shares :: "share_row list"
  rg_proposals :: "proposal_row list"
  rg_author_links :: "author_link_row list"
  rg_account_subscriptions :: "retained_row list"
  rg_installation_subscriptions :: "retained_row list"
  rg_revisions :: "stored_revision_row list"
  rg_parents :: "parent_row list"
  rg_merkle_trees :: "string list"
  rg_tree_entries :: "tree_entry_row list"
  rg_canonical_blobs :: "canonical_blob_row list"
  rg_revision_blobs :: "(string \<times> string) list"
  rg_resource_blobs :: "reach_row list"
  rg_namespace_blobs :: "reach_row list"
  rg_revision_operations :: "revision_operation_row list"
  rg_operation_parents :: "operation_parent_row list"
  rg_staging :: "staging_row list"
  rg_restore_operations :: "restore_operation_row list"
  rg_events :: "authority_event_row list"
  rg_outbox :: "outbox_row list"

text \<open>The database, the object store beside it, and what was sent on the wake channel.\<close>

datatype RegistryWake = WakeResource string u64 | ResyncAll

record server =
  sv_db :: registry
  sv_objects :: "string \<Rightarrow> string option"
  sv_wakes :: "RegistryWake list"

section \<open>The actor of a transaction\<close>

record actor =
  ac_user :: "string option"
  ac_installation :: "string option"

definition begin_actor_tx :: "string \<Rightarrow> actor" where
  "begin_actor_tx user_id = \<lparr>ac_user = Some user_id, ac_installation = None\<rparr>"

definition begin_installation_actor_tx :: "string \<Rightarrow> actor" where
  "begin_installation_actor_tx installation_id = \<lparr>ac_user = None, ac_installation = Some installation_id\<rparr>"

section \<open>Policy functions\<close>

definition own_namespace :: "registry \<Rightarrow> actor \<Rightarrow> string option \<Rightarrow> bool" where
  "own_namespace g a n \<longleftrightarrow> n \<noteq> None \<and>
     list_ex (\<lambda>u. ac_user a = Some (us_id u) \<and> \<not> us_deleted u \<and> us_namespace_id u = n) (rg_users g)"

definition actor_has_namespace_access :: "registry \<Rightarrow> actor \<Rightarrow> string option \<Rightarrow> bool" where
  "actor_has_namespace_access g a n \<longleftrightarrow> own_namespace g a n \<or>
     list_ex (\<lambda>m. ac_user a = Some (mb_user_id m) \<and> n = Some (mb_team_namespace_id m)) (rg_memberships g)"

definition actor_can_publish_namespace :: "registry \<Rightarrow> actor \<Rightarrow> string option \<Rightarrow> bool" where
  "actor_can_publish_namespace g a n \<longleftrightarrow> own_namespace g a n \<or>
     list_ex (\<lambda>m. ac_user a = Some (mb_user_id m) \<and> n = Some (mb_team_namespace_id m) \<and>
       list_ex (\<lambda>t. tr_namespace_id t = mb_team_namespace_id m \<and>
         (mb_role m \<in> set [''owner'', ''maintainer''] \<or> mb_role m = ''member'' \<and> tr_members_can_publish t)) (rg_teams g))
       (rg_memberships g)"

text \<open>A quarantine of the whole resource, and one that hits a release of it.\<close>

definition resource_quarantined :: "registry \<Rightarrow> string \<Rightarrow> bool" where
  "resource_quarantined g r \<longleftrightarrow>
     list_ex (\<lambda>q. qu_resource_id q = r \<and> qu_release_version q = None \<and> \<not> qu_lifted q) (rg_quarantines g)"

definition release_quarantined :: "registry \<Rightarrow> string \<Rightarrow> int \<Rightarrow> bool" where
  "release_quarantined g r v \<longleftrightarrow>
     list_ex (\<lambda>q. qu_resource_id q = r \<and> \<not> qu_lifted q \<and>
       (qu_release_version q = None \<or> qu_release_version q = Some v)) (rg_quarantines g)"

definition actor_can_manage_resource :: "registry \<Rightarrow> actor \<Rightarrow> string \<Rightarrow> bool" where
  "actor_can_manage_resource g a r \<longleftrightarrow>
     list_ex (\<lambda>x. re_id x = r \<and> actor_can_publish_namespace g a (re_owner_namespace_id x)) (rg_resources g) \<and>
     \<not> resource_quarantined g r"

definition actor_can_review_source_resource :: "registry \<Rightarrow> actor \<Rightarrow> string \<Rightarrow> bool" where
  "actor_can_review_source_resource g a r \<longleftrightarrow> \<not> resource_quarantined g r \<and>
     list_ex (\<lambda>p. pp_source_resource_id p = r \<and>
       list_ex (\<lambda>s. re_id s = r \<and> \<not> re_deleted s) (rg_resources g) \<and>
       list_ex (\<lambda>t. re_id t = pp_target_resource_id p \<and> \<not> re_deleted t \<and>
         (ac_user a = Some (pp_proposer_user_id p) \<or> actor_can_publish_namespace g a (re_owner_namespace_id t)))
         (rg_resources g))
       (rg_proposals g)"

definition shared_with :: "registry \<Rightarrow> actor \<Rightarrow> string \<Rightarrow> bool" where
  "shared_with g a r \<longleftrightarrow>
     list_ex (\<lambda>s. sh_resource_id s = r \<and> ac_user a = Some (sh_recipient_user_id s)) (rg_shares g)"

definition retains :: "registry \<Rightarrow> actor \<Rightarrow> string \<Rightarrow> bool" where
  "retains g a r \<longleftrightarrow>
     list_ex (\<lambda>s. ac_user a = Some (rt_subject_id s) \<and> rt_resource_id s = r \<and> rt_retain_on_delete s)
       (rg_account_subscriptions g) \<or>
     list_ex (\<lambda>s. ac_installation a = Some (rt_subject_id s) \<and> rt_resource_id s = r \<and> rt_retain_on_delete s)
       (rg_installation_subscriptions g)"

definition actor_can_read_resource :: "registry \<Rightarrow> actor \<Rightarrow> string \<Rightarrow> bool" where
  "actor_can_read_resource g a r \<longleftrightarrow>
     list_ex (\<lambda>x. re_id x = r \<and>
       (re_visibility x = ''public'' \<and> \<not> re_deleted x \<or>
        actor_has_namespace_access g a (re_owner_namespace_id x) \<or>
        shared_with g a r \<and> \<not> re_deleted x \<or>
        \<not> re_deleted x \<and> actor_can_review_source_resource g a r \<or>
        retains g a r \<and> re_deleted x)) (rg_resources g)"

text \<open>The revisions in the history of the actor's own workspace.\<close>

definition workspace_ancestry :: "registry \<Rightarrow> string \<Rightarrow> string \<Rightarrow> string list" where
  "workspace_ancestry g r u =
     ancestry (rg_parents g)
       (map wk_revision_id (filter (\<lambda>w. wk_resource_id w = r \<and> wk_user_id w = u) (rg_workspaces g)))"

definition owner_kind :: "registry \<Rightarrow> resource_row \<Rightarrow> string option" where
  "owner_kind g x =
     (case re_owner_namespace_id x of None \<Rightarrow> None
      | Some n \<Rightarrow> map_option ns_kind (sql_first (\<lambda>m. ns_id m = n) (rg_namespaces g)))"

definition released_unquarantined :: "registry \<Rightarrow> string \<Rightarrow> string \<Rightarrow> bool" where
  "released_unquarantined g r v \<longleftrightarrow>
     list_ex (\<lambda>l. rl_resource_id l = r \<and> rl_revision_id l = v \<and> \<not> release_quarantined g r (rl_version l)) (rg_releases g)"

definition own_ancestry :: "registry \<Rightarrow> actor \<Rightarrow> string \<Rightarrow> string \<Rightarrow> bool" where
  "own_ancestry g a r v \<longleftrightarrow>
     (case ac_user a of None \<Rightarrow> False | Some u \<Rightarrow> v \<in> set (workspace_ancestry g r u))"

definition actor_can_read_revision_snapshot :: "registry \<Rightarrow> actor \<Rightarrow> string \<Rightarrow> string \<Rightarrow> bool" where
  "actor_can_read_revision_snapshot g a r v \<longleftrightarrow>
     list_ex (\<lambda>x. re_id x = r \<and> owner_kind g x \<noteq> None \<and> \<not> re_deleted x \<and> \<not> resource_quarantined g r \<and>
       (released_unquarantined g r v \<and>
          (re_visibility x = ''public'' \<or> actor_has_namespace_access g a (re_owner_namespace_id x) \<or> shared_with g a r) \<or>
        owner_kind g x = Some ''user'' \<and>
          (actor_has_namespace_access g a (re_owner_namespace_id x) \<or> shared_with g a r) \<or>
        owner_kind g x = Some ''team'' \<and> own_ancestry g a r v \<or>
        actor_can_review_source_resource g a r)) (rg_resources g) \<or>
     list_ex (\<lambda>x. re_id x = r \<and> re_deleted x \<and> retains g a r \<and>
       list_ex (\<lambda>l. rl_resource_id l = r \<and> re_tombstone_release_version x = Some (rl_version l) \<and>
         rl_revision_id l = v \<and> \<not> release_quarantined g r (rl_version l)) (rg_releases g)) (rg_resources g)"

definition actor_can_read_revision :: "registry \<Rightarrow> actor \<Rightarrow> string \<Rightarrow> bool" where
  "actor_can_read_revision g a v \<longleftrightarrow>
     list_ex (\<lambda>s. sn_revision_id s = v \<and> actor_can_read_revision_snapshot g a (sn_resource_id s) v) (rg_snapshots g) \<or>
     list_ex (\<lambda>q. rv_revision_id q = v \<and>
       list_ex (\<lambda>l. au_author_principal_id l = rv_author_principal_id q \<and> ac_user a = Some (au_user_id l))
         (rg_author_links g)) (rg_revisions g)"

definition actor_can_read_workspace :: "registry \<Rightarrow> actor \<Rightarrow> string \<Rightarrow> string \<Rightarrow> bool" where
  "actor_can_read_workspace g a r u \<longleftrightarrow> \<not> resource_quarantined g r \<and>
     (ac_user a = Some u \<or>
      list_ex (\<lambda>x. re_id x = r \<and> \<not> re_deleted x \<and> owner_kind g x = Some ''user'' \<and> shared_with g a r) (rg_resources g) \<or>
      actor_can_review_source_resource g a r)"

section \<open>What a transaction sees\<close>

definition sees_workspace :: "registry \<Rightarrow> actor \<Rightarrow> private_workspace_row \<Rightarrow> bool" where
  "sees_workspace g a w \<longleftrightarrow> actor_can_read_workspace g a (wk_resource_id w) (wk_user_id w) \<or>
     ac_user a = Some (wk_user_id w) \<and> actor_can_manage_resource g a (wk_resource_id w)"

definition sees_snapshot :: "registry \<Rightarrow> actor \<Rightarrow> snapshot_row \<Rightarrow> bool" where
  "sees_snapshot g a s \<longleftrightarrow> actor_can_read_revision_snapshot g a (sn_resource_id s) (sn_revision_id s) \<or>
     actor_can_manage_resource g a (sn_resource_id s)"

definition actor_view :: "actor \<Rightarrow> registry \<Rightarrow> registry" where
  "actor_view a g = g
     \<lparr>rg_resources := filter (\<lambda>x. actor_can_read_resource g a (re_id x)) (rg_resources g),
      rg_memberships := filter (\<lambda>m. ac_user a = Some (mb_user_id m) \<or>
        actor_has_namespace_access g a (Some (mb_team_namespace_id m))) (rg_memberships g),
      rg_releases := filter (\<lambda>l. actor_can_read_revision_snapshot g a (rl_resource_id l) (rl_revision_id l)) (rg_releases g),
      rg_snapshots := filter (sees_snapshot g a) (rg_snapshots g),
      rg_workspaces := filter (sees_workspace g a) (rg_workspaces g),
      rg_conflicts := filter (\<lambda>c. ac_user a = Some (cf_user_id c)) (rg_conflicts g),
      rg_forks := filter (\<lambda>f. actor_can_read_resource g a (fk_resource_id f) \<or>
        actor_can_manage_resource g a (fk_resource_id f)) (rg_forks g),
      rg_shares := filter (\<lambda>s. ac_user a = Some (sh_recipient_user_id s) \<or>
        actor_can_manage_resource g a (sh_resource_id s)) (rg_shares g),
      rg_revisions := filter (\<lambda>v. actor_can_read_revision g a (rv_revision_id v)) (rg_revisions g),
      rg_parents := filter (\<lambda>p. actor_can_read_revision g a (rp_revision_id p)) (rg_parents g),
      rg_resource_blobs := filter (\<lambda>b. actor_can_manage_resource g a (bl_holder_id b)) (rg_resource_blobs g),
      rg_namespace_blobs := filter (\<lambda>b. actor_has_namespace_access g a (Some (bl_holder_id b)) \<or>
        actor_can_publish_namespace g a (Some (bl_holder_id b))) (rg_namespace_blobs g),
      rg_canonical_blobs := filter (\<lambda>c. list_ex (\<lambda>b. bl_blob_id b = cb_blob_id c \<and>
        (actor_has_namespace_access g a (Some (bl_holder_id b)) \<or>
         actor_can_publish_namespace g a (Some (bl_holder_id b)))) (rg_namespace_blobs g)) (rg_canonical_blobs g),
      rg_revision_operations := filter (\<lambda>q. ac_user a = Some (ro_user_id q)) (rg_revision_operations g),
      rg_operation_parents := filter (\<lambda>p. ac_user a = Some (pa_user_id p)) (rg_operation_parents g),
      rg_staging := filter (\<lambda>s. ac_user a = Some (sg_user_id s)) (rg_staging g),
      rg_restore_operations := filter (\<lambda>q. ac_user a = Some (so_user_id q)) (rg_restore_operations g)\<rparr>"

section \<open>Constraints\<close>

text \<open>What the keys, checks and foreign keys of the identity tables give: unique identifiers, namespaces of
  the two kinds, users in namespaces of their own kind, members of existing teams with a known role.\<close>

definition identity_ok :: "registry \<Rightarrow> bool" where
  "identity_ok g \<longleftrightarrow>
     distinct (map us_id (rg_users g)) \<and> distinct (map ns_id (rg_namespaces g)) \<and>
     distinct (map ns_slug (rg_namespaces g)) \<and> distinct (map re_id (rg_resources g)) \<and>
     distinct (map tr_namespace_id (rg_teams g)) \<and>
     distinct (map (\<lambda>m. (mb_team_namespace_id m, mb_user_id m)) (rg_memberships g)) \<and>
     list_all (\<lambda>n. ns_kind n \<in> set [''user'', ''team'']) (rg_namespaces g) \<and>
     list_all (\<lambda>m. mb_role m \<in> set [''owner'', ''maintainer'', ''member''] \<and>
       list_ex (\<lambda>t. tr_namespace_id t = mb_team_namespace_id m) (rg_teams g)) (rg_memberships g) \<and>
     list_all (\<lambda>t. list_ex (\<lambda>n. ns_id n = tr_namespace_id t \<and> ns_kind n = ''team'') (rg_namespaces g)) (rg_teams g) \<and>
     list_all (\<lambda>u. case us_namespace_id u of None \<Rightarrow> True
       | Some i \<Rightarrow> list_ex (\<lambda>n. ns_id n = i \<and> ns_kind n = ''user'') (rg_namespaces g)) (rg_users g)"

end
