(* ===== verification/Registry_Access.thy ===== *)
theory Registry_Access
  imports Registry_Schema
begin

text \<open>
  \<open>access.rs\<close>, \<open>team_access.rs\<close>, \<open>fork_sync.rs\<close>, \<open>release_validation.rs\<close> and the user authority of
  \<open>identity_support.rs\<close> in \<open>crates/denju-registry/src\<close>: who may read, fork and publish what.  Every
  query runs on the rows its transaction sees: the argument \<open>v\<close> is \<open>actor_view a g\<close> for the tables
  \<open>g\<close> and the actor \<open>a\<close> of the transaction.
\<close>

section \<open>User authority\<close>

datatype AuthActor =
    AA_Installation string
  | AA_Session string string string
  | AA_Automation string "string list"

record UserAuthority =
  ua_user_id :: string
  ua_namespace_id :: string
  ua_namespace_slug :: string
  ua_author_principal_id :: string

definition invalid_credentials :: ApiError where
  "invalid_credentials = ApiError_new Unauthorized ''invalid identity credential''"

fun actor_user :: "AuthActor \<Rightarrow> string \<Rightarrow> (string, ApiError) result" where
  "actor_user (AA_Session session_id user_id installation_id) scope = Ok user_id"
| "actor_user (AA_Automation user_id scopes) scope =
     (if list_ex (\<lambda>s. s = scope \<or> s = ''skills:*'' \<or> s = ''*'') scopes then Ok user_id
      else Err (ApiError_new Unauthorized (''automation credential requires scope '' @ scope)))"
| "actor_user (AA_Installation installation_id) scope =
     Err (ApiError_new Unauthorized ''a claimed user identity is required'')"

text \<open>\<open>user_authority\<close> after \<open>authenticate_actor\<close>; its query runs outside the actor transaction on
  tables every request reads.\<close>

definition user_authority :: "registry \<Rightarrow> AuthActor \<Rightarrow> string \<Rightarrow> (UserAuthority, ApiError) result" where
  "user_authority g who automation_scope =
     res_bind (actor_user who automation_scope) (\<lambda>user_id.
     case sql_first (\<lambda>u. us_id u = user_id \<and> \<not> us_deleted u) (rg_users g) of
       None \<Rightarrow> Err invalid_credentials
     | Some u \<Rightarrow>
         (case us_namespace_id u of None \<Rightarrow> Err invalid_credentials
          | Some namespace_id \<Rightarrow>
              (case sql_first (\<lambda>n. ns_id n = namespace_id) (rg_namespaces g) of
                 None \<Rightarrow> Err invalid_credentials
               | Some n \<Rightarrow> Ok \<lparr>ua_user_id = user_id, ua_namespace_id = namespace_id,
                     ua_namespace_slug = ns_slug n, ua_author_principal_id = us_author_principal_id u\<rparr>)))"

definition revision_author_for_user ::
  "uuid_lib \<Rightarrow> registry \<Rightarrow> UserAuthority \<Rightarrow> string option \<Rightarrow> (string, ApiError) result" where
  "revision_author_for_user L g authority requested =
     (case requested of
        None \<Rightarrow> Ok (ua_author_principal_id authority)
      | Some text \<Rightarrow>
          res_bind (map_err (\<lambda>_. ApiError_new InvalidRequest ''revision author principal is invalid'') (uu_parse_str L text)) (\<lambda>author.
          if list_ex (\<lambda>l. au_author_principal_id l = author \<and> au_user_id l = ua_user_id authority) (rg_author_links g)
          then Ok author
          else Err (ApiError_new Unauthorized ''revision author principal is not linked to this user'')))"

section \<open>Reading and forking\<close>

record SkillAccess =
  sa_user_id :: string
  sa_visibility :: string
  sa_team_owned :: bool
  sa_owner_access :: bool
  sa_shared_access :: bool
  sa_team_release_access :: bool
  sa_workspace_access :: bool

definition can_read_private :: "SkillAccess \<Rightarrow> bool" where
  "can_read_private s \<longleftrightarrow> sa_owner_access s \<or> sa_shared_access s \<and> \<not> sa_team_owned s"

definition can_read_released :: "SkillAccess \<Rightarrow> bool" where
  "can_read_released s \<longleftrightarrow> sa_visibility s = ''public'' \<or> sa_team_release_access s \<or> sa_shared_access s \<or> sa_owner_access s"

text \<open>\<open>FROM resources r JOIN namespaces n ON n.id=r.owner_namespace_id WHERE r.id=$1 AND
  r.kind='skill' AND r.deleted_at IS NULL\<close>.\<close>

definition live_skill :: "registry \<Rightarrow> string \<Rightarrow> (resource_row \<times> string \<times> string) option" where
  "live_skill v resource_id =
     (case sql_first (\<lambda>x. re_id x = resource_id \<and> re_kind x = ''skill'' \<and> \<not> re_deleted x \<and> owner_kind v x \<noteq> None) (rg_resources v) of
        None \<Rightarrow> None
      | Some x \<Rightarrow> Some (x, the (re_owner_namespace_id x), the (owner_kind v x)))"

definition is_shared :: "registry \<Rightarrow> string \<Rightarrow> string \<Rightarrow> bool" where
  "is_shared v resource_id user_id \<longleftrightarrow>
     list_ex (\<lambda>s. sh_resource_id s = resource_id \<and> sh_recipient_user_id s = user_id) (rg_shares v)"

definition user_is_team_member :: "registry \<Rightarrow> string \<Rightarrow> string \<Rightarrow> bool" where
  "user_is_team_member v user_id namespace_id \<longleftrightarrow>
     list_ex (\<lambda>m. mb_team_namespace_id m = namespace_id \<and> mb_user_id m = user_id) (rg_memberships v)"

definition skill_access_for_user ::
  "registry \<Rightarrow> string \<Rightarrow> string \<Rightarrow> string \<Rightarrow> (SkillAccess, ApiError) result" where
  "skill_access_for_user v user_id namespace_id resource_id =
     res_bind (ok_or (live_skill v resource_id) (ApiError_new NotFound ''skill not found'')) (\<lambda>(x, owner, kind).
     Ok \<lparr>sa_user_id = user_id, sa_visibility = re_visibility x, sa_team_owned = (kind = ''team''),
         sa_owner_access = (kind = ''user'' \<and> owner = namespace_id),
         sa_shared_access = is_shared v resource_id user_id,
         sa_team_release_access = (kind = ''team'' \<and> user_is_team_member v user_id owner),
         sa_workspace_access =
           list_ex (\<lambda>w. wk_resource_id w = resource_id \<and> wk_user_id w = user_id) (rg_workspaces v)\<rparr>)"

definition has_snapshot :: "registry \<Rightarrow> string \<Rightarrow> string \<Rightarrow> bool" where
  "has_snapshot v resource_id revision_id \<longleftrightarrow>
     list_ex (\<lambda>s. sn_resource_id s = resource_id \<and> sn_revision_id s = revision_id) (rg_snapshots v)"

definition is_released :: "registry \<Rightarrow> string \<Rightarrow> string \<Rightarrow> bool" where
  "is_released v resource_id revision_id \<longleftrightarrow>
     list_ex (\<lambda>l. rl_resource_id l = resource_id \<and> rl_revision_id l = revision_id) (rg_releases v)"

definition in_workspace_ancestry :: "registry \<Rightarrow> string \<Rightarrow> string \<Rightarrow> string \<Rightarrow> bool" where
  "in_workspace_ancestry v resource_id user_id revision_id \<longleftrightarrow>
     list_ex (\<lambda>r. r = revision_id) (workspace_ancestry v resource_id user_id)"

definition user_can_read_revision ::
  "registry \<Rightarrow> SkillAccess \<Rightarrow> string \<Rightarrow> string \<Rightarrow> (bool, ApiError) result" where
  "user_can_read_revision v access resource_id revision_id =
     (if can_read_private access then Ok (has_snapshot v resource_id revision_id)
      else if sa_workspace_access access \<and> in_workspace_ancestry v resource_id (sa_user_id access) revision_id then Ok True
      else if \<not> can_read_released access then Ok False
      else Ok (is_released v resource_id revision_id))"

definition user_can_fork_revision ::
  "registry \<Rightarrow> string \<Rightarrow> string \<Rightarrow> string \<Rightarrow> string \<Rightarrow> (bool, ApiError) result" where
  "user_can_fork_revision v user_id personal_namespace_id resource_id revision_id =
     (case live_skill v resource_id of
        None \<Rightarrow> Ok False
      | Some (x, owner_namespace_id, kind) \<Rightarrow>
          (let shared = is_shared v resource_id user_id;
               exists = has_snapshot v resource_id revision_id;
               released = is_released v resource_id revision_id;
               team_member = user_is_team_member v user_id owner_namespace_id
           in if \<not> exists then Ok False
              else if kind = ''user'' \<and> (owner_namespace_id = personal_namespace_id \<or> shared) then Ok True
              else if re_visibility x = ''public'' \<and> released then Ok True
              else if kind \<noteq> ''team'' then Ok False
              else if released \<and> (team_member \<or> shared) then Ok True
              else if \<not> team_member then Ok False
              else Ok (in_workspace_ancestry v resource_id user_id revision_id)))"

section \<open>Publishing\<close>

record NamespacePublishAuthority =
  np_namespace_id :: string
  np_namespace_slug :: string
  np_is_team :: bool

definition role_can_publish :: "TeamRole \<Rightarrow> bool \<Rightarrow> bool" where
  "role_can_publish role members_can_publish \<longleftrightarrow>
     role = Owner \<or> role = Maintainer \<or> role = Member \<and> members_can_publish"

fun LocatorError_text :: "LocatorError \<Rightarrow> string" where
  "LocatorError_text MissingAtSign = ''resource locators must start with '' @ [CHR 0x27, CHR ''@'', CHR 0x27]"
| "LocatorError_text InvalidShape = ''resource locators must be @owner/name or @owner/packs/name''"
| "LocatorError_text InvalidNamespace = ''namespace names must be non-empty lowercase path-safe text''"
| "LocatorError_text InvalidResourceName = ''invalid resource name''"

definition parse_namespace :: "unicode_tables \<Rightarrow> string \<Rightarrow> (string, ApiError) result" where
  "parse_namespace U v =
     (let slug = (case v of CHR ''@'' # rest \<Rightarrow> rest | _ \<Rightarrow> v)
      in if slash \<in> set slug \<or> slug = []
         then Err (ApiError_new InvalidRequest ''team namespace must be a single @name'')
         else res_bind (map_err (\<lambda>e. ApiError_new InvalidRequest (LocatorError_text e))
                 (locator_from_str U (CHR ''@'' # slug @ slash # ''validation''))) (\<lambda>locator. Ok (loc_owner locator)))"

definition parse_role :: "string \<Rightarrow> (TeamRole, ApiError) result" where
  "parse_role v =
     (if v = ''owner'' then Ok Owner else if v = ''maintainer'' then Ok Maintainer
      else if v = ''member'' then Ok Member else Err (ApiError_new Internal ''stored team role is invalid''))"

definition authorize_namespace_publish ::
  "unicode_tables \<Rightarrow> registry \<Rightarrow> UserAuthority \<Rightarrow> string \<Rightarrow> (NamespacePublishAuthority, ApiError) result" where
  "authorize_namespace_publish U v authority owner =
     res_bind (parse_namespace U owner) (\<lambda>slug.
     res_bind (ok_or (sql_first (\<lambda>n. ns_slug n = slug) (rg_namespaces v)) (ApiError_new NotFound ''namespace not found'')) (\<lambda>n.
     if ns_kind n = ''user'' then
       (if ns_id n \<noteq> ua_namespace_id authority
        then Err (ApiError_new Unauthorized ''resource namespace is unavailable'')
        else Ok \<lparr>np_namespace_id = ns_id n, np_namespace_slug = slug, np_is_team = False\<rparr>)
     else if ns_kind n \<noteq> ''team'' then Err (ApiError_new Internal ''stored namespace kind is invalid'')
     else
       (case sql_first (\<lambda>m. mb_team_namespace_id m = ns_id n \<and> mb_user_id m = ua_user_id authority) (rg_memberships v) of
          None \<Rightarrow> Err (ApiError_new Unauthorized ''team is unavailable'')
        | Some m \<Rightarrow>
            res_bind (parse_role (mb_role m)) (\<lambda>role.
            res_bind (ok_or (sql_first (\<lambda>t. tr_namespace_id t = ns_id n) (rg_teams v))
              (ApiError_new Internal ''team settings are unavailable'')) (\<lambda>t.
            if \<not> role_can_publish role (tr_members_can_publish t)
            then Err (ApiError_new Unauthorized ''team role does not allow publishing'')
            else Ok \<lparr>np_namespace_id = ns_id n, np_namespace_slug = slug, np_is_team = True\<rparr>)))))"

definition resource_owner_slug :: "registry \<Rightarrow> string \<Rightarrow> string option" where
  "resource_owner_slug v resource_id =
     (case sql_first (\<lambda>x. re_id x = resource_id \<and> \<not> re_deleted x \<and> owner_kind v x \<noteq> None \<and>
          \<not> resource_quarantined v resource_id) (rg_resources v) of
        None \<Rightarrow> None
      | Some x \<Rightarrow> map_option ns_slug (sql_first (\<lambda>n. re_owner_namespace_id x = Some (ns_id n)) (rg_namespaces v)))"

definition authorize_resource_publish ::
  "unicode_tables \<Rightarrow> registry \<Rightarrow> UserAuthority \<Rightarrow> string \<Rightarrow> (NamespacePublishAuthority, ApiError) result" where
  "authorize_resource_publish U v authority resource_id =
     res_bind (ok_or (resource_owner_slug v resource_id) (ApiError_new NotFound ''resource not found'')) (\<lambda>owner.
     authorize_namespace_publish U v authority owner)"

section \<open>Fork synchronization\<close>

record ValidatedForkSync =
  vf_expected_base :: RevisionId
  vf_upstream_revision :: RevisionId

definition revision_id_param :: "hex_lib \<Rightarrow> string \<Rightarrow> (RevisionId, ApiError) result" where
  "revision_id_param X text =
     map_err (\<lambda>e. ApiError_new InvalidRequest (ObjectIdError_text e)) (object_id_from_str (hex_decode X) RevisionId text)"

text \<open>\<open>revision_parents\<close> of \<open>revision_graph.rs\<close>: the parents of a revision, in their order.\<close>

definition revision_parents :: "hex_lib \<Rightarrow> registry \<Rightarrow> string \<Rightarrow> (string list, ApiError) result" where
  "revision_parents X v revision_id =
     res_bind (map_err (\<lambda>e. ApiError_new Internal (ObjectIdError_text e)) (object_id_from_str (hex_decode X) RevisionId revision_id)) (\<lambda>revision.
     collect_res (\<lambda>p. map_ok (hex_encode X) (decode_32 (rp_parent_revision_id p) ''stored parent revision ID''))
       (sort_key rp_ordinal (filter (\<lambda>p. rp_revision_id p = revision_bytes revision) (rg_parents v))))"

definition parse_fork_sync_intent :: "hex_lib \<Rightarrow> ForkSyncIntent \<Rightarrow> (ValidatedForkSync, ApiError) result" where
  "parse_fork_sync_intent X intent =
     res_bind (revision_id_param X (fsi_expected_sync_base_revision_id intent)) (\<lambda>expected_base.
     res_bind (revision_id_param X (fsi_upstream_revision_id intent)) (\<lambda>upstream_revision.
     if expected_base = upstream_revision
     then Err (ApiError_new InvalidRequest ''fork sync target is already the recorded upstream base'')
     else Ok \<lparr>vf_expected_base = expected_base, vf_upstream_revision = upstream_revision\<rparr>))"

text \<open>The row lock of \<open>validate_fork_sync\<close> keeps to the rows the actor may also update.\<close>

definition validate_fork_sync ::
  "registry \<Rightarrow> (skill_fork_row \<Rightarrow> bool) \<Rightarrow> string \<Rightarrow> string \<Rightarrow> string \<Rightarrow> ValidatedForkSync \<Rightarrow> (unit, ApiError) result" where
  "validate_fork_sync v lockable user_id namespace_id fork_resource_id sync =
     res_bind (ok_or (sql_first (\<lambda>f. fk_resource_id f = fork_resource_id \<and> lockable f) (rg_forks v))
       (ApiError_new InvalidRequest ''skill is not a fork'')) (\<lambda>fork.
     res_bind (decode_32 (fk_sync_base_revision_id fork) ''stored fork sync base revision ID'') (\<lambda>stored_base.
     if stored_base \<noteq> revision_bytes (vf_expected_base sync)
     then Err (ApiError_new GenerationConflict ''fork upstream base advanced; refresh the fork before retrying sync'')
     else
       res_bind (user_can_fork_revision v user_id namespace_id (fk_upstream_resource_id fork)
         (revision_bytes (vf_upstream_revision sync))) (\<lambda>allowed.
       if \<not> allowed then Err (ApiError_new NotFound ''fork upstream revision is unavailable'')
       else if \<not> list_ex (\<lambda>r. r = revision_bytes (vf_expected_base sync))
           (ancestry (rg_parents v) [revision_bytes (vf_upstream_revision sync)])
       then Err (ApiError_new GenerationConflict ''selected upstream revision does not descend from the fork sync base'')
       else Ok ())))"

definition require_pending_fork_promotion :: "registry \<Rightarrow> string \<Rightarrow> (unit, ApiError) result" where
  "require_pending_fork_promotion v resource_id =
     (if list_ex (\<lambda>f. fk_resource_id f = resource_id \<and> fk_promotion_pending f) (rg_forks v) then Ok ()
      else Err (ApiError_new InvalidRequest
        ''historical skill-name validation is only available while promoting a local fork''))"

section \<open>Release metadata\<close>

definition is_ascii_alphanumeric :: "char \<Rightarrow> bool" where
  "is_ascii_alphanumeric c \<longleftrightarrow>
     list_ex (\<lambda>(first, last). first \<le> c \<and> c \<le> last) [(CHR ''0'', CHR ''9''), (CHR ''A'', CHR ''Z''), (CHR ''a'', CHR ''z'')]"

definition valid_tag :: "string \<Rightarrow> bool" where
  "valid_tag tag \<longleftrightarrow> tag \<noteq> [] \<and> length tag \<le> 64 \<and>
     list_all (\<lambda>c. is_ascii_alphanumeric c \<or> c \<in> set [CHR ''.'', CHR ''_'', CHR ''-'']) tag"

fun unique_tags :: "string list \<Rightarrow> string list \<Rightarrow> (unit, ApiError) result" where
  "unique_tags seen [] = Ok ()"
| "unique_tags seen (tag # tags) =
     (if \<not> valid_tag tag
      then Err (ApiError_new InvalidRequest
        (''release tags must be 1-64 ASCII letters, digits, '' @ [CHR 0x27] @ ''.'' @ [CHR 0x27] @ '', '' @ [CHR 0x27] @ ''_'' @
         [CHR 0x27] @ '' or '' @ [CHR 0x27] @ ''-'' @ [CHR 0x27]))
      else if tag \<in> set seen then Err (ApiError_new InvalidRequest ''release tags must be unique'')
      else unique_tags (tag # seen) tags)"

definition validate_release_metadata :: "string option \<Rightarrow> string list \<Rightarrow> (unit, ApiError) result" where
  "validate_release_metadata msg tags =
     (if (case msg of None \<Rightarrow> False | Some t \<Rightarrow> length t > 4096)
      then Err (ApiError_new InvalidRequest ''release message exceeds 4096 bytes'')
      else unique_tags [] tags)"

end
