(* ===== verification/Registry_Storage.thy ===== *)
theory Registry_Storage
  imports Registry_Access
begin

text \<open>
  \<open>ingest_storage.rs\<close>, \<open>workspace_storage.rs\<close>, \<open>workspace_conflict.rs\<close> and \<open>outbox.rs\<close> of
  \<open>crates/denju-registry/src\<close>: the statements that store revisions, count reachable blobs, record and
  resolve workspace conflicts, and queue wakes.  A statement of a transaction reads the rows the
  actor sees; an insert or update fails when the row policy refuses the new row or a key, a check or a
  reference to a revision does not hold.  Locks have no effect here, because a transaction runs as one step.
\<close>

type_synonym 'a tx = "(registry, 'a, ApiError) op"

definition internal_api_error :: "string \<Rightarrow> ApiError" where
  "internal_api_error e = ApiError_new Internal (''registry database error: '' @ e)"

definition query_as :: "actor \<Rightarrow> (registry \<Rightarrow> ('a, ApiError) result) \<Rightarrow> 'a tx" where
  "query_as a q = op_query (\<lambda>g. q (actor_view a g))"

section \<open>Statements under row policies\<close>

text \<open>A table is given by its field, read and updated; \<open>ok\<close> is the policy and the checks for the new row.\<close>

definition insert_row ::
  "(registry \<Rightarrow> 'r list) \<Rightarrow> (('r list \<Rightarrow> 'r list) \<Rightarrow> registry \<Rightarrow> registry) \<Rightarrow> ('r \<Rightarrow> 'r \<Rightarrow> bool) \<Rightarrow>
   (registry \<Rightarrow> 'r \<Rightarrow> bool) \<Rightarrow> 'r \<Rightarrow> unit tx" where
  "insert_row get upd clash ok row =
     sql_exec (internal_api_error ''insert'') (\<lambda>g.
       map_option (\<lambda>t. (upd (\<lambda>_. t) g, ())) (sql_insert clash (ok g) row (get g)))"

definition insert_row_or_ignore ::
  "(registry \<Rightarrow> 'r list) \<Rightarrow> (('r list \<Rightarrow> 'r list) \<Rightarrow> registry \<Rightarrow> registry) \<Rightarrow> ('r \<Rightarrow> 'r \<Rightarrow> bool) \<Rightarrow>
   (registry \<Rightarrow> 'r \<Rightarrow> bool) \<Rightarrow> 'r \<Rightarrow> nat tx" where
  "insert_row_or_ignore get upd clash ok row =
     sql_exec (internal_api_error ''insert'') (\<lambda>g.
       if \<not> ok g row then None
       else if list_ex (clash row) (get g) then Some (g, 0)
       else Some (upd (\<lambda>t. t @ [row]) g, 1))"

text \<open>\<open>UPDATE\<close> of the rows in \<open>P\<close> the policy lets the actor change; the new rows have to pass \<open>ok\<close>.\<close>

definition update_rows ::
  "(registry \<Rightarrow> 'r list) \<Rightarrow> (('r list \<Rightarrow> 'r list) \<Rightarrow> registry \<Rightarrow> registry) \<Rightarrow>
   (registry \<Rightarrow> 'r \<Rightarrow> bool) \<Rightarrow> (registry \<Rightarrow> 'r \<Rightarrow> bool) \<Rightarrow> ('r \<Rightarrow> 'r) \<Rightarrow> nat tx" where
  "update_rows get upd P ok f =
     sql_exec (internal_api_error ''update'') (\<lambda>g.
       if list_all (\<lambda>r. P g r \<longrightarrow> ok g (f r)) (get g)
       then Some (upd (map (\<lambda>r. if P g r then f r else r)) g, sql_count (P g) (get g)) else None)"

definition known_revision :: "registry \<Rightarrow> string \<Rightarrow> bool" where
  "known_revision g v \<longleftrightarrow> list_ex (\<lambda>r. rv_revision_id r = v) (rg_revisions g)"

section \<open>Blobs and manifests\<close>

text \<open>A \<open>BTreeMap\<close> keyed by the bytes of an identity, as its sorted list of pairs.\<close>

fun bt_insert :: "string \<Rightarrow> 'v \<Rightarrow> (string \<times> 'v) list \<Rightarrow> 'v option \<times> (string \<times> 'v) list" where
  "bt_insert k v [] = (None, [(k, v)])"
| "bt_insert k v ((k', v') # m) =
     (if k = k' then (Some v', (k, v) # m)
      else if k < k' then (None, (k, v) # (k', v') # m)
      else (let (old, m') = bt_insert k v m in (old, (k', v') # m')))"

fun add_manifest_blob :: "(string \<times> u64) list \<Rightarrow> SkillManifestEntry \<Rightarrow> ((string \<times> u64) list, ApiError) result" where
  "add_manifest_blob blobs (ME_File path blob sz executable) =
     (case bt_insert (blob_bytes blob) sz blobs of
        (Some existing, m) \<Rightarrow>
          if existing \<noteq> sz
          then Err (ApiError_new InvalidRequest ''the same blob ID is declared with inconsistent sizes'') else Ok m
      | (None, m) \<Rightarrow> Ok m)"
| "add_manifest_blob blobs e = Ok blobs"

definition manifest_blobs :: "SkillManifest \<Rightarrow> ((string \<times> u64) list, ApiError) result" where
  "manifest_blobs manifest = fold_res add_manifest_blob [] (m_entries manifest)"

fun owned_entry :: "(string \<times> string) list \<Rightarrow> SkillManifestEntry \<Rightarrow> (OwnedSkillEntry, ApiError) result" where
  "owned_entry bytes (ME_File path blob sz executable) =
     (case map_of bytes (blob_bytes blob) of
        None \<Rightarrow> Err (ApiError_new Internal ''verified blob disappeared'')
      | Some b \<Rightarrow> Ok (OE_File path b executable))"
| "owned_entry bytes (ME_Directory path) = Ok (OE_Directory path)"
| "owned_entry bytes (ME_Symlink path target) = Ok (OE_Symlink path target)"

definition owned_entries_from_manifest ::
  "SkillManifest \<Rightarrow> (string \<times> string) list \<Rightarrow> (OwnedSkillEntry list, ApiError) result" where
  "owned_entries_from_manifest manifest bytes = collect_res (owned_entry bytes) (m_entries manifest)"

definition verify_blob ::
  "hash_env \<Rightarrow> string \<Rightarrow> u64 \<Rightarrow> string \<Rightarrow> (unit, ApiError) result" where
  "verify_blob E blob expected_size bytes =
     (if u64_try_from (length bytes) \<noteq> Some expected_size \<or> he_sha256 E bytes \<noteq> blob
      then Err (ApiError_new InvalidRequest
        (''staged object '' @ hex_encode (he_hex E) blob @ '' failed size or SHA-256 verification''))
      else Ok ())"

definition canonical_blob_key :: "hash_env \<Rightarrow> string \<Rightarrow> string" where
  "canonical_blob_key E blob =
     (let i = hex_encode (he_hex E) blob in ''blobs/sha256/'' @ take 2 i @ ''/'' @ i)"

definition ensure_request_hash :: "string \<Rightarrow> RequestHash \<Rightarrow> (unit, ApiError) result" where
  "ensure_request_hash stored supplied =
     (if stored \<noteq> rh_bytes supplied
      then Err (ApiError_new OperationConflict ''operation_id was already used with different request content'') else Ok ())"

definition object_store_api_error :: "string \<Rightarrow> ApiError" where
  "object_store_api_error e = ApiError_new Unavailable e"

section \<open>Quota\<close>

definition u64_checked_add :: "u64 \<Rightarrow> u64 \<Rightarrow> u64 option" where
  "u64_checked_add x y = (if uint x + uint y < 2 ^ 64 then Some (x + y) else None)"

definition namespace_reaches :: "registry \<Rightarrow> string \<Rightarrow> string \<Rightarrow> bool" where
  "namespace_reaches v n blob \<longleftrightarrow>
     list_ex (\<lambda>b. bl_holder_id b = n \<and> bl_blob_id b = blob) (rg_namespace_blobs v)"

definition namespace_usage :: "registry \<Rightarrow> string \<Rightarrow> int" where
  "namespace_usage v n =
     sum_list (concat (map (\<lambda>b. map cb_size_bytes (filter (\<lambda>c. cb_blob_id c = bl_blob_id b) (rg_canonical_blobs v)))
       (filter (\<lambda>b. bl_holder_id b = n) (rg_namespace_blobs v))))"

definition usage_overflow :: ApiError where
  "usage_overflow = ApiError_new QuotaExceeded ''namespace logical usage overflow''"

definition enforce_namespace_quota ::
  "u64 \<Rightarrow> actor \<Rightarrow> string \<Rightarrow> (string \<times> u64) list \<Rightarrow> unit tx" where
  "enforce_namespace_quota limit a namespace_id blobs =
     query_as a (\<lambda>v.
       res_bind (fold_res (\<lambda>additional (blob, sz).
           if namespace_reaches v namespace_id blob then Ok additional
           else ok_or (u64_checked_add additional sz) usage_overflow) 0 blobs) (\<lambda>additional.
       let current = namespace_usage v namespace_id
       in if current < 0 then Err (ApiError_new Internal ''namespace logical usage is invalid'')
          else res_bind (ok_or (u64_checked_add (of_int current) additional) usage_overflow) (\<lambda>projected.
            if projected > limit
            then Err (ApiError_new QuotaExceeded (''namespace storage quota exceeded: '' @ dec (unat projected) @ '' > '' @
              dec (unat limit) @ '' bytes''))
            else Ok ())))"

section \<open>Content rows\<close>

text \<open>\<open>denju_persist_canonical_blob\<close>: inserts unless the blob is known, and tells whether the stored row agrees.\<close>

definition persist_canonical_blob :: "hash_env \<Rightarrow> string \<times> u64 \<Rightarrow> unit tx" where
  "persist_canonical_blob E b =
     (if uint (snd b) \<ge> 2 ^ 63 then op_err (ApiError_new Internal ''blob size exceeds database range'')
      else
        (let row = \<lparr>cb_blob_id = fst b, cb_size_bytes = uint (snd b), cb_object_key = canonical_blob_key E (fst b)\<rparr>
         in op_bind (insert_row_or_ignore rg_canonical_blobs rg_canonical_blobs_update
              (\<lambda>x y. cb_blob_id x = cb_blob_id y) (\<lambda>g r. length (cb_blob_id r) = 32) row) (\<lambda>_.
            op_query (\<lambda>g. if row \<in> set (rg_canonical_blobs g) then Ok ()
              else Err (ApiError_new Internal ''canonical blob metadata conflicts with its content identity'')))))"

definition persist_canonical_blobs :: "hash_env \<Rightarrow> (string \<times> u64) list \<Rightarrow> unit tx" where
  "persist_canonical_blobs E blobs = op_each (persist_canonical_blob E) blobs"

text \<open>\<open>denju_persist_tree_entry\<close>.\<close>

definition persist_tree_entry :: "string \<Rightarrow> TreeEntry \<Rightarrow> unit tx" where
  "persist_tree_entry tree e =
     (let row = \<lparr>ter_tree_id = tree, ter_name = te_name e, ter_kind = te_kind e\<rparr>
      in op_bind (insert_row_or_ignore rg_tree_entries rg_tree_entries_update
           (\<lambda>x y. ter_tree_id x = ter_tree_id y \<and> ter_name x = ter_name y)
           (\<lambda>g r. length (ter_tree_id r) = 32 \<and> ter_name r \<noteq> []) row) (\<lambda>_.
         op_query (\<lambda>g. if row \<in> set (rg_tree_entries g) then Ok ()
           else Err (ApiError_new Internal ''stored Merkle tree entry conflicts with its semantic tree identity''))))"

definition persist_trees :: "SkillManifestTree list \<Rightarrow> unit tx" where
  "persist_trees trees =
     op_bind (op_each (\<lambda>t. insert_row_or_ignore rg_merkle_trees rg_merkle_trees_update (=)
       (\<lambda>g r. length r = 32) (tree_bytes (mt_id t))) trees) (\<lambda>_.
     op_each (\<lambda>t. op_each (persist_tree_entry (tree_bytes (mt_id t))) (mt_entries t)) trees)"

text \<open>\<open>denju_persist_revision\<close>: only for an author linked to the actor.\<close>

definition author_linked :: "registry \<Rightarrow> actor \<Rightarrow> string \<Rightarrow> bool" where
  "author_linked g a author \<longleftrightarrow>
     list_ex (\<lambda>l. au_author_principal_id l = author \<and> ac_user a = Some (au_user_id l)) (rg_author_links g)"

definition persist_revision :: "actor \<Rightarrow> string \<Rightarrow> string \<Rightarrow> string \<Rightarrow> string \<Rightarrow> unit tx" where
  "persist_revision a revision_id root_tree_id author_principal_id operation_id =
     (let row = \<lparr>rv_revision_id = revision_id, rv_root_tree_id = root_tree_id,
                 rv_author_principal_id = author_principal_id, rv_operation_id = operation_id\<rparr>
      in op_bind (insert_row_or_ignore rg_revisions rg_revisions_update (\<lambda>x y. rv_revision_id x = rv_revision_id y)
           (\<lambda>g r. length (rv_revision_id r) = 32 \<and> length (rv_root_tree_id r) = 32 \<and>
              author_linked g a (rv_author_principal_id r)) row) (\<lambda>_.
         op_query (\<lambda>g. if row \<in> set (rg_revisions g) then Ok ()
           else Err (ApiError_new Internal ''stored revision conflicts with its semantic revision identity''))))"

section \<open>Storing a private revision\<close>

record PrivateRevisionStorage =
  st_resource_id :: string
  st_namespace_id :: string
  st_author_principal_id :: string
  st_operation_id :: string
  st_revision_id :: string
  st_parents :: "string list"
  st_manifest :: PublicSkillManifest
  st_root_tree_id :: string
  st_blobs :: "(string \<times> u64) list"
  st_snapshot_key :: string
  st_snapshot_sha :: string
  st_snapshot_size :: nat

definition parent_clash :: "parent_row \<Rightarrow> parent_row \<Rightarrow> bool" where
  "parent_clash x y \<longleftrightarrow> rp_revision_id x = rp_revision_id y \<and>
     (rp_ordinal x = rp_ordinal y \<or> rp_parent_revision_id x = rp_parent_revision_id y)"

definition parent_ok :: "actor \<Rightarrow> registry \<Rightarrow> parent_row \<Rightarrow> bool" where
  "parent_ok a g p \<longleftrightarrow> known_revision g (rp_revision_id p) \<and> length (rp_parent_revision_id p) = 32 \<and>
     rp_ordinal p \<in> set [0, 1] \<and> actor_can_read_revision g a (rp_revision_id p)"

definition snapshot_clash :: "snapshot_row \<Rightarrow> snapshot_row \<Rightarrow> bool" where
  "snapshot_clash x y \<longleftrightarrow> sn_resource_id x = sn_resource_id y \<and> sn_revision_id x = sn_revision_id y"

definition snapshot_ok :: "actor \<Rightarrow> registry \<Rightarrow> snapshot_row \<Rightarrow> bool" where
  "snapshot_ok a g s \<longleftrightarrow> known_revision g (sn_revision_id s) \<and> length (sn_snapshot_sha256 s) = 32 \<and>
     actor_can_manage_resource g a (sn_resource_id s)"

text \<open>\<open>\<dots> ON CONFLICT(holder,blob_id) DO UPDATE SET reference_count=reference_count+1\<close>.\<close>

definition count_reference ::
  "(registry \<Rightarrow> reach_row list) \<Rightarrow> ((reach_row list \<Rightarrow> reach_row list) \<Rightarrow> registry \<Rightarrow> registry) \<Rightarrow>
   (registry \<Rightarrow> string \<Rightarrow> bool) \<Rightarrow> string \<Rightarrow> string \<Rightarrow> unit tx" where
  "count_reference get upd allowed holder blob =
     sql_exec (internal_api_error ''insert'') (\<lambda>g.
       if \<not> allowed g holder \<or> \<not> list_ex (\<lambda>c. cb_blob_id c = blob) (rg_canonical_blobs g) then None
       else if list_ex (\<lambda>b. bl_holder_id b = holder \<and> bl_blob_id b = blob) (get g)
       then Some (upd (map (\<lambda>b. if bl_holder_id b = holder \<and> bl_blob_id b = blob
           then b\<lparr>bl_reference_count := bl_reference_count b + 1\<rparr> else b)) g, ())
       else Some (upd (\<lambda>t. t @ [\<lparr>bl_holder_id = holder, bl_blob_id = blob, bl_reference_count = 1\<rparr>]) g, ()))"

definition reach_blob :: "actor \<Rightarrow> PrivateRevisionStorage \<Rightarrow> string \<times> u64 \<Rightarrow> unit tx" where
  "reach_blob a s b =
     op_bind (insert_row_or_ignore rg_revision_blobs rg_revision_blobs_update (=)
       (\<lambda>g r. actor_can_read_revision g a (fst r)) (st_revision_id s, fst b)) (\<lambda>_.
     op_bind (count_reference rg_resource_blobs rg_resource_blobs_update
       (\<lambda>g. actor_can_manage_resource g a) (st_resource_id s) (fst b)) (\<lambda>_.
     count_reference rg_namespace_blobs rg_namespace_blobs_update
       (\<lambda>g n. actor_can_publish_namespace g a (Some n)) (st_namespace_id s) (fst b)))"

definition persist_private_revision_storage :: "actor \<Rightarrow> PrivateRevisionStorage \<Rightarrow> unit tx" where
  "persist_private_revision_storage a s =
     op_bind (persist_revision a (st_revision_id s) (st_root_tree_id s) (st_author_principal_id s) (st_operation_id s)) (\<lambda>_.
     op_bind (op_each (\<lambda>(ordinal, parent). insert_row_or_ignore rg_parents rg_parents_update parent_clash (parent_ok a)
         \<lparr>rp_revision_id = st_revision_id s, rp_parent_revision_id = parent, rp_ordinal = ordinal\<rparr>)
       (enumerate 0 (st_parents s))) (\<lambda>_.
     op_bind (op_each (reach_blob a s) (st_blobs s)) (\<lambda>_.
     if int (st_snapshot_size s) \<ge> 2 ^ 63 then op_err (ApiError_new Internal ''snapshot size exceeds database range'')
     else op_bind (insert_row_or_ignore rg_snapshots rg_snapshots_update snapshot_clash (snapshot_ok a)
       \<lparr>sn_resource_id = st_resource_id s, sn_revision_id = st_revision_id s, sn_manifest_json = st_manifest s,
        sn_snapshot_key = st_snapshot_key s, sn_snapshot_sha256 = st_snapshot_sha s,
        sn_snapshot_size = int (st_snapshot_size s)\<rparr>) (\<lambda>_. op_ok ()))))"

section \<open>Workspace conflicts\<close>

definition active_conflict_of :: "string \<Rightarrow> string \<Rightarrow> conflict_row \<Rightarrow> bool" where
  "active_conflict_of resource_id user_id c \<longleftrightarrow>
     cf_resource_id c = resource_id \<and> cf_user_id c = user_id \<and> \<not> cf_resolved c"

text \<open>\<open>ORDER BY created_at,conflict_id LIMIT 1\<close>.\<close>

definition active_conflict :: "registry \<Rightarrow> string \<Rightarrow> string \<Rightarrow> string option" where
  "active_conflict v resource_id user_id =
     (case sort_key (\<lambda>c. (cf_created_at c, cf_conflict_id c))
         (filter (active_conflict_of resource_id user_id) (rg_conflicts v)) of
        [] \<Rightarrow> None | c # _ \<Rightarrow> Some (cf_conflict_id c))"

definition decode_revision :: "string \<Rightarrow> string \<Rightarrow> (RevisionId, ApiError) result" where
  "decode_revision bytes field =
     (if length bytes = 32 then Ok (RevisionId bytes) else Err (ApiError_new Internal (field @ '' has invalid length'')))"

text \<open>The policy and the checks of \<open>skill_workspace_conflicts\<close>: own rows of a managed resource, two
  distinct heads, known revisions; at most one unresolved conflict per workspace.\<close>

definition conflict_policy :: "actor \<Rightarrow> registry \<Rightarrow> conflict_row \<Rightarrow> bool" where
  "conflict_policy a g c \<longleftrightarrow> ac_user a = Some (cf_user_id c) \<and> actor_can_manage_resource g a (cf_resource_id c)"

definition conflict_ok :: "actor \<Rightarrow> registry \<Rightarrow> conflict_row \<Rightarrow> bool" where
  "conflict_ok a g c \<longleftrightarrow> conflict_policy a g c \<and> cf_head_a_revision_id c \<noteq> cf_head_b_revision_id c \<and>
     cf_detected_generation c > 0 \<and> (cf_resolved c \<longleftrightarrow> cf_resolution_revision_id c \<noteq> None) \<and>
     list_all (known_revision g) [cf_base_revision_id c, cf_head_a_revision_id c, cf_head_b_revision_id c, cf_active_revision_id c] \<and>
     (case cf_resolution_revision_id c of None \<Rightarrow> True | Some v \<Rightarrow> known_revision g v)"

definition conflict_clash :: "conflict_row \<Rightarrow> conflict_row \<Rightarrow> bool" where
  "conflict_clash x y \<longleftrightarrow> cf_conflict_id x = cf_conflict_id y \<or>
     cf_user_id x = cf_user_id y \<and> cf_resource_id x = cf_resource_id y \<and> \<not> cf_resolved x \<and> \<not> cf_resolved y"

definition same_active_pair :: "conflict_row \<Rightarrow> conflict_row \<Rightarrow> bool" where
  "same_active_pair x y \<longleftrightarrow> cf_user_id x = cf_user_id y \<and> cf_resource_id x = cf_resource_id y \<and>
     cf_head_a_revision_id x = cf_head_a_revision_id y \<and> cf_head_b_revision_id x = cf_head_b_revision_id y \<and>
     \<not> cf_resolved x \<and> \<not> cf_resolved y"

definition validate_merge_conflict ::
  "registry \<Rightarrow> (conflict_row \<Rightarrow> bool) \<Rightarrow> string \<Rightarrow> string \<Rightarrow> string \<Rightarrow> RevisionId list \<Rightarrow> (unit, ApiError) result" where
  "validate_merge_conflict v lockable conflict_id resource_id user_id parents =
     (if length parents \<noteq> 2 then Err (ApiError_new InvalidRequest ''merge revisions require exactly two parents'')
      else
        res_bind (ok_or (sql_first (\<lambda>c. cf_conflict_id c = conflict_id \<and> active_conflict_of resource_id user_id c \<and> lockable c)
            (rg_conflicts v))
          (ApiError_new GenerationConflict ''workspace conflict is no longer active; reconcile before merging'')) (\<lambda>c.
        res_bind (decode_revision (cf_head_a_revision_id c) ''stored conflict head'') (\<lambda>head_a.
        res_bind (decode_revision (cf_head_b_revision_id c) ''stored conflict head'') (\<lambda>head_b.
        if [head_a, head_b] \<noteq> parents
        then Err (ApiError_new InvalidRequest ''merge parents do not match the active workspace conflict'')
        else Ok ()))))"

definition conflict_from_row ::
  "uuid_lib \<Rightarrow> hex_lib \<Rightarrow> conflict_row \<Rightarrow> string \<Rightarrow> u64 \<Rightarrow> (PrivateWorkspaceConflict, ApiError) result" where
  "conflict_from_row L X c resource_id generation =
     res_bind (decode_revision (cf_base_revision_id c) ''stored conflict base'') (\<lambda>base.
     res_bind (decode_revision (cf_head_a_revision_id c) ''stored conflict head'') (\<lambda>head_a.
     res_bind (decode_revision (cf_head_b_revision_id c) ''stored conflict head'') (\<lambda>head_b.
     res_bind (decode_revision (cf_active_revision_id c) ''stored active conflict head'') (\<lambda>active.
     Ok \<lparr>pwc_conflict_id = uu_to_string L (cf_conflict_id c), pwc_resource_id = uu_to_string L resource_id,
         pwc_base_revision_id = hex_encode X (revision_bytes base),
         pwc_head_revision_ids = [hex_encode X (revision_bytes head_a), hex_encode X (revision_bytes head_b)],
         pwc_active_revision_id = hex_encode X (revision_bytes active), pwc_generation = generation,
         pwc_resolution_revision_id = None\<rparr>))))"

text \<open>The unresolved conflicts of a user on some resources, whose generations are given by resource.\<close>

definition bt_push :: "string \<Rightarrow> 'v \<Rightarrow> (string \<times> 'v list) list \<Rightarrow> (string \<times> 'v list) list" where
  "bt_push k x m = snd (bt_insert k ((case map_of m k of None \<Rightarrow> [] | Some xs \<Rightarrow> xs) @ [x]) m)"

definition unresolved_workspace_conflicts_for_resources ::
  "uuid_lib \<Rightarrow> hex_lib \<Rightarrow> registry \<Rightarrow> string \<Rightarrow> (string \<times> u64) list \<Rightarrow>
   ((string \<times> PrivateWorkspaceConflict list) list, ApiError) result" where
  "unresolved_workspace_conflicts_for_resources L X v workspace_user_id generations =
     (if generations = [] then Ok []
      else fold_res (\<lambda>conflicts c.
        res_bind (ok_or (map_of generations (cf_resource_id c))
          (ApiError_new Internal ''workspace conflict references an unexpected resource'')) (\<lambda>generation.
        map_ok (\<lambda>k. bt_push (cf_resource_id c) k conflicts) (conflict_from_row L X c (cf_resource_id c) generation))) []
        (sort_key (\<lambda>c. (cf_resource_id c, cf_created_at c, cf_conflict_id c))
          (filter (\<lambda>c. cf_user_id c = workspace_user_id \<and> cf_resource_id c \<in> set (map fst generations) \<and> \<not> cf_resolved c)
            (rg_conflicts v))))"

text \<open>\<open>INSERT \<dots> ON CONFLICT (active pair) DO UPDATE SET active_revision_id,detected_generation \<dots> RETURNING\<close>.\<close>

definition upsert_conflict :: "actor \<Rightarrow> conflict_row \<Rightarrow> conflict_row tx" where
  "upsert_conflict a row =
     sql_exec (internal_api_error ''insert'') (\<lambda>g.
       case sql_first (same_active_pair row) (rg_conflicts g) of
         Some c \<Rightarrow>
           (let c' = c\<lparr>cf_active_revision_id := cf_active_revision_id row, cf_detected_generation := cf_detected_generation row\<rparr>
            in if conflict_ok a g row \<and> conflict_ok a g c'
               then Some (g\<lparr>rg_conflicts := map (\<lambda>x. if same_active_pair row x then c' else x) (rg_conflicts g)\<rparr>, c') else None)
       | None \<Rightarrow>
           map_option (\<lambda>t. (g\<lparr>rg_conflicts := t\<rparr>, row)) (sql_insert conflict_clash (conflict_ok a g) row (rg_conflicts g)))"

definition record_workspace_conflict ::
  "uuid_lib \<Rightarrow> hex_lib \<Rightarrow> actor \<Rightarrow> string \<Rightarrow> int \<Rightarrow> string \<Rightarrow> string \<Rightarrow> string \<Rightarrow> string \<Rightarrow> string \<Rightarrow> int \<Rightarrow>
   PrivateWorkspaceConflict tx" where
  "record_workspace_conflict L X a new_conflict_id now resource_id user_id base_revision_id detached_revision_id
       active_revision_id generation =
     op_bind (upsert_conflict a
       \<lparr>cf_conflict_id = new_conflict_id, cf_resource_id = resource_id, cf_user_id = user_id,
        cf_base_revision_id = base_revision_id,
        cf_head_a_revision_id = min detached_revision_id active_revision_id,
        cf_head_b_revision_id = max detached_revision_id active_revision_id,
        cf_active_revision_id = active_revision_id, cf_detected_generation = generation,
        cf_resolution_revision_id = None, cf_created_at = now, cf_resolved = False\<rparr>) (\<lambda>c.
     if generation < 0 then op_err (ApiError_new Internal ''stored generation is invalid'')
     else op_res (conflict_from_row L X c resource_id (of_int generation)))"

definition resolve_workspace_conflict :: "actor \<Rightarrow> string \<Rightarrow> string \<Rightarrow> string \<Rightarrow> string \<Rightarrow> unit tx" where
  "resolve_workspace_conflict a conflict_id resource_id user_id resolution_revision_id =
     op_bind (update_rows rg_conflicts rg_conflicts_update
       (\<lambda>g c. cf_conflict_id c = conflict_id \<and> active_conflict_of resource_id user_id c \<and> conflict_policy a g c)
       (conflict_ok a) (\<lambda>c. c\<lparr>cf_resolution_revision_id := Some resolution_revision_id, cf_resolved := True\<rparr>)) (\<lambda>changed.
     if changed = 1 then op_ok ()
     else op_err (ApiError_new GenerationConflict ''workspace conflict was resolved concurrently''))"

section \<open>Wakes\<close>

definition next_event_id :: "registry \<Rightarrow> int" where
  "next_event_id g = Max (set (0 # map ae_id (rg_events g))) + 1"

definition enqueue_wake_payload :: "string \<Rightarrow> u64 \<Rightarrow> string \<Rightarrow> wake_payload \<Rightarrow> unit tx" where
  "enqueue_wake_payload resource_id generation kind payload =
     (if uint generation \<ge> 2 ^ 63 then op_err (ApiError_new Internal ''generation exceeds database range'')
      else sql_exec (internal_api_error ''insert'') (\<lambda>g.
        if generation = 0 then None
        else Some (g\<lparr>rg_events := rg_events g @ [\<lparr>ae_id = next_event_id g, ae_event_kind = kind, ae_resource_id = resource_id,
                ae_resource_generation = uint generation, ae_payload_json = payload\<rparr>],
              rg_outbox := rg_outbox g @ [\<lparr>ob_event_id = next_event_id g, ob_event_kind = ''resource_dirty'',
                ob_payload_json = payload, ob_dispatched = False\<rparr>]\<rparr>, ())))"

definition enqueue_resource_wake_with_event :: "uuid_lib \<Rightarrow> string \<Rightarrow> u64 \<Rightarrow> string \<Rightarrow> unit tx" where
  "enqueue_resource_wake_with_event L resource_id generation authority_event_kind =
     enqueue_wake_payload resource_id generation authority_event_kind
       \<lparr>wp_resource_id = uu_to_string L resource_id, wp_generation = generation\<rparr>"

definition enqueue_resource_wake :: "uuid_lib \<Rightarrow> string \<Rightarrow> u64 \<Rightarrow> unit tx" where
  "enqueue_resource_wake L resource_id generation =
     enqueue_resource_wake_with_event L resource_id generation ''resource_changed''"

text \<open>\<open>drain_outbox\<close>, run by the worker, which sees every row: the oldest undispatched events become wakes.\<close>

definition outbox_wake :: "uuid_lib \<Rightarrow> outbox_row \<Rightarrow> (RegistryWake, ApiError) result" where
  "outbox_wake L r =
     (if ob_event_kind r = ''resource_dirty'' then
        res_bind (map_err (ApiError_new Internal) (uu_parse_str L (wp_resource_id (ob_payload_json r)))) (\<lambda>u.
        Ok (WakeResource u (wp_generation (ob_payload_json r))))
      else Ok ResyncAll)"

definition pending_events :: "registry \<Rightarrow> nat \<Rightarrow> outbox_row list" where
  "pending_events g limit =
     take (min (max limit 1) 256) (sort_key ob_event_id (filter (\<lambda>r. \<not> ob_dispatched r) (rg_outbox g)))"

definition dispatch :: "uuid_lib \<Rightarrow> outbox_row \<Rightarrow> (server, unit, ApiError) op" where
  "dispatch L r =
     op_bind (op_res (outbox_wake L r)) (\<lambda>w. \<lambda>s.
       (Ok (), s\<lparr>sv_wakes := sv_wakes s @ [w],
          sv_db := (sv_db s)\<lparr>rg_outbox := map (\<lambda>x. if ob_event_id x = ob_event_id r then x\<lparr>ob_dispatched := True\<rparr> else x)
            (rg_outbox (sv_db s))\<rparr>\<rparr>))"

text \<open>The transaction rolls the table back when an event cannot be read; wakes already sent stay sent.\<close>

definition drain_outbox :: "uuid_lib \<Rightarrow> nat \<Rightarrow> (server, nat, ApiError) op" where
  "drain_outbox L limit s =
     (let rows = pending_events (sv_db s) limit
      in case op_each (dispatch L) rows s of
           (Ok _, s') \<Rightarrow> (Ok (length rows), s')
         | (Err e, s') \<Rightarrow> (Err e, s'\<lparr>sv_db := sv_db s\<rparr>))"

end
