(* ===== verification/Registry_Workspace.thy ===== *)
theory Registry_Workspace
  imports Registry_Storage
begin

text \<open>
  \<open>workspace.rs\<close> of \<open>crates/denju-registry/src\<close>, with \<open>ensure_private_workspace_for_user\<close> of
  \<open>team_access.rs\<close> and \<open>restore_skill\<close> of \<open>release.rs\<close>: how a private revision is prepared, its
  content checked, and the head of the workspace moved by compare-and-set, or the race recorded as a
  conflict.  A commit runs in two transactions with the object store between them; \<open>commit_read\<close>,
  \<open>commit_objects\<close> and \<open>commit_write\<close> are its parts, so that other requests can run between them.  Identifiers
  from \<open>Uuid::now_v7\<close>, the clock and the failures of the object store are arguments, and so are the texts of
  the validation errors.
\<close>

section \<open>Environment and requests\<close>

record ('v, 'm) reg_env =
  ge_uuid :: uuid_lib
  ge_hash :: hash_env
  ge_tables :: unicode_tables
  ge_yaml :: "('v, 'm) yaml_lib"
  ge_archive :: archive_lib
  ge_skill_text :: "SkillValidationError \<Rightarrow> string"
  ge_snapshot_text :: "SnapshotError \<Rightarrow> string"
  ge_max_object_bytes :: u64
  ge_namespace_storage_bytes :: u64
  ge_presign :: "string \<Rightarrow> u64 \<Rightarrow> (string, string) result"

record PrivateRevisionRequest =
  rq_operation_id :: string
  rq_resource_id :: string
  rq_expected_generation :: u64
  rq_expected_head_revision_id :: string
  rq_parent_revision_ids :: "string list"
  rq_manifest :: PublicSkillManifest
  rq_revision_author_principal_id :: "string option"
  rq_fork_sync :: "ForkSyncIntent option"
  rq_historical_skill_name :: "string option"
  rq_request_hash :: string

datatype PrivateRevisionOperationState = St_Prepared | St_Advanced | St_Diverged

record StagedBlobUpload =
  su_blob_id :: string
  su_size_bytes :: u64
  su_url :: string

record PrivateRevisionPrepareResponse =
  pq_resource_id :: string
  pq_revision_id :: string
  pq_expected_generation :: u64
  pq_state :: PrivateRevisionOperationState
  pq_uploads :: "StagedBlobUpload list"

fun id_error_text :: "IdError \<Rightarrow> string" where
  "id_error_text (InvalidUuid e) = ''invalid UUID: '' @ e"
| "id_error_text NotUuidV7 = ''Denju mutable IDs must be UUIDv7''"

fun RequestHashError_text :: "RequestHashError \<Rightarrow> string" where
  "RequestHashError_text RH_InvalidLength = ''request hash must be 32 bytes''"
| "RequestHashError_text (RH_InvalidHex e) = ''invalid request hash hex: '' @ e"
| "RequestHashError_text (Canonicalization e) = ''failed to canonicalize request payload: '' @ e"

fun RevisionError_text :: "RevisionError \<Rightarrow> string" where
  "RevisionError_text TooManyParents = ''revisions support at most two parents''"
| "RevisionError_text DuplicateParent = ''a revision cannot name the same parent twice''"

definition bad_request :: "('e \<Rightarrow> string) \<Rightarrow> ('a, 'e) result \<Rightarrow> ('a, ApiError) result" where
  "bad_request f = map_err (\<lambda>e. ApiError_new InvalidRequest (f e))"

definition require :: "bool \<Rightarrow> ApiErrorCode \<Rightarrow> string \<Rightarrow> (unit, ApiError) result" where
  "require c k m = (if c then Ok () else Err (ApiError_new k m))"

definition parse_revision_parents :: "hex_lib \<Rightarrow> string list \<Rightarrow> (RevisionId list, ApiError) result" where
  "parse_revision_parents X texts =
     (if length texts \<notin> set [1, 2]
      then Err (ApiError_new InvalidRequest ''private revisions require one or two parent_revision_ids'')
      else res_bind (collect_res (revision_id_param X) texts) (\<lambda>parents.
        if sort_key revision_bytes parents \<noteq> parents \<or> adjacent_dup revision_bytes parents \<noteq> None
        then Err (ApiError_new InvalidRequest ''parent_revision_ids must be unique and sorted canonically'')
        else Ok parents))"

definition revision_operation_state :: "string \<Rightarrow> (PrivateRevisionOperationState, ApiError) result" where
  "revision_operation_state v =
     (if v = ''prepared'' then Ok St_Prepared else if v = ''advanced'' then Ok St_Advanced
      else if v = ''diverged'' then Ok St_Diverged
      else Err (ApiError_new Internal ''stored private revision operation state is invalid''))"

definition decode_revision_outcome ::
  "PrivateRevisionCommitResponse option \<Rightarrow> (PrivateRevisionCommitResponse, ApiError) result" where
  "decode_revision_outcome v = ok_or v (ApiError_new Internal ''completed private revision has no stored outcome'')"

definition revision_operation_fork_sync ::
  "revision_operation_row \<Rightarrow> (ValidatedForkSync option, ApiError) result" where
  "revision_operation_fork_sync q =
     (case (ro_fork_sync_base_revision_id q, ro_fork_sync_upstream_revision_id q) of
        (None, None) \<Rightarrow> Ok None
      | (Some base, Some upstream) \<Rightarrow>
          res_bind (decode_32 base ''stored fork sync base revision ID'') (\<lambda>b.
          res_bind (decode_32 upstream ''stored fork sync upstream revision ID'') (\<lambda>u.
          Ok (Some \<lparr>vf_expected_base = RevisionId b, vf_upstream_revision = RevisionId u\<rparr>)))
      | _ \<Rightarrow> Err (ApiError_new Internal ''stored fork sync intent is invalid''))"

section \<open>Rows of an operation\<close>

definition fetch_revision_operation :: "registry \<Rightarrow> string \<Rightarrow> string \<Rightarrow> revision_operation_row option" where
  "fetch_revision_operation v user_id operation_id =
     sql_first (\<lambda>q. ro_user_id q = user_id \<and> ro_operation_id q = operation_id) (rg_revision_operations v)"

definition fetch_revision_staging :: "registry \<Rightarrow> string \<Rightarrow> string \<Rightarrow> staging_row list" where
  "fetch_revision_staging v user_id operation_id =
     sort_key sg_blob_id (filter (\<lambda>s. sg_user_id s = user_id \<and> sg_operation_id s = operation_id) (rg_staging v))"

definition fetch_revision_operation_parents :: "registry \<Rightarrow> string \<Rightarrow> string \<Rightarrow> (string list, ApiError) result" where
  "fetch_revision_operation_parents v user_id operation_id =
     collect_res (\<lambda>p. decode_32 (pa_parent_revision_id p) ''stored revision parent'')
       (sort_key pa_ordinal (filter (\<lambda>p. pa_user_id p = user_id \<and> pa_operation_id p = operation_id) (rg_operation_parents v)))"

definition presign_revision_staging ::
  "('v, 'm) reg_env \<Rightarrow> staging_row list \<Rightarrow> (StagedBlobUpload list, ApiError) result" where
  "presign_revision_staging E rows =
     collect_res (\<lambda>row.
       res_bind (decode_32 (sg_blob_id row) ''staging blob ID'') (\<lambda>blob.
       if sg_size_bytes row < 0 then Err (ApiError_new Internal ''stored staging size is invalid'')
       else res_bind (map_err object_store_api_error (ge_presign E (sg_staging_key row) (of_int (sg_size_bytes row)))) (\<lambda>url.
         Ok \<lparr>su_blob_id = hex_encode (he_hex (ge_hash E)) blob, su_size_bytes = of_int (sg_size_bytes row), su_url = url\<rparr>))) rows"

section \<open>Workspaces\<close>

definition workspace_clash :: "private_workspace_row \<Rightarrow> private_workspace_row \<Rightarrow> bool" where
  "workspace_clash x y \<longleftrightarrow> wk_resource_id x = wk_resource_id y \<and> wk_user_id x = wk_user_id y"

definition workspace_policy :: "actor \<Rightarrow> registry \<Rightarrow> private_workspace_row \<Rightarrow> bool" where
  "workspace_policy a g w \<longleftrightarrow> ac_user a = Some (wk_user_id w) \<and> actor_can_manage_resource g a (wk_resource_id w)"

definition workspace_ok :: "actor \<Rightarrow> registry \<Rightarrow> private_workspace_row \<Rightarrow> bool" where
  "workspace_ok a g w \<longleftrightarrow> workspace_policy a g w \<and> known_revision g (wk_revision_id w) \<and> wk_generation w > 0 \<and>
     length (wk_snapshot_sha256 w) = 32 \<and> wk_snapshot_size w \<ge> 0"

definition released_workspace :: "registry \<Rightarrow> string \<Rightarrow> string \<Rightarrow> private_workspace_row option" where
  "released_workspace v resource_id user_id =
     (case sql_first (\<lambda>x. re_id x = resource_id \<and> re_kind x = ''skill'' \<and> \<not> re_deleted x) (rg_resources v) of
        None \<Rightarrow> None
      | Some x \<Rightarrow>
          (case sql_first (\<lambda>l. rl_resource_id l = resource_id \<and> re_latest_release_version x = Some (rl_version l)) (rg_releases v) of
             None \<Rightarrow> None
           | Some l \<Rightarrow>
               (case sql_first (\<lambda>s. sn_resource_id s = resource_id \<and> sn_revision_id s = rl_revision_id l) (rg_snapshots v) of
                  None \<Rightarrow> None
                | Some s \<Rightarrow> Some \<lparr>wk_resource_id = resource_id, wk_user_id = user_id, wk_description = re_description x,
                    wk_license = re_license x, wk_compatibility = re_compatibility x, wk_revision_id = rl_revision_id l,
                    wk_generation = re_generation x, wk_manifest_json = sn_manifest_json s, wk_snapshot_key = sn_snapshot_key s,
                    wk_snapshot_sha256 = sn_snapshot_sha256 s, wk_snapshot_size = sn_snapshot_size s\<rparr>)))"

definition ensure_private_workspace_for_user :: "actor \<Rightarrow> string \<Rightarrow> string \<Rightarrow> bool tx" where
  "ensure_private_workspace_for_user a resource_id user_id =
     op_bind (query_as a (\<lambda>v. Ok (released_workspace v resource_id user_id))) (\<lambda>row.
     case row of None \<Rightarrow> op_ok False
     | Some w \<Rightarrow> op_bind (insert_row_or_ignore rg_workspaces rg_workspaces_update workspace_clash (workspace_ok a) w)
         (\<lambda>inserted. op_ok (inserted = 1)))"

text \<open>\<open>\<dots> FROM resources r JOIN skill_private_workspaces w \<dots> FOR UPDATE OF r,w\<close>: the rows have to be
  visible and the policy for updates has to hold.\<close>

definition lock_workspace :: "actor \<Rightarrow> string \<Rightarrow> string \<Rightarrow> (resource_row \<times> private_workspace_row) option tx" where
  "lock_workspace a resource_id user_id =
     op_query (\<lambda>g. Ok (
       case sql_first (\<lambda>x. re_id x = resource_id \<and> re_kind x = ''skill'' \<and> \<not> re_deleted x \<and>
           actor_can_manage_resource g a resource_id) (rg_resources (actor_view a g)) of
         None \<Rightarrow> None
       | Some x \<Rightarrow> map_option (\<lambda>w. (x, w))
           (sql_first (\<lambda>w. wk_resource_id w = resource_id \<and> wk_user_id w = user_id \<and> workspace_policy a g w)
             (rg_workspaces (actor_view a g)))))"

section \<open>Prepare\<close>

record parsed_revision =
  pv_operation :: OperationId
  pv_resource :: ResourceId
  pv_expected_head :: RevisionId
  pv_parents :: "RevisionId list"
  pv_fork_sync :: "ValidatedForkSync option"
  pv_supplied_hash :: RequestHash
  pv_manifest :: SkillManifest
  pv_blobs :: "(string \<times> u64) list"

definition hash_input :: "PrivateRevisionRequest \<Rightarrow> PrivateRevisionRequestHashInput" where
  "hash_input q =
     \<lparr>prv_operation_id = rq_operation_id q, prv_resource_id = rq_resource_id q,
      prv_expected_generation = rq_expected_generation q,
      prv_expected_head_revision_id = rq_expected_head_revision_id q,
      prv_parent_revision_ids = rq_parent_revision_ids q, prv_manifest = rq_manifest q,
      prv_revision_author_principal_id = rq_revision_author_principal_id q,
      prv_fork_sync = rq_fork_sync q, prv_historical_skill_name = rq_historical_skill_name q\<rparr>"

definition bad_hash :: "('a, RequestHashError) result \<Rightarrow> ('a, ApiError) result" where
  "bad_hash = map_err (\<lambda>e. ApiError_new InvalidRequestHash (RequestHashError_text e))"

text \<open>The checks of a request that need no database.\<close>

definition parse_private_revision ::
  "('v, 'm) reg_env \<Rightarrow> PrivateRevisionRequest \<Rightarrow> (parsed_revision, ApiError) result" where
  "parse_private_revision E q =
     (let X = he_hex (ge_hash E); L = ge_uuid E
      in res_bind (bad_request id_error_text (id_from_str L OperationId (rq_operation_id q))) (\<lambda>operation_id.
         res_bind (bad_request id_error_text (id_from_str L ResourceId (rq_resource_id q))) (\<lambda>resource_id.
         res_bind (revision_id_param X (rq_expected_head_revision_id q)) (\<lambda>expected_head.
         res_bind (parse_revision_parents X (rq_parent_revision_ids q)) (\<lambda>parents.
         res_bind (case rq_fork_sync q of None \<Rightarrow> Ok None
           | Some intent \<Rightarrow> map_ok Some (parse_fork_sync_intent X intent)) (\<lambda>fork_sync.
         res_bind (case rq_historical_skill_name q of None \<Rightarrow> Ok ()
           | Some name \<Rightarrow> bad_request (ge_skill_text E) (validate_skill_name name)) (\<lambda>_.
         res_bind (require (expected_head \<in> set parents) InvalidRequest
           ''expected_head_revision_id must be one of parent_revision_ids'') (\<lambda>_.
         res_bind (bad_hash (RequestHash_from_str X (rq_request_hash q))) (\<lambda>supplied_hash.
         res_bind (bad_hash (private_revision_request_hash (ge_hash E) (hash_input q))) (\<lambda>expected_hash.
         res_bind (require (supplied_hash = expected_hash) InvalidRequestHash
           ''request_hash does not match the canonical private revision payload'') (\<lambda>_.
         res_bind (bad_request id (manifest_to_core X (rq_manifest q))) (\<lambda>manifest.
         res_bind (bad_request (ge_snapshot_text E)
           (validate_declared_skill_manifest (ge_tables E) (he_sha256 (ge_hash E)) manifest)) (\<lambda>_.
         res_bind (manifest_blobs manifest) (\<lambda>blobs.
         res_bind (require (list_all (\<lambda>(blob, sz). sz \<le> ge_max_object_bytes E) blobs) InvalidRequest
           ''skill contains an object above the registry object-size limit'') (\<lambda>_.
         Ok \<lparr>pv_operation = operation_id, pv_resource = resource_id, pv_expected_head = expected_head,
             pv_parents = parents, pv_fork_sync = fork_sync, pv_supplied_hash = supplied_hash,
             pv_manifest = manifest, pv_blobs = blobs\<rparr>)))))))))))))))"

definition i64_of_u64 :: "u64 \<Rightarrow> int option" where
  "i64_of_u64 n = (if uint n < 2 ^ 63 then Some (uint n) else None)"

definition dec_int :: "int \<Rightarrow> string" where
  "dec_int n = (if n < 0 then CHR ''-'' # dec (nat (- n)) else dec (nat n))"

text \<open>The guards of \<open>prepare_private_revision\<close> on the state of the workspace.\<close>

definition prepare_guard ::
  "registry \<Rightarrow> actor \<Rightarrow> UserAuthority \<Rightarrow> parsed_revision \<Rightarrow> int \<Rightarrow> private_workspace_row \<Rightarrow> (unit, ApiError) result" where
  "prepare_guard g a authority p expected_generation w =
     (let v = actor_view a g; resource_id = rid_bytes (pv_resource p); user_id = ua_user_id authority;
          current_head_matches = (wk_revision_id w = revision_bytes (pv_expected_head p));
          parents = pv_parents p
      in case active_conflict v resource_id user_id of
           Some conflict_id \<Rightarrow>
             if pv_fork_sync p \<noteq> None
             then Err (ApiError_new GenerationConflict ''resolve the active private workspace conflict before syncing this fork'')
             else if length parents \<noteq> 2 \<or> oid_bytes (pv_operation p) \<noteq> conflict_id
             then Err (ApiError_new GenerationConflict
               ''private workspace has an unresolved content conflict; reconcile it before saving another revision'')
             else if \<not> current_head_matches \<or> wk_generation w \<noteq> expected_generation
             then Err (ApiError_new GenerationConflict
               ''workspace conflict target advanced; reconcile before retrying the merge'')
             else validate_merge_conflict v (conflict_policy a g) conflict_id resource_id user_id parents
         | None \<Rightarrow>
             if current_head_matches then
               (if wk_generation w \<noteq> expected_generation
                then Err (ApiError_new GenerationConflict
                  (''private workspace advanced to generation '' @ dec_int (wk_generation w)))
                else case pv_fork_sync p of
                  Some fork_sync \<Rightarrow>
                    if length parents \<noteq> 2 \<or> vf_upstream_revision fork_sync \<notin> set parents
                    then Err (ApiError_new InvalidRequest
                      ''fork sync revision must have the current fork head and selected upstream revision as its two parents'')
                    else validate_fork_sync v (\<lambda>f. actor_can_manage_resource g a (fk_resource_id f)) user_id
                      (ua_namespace_id authority) resource_id fork_sync
                | None \<Rightarrow>
                    if length parents = 2
                    then Err (ApiError_new GenerationConflict ''merge revision has no matching active workspace conflict'')
                    else Ok ())
             else if pv_fork_sync p \<noteq> None
             then Err (ApiError_new GenerationConflict
               ''fork head advanced while syncing upstream; fetch the current fork and retry'')
             else if length parents \<noteq> 1
             then Err (ApiError_new GenerationConflict ''merge target advanced again; reconcile the new head before retrying'')
             else if \<not> has_snapshot v resource_id (revision_bytes (pv_expected_head p))
             then Err (ApiError_new GenerationConflict
               ''expected private workspace head is no longer valid history for this resource'')
             else Ok ())"

definition operation_ok :: "actor \<Rightarrow> registry \<Rightarrow> revision_operation_row \<Rightarrow> bool" where
  "operation_ok a g q \<longleftrightarrow> ac_user a = Some (ro_user_id q) \<and> actor_can_publish_namespace g a (Some (ro_namespace_id q)) \<and>
     ro_expected_generation q > 0 \<and> list_all (\<lambda>b. length b = 32)
       [ro_request_hash q, ro_expected_head_revision_id q, ro_revision_id q, ro_root_tree_id q] \<and>
     ro_state q \<in> set [''prepared'', ''advanced'', ''diverged'']"

definition operation_clash :: "revision_operation_row \<Rightarrow> revision_operation_row \<Rightarrow> bool" where
  "operation_clash x y \<longleftrightarrow> ro_user_id x = ro_user_id y \<and> ro_operation_id x = ro_operation_id y"

definition operation_parent_clash :: "operation_parent_row \<Rightarrow> operation_parent_row \<Rightarrow> bool" where
  "operation_parent_clash x y \<longleftrightarrow> pa_user_id x = pa_user_id y \<and> pa_operation_id x = pa_operation_id y \<and>
     (pa_ordinal x = pa_ordinal y \<or> pa_parent_revision_id x = pa_parent_revision_id y)"

definition staging_clash :: "staging_row \<Rightarrow> staging_row \<Rightarrow> bool" where
  "staging_clash x y \<longleftrightarrow> sg_staging_key x = sg_staging_key y \<or>
     sg_user_id x = sg_user_id y \<and> sg_operation_id x = sg_operation_id y \<and> sg_blob_id x = sg_blob_id y"

definition stage_blob ::
  "('v, 'm) reg_env \<Rightarrow> actor \<Rightarrow> string \<Rightarrow> string \<Rightarrow> string \<Rightarrow> string \<Rightarrow> string \<times> u64 \<Rightarrow> unit tx" where
  "stage_blob E a namespace_id user_id operation_id fresh b =
     op_bind (query_as a (\<lambda>v. Ok (namespace_reaches v namespace_id (fst b)))) (\<lambda>proven.
     if proven then op_ok ()
     else case i64_of_u64 (snd b) of
       None \<Rightarrow> op_err (ApiError_new InvalidRequest ''object exceeds database range'')
     | Some sz \<Rightarrow> insert_row rg_staging rg_staging_update staging_clash (\<lambda>g s. ac_user a = Some (sg_user_id s))
         \<lparr>sg_user_id = user_id, sg_operation_id = operation_id, sg_blob_id = fst b, sg_size_bytes = sz,
          sg_staging_key = ''staging/'' @ uu_to_string (ge_uuid E) operation_id @ ''/'' @ uu_to_string (ge_uuid E) fresh @ ''/'' @
            hex_encode (he_hex (ge_hash E)) (fst b)\<rparr>)"

text \<open>The rows written for a new operation, and the response.\<close>

definition store_operation ::
  "('v, 'm) reg_env \<Rightarrow> actor \<Rightarrow> UserAuthority \<Rightarrow> string \<Rightarrow> PrivateRevisionRequest \<Rightarrow> parsed_revision \<Rightarrow> string \<Rightarrow>
   RevisionId \<Rightarrow> int \<Rightarrow> (nat \<Rightarrow> string) \<Rightarrow> staging_row list tx" where
  "store_operation E a authority namespace_id q p revision_author revision_id expected_generation fresh =
     (let user_id = ua_user_id authority; operation_id = oid_bytes (pv_operation p)
      in op_bind (insert_row rg_revision_operations rg_revision_operations_update operation_clash (operation_ok a)
           \<lparr>ro_user_id = user_id, ro_operation_id = operation_id, ro_request_hash = rh_bytes (pv_supplied_hash p),
            ro_namespace_id = namespace_id, ro_resource_id = rid_bytes (pv_resource p),
            ro_expected_generation = expected_generation,
            ro_expected_head_revision_id = revision_bytes (pv_expected_head p),
            ro_revision_id = revision_bytes revision_id, ro_root_tree_id = tree_bytes (m_root_tree (pv_manifest p)),
            ro_manifest_json = rq_manifest q, ro_revision_author_principal_id = Some revision_author,
            ro_fork_sync_base_revision_id = map_option (\<lambda>f. revision_bytes (vf_expected_base f)) (pv_fork_sync p),
            ro_fork_sync_upstream_revision_id = map_option (\<lambda>f. revision_bytes (vf_upstream_revision f)) (pv_fork_sync p),
            ro_historical_skill_name = rq_historical_skill_name q, ro_state = ''prepared'', ro_outcome_json = None\<rparr>) (\<lambda>_.
         op_bind (op_each (\<lambda>(ordinal, parent). insert_row rg_operation_parents rg_operation_parents_update operation_parent_clash
             (\<lambda>g r. ac_user a = Some (pa_user_id r) \<and> pa_ordinal r \<in> set [0, 1] \<and> length (pa_parent_revision_id r) = 32)
             \<lparr>pa_user_id = user_id, pa_operation_id = operation_id, pa_ordinal = ordinal,
              pa_parent_revision_id = revision_bytes parent\<rparr>) (enumerate 0 (pv_parents p))) (\<lambda>_.
         op_bind (op_each (\<lambda>(i, b). stage_blob E a namespace_id user_id operation_id (fresh i) b) (enumerate 0 (pv_blobs p))) (\<lambda>_.
         query_as a (\<lambda>v. Ok (fetch_revision_staging v user_id operation_id))))))"

text \<open>The transaction of \<open>prepare_private_revision\<close>: what it found or stored, for the response.\<close>

datatype prepare_found = Replayed revision_operation_row PrivateRevisionOperationState "staging_row list"
  | Prepared_new "staging_row list"

definition prepare_replay :: "actor \<Rightarrow> revision_operation_row \<Rightarrow> parsed_revision \<Rightarrow> prepare_found tx" where
  "prepare_replay a row p =
     op_bind (op_res (ensure_request_hash (ro_request_hash row) (pv_supplied_hash p))) (\<lambda>_.
     op_bind (op_res (revision_operation_state (ro_state row))) (\<lambda>state.
     query_as a (\<lambda>v. Ok (Replayed row state
       (if state = St_Prepared then fetch_revision_staging v (ro_user_id row) (ro_operation_id row) else [])))))"

definition prepare_new ::
  "('v, 'm) reg_env \<Rightarrow> UserAuthority \<Rightarrow> PrivateRevisionRequest \<Rightarrow> parsed_revision \<Rightarrow> string \<Rightarrow> RevisionId \<Rightarrow> (nat \<Rightarrow> string) \<Rightarrow>
   prepare_found tx" where
  "prepare_new E authority q p revision_author revision_id fresh =
     (let a = begin_actor_tx (ua_user_id authority); user_id = ua_user_id authority; resource_id = rid_bytes (pv_resource p)
      in op_bind (query_as a (\<lambda>v. authorize_resource_publish (ge_tables E) v authority resource_id)) (\<lambda>ra.
         op_bind (if np_is_team ra then ensure_private_workspace_for_user a resource_id user_id else op_ok False) (\<lambda>_.
         op_bind (lock_workspace a resource_id user_id) (\<lambda>current.
         case current of None \<Rightarrow> op_err (ApiError_new NotFound ''private skill not found'')
         | Some (x, w) \<Rightarrow>
             if re_owner_namespace_id x \<noteq> Some (np_namespace_id ra)
             then op_err (ApiError_new Unauthorized ''private skill is unavailable'')
             else
               op_bind (query_as a (\<lambda>v. case rq_historical_skill_name q of None \<Rightarrow> Ok ()
                 | Some _ \<Rightarrow> require_pending_fork_promotion v resource_id)) (\<lambda>_.
               op_bind (op_res (ok_or (i64_of_u64 (rq_expected_generation q))
                 (ApiError_new InvalidRequest ''generation exceeds database range''))) (\<lambda>expected_generation.
               op_bind (op_query (\<lambda>g. prepare_guard g a authority p expected_generation w)) (\<lambda>_.
               op_bind (store_operation E a authority (np_namespace_id ra) q p revision_author revision_id
                 expected_generation fresh) (\<lambda>staging. op_ok (Prepared_new staging)))))))))"

definition prepare_tx ::
  "('v, 'm) reg_env \<Rightarrow> UserAuthority \<Rightarrow> PrivateRevisionRequest \<Rightarrow> parsed_revision \<Rightarrow> string \<Rightarrow> RevisionId \<Rightarrow> (nat \<Rightarrow> string) \<Rightarrow>
   prepare_found tx" where
  "prepare_tx E authority q p revision_author revision_id fresh =
     (let a = begin_actor_tx (ua_user_id authority)
      in op_bind (query_as a (\<lambda>v. Ok (fetch_revision_operation v (ua_user_id authority) (oid_bytes (pv_operation p))))) (\<lambda>existing.
         case existing of Some row \<Rightarrow> prepare_replay a row p
         | None \<Rightarrow> prepare_new E authority q p revision_author revision_id fresh))"

definition prepare_private_revision ::
  "('v, 'm) reg_env \<Rightarrow> AuthActor \<Rightarrow> PrivateRevisionRequest \<Rightarrow> (nat \<Rightarrow> string) \<Rightarrow> PrivateRevisionPrepareResponse tx" where
  "prepare_private_revision E who q fresh =
     (let X = he_hex (ge_hash E); L = ge_uuid E
      in op_bind (op_query (\<lambda>g. user_authority g who ''skills:write'')) (\<lambda>authority.
         op_bind (op_res (parse_private_revision E q)) (\<lambda>p.
         op_bind (op_query (\<lambda>g. revision_author_for_user L g authority (rq_revision_author_principal_id q))) (\<lambda>revision_author.
         op_bind (op_res (map_err (\<lambda>e. ApiError_new Internal (id_error_text e)) (id_from_uuid L AuthorPrincipalId revision_author))) (\<lambda>author.
         op_bind (op_res (bad_request RevisionError_text
           (Revision_new (m_root_tree (pv_manifest p)) (pv_parents p) author (pv_operation p)))) (\<lambda>revision.
         (let revision_id = Revision_id (he_sha256 (ge_hash E)) revision
          in op_bind (transaction (prepare_tx E authority q p revision_author revision_id fresh)) (\<lambda>found.
             op_res (case found of
               Replayed row state uploads \<Rightarrow>
                 res_bind (decode_32 (ro_revision_id row) ''stored revision ID'') (\<lambda>stored.
                 if ro_expected_generation row < 0 then Err (ApiError_new Internal ''stored generation is invalid'')
                 else res_bind (presign_revision_staging E uploads) (\<lambda>urls.
                   Ok \<lparr>pq_resource_id = uu_to_string L (ro_resource_id row), pq_revision_id = hex_encode X stored,
                       pq_expected_generation = of_int (ro_expected_generation row), pq_state = state, pq_uploads = urls\<rparr>))
             | Prepared_new staging \<Rightarrow>
                 res_bind (presign_revision_staging E staging) (\<lambda>urls.
                 Ok \<lparr>pq_resource_id = uu_to_string L (rid_bytes (pv_resource p)),
                     pq_revision_id = hex_encode X (revision_bytes revision_id),
                     pq_expected_generation = rq_expected_generation q, pq_state = St_Prepared, pq_uploads = urls\<rparr>))))))))))"

section \<open>Commit: reading and verifying\<close>

record PrivateRevisionCommitRequest =
  cq_operation_id :: string
  cq_request_hash :: string

text \<open>What a commit carries from its first transaction to the second.\<close>

record verified_commit =
  vc_authority :: UserAuthority
  vc_operation_id :: string
  vc_supplied_hash :: RequestHash
  vc_operation :: revision_operation_row
  vc_manifest :: SkillManifest
  vc_trees :: "SkillManifestTree list"
  vc_blobs :: "(string \<times> u64) list"
  vc_staging :: "(string \<times> u64 \<times> string) list"
  vc_bytes :: "(string \<times> string) list"
  vc_parents :: "string list"
  vc_snapshot :: string
  vc_description :: string
  vc_license :: "string option"
  vc_compatibility :: "string option"

datatype commit_found = Already PrivateRevisionCommitResponse | Verified verified_commit

definition get_object :: "(string \<Rightarrow> string option) \<Rightarrow> (string \<Rightarrow> string option) \<Rightarrow> string \<Rightarrow> (string, ApiError) result" where
  "get_object down objects key =
     (case down key of Some e \<Rightarrow> Err (object_store_api_error e)
      | None \<Rightarrow> ok_or (objects key) (object_store_api_error ''object not found''))"

definition staged_blob :: "(string \<times> u64 \<times> string) list \<Rightarrow> staging_row \<Rightarrow> ((string \<times> u64 \<times> string) list, ApiError) result" where
  "staged_blob staging row =
     res_bind (decode_32 (sg_blob_id row) ''staging blob ID'') (\<lambda>blob.
     if sg_size_bytes row < 0 then Err (ApiError_new Internal ''stored staging size is invalid'')
     else Ok (snd (bt_insert blob (of_int (sg_size_bytes row), sg_staging_key row) staging)))"

text \<open>The proof that a blob is already stored: the namespace reaches it, at the size declared.\<close>

definition canonical_object ::
  "registry \<Rightarrow> string \<Rightarrow> string \<times> u64 \<Rightarrow> (string \<times> u64 \<times> string, ApiError) result" where
  "canonical_object v namespace_id b =
     (case sql_first (\<lambda>c. cb_blob_id c = fst b \<and> namespace_reaches v namespace_id (fst b)) (rg_canonical_blobs v) of
        None \<Rightarrow> Err (ApiError_new InvalidRequest ''required object proof is missing; rerun revision prepare'')
      | Some c \<Rightarrow>
          if cb_size_bytes c < 0 \<or> of_int (cb_size_bytes c) \<noteq> snd b
          then Err (ApiError_new Internal ''canonical object size is invalid'')
          else Ok (fst b, snd b, cb_object_key c))"

definition read_blob ::
  "hash_env \<Rightarrow> (string \<Rightarrow> string option) \<Rightarrow> (string \<Rightarrow> string option) \<Rightarrow> (string \<times> u64 \<times> string) list \<Rightarrow>
   (string \<times> u64 \<times> string) list \<Rightarrow> string \<times> u64 \<Rightarrow> (string \<times> string, ApiError) result" where
  "read_blob H down objects staging canonical b =
     res_bind (case map_of staging (fst b) of
         Some (staged_size, key) \<Rightarrow>
           if staged_size \<noteq> snd b then Err (ApiError_new InvalidRequest ''staged object size intent changed'')
           else get_object down objects key
       | None \<Rightarrow>
           (case map_of canonical (fst b) of
              None \<Rightarrow> Err (ApiError_new Internal ''canonical object proof disappeared'')
            | Some (_, key) \<Rightarrow> get_object down objects key)) (\<lambda>bytes.
     res_bind (verify_blob H (fst b) (snd b) bytes) (\<lambda>_. Ok (fst b, bytes)))"

fun skill_md_bytes :: "OwnedSkillEntry \<Rightarrow> string option" where
  "skill_md_bytes (OE_File path bytes executable) = (if path = skill_md_name then Some bytes else None)"
| "skill_md_bytes e = None"

definition find_skill_md :: "OwnedSkillEntry list \<Rightarrow> string option" where
  "find_skill_md entries =
     (case List.map_filter skill_md_bytes entries of [] \<Rightarrow> None | b # _ \<Rightarrow> Some b)"

text \<open>The checks of the content itself, between the two transactions.\<close>

definition check_content ::
  "('v, 'm) reg_env \<Rightarrow> string \<Rightarrow> SkillManifest \<Rightarrow> (string \<times> string) list \<Rightarrow>
   (string \<times> string \<times> string option \<times> string option, ApiError) result" where
  "check_content E validation_name manifest bytes =
     res_bind (owned_entries_from_manifest manifest bytes) (\<lambda>owned_entries.
     res_bind (bad_request (ge_snapshot_text E) (build_deterministic_skill_snapshot (ge_tables E) (ge_yaml E)
       (he_sha256 (ge_hash E)) (ge_archive E) validation_name owned_entries)) (\<lambda>snapshot.
     if ds_manifest snapshot \<noteq> manifest
     then Err (ApiError_new InvalidRequest ''verified object bytes do not match the declared manifest'')
     else
       res_bind (ok_or (find_skill_md owned_entries) (ApiError_new InvalidRequest ''skill is missing SKILL.md'')) (\<lambda>skill_md.
       res_bind (bad_request (ge_skill_text E) (parse_skill_document (ge_yaml E) validation_name skill_md)) (\<lambda>document.
       Ok (ds_bytes snapshot, fm_description (doc_frontmatter document), fm_license (doc_frontmatter document),
           fm_compatibility (doc_frontmatter document))))))"

text \<open>The first transaction of \<open>commit_private_revision\<close> with the objects it fetches, and the content checks.\<close>

definition commit_read ::
  "('v, 'm) reg_env \<Rightarrow> (string \<Rightarrow> string option) \<Rightarrow> AuthActor \<Rightarrow> PrivateRevisionCommitRequest \<Rightarrow> server \<Rightarrow>
   (commit_found, ApiError) result" where
  "commit_read E down who q s =
     (let g = sv_db s; X = he_hex (ge_hash E)
      in res_bind (user_authority g who ''skills:write'') (\<lambda>authority.
         res_bind (bad_request id_error_text (id_from_str (ge_uuid E) OperationId (cq_operation_id q))) (\<lambda>operation_id.
         res_bind (bad_hash (RequestHash_from_str X (cq_request_hash q))) (\<lambda>supplied_hash.
         (let user_id = ua_user_id authority; v = actor_view (begin_actor_tx user_id) g
          in res_bind (ok_or (fetch_revision_operation v user_id (oid_bytes operation_id))
               (ApiError_new NotFound ''private revision not found'')) (\<lambda>operation.
             res_bind (ensure_request_hash (ro_request_hash operation) supplied_hash) (\<lambda>_.
             res_bind (revision_operation_state (ro_state operation)) (\<lambda>state.
             if state \<noteq> St_Prepared then map_ok Already (decode_revision_outcome (ro_outcome_json operation))
             else
               res_bind (authorize_resource_publish (ge_tables E) v authority (ro_resource_id operation)) (\<lambda>ra.
               if ro_namespace_id operation \<noteq> np_namespace_id ra
               then Err (ApiError_new Unauthorized ''private revision namespace is unavailable'')
               else
                 res_bind (bad_request id (manifest_to_core X (ro_manifest_json operation))) (\<lambda>manifest.
                 res_bind (bad_request (ge_snapshot_text E)
                   (validate_declared_skill_manifest (ge_tables E) (he_sha256 (ge_hash E)) manifest)) (\<lambda>trees.
                 res_bind (manifest_blobs manifest) (\<lambda>expected_blobs.
                 res_bind (fold_res staged_blob [] (fetch_revision_staging v user_id (oid_bytes operation_id))) (\<lambda>staging.
                 res_bind (collect_res (canonical_object v (ro_namespace_id operation))
                   (filter (\<lambda>b. map_of staging (fst b) = None) expected_blobs)) (\<lambda>canonical.
                 res_bind (collect_res (read_blob (ge_hash E) down (sv_objects s) staging canonical) expected_blobs) (\<lambda>bytes.
                 res_bind (ok_or (sql_first (\<lambda>x. re_id x = ro_resource_id operation \<and> re_kind x = ''skill'' \<and> \<not> re_deleted x)
                     (rg_resources v)) (ApiError_new NotFound ''private skill not found'')) (\<lambda>resource.
                 if re_owner_namespace_id resource \<noteq> Some (ro_namespace_id operation)
                 then Err (ApiError_new Unauthorized ''private skill is unavailable'')
                 else
                   res_bind (fetch_revision_operation_parents v user_id (oid_bytes operation_id)) (\<lambda>parents.
                   res_bind (check_content E (case ro_historical_skill_name operation of None \<Rightarrow> re_slug resource | Some n \<Rightarrow> n)
                     manifest bytes) (\<lambda>(snapshot, description, license, compatibility).
                   Ok (Verified \<lparr>vc_authority = authority, vc_operation_id = oid_bytes operation_id,
                     vc_supplied_hash = supplied_hash, vc_operation = operation, vc_manifest = manifest, vc_trees = trees,
                     vc_blobs = expected_blobs, vc_staging = staging, vc_bytes = bytes, vc_parents = parents,
                     vc_snapshot = snapshot, vc_description = description, vc_license = license,
                     vc_compatibility = compatibility\<rparr>)))))))))))))))))))"

section \<open>Commit: storing objects\<close>

definition snapshot_key :: "('v, 'm) reg_env \<Rightarrow> string \<Rightarrow> string" where
  "snapshot_key E bytes = ''snapshots/sha256/'' @ hex_encode (he_hex (ge_hash E)) (he_sha256 (ge_hash E) bytes) @ ''.tar.zst''"

definition put_object :: "(string \<Rightarrow> string option) \<Rightarrow> string \<Rightarrow> string \<Rightarrow> (server, unit, ApiError) op" where
  "put_object down key bytes s =
     (case down key of Some e \<Rightarrow> (Err (object_store_api_error e), s)
      | None \<Rightarrow> (Ok (), s\<lparr>sv_objects := (sv_objects s)(key \<mapsto> bytes)\<rparr>))"

definition commit_objects :: "('v, 'm) reg_env \<Rightarrow> (string \<Rightarrow> string option) \<Rightarrow> verified_commit \<Rightarrow> (server, unit, ApiError) op" where
  "commit_objects E down c =
     op_bind (op_each (\<lambda>(blob, _).
       case map_of (vc_bytes c) blob of
         None \<Rightarrow> op_err (ApiError_new Internal ''verified staged blob disappeared'')
       | Some bytes \<Rightarrow> put_object down (canonical_blob_key (ge_hash E) blob) bytes) (vc_staging c)) (\<lambda>_.
     put_object down (snapshot_key E (vc_snapshot c)) (vc_snapshot c))"

section \<open>Commit: moving the head\<close>

text \<open>The guards under the lock; whether the head is still the expected one.\<close>

definition commit_guard ::
  "registry \<Rightarrow> actor \<Rightarrow> verified_commit \<Rightarrow> ValidatedForkSync option \<Rightarrow> private_workspace_row \<Rightarrow> bool \<Rightarrow> (unit, ApiError) result" where
  "commit_guard g a c fork_sync w head_matches =
     (let v = actor_view a g; operation = vc_operation c; parents = vc_parents c;
          user_id = ua_user_id (vc_authority c)
      in if (case active_conflict v (ro_resource_id operation) user_id of None \<Rightarrow> False
          | Some conflict_id \<Rightarrow> fork_sync \<noteq> None \<or> length parents \<noteq> 2 \<or> vc_operation_id c \<noteq> conflict_id)
         then Err (ApiError_new GenerationConflict
           ''private workspace has an unresolved content conflict; reconcile it before saving another revision'')
         else if head_matches \<and> wk_generation w \<noteq> ro_expected_generation operation
         then Err (ApiError_new GenerationConflict (''private workspace advanced to generation '' @ dec_int (wk_generation w)))
         else if \<not> head_matches \<and> fork_sync \<noteq> None
         then Err (ApiError_new GenerationConflict ''fork head advanced while syncing upstream; fetch the current fork and retry'')
         else if \<not> head_matches \<and> length parents \<noteq> 1
         then Err (ApiError_new GenerationConflict ''merge target advanced again; reconcile the new head before retrying'')
         else if head_matches \<and> length parents = 2 then
           (case fork_sync of
              Some f \<Rightarrow>
                if vf_upstream_revision f \<notin> set (map RevisionId parents)
                then Err (ApiError_new InvalidRequest ''stored fork sync parents do not match the selected upstream revision'')
                else validate_fork_sync v (\<lambda>k. actor_can_manage_resource g a (fk_resource_id k)) user_id
                  (ua_namespace_id (vc_authority c)) (ro_resource_id operation) f
            | None \<Rightarrow> validate_merge_conflict v (conflict_policy a g) (vc_operation_id c) (ro_resource_id operation) user_id
                (map RevisionId parents))
         else Ok ())"

definition checked_succ64 :: "int \<Rightarrow> string \<Rightarrow> (int, ApiError) result" where
  "checked_succ64 n msg = (if n + 1 < 2 ^ 63 then Ok (n + 1) else Err (ApiError_new Internal msg))"

definition resource_update_ok :: "actor \<Rightarrow> registry \<Rightarrow> resource_row \<Rightarrow> bool" where
  "resource_update_ok a g x \<longleftrightarrow> actor_can_publish_namespace g a (re_owner_namespace_id x) \<and> re_generation x > 0"

definition set_resource_head ::
  "actor \<Rightarrow> string \<Rightarrow> int \<Rightarrow> string \<Rightarrow> string option \<Rightarrow> string option \<Rightarrow> nat tx" where
  "set_resource_head a resource_id generation description license compatibility =
     update_rows rg_resources rg_resources_update
       (\<lambda>g x. re_id x = resource_id \<and> actor_can_manage_resource g a resource_id) (resource_update_ok a)
       (\<lambda>x. x\<lparr>re_generation := generation, re_description := description, re_license := license,
          re_compatibility := compatibility\<rparr>)"

record head_content =
  hc_revision_id :: string
  hc_generation :: int
  hc_description :: string
  hc_license :: "string option"
  hc_compatibility :: "string option"
  hc_manifest :: PublicSkillManifest
  hc_snapshot_key :: string
  hc_snapshot_sha :: string
  hc_snapshot_size :: int

definition set_workspace_head :: "actor \<Rightarrow> string \<Rightarrow> string \<Rightarrow> head_content \<Rightarrow> nat tx" where
  "set_workspace_head a resource_id user_id h =
     update_rows rg_workspaces rg_workspaces_update
       (\<lambda>g w. wk_resource_id w = resource_id \<and> wk_user_id w = user_id \<and> workspace_policy a g w) (workspace_ok a)
       (\<lambda>w. w\<lparr>wk_revision_id := hc_revision_id h, wk_generation := hc_generation h, wk_description := hc_description h,
          wk_license := hc_license h, wk_compatibility := hc_compatibility h, wk_manifest_json := hc_manifest h,
          wk_snapshot_key := hc_snapshot_key h, wk_snapshot_sha256 := hc_snapshot_sha h, wk_snapshot_size := hc_snapshot_size h\<rparr>)"

definition fork_policy :: "actor \<Rightarrow> registry \<Rightarrow> skill_fork_row \<Rightarrow> bool" where
  "fork_policy a g f \<longleftrightarrow> actor_can_manage_resource g a (fk_resource_id f)"

text \<open>The head is the expected one: advance it.\<close>

definition advance_head ::
  "('v, 'm) reg_env \<Rightarrow> actor \<Rightarrow> verified_commit \<Rightarrow> ValidatedForkSync option \<Rightarrow> bool \<Rightarrow> int \<Rightarrow> int \<Rightarrow>
   (PrivateRevisionCommitResponse \<times> u64) tx" where
  "advance_head E a c fork_sync is_team resource_generation workspace_generation =
     (let operation = vc_operation c; resource_id = ro_resource_id operation; user_id = ua_user_id (vc_authority c)
      in op_bind (op_res (if is_team then Ok resource_generation
           else checked_succ64 resource_generation ''resource generation overflow'')) (\<lambda>next_resource.
         op_bind (op_res (checked_succ64 workspace_generation ''workspace generation overflow'')) (\<lambda>next_workspace.
         op_bind (if is_team then op_ok 0
           else set_resource_head a resource_id next_resource (vc_description c) (vc_license c) (vc_compatibility c)) (\<lambda>_.
         if int (length (vc_snapshot c)) \<ge> 2 ^ 63 then op_err (ApiError_new Internal ''snapshot size exceeds database range'')
         else
         op_bind (set_workspace_head a resource_id user_id
           \<lparr>hc_revision_id = ro_revision_id operation, hc_generation = next_workspace, hc_description = vc_description c,
            hc_license = vc_license c, hc_compatibility = vc_compatibility c, hc_manifest = ro_manifest_json operation,
            hc_snapshot_key = snapshot_key E (vc_snapshot c), hc_snapshot_sha = he_sha256 (ge_hash E) (vc_snapshot c),
            hc_snapshot_size = int (length (vc_snapshot c))\<rparr>) (\<lambda>_.
         op_bind (if length (vc_parents c) = 2 \<and> fork_sync = None
           then resolve_workspace_conflict a (vc_operation_id c) resource_id user_id (ro_revision_id operation) else op_ok ()) (\<lambda>_.
         op_bind (case fork_sync of None \<Rightarrow> op_ok 0
           | Some f \<Rightarrow> update_rows rg_forks rg_forks_update
               (\<lambda>g k. fk_resource_id k = resource_id \<and> fk_sync_base_revision_id k = revision_bytes (vf_expected_base f) \<and>
                  fork_policy a g k)
               (\<lambda>g k. fork_policy a g k \<and> known_revision g (fk_sync_base_revision_id k))
               (\<lambda>k. k\<lparr>fk_sync_base_revision_id := revision_bytes (vf_upstream_revision f)\<rparr>)) (\<lambda>_.
         op_bind (update_rows rg_forks rg_forks_update
           (\<lambda>g k. fk_resource_id k = resource_id \<and> fk_promotion_pending k \<and>
              fk_promotion_head_revision_id k = Some (ro_revision_id operation) \<and> fork_policy a g k)
           (fork_policy a) (\<lambda>k. k\<lparr>fk_promotion_pending := False\<rparr>)) (\<lambda>_.
         if next_workspace < 0 then op_err (ApiError_new Internal ''workspace generation is invalid'')
         else if next_resource < 0 then op_err (ApiError_new Internal ''resource generation is invalid'')
         else op_ok (Advanced \<lparr>prr_resource_id = uu_to_string (ge_uuid E) resource_id, prr_generation = of_int next_workspace,
             prr_revision_id = hex_encode (he_hex (ge_hash E)) (ro_revision_id operation),
             prr_description = vc_description c, prr_manifest = ro_manifest_json operation\<rparr>,
           of_int next_resource)))))))))"

text \<open>The head moved meanwhile: keep it and record the race.\<close>

definition record_divergence ::
  "('v, 'm) reg_env \<Rightarrow> actor \<Rightarrow> verified_commit \<Rightarrow> string \<Rightarrow> int \<Rightarrow> string \<Rightarrow> int \<Rightarrow> int \<Rightarrow>
   (PrivateRevisionCommitResponse \<times> u64) tx" where
  "record_divergence E a c new_conflict_id now current_head resource_generation workspace_generation =
     (let operation = vc_operation c
      in op_bind (record_workspace_conflict (ge_uuid E) (he_hex (ge_hash E)) a new_conflict_id now (ro_resource_id operation)
           (ua_user_id (vc_authority c)) (ro_expected_head_revision_id operation) (ro_revision_id operation) current_head
           workspace_generation) (\<lambda>conflict.
         if resource_generation < 0 then op_err (ApiError_new Internal ''resource generation is invalid'')
         else op_ok (Diverged (uu_to_string (ge_uuid E) (ro_resource_id operation))
           (hex_encode (he_hex (ge_hash E)) (ro_revision_id operation)) conflict, of_int resource_generation)))"

definition outcome_state :: "PrivateRevisionCommitResponse \<Rightarrow> string" where
  "outcome_state r = (case r of Advanced _ \<Rightarrow> ''advanced'' | Diverged _ _ _ \<Rightarrow> ''diverged'')"

definition finish_operation :: "actor \<Rightarrow> string \<Rightarrow> string \<Rightarrow> PrivateRevisionCommitResponse \<Rightarrow> nat tx" where
  "finish_operation a user_id operation_id outcome =
     update_rows rg_revision_operations rg_revision_operations_update
       (\<lambda>g q. ro_user_id q = user_id \<and> ro_operation_id q = operation_id \<and> ro_state q = ''prepared'' \<and>
          ac_user a = Some (ro_user_id q)) (operation_ok a)
       (\<lambda>q. q\<lparr>ro_state := outcome_state outcome, ro_outcome_json := Some outcome\<rparr>)"

text \<open>Storing the content of the revision: quota, blobs, trees and the rows of the revision.\<close>

definition commit_store :: "('v, 'm) reg_env \<Rightarrow> actor \<Rightarrow> verified_commit \<Rightarrow> string \<Rightarrow> unit tx" where
  "commit_store E a c author_principal_id =
     (let operation = vc_operation c
      in op_bind (enforce_namespace_quota (ge_namespace_storage_bytes E) a (ro_namespace_id operation) (vc_blobs c)) (\<lambda>_.
         op_bind (persist_canonical_blobs (ge_hash E) (vc_blobs c)) (\<lambda>_.
         op_bind (persist_trees (vc_trees c)) (\<lambda>_.
         persist_private_revision_storage a
           \<lparr>st_resource_id = ro_resource_id operation, st_namespace_id = ro_namespace_id operation,
            st_author_principal_id = author_principal_id, st_operation_id = vc_operation_id c,
            st_revision_id = ro_revision_id operation, st_parents = vc_parents c,
            st_manifest = ro_manifest_json operation, st_root_tree_id = tree_bytes (m_root_tree (vc_manifest c)),
            st_blobs = vc_blobs c, st_snapshot_key = snapshot_key E (vc_snapshot c),
            st_snapshot_sha = he_sha256 (ge_hash E) (vc_snapshot c), st_snapshot_size = length (vc_snapshot c)\<rparr>))))"

text \<open>A prepared operation is carried out: \<open>locked\<close> is its row as read under the lock.\<close>

definition commit_prepared ::
  "('v, 'm) reg_env \<Rightarrow> actor \<Rightarrow> verified_commit \<Rightarrow> string \<Rightarrow> int \<Rightarrow> bool \<Rightarrow> resource_row \<Rightarrow> private_workspace_row \<Rightarrow>
   revision_operation_row \<Rightarrow> PrivateRevisionCommitResponse tx" where
  "commit_prepared E a c new_conflict_id now is_team x w locked =
     (let authority = vc_authority c; operation = vc_operation c; resource_id = ro_resource_id operation
      in op_bind (query_as a (\<lambda>v. case ro_historical_skill_name locked of None \<Rightarrow> Ok ()
           | Some _ \<Rightarrow> require_pending_fork_promotion v resource_id)) (\<lambda>_.
         op_bind (op_res (revision_operation_fork_sync locked)) (\<lambda>fork_sync.
         op_bind (op_res (decode_32 (wk_revision_id w) ''stored private workspace head'')) (\<lambda>current_head.
         op_bind (op_query (\<lambda>g. commit_guard g a c fork_sync w (current_head = ro_expected_head_revision_id operation))) (\<lambda>_.
         op_bind (commit_store E a c (case ro_revision_author_principal_id locked of
           None \<Rightarrow> ua_author_principal_id authority | Some p \<Rightarrow> p)) (\<lambda>_.
         op_bind (if current_head = ro_expected_head_revision_id operation
           then advance_head E a c fork_sync is_team (re_generation x) (wk_generation w)
           else record_divergence E a c new_conflict_id now current_head (re_generation x) (wk_generation w)) (\<lambda>(outcome, wake).
         op_bind (finish_operation a (ua_user_id authority) (vc_operation_id c) outcome) (\<lambda>_.
         op_bind (if is_team then op_ok () else enqueue_resource_wake (ge_uuid E) resource_id wake) (\<lambda>_.
         op_ok outcome)))))))))"

text \<open>What follows once the workspace is locked: the outcome, and whether this request brought it about.\<close>

definition commit_locked ::
  "('v, 'm) reg_env \<Rightarrow> actor \<Rightarrow> verified_commit \<Rightarrow> string \<Rightarrow> int \<Rightarrow> bool \<Rightarrow> resource_row \<Rightarrow> private_workspace_row \<Rightarrow>
   (bool \<times> PrivateRevisionCommitResponse) tx" where
  "commit_locked E a c new_conflict_id now is_team x w =
     op_bind (query_as a (\<lambda>v. ok_or (fetch_revision_operation v (ua_user_id (vc_authority c)) (vc_operation_id c))
       (ApiError_new Internal ''revision operation disappeared''))) (\<lambda>locked.
     op_bind (op_res (ensure_request_hash (ro_request_hash locked) (vc_supplied_hash c))) (\<lambda>_.
     op_bind (op_res (revision_operation_state (ro_state locked))) (\<lambda>state.
     if state \<noteq> St_Prepared then op_res (map_ok (Pair False) (decode_revision_outcome (ro_outcome_json locked)))
     else op_bind (commit_prepared E a c new_conflict_id now is_team x w locked) (\<lambda>outcome. op_ok (True, outcome)))))"

text \<open>The second transaction of \<open>commit_private_revision\<close>.\<close>

definition commit_write_tx ::
  "('v, 'm) reg_env \<Rightarrow> verified_commit \<Rightarrow> string \<Rightarrow> int \<Rightarrow> (bool \<times> PrivateRevisionCommitResponse) tx" where
  "commit_write_tx E c new_conflict_id now =
     (let authority = vc_authority c; user_id = ua_user_id authority; a = begin_actor_tx user_id;
          operation = vc_operation c; resource_id = ro_resource_id operation
      in op_bind (op_res (decode_32 (ro_revision_id operation) ''stored revision ID'')) (\<lambda>_.
         op_bind (op_res (decode_32 (ro_expected_head_revision_id operation) ''stored expected workspace head'')) (\<lambda>_.
         op_bind (query_as a (\<lambda>v. authorize_resource_publish (ge_tables E) v authority resource_id)) (\<lambda>ra.
         if np_namespace_id ra \<noteq> ro_namespace_id operation
         then op_err (ApiError_new Unauthorized ''private revision namespace is unavailable'')
         else
         op_bind (lock_workspace a resource_id user_id) (\<lambda>current.
         case current of None \<Rightarrow> op_err (ApiError_new NotFound ''private skill not found'')
         | Some (x, w) \<Rightarrow>
           if re_owner_namespace_id x \<noteq> Some (ro_namespace_id operation)
           then op_err (ApiError_new Unauthorized ''private skill is unavailable'')
           else commit_locked E a c new_conflict_id now (np_is_team ra) x w)))))"

definition commit_write ::
  "('v, 'm) reg_env \<Rightarrow> verified_commit \<Rightarrow> string \<Rightarrow> int \<Rightarrow> (server, bool \<times> PrivateRevisionCommitResponse, ApiError) op" where
  "commit_write E c new_conflict_id now s =
     (case transaction (commit_write_tx E c new_conflict_id now) (sv_db s) of (r, g) \<Rightarrow> (r, s\<lparr>sv_db := g\<rparr>))"

definition delete_objects :: "string list \<Rightarrow> server \<Rightarrow> server" where
  "delete_objects keys s = s\<lparr>sv_objects := (\<lambda>k. if k \<in> set keys then None else sv_objects s k)\<rparr>"

definition commit_private_revision ::
  "('v, 'm) reg_env \<Rightarrow> (string \<Rightarrow> string option) \<Rightarrow> AuthActor \<Rightarrow> PrivateRevisionCommitRequest \<Rightarrow> string \<Rightarrow> int \<Rightarrow>
   (server, PrivateRevisionCommitResponse, ApiError) op" where
  "commit_private_revision E down who q new_conflict_id now =
     op_bind (op_query (commit_read E down who q)) (\<lambda>found.
     case found of Already r \<Rightarrow> op_ok r
     | Verified c \<Rightarrow>
         op_bind (commit_objects E down c) (\<lambda>_.
         op_bind (commit_write E c new_conflict_id now) (\<lambda>(committed, outcome). \<lambda>s.
           (Ok outcome, if \<not> committed then s else snd (drain_outbox (ge_uuid E) 64
              (delete_objects (filter (\<lambda>k. down k = None) (map (\<lambda>(b, z, k). k) (vc_staging c))) s))))))"

end
