(* ===== verification/Registry_Restore.thy ===== *)
theory Registry_Restore
  imports Registry_Workspace
begin

text \<open>
  \<open>restore_skill\<close> of \<open>release.rs\<close> in \<open>crates/denju-registry/src\<close>: a stored revision becomes the content
  of a new revision on top of the workspace's head.  It runs in three transactions: the replay check, the
  reading of the target with its snapshot from the object store, and the write.
\<close>

record RestoreSkillRequest =
  rr_operation_id :: string
  rr_resource_id :: string
  rr_expected_generation :: u64
  rr_target_revision_id :: string
  rr_request_hash :: string

record parsed_restore =
  ps_operation :: OperationId
  ps_resource :: ResourceId
  ps_target :: RevisionId
  ps_supplied_hash :: RequestHash

definition parse_restore :: "('v, 'm) reg_env \<Rightarrow> RestoreSkillRequest \<Rightarrow> (parsed_restore, ApiError) result" where
  "parse_restore E q =
     (let X = he_hex (ge_hash E); L = ge_uuid E
      in res_bind (bad_request id_error_text (id_from_str L OperationId (rr_operation_id q))) (\<lambda>operation_id.
         res_bind (bad_request id_error_text (id_from_str L ResourceId (rr_resource_id q))) (\<lambda>resource_id.
         res_bind (revision_id_param X (rr_target_revision_id q)) (\<lambda>target.
         res_bind (bad_hash (RequestHash_from_str X (rr_request_hash q))) (\<lambda>supplied_hash.
         res_bind (bad_hash (restore_skill_request_hash (ge_hash E) (rr_operation_id q) (rr_resource_id q)
           (rr_expected_generation q) (rr_target_revision_id q))) (\<lambda>expected_hash.
         res_bind (require (supplied_hash = expected_hash) InvalidRequestHash
           ''request_hash does not match the canonical restore payload'') (\<lambda>_.
         Ok \<lparr>ps_operation = operation_id, ps_resource = resource_id, ps_target = target,
             ps_supplied_hash = supplied_hash\<rparr>)))))))"

definition restore_replay ::
  "registry \<Rightarrow> string \<Rightarrow> parsed_restore \<Rightarrow> (PrivateRevisionResponse option, ApiError) result" where
  "restore_replay v user_id p =
     (case sql_first (\<lambda>q. so_user_id q = user_id \<and> so_operation_id q = oid_bytes (ps_operation p)) (rg_restore_operations v) of
        None \<Rightarrow> Ok None
      | Some row \<Rightarrow>
          if so_request_hash row \<noteq> rh_bytes (ps_supplied_hash p) \<or> so_resource_id row \<noteq> rid_bytes (ps_resource p)
          then Err (ApiError_new OperationConflict ''operation_id was already used with different restore content'')
          else Ok (Some (so_outcome_json row)))"

text \<open>What a restore carries from its reading part to its write.\<close>

record verified_restore =
  vr_authority :: UserAuthority
  vr_request :: parsed_restore
  vr_expected_generation :: u64
  vr_manifest_wire :: PublicSkillManifest
  vr_manifest :: SkillManifest
  vr_snapshot_key :: string
  vr_snapshot_sha :: string
  vr_snapshot_size :: int
  vr_description :: string
  vr_license :: "string option"
  vr_compatibility :: "string option"

definition internal_of :: "('e \<Rightarrow> string) \<Rightarrow> ('a, 'e) result \<Rightarrow> ('a, ApiError) result" where
  "internal_of f = map_err (\<lambda>e. ApiError_new Internal (f e))"

definition restore_not_found :: ApiError where
  "restore_not_found = ApiError_new NotFound ''restore revision not found''"

definition restore_content ::
  "('v, 'm) reg_env \<Rightarrow> string \<Rightarrow> SkillManifest \<Rightarrow> string \<Rightarrow> (string \<times> string option \<times> string option, ApiError) result" where
  "restore_content E slug manifest snapshot_bytes =
     res_bind (internal_of (ge_snapshot_text E) (validate_skill_snapshot (ge_tables E) (ge_yaml E) (he_sha256 (ge_hash E))
       (ge_archive E) slug manifest snapshot_bytes)) (\<lambda>entries.
     res_bind (ok_or (find_skill_md entries) (ApiError_new Internal ''stored revision is missing SKILL.md'')) (\<lambda>skill_md.
     res_bind (internal_of (ge_skill_text E) (parse_skill_document (ge_yaml E) slug skill_md)) (\<lambda>document.
     Ok (fm_description (doc_frontmatter document), fm_license (doc_frontmatter document),
         fm_compatibility (doc_frontmatter document)))))"

definition restore_read ::
  "('v, 'm) reg_env \<Rightarrow> (string \<Rightarrow> string option) \<Rightarrow> UserAuthority \<Rightarrow> RestoreSkillRequest \<Rightarrow> parsed_restore \<Rightarrow> server \<Rightarrow>
   (verified_restore, ApiError) result" where
  "restore_read E down authority q p s =
     (let g = sv_db s; user_id = ua_user_id authority; resource_id = rid_bytes (ps_resource p);
          target = revision_bytes (ps_target p); v = actor_view (begin_actor_tx user_id) g
      in res_bind (authorize_resource_publish (ge_tables E) v authority resource_id) (\<lambda>ra.
         res_bind (skill_access_for_user v user_id (ua_namespace_id authority) resource_id) (\<lambda>access.
         res_bind (user_can_read_revision v access resource_id target) (\<lambda>readable.
         if \<not> readable then Err restore_not_found
         else
         res_bind (ok_or (sql_first (\<lambda>s. sn_resource_id s = resource_id \<and> sn_revision_id s = target) (rg_snapshots v))
           restore_not_found) (\<lambda>snapshot.
         res_bind (ok_or (sql_first (\<lambda>x. re_id x = resource_id \<and> re_kind x = ''skill'') (rg_resources v))
           restore_not_found) (\<lambda>resource.
         if re_owner_namespace_id resource \<noteq> Some (np_namespace_id ra)
         then Err (ApiError_new Unauthorized ''owned skill is unavailable'')
         else
         res_bind (internal_of id (manifest_to_core (he_hex (ge_hash E)) (sn_manifest_json snapshot))) (\<lambda>manifest.
         res_bind (get_object down (sv_objects s) (sn_snapshot_key snapshot)) (\<lambda>bytes.
         res_bind (restore_content E (re_slug resource) manifest bytes) (\<lambda>(description, license, compatibility).
         Ok \<lparr>vr_authority = authority, vr_request = p, vr_expected_generation = rr_expected_generation q,
             vr_manifest_wire = sn_manifest_json snapshot, vr_manifest = manifest,
             vr_snapshot_key = sn_snapshot_key snapshot, vr_snapshot_sha = sn_snapshot_sha256 snapshot,
             vr_snapshot_size = sn_snapshot_size snapshot, vr_description = description, vr_license = license,
             vr_compatibility = compatibility\<rparr>)))))))))"

text \<open>One blob of the restored content: it is reachable already, so only the counts grow.\<close>

definition reach_again :: "actor \<Rightarrow> string \<Rightarrow> string \<Rightarrow> string \<Rightarrow> string \<times> u64 \<Rightarrow> unit tx" where
  "reach_again a revision_id resource_id namespace_id b =
     op_bind (insert_row rg_revision_blobs rg_revision_blobs_update (=)
       (\<lambda>g r. actor_can_read_revision g a (fst r) \<and> list_ex (\<lambda>c. cb_blob_id c = snd r) (rg_canonical_blobs g))
       (revision_id, fst b)) (\<lambda>_.
     op_bind (update_rows rg_resource_blobs rg_resource_blobs_update
       (\<lambda>g r. bl_holder_id r = resource_id \<and> bl_blob_id r = fst b \<and> actor_can_manage_resource g a (bl_holder_id r))
       (\<lambda>g r. actor_can_manage_resource g a (bl_holder_id r)) (\<lambda>r. r\<lparr>bl_reference_count := bl_reference_count r + 1\<rparr>)) (\<lambda>_.
     op_bind (update_rows rg_namespace_blobs rg_namespace_blobs_update
       (\<lambda>g r. bl_holder_id r = namespace_id \<and> bl_blob_id r = fst b \<and> actor_can_publish_namespace g a (Some (bl_holder_id r)))
       (\<lambda>g r. actor_can_publish_namespace g a (Some (bl_holder_id r)))
       (\<lambda>r. r\<lparr>bl_reference_count := bl_reference_count r + 1\<rparr>)) (\<lambda>_. op_ok ())))"

definition restore_rows ::
  "actor \<Rightarrow> verified_restore \<Rightarrow> string \<Rightarrow> string \<Rightarrow> string \<Rightarrow> unit tx" where
  "restore_rows a c namespace_id revision_id parent =
     (let resource_id = rid_bytes (ps_resource (vr_request c))
      in op_bind (insert_row rg_revisions rg_revisions_update (\<lambda>x y. rv_revision_id x = rv_revision_id y)
           (\<lambda>g r. length (rv_revision_id r) = 32 \<and> rv_root_tree_id r \<in> set (rg_merkle_trees g) \<and>
              author_linked g a (rv_author_principal_id r))
           \<lparr>rv_revision_id = revision_id, rv_root_tree_id = tree_bytes (m_root_tree (vr_manifest c)),
            rv_author_principal_id = ua_author_principal_id (vr_authority c),
            rv_operation_id = oid_bytes (ps_operation (vr_request c))\<rparr>) (\<lambda>_.
         op_bind (insert_row rg_parents rg_parents_update parent_clash (parent_ok a)
           \<lparr>rp_revision_id = revision_id, rp_parent_revision_id = parent, rp_ordinal = 0\<rparr>) (\<lambda>_.
         op_bind (op_res (manifest_blobs (vr_manifest c))) (\<lambda>blobs.
         op_bind (op_each (reach_again a revision_id resource_id namespace_id) blobs) (\<lambda>_.
         insert_row rg_snapshots rg_snapshots_update snapshot_clash (snapshot_ok a)
           \<lparr>sn_resource_id = resource_id, sn_revision_id = revision_id, sn_manifest_json = vr_manifest_wire c,
            sn_snapshot_key = vr_snapshot_key c, sn_snapshot_sha256 = vr_snapshot_sha c,
            sn_snapshot_size = vr_snapshot_size c\<rparr>)))))"

definition restore_operation_clash :: "restore_operation_row \<Rightarrow> restore_operation_row \<Rightarrow> bool" where
  "restore_operation_clash x y \<longleftrightarrow> so_user_id x = so_user_id y \<and> so_operation_id x = so_operation_id y"

text \<open>The checks under the lock; the revision identity is that of the content on top of the current head.\<close>

definition restored_revision ::
  "('v, 'm) reg_env \<Rightarrow> verified_restore \<Rightarrow> private_workspace_row \<Rightarrow> (string \<times> string, ApiError) result" where
  "restored_revision E c w =
     (let p = vr_request c
      in res_bind (ok_or (i64_of_u64 (vr_expected_generation c))
           (ApiError_new InvalidRequest ''generation exceeds database range'')) (\<lambda>expected_generation.
         if wk_generation w \<noteq> expected_generation
         then Err (ApiError_new GenerationConflict (''private workspace advanced to generation '' @ dec_int (wk_generation w)))
         else if wk_revision_id w = revision_bytes (ps_target p)
         then Err (ApiError_new InvalidRequest ''the requested revision is already the private workspace head'')
         else
         res_bind (decode_32 (wk_revision_id w) ''stored revision ID'') (\<lambda>parent.
         res_bind (internal_of id_error_text (id_from_uuid (ge_uuid E) AuthorPrincipalId
           (ua_author_principal_id (vr_authority c)))) (\<lambda>author.
         res_bind (bad_request RevisionError_text
           (Revision_new (m_root_tree (vr_manifest c)) [RevisionId parent] author (ps_operation p))) (\<lambda>revision.
         Ok (parent, revision_bytes (Revision_id (he_sha256 (ge_hash E)) revision)))))))"

definition restore_head ::
  "('v, 'm) reg_env \<Rightarrow> actor \<Rightarrow> verified_restore \<Rightarrow> NamespacePublishAuthority \<Rightarrow> resource_row \<Rightarrow> private_workspace_row \<Rightarrow>
   string \<Rightarrow> string \<Rightarrow> PrivateRevisionResponse tx" where
  "restore_head E a c ra x w parent revision_id =
     (let p = vr_request c; resource_id = rid_bytes (ps_resource p); user_id = ua_user_id (vr_authority c);
          is_team = np_is_team ra
      in op_bind (op_res (checked_succ64 (wk_generation w) ''workspace generation overflow'')) (\<lambda>next_workspace.
         op_bind (op_res (if is_team then Ok (re_generation x)
           else checked_succ64 (re_generation x) ''resource generation overflow'')) (\<lambda>next_resource.
         op_bind (restore_rows a c (np_namespace_id ra) revision_id parent) (\<lambda>_.
         op_bind (if is_team then op_ok 0
           else set_resource_head a resource_id next_resource (vr_description c) (vr_license c) (vr_compatibility c)) (\<lambda>_.
         op_bind (set_workspace_head a resource_id user_id
           \<lparr>hc_revision_id = revision_id, hc_generation = next_workspace, hc_description = vr_description c,
            hc_license = vr_license c, hc_compatibility = vr_compatibility c, hc_manifest = vr_manifest_wire c,
            hc_snapshot_key = vr_snapshot_key c, hc_snapshot_sha = vr_snapshot_sha c,
            hc_snapshot_size = vr_snapshot_size c\<rparr>) (\<lambda>_.
         if next_workspace < 0 then op_err (ApiError_new Internal ''workspace generation is invalid'')
         else
         (let outcome = \<lparr>prr_resource_id = uu_to_string (ge_uuid E) resource_id, prr_generation = of_int next_workspace,
                prr_revision_id = hex_encode (he_hex (ge_hash E)) revision_id, prr_description = vr_description c,
                prr_manifest = vr_manifest_wire c\<rparr>
          in op_bind (insert_row rg_restore_operations rg_restore_operations_update restore_operation_clash
               (\<lambda>g r. ac_user a = Some (so_user_id r) \<and> length (so_request_hash r) = 32)
               \<lparr>so_user_id = user_id, so_operation_id = oid_bytes (ps_operation p),
                so_request_hash = rh_bytes (ps_supplied_hash p), so_resource_id = resource_id, so_outcome_json = outcome\<rparr>) (\<lambda>_.
             op_bind (if is_team then op_ok ()
               else if next_resource < 0 then op_err (ApiError_new Internal ''resource generation is invalid'')
               else enqueue_resource_wake (ge_uuid E) resource_id (of_int next_resource)) (\<lambda>_.
             op_ok outcome)))))))))"

definition restore_write_tx :: "('v, 'm) reg_env \<Rightarrow> verified_restore \<Rightarrow> (bool \<times> PrivateRevisionResponse) tx" where
  "restore_write_tx E c =
     (let authority = vr_authority c; user_id = ua_user_id authority; a = begin_actor_tx user_id;
          resource_id = rid_bytes (ps_resource (vr_request c))
      in op_bind (query_as a (\<lambda>v. authorize_resource_publish (ge_tables E) v authority resource_id)) (\<lambda>ra.
         op_bind (if np_is_team ra then ensure_private_workspace_for_user a resource_id user_id else op_ok False) (\<lambda>_.
         op_bind (lock_workspace a resource_id user_id) (\<lambda>current.
         case current of None \<Rightarrow> op_err (ApiError_new NotFound ''owned skill not found'')
         | Some (x, w) \<Rightarrow>
             if re_owner_namespace_id x \<noteq> Some (np_namespace_id ra)
             then op_err (ApiError_new Unauthorized ''owned skill is unavailable'')
             else
               op_bind (op_res (restored_revision E c w)) (\<lambda>(parent, revision_id).
               op_bind (restore_head E a c ra x w parent revision_id) (\<lambda>outcome. op_ok (np_is_team ra, outcome)))))))"

definition restore_write :: "('v, 'm) reg_env \<Rightarrow> verified_restore \<Rightarrow> (server, bool \<times> PrivateRevisionResponse, ApiError) op" where
  "restore_write E c s = (case transaction (restore_write_tx E c) (sv_db s) of (r, g) \<Rightarrow> (r, s\<lparr>sv_db := g\<rparr>))"

definition restore_skill ::
  "('v, 'm) reg_env \<Rightarrow> (string \<Rightarrow> string option) \<Rightarrow> AuthActor \<Rightarrow> RestoreSkillRequest \<Rightarrow>
   (server, PrivateRevisionResponse, ApiError) op" where
  "restore_skill E down who q =
     op_bind (op_query (\<lambda>s. user_authority (sv_db s) who ''skills:write'')) (\<lambda>authority.
     op_bind (op_res (parse_restore E q)) (\<lambda>p.
     op_bind (op_query (\<lambda>s. restore_replay (actor_view (begin_actor_tx (ua_user_id authority)) (sv_db s)) (ua_user_id authority) p)) (\<lambda>replay.
     case replay of Some outcome \<Rightarrow> op_ok outcome
     | None \<Rightarrow>
         op_bind (op_query (restore_read E down authority q p)) (\<lambda>c.
         op_bind (restore_write E c) (\<lambda>(is_team, outcome). \<lambda>s.
           (Ok outcome, if is_team then s else snd (drain_outbox (ge_uuid E) 64 s)))))))"

text \<open>\<open>hint_for_wake\<close>: what a listener is told about a wake.\<close>

datatype SyncHint = Dirty "(string \<times> u64) list" | SH_ResyncAll

fun hint_for_wake :: "uuid_lib \<Rightarrow> RegistryWake \<Rightarrow> string set \<Rightarrow> SyncHint option" where
  "hint_for_wake L (WakeResource resource_id generation) watched =
     (if resource_id \<in> watched then Some (Dirty [(uu_to_string L resource_id, generation)]) else None)"
| "hint_for_wake L ResyncAll watched = Some SH_ResyncAll"

end
