(* ===== verification/Registry_Access_Props.thy ===== *)
theory Registry_Access_Props
  imports Registry_Access
begin

text \<open>
  What the access checks of the registry grant.  A revision a user may fork is one the same user may
  read, and a revision the checks let a user read is one the sharing rules give to that user; the
  check before a write agrees with the policy the database applies to the write.
\<close>

section \<open>The rows a transaction sees\<close>

lemma actor_view_same [simp]:
  "rg_users (actor_view a g) = rg_users g" "rg_namespaces (actor_view a g) = rg_namespaces g"
  "rg_teams (actor_view a g) = rg_teams g" "rg_quarantines (actor_view a g) = rg_quarantines g"
  by (simp_all add: actor_view_def)

lemma owner_kind_view [simp]: "owner_kind (actor_view a g) x = owner_kind g x"
  by (simp add: owner_kind_def split: option.split)

lemma resource_quarantined_view [simp]: "resource_quarantined (actor_view a g) r = resource_quarantined g r"
  by (simp add: resource_quarantined_def)

lemma is_shared_view [simp]: "is_shared (actor_view (begin_actor_tx u) g) r u = is_shared g r u"
  by (auto simp: is_shared_def actor_view_def begin_actor_tx_def list_ex_iff)

lemma shared_with_user [simp]: "shared_with g (begin_actor_tx u) r = is_shared g r u"
  by (auto simp: is_shared_def shared_with_def begin_actor_tx_def list_ex_iff)

lemma team_member_view [simp]: "user_is_team_member (actor_view (begin_actor_tx u) g) u n = user_is_team_member g u n"
  by (auto simp: user_is_team_member_def actor_view_def begin_actor_tx_def list_ex_iff)

lemma live_skill_view:
  assumes "live_skill (actor_view a g) r = Some (x, n, k)"
  shows "x \<in> set (rg_resources g)" "re_id x = r" "re_kind x = ''skill''" "\<not> re_deleted x"
    "re_owner_namespace_id x = Some n" "owner_kind g x = Some k"
proof -
  from assms obtain "sql_first (\<lambda>x. re_id x = r \<and> re_kind x = ''skill'' \<and> \<not> re_deleted x \<and> owner_kind g x \<noteq> None)
      (rg_resources (actor_view a g)) = Some x"
    and nk: "n = the (re_owner_namespace_id x)" "k = the (owner_kind g x)"
    by (auto simp: live_skill_def split: option.splits)
  then have "x \<in> set (rg_resources (actor_view a g))" and x: "re_id x = r" "re_kind x = ''skill''" "\<not> re_deleted x" "owner_kind g x \<noteq> None"
    by (auto simp: sql_first_def find_Some_iff)
  then show "x \<in> set (rg_resources g)" by (auto simp: actor_view_def)
  show "re_id x = r" "re_kind x = ''skill''" "\<not> re_deleted x" using x by auto
  show "re_owner_namespace_id x = Some n" using x(4) nk by (auto simp: owner_kind_def split: option.splits)
  show "owner_kind g x = Some k" using x(4) nk by auto
qed

lemma workspace_ancestry_view: "set (workspace_ancestry (actor_view a g) r u) \<subseteq> set (workspace_ancestry g r u)"
  unfolding workspace_ancestry_def by (rule ancestry_mono) (auto simp: actor_view_def)

lemma workspace_ancestry_none: "\<not> list_ex (\<lambda>w. wk_resource_id w = r \<and> wk_user_id w = u) (rg_workspaces v) \<Longrightarrow>
    workspace_ancestry v r u = []"
proof -
  assume "\<not> list_ex (\<lambda>w. wk_resource_id w = r \<and> wk_user_id w = u) (rg_workspaces v)"
  then have "filter (\<lambda>w. wk_resource_id w = r \<and> wk_user_id w = u) (rg_workspaces v) = []"
    by (auto simp: list_ex_iff filter_empty_conv)
  then show ?thesis using set_ancestry [of "rg_parents v" "[]"] by (simp add: workspace_ancestry_def)
qed

lemma has_snapshot_view:
  "has_snapshot (actor_view a g) r v \<Longrightarrow> actor_can_read_revision_snapshot g a r v \<or> actor_can_manage_resource g a r"
  by (auto simp: has_snapshot_def actor_view_def sees_snapshot_def list_ex_iff)

lemma has_snapshot_raw: "has_snapshot (actor_view a g) r v \<Longrightarrow> has_snapshot g r v"
  by (auto simp: has_snapshot_def actor_view_def list_ex_iff)

lemma is_released_view: "is_released (actor_view a g) r v \<Longrightarrow> actor_can_read_revision_snapshot g a r v \<and> is_released g r v"
  by (auto simp: is_released_def actor_view_def list_ex_iff)

section \<open>Forking requires reading\<close>

lemma fork_implies_read:
  assumes "user_can_fork_revision v u n r rid = Ok True"
  shows "\<exists>access. skill_access_for_user v u n r = Ok access \<and> user_can_read_revision v access r rid = Ok True"
proof -
  obtain x m k where live: "live_skill v r = Some (x, m, k)"
    using assms by (auto simp: user_can_fork_revision_def split: option.splits)
  have "in_workspace_ancestry v r u rid \<Longrightarrow> list_ex (\<lambda>w. wk_resource_id w = r \<and> wk_user_id w = u) (rg_workspaces v)"
    by (rule ccontr) (simp add: in_workspace_ancestry_def workspace_ancestry_none)
  then show ?thesis using assms live
    by (auto simp: user_can_fork_revision_def skill_access_for_user_def user_can_read_revision_def
        can_read_private_def can_read_released_def Let_def split: if_splits)
qed

section \<open>What a user may read\<close>

text \<open>The sharing rules: the skill is live and not quarantined, and the revision is one of a personal
  skill of the user or shared with the user, is in the history of the user's own draft, or was
  released to an audience the user belongs to.\<close>

definition may_read :: "registry \<Rightarrow> string \<Rightarrow> string \<Rightarrow> string \<Rightarrow> string \<Rightarrow> bool" where
  "may_read g u n r rid \<longleftrightarrow> \<not> resource_quarantined g r \<and>
     (\<exists>x m k. x \<in> set (rg_resources g) \<and> re_id x = r \<and> \<not> re_deleted x \<and>
        re_owner_namespace_id x = Some m \<and> owner_kind g x = Some k \<and>
        (k = ''user'' \<and> (m = n \<or> is_shared g r u) \<and> has_snapshot g r rid \<or>
         rid \<in> set (workspace_ancestry g r u) \<or>
         is_released g r rid \<and> (re_visibility x = ''public'' \<or> k = ''team'' \<and> user_is_team_member g u m \<or> is_shared g r u)))"

lemma snapshot_not_quarantined:
  "actor_can_read_revision_snapshot g a r v \<Longrightarrow> x \<in> set (rg_resources g) \<Longrightarrow> re_id x = r \<Longrightarrow> \<not> re_deleted x \<Longrightarrow>
   distinct (map re_id (rg_resources g)) \<Longrightarrow> \<not> resource_quarantined g r"
  unfolding actor_can_read_revision_snapshot_def by (auto simp: list_ex_iff distinct_map dest: inj_onD)

lemma workspace_visible_not_quarantined:
  "list_ex (\<lambda>w. wk_resource_id w = r \<and> wk_user_id w = u) (rg_workspaces (actor_view a g)) \<Longrightarrow> \<not> resource_quarantined g r"
  by (auto simp: actor_view_def list_ex_iff sees_workspace_def actor_can_read_workspace_def actor_can_manage_resource_def)

lemma owner_kind_cases: "identity_ok g \<Longrightarrow> owner_kind g x = Some k \<Longrightarrow> k = ''user'' \<or> k = ''team''"
  by (auto simp: identity_ok_def owner_kind_def list_all_iff sql_first_def find_Some_iff split: option.splits)

lemma read_is_allowed:
  assumes ok: "identity_ok g"
    and access: "skill_access_for_user (actor_view (begin_actor_tx u) g) u n r = Ok access"
    and read: "user_can_read_revision (actor_view (begin_actor_tx u) g) access r rid = Ok True"
  shows "may_read g u n r rid"
proof -
  let ?v = "actor_view (begin_actor_tx u) g"
  obtain x m k where live: "live_skill ?v r = Some (x, m, k)"
    and acc: "access = \<lparr>sa_user_id = u, sa_visibility = re_visibility x, sa_team_owned = (k = ''team''),
         sa_owner_access = (k = ''user'' \<and> m = n), sa_shared_access = is_shared g r u,
         sa_team_release_access = (k = ''team'' \<and> user_is_team_member g u m),
         sa_workspace_access = list_ex (\<lambda>w. wk_resource_id w = r \<and> wk_user_id w = u) (rg_workspaces ?v)\<rparr>"
    using access by (auto simp: skill_access_for_user_def res_simps)
  note x = live_skill_view [OF live]
  have keys: "distinct (map re_id (rg_resources g))" using ok by (simp add: identity_ok_def)
  have kind: "k = ''user'' \<or> k = ''team''" using owner_kind_cases [OF ok x(6)] .
  have visible: "\<not> resource_quarantined g r" if "actor_can_read_revision_snapshot g (begin_actor_tx u) r rid"
    using snapshot_not_quarantined [OF that x(1,2,4) keys] .
  have managed: "\<not> resource_quarantined g r" if "actor_can_manage_resource g (begin_actor_tx u) r"
    using that by (simp add: actor_can_manage_resource_def)
  consider (personal) "can_read_private access" "has_snapshot ?v r rid"
    | (draft) "list_ex (\<lambda>w. wk_resource_id w = r \<and> wk_user_id w = u) (rg_workspaces ?v)" "in_workspace_ancestry ?v r u rid"
    | (released) "\<not> can_read_private access" "can_read_released access" "is_released ?v r rid"
    using read by (auto simp: user_can_read_revision_def acc split: if_splits)
  then show ?thesis
  proof cases
    case personal
    have "\<not> resource_quarantined g r" using has_snapshot_view [OF personal(2)] visible managed by blast
    moreover have "k = ''user'' \<and> (m = n \<or> is_shared g r u)"
      using personal(1) kind by (auto simp: can_read_private_def acc)
    ultimately show ?thesis using x has_snapshot_raw [OF personal(2)] unfolding may_read_def by blast
  next
    case draft
    have "rid \<in> set (workspace_ancestry g r u)"
      using draft(2) workspace_ancestry_view by (force simp: in_workspace_ancestry_def list_ex_iff)
    then show ?thesis using x workspace_visible_not_quarantined [OF draft(1)] unfolding may_read_def by blast
  next
    case released
    have "re_visibility x = ''public'' \<or> k = ''team'' \<and> user_is_team_member g u m \<or> is_shared g r u"
      using released(1,2) by (auto simp: can_read_private_def can_read_released_def acc)
    then show ?thesis using x is_released_view [OF released(3)] visible unfolding may_read_def by blast
  qed
qed

section \<open>Publishing\<close>

lemma sql_first_unique:
  assumes "x \<in> set xs" "P x" "\<And>y. y \<in> set xs \<Longrightarrow> P y \<Longrightarrow> y = x"
  shows "sql_first P xs = Some x"
proof -
  have "find P xs \<noteq> None" using assms(1,2) by (auto simp: find_None_iff)
  then obtain y where y: "find P xs = Some y" by auto
  then have "y \<in> set xs" "P y" by (auto simp: find_Some_iff)
  then show ?thesis using assms(3) y by (simp add: sql_first_def)
qed

lemma sql_first_iff:
  assumes "\<And>y z. y \<in> set xs \<Longrightarrow> z \<in> set xs \<Longrightarrow> P y \<Longrightarrow> P z \<Longrightarrow> y = z"
  shows "sql_first P xs = Some x \<longleftrightarrow> x \<in> set xs \<and> P x"
  using assms sql_first_unique [of x xs P] by (auto simp: sql_first_def find_Some_iff)

lemma find_filter_same: "(\<And>x. P x \<Longrightarrow> Q x) \<Longrightarrow> find P (filter Q xs) = find P xs"
  by (induction xs) auto

lemma sql_first_None: "sql_first P xs = None \<longleftrightarrow> (\<forall>x \<in> set xs. \<not> P x)"
  by (auto simp: sql_first_def find_None_iff)

lemma sql_first_SomeD: "sql_first P xs = Some x \<Longrightarrow> x \<in> set xs \<and> P x"
  by (auto simp: sql_first_def find_Some_iff)

lemma key_eqD: "distinct (map f xs) \<Longrightarrow> x \<in> set xs \<Longrightarrow> y \<in> set xs \<Longrightarrow> f x = f y \<Longrightarrow> x = y"
  by (auto simp: distinct_map dest: inj_onD)

lemma user_authority_row:
  assumes "user_authority g who scope = Ok authority"
  obtains u where "u \<in> set (rg_users g)" "us_id u = ua_user_id authority" "\<not> us_deleted u"
    "us_namespace_id u = Some (ua_namespace_id authority)" "us_author_principal_id u = ua_author_principal_id authority"
proof -
  obtain user_id u n where "sql_first (\<lambda>u. us_id u = user_id \<and> \<not> us_deleted u) (rg_users g) = Some u"
    "us_namespace_id u = Some (ua_namespace_id authority)" "ua_user_id authority = user_id"
    "us_author_principal_id u = ua_author_principal_id authority"
    using assms by (force simp: user_authority_def res_simps split: option.splits)
  then show thesis using that [of u] by (auto dest: sql_first_SomeD)
qed

lemma identity_ok_keys:
  assumes "identity_ok g"
  shows "x \<in> set (rg_users g) \<Longrightarrow> y \<in> set (rg_users g) \<Longrightarrow> us_id x = us_id y \<Longrightarrow> x = y"
    "n \<in> set (rg_namespaces g) \<Longrightarrow> n' \<in> set (rg_namespaces g) \<Longrightarrow> ns_id n = ns_id n' \<Longrightarrow> n = n'"
    "n \<in> set (rg_namespaces g) \<Longrightarrow> n' \<in> set (rg_namespaces g) \<Longrightarrow> ns_slug n = ns_slug n' \<Longrightarrow> n = n'"
    "r \<in> set (rg_resources g) \<Longrightarrow> r' \<in> set (rg_resources g) \<Longrightarrow> re_id r = re_id r' \<Longrightarrow> r = r'"
    "m \<in> set (rg_memberships g) \<Longrightarrow> m' \<in> set (rg_memberships g) \<Longrightarrow>
       mb_team_namespace_id m = mb_team_namespace_id m' \<Longrightarrow> mb_user_id m = mb_user_id m' \<Longrightarrow> m = m'"
    "t \<in> set (rg_teams g) \<Longrightarrow> t' \<in> set (rg_teams g) \<Longrightarrow> tr_namespace_id t = tr_namespace_id t' \<Longrightarrow> t = t'"
  using assms key_eqD [of us_id "rg_users g"] key_eqD [of ns_id "rg_namespaces g"] key_eqD [of ns_slug "rg_namespaces g"]
    key_eqD [of re_id "rg_resources g"] key_eqD [of "\<lambda>m. (mb_team_namespace_id m, mb_user_id m)" "rg_memberships g"]
    key_eqD [of tr_namespace_id "rg_teams g"]
  by (simp_all add: identity_ok_def)

lemma namespace_of_member:
  assumes "identity_ok g" "m \<in> set (rg_memberships g)"
  shows "\<exists>n \<in> set (rg_namespaces g). ns_id n = mb_team_namespace_id m \<and> ns_kind n = ''team''"
proof -
  have "\<exists>t \<in> set (rg_teams g). tr_namespace_id t = mb_team_namespace_id m"
    using assms unfolding identity_ok_def list_all_iff list_ex_iff by blast
  moreover have "\<forall>t \<in> set (rg_teams g). \<exists>n \<in> set (rg_namespaces g). ns_id n = tr_namespace_id t \<and> ns_kind n = ''team''"
    using assms unfolding identity_ok_def list_all_iff list_ex_iff by blast
  ultimately show ?thesis by force
qed

lemma namespace_of_user:
  assumes "identity_ok g" "u \<in> set (rg_users g)" "us_namespace_id u = Some i"
  shows "\<exists>n \<in> set (rg_namespaces g). ns_id n = i \<and> ns_kind n = ''user''"
proof -
  have "list_all (\<lambda>u. case us_namespace_id u of None \<Rightarrow> True
       | Some i \<Rightarrow> list_ex (\<lambda>n. ns_id n = i \<and> ns_kind n = ''user'') (rg_namespaces g)) (rg_users g)"
    using assms(1) by (simp add: identity_ok_def)
  then show ?thesis using assms(2,3) by (force simp: list_all_iff list_ex_iff)
qed

lemma own_namespace_iff:
  assumes ok: "identity_ok g" and auth: "user_authority g who scope = Ok authority"
  shows "own_namespace g (begin_actor_tx (ua_user_id authority)) (Some m) \<longleftrightarrow> m = ua_namespace_id authority"
proof -
  obtain u where u: "u \<in> set (rg_users g)" "us_id u = ua_user_id authority" "\<not> us_deleted u"
    "us_namespace_id u = Some (ua_namespace_id authority)" using user_authority_row [OF auth] by blast
  show ?thesis
  proof
    assume "own_namespace g (begin_actor_tx (ua_user_id authority)) (Some m)"
    then obtain y where y: "y \<in> set (rg_users g)" "us_id y = ua_user_id authority" "us_namespace_id y = Some m"
      unfolding own_namespace_def list_ex_iff begin_actor_tx_def by auto
    have "y = u" using identity_ok_keys(1) [OF ok y(1) u(1)] y(2) u(2) by simp
    then show "m = ua_namespace_id authority" using y(3) u(4) by simp
  next
    assume "m = ua_namespace_id authority"
    then show "own_namespace g (begin_actor_tx (ua_user_id authority)) (Some m)"
      unfolding own_namespace_def list_ex_iff begin_actor_tx_def using u by (intro conjI bexI [of _ u]) simp_all
  qed
qed

lemma role_publishes:
  "(\<exists>role. parse_role r = Ok role \<and> role_can_publish role b) \<longleftrightarrow>
     r \<in> set [''owner'', ''maintainer''] \<or> r = ''member'' \<and> b"
  by (auto simp: parse_role_def role_can_publish_def)

lemma namespace_publish_user:
  assumes ok: "identity_ok g" and auth: "user_authority g who scope = Ok authority"
    and n: "n \<in> set (rg_namespaces g)" "ns_kind n = ''user''"
  shows "actor_can_publish_namespace g (begin_actor_tx (ua_user_id authority)) (Some (ns_id n)) \<longleftrightarrow> ns_id n = ua_namespace_id authority"
proof -
  have "mb_team_namespace_id m \<noteq> ns_id n" if "m \<in> set (rg_memberships g)" for m
    using namespace_of_member [OF ok that] identity_ok_keys(2) [OF ok, of n] n by fastforce
  then have "\<not> list_ex (\<lambda>m. ac_user (begin_actor_tx (ua_user_id authority)) = Some (mb_user_id m) \<and>
      Some (ns_id n) = Some (mb_team_namespace_id m) \<and> Q m) (rg_memberships g)" for Q
    by (metis (mono_tags, lifting) list_ex_iff option.inject)
  then show ?thesis
    using own_namespace_iff [OF ok auth, of "ns_id n"] by (simp add: actor_can_publish_namespace_def)
qed

lemma namespace_publish_team:
  assumes ok: "identity_ok g" and auth: "user_authority g who scope = Ok authority"
    and n: "n \<in> set (rg_namespaces g)" "ns_kind n = ''team''"
  shows "actor_can_publish_namespace g (begin_actor_tx (ua_user_id authority)) (Some (ns_id n)) \<longleftrightarrow>
    (\<exists>m t role. sql_first (\<lambda>m. mb_team_namespace_id m = ns_id n \<and> mb_user_id m = ua_user_id authority) (rg_memberships g) = Some m \<and>
       sql_first (\<lambda>t. tr_namespace_id t = ns_id n) (rg_teams g) = Some t \<and>
       parse_role (mb_role m) = Ok role \<and> role_can_publish role (tr_members_can_publish t))"
proof -
  have own: "\<not> own_namespace g (begin_actor_tx (ua_user_id authority)) (Some (ns_id n))"
  proof
    assume "own_namespace g (begin_actor_tx (ua_user_id authority)) (Some (ns_id n))"
    then have "ns_id n = ua_namespace_id authority" using own_namespace_iff [OF ok auth] by simp
    moreover obtain u where u: "u \<in> set (rg_users g)" "us_namespace_id u = Some (ua_namespace_id authority)"
      using user_authority_row [OF auth] by blast
    ultimately obtain n' where n': "n' \<in> set (rg_namespaces g)" "ns_id n' = ns_id n" "ns_kind n' = ''user''"
      using namespace_of_user [OF ok u] by auto
    have "n' = n" using identity_ok_keys(2) [OF ok n'(1) n(1) n'(2)] .
    then show False using n'(3) n(2) by simp
  qed
  have m_first: "sql_first (\<lambda>m. mb_team_namespace_id m = ns_id n \<and> mb_user_id m = ua_user_id authority) (rg_memberships g) = Some m \<longleftrightarrow>
      m \<in> set (rg_memberships g) \<and> mb_team_namespace_id m = ns_id n \<and> mb_user_id m = ua_user_id authority" for m
    by (rule sql_first_iff) (use identity_ok_keys(5) [OF ok] in simp)
  have t_first: "sql_first (\<lambda>t. tr_namespace_id t = ns_id n) (rg_teams g) = Some t \<longleftrightarrow>
      t \<in> set (rg_teams g) \<and> tr_namespace_id t = ns_id n" for t
    by (rule sql_first_iff) (use identity_ok_keys(6) [OF ok] in simp)
  have ac: "ac_user (begin_actor_tx (ua_user_id authority)) = Some (ua_user_id authority)" by (simp add: begin_actor_tx_def)
  have "actor_can_publish_namespace g (begin_actor_tx (ua_user_id authority)) (Some (ns_id n)) \<longleftrightarrow>
    (\<exists>m \<in> set (rg_memberships g). ua_user_id authority = mb_user_id m \<and> ns_id n = mb_team_namespace_id m \<and>
       (\<exists>t \<in> set (rg_teams g). tr_namespace_id t = mb_team_namespace_id m \<and>
         (mb_role m \<in> set [''owner'', ''maintainer''] \<or> mb_role m = ''member'' \<and> tr_members_can_publish t)))"
    unfolding actor_can_publish_namespace_def list_ex_iff ac option.inject using own by simp
  then show ?thesis unfolding m_first t_first role_publishes [symmetric] by (metis (no_types, lifting))
qed

lemma namespace_publish_iff:
  assumes ok: "identity_ok g" and auth: "user_authority g who scope = Ok authority"
    and n: "n \<in> set (rg_namespaces g)" and slug: "parse_namespace U (ns_slug n) = Ok (ns_slug n)"
  shows "(\<exists>p. authorize_namespace_publish U (actor_view (begin_actor_tx (ua_user_id authority)) g) authority (ns_slug n) = Ok p) \<longleftrightarrow>
     actor_can_publish_namespace g (begin_actor_tx (ua_user_id authority)) (Some (ns_id n))"
    and "authorize_namespace_publish U (actor_view (begin_actor_tx (ua_user_id authority)) g) authority (ns_slug n) = Ok p \<Longrightarrow>
       np_namespace_id p = ns_id n \<and> np_is_team p = (ns_kind n = ''team'')"
proof -
  let ?v = "actor_view (begin_actor_tx (ua_user_id authority)) g"
  have first: "sql_first (\<lambda>m. ns_slug m = ns_slug n) (rg_namespaces g) = Some n"
    using sql_first_iff [of "rg_namespaces g" "\<lambda>m. ns_slug m = ns_slug n" n] identity_ok_keys(3) [OF ok] n by simp
  have members: "sql_first (\<lambda>m. mb_team_namespace_id m = ns_id n \<and> mb_user_id m = ua_user_id authority) (rg_memberships ?v) =
      sql_first (\<lambda>m. mb_team_namespace_id m = ns_id n \<and> mb_user_id m = ua_user_id authority) (rg_memberships g)"
    by (simp add: sql_first_def actor_view_def begin_actor_tx_def) (rule find_filter_same, simp)
  note unfolded = authorize_namespace_publish_def [of U ?v authority "ns_slug n"]
  have kind: "ns_kind n = ''user'' \<or> ns_kind n = ''team''"
    using ok n by (auto simp: identity_ok_def list_all_iff)
  then show "(\<exists>p. authorize_namespace_publish U ?v authority (ns_slug n) = Ok p) \<longleftrightarrow>
     actor_can_publish_namespace g (begin_actor_tx (ua_user_id authority)) (Some (ns_id n))"
  proof
    assume k: "ns_kind n = ''user''"
    show ?thesis unfolding namespace_publish_user [OF ok auth n k] unfolded
      using slug first k by (auto simp: res_simps)
  next
    assume k: "ns_kind n = ''team''"
    show ?thesis unfolding namespace_publish_team [OF ok auth n k] unfolded
      using slug first k by (auto simp: res_simps members split: option.splits if_splits)
  qed
  show "np_namespace_id p = ns_id n \<and> np_is_team p = (ns_kind n = ''team'')"
    if "authorize_namespace_publish U ?v authority (ns_slug n) = Ok p"
    using that slug first kind unfolding unfolded
    by (auto simp: res_simps members split: option.splits if_splits)
qed

lemma publish_access: "actor_can_publish_namespace g a n \<Longrightarrow> actor_has_namespace_access g a n"
  unfolding actor_can_publish_namespace_def actor_has_namespace_access_def list_ex_iff by blast

lemma publish_namespace_row:
  assumes ok: "identity_ok g" and p: "actor_can_publish_namespace g a i"
  obtains n where "n \<in> set (rg_namespaces g)" "i = Some (ns_id n)"
proof -
  consider (own) "own_namespace g a i"
    | (member) m where "m \<in> set (rg_memberships g)" "i = Some (mb_team_namespace_id m)"
    using p unfolding actor_can_publish_namespace_def list_ex_iff by blast
  then show thesis
  proof cases
    case own
    then obtain u j where "u \<in> set (rg_users g)" "us_namespace_id u = Some j" "i = Some j"
      unfolding own_namespace_def list_ex_iff by (cases i) auto
    then show thesis using namespace_of_user [OF ok, of u j] that by auto
  next
    case member
    then show thesis using namespace_of_member [OF ok member(1)] that by auto
  qed
qed

lemma owner_kind_row:
  assumes "identity_ok g" "n \<in> set (rg_namespaces g)" "re_owner_namespace_id x = Some (ns_id n)"
  shows "owner_kind g x = Some (ns_kind n)"
  using sql_first_iff [of "rg_namespaces g" "\<lambda>m. ns_id m = ns_id n" n] identity_ok_keys(2) [OF assms(1)] assms(2,3)
  by (simp add: owner_kind_def)

lemma owner_slug_Some:
  assumes ok: "identity_ok g"
  shows "resource_owner_slug (actor_view a g) r = Some slug \<longleftrightarrow>
    \<not> resource_quarantined g r \<and> (\<exists>x \<in> set (rg_resources g). \<exists>n \<in> set (rg_namespaces g).
       re_id x = r \<and> \<not> re_deleted x \<and> actor_can_read_resource g a r \<and> re_owner_namespace_id x = Some (ns_id n) \<and> slug = ns_slug n)"
proof
  let ?P = "\<lambda>x. re_id x = r \<and> \<not> re_deleted x \<and> owner_kind g x \<noteq> None \<and> \<not> resource_quarantined g r"
  assume "resource_owner_slug (actor_view a g) r = Some slug"
  then obtain x n where x: "sql_first ?P (rg_resources (actor_view a g)) = Some x"
    and n: "sql_first (\<lambda>n. re_owner_namespace_id x = Some (ns_id n)) (rg_namespaces g) = Some n" "slug = ns_slug n"
    by (auto simp: resource_owner_slug_def split: option.splits)
  have "x \<in> set (rg_resources g)" "actor_can_read_resource g a (re_id x)" "?P x"
    using sql_first_SomeD [OF x] by (auto simp: actor_view_def)
  then show "\<not> resource_quarantined g r \<and> (\<exists>x \<in> set (rg_resources g). \<exists>n \<in> set (rg_namespaces g).
       re_id x = r \<and> \<not> re_deleted x \<and> actor_can_read_resource g a r \<and> re_owner_namespace_id x = Some (ns_id n) \<and> slug = ns_slug n)"
    using sql_first_SomeD [OF n(1)] n(2) by blast
next
  let ?P = "\<lambda>x. re_id x = r \<and> \<not> re_deleted x \<and> owner_kind g x \<noteq> None \<and> \<not> resource_quarantined g r"
  assume "\<not> resource_quarantined g r \<and> (\<exists>x \<in> set (rg_resources g). \<exists>n \<in> set (rg_namespaces g).
       re_id x = r \<and> \<not> re_deleted x \<and> actor_can_read_resource g a r \<and> re_owner_namespace_id x = Some (ns_id n) \<and> slug = ns_slug n)"
  then obtain x n where q: "\<not> resource_quarantined g r" and x: "x \<in> set (rg_resources g)" "re_id x = r" "\<not> re_deleted x"
      "actor_can_read_resource g a r" "re_owner_namespace_id x = Some (ns_id n)"
    and n: "n \<in> set (rg_namespaces g)" "slug = ns_slug n" by blast
  have "sql_first ?P (rg_resources (actor_view a g)) = Some x"
  proof (rule sql_first_unique)
    show "x \<in> set (rg_resources (actor_view a g))" using x by (simp add: actor_view_def)
    show "?P x" using x q owner_kind_row [OF ok n(1) x(5)] by simp
    show "y = x" if "y \<in> set (rg_resources (actor_view a g))" "?P y" for y
      using identity_ok_keys(4) [OF ok, of y x] that x by (simp add: actor_view_def)
  qed
  moreover have "sql_first (\<lambda>m. re_owner_namespace_id x = Some (ns_id m)) (rg_namespaces g) = Some n"
    by (rule sql_first_unique) (use n x(5) identity_ok_keys(2) [OF ok, of _ n] in simp_all)
  ultimately show "resource_owner_slug (actor_view a g) r = Some slug"
    using n(2) by (simp add: resource_owner_slug_def)
qed

section \<open>Properties\<close>

text \<open>C4. Reading and forking: a revision the registry lets a user fork is one it lets the same user read,
  and a revision it lets a user read, in that user's transaction, belongs to a live skill without a
  quarantine of the whole skill and is part of a personal skill of the user or shared with the user, or
  in the history of the user's own draft, or released to an audience the user belongs to.\<close>

theorem readable_revisions_follow_sharing_rules:
  assumes "identity_ok g"
  shows "(user_can_fork_revision (actor_view (begin_actor_tx u) g) u n r rid = Ok True \<longrightarrow>
      (\<exists>access. skill_access_for_user (actor_view (begin_actor_tx u) g) u n r = Ok access \<and>
         user_can_read_revision (actor_view (begin_actor_tx u) g) access r rid = Ok True)) \<and>
    (\<forall>access. skill_access_for_user (actor_view (begin_actor_tx u) g) u n r = Ok access \<and>
       user_can_read_revision (actor_view (begin_actor_tx u) g) access r rid = Ok True \<longrightarrow> may_read g u n r rid)"
  using fork_implies_read read_is_allowed [OF assms] by blast

text \<open>C39. Publishing: the check a handler makes before it writes to a skill succeeds exactly when the
  skill is not deleted and the row-level policy lets the same user manage it, so a write that follows the
  check is not refused by the policy, and no user the policy admits is turned away.\<close>

theorem publish_check_agrees_with_row_policy:
  assumes "identity_ok g" and "user_authority g who scope = Ok authority"
    and "\<forall>n \<in> set (rg_namespaces g). parse_namespace U (ns_slug n) = Ok (ns_slug n)"
  shows "(\<exists>p. authorize_resource_publish U (actor_view (begin_actor_tx (ua_user_id authority)) g) authority r = Ok p) \<longleftrightarrow>
    (\<exists>x \<in> set (rg_resources g). re_id x = r \<and> \<not> re_deleted x) \<and>
    actor_can_manage_resource g (begin_actor_tx (ua_user_id authority)) r"
    (is "?check \<longleftrightarrow> ?live \<and> ?manage")
proof -
  let ?a = "begin_actor_tx (ua_user_id authority)"
  have "?check \<longleftrightarrow> (\<exists>slug. resource_owner_slug (actor_view ?a g) r = Some slug \<and>
      (\<exists>p. authorize_namespace_publish U (actor_view ?a g) authority slug = Ok p))"
    by (auto simp: authorize_resource_publish_def res_simps)
  also have "\<dots> \<longleftrightarrow> \<not> resource_quarantined g r \<and> (\<exists>x \<in> set (rg_resources g). \<exists>n \<in> set (rg_namespaces g).
       re_id x = r \<and> \<not> re_deleted x \<and> actor_can_read_resource g ?a r \<and> re_owner_namespace_id x = Some (ns_id n) \<and>
       actor_can_publish_namespace g ?a (Some (ns_id n)))"
    unfolding owner_slug_Some [OF assms(1)] using namespace_publish_iff(1) [OF assms(1,2)] assms(3) by blast
  also have "\<dots> \<longleftrightarrow> ?live \<and> ?manage"
  proof
    assume "?live \<and> ?manage"
    then obtain x y where "x \<in> set (rg_resources g)" "re_id x = r" "\<not> re_deleted x" and q: "\<not> resource_quarantined g r"
      and "y \<in> set (rg_resources g)" "re_id y = r" and "actor_can_publish_namespace g ?a (re_owner_namespace_id y)"
      unfolding actor_can_manage_resource_def list_ex_iff by blast
    moreover from this have "y = x" using identity_ok_keys(4) [OF assms(1), of y x] by simp
    ultimately have x: "x \<in> set (rg_resources g)" "re_id x = r" "\<not> re_deleted x"
      and pub: "actor_can_publish_namespace g ?a (re_owner_namespace_id x)" by auto
    obtain n where n: "n \<in> set (rg_namespaces g)" "re_owner_namespace_id x = Some (ns_id n)"
      by (rule publish_namespace_row [OF assms(1) pub])
    have "actor_can_read_resource g ?a r"
      unfolding actor_can_read_resource_def list_ex_iff using x publish_access [OF pub] by blast
    then show "\<not> resource_quarantined g r \<and> (\<exists>x \<in> set (rg_resources g). \<exists>n \<in> set (rg_namespaces g).
       re_id x = r \<and> \<not> re_deleted x \<and> actor_can_read_resource g ?a r \<and> re_owner_namespace_id x = Some (ns_id n) \<and>
       actor_can_publish_namespace g ?a (Some (ns_id n)))" using q x n pub by auto
  qed (auto simp: actor_can_manage_resource_def list_ex_iff)
  finally show ?thesis .
qed

section \<open>An example registry\<close>

definition empty_registry :: registry where
  "empty_registry =
     \<lparr>rg_users = [], rg_namespaces = [], rg_teams = [], rg_memberships = [], rg_resources = [], rg_quarantines = [],
      rg_releases = [], rg_snapshots = [], rg_workspaces = [], rg_conflicts = [], rg_forks = [], rg_shares = [],
      rg_proposals = [], rg_author_links = [], rg_account_subscriptions = [], rg_installation_subscriptions = [],
      rg_revisions = [], rg_parents = [], rg_merkle_trees = [], rg_tree_entries = [], rg_canonical_blobs = [],
      rg_revision_blobs = [], rg_resource_blobs = [], rg_namespace_blobs = [], rg_revision_operations = [],
      rg_operation_parents = [], rg_staging = [], rg_restore_operations = [], rg_events = [], rg_outbox = []\<rparr>"

definition example_skill :: "string \<Rightarrow> string \<Rightarrow> string \<Rightarrow> resource_row" where
  "example_skill i owner slug =
     \<lparr>re_id = i, re_owner_namespace_id = Some owner, re_slug = slug, re_kind = ''skill'', re_visibility = ''private'',
      re_description = ''d'', re_license = None, re_compatibility = None, re_generation = 1,
      re_latest_release_version = None, re_deleted = False, re_tombstone_release_version = None\<rparr>"

definition example_registry :: registry where
  "example_registry = empty_registry
     \<lparr>rg_users := [\<lparr>us_id = ''u'', us_namespace_id = Some ''n'', us_author_principal_id = ''p'', us_deleted = False\<rparr>],
      rg_namespaces := [\<lparr>ns_id = ''n'', ns_slug = ''alice'', ns_kind = ''user''\<rparr>,
        \<lparr>ns_id = ''t'', ns_slug = ''crew'', ns_kind = ''team''\<rparr>],
      rg_teams := [\<lparr>tr_namespace_id = ''t'', tr_members_can_publish = False\<rparr>],
      rg_memberships := [\<lparr>mb_team_namespace_id = ''t'', mb_user_id = ''u'', mb_role = ''member''\<rparr>],
      rg_resources := [example_skill ''s'' ''n'' ''notes'', example_skill ''c'' ''t'' ''shared-notes''],
      rg_snapshots := [\<lparr>sn_resource_id = ''s'', sn_revision_id = ''v'',
        sn_manifest_json = \<lparr>pm_root_tree_id = [], pm_entries = []\<rparr>, sn_snapshot_key = [], sn_snapshot_sha256 = [],
        sn_snapshot_size = 0\<rparr>]\<rparr>"

lemmas example_registry_simps = example_registry_def empty_registry_def example_skill_def

lemma example_identity: "identity_ok example_registry"
  by (simp add: identity_ok_def example_registry_simps)

theorem readable_revisions_follow_sharing_rules_witness:
  "(\<exists>access. skill_access_for_user (actor_view (begin_actor_tx ''u'') example_registry) ''u'' ''n'' ''s'' = Ok access \<and>
      user_can_read_revision (actor_view (begin_actor_tx ''u'') example_registry) access ''s'' ''v'' = Ok True) \<and>
   may_read example_registry ''u'' ''n'' ''s'' ''v''"
proof -
  have "user_can_fork_revision (actor_view (begin_actor_tx ''u'') example_registry) ''u'' ''n'' ''s'' ''v'' = Ok True"
    by code_simp
  then show ?thesis
    using readable_revisions_follow_sharing_rules [OF example_identity, of "''u''" "''n''" "''s''" "''v''"] by blast
qed

theorem publish_check_agrees_with_row_policy_witness:
  "(\<exists>p. authorize_resource_publish ascii_tables (actor_view (begin_actor_tx ''u'') example_registry)
      \<lparr>ua_user_id = ''u'', ua_namespace_id = ''n'', ua_namespace_slug = ''alice'', ua_author_principal_id = ''p''\<rparr> ''s'' = Ok p) \<and>
   \<not> (\<exists>p. authorize_resource_publish ascii_tables (actor_view (begin_actor_tx ''u'') example_registry)
      \<lparr>ua_user_id = ''u'', ua_namespace_id = ''n'', ua_namespace_slug = ''alice'', ua_author_principal_id = ''p''\<rparr> ''c'' = Ok p)"
proof -
  define authority where "authority =
    \<lparr>ua_user_id = ''u'', ua_namespace_id = ''n'', ua_namespace_slug = ''alice'', ua_author_principal_id = ''p''\<rparr>"
  have auth: "user_authority example_registry (AA_Session ''i'' ''u'' ''j'') ''skills:write'' = Ok authority"
    unfolding authority_def by code_simp
  have "parse_namespace ascii_tables ''alice'' = Ok ''alice''" "parse_namespace ascii_tables ''crew'' = Ok ''crew''"
    by code_simp+
  then have "\<forall>n \<in> set (rg_namespaces example_registry). parse_namespace ascii_tables (ns_slug n) = Ok (ns_slug n)"
    by (simp add: example_registry_simps)
  note iff = publish_check_agrees_with_row_policy [OF example_identity auth this]
  have "actor_can_manage_resource example_registry (begin_actor_tx ''u'') ''s''"
    "\<not> actor_can_manage_resource example_registry (begin_actor_tx ''u'') ''c''" by code_simp+
  then show ?thesis
    using iff [of "''s''"] iff [of "''c''"] by (simp add: authority_def example_registry_simps)
qed

end
