(* ===== verification/Registry_Frames.thy ===== *)
theory Registry_Frames
  imports Registry_Restore Registry_Access_Props
begin

text \<open>
  What the transactions of the registry leave alone.  \<open>grows R m\<close> says that a successful run of \<open>m\<close> relates
  the state before to the state after; the locale \<open>state_order\<close> proves its rules once for every
  reflexive and transitive relation.  It is used for two relations on the tables: stored revisions
  and their parents are only added, and the content of a revision is stored without touching workspaces,
  conflicts or operations.
\<close>

definition grows :: "('s \<Rightarrow> 's \<Rightarrow> bool) \<Rightarrow> ('s, 'a, 'e) op \<Rightarrow> bool" where
  "grows R m \<longleftrightarrow> (\<forall>s x t. m s = (Ok x, t) \<longrightarrow> R s t)"

lemma growsD: "grows R m \<Longrightarrow> m s = (Ok x, t) \<Longrightarrow> R s t"
  by (simp add: grows_def)

named_theorems grow_intros \<open>steps of a transaction that respect an order of states\<close>

section \<open>What a statement did\<close>

lemma op_bind_OkD: "op_bind m f s = (Ok y, t) \<Longrightarrow> \<exists>x u. m s = (Ok x, u) \<and> f x u = (Ok y, t)"
  by (auto simp: op_bind_def split: prod.splits result.splits)

lemma op_bind_OkE:
  assumes "op_bind m f s = (Ok y, t)"
  obtains x u where "m s = (Ok x, u)" "f x u = (Ok y, t)"
  using op_bind_OkD [OF assms] by blast

lemma op_simple_Ok [simp]:
  "op_ok x s = (Ok y, t) \<longleftrightarrow> y = x \<and> t = s" "op_err e s = (Ok y, t) \<longleftrightarrow> False"
  "op_res r s = (Ok y, t) \<longleftrightarrow> r = Ok y \<and> t = s" "op_query q s = (Ok y, t) \<longleftrightarrow> q s = Ok y \<and> t = s"
  "query_as a f g = (Ok z, h) \<longleftrightarrow> f (actor_view a g) = Ok z \<and> h = g"
  by (auto simp: op_ok_def op_err_def op_res_def op_query_def query_as_def)

lemma insert_row_Ok:
  "insert_row get upd clash ok row g = (Ok u, h) \<longleftrightarrow>
   ok g row \<and> \<not> list_ex (clash row) (get g) \<and> h = upd (\<lambda>_. get g @ [row]) g"
  by (auto simp: insert_row_def sql_exec_def sql_insert_def split: option.splits)

lemma insert_or_ignore_Ok:
  "insert_row_or_ignore get upd clash ok row g = (Ok n, h) \<Longrightarrow>
   ok g row \<and> (list_ex (clash row) (get g) \<and> h = g \<or>
     \<not> list_ex (clash row) (get g) \<and> h = upd (\<lambda>t. t @ [row]) g)"
  by (auto simp: insert_row_or_ignore_def sql_exec_def split: option.splits if_splits)

lemma update_rows_Ok:
  "update_rows get upd P ok f g = (Ok n, h) \<longleftrightarrow>
   list_all (\<lambda>r. P g r \<longrightarrow> ok g (f r)) (get g) \<and> h = upd (map (\<lambda>r. if P g r then f r else r)) g \<and>
   n = sql_count (P g) (get g)"
  by (auto simp: update_rows_def sql_exec_def split: option.splits if_splits)

lemma count_reference_Ok:
  "count_reference get upd allowed holder blob g = (Ok u, h) \<Longrightarrow> \<exists>f. h = upd f g"
  by (auto simp: count_reference_def sql_exec_def split: option.splits if_splits)

lemma transaction_cases:
  assumes "transaction m s = (r, t)"
  obtains "t = s" "\<nexists>x. r = Ok x" | x where "r = Ok x" "m s = (Ok x, t)"
  using assms by (auto simp: transaction_def split: prod.splits result.splits)

section \<open>Orders of states\<close>

locale state_order =
  fixes R :: "'s \<Rightarrow> 's \<Rightarrow> bool"
  assumes refl [simp]: "R s s" and trans: "R s t \<Longrightarrow> R t u \<Longrightarrow> R s u"
begin

lemma grows_simple [grow_intros]:
  "grows R (op_ok x)" "grows R (op_err e)" "grows R (op_res r)" "grows R (op_query q)"
  by (auto simp: grows_def op_ok_def op_err_def op_res_def op_query_def)

lemma grows_bind [grow_intros]: "grows R m \<Longrightarrow> (\<And>x. grows R (f x)) \<Longrightarrow> grows R (op_bind m f)"
  unfolding grows_def by (blast dest: op_bind_OkD intro: trans)

lemma grows_each [grow_intros]: "(\<And>x. grows R (f x)) \<Longrightarrow> grows R (op_each f xs)"
  by (induction xs) (auto intro!: grow_intros)

lemma grows_if [grow_intros]: "grows R m \<Longrightarrow> grows R n \<Longrightarrow> grows R (if c then m else n)"
  by simp

lemma grows_option [grow_intros]: "grows R m \<Longrightarrow> (\<And>x. grows R (f x)) \<Longrightarrow> grows R (case v of None \<Rightarrow> m | Some x \<Rightarrow> f x)"
  by (cases v) auto

lemma grows_pair [grow_intros]: "(\<And>x y. grows R (f x y)) \<Longrightarrow> grows R (case p of (x, y) \<Rightarrow> f x y)"
  by (cases p) auto

lemma transaction_grows: "grows R m \<Longrightarrow> transaction m s = (r, t) \<Longrightarrow> R s t"
  by (erule transaction_cases) (auto dest: growsD)

end

lemma grows_query_as [grow_intros]: "(\<And>g. R g g) \<Longrightarrow> grows R (query_as a q)"
  by (simp add: grows_def)

lemma grows_insert [grow_intros]: "(\<And>g. R g (upd (\<lambda>_. get g @ [row]) g)) \<Longrightarrow> grows R (insert_row get upd clash ok row)"
  by (auto simp: grows_def insert_row_Ok)

lemma grows_insert_or_ignore [grow_intros]:
  "(\<And>g. R g g) \<Longrightarrow> (\<And>g. R g (upd (\<lambda>t. t @ [row]) g)) \<Longrightarrow> grows R (insert_row_or_ignore get upd clash ok row)"
  by (auto simp: grows_def dest!: insert_or_ignore_Ok)

lemma grows_update [grow_intros]: "(\<And>g f. R g (upd (map f) g)) \<Longrightarrow> grows R (update_rows get upd P ok f)"
  by (auto simp: grows_def update_rows_Ok)

lemma grows_count [grow_intros]: "(\<And>g f. R g (upd f g)) \<Longrightarrow> grows R (count_reference get upd allowed holder blob)"
  by (auto simp: grows_def dest!: count_reference_Ok)

section \<open>History only grows\<close>

definition history_le :: "registry \<Rightarrow> registry \<Rightarrow> bool" where
  "history_le g h \<longleftrightarrow> set (rg_parents g) \<subseteq> set (rg_parents h) \<and> set (rg_revisions g) \<subseteq> set (rg_revisions h)"

text \<open>The tables that the content of a revision does not belong to.\<close>

definition work ::
  "registry \<Rightarrow> private_workspace_row list \<times> conflict_row list \<times> revision_operation_row list \<times> operation_parent_row list" where
  "work g = (rg_workspaces g, rg_conflicts g, rg_revision_operations g, rg_operation_parents g)"

text \<open>What decides who may manage a resource.\<close>

definition acl ::
  "registry \<Rightarrow> user_row list \<times> membership_row list \<times> team_row list \<times> quarantine_row list \<times> (string \<times> string option) list" where
  "acl g = (rg_users g, rg_memberships g, rg_teams g, rg_quarantines g,
     map (\<lambda>x. (re_id x, re_owner_namespace_id x)) (rg_resources g))"

definition content_le :: "registry \<Rightarrow> registry \<Rightarrow> bool" where
  "content_le g h \<longleftrightarrow> history_le g h \<and> work h = work g \<and> acl h = acl g"

interpretation hist: state_order history_le
  by unfold_locales (auto simp: history_le_def)

interpretation cont: state_order content_le
  by unfold_locales (auto simp: content_le_def history_le_def)

text \<open>A part of the state stays the same.\<close>

definition same_by :: "('s \<Rightarrow> 'b) \<Rightarrow> 's \<Rightarrow> 's \<Rightarrow> bool" where
  "same_by f g h \<longleftrightarrow> f h = f g"

interpretation same: state_order "same_by f" for f
  by unfold_locales (auto simp: same_by_def)

lemmas order_defs = content_le_def history_le_def work_def acl_def

lemma manage_acl: "acl h = acl g \<Longrightarrow> actor_can_manage_resource h a r = actor_can_manage_resource g a r"
proof -
  assume *: "acl h = acl g"
  have 1: "actor_can_manage_resource k a r \<longleftrightarrow>
      list_ex (\<lambda>(i, n). i = r \<and> actor_can_publish_namespace k a n) (map (\<lambda>x. (re_id x, re_owner_namespace_id x)) (rg_resources k)) \<and>
      \<not> resource_quarantined k r" for k
    by (auto simp: actor_can_manage_resource_def list_ex_iff)
  have 2: "actor_can_publish_namespace h a = actor_can_publish_namespace g a" "resource_quarantined h r = resource_quarantined g r"
    using * by (auto simp: acl_def actor_can_publish_namespace_def own_namespace_def resource_quarantined_def)
  have 3: "map (\<lambda>x. (re_id x, re_owner_namespace_id x)) (rg_resources h) = map (\<lambda>x. (re_id x, re_owner_namespace_id x)) (rg_resources g)"
    using * unfolding acl_def by simp
  show ?thesis unfolding 1 2 3 ..
qed

section \<open>The parts of the transactions\<close>

text \<open>Storing content.\<close>

lemma persist_content [grow_intros]:
  "grows content_le (persist_canonical_blobs H blobs)" "grows content_le (persist_trees trees)"
  "grows content_le (persist_private_revision_storage a st)" "grows content_le (enforce_namespace_quota limit a n blobs)"
  unfolding persist_canonical_blobs_def persist_canonical_blob_def persist_trees_def persist_tree_entry_def
    persist_private_revision_storage_def persist_revision_def reach_blob_def enforce_namespace_quota_def Let_def
  by (rule grow_intros | simp add: order_defs; blast)+

lemma restore_content_rows [grow_intros]: "grows content_le (restore_rows a c n v p)"
  unfolding restore_rows_def reach_again_def Let_def
  by (rule grow_intros | simp add: order_defs; blast)+

lemma commit_store_content [grow_intros]: "grows content_le (commit_store E a c author)"
  unfolding commit_store_def Let_def by (rule grow_intros)+

lemma wake_content [grow_intros]: "grows content_le (enqueue_resource_wake L r n)"
  by (auto simp: grows_def enqueue_resource_wake_def enqueue_resource_wake_with_event_def enqueue_wake_payload_def sql_exec_def order_defs op_err_def
      split: if_splits)

lemma resource_head_content [grow_intros]: "grows content_le (set_resource_head a r n d l k)"
  by (auto simp: grows_def set_resource_head_def update_rows_Ok order_defs)

lemma content_history: "grows content_le m \<Longrightarrow> grows history_le m"
  by (auto simp: grows_def content_le_def)

lemmas content_history_intros [grow_intros] =
  persist_content [THEN content_history] commit_store_content [THEN content_history] restore_content_rows [THEN content_history]
  wake_content [THEN content_history] resource_head_content [THEN content_history]

text \<open>Whole transactions.\<close>

lemma parts_history [grow_intros]:
  "grows history_le (set_workspace_head a r u hc)" "grows history_le (finish_operation a u i out)"
  "grows history_le (resolve_workspace_conflict a i r u v)" "grows history_le (lock_workspace a r u)"
  "grows history_le (ensure_private_workspace_for_user a r u)"
  unfolding set_workspace_head_def finish_operation_def resolve_workspace_conflict_def lock_workspace_def
    ensure_private_workspace_for_user_def
  by (rule grow_intros | simp add: history_le_def)+

lemma upsert_history [grow_intros]: "grows history_le (upsert_conflict a row)"
  by (auto simp: grows_def upsert_conflict_def sql_exec_def history_le_def Let_def split: option.splits if_splits)

lemma divergence_history [grow_intros]: "grows history_le (record_divergence E a c i now h rg wg)"
  unfolding record_divergence_def record_workspace_conflict_def Let_def
  by (rule grow_intros | simp add: history_le_def)+

lemma advance_history [grow_intros]: "grows history_le (advance_head E a c fs team rg wg)"
  unfolding advance_head_def Let_def by (rule grow_intros | simp add: history_le_def)+

lemma commit_history: "grows history_le (commit_write_tx E c i now)"
  unfolding commit_write_tx_def commit_locked_def commit_prepared_def Let_def by (rule grow_intros | simp add: history_le_def)+

lemma restore_history: "grows history_le (restore_write_tx E c)"
  unfolding restore_write_tx_def restore_head_def Let_def by (rule grow_intros | simp add: history_le_def)+

lemma prepare_history: "grows history_le (prepare_tx E u q p a v fresh)"
  unfolding prepare_tx_def prepare_replay_def prepare_new_def store_operation_def stage_blob_def Let_def
  by (rule grow_intros | simp add: history_le_def)+

end
