(* ===== verification/Registry_Heads.thy ===== *)
theory Registry_Heads
  imports Registry_Frames
begin

text \<open>
  What a transaction does to the head of a workspace and to its operations: preparing touches no head, a
  commit moves it by compare-and-set, a restore puts a fresh revision on top of it.
\<close>

section \<open>Heads\<close>

definition is_workspace :: "string \<Rightarrow> string \<Rightarrow> private_workspace_row \<Rightarrow> bool" where
  "is_workspace r u w \<longleftrightarrow> wk_resource_id w = r \<and> wk_user_id w = u"

definition workspace_of :: "registry \<Rightarrow> string \<Rightarrow> string \<Rightarrow> private_workspace_row option" where
  "workspace_of g r u = sql_first (is_workspace r u) (rg_workspaces g)"

definition head_of :: "registry \<Rightarrow> string \<Rightarrow> string \<Rightarrow> (string \<times> int) option" where
  "head_of g r u = map_option (\<lambda>w. (wk_revision_id w, wk_generation w)) (workspace_of g r u)"

lemma sql_first_map: "(\<And>x. P (f x) = P x) \<Longrightarrow> sql_first P (map f t) = map_option f (sql_first P t)"
  by (induction t) (auto simp: sql_first_def)

lemma sql_first_cong: "(\<And>x. x \<in> set t \<Longrightarrow> P x = Q x) \<Longrightarrow> sql_first P t = sql_first Q t"
  by (induction t) (auto simp: sql_first_def)

lemma sql_first_snoc: "sql_first P (t @ [x]) = (case sql_first P t of None \<Rightarrow> if P x then Some x else None | Some y \<Rightarrow> Some y)"
  by (induction t) (auto simp: sql_first_def)

lemma sql_first_filter: "(\<And>x. x \<in> set t \<Longrightarrow> P x \<Longrightarrow> Q x) \<Longrightarrow> sql_first P (filter Q t) = sql_first P t"
  by (induction t) (auto simp: sql_first_def)

lemma head_of_work: "work h = work g \<Longrightarrow> workspace_of h = workspace_of g"
  by (auto simp: work_def workspace_of_def fun_eq_iff)

lemma lock_workspace_Ok:
  assumes "lock_workspace a r u g = (Ok current, h)"
  shows "h = g" and "current = Some (x, w) \<Longrightarrow> workspace_of g r u = Some w \<and> actor_can_manage_resource g a r \<and> ac_user a = Some u"
proof -
  show "h = g" using assms by (simp add: lock_workspace_def)
  assume current: "current = Some (x, w)"
  let ?P = "\<lambda>w. wk_resource_id w = r \<and> wk_user_id w = u \<and> workspace_policy a g w"
  have m: "actor_can_manage_resource g a r" and w: "sql_first ?P (rg_workspaces (actor_view a g)) = Some w"
    using assms current unfolding lock_workspace_def
    by (auto split: option.splits dest!: sql_first_SomeD)
  have u: "ac_user a = Some u" using sql_first_SomeD [OF w] by (auto simp: workspace_policy_def)
  have "sql_first ?P (rg_workspaces (actor_view a g)) = sql_first ?P (rg_workspaces g)"
    unfolding actor_view_def by simp (rule sql_first_filter, auto simp: sees_workspace_def workspace_policy_def)
  also have "\<dots> = workspace_of g r u"
    unfolding workspace_of_def using m u by (intro sql_first_cong) (auto simp: is_workspace_def workspace_policy_def)
  finally show "workspace_of g r u = Some w \<and> actor_can_manage_resource g a r \<and> ac_user a = Some u" using w m u by simp
qed

lemma set_workspace_head_of:
  assumes "set_workspace_head a r u hc g = (Ok n, h)" "actor_can_manage_resource g a r" "ac_user a = Some u"
  shows "head_of h r' u' = (if r' = r \<and> u' = u then map_option (\<lambda>_. (hc_revision_id hc, hc_generation hc)) (head_of g r u)
     else head_of g r' u')"
proof -
  let ?f = "\<lambda>w. if wk_resource_id w = r \<and> wk_user_id w = u \<and> workspace_policy a g w
    then w\<lparr>wk_revision_id := hc_revision_id hc, wk_generation := hc_generation hc, wk_description := hc_description hc,
          wk_license := hc_license hc, wk_compatibility := hc_compatibility hc, wk_manifest_json := hc_manifest hc,
          wk_snapshot_key := hc_snapshot_key hc, wk_snapshot_sha256 := hc_snapshot_sha hc, wk_snapshot_size := hc_snapshot_size hc\<rparr>
    else w"
  have rows: "rg_workspaces h = map ?f (rg_workspaces g)"
    using assms(1) [unfolded set_workspace_head_def update_rows_Ok, THEN conjunct2, THEN conjunct1] by simp
  have f: "workspace_of h r' u' = map_option ?f (workspace_of g r' u')"
    unfolding workspace_of_def rows by (rule sql_first_map) (simp add: is_workspace_def)
  show ?thesis
  proof (cases "workspace_of g r' u'")
    case (Some w)
    have w: "wk_resource_id w = r'" "wk_user_id w = u'"
      using sql_first_SomeD [OF Some [unfolded workspace_of_def]] by (simp_all add: is_workspace_def)
    have h: "head_of h r' u' = Some (wk_revision_id (?f w), wk_generation (?f w))" unfolding head_of_def f Some by simp
    show ?thesis
    proof (cases "r' = r \<and> u' = u")
      case True
      then have "workspace_policy a g w" using assms(2,3) w unfolding workspace_policy_def by metis
      then show ?thesis using True w Some h unfolding head_of_def by simp
    next
      case False
      then show ?thesis using w Some h unfolding head_of_def by auto
    qed
  next
    case None
    then show ?thesis unfolding head_of_def f by auto
  qed
qed

lemma ensure_head_of:
  assumes "ensure_private_workspace_for_user a r u g = (Ok b, h)"
  shows "head_of g r' u' = Some x \<Longrightarrow> head_of h r' u' = Some x"
  using assms unfolding ensure_private_workspace_for_user_def
  by (auto elim!: op_bind_OkE dest!: insert_or_ignore_Ok split: option.splits
      simp: head_of_def workspace_of_def sql_first_snoc)

section \<open>Commits\<close>

text \<open>The parents stored under an identity are those of a list.\<close>

definition agrees :: "string \<Rightarrow> string list \<Rightarrow> registry \<Rightarrow> bool" where
  "agrees v parents g \<longleftrightarrow> (\<forall>q \<in> set (rg_parents g). rp_revision_id q = v \<longrightarrow>
     (rp_ordinal q, rp_parent_revision_id q) \<in> set (enumerate 0 parents))"

definition has_parent :: "registry \<Rightarrow> string \<Rightarrow> string \<Rightarrow> bool" where
  "has_parent g v p \<longleftrightarrow> (\<exists>q \<in> set (rg_parents g). rp_revision_id q = v \<and> rp_parent_revision_id q = p)"

lemma has_parent_mono: "history_le g h \<Longrightarrow> has_parent g v p \<Longrightarrow> has_parent h v p"
  by (auto simp: has_parent_def history_le_def)

lemma has_parent_ancestor: "has_parent g v p \<Longrightarrow> p \<in> set (ancestry (rg_parents g) [v])"
  unfolding set_ancestry has_parent_def parent_edges_def by (auto intro: r_into_rtrancl)

lemma enumerate_unique: "(i, p) \<in> set (enumerate 0 xs) \<Longrightarrow> (i, q) \<in> set (enumerate 0 xs) \<Longrightarrow> p = q"
  by (auto simp: in_set_enumerate_eq)

lemma stored_parents:
  assumes "op_each (\<lambda>(i, p). insert_row_or_ignore rg_parents rg_parents_update parent_clash ok
      \<lparr>rp_revision_id = v, rp_parent_revision_id = p, rp_ordinal = i\<rparr>) xs g = (Ok u, h)"
    and "set xs \<subseteq> set (enumerate 0 parents)" and "agrees v parents g"
  shows "\<forall>(i, p) \<in> set xs. has_parent h v p"
  using assms
proof (induction xs arbitrary: g)
  case (Cons x xs)
  obtain i p where x: "x = (i, p)" by (cases x)
  let ?row = "\<lparr>rp_revision_id = v, rp_parent_revision_id = p, rp_ordinal = i\<rparr>"
  from Cons.prems(1) x obtain n k where 1: "insert_row_or_ignore rg_parents rg_parents_update parent_clash ok ?row g = (Ok n, k)"
    and 2: "op_each (\<lambda>(i, p). insert_row_or_ignore rg_parents rg_parents_update parent_clash ok
      \<lparr>rp_revision_id = v, rp_parent_revision_id = p, rp_ordinal = i\<rparr>) xs k = (Ok u, h)"
    by (auto elim: op_bind_OkE)
  have xs: "set xs \<subseteq> set (enumerate 0 parents)" "(i, p) \<in> set (enumerate 0 parents)" using Cons.prems(2) x by auto
  consider (kept) y where "k = g" "y \<in> set (rg_parents g)" "parent_clash ?row y" | (added) "k = rg_parents_update (\<lambda>t. t @ [?row]) g"
    using insert_or_ignore_Ok [OF 1] unfolding list_ex_iff by blast
  then have k: "agrees v parents k \<and> has_parent k v p"
  proof cases
    case kept
    then have y: "rp_revision_id y = v" "rp_ordinal y = i \<or> rp_parent_revision_id y = p" by (auto simp: parent_clash_def)
    then have "(rp_ordinal y, rp_parent_revision_id y) \<in> set (enumerate 0 parents)"
      using Cons.prems(3) kept(2) unfolding agrees_def by blast
    then have "rp_parent_revision_id y = p" using y(2) enumerate_unique xs(2) by metis
    then show ?thesis using kept(1,2) y(1) Cons.prems(3) unfolding has_parent_def by blast
  next
    case added
    then show ?thesis using Cons.prems(3) xs(2) unfolding agrees_def has_parent_def by (simp del: enumerate_simps)
  qed
  have "grows history_le (op_each (\<lambda>(i, p). insert_row_or_ignore rg_parents rg_parents_update parent_clash ok
      \<lparr>rp_revision_id = v, rp_parent_revision_id = p, rp_ordinal = i\<rparr>) xs)"
    by (rule grow_intros | simp add: history_le_def; blast)+
  then have "history_le k h" using 2 by (rule growsD)
  then show ?case using Cons.IH [OF 2 xs(1)] k x has_parent_mono by auto
qed simp

lemma persisted_parents:
  assumes "persist_private_revision_storage a st g = (Ok u, h)" "agrees (st_revision_id st) (st_parents st) g"
    and "p \<in> set (st_parents st)"
  shows "has_parent h (st_revision_id st) p"
proof -
  let ?each = "op_each (\<lambda>(i, p). insert_row_or_ignore rg_parents rg_parents_update parent_clash (parent_ok a)
      \<lparr>rp_revision_id = st_revision_id st, rp_parent_revision_id = p, rp_ordinal = i\<rparr>) (enumerate 0 (st_parents st))"
  let ?rest = "op_bind (op_each (reach_blob a st) (st_blobs st)) (\<lambda>_.
     if int (st_snapshot_size st) \<ge> 2 ^ 63 then op_err (ApiError_new Internal ''snapshot size exceeds database range'')
     else op_bind (insert_row_or_ignore rg_snapshots rg_snapshots_update snapshot_clash (snapshot_ok a)
       \<lparr>sn_resource_id = st_resource_id st, sn_revision_id = st_revision_id st, sn_manifest_json = st_manifest st,
        sn_snapshot_key = st_snapshot_key st, sn_snapshot_sha256 = st_snapshot_sha st,
        sn_snapshot_size = int (st_snapshot_size st)\<rparr>) (\<lambda>_. op_ok ()))"
  from assms(1) obtain k l x y where 1: "persist_revision a (st_revision_id st) (st_root_tree_id st)
      (st_author_principal_id st) (st_operation_id st) g = (Ok x, k)" and 2: "?each k = (Ok y, l)"
    and 3: "?rest l = (Ok u, h)"
    unfolding persist_private_revision_storage_def by - (erule op_bind_OkE, erule op_bind_OkE, blast)
  have "rg_parents k = rg_parents g"
    using 1 unfolding persist_revision_def Let_def by (elim op_bind_OkE) (auto dest!: insert_or_ignore_Ok)
  then have "agrees (st_revision_id st) (st_parents st) k" using assms(2) by (simp add: agrees_def)
  from stored_parents [OF 2 subset_refl this] assms(3) have "has_parent l (st_revision_id st) p"
    using nth_mem by (fastforce simp: in_set_conv_nth [of p] in_set_enumerate_eq)
  moreover have "grows history_le ?rest"
    unfolding reach_blob_def by (rule grow_intros | simp add: history_le_def)+
  then have "history_le l h" using 3 by (rule growsD)
  ultimately show ?thesis by (rule has_parent_mono [rotated])
qed

abbreviation commit_actor :: "verified_commit \<Rightarrow> actor" where
  "commit_actor c \<equiv> begin_actor_tx (ua_user_id (vc_authority c))"

abbreviation commit_resource :: "verified_commit \<Rightarrow> string" where
  "commit_resource c \<equiv> ro_resource_id (vc_operation c)"

abbreviation commit_user :: "verified_commit \<Rightarrow> string" where
  "commit_user c \<equiv> ua_user_id (vc_authority c)"

lemma decode_32_Ok [simp]: "decode_32 v field = Ok y \<longleftrightarrow> y = v \<and> length v = 32"
  by (auto simp: decode_32_def)

lemma revision_operation_state_Ok:
  "revision_operation_state v = Ok s \<Longrightarrow> s = St_Prepared \<longleftrightarrow> v = ''prepared''"
  by (auto simp: revision_operation_state_def split: if_splits)

lemma commit_locked_cases:
  assumes "commit_locked E a c i now team x w g = (Ok (b, r), g')"
  obtains q where "fetch_revision_operation (actor_view a g) (commit_user c) (vc_operation_id c) = Some q"
    "ro_request_hash q = rh_bytes (vc_supplied_hash c)" "\<exists>s. revision_operation_state (ro_state q) = Ok s"
    "(if b then ro_state q = ''prepared'' \<and> commit_prepared E a c i now team x w q g = (Ok r, g')
      else ro_state q \<noteq> ''prepared'' \<and> ro_outcome_json q = Some r \<and> g' = g)"
proof -
  from assms obtain q s where q: "fetch_revision_operation (actor_view a g) (commit_user c) (vc_operation_id c) = Some q"
    and h: "ensure_request_hash (ro_request_hash q) (vc_supplied_hash c) = Ok ()"
    and s: "revision_operation_state (ro_state q) = Ok s"
    and rest: "(if s \<noteq> St_Prepared then op_res (map_ok (Pair False) (decode_revision_outcome (ro_outcome_json q)))
      else op_bind (commit_prepared E a c i now team x w q) (\<lambda>outcome. op_ok (True, outcome))) g = (Ok (b, r), g')"
    unfolding commit_locked_def by - (erule op_bind_OkE, erule op_bind_OkE, erule op_bind_OkE, auto simp: ok_or_Ok_iff)
  have "ro_request_hash q = rh_bytes (vc_supplied_hash c)" using h by (auto simp: ensure_request_hash_def split: if_splits)
  then show ?thesis
    using q s rest revision_operation_state_Ok [OF s]
    by (intro that) (auto simp: decode_revision_outcome_def map_ok_Ok_iff ok_or_Ok_iff elim!: op_bind_OkE split: if_splits)
qed

lemma commit_prepared_parts:
  assumes "commit_prepared E a c i now team x w q g = (Ok r, g')"
  obtains fs author g1 g2 g3 wake n where
    "commit_guard g a c fs w (wk_revision_id w = ro_expected_head_revision_id (vc_operation c)) = Ok ()"
    "commit_store E a c author g = (Ok (), g1)"
    "(if wk_revision_id w = ro_expected_head_revision_id (vc_operation c)
      then advance_head E a c fs team (re_generation x) (wk_generation w)
      else record_divergence E a c i now (wk_revision_id w) (re_generation x) (wk_generation w)) g1 = (Ok (r, wake), g2)"
    "finish_operation a (commit_user c) (vc_operation_id c) r g2 = (Ok n, g3)" "content_le g3 g'"
proof -
  have wake: "grows content_le (if team then op_ok () else enqueue_resource_wake (ge_uuid E) (commit_resource c) wake)" for wake
    by (rule grow_intros)+
  show ?thesis
    using assms unfolding commit_prepared_def Let_def
    by (elim op_bind_OkE) (auto intro!: that dest: growsD [OF wake] split: prod.splits elim!: op_bind_OkE)
qed

lemma commit_write_tx_cases:
  assumes "commit_write_tx E c i now g = (Ok (b, r), g')"
  obtains team x w where "workspace_of g (commit_resource c) (commit_user c) = Some w"
    "actor_can_manage_resource g (commit_actor c) (commit_resource c)"
    "commit_locked E (commit_actor c) c i now team x w g = (Ok (b, r), g')"
proof -
  from assms obtain team current h where lock: "lock_workspace (commit_actor c) (commit_resource c) (commit_user c) g = (Ok current, h)"
    and rest: "(case current of None \<Rightarrow> op_err (ApiError_new NotFound ''private skill not found'')
         | Some (x, w) \<Rightarrow>
           if re_owner_namespace_id x \<noteq> Some (ro_namespace_id (vc_operation c))
           then op_err (ApiError_new Unauthorized ''private skill is unavailable'')
           else commit_locked E (commit_actor c) c i now team x w) h = (Ok (b, r), g')"
    unfolding commit_write_tx_def Let_def
    by - (erule op_bind_OkE, erule op_bind_OkE, erule op_bind_OkE, clarsimp split: if_splits, erule op_bind_OkE, rule that)
  then show ?thesis
    using lock_workspace_Ok [OF lock] by (auto split: option.splits prod.splits if_splits intro: that)
qed

text \<open>The tables a resolved conflict or a moved fork base does not belong to.\<close>

definition desk :: "registry \<Rightarrow> private_workspace_row list \<times> revision_operation_row list \<times> operation_parent_row list" where
  "desk g = (rg_workspaces g, rg_revision_operations g, rg_operation_parents g)"

lemma head_of_desk: "same_by desk g h \<Longrightarrow> workspace_of h = workspace_of g"
  by (auto simp: same_by_def desk_def workspace_of_def fun_eq_iff)

lemma resolve_desk: "grows (same_by desk) (resolve_workspace_conflict a i r u v)"
  unfolding resolve_workspace_conflict_def by (rule grow_intros | simp add: same_by_def desk_def)+

lemma forks_desk: "grows (same_by desk) (update_rows rg_forks rg_forks_update P ok f)"
  by (rule grow_intros | simp add: same_by_def desk_def)+

lemma content_desk: "content_le g h \<Longrightarrow> same_by desk g h"
  by (auto simp: content_le_def work_def same_by_def desk_def)

lemma advance_head_parts:
  assumes "advance_head E a c fs team rgen wgen g = (Ok (r, wake), h)"
  obtains g1 g2 hc n resp where "content_le g g1" "set_workspace_head a (commit_resource c) (commit_user c) hc g1 = (Ok n, g2)"
    "hc_revision_id hc = ro_revision_id (vc_operation c)" "hc_generation hc = wgen + 1" "same_by desk g2 h" "r = Advanced resp"
proof -
  show ?thesis
    using assms unfolding advance_head_def Let_def checked_succ64_def
    by (elim op_bind_OkE)
      (auto split: if_splits elim!: op_bind_OkE intro!: that
        dest!: growsD [OF resource_head_content] growsD [OF resolve_desk] growsD [OF forks_desk] split: option.splits
        intro: same.trans)
qed

lemma upsert_desk [grow_intros]: "grows (same_by desk) (upsert_conflict a row)"
  by (auto simp: grows_def upsert_conflict_def sql_exec_def same_by_def desk_def Let_def split: option.splits if_splits)

lemma divergence_desk: "grows (same_by desk) (record_divergence E a c i now h rgen wgen)"
  unfolding record_divergence_def record_workspace_conflict_def Let_def by (rule grow_intros)+

lemma divergence_outcome: "record_divergence E a c i now h rgen wgen g = (Ok (r, wake), g') \<Longrightarrow> \<exists>p q k. r = Diverged p q k"
  unfolding record_divergence_def Let_def by (auto elim!: op_bind_OkE split: if_splits)

lemma finish_workspaces: "finish_operation a u i r g = (Ok n, h) \<Longrightarrow> workspace_of h = workspace_of g"
  by (auto simp: finish_operation_def update_rows_Ok workspace_of_def fun_eq_iff)

lemma commit_guard_generation: "commit_guard g a c fs w True = Ok () \<Longrightarrow> wk_generation w = ro_expected_generation (vc_operation c)"
  by (auto simp: commit_guard_def Let_def split: if_splits)

lemma commit_store_parent:
  assumes "commit_store E a c author g = (Ok u, h)" "agrees (ro_revision_id (vc_operation c)) (vc_parents c) g" "p \<in> set (vc_parents c)"
  shows "has_parent h (ro_revision_id (vc_operation c)) p"
proof -
  have same: "grows (same_by rg_parents) (enforce_namespace_quota l a n bs)" "grows (same_by rg_parents) (persist_canonical_blobs H bs)"
    "grows (same_by rg_parents) (persist_trees ts)" for l n bs H ts
    unfolding enforce_namespace_quota_def persist_canonical_blobs_def persist_canonical_blob_def persist_trees_def
      persist_tree_entry_def Let_def
    by (rule grow_intros | simp add: same_by_def)+
  from assms(1) obtain k st where k: "persist_private_revision_storage a st k = (Ok u, h)" "rg_parents k = rg_parents g"
    and st: "st_revision_id st = ro_revision_id (vc_operation c)" "st_parents st = vc_parents c"
    unfolding commit_store_def Let_def
    by - (erule op_bind_OkE, erule op_bind_OkE, erule op_bind_OkE,
      rule that, assumption, auto simp: same_by_def dest!: growsD [OF same(1)] growsD [OF same(2)] growsD [OF same(3)])
  show ?thesis
    using persisted_parents [OF k(1), of p] assms(2,3) st k(2) by (simp add: agrees_def)
qed

lemma head_of_content: "content_le g h \<Longrightarrow> head_of h = head_of g"
  using head_of_work [of h g] by (auto simp: head_of_def fun_eq_iff content_le_def)

lemma advance_head_moves:
  assumes "advance_head E a c fs team rgen wgen g = (Ok (r, wake), h)"
    and "actor_can_manage_resource g a (commit_resource c)" "ac_user a = Some (commit_user c)"
  shows "head_of h r' u' = (if r' = commit_resource c \<and> u' = commit_user c
      then map_option (\<lambda>_. (ro_revision_id (vc_operation c), wgen + 1)) (head_of g r' u') else head_of g r' u')"
    and "\<exists>resp. r = Advanced resp"
proof -
  obtain g1 g2 hc n resp where parts: "content_le g g1"
    "set_workspace_head a (commit_resource c) (commit_user c) hc g1 = (Ok n, g2)"
    "hc_revision_id hc = ro_revision_id (vc_operation c)" "hc_generation hc = wgen + 1" "same_by desk g2 h" "r = Advanced resp"
    using assms(1) by (rule advance_head_parts)
  have "actor_can_manage_resource g1 a (commit_resource c)" using parts(1) assms(2) manage_acl [of g1 g] by (simp add: content_le_def)
  from set_workspace_head_of [OF parts(2) this assms(3)] show "head_of h r' u' = (if r' = commit_resource c \<and> u' = commit_user c
      then map_option (\<lambda>_. (ro_revision_id (vc_operation c), wgen + 1)) (head_of g r' u') else head_of g r' u')"
    using parts(3,4) head_of_content [OF parts(1)] head_of_desk [OF parts(5)] by (auto simp: head_of_def)
  show "\<exists>resp. r = Advanced resp" using parts(6) by blast
qed

text \<open>The parts of a commit that wrote its outcome.\<close>

lemma commit_written:
  assumes "commit_write_tx E c i now g = (Ok (True, r), g')"
  obtains fs author team rgen w g1 g2 g3 wake n where "workspace_of g (commit_resource c) (commit_user c) = Some w"
    "actor_can_manage_resource g (commit_actor c) (commit_resource c)"
    "commit_guard g (commit_actor c) c fs w (wk_revision_id w = ro_expected_head_revision_id (vc_operation c)) = Ok ()"
    "commit_store E (commit_actor c) c author g = (Ok (), g1)"
    "(if wk_revision_id w = ro_expected_head_revision_id (vc_operation c)
      then advance_head E (commit_actor c) c fs team rgen (wk_generation w)
      else record_divergence E (commit_actor c) c i now (wk_revision_id w) rgen (wk_generation w)) g1 = (Ok (r, wake), g2)"
    "finish_operation (commit_actor c) (commit_user c) (vc_operation_id c) r g2 = (Ok n, g3)" "content_le g3 g'"
proof -
  obtain team x w where w: "workspace_of g (commit_resource c) (commit_user c) = Some w"
    "actor_can_manage_resource g (commit_actor c) (commit_resource c)"
    and locked: "commit_locked E (commit_actor c) c i now team x w g = (Ok (True, r), g')"
    using assms by (rule commit_write_tx_cases)
  obtain q where "if True then ro_state q = ''prepared'' \<and> commit_prepared E (commit_actor c) c i now team x w q g = (Ok r, g')
      else ro_state q \<noteq> ''prepared'' \<and> ro_outcome_json q = Some r \<and> g' = g"
    using locked by (rule commit_locked_cases)
  then have "commit_prepared E (commit_actor c) c i now team x w q g = (Ok r, g')" by simp
  then show ?thesis by (rule commit_prepared_parts) (rule that [OF w])
qed

lemma commit_replayed:
  assumes "commit_write_tx E c i now g = (Ok (False, r), g')"
  shows "g' = g" "\<exists>q. fetch_revision_operation (actor_view (commit_actor c) g) (commit_user c) (vc_operation_id c) = Some q \<and>
    ro_state q \<noteq> ''prepared'' \<and> ro_outcome_json q = Some r"
proof -
  obtain team x w where locked: "commit_locked E (commit_actor c) c i now team x w g = (Ok (False, r), g')"
    using assms by (rule commit_write_tx_cases)
  obtain q where "fetch_revision_operation (actor_view (commit_actor c) g) (commit_user c) (vc_operation_id c) = Some q"
    "if False then ro_state q = ''prepared'' \<and> commit_prepared E (commit_actor c) c i now team x w q g = (Ok r, g')
      else ro_state q \<noteq> ''prepared'' \<and> ro_outcome_json q = Some r \<and> g' = g"
    using locked by (rule commit_locked_cases)
  then show "g' = g" "\<exists>q. fetch_revision_operation (actor_view (commit_actor c) g) (commit_user c) (vc_operation_id c) = Some q \<and>
    ro_state q \<noteq> ''prepared'' \<and> ro_outcome_json q = Some r" by auto
qed

text \<open>The compare-and-set of a commit.\<close>

definition moves_head :: "verified_commit \<Rightarrow> registry \<Rightarrow> registry \<Rightarrow> bool" where
  "moves_head c g g' \<longleftrightarrow>
     head_of g (commit_resource c) (commit_user c) =
       Some (ro_expected_head_revision_id (vc_operation c), ro_expected_generation (vc_operation c)) \<and>
     head_of g' (commit_resource c) (commit_user c) =
       Some (ro_revision_id (vc_operation c), ro_expected_generation (vc_operation c) + 1) \<and>
     (agrees (ro_revision_id (vc_operation c)) (vc_parents c) g \<longrightarrow>
      (\<forall>p \<in> set (vc_parents c). has_parent g' (ro_revision_id (vc_operation c)) p))"

lemma commit_head:
  assumes "commit_write_tx E c i now g = (Ok (True, r), g')"
  shows "(\<exists>resp. r = Advanced resp) \<and> moves_head c g g' \<and>
      (\<forall>r' u'. (r', u') \<noteq> (commit_resource c, commit_user c) \<longrightarrow> head_of g' r' u' = head_of g r' u') \<or>
    (\<exists>p q k. r = Diverged p q k) \<and> head_of g' = head_of g"
proof -
  let ?a = "commit_actor c" and ?r = "commit_resource c" and ?u = "commit_user c" and ?o = "vc_operation c"
  obtain fs author team rgen w g1 g2 g3 wake n where w: "workspace_of g ?r ?u = Some w"
    and manage: "actor_can_manage_resource g ?a ?r"
    and guard: "commit_guard g ?a c fs w (wk_revision_id w = ro_expected_head_revision_id ?o) = Ok ()"
    and store: "commit_store E ?a c author g = (Ok (), g1)"
    and move: "(if wk_revision_id w = ro_expected_head_revision_id ?o
        then advance_head E ?a c fs team rgen (wk_generation w)
        else record_divergence E ?a c i now (wk_revision_id w) rgen (wk_generation w)) g1 = (Ok (r, wake), g2)"
    and finish: "finish_operation ?a ?u (vc_operation_id c) r g2 = (Ok n, g3)" and last: "content_le g3 g'"
    using assms by (rule commit_written)
  have 1: "content_le g g1" using commit_store_content store by (rule growsD)
  have 2: "head_of g' = head_of g2"
    using finish_workspaces [OF finish] head_of_content [OF last] by (auto simp: head_of_def fun_eq_iff)
  show ?thesis
  proof (cases "wk_revision_id w = ro_expected_head_revision_id ?o")
    case True
    then have adv: "advance_head E ?a c fs team rgen (wk_generation w) g1 = (Ok (r, wake), g2)" using move by simp
    have gen: "wk_generation w = ro_expected_generation ?o" using guard True commit_guard_generation by simp
    have old: "head_of g ?r ?u = Some (ro_expected_head_revision_id ?o, ro_expected_generation ?o)"
      using w True gen by (simp add: head_of_def)
    have "actor_can_manage_resource g1 ?a ?r" using 1 manage manage_acl [of g1 g] by (simp add: content_le_def)
    note new = advance_head_moves [OF adv this, unfolded begin_actor_tx_def, simplified]
    have "history_le g1 g2" "history_le g2 g3"
      using growsD [OF advance_history adv] growsD [OF parts_history(2) finish] by auto
    then have "has_parent g' (ro_revision_id ?o) p" if "agrees (ro_revision_id ?o) (vc_parents c) g" "p \<in> set (vc_parents c)" for p
      using commit_store_parent [OF store that] last has_parent_mono unfolding content_le_def by blast
    then show ?thesis using new old gen unfolding moves_head_def 2 head_of_content [OF 1] by auto
  next
    case False
    then have div: "record_divergence E ?a c i now (wk_revision_id w) rgen (wk_generation w) g1 = (Ok (r, wake), g2)" using move by simp
    have "head_of g2 = head_of g1" using head_of_desk [OF growsD [OF divergence_desk div]] unfolding head_of_def fun_eq_iff by simp
    then show ?thesis using divergence_outcome [OF div] unfolding 2 head_of_content [OF 1] by blast
  qed
qed

section \<open>Restores\<close>

abbreviation restore_actor :: "verified_restore \<Rightarrow> actor" where
  "restore_actor c \<equiv> begin_actor_tx (ua_user_id (vr_authority c))"

abbreviation restore_resource :: "verified_restore \<Rightarrow> string" where
  "restore_resource c \<equiv> rid_bytes (ps_resource (vr_request c))"

abbreviation restore_user :: "verified_restore \<Rightarrow> string" where
  "restore_user c \<equiv> ua_user_id (vr_authority c)"

text \<open>The tables a restore leaves alone.\<close>

definition duties :: "registry \<Rightarrow> conflict_row list \<times> revision_operation_row list \<times> operation_parent_row list" where
  "duties g = (rg_conflicts g, rg_revision_operations g, rg_operation_parents g)"

lemma content_duties: "grows content_le m \<Longrightarrow> grows (same_by duties) m"
  by (auto simp: grows_def content_le_def work_def same_by_def duties_def)

lemma ensure_duties [grow_intros]: "grows (same_by duties) (ensure_private_workspace_for_user a r u)"
  unfolding ensure_private_workspace_for_user_def by (rule grow_intros | simp add: same_by_def duties_def)+

lemma ensure_revisions: "ensure_private_workspace_for_user a r u g = (Ok b, h) \<Longrightarrow> rg_revisions h = rg_revisions g"
  unfolding ensure_private_workspace_for_user_def
  by (auto elim!: op_bind_OkE dest!: insert_or_ignore_Ok split: option.splits)

lemma set_workspace_duties [grow_intros]: "grows (same_by duties) (set_workspace_head a r u hc)"
  unfolding set_workspace_head_def by (rule grow_intros | simp add: same_by_def duties_def)+

lemma lock_duties [grow_intros]: "grows (same_by duties) (lock_workspace a r u)"
  unfolding lock_workspace_def by (rule grow_intros)

lemmas content_duties_intros [grow_intros] = restore_content_rows [THEN content_duties] wake_content [THEN content_duties]
  resource_head_content [THEN content_duties]

lemma restore_duties: "grows (same_by duties) (restore_write_tx E c)"
  unfolding restore_write_tx_def restore_head_def Let_def
  by (rule grow_intros | simp add: same_by_def duties_def)+

lemma restore_rows_fresh:
  assumes "restore_rows a c n v p g = (Ok u, h)"
  shows "\<not> known_revision g v" "has_parent h v p"
proof -
  let ?rest = "\<lambda>u. op_bind (op_res (manifest_blobs (vr_manifest c))) (\<lambda>blobs.
         op_bind (op_each (reach_again a v (restore_resource c) n) blobs) (\<lambda>_.
         insert_row rg_snapshots rg_snapshots_update snapshot_clash (snapshot_ok a)
           \<lparr>sn_resource_id = restore_resource c, sn_revision_id = v, sn_manifest_json = vr_manifest_wire c,
            sn_snapshot_key = vr_snapshot_key c, sn_snapshot_sha256 = vr_snapshot_sha c,
            sn_snapshot_size = vr_snapshot_size c\<rparr>))"
  obtain row ok x1 x2 k k2 where 1: "insert_row rg_revisions rg_revisions_update (\<lambda>x y. rv_revision_id x = rv_revision_id y) ok row g = (Ok x1, k)"
    and v: "rv_revision_id row = v"
    and 2: "insert_row rg_parents rg_parents_update parent_clash (parent_ok a)
           \<lparr>rp_revision_id = v, rp_parent_revision_id = p, rp_ordinal = 0\<rparr> k = (Ok x2, k2)"
    and 3: "?rest () k2 = (Ok u, h)"
    using assms unfolding restore_rows_def Let_def
    by - (erule op_bind_OkE, erule op_bind_OkE, rule that, assumption, simp, assumption, assumption)
  show "\<not> known_revision g v" using 1 v by (auto simp: insert_row_Ok known_revision_def list_ex_iff)
  have "has_parent k2 v p" using 2 by (auto simp: insert_row_Ok has_parent_def)
  moreover have "grows history_le (?rest ())"
    unfolding reach_again_def by (rule grow_intros | simp add: history_le_def)+
  ultimately show "has_parent h v p" using growsD [of history_le "?rest ()", OF _ 3] has_parent_mono by blast
qed

lemma restore_tail:
  "insert_row rg_restore_operations rg_restore_operations_update k ok row g = (Ok u, h) \<Longrightarrow> same_by desk g h \<and> history_le g h"
  "enqueue_resource_wake L r n g = (Ok u, h) \<Longrightarrow> same_by desk g h \<and> history_le g h"
  using growsD [OF wake_content] content_desk
  by (auto simp: insert_row_Ok same_by_def desk_def history_le_def content_le_def)

lemma restore_head_parts:
  assumes "restore_head E a c ra x w p v g = (Ok resp, g')"
  obtains g1 g2 g3 n1 n2 hc where "restore_rows a c (np_namespace_id ra) v p g = (Ok (), g1)" "content_le g1 g2"
    "set_workspace_head a (restore_resource c) (restore_user c) hc g2 = (Ok n1, g3)"
    "hc_revision_id hc = v" "hc_generation hc = wk_generation w + 1" "same_by desk g3 g'" "history_le g3 g'"
proof -
  show ?thesis
    using assms unfolding restore_head_def Let_def checked_succ64_def
    by (elim op_bind_OkE)
      (auto split: if_splits elim!: op_bind_OkE intro!: that
        dest!: growsD [OF resource_head_content] restore_tail intro: same.trans hist.trans)
qed

lemma restore_head_moves:
  assumes "restore_head E a c ra x w p v g = (Ok resp, g')" "actor_can_manage_resource g a (restore_resource c)"
    and "ac_user a = Some (restore_user c)" "workspace_of g (restore_resource c) (restore_user c) = Some w"
  shows "head_of g' r' u' = (if r' = restore_resource c \<and> u' = restore_user c then Some (v, wk_generation w + 1) else head_of g r' u')"
    and "\<not> known_revision g v" "has_parent g' v p"
proof -
  obtain g1 g2 g3 n1 n2 hc where rows: "restore_rows a c (np_namespace_id ra) v p g = (Ok (), g1)" and "content_le g1 g2"
    and set: "set_workspace_head a (restore_resource c) (restore_user c) hc g2 = (Ok n1, g3)"
    and hc: "hc_revision_id hc = v" "hc_generation hc = wk_generation w + 1" and rest: "same_by desk g3 g'" "history_le g3 g'"
    using assms(1) by (rule restore_head_parts)
  then have 1: "content_le g1 g2" and 2: "content_le g g2"
    using growsD [OF restore_content_rows rows] cont.trans by blast+
  have "actor_can_manage_resource g2 a (restore_resource c)" using 2 assms(2) manage_acl [of g2 g] by (simp add: content_le_def)
  from set_workspace_head_of [OF set this assms(3)]
  show "head_of g' r' u' = (if r' = restore_resource c \<and> u' = restore_user c then Some (v, wk_generation w + 1) else head_of g r' u')"
    using hc head_of_content [OF 2] head_of_desk [OF rest(1)] assms(4) by (auto simp: head_of_def)
  show "\<not> known_revision g v" using rows by (rule restore_rows_fresh)
  have "history_le g2 g3" using growsD [OF parts_history(1) set] .
  then have "history_le g1 g'" using 1 rest(2) hist.trans unfolding content_le_def by blast
  then show "has_parent g' v p" using restore_rows_fresh(2) [OF rows] has_parent_mono by blast
qed

lemma restored_revision_parent: "restored_revision E c w = Ok (p, v) \<Longrightarrow> p = wk_revision_id w"
  by (auto simp: restored_revision_def Let_def res_simps split: if_splits)

lemma restore_write_cases:
  assumes "restore_write_tx E c g = (Ok y, g')"
  obtains k ra x w p v resp where "k = g \<or> (\<exists>b. ensure_private_workspace_for_user (restore_actor c) (restore_resource c) (restore_user c) g = (Ok b, k))"
    "workspace_of k (restore_resource c) (restore_user c) = Some w"
    "actor_can_manage_resource k (restore_actor c) (restore_resource c)"
    "restored_revision E c w = Ok (p, v)" "restore_head E (restore_actor c) c ra x w p v k = (Ok resp, g')"
proof -
  from assms obtain ra b k current h where k: "(if np_is_team ra then ensure_private_workspace_for_user (restore_actor c)
      (restore_resource c) (restore_user c) else op_ok False) g = (Ok b, k)"
    and lock: "lock_workspace (restore_actor c) (restore_resource c) (restore_user c) k = (Ok current, h)"
    and rest: "(case current of None \<Rightarrow> op_err (ApiError_new NotFound ''owned skill not found'')
         | Some (x, w) \<Rightarrow>
             if re_owner_namespace_id x \<noteq> Some (np_namespace_id ra)
             then op_err (ApiError_new Unauthorized ''owned skill is unavailable'')
             else
               op_bind (op_res (restored_revision E c w)) (\<lambda>(parent, revision_id).
               op_bind (restore_head E (restore_actor c) c (ra :: NamespacePublishAuthority) x w parent revision_id) (\<lambda>outcome.
                 op_ok (np_is_team ra, outcome)))) h = (Ok y, g')"
    unfolding restore_write_tx_def Let_def
    by - (erule op_bind_OkE, erule op_bind_OkE, erule op_bind_OkE, simp only: op_simple_Ok)
  from rest obtain x w p v where "current = Some (x, w)" "restored_revision E c w = Ok (p, v)"
    "\<exists>resp. restore_head E (restore_actor c) c ra x w p v h = (Ok resp, g')"
    by (auto split: option.splits if_splits prod.splits elim!: op_bind_OkE)
  moreover from k have "k = g \<or> (\<exists>b. ensure_private_workspace_for_user (restore_actor c) (restore_resource c) (restore_user c) g = (Ok b, k))"
    by (auto split: if_splits)
  ultimately show ?thesis using lock_workspace_Ok [OF lock] by (auto intro: that)
qed

text \<open>A restore puts a revision that was not stored before on top of the head.\<close>

lemma restore_step:
  assumes "restore_write_tx E c g = (Ok y, g')"
  obtains h n v where "head_of g' (restore_resource c) (restore_user c) = Some (v, n + 1)"
    "head_of g (restore_resource c) (restore_user c) \<in> {None, Some (h, n)}" "has_parent g' v h" "\<not> known_revision g v"
    "\<forall>r u x. (r, u) \<noteq> (restore_resource c, restore_user c) \<longrightarrow> head_of g r u = Some x \<longrightarrow> head_of g' r u = Some x"
proof -
  obtain k ra x w p v resp where k: "k = g \<or> (\<exists>b. ensure_private_workspace_for_user (restore_actor c) (restore_resource c) (restore_user c) g = (Ok b, k))"
    and w: "workspace_of k (restore_resource c) (restore_user c) = Some w"
    and manage: "actor_can_manage_resource k (restore_actor c) (restore_resource c)"
    and p: "restored_revision E c w = Ok (p, v)" and head: "restore_head E (restore_actor c) c ra x w p v k = (Ok resp, g')"
    using assms by (rule restore_write_cases)
  have user: "ac_user (restore_actor c) = Some (restore_user c)" by (simp add: begin_actor_tx_def)
  have kept: "head_of g r u = Some z \<Longrightarrow> head_of k r u = Some z" for r u z using k ensure_head_of by blast
  have fresh: "\<not> known_revision g v"
    using restore_head_moves(2) [OF head manage user w] k ensure_revisions unfolding known_revision_def by metis
  note new = restore_head_moves(1,3) [OF head manage user w]
  show ?thesis
  proof (rule that [of v "wk_generation w" "wk_revision_id w"])
    show "head_of g (restore_resource c) (restore_user c) \<in> {None, Some (wk_revision_id w, wk_generation w)}"
    proof (cases "head_of g (restore_resource c) (restore_user c)")
      case (Some z)
      then show ?thesis using kept [OF Some] w by (simp add: head_of_def)
    qed simp
  qed (use new fresh kept restored_revision_parent [OF p] in auto)
qed

end
