(* ===== verification/Registry_Operations.thy ===== *)
theory Registry_Operations
  imports Registry_Heads
begin

text \<open>
  The rows of private revision operations: what preparing stores, that an operation names its expected
  head among its parents, and that a completed operation keeps its outcome.
\<close>

section \<open>Operation rows\<close>

definition is_operation :: "string \<Rightarrow> string \<Rightarrow> revision_operation_row \<Rightarrow> bool" where
  "is_operation u i q \<longleftrightarrow> ro_user_id q = u \<and> ro_operation_id q = i"

definition op_of :: "registry \<Rightarrow> string \<Rightarrow> string \<Rightarrow> revision_operation_row option" where
  "op_of g u i = sql_first (is_operation u i) (rg_revision_operations g)"

lemma fetch_op_of: "fetch_revision_operation (actor_view (begin_actor_tx u) g) u i = op_of g u i"
proof -
  have "is_operation u i = (\<lambda>q. ro_user_id q = u \<and> ro_operation_id q = i)" by (simp add: is_operation_def fun_eq_iff)
  then show ?thesis
    unfolding fetch_revision_operation_def op_of_def actor_view_def begin_actor_tx_def
    by simp (rule sql_first_filter, simp)
qed

text \<open>The expected head of an operation is one of its stored parents.\<close>

definition head_among_parents :: "registry \<Rightarrow> revision_operation_row \<Rightarrow> bool" where
  "head_among_parents g q \<longleftrightarrow> (\<exists>p \<in> set (rg_operation_parents g). pa_user_id p = ro_user_id q \<and>
     pa_operation_id p = ro_operation_id q \<and> pa_parent_revision_id p = ro_expected_head_revision_id q)"

definition ops_ok :: "registry \<Rightarrow> bool" where
  "ops_ok g \<longleftrightarrow> (\<forall>q \<in> set (rg_revision_operations g). head_among_parents g q)"

lemma ops_ok_desk: "rg_revision_operations h = rg_revision_operations g \<Longrightarrow> rg_operation_parents h = rg_operation_parents g \<Longrightarrow> ops_ok h = ops_ok g"
  by (simp add: ops_ok_def head_among_parents_def)

text \<open>A completed operation, with the outcome every replay returns.\<close>

definition completed :: "registry \<Rightarrow> string \<Rightarrow> string \<Rightarrow> string \<Rightarrow> PrivateRevisionCommitResponse \<Rightarrow> bool" where
  "completed g u i hash r \<longleftrightarrow> (\<exists>q. op_of g u i = Some q \<and> ro_request_hash q = hash \<and> ro_outcome_json q = Some r \<and>
     ro_state q \<in> {''advanced'', ''diverged''})"

section \<open>Finishing\<close>

lemma outcome_state_cases: "outcome_state r \<in> {''advanced'', ''diverged''}"
  by (cases r) (simp_all add: outcome_state_def)

definition finished :: "string \<Rightarrow> string \<Rightarrow> PrivateRevisionCommitResponse \<Rightarrow> revision_operation_row \<Rightarrow> revision_operation_row" where
  "finished u i r q = (if is_operation u i q \<and> ro_state q = ''prepared''
     then q\<lparr>ro_state := outcome_state r, ro_outcome_json := Some r\<rparr> else q)"

lemma finish_rows:
  assumes "finish_operation a u i r g = (Ok n, h)" "ac_user a = Some u"
  shows "rg_revision_operations h = map (finished u i r) (rg_revision_operations g)" "rg_operation_parents h = rg_operation_parents g"
    "rg_conflicts h = rg_conflicts g"
proof -
  let ?f = "\<lambda>q. if ro_user_id q = u \<and> ro_operation_id q = i \<and> ro_state q = ''prepared'' \<and> ac_user a = Some (ro_user_id q)
    then q\<lparr>ro_state := outcome_state r, ro_outcome_json := Some r\<rparr> else q"
  have h: "h = rg_revision_operations_update (map ?f) g"
    using assms(1) [unfolded finish_operation_def update_rows_Ok, THEN conjunct2, THEN conjunct1] .
  have "?f q = finished u i r q" for q
    using assms(2) unfolding finished_def is_operation_def by (cases "ro_user_id q = u") simp_all
  then have "?f = finished u i r" by (rule ext)
  then show "rg_revision_operations h = map (finished u i r) (rg_revision_operations g)" "rg_operation_parents h = rg_operation_parents g"
    "rg_conflicts h = rg_conflicts g" unfolding h by simp_all
qed

lemma finished_keys [simp]: "is_operation u' i' (finished u i r q) = is_operation u' i' q"
  "ro_request_hash (finished u i r q) = ro_request_hash q" "ro_user_id (finished u i r q) = ro_user_id q"
  "ro_operation_id (finished u i r q) = ro_operation_id q"
  "ro_expected_head_revision_id (finished u i r q) = ro_expected_head_revision_id q"
  by (simp_all add: finished_def is_operation_def)

lemma op_of_finished:
  "rg_revision_operations h = map (finished u i r) (rg_revision_operations g) \<Longrightarrow> op_of h u' i' = map_option (finished u i r) (op_of g u' i')"
  by (simp add: op_of_def sql_first_map)

lemma finished_completed: "ro_state q \<noteq> ''prepared'' \<Longrightarrow> finished u i r q = q"
  by (simp add: finished_def)

lemma completed_finished:
  "rg_revision_operations h = map (finished u i r) (rg_revision_operations g) \<Longrightarrow> completed g u' i' hash r' \<Longrightarrow> completed h u' i' hash r'"
  unfolding completed_def by (auto simp: op_of_finished finished_completed)

lemma ops_ok_finished:
  "rg_revision_operations h = map (finished u i r) (rg_revision_operations g) \<Longrightarrow> rg_operation_parents h = rg_operation_parents g \<Longrightarrow>
   ops_ok g \<Longrightarrow> ops_ok h"
  by (simp add: ops_ok_def head_among_parents_def)

section \<open>Commits\<close>

lemma advance_desk_ops:
  assumes "advance_head E a c fs team rgen wgen g = (Ok (r, wake), h)"
  shows "rg_revision_operations h = rg_revision_operations g" "rg_operation_parents h = rg_operation_parents g"
  using assms by (rule advance_head_parts,
    auto simp: content_le_def work_def same_by_def desk_def set_workspace_head_def update_rows_Ok)+

lemma commit_rows:
  assumes "commit_write_tx E c i now g = (Ok (b, r), g')"
  shows "rg_revision_operations g' = (if b then map (finished (commit_user c) (vc_operation_id c) r) (rg_revision_operations g)
      else rg_revision_operations g)"
    and "rg_operation_parents g' = rg_operation_parents g"
proof -
  have "rg_revision_operations g' = map (finished (commit_user c) (vc_operation_id c) r) (rg_revision_operations g) \<and>
      rg_operation_parents g' = rg_operation_parents g" if b: b
  proof -
    let ?a = "commit_actor c"
    obtain fs author team rgen w g1 g2 g3 wake n where
      "workspace_of g (commit_resource c) (commit_user c) = Some w" and store: "commit_store E ?a c author g = (Ok (), g1)"
      and move: "(if wk_revision_id w = ro_expected_head_revision_id (vc_operation c)
        then advance_head E ?a c fs team rgen (wk_generation w)
        else record_divergence E ?a c i now (wk_revision_id w) rgen (wk_generation w)) g1 = (Ok (r, wake), g2)"
      and finish: "finish_operation ?a (commit_user c) (vc_operation_id c) r g2 = (Ok n, g3)" and last: "content_le g3 g'"
      using assms unfolding b [THEN eq_True [THEN iffD2]] by (rule commit_written)
    have "rg_revision_operations g2 = rg_revision_operations g1 \<and> rg_operation_parents g2 = rg_operation_parents g1"
    proof (cases "wk_revision_id w = ro_expected_head_revision_id (vc_operation c)")
      case True
      then show ?thesis using move advance_desk_ops [of E ?a c fs team rgen "wk_generation w" g1 r wake g2] by simp
    next
      case False
      then have "same_by desk g1 g2" using move growsD [OF divergence_desk] by (simp only: if_False) blast
      then show ?thesis by (simp add: same_by_def desk_def)
    qed
    moreover have "work g1 = work g" using growsD [OF commit_store_content store] by (simp add: content_le_def)
    ultimately show ?thesis
      using finish_rows [OF finish] last by (auto simp: content_le_def work_def begin_actor_tx_def)
  qed
  then show "rg_revision_operations g' = (if b then map (finished (commit_user c) (vc_operation_id c) r) (rg_revision_operations g)
      else rg_revision_operations g)" "rg_operation_parents g' = rg_operation_parents g"
    using assms commit_replayed(1) [of E c i now g r g'] by (cases b; simp)+
qed

text \<open>A commit that answered has stored its answer.\<close>

lemma commit_completes:
  assumes "commit_write_tx E c i now g = (Ok (b, r), g')"
  shows "completed g' (commit_user c) (vc_operation_id c) (rh_bytes (vc_supplied_hash c)) r"
proof -
  obtain team x w where locked: "commit_locked E (commit_actor c) c i now team x w g = (Ok (b, r), g')"
    using assms by (rule commit_write_tx_cases)
  obtain q where q: "op_of g (commit_user c) (vc_operation_id c) = Some q" "ro_request_hash q = rh_bytes (vc_supplied_hash c)"
    and s: "\<exists>s. revision_operation_state (ro_state q) = Ok s"
    and b: "if b then ro_state q = ''prepared'' \<and> commit_prepared E (commit_actor c) c i now team x w q g = (Ok r, g')
      else ro_state q \<noteq> ''prepared'' \<and> ro_outcome_json q = Some r \<and> g' = g"
    using locked unfolding fetch_op_of [symmetric] by (rule commit_locked_cases)
  have "is_operation (commit_user c) (vc_operation_id c) q" using q(1) sql_first_SomeD unfolding op_of_def by metis
  moreover have "ro_state q \<in> {''prepared'', ''advanced'', ''diverged''}"
    using s by (auto simp: revision_operation_state_def split: if_splits)
  ultimately show ?thesis
    using q b commit_rows(1) [OF assms] outcome_state_cases [of r] op_of_finished [of g' "commit_user c" "vc_operation_id c" r g]
    by (cases b) (auto simp: completed_def finished_def)
qed

section \<open>Preparing\<close>

lemma op_bind_state: "op_bind m f s = (r, t) \<Longrightarrow> (\<exists>e. m s = (Err e, t)) \<or> (\<exists>x u. m s = (Ok x, u) \<and> f x u = (r, t))"
  by (auto simp: op_bind_def split: prod.splits result.splits)

lemma op_bind_query: "op_bind (op_query q) f s = (case q s of Ok x \<Rightarrow> f x s | Err e \<Rightarrow> (Err e, s))"
  by (simp add: op_bind_def op_query_def split: result.split)

lemma op_bind_res: "op_bind (op_res r) f s = (case r of Ok x \<Rightarrow> f x s | Err e \<Rightarrow> (Err e, s))"
  by (simp add: op_bind_def op_res_def split: result.split)

lemma prepare_private_cases:
  assumes "prepare_private_revision E who q fresh g = (r, g')"
  obtains (kept) "g' = g"
  | (ran) authority p author v found where "user_authority g who ''skills:write'' = Ok authority" "parse_private_revision E q = Ok p"
      "prepare_tx E authority q p author v fresh g = (Ok found, g')"
proof -
  have tx: "thesis" if "user_authority g who ''skills:write'' = Ok authority" "parse_private_revision E q = Ok p"
    "op_bind (transaction (prepare_tx E authority q p author v fresh)) (\<lambda>found. op_res (f found)) g = (r, g')" for authority p author v f
    using op_bind_state [OF that(3)] that(1,2) kept ran by (auto simp: op_res_def elim!: transaction_cases)
  show ?thesis
    using assms unfolding prepare_private_revision_def Let_def
    by (simp add: op_bind_query op_bind_res split: result.splits) (use tx kept in blast)+
qed

lemma parse_private_head: "parse_private_revision E q = Ok p \<Longrightarrow> pv_expected_head p \<in> set (pv_parents p)"
  by (auto simp: parse_private_revision_def Let_def require_def res_simps split: if_splits)

lemma stored_operation_parents:
  assumes "op_each (\<lambda>(i, parent). insert_row rg_operation_parents rg_operation_parents_update operation_parent_clash ok
      \<lparr>pa_user_id = u, pa_operation_id = o', pa_ordinal = i, pa_parent_revision_id = revision_bytes parent\<rparr>) xs g = (Ok x, h)"
  shows "set (rg_operation_parents g) \<subseteq> set (rg_operation_parents h) \<and>
    (\<forall>(i, parent) \<in> set xs. \<lparr>pa_user_id = u, pa_operation_id = o', pa_ordinal = i, pa_parent_revision_id = revision_bytes parent\<rparr>
      \<in> set (rg_operation_parents h)) \<and> rg_workspaces h = rg_workspaces g \<and> rg_conflicts h = rg_conflicts g \<and>
    rg_revision_operations h = rg_revision_operations g"
  using assms
proof (induction xs arbitrary: g)
  case (Cons y ys)
  obtain i parent where y: "y = (i, parent)" by (cases y)
  let ?row = "\<lparr>pa_user_id = u, pa_operation_id = o', pa_ordinal = i, pa_parent_revision_id = revision_bytes parent\<rparr>"
  obtain k where k: "insert_row rg_operation_parents rg_operation_parents_update operation_parent_clash ok ?row g = (Ok (), k)"
    and "op_each (\<lambda>(i, parent). insert_row rg_operation_parents rg_operation_parents_update operation_parent_clash ok
      \<lparr>pa_user_id = u, pa_operation_id = o', pa_ordinal = i, pa_parent_revision_id = revision_bytes parent\<rparr>) ys k = (Ok x, h)"
    using Cons.prems y by (auto elim: op_bind_OkE)
  note Cons.IH [OF this(2)]
  moreover have "k = rg_operation_parents_update (\<lambda>_. rg_operation_parents g @ [?row]) g" using k by (simp add: insert_row_Ok)
  ultimately show ?case using y by auto
qed simp

lemma stage_same: "grows (same_by work) (op_each (\<lambda>(i, b). stage_blob E a n u o' (f i) b) xs)"
  unfolding stage_blob_def by (rule grow_intros | simp add: same_by_def work_def)+

lemma store_operation_rows:
  assumes "store_operation E a authority n q p author v gen fresh g = (Ok x, h)" "pv_expected_head p \<in> set (pv_parents p)"
  obtains row where "rg_revision_operations h = rg_revision_operations g @ [row]" "head_among_parents h row"
    "set (rg_operation_parents g) \<subseteq> set (rg_operation_parents h)" "rg_workspaces h = rg_workspaces g" "rg_conflicts h = rg_conflicts g"
    "is_operation (ua_user_id authority) (oid_bytes (pv_operation p)) row"
proof -
  let ?u = "ua_user_id authority" and ?i = "oid_bytes (pv_operation p)"
  obtain row ok ok2 k1 k2 k3 x1 y z where row: "ro_user_id row = ?u" "ro_operation_id row = ?i"
      "ro_expected_head_revision_id row = revision_bytes (pv_expected_head p)"
    and 1: "insert_row rg_revision_operations rg_revision_operations_update operation_clash ok row g = (Ok x1, k1)"
    and 2: "op_each (\<lambda>(i, parent). insert_row rg_operation_parents rg_operation_parents_update operation_parent_clash ok2
      \<lparr>pa_user_id = ?u, pa_operation_id = ?i, pa_ordinal = i, pa_parent_revision_id = revision_bytes parent\<rparr>)
      (enumerate 0 (pv_parents p)) k1 = (Ok y, k2)"
    and 3: "op_each (\<lambda>(i, b). stage_blob E a n ?u ?i (fresh i) b) (enumerate 0 (pv_blobs p)) k2 = (Ok z, k3)" and 4: "h = k3"
    using assms(1) unfolding store_operation_def Let_def
    by - (erule op_bind_OkE, erule op_bind_OkE, erule op_bind_OkE, rule that [rotated 3], assumption, assumption, assumption, simp_all)
  note parents = stored_operation_parents [OF 2]
  have work: "work h = work k2" using growsD [OF stage_same 3] 4 by (simp add: same_by_def)
  obtain j where "j < length (pv_parents p)" "pv_parents p ! j = pv_expected_head p" using assms(2) by (auto simp: in_set_conv_nth)
  then have "(j, pv_expected_head p) \<in> set (enumerate 0 (pv_parents p))" by (auto simp: in_set_enumerate_eq)
  then have "\<lparr>pa_user_id = ?u, pa_operation_id = ?i, pa_ordinal = j, pa_parent_revision_id = revision_bytes (pv_expected_head p)\<rparr>
      \<in> set (rg_operation_parents k2)" using parents by blast
  then have "head_among_parents k2 row" unfolding head_among_parents_def by (rule rev_bexI) (simp add: row)
  then show ?thesis
    using that [of row] parents 1 row work by (auto simp: insert_row_Ok work_def head_among_parents_def is_operation_def)
qed

lemma ensure_ops: "ensure_private_workspace_for_user a r u g = (Ok b, h) \<Longrightarrow> duties h = duties g"
  using growsD [OF ensure_duties] by (fastforce simp: same_by_def)

lemma prepare_new_cases:
  assumes "prepare_new E authority q p author v fresh g = (Ok found, g')"
  obtains k w gen n x where "\<And>r u z. head_of g r u = Some z \<Longrightarrow> head_of k r u = Some z" "duties k = duties g"
      "workspace_of k (rid_bytes (pv_resource p)) (ua_user_id authority) = Some w"
      "prepare_guard k (begin_actor_tx (ua_user_id authority)) authority p gen w = Ok ()"
      "store_operation E (begin_actor_tx (ua_user_id authority)) authority n q p author v gen fresh k = (Ok x, g')"
proof -
  let ?u = "ua_user_id authority" and ?r = "rid_bytes (pv_resource p)"
  let ?a = "begin_actor_tx ?u"
  let ?body = "\<lambda>(ra :: NamespacePublishAuthority) w. op_bind (query_as ?a (\<lambda>v. case rq_historical_skill_name q of None \<Rightarrow> Ok ()
                 | Some _ \<Rightarrow> require_pending_fork_promotion v ?r)) (\<lambda>_.
               op_bind (op_res (ok_or (i64_of_u64 (rq_expected_generation q))
                 (ApiError_new InvalidRequest ''generation exceeds database range''))) (\<lambda>expected_generation.
               op_bind (op_query (\<lambda>g. prepare_guard g ?a authority p expected_generation w)) (\<lambda>_.
               op_bind (store_operation E ?a authority (np_namespace_id ra) q p author v
                 expected_generation fresh) (\<lambda>staging. op_ok (Prepared_new staging)))))"
  from assms obtain ra b k current h where k: "(if np_is_team ra then ensure_private_workspace_for_user ?a ?r ?u else op_ok False) g = (Ok b, k)"
    and lock: "lock_workspace ?a ?r ?u k = (Ok current, h)"
    and rest: "(case current of None \<Rightarrow> op_err (ApiError_new NotFound ''private skill not found'')
         | Some (x, w) \<Rightarrow>
             if re_owner_namespace_id x \<noteq> Some (np_namespace_id ra)
             then op_err (ApiError_new Unauthorized ''private skill is unavailable'') else ?body ra w) h = (Ok found, g')"
    unfolding prepare_new_def Let_def
    by - (erule op_bind_OkE, erule op_bind_OkE, erule op_bind_OkE, simp only: op_simple_Ok)
  from rest obtain x w where current: "current = Some (x, w)" and body: "?body ra w h = (Ok found, g')"
    by (auto split: option.splits if_splits prod.splits)
  from body obtain gen y where "prepare_guard h ?a authority p gen w = Ok ()"
    "store_operation E ?a authority (np_namespace_id ra) q p author v gen fresh h = (Ok y, g')"
    by (auto elim!: op_bind_OkE)
  moreover have "head_of g r u = Some z \<Longrightarrow> head_of k r u = Some z" for r u z using k ensure_head_of by (auto split: if_splits)
  moreover have "duties k = duties g" using k ensure_ops by (auto split: if_splits)
  ultimately show ?thesis using lock_workspace_Ok [OF lock] current that by blast
qed

lemma prepare_tx_cases:
  assumes "prepare_tx E authority q p author v fresh g = (Ok found, g')"
  obtains (replay) "g' = g"
  | (stored) "op_of g (ua_user_id authority) (oid_bytes (pv_operation p)) = None"
      "prepare_new E authority q p author v fresh g = (Ok found, g')"
proof -
  have "(case op_of g (ua_user_id authority) (oid_bytes (pv_operation p)) of
      Some row \<Rightarrow> prepare_replay (begin_actor_tx (ua_user_id authority)) row p
    | None \<Rightarrow> prepare_new E authority q p author v fresh) g = (Ok found, g')"
    using assms unfolding prepare_tx_def Let_def by (elim op_bind_OkE) (simp add: fetch_op_of)
  then show ?thesis
    using replay stored by (cases "op_of g (ua_user_id authority) (oid_bytes (pv_operation p))")
      (auto simp: prepare_replay_def elim!: op_bind_OkE)
qed

lemma ops_ok_grown:
  assumes "ops_ok g" "rg_revision_operations h = rg_revision_operations g @ [row]" "head_among_parents h row"
    and "set (rg_operation_parents g) \<subseteq> set (rg_operation_parents h)"
  shows "ops_ok h"
  using assms unfolding ops_ok_def head_among_parents_def by fastforce

lemma completed_grown: "completed g u i hash r \<Longrightarrow> rg_revision_operations h = rg_revision_operations g @ [row] \<Longrightarrow> completed h u i hash r"
  by (auto simp: completed_def op_of_def sql_first_snoc)

lemma completed_same: "rg_revision_operations h = rg_revision_operations g \<Longrightarrow> completed h = completed g"
  by (simp add: completed_def op_of_def fun_eq_iff)

lemma prepare_effect:
  assumes "prepare_private_revision E who q fresh g = (r, g')"
  shows "head_of g s u = Some z \<Longrightarrow> head_of g' s u = Some z" "rg_conflicts g' = rg_conflicts g"
    and "ops_ok g \<Longrightarrow> ops_ok g'" "completed g u i hash out \<Longrightarrow> completed g' u i hash out" "history_le g g'"
proof -
  have "(head_of g s u = Some z \<longrightarrow> head_of g' s u = Some z) \<and> rg_conflicts g' = rg_conflicts g \<and>
     (ops_ok g \<longrightarrow> ops_ok g') \<and> (completed g u i hash out \<longrightarrow> completed g' u i hash out) \<and> history_le g g'"
    using assms
  proof (cases rule: prepare_private_cases)
    case (ran authority p author v found)
    have hist: "history_le g g'" using growsD [OF prepare_history ran(3)] .
    show ?thesis using ran(3)
    proof (cases rule: prepare_tx_cases)
      case stored
      from stored(2) show ?thesis
      proof (rule prepare_new_cases)
        fix k w gen n x
        assume heads: "\<And>r u z. head_of g r u = Some z \<Longrightarrow> head_of k r u = Some z" and k: "duties k = duties g"
          and st: "store_operation E (begin_actor_tx (ua_user_id authority)) authority n q p author v gen fresh k = (Ok x, g')"
        obtain row where row: "rg_revision_operations g' = rg_revision_operations k @ [row]" "head_among_parents g' row"
          "set (rg_operation_parents k) \<subseteq> set (rg_operation_parents g')" "rg_workspaces g' = rg_workspaces k"
          "rg_conflicts g' = rg_conflicts k"
          using st parse_private_head [OF ran(2)] by (rule store_operation_rows)
        have d: "rg_conflicts k = rg_conflicts g" "rg_revision_operations k = rg_revision_operations g"
          "rg_operation_parents k = rg_operation_parents g" using k by (simp_all add: duties_def)
        have "head_of g' = head_of k" using row(4) by (simp add: head_of_def workspace_of_def fun_eq_iff)
        then show ?thesis
          using heads row d ops_ok_grown [of g g' row] completed_grown [of g u i hash out g' row] hist by simp
      qed
    qed (use hist in simp)
  qed simp
  then show "head_of g s u = Some z \<Longrightarrow> head_of g' s u = Some z" "rg_conflicts g' = rg_conflicts g"
    "ops_ok g \<Longrightarrow> ops_ok g'" "completed g u i hash out \<Longrightarrow> completed g' u i hash out" "history_le g g'" by blast+
qed

section \<open>Reading for a commit\<close>

lemma collect_decode: "collect_res (\<lambda>p. decode_32 (f p) field) xs = Ok ys \<Longrightarrow> ys = map f xs"
  by (induction xs arbitrary: ys) (auto simp: res_simps)

lemma fetch_parents:
  assumes "fetch_revision_operation_parents (actor_view (begin_actor_tx u) g) u i = Ok parents"
  shows "set parents = pa_parent_revision_id ` {p \<in> set (rg_operation_parents g). pa_user_id p = u \<and> pa_operation_id p = i}"
  using collect_decode [OF assms [unfolded fetch_revision_operation_parents_def]]
  by (auto simp: actor_view_def begin_actor_tx_def)

lemma commit_read_expected:
  assumes "commit_read E down who q s = Ok (Verified c)" "ops_ok (sv_db s)"
  shows "ro_expected_head_revision_id (vc_operation c) \<in> set (vc_parents c)"
proof -
  let ?g = "sv_db s"
  obtain u where op: "fetch_revision_operation (actor_view (begin_actor_tx u) ?g) u (vc_operation_id c) = Some (vc_operation c)"
    and parents: "fetch_revision_operation_parents (actor_view (begin_actor_tx u) ?g) u (vc_operation_id c) = Ok (vc_parents c)"
    using assms(1) unfolding commit_read_def Let_def
    by (auto simp: res_simps split: if_splits prod.splits)
  have "op_of ?g u (vc_operation_id c) = Some (vc_operation c)" using op by (simp add: fetch_op_of)
  then have "vc_operation c \<in> set (rg_revision_operations ?g) \<and> is_operation u (vc_operation_id c) (vc_operation c)"
    unfolding op_of_def by (rule sql_first_SomeD)
  then obtain p where "p \<in> set (rg_operation_parents ?g)" "pa_user_id p = u" "pa_operation_id p = vc_operation_id c"
    "pa_parent_revision_id p = ro_expected_head_revision_id (vc_operation c)"
    using assms(2) unfolding ops_ok_def head_among_parents_def is_operation_def by metis
  then show ?thesis unfolding fetch_parents [OF parents] by force
qed

lemma commit_read_replays:
  assumes "completed (sv_db s) (ua_user_id authority) (oid_bytes i) (rh_bytes hash) r"
    and "user_authority (sv_db s) who ''skills:write'' = Ok authority"
    and "id_from_str (ge_uuid E) OperationId (cq_operation_id q) = Ok i"
    and "RequestHash_from_str (he_hex (ge_hash E)) (cq_request_hash q) = Ok hash"
  shows "commit_read E down who q s = Ok (Already r)"
  using assms unfolding commit_read_def Let_def
  by (auto simp: completed_def fetch_op_of bad_request_def bad_hash_def ensure_request_hash_def revision_operation_state_def
      decode_revision_outcome_def)

end
