(* ===== verification/Registry_Runs.thy ===== *)
theory Registry_Runs
  imports Registry_Operations
begin

text \<open>
  Requests running side by side.  A service is the registry with the commits and restores that have read their
  content and not yet written; a step is one transaction or one exchange with the object store, of any request.
  Transactions on one workspace exclude each other by its row lock, so each is one step.
\<close>

section \<open>Conflicts\<close>

definition conflicts_of :: "registry \<Rightarrow> string \<Rightarrow> string \<Rightarrow> conflict_row list" where
  "conflicts_of g r u = filter (active_conflict_of r u) (rg_conflicts g)"

lemma active_conflict_view: "active_conflict (actor_view (begin_actor_tx u) g) r u = None \<longleftrightarrow> conflicts_of g r u = []"
proof -
  have "filter (active_conflict_of r u) (rg_conflicts (actor_view (begin_actor_tx u) g)) = conflicts_of g r u"
    by (auto simp: actor_view_def begin_actor_tx_def conflicts_of_def active_conflict_of_def intro!: filter_cong)
  then show ?thesis
    unfolding active_conflict_def
    by (cases "sort_key (\<lambda>c. (cf_created_at c, cf_conflict_id c)) (conflicts_of g r u)") (auto dest: arg_cong [where f = set])
qed

lemma filter_map_other: "(\<And>x. P (f x) = P x) \<Longrightarrow> (\<And>x. P x \<Longrightarrow> f x = x) \<Longrightarrow> filter P (map f xs) = filter P xs"
  by (induction xs) auto

lemma resolve_other:
  assumes "(r', u') \<noteq> (r, u)"
  shows "grows (same_by (\<lambda>g. conflicts_of g r' u')) (resolve_workspace_conflict a i r u v)"
proof -
  have "conflicts_of h r' u' = conflicts_of g r' u'"
    if "update_rows rg_conflicts rg_conflicts_update
       (\<lambda>g c. cf_conflict_id c = i \<and> active_conflict_of r u c \<and> conflict_policy a g c)
       (conflict_ok a) (\<lambda>c. c\<lparr>cf_resolution_revision_id := Some v, cf_resolved := True\<rparr>) g = (Ok n, h)" for g h n
    using that [unfolded update_rows_Ok, THEN conjunct2, THEN conjunct1] assms unfolding conflicts_of_def
    by (auto simp: active_conflict_of_def intro!: filter_map_other)
  then show ?thesis
    unfolding resolve_workspace_conflict_def grows_def same_by_def by (auto elim!: op_bind_OkE split: if_splits)
qed

lemma upsert_other:
  assumes "(r', u') \<noteq> (cf_resource_id row, cf_user_id row)"
  shows "grows (same_by (\<lambda>g. conflicts_of g r' u')) (upsert_conflict a row)"
proof -
  have "conflicts_of h r' u' = conflicts_of g r' u'" if up: "upsert_conflict a row g = (Ok y, h)" for g h y
  proof (cases "sql_first (same_active_pair row) (rg_conflicts g)")
    case None
    then show ?thesis using up assms
      by (auto simp: upsert_conflict_def sql_exec_def sql_insert_def conflicts_of_def active_conflict_of_def split: if_splits)
  next
    case (Some c)
    then have c: "same_active_pair row c" by (blast dest: sql_first_SomeD)
    let ?c = "c\<lparr>cf_active_revision_id := cf_active_revision_id row, cf_detected_generation := cf_detected_generation row\<rparr>"
    have "rg_conflicts h = map (\<lambda>x. if same_active_pair row x then ?c else x) (rg_conflicts g)"
      using up Some by (auto simp: upsert_conflict_def sql_exec_def Let_def split: if_splits)
    then show ?thesis
      unfolding conflicts_of_def using c assms
      by (auto simp: same_active_pair_def active_conflict_of_def intro!: filter_map_other)
  qed
  then show ?thesis by (simp add: grows_def same_by_def)
qed

lemma content_other: "grows content_le m \<Longrightarrow> grows (same_by (\<lambda>g. conflicts_of g r' u')) m"
  by (auto simp: grows_def content_le_def work_def same_by_def conflicts_of_def)

lemma commit_other:
  assumes "(r', u') \<noteq> (commit_resource c, commit_user c)"
  shows "grows (same_by (\<lambda>g. conflicts_of g r' u')) (commit_write_tx E c i now)"
proof -
  have same: "same_by (\<lambda>g. conflicts_of g r' u') g h" if "rg_conflicts h = rg_conflicts g" for g h
    using that by (simp add: same_by_def conflicts_of_def)
  have parts: "grows (same_by (\<lambda>g. conflicts_of g r' u')) (set_workspace_head a r u hc)"
    "grows (same_by (\<lambda>g. conflicts_of g r' u')) (finish_operation a u o' out)"
    "grows (same_by (\<lambda>g. conflicts_of g r' u')) (update_rows rg_forks rg_forks_update P ok f)"
    "grows (same_by (\<lambda>g. conflicts_of g r' u')) (lock_workspace a r u)" for a r u hc o' out P ok f
    unfolding set_workspace_head_def finish_operation_def lock_workspace_def
    by (rule grow_intros | rule same | simp)+
  have adv: "grows (same_by (\<lambda>g. conflicts_of g r' u')) (advance_head E a c fs team rgen wgen)" for a fs team rgen wgen
    unfolding advance_head_def Let_def
    by (rule grow_intros parts resolve_other [OF assms] content_other [OF resource_head_content])+
  have div: "grows (same_by (\<lambda>g. conflicts_of g r' u')) (record_divergence E a c i now h rgen wgen)" for a h rgen wgen
    unfolding record_divergence_def record_workspace_conflict_def Let_def
    by (rule grow_intros upsert_other | use assms in simp)+
  show ?thesis
    unfolding commit_write_tx_def commit_locked_def commit_prepared_def Let_def
    by (rule grow_intros adv div parts content_other [OF commit_store_content] content_other [OF wake_content] | simp add: same)+
qed

section \<open>A workspace that cannot be reconciled\<close>

text \<open>An unresolved conflict between two stored revisions, neither of which is the head.\<close>

definition blocked :: "registry \<Rightarrow> string \<Rightarrow> string \<Rightarrow> bool" where
  "blocked g r u \<longleftrightarrow> conflicts_of g r u \<noteq> [] \<and>
     (\<exists>h n. head_of g r u = Some (h, n) \<and>
       (\<forall>c \<in> set (conflicts_of g r u). h \<noteq> cf_head_a_revision_id c \<and> h \<noteq> cf_head_b_revision_id c))"

text \<open>The foreign keys of the conflict table.\<close>

definition conflicts_known :: "registry \<Rightarrow> string \<Rightarrow> string \<Rightarrow> bool" where
  "conflicts_known g r u \<longleftrightarrow>
     list_all (\<lambda>c. known_revision g (cf_head_a_revision_id c) \<and> known_revision g (cf_head_b_revision_id c)) (conflicts_of g r u)"

lemma validate_merge_heads:
  assumes "validate_merge_conflict (actor_view (begin_actor_tx u) g) ok i r u (map RevisionId parents) = Ok ()"
  shows "\<exists>c \<in> set (conflicts_of g r u). parents = [cf_head_a_revision_id c, cf_head_b_revision_id c]"
proof -
  obtain c where c: "sql_first (\<lambda>c. cf_conflict_id c = i \<and> active_conflict_of r u c \<and> ok c)
      (rg_conflicts (actor_view (begin_actor_tx u) g)) = Some c"
    and "[RevisionId (cf_head_a_revision_id c), RevisionId (cf_head_b_revision_id c)] = map RevisionId parents"
    using assms unfolding validate_merge_conflict_def decode_revision_def by (auto simp: res_simps split: if_splits)
  moreover have "c \<in> set (conflicts_of g r u)"
    using sql_first_SomeD [OF c] by (auto simp: conflicts_of_def actor_view_def)
  ultimately show ?thesis by (auto simp: map_eq_Cons_conv)
qed

lemma blocked_heads:
  assumes "blocked g r u" "workspace_of g r u = Some w" "c \<in> set (conflicts_of g r u)"
  shows "wk_revision_id w \<notin> set [cf_head_a_revision_id c, cf_head_b_revision_id c]"
  using assms by (auto simp: blocked_def head_of_def)

lemma blocked_commit:
  assumes "blocked g (commit_resource c) (commit_user c)" "ro_expected_head_revision_id (vc_operation c) \<in> set (vc_parents c)"
  shows "commit_write_tx E c i now g \<noteq> (Ok (True, r), g')"
proof
  assume "commit_write_tx E c i now g = (Ok (True, r), g')"
  then obtain fs w where w: "workspace_of g (commit_resource c) (commit_user c) = Some w"
    and guard: "commit_guard g (commit_actor c) c fs w (wk_revision_id w = ro_expected_head_revision_id (vc_operation c)) = Ok ()"
    by (rule commit_written)
  have "active_conflict (actor_view (commit_actor c) g) (commit_resource c) (commit_user c) \<noteq> None"
    using assms(1) by (simp add: active_conflict_view blocked_def)
  then obtain k where k: "active_conflict (actor_view (commit_actor c) g) (commit_resource c) (commit_user c) = Some k" by blast
  have head: "wk_revision_id w = ro_expected_head_revision_id (vc_operation c)"
    and merge: "validate_merge_conflict (actor_view (commit_actor c) g) (conflict_policy (commit_actor c) g) (vc_operation_id c)
      (commit_resource c) (commit_user c) (map RevisionId (vc_parents c)) = Ok ()"
    using guard k unfolding commit_guard_def Let_def by (auto split: if_splits option.splits)
  show False using validate_merge_heads [OF merge] blocked_heads [OF assms(1) w] assms(2) head by auto
qed

lemma blocked_prepare:
  assumes "blocked g (rid_bytes (pv_resource p)) (ua_user_id authority)" "pv_expected_head p \<in> set (pv_parents p)"
    and "workspace_of g (rid_bytes (pv_resource p)) (ua_user_id authority) = Some w"
  shows "prepare_guard g (begin_actor_tx (ua_user_id authority)) authority p gen w \<noteq> Ok ()"
proof
  let ?u = "ua_user_id authority" and ?r = "rid_bytes (pv_resource p)"
  assume guard: "prepare_guard g (begin_actor_tx ?u) authority p gen w = Ok ()"
  have "active_conflict (actor_view (begin_actor_tx ?u) g) ?r ?u \<noteq> None"
    using assms(1) by (simp add: active_conflict_view blocked_def)
  then obtain k where k: "active_conflict (actor_view (begin_actor_tx ?u) g) ?r ?u = Some k" by blast
  have head: "wk_revision_id w = revision_bytes (pv_expected_head p)"
    and merge: "validate_merge_conflict (actor_view (begin_actor_tx ?u) g) (conflict_policy (begin_actor_tx ?u) g) k ?r ?u (pv_parents p) = Ok ()"
    using guard k unfolding prepare_guard_def Let_def by (auto split: if_splits option.splits)
  have "pv_parents p = map RevisionId (map revision_bytes (pv_parents p))"
    by (simp add: comp_def)
  then obtain c where "c \<in> set (conflicts_of g ?r ?u)" "map revision_bytes (pv_parents p) = [cf_head_a_revision_id c, cf_head_b_revision_id c]"
    using merge validate_merge_heads by metis
  moreover have "wk_revision_id w \<in> set (map revision_bytes (pv_parents p))" using assms(2) head by auto
  ultimately show False using blocked_heads [OF assms(1,3)] by metis
qed

section \<open>Steps\<close>

record service =
  sc_server :: server
  sc_commits :: "verified_commit list"
  sc_restores :: "verified_restore list"

abbreviation db :: "service \<Rightarrow> registry" where
  "db s \<equiv> sv_db (sc_server s)"

text \<open>A commit finds no other parents stored under the identity of its revision: identities are hashes that cover
  the parents, and this is the only place where the statements rely on it.\<close>

definition commit_agrees :: "service \<Rightarrow> verified_commit \<Rightarrow> bool" where
  "commit_agrees s c \<longleftrightarrow> agrees (ro_revision_id (vc_operation c)) (vc_parents c) (db s)"

inductive service_step :: "('v, 'm) reg_env \<Rightarrow> service \<Rightarrow> service \<Rightarrow> bool" for E where
  prepare: "prepare_private_revision E who q fresh (db s) = (r, g) \<Longrightarrow>
    service_step E s (s\<lparr>sc_server := (sc_server s)\<lparr>sv_db := g\<rparr>\<rparr>)"
| upload: "service_step E s (s\<lparr>sc_server := (sc_server s)\<lparr>sv_objects := (sv_objects (sc_server s))(key \<mapsto> bytes)\<rparr>\<rparr>)"
| commit_begin: "commit_read E down who q (sc_server s) = Ok (Verified c) \<Longrightarrow>
    service_step E s (s\<lparr>sc_commits := c # sc_commits s\<rparr>)"
| commit_put: "c \<in> set (sc_commits s) \<Longrightarrow> commit_objects E down c (sc_server s) = (r, v) \<Longrightarrow>
    service_step E s (s\<lparr>sc_server := v\<rparr>)"
| commit_end: "c \<in> set (sc_commits s) \<Longrightarrow> commit_agrees s c \<Longrightarrow> commit_write E c i now (sc_server s) = (r, v) \<Longrightarrow>
    service_step E s (s\<lparr>sc_server := v\<rparr>)"
| commit_clean: "c \<in> set (sc_commits s) \<Longrightarrow> set keys \<subseteq> set (map (\<lambda>(b, z, k). k) (vc_staging c)) \<Longrightarrow>
    service_step E s (s\<lparr>sc_server := delete_objects keys (sc_server s)\<rparr>)"
| restore_begin: "user_authority (db s) who ''skills:write'' = Ok authority \<Longrightarrow> parse_restore E q = Ok p \<Longrightarrow>
    restore_read E down authority q p (sc_server s) = Ok c \<Longrightarrow> service_step E s (s\<lparr>sc_restores := c # sc_restores s\<rparr>)"
| restore_end: "c \<in> set (sc_restores s) \<Longrightarrow> restore_write E c (sc_server s) = (r, v) \<Longrightarrow>
    service_step E s (s\<lparr>sc_server := v\<rparr>)"
| drain: "drain_outbox (ge_uuid E) n (sc_server s) = (r, v) \<Longrightarrow> service_step E s (s\<lparr>sc_server := v\<rparr>)"

abbreviation service_run :: "('v, 'm) reg_env \<Rightarrow> service \<Rightarrow> service \<Rightarrow> bool" where
  "service_run E \<equiv> (service_step E)\<^sup>*\<^sup>*"

text \<open>Every commit under way expects a head that its revision has as a parent.\<close>

definition service_ok :: "service \<Rightarrow> bool" where
  "service_ok s \<longleftrightarrow> ops_ok (db s) \<and>
     (\<forall>c \<in> set (sc_commits s). ro_expected_head_revision_id (vc_operation c) \<in> set (vc_parents c))"

lemma op_each_db:
  assumes "\<And>x s r t. f x s = (r, t) \<Longrightarrow> sv_db t = sv_db s" "op_each f xs s = (r, t)"
  shows "sv_db t = sv_db s"
  using assms(2)
proof (induction xs arbitrary: s)
  case (Cons x xs)
  then show ?case using op_bind_state [of "f x" "\<lambda>_. op_each f xs" s r t] assms(1) by fastforce
qed (simp add: op_ok_def)

lemma put_object_db: "put_object down key bytes s = (r, t) \<Longrightarrow> sv_db t = sv_db s"
  by (auto simp: put_object_def split: option.splits)

lemma commit_objects_db:
  assumes "commit_objects E down c s = (r, t)"
  shows "sv_db t = sv_db s"
proof -
  have each: "sv_db t = sv_db s" if "op_each (\<lambda>(blob, _). case map_of (vc_bytes c) blob of
         None \<Rightarrow> op_err (ApiError_new Internal ''verified staged blob disappeared'')
       | Some bytes \<Rightarrow> put_object down (canonical_blob_key (ge_hash E) blob) bytes) xs s = (r, t)" for xs s t r
    using _ that by (rule op_each_db) (auto simp: op_err_def split: option.splits dest: put_object_db)
  from op_bind_state [OF assms [unfolded commit_objects_def]] show ?thesis
    by (elim disjE exE conjE) (use each put_object_db in \<open>blast, fastforce\<close>)
qed

definition quiet :: "registry \<Rightarrow> registry \<Rightarrow> bool" where
  "quiet g h \<longleftrightarrow> work h = work g \<and> rg_parents h = rg_parents g \<and> rg_revisions h = rg_revisions g"

lemma drain_quiet: "drain_outbox L n s = (r, t) \<Longrightarrow> quiet (sv_db s) (sv_db t)"
proof -
  have "grows (same_by (\<lambda>s. (work (sv_db s), rg_parents (sv_db s), rg_revisions (sv_db s)))) (op_each (dispatch L) rows)" for rows
    unfolding dispatch_def
    by (rule grow_intros | simp add: grows_def same_by_def work_def)+
  then show "drain_outbox L n s = (r, t) \<Longrightarrow> quiet (sv_db s) (sv_db t)"
    unfolding drain_outbox_def Let_def grows_def same_by_def quiet_def
    by (auto split: prod.splits result.splits)
qed

text \<open>What a step did to the database.\<close>

lemma step_cases:
  assumes "service_step E s t"
  obtains (quiet) "quiet (db s) (db t)"
  | (prepared) who q fresh r where "prepare_private_revision E who q fresh (db s) = (r, db t)"
  | (committed) c i now b r where "c \<in> set (sc_commits s)" "commit_agrees s c" "commit_write_tx E c i now (db s) = (Ok (b, r), db t)"
  | (restored) c y where "restore_write_tx E c (db s) = (Ok y, db t)"
  using assms
proof cases
  case (prepare who q fresh r g)
  then show ?thesis using prepared by simp
next
  case (commit_put c down r v)
  have "sv_db v = db s" using commit_put(3) by (rule commit_objects_db)
  then show ?thesis using quiet commit_put(1) by (simp add: quiet_def)
next
  case (commit_end c i now r v)
  then obtain r' where r': "transaction (commit_write_tx E c i now) (db s) = (r', db t)"
    by (auto simp: commit_write_def split: prod.splits)
  from r' show ?thesis
    by (rule transaction_cases) (use quiet committed commit_end in \<open>auto simp: quiet_def\<close>)
next
  case (restore_end c r v)
  then obtain r' where r': "transaction (restore_write_tx E c) (db s) = (r', db t)"
    by (auto simp: restore_write_def split: prod.splits)
  from r' show ?thesis by (rule transaction_cases) (use quiet restored in \<open>auto simp: quiet_def\<close>)
next
  case (drain n r v)
  then show ?thesis using quiet drain_quiet by auto
qed (use quiet in \<open>simp_all add: quiet_def delete_objects_def\<close>)

lemma quiet_same:
  assumes "quiet g h"
  shows "history_le g h" "head_of h = head_of g" "ops_ok h = ops_ok g" "completed h = completed g" "conflicts_of h = conflicts_of g"
    "known_revision h = known_revision g"
  using assms head_of_work [of h g] completed_same [of h g] ops_ok_desk [of h g]
  by (auto simp: quiet_def history_le_def head_of_def work_def conflicts_of_def known_revision_def fun_eq_iff)

lemma step_history: "service_step E s t \<Longrightarrow> history_le (db s) (db t)"
  by (erule step_cases) (blast dest: quiet_same(1) prepare_effect(5) growsD [OF commit_history] growsD [OF restore_history])+

lemma restored_duties: "restore_write_tx E c g = (Ok y, g') \<Longrightarrow> duties g' = duties g"
  using growsD [OF restore_duties] by (fastforce simp: same_by_def)

lemma step_ops_ok: "service_step E s t \<Longrightarrow> ops_ok (db s) \<Longrightarrow> ops_ok (db t)"
proof (erule step_cases)
  fix c i now b r
  assume "ops_ok (db s)" "commit_write_tx E c i now (db s) = (Ok (b, r), db t)"
  then show "ops_ok (db t)"
    using commit_rows [of E c i now "db s" b r "db t"] ops_ok_finished [of "db t" _ _ r "db s"] ops_ok_desk [of "db t" "db s"] by (cases b) auto
next
  fix c y
  assume "ops_ok (db s)" "restore_write_tx E c (db s) = (Ok y, db t)"
  then show "ops_ok (db t)" using restored_duties ops_ok_desk [of "db t" "db s"] by (fastforce simp: duties_def)
qed (use quiet_same(3) prepare_effect(3) in blast)+

lemma step_commits: "service_step E s t \<Longrightarrow> service_ok s \<Longrightarrow> c \<in> set (sc_commits t) \<Longrightarrow>
  ro_expected_head_revision_id (vc_operation c) \<in> set (vc_parents c)"
  by (erule service_step.cases) (auto simp: service_ok_def dest: commit_read_expected)

lemma step_ok: "service_step E s t \<Longrightarrow> service_ok s \<Longrightarrow> service_ok t"
  using step_ops_ok step_commits unfolding service_ok_def by blast

lemma step_completed: "service_step E s t \<Longrightarrow> completed (db s) u i hash r \<Longrightarrow> completed (db t) u i hash r"
proof (erule step_cases)
  fix c j now b r'
  assume "completed (db s) u i hash r" "commit_write_tx E c j now (db s) = (Ok (b, r'), db t)"
  then show "completed (db t) u i hash r"
    using commit_rows(1) [of E c j now "db s" b r' "db t"] completed_finished [of "db t" "commit_user c" "vc_operation_id c" r' "db s" u i hash r] completed_same [of "db t" "db s"]
    by (cases b) auto
next
  fix c y
  assume *: "completed (db s) u i hash r" "restore_write_tx E c (db s) = (Ok y, db t)"
  then have "rg_revision_operations (db t) = rg_revision_operations (db s)" using restored_duties by (fastforce simp: duties_def)
  then show "completed (db t) u i hash r" using * completed_same by metis
qed (use quiet_same(4) prepare_effect(4) in metis)+

text \<open>A head stays, or its successor has it as a parent and a greater generation.\<close>

lemma step_head:
  assumes "service_step E s t" "service_ok s" "head_of (db s) r u = Some (h, n)"
  shows "\<exists>h' n'. head_of (db t) r u = Some (h', n') \<and> (h' = h \<and> n' = n \<or> n < n' \<and> has_parent (db t) h' h)"
  using assms(1)
proof (cases rule: step_cases)
  case quiet
  then show ?thesis using quiet_same(2) assms(3) by metis
next
  case (prepared who q fresh out)
  then show ?thesis using prepare_effect(1) assms(3) by blast
next
  case (committed c i now b out)
  show ?thesis
  proof (cases b)
    case True
    then have "commit_write_tx E c i now (db s) = (Ok (True, out), db t)" using committed by simp
    note step = commit_head [OF this]
    have parent: "ro_expected_head_revision_id (vc_operation c) \<in> set (vc_parents c)" using assms(2) committed(1) by (simp add: service_ok_def)
    show ?thesis
    proof (cases "(r, u) = (commit_resource c, commit_user c) \<and> moves_head c (db s) (db t)")
      case True
      then show ?thesis using assms(3) committed(2) parent unfolding moves_head_def commit_agrees_def by auto
    next
      case False
      then have "head_of (db t) r u = head_of (db s) r u" using step by auto
      then show ?thesis using assms(3) by simp
    qed
  next
    case False
    then have "db t = db s" using committed(3) commit_replayed(1) by (metis (full_types))
    then show ?thesis using assms(3) by simp
  qed
next
  case (restored c y)
  then obtain h' n' v where "head_of (db t) (restore_resource c) (restore_user c) = Some (v, n' + 1)"
    "head_of (db s) (restore_resource c) (restore_user c) \<in> {None, Some (h', n')}" "has_parent (db t) v h'"
    "\<forall>r u x. (r, u) \<noteq> (restore_resource c, restore_user c) \<longrightarrow> head_of (db s) r u = Some x \<longrightarrow> head_of (db t) r u = Some x"
    by (rule restore_step)
  then show ?thesis using assms(3) by (cases "(r, u) = (restore_resource c, restore_user c)") auto
qed

lemma known_mono: "history_le g h \<Longrightarrow> known_revision g v \<Longrightarrow> known_revision h v"
  by (auto simp: history_le_def known_revision_def list_ex_iff)

text \<open>A blocked workspace stays blocked: nothing but a restore moves its head, and a restore moves it to a new revision.\<close>

lemma step_blocked:
  assumes "service_step E s t" "service_ok s" "blocked (db s) r u" "conflicts_known (db s) r u"
  shows "blocked (db t) r u \<and> conflicts_known (db t) r u"
proof -
  obtain h n where head: "head_of (db s) r u = Some (h, n)" using assms(3) by (auto simp: blocked_def)
  have kept: ?thesis if same: "conflicts_of (db t) r u = conflicts_of (db s) r u" and "head_of (db t) r u = head_of (db s) r u"
    using that assms(3,4) step_history [OF assms(1)] known_mono unfolding blocked_def conflicts_known_def list_all_iff by auto
  show ?thesis using assms(1)
  proof (cases rule: step_cases)
    case quiet
    then show ?thesis using kept quiet_same by metis
  next
    case (prepared who q fresh out)
    then show ?thesis using prepare_effect(1) [OF prepared head] prepare_effect(2) [OF prepared] head by (intro kept) (simp_all add: conflicts_of_def)
  next
    case (committed c i now b out)
    show ?thesis
    proof (cases b)
      case True
      then have c: "commit_write_tx E c i now (db s) = (Ok (True, out), db t)" using committed(3) by simp
      have "ro_expected_head_revision_id (vc_operation c) \<in> set (vc_parents c)" using assms(2) committed(1) by (simp add: service_ok_def)
      then have other: "(r, u) \<noteq> (commit_resource c, commit_user c)" using blocked_commit c assms(3) by blast
      then have "conflicts_of (db t) r u = conflicts_of (db s) r u" using growsD [OF commit_other c] by (simp add: same_by_def)
      moreover have "head_of (db t) r u = head_of (db s) r u" using commit_head [OF c] other by auto
      ultimately show ?thesis by (rule kept)
    next
      case False
      then have "db t = db s" using committed(3) commit_replayed(1) by (metis (full_types))
      then show ?thesis using assms(3,4) by simp
    qed
  next
    case (restored c y)
    have same: "conflicts_of (db t) r u = conflicts_of (db s) r u"
      using restored_duties [OF restored] by (simp add: duties_def conflicts_of_def)
    from restored show ?thesis
    proof (rule restore_step)
      fix h' n' v
      assume new: "head_of (db t) (restore_resource c) (restore_user c) = Some (v, n' + 1)" "\<not> known_revision (db s) v"
        "\<forall>r u x. (r, u) \<noteq> (restore_resource c, restore_user c) \<longrightarrow> head_of (db s) r u = Some x \<longrightarrow> head_of (db t) r u = Some x"
      show ?thesis
      proof (cases "(r, u) = (restore_resource c, restore_user c)")
        case True
        then show ?thesis
          using new(1,2) same assms(3,4) step_history [OF assms(1)] known_mono
          unfolding blocked_def conflicts_known_def list_all_iff by auto
      next
        case False
        then show ?thesis using new(3) head same by (intro kept) auto
      qed
    qed
  qed
qed

lemma restore_blocks:
  assumes "restore_write_tx E c g = (Ok y, g')" "conflicts_of g (restore_resource c) (restore_user c) \<noteq> []"
    and "conflicts_known g (restore_resource c) (restore_user c)"
  shows "blocked g' (restore_resource c) (restore_user c) \<and> conflicts_known g' (restore_resource c) (restore_user c)"
  using assms(1)
proof (rule restore_step)
  fix h n v
  assume new: "head_of g' (restore_resource c) (restore_user c) = Some (v, n + 1)" "\<not> known_revision g v"
  have "conflicts_of g' = conflicts_of g" using restored_duties [OF assms(1)] by (simp add: duties_def conflicts_of_def fun_eq_iff)
  then show ?thesis
    using new assms(2,3) growsD [OF restore_history assms(1)] known_mono
    unfolding blocked_def conflicts_known_def list_all_iff by auto
qed

end
