(* ===== verification/Registry_Run_Props.thy ===== *)
theory Registry_Run_Props
  imports Registry_Runs
begin

text \<open>
  What holds however requests interleave: a saved head is an ancestor of every later head, a commit that answered
  gives the same answer ever after, and a restore that runs while a conflict is unresolved leaves a workspace
  in which nothing can be saved any more.
\<close>

section \<open>Heads and outcomes along runs\<close>

lemma run_ok: "service_run E s t \<Longrightarrow> service_ok s \<Longrightarrow> service_ok t"
  by (induction rule: rtranclp_induct) (auto intro: step_ok)

lemma run_completed: "service_run E s t \<Longrightarrow> completed (db s) u i hash r \<Longrightarrow> completed (db t) u i hash r"
  by (induction rule: rtranclp_induct) (auto intro: step_completed)

lemma ancestor_trans:
  assumes "revision_is_ancestor rp a b = Ok True" "set rp \<subseteq> set rq" "b = c \<or> revision_is_ancestor rq b c = Ok True"
  shows "revision_is_ancestor rq a c = Ok True"
proof -
  have "(parent_edges rp)\<^sup>* \<subseteq> (parent_edges rq)\<^sup>*" using assms(2) by (intro rtrancl_mono) (auto simp: parent_edges_def)
  then show ?thesis using assms(1,3) unfolding revision_is_ancestor_iff by (auto intro: rtrancl_trans)
qed

lemma has_parent_is_ancestor: "has_parent g v p \<Longrightarrow> revision_is_ancestor (rg_parents g) p v = Ok True"
  by (auto simp: revision_is_ancestor_iff has_parent_def parent_edges_def)

text \<open>C1. However private revisions are prepared, committed and restored side by side, the head a workspace has once had is
  never lost: the workspace still has a head, the old one is an ancestor of it, and the generation grows
  whenever the head changes.\<close>

theorem saved_heads_are_never_lost:
  assumes "service_run E s t" "service_ok s" "head_of (db s) r u = Some (h, n)"
  shows "\<exists>h' n'. head_of (db t) r u = Some (h', n') \<and> n \<le> n' \<and> (n' = n \<longrightarrow> h' = h) \<and>
    revision_is_ancestor (rg_parents (db t)) h h' = Ok True"
  using assms(1)
proof (induction rule: rtranclp_induct)
  case base
  then show ?case using assms(3) by (simp add: revision_is_ancestor_iff)
next
  case (step t t')
  then obtain h1 n1 where 1: "head_of (db t) r u = Some (h1, n1)" "n \<le> n1" "n1 = n \<longrightarrow> h1 = h"
    "revision_is_ancestor (rg_parents (db t)) h h1 = Ok True" by blast
  obtain h2 n2 where 2: "head_of (db t') r u = Some (h2, n2)" "h2 = h1 \<and> n2 = n1 \<or> n1 < n2 \<and> has_parent (db t') h2 h1"
    using step_head [OF step(2) run_ok [OF step(1) assms(2)] 1(1)] by blast
  then have "h1 = h2 \<or> revision_is_ancestor (rg_parents (db t')) h1 h2 = Ok True" using has_parent_is_ancestor by blast
  then have "revision_is_ancestor (rg_parents (db t')) h h2 = Ok True"
    using ancestor_trans [OF 1(4)] step_history [OF step(2)] by (simp add: history_le_def)
  then show ?case using 1(2,3) 2 by auto
qed

text \<open>C7. A commit that answered is final: after any later requests, committing the same operation again with the same
  request hash returns the same answer and changes nothing.\<close>

theorem committed_answer_is_final:
  assumes "commit_write E c i now (sc_server s) = (Ok (b, r), v)" "service_run E (s\<lparr>sc_server := v\<rparr>) t"
    and "user_authority (db t) who ''skills:write'' = Ok authority" "ua_user_id authority = ua_user_id (vc_authority c)"
    and "id_from_str (ge_uuid E) OperationId (cq_operation_id q) = Ok operation" "oid_bytes operation = vc_operation_id c"
    and "RequestHash_from_str (he_hex (ge_hash E)) (cq_request_hash q) = Ok (vc_supplied_hash c)"
  shows "commit_private_revision E down who q j now' (sc_server t) = (Ok r, sc_server t)"
proof -
  have tx: "transaction (commit_write_tx E c i now) (db s) = (Ok (b, r), sv_db v)"
    using assms(1) by (auto simp: commit_write_def split: prod.splits)
  then have "commit_write_tx E c i now (db s) = (Ok (b, r), sv_db v)" by (rule transaction_cases) auto
  then have "completed (db t) (ua_user_id authority) (oid_bytes operation) (rh_bytes (vc_supplied_hash c)) r"
    using run_completed [OF assms(2)] commit_completes [of E c i now "db s" b r "sv_db v"] assms(4,6) by simp
  then have "commit_read E down who q (sc_server t) = Ok (Already r)" using assms(3,5,7) by (rule commit_read_replays)
  then show ?thesis by (simp add: commit_private_revision_def op_bind_query op_ok_def)
qed

section \<open>Restoring during a conflict\<close>

lemma run_blocked:
  assumes "service_run E s t" "service_ok s" "blocked (db s) r u" "conflicts_known (db s) r u"
  shows "blocked (db t) r u"
proof -
  have "blocked (db t) r u \<and> conflicts_known (db t) r u"
    using assms(1)
  proof (induction rule: rtranclp_induct)
    case (step t t')
    then show ?case using step_blocked [OF step(2) run_ok [OF step(1) assms(2)]] by blast
  qed (use assms in simp)
  then show ?thesis ..
qed

lemma blocked_prepare_unchanged:
  assumes "blocked g (rid_bytes (pv_resource p)) (ua_user_id authority)" "parse_private_revision E q = Ok p"
    and "user_authority g who ''skills:write'' = Ok authority"
  shows "snd (prepare_private_revision E who q fresh g) = g"
proof (rule ccontr)
  assume changed: "snd (prepare_private_revision E who q fresh g) \<noteq> g"
  obtain r g' where run: "prepare_private_revision E who q fresh g = (r, g')" by (cases "prepare_private_revision E who q fresh g")
  then obtain author v found where tx: "prepare_tx E authority q p author v fresh g = (Ok found, g')"
    using changed assms(2,3) by (auto elim: prepare_private_cases)
  then have "prepare_new E authority q p author v fresh g = (Ok found, g')"
    by (rule prepare_tx_cases) (use changed run in auto)
  then show False
  proof (rule prepare_new_cases)
    fix k w gen n x
    assume k: "\<And>r u z. head_of g r u = Some z \<Longrightarrow> head_of k r u = Some z" "duties k = duties g"
      "workspace_of k (rid_bytes (pv_resource p)) (ua_user_id authority) = Some w"
      "prepare_guard k (begin_actor_tx (ua_user_id authority)) authority p gen w = Ok ()"
    have "conflicts_of k = conflicts_of g" using k(2) by (simp add: duties_def conflicts_of_def fun_eq_iff)
    then have "blocked k (rid_bytes (pv_resource p)) (ua_user_id authority)" using assms(1) k(1) unfolding blocked_def by auto
    then show False using blocked_prepare parse_private_head [OF assms(2)] k(3,4) by blast
  qed
qed

lemma blocked_commit_unchanged:
  assumes "blocked (sv_db s) (commit_resource c) (commit_user c)" "ro_expected_head_revision_id (vc_operation c) \<in> set (vc_parents c)"
  shows "snd (commit_write E c i now s) = s"
proof -
  obtain r g where run: "transaction (commit_write_tx E c i now) (sv_db s) = (r, g)"
    by (cases "transaction (commit_write_tx E c i now) (sv_db s)")
  from run have "g = sv_db s"
  proof (rule transaction_cases)
    fix x assume "commit_write_tx E c i now (sv_db s) = (Ok x, g)"
    moreover obtain b out where "x = (b, out)" by (cases x)
    ultimately show ?thesis using blocked_commit [OF assms, of E i now out g] commit_replayed(1) by (cases b) auto
  qed
  then show ?thesis using run by (simp add: commit_write_def)
qed

text \<open>C38. \<open>restore_skill\<close> does not look for an unresolved conflict of the workspace.  Once it has moved the head off both
  heads of a conflict, the workspace is blocked for good: whatever requests follow, the conflict stays
  unresolved, no request can prepare a revision, and no commit, not even the merge of the conflict, changes anything.\<close>

theorem restore_during_conflict_blocks_workspace:
  assumes "restore_write E c (sc_server s) = (Ok y, v)" "service_ok s"
    and "r = rid_bytes (ps_resource (vr_request c))" "u = ua_user_id (vr_authority c)"
    and "conflicts_of (db s) r u \<noteq> []" "conflicts_known (db s) r u" "service_run E (s\<lparr>sc_server := v\<rparr>) t"
  shows "conflicts_of (db t) r u \<noteq> [] \<and>
    (user_authority (db t) who ''skills:write'' = Ok authority \<and> ua_user_id authority = u \<and>
       parse_private_revision E q = Ok p \<and> rid_bytes (pv_resource p) = r \<longrightarrow>
     snd (prepare_private_revision E who q fresh (db t)) = db t) \<and>
    (k \<in> set (sc_commits t) \<and> ro_resource_id (vc_operation k) = r \<and> ua_user_id (vc_authority k) = u \<longrightarrow>
     snd (commit_write E k i now (sc_server t)) = sc_server t)"
proof -
  let ?s = "s\<lparr>sc_server := v\<rparr>"
  have "transaction (restore_write_tx E c) (db s) = (Ok y, db ?s)"
    using assms(1) by (auto simp: restore_write_def split: prod.splits)
  then have tx: "restore_write_tx E c (db s) = (Ok y, db ?s)" by (rule transaction_cases) auto
  have "ops_ok (db ?s)"
    using restored_duties [OF tx] ops_ok_desk [of "db ?s" "db s"] assms(2) by (simp add: duties_def service_ok_def)
  then have ok: "service_ok ?s" using assms(2) by (simp add: service_ok_def)
  have "blocked (db ?s) r u" "conflicts_known (db ?s) r u" using restore_blocks [OF tx] assms(3-6) by auto
  then have blocked: "blocked (db t) r u" using run_blocked [OF assms(7) ok] by blast
  have "service_ok t" using run_ok [OF assms(7) ok] .
  then show ?thesis
    using blocked blocked_prepare_unchanged [of "db t" p authority E q who fresh]
      blocked_commit_unchanged [of "sc_server t" k E i now]
    by (auto simp: blocked_def service_ok_def)
qed

section \<open>An example\<close>

text \<open>A workspace whose head \<open>a\<close> conflicts with \<open>b\<close>, with a prepared operation on top of \<open>a\<close> and a restore of \<open>b\<close> under way.\<close>

definition example_env :: "(flat_yaml, (flat_yaml \<times> flat_yaml) list) reg_env" where
  "example_env =
     \<lparr>ge_uuid = \<lparr>uu_version_num = \<lambda>_. 7, uu_parse_str = Ok, uu_to_string = \<lambda>u. u\<rparr>,
      ge_hash = \<lparr>he_canonical = \<lambda>_. Ok [], he_sha256 = \<lambda>_. replicate 32 CHR ''n'',
        he_hex = \<lparr>hex_encode = \<lambda>b. b, hex_decode = Ok\<rparr>\<rparr>,
      ge_tables = ascii_tables, ge_yaml = flat_lib, ge_archive = one_archive [], ge_skill_text = \<lambda>_. [],
      ge_snapshot_text = \<lambda>_. [], ge_max_object_bytes = 100, ge_namespace_storage_bytes = 1000, ge_presign = \<lambda>k n. Ok k\<rparr>"

definition rev_a :: string where "rev_a = replicate 32 CHR ''a''"

definition rev_b :: string where "rev_b = replicate 32 CHR ''b''"

definition example_manifest :: PublicSkillManifest where
  "example_manifest = \<lparr>pm_root_tree_id = replicate 32 CHR ''r'', pm_entries = []\<rparr>"

definition example_authority :: UserAuthority where
  "example_authority = \<lparr>ua_user_id = ''u'', ua_namespace_id = ''n'', ua_namespace_slug = ''alice'', ua_author_principal_id = ''p''\<rparr>"

definition example_operation :: revision_operation_row where
  "example_operation =
     \<lparr>ro_user_id = ''u'', ro_operation_id = ''o'', ro_request_hash = rev_b, ro_namespace_id = ''n'', ro_resource_id = ''s'',
      ro_expected_generation = 4, ro_expected_head_revision_id = rev_a, ro_revision_id = replicate 32 CHR ''c'',
      ro_root_tree_id = replicate 32 CHR ''r'', ro_manifest_json = example_manifest, ro_revision_author_principal_id = Some ''p'',
      ro_fork_sync_base_revision_id = None, ro_fork_sync_upstream_revision_id = None, ro_historical_skill_name = None,
      ro_state = ''prepared'', ro_outcome_json = None\<rparr>"

definition example_commit :: verified_commit where
  "example_commit =
     \<lparr>vc_authority = example_authority, vc_operation_id = ''o'', vc_supplied_hash = RequestHash rev_b,
      vc_operation = example_operation, vc_manifest = \<lparr>m_root_tree = TreeId (replicate 32 CHR ''r''), m_entries = []\<rparr>, vc_trees = [],
      vc_blobs = [], vc_staging = [], vc_bytes = [], vc_parents = [rev_a], vc_snapshot = [], vc_description = ''d'',
      vc_license = None, vc_compatibility = None\<rparr>"

definition example_restore :: verified_restore where
  "example_restore =
     \<lparr>vr_authority = example_authority,
      vr_request = \<lparr>ps_operation = OperationId ''q'', ps_resource = ResourceId ''s'', ps_target = RevisionId rev_b,
        ps_supplied_hash = RequestHash rev_b\<rparr>,
      vr_expected_generation = 4, vr_manifest_wire = example_manifest,
      vr_manifest = \<lparr>m_root_tree = TreeId (replicate 32 CHR ''r''), m_entries = []\<rparr>, vr_snapshot_key = ''k'',
      vr_snapshot_sha = rev_b, vr_snapshot_size = 0, vr_description = ''d'', vr_license = None, vr_compatibility = None\<rparr>"

definition example_conflict :: conflict_row where
  "example_conflict =
     \<lparr>cf_conflict_id = ''k'', cf_resource_id = ''s'', cf_user_id = ''u'', cf_base_revision_id = rev_a,
      cf_head_a_revision_id = rev_a, cf_head_b_revision_id = rev_b, cf_active_revision_id = rev_a, cf_detected_generation = 4,
      cf_resolution_revision_id = None, cf_created_at = 0, cf_resolved = False\<rparr>"

definition example_workspaces :: "conflict_row list \<Rightarrow> registry" where
  "example_workspaces conflicts = example_registry
     \<lparr>rg_workspaces := [\<lparr>wk_resource_id = ''s'', wk_user_id = ''u'', wk_description = ''d'', wk_license = None, wk_compatibility = None,
        wk_revision_id = rev_a, wk_generation = 4, wk_manifest_json = example_manifest, wk_snapshot_key = ''k'',
        wk_snapshot_sha256 = rev_a, wk_snapshot_size = 0\<rparr>],
      rg_author_links := [\<lparr>au_author_principal_id = ''p'', au_user_id = ''u''\<rparr>],
      rg_revisions := map (\<lambda>v. \<lparr>rv_revision_id = v, rv_root_tree_id = replicate 32 CHR ''r'', rv_author_principal_id = ''p'',
        rv_operation_id = ''z''\<rparr>) [rev_a, rev_b],
      rg_merkle_trees := [replicate 32 CHR ''r''], rg_conflicts := conflicts, rg_revision_operations := [example_operation],
      rg_operation_parents := [\<lparr>pa_user_id = ''u'', pa_operation_id = ''o'', pa_ordinal = 0, pa_parent_revision_id = rev_a\<rparr>]\<rparr>"

definition example_service :: "conflict_row list \<Rightarrow> service" where
  "example_service conflicts =
     \<lparr>sc_server = \<lparr>sv_db = example_workspaces conflicts, sv_objects = Map.empty, sv_wakes = []\<rparr>,
      sc_commits = [example_commit], sc_restores = [example_restore]\<rparr>"

lemma example_service_ok: "service_ok (example_service conflicts)"
  by (simp add: service_ok_def ops_ok_def head_among_parents_def example_service_def example_workspaces_def example_commit_def
      example_operation_def)

definition example_committed :: service where
  "example_committed = (example_service [])
     \<lparr>sc_server := snd (commit_write example_env example_commit ''x'' 0 (sc_server (example_service [])))\<rparr>"

lemma example_commit_step: "service_run example_env (example_service []) example_committed"
proof (rule r_into_rtranclp)
  have "commit_agrees (example_service []) example_commit"
    by (simp add: commit_agrees_def agrees_def example_service_def example_workspaces_def example_registry_simps)
  then show "service_step example_env (example_service []) example_committed"
    unfolding example_committed_def
    by (intro service_step.commit_end [where c = example_commit and i = "''x''" and now = 0]) (simp_all add: example_service_def prod_eq_iff)
qed

lemma example_commit_Ok: "is_ok (fst (commit_write example_env example_commit ''x'' 0 (sc_server (example_service []))))"
  by code_simp

lemma example_restore_Ok: "is_ok (fst (restore_write example_env example_restore (sc_server (example_service [example_conflict]))))"
  by code_simp

lemma is_okE: "is_ok (fst p) \<Longrightarrow> \<exists>x v. p = (Ok x, v)"
  by (cases p; cases "fst p") auto

theorem saved_heads_are_never_lost_witness:
  "head_of (db (example_service [])) ''s'' ''u'' = Some (rev_a, 4) \<and>
   head_of (db example_committed) ''s'' ''u'' = Some (replicate 32 CHR ''c'', 5) \<and>
   revision_is_ancestor (rg_parents (db example_committed)) rev_a (replicate 32 CHR ''c'') = Ok True"
proof -
  have old: "head_of (db (example_service [])) ''s'' ''u'' = Some (rev_a, 4)" by code_simp
  have new: "head_of (db example_committed) ''s'' ''u'' = Some (replicate 32 CHR ''c'', 5)" by code_simp
  from saved_heads_are_never_lost [OF example_commit_step example_service_ok old] show ?thesis
    using old new by auto
qed

theorem committed_answer_is_final_witness:
  "\<exists>b r v. commit_write example_env example_commit ''x'' 0 (sc_server (example_service [])) = (Ok (b, r), v) \<and>
     commit_private_revision example_env (\<lambda>_. None) (AA_Session ''i'' ''u'' ''j'')
       \<lparr>cq_operation_id = ''o'', cq_request_hash = rev_b\<rparr> ''y'' 1 v = (Ok r, v)"
proof -
  obtain b r v where run: "commit_write example_env example_commit ''x'' 0 (sc_server (example_service [])) = (Ok (b, r), v)"
    using is_okE [OF example_commit_Ok] by auto
  define t where "t = (example_service [])\<lparr>sc_server := v\<rparr>"
  have v: "v = sc_server example_committed" using run by (simp add: example_committed_def)
  have "user_authority (sv_db (sc_server example_committed)) (AA_Session ''i'' ''u'' ''j'') ''skills:write'' = Ok example_authority"
    by code_simp
  then have "commit_private_revision example_env (\<lambda>_. None) (AA_Session ''i'' ''u'' ''j'')
       \<lparr>cq_operation_id = ''o'', cq_request_hash = rev_b\<rparr> ''y'' 1 (sc_server t) = (Ok r, sc_server t)"
    using v by (intro committed_answer_is_final [OF run, of t _ example_authority _ "OperationId ''o''"])
      (simp_all add: t_def example_authority_def example_commit_def id_from_str_def id_from_uuid_def RequestHash_from_str_def
        example_env_def rev_b_def)
  then show ?thesis using run by (auto simp: t_def)
qed

theorem restore_during_conflict_blocks_workspace_witness:
  "\<exists>y v. restore_write example_env example_restore (sc_server (example_service [example_conflict])) = (Ok y, v) \<and>
     conflicts_of (sv_db v) ''s'' ''u'' \<noteq> [] \<and> snd (commit_write example_env example_commit ''x'' 0 v) = v"
proof -
  let ?s = "example_service [example_conflict]"
  obtain y v where run: "restore_write example_env example_restore (sc_server ?s) = (Ok y, v)"
    using is_okE [OF example_restore_Ok] by auto
  have "conflicts_of (db ?s) ''s'' ''u'' \<noteq> []" "conflicts_known (db ?s) ''s'' ''u''" by code_simp+
  note block = restore_during_conflict_blocks_workspace [OF run example_service_ok _ _ this, of "?s\<lparr>sc_server := v\<rparr>"]
  have "''s'' = rid_bytes (ps_resource (vr_request example_restore))" "''u'' = ua_user_id (vr_authority example_restore)"
    by (simp_all add: example_restore_def example_authority_def)
  note block = block [OF this rtranclp.rtrancl_refl, where k = example_commit and i = "''x''" and now = 0]
  have "example_commit \<in> set (sc_commits (?s\<lparr>sc_server := v\<rparr>)) \<and> ro_resource_id (vc_operation example_commit) = ''s'' \<and>
      ua_user_id (vc_authority example_commit) = ''u''"
    by (simp add: example_commit_def example_authority_def example_operation_def example_service_def)
  then have "conflicts_of (db (?s\<lparr>sc_server := v\<rparr>)) ''s'' ''u'' \<noteq> [] \<and>
      snd (commit_write example_env example_commit ''x'' 0 (sc_server (?s\<lparr>sc_server := v\<rparr>))) = sc_server (?s\<lparr>sc_server := v\<rparr>)"
    using block by blast
  then show ?thesis using run by auto
qed

end
