(* ===== verification/Spec2Isabelle.thy ===== *)
theory Spec2Isabelle
  imports Merge_Trees Sync Wire_Binding Local_Protocols Materialize_Props Materialize_Recovery
    Projection_Props Lifecycle_Props Scan_Props Watch_Props Registry_Run_Props
begin

text \<open>
  Verification of denju, a registry for agent skills with a client that keeps skills
  installed on a machine in step with it.

  \<^bold>\<open>The program.\<close>  A skill is a directory with a \<open>SKILL.md\<close>.  \<open>crates/denju-core\<close> says
  which directories are portable, reads the document, names content by hashes (blobs, trees,
  revisions), packs directories into deterministic archives and merges three versions of one.
  \<open>crates/denju-sync\<close> decides which revision a machine should have and under which name it
  appears.  \<open>crates/denju-wire\<close> hashes every request a client may send, so that the registry can
  tell a replay from another request.  \<open>crates/denju-local\<close> keeps the state of an installation
  in SQLite: what is wanted, what is materialized, the working copies with their queue
  of revisions, the journals from which an interrupted operation is resumed, and leases between
  processes.  \<open>crates/denju-registry\<close> keeps the shared state in PostgreSQL and an object store: accounts, teams,
  skills with their revisions and releases, and for every user a private workspace whose head moves by
  compare-and-set.  \<open>apps/denju-server\<close>, \<open>crates/denju-client\<close> and \<open>apps/denju\<close> put these to work over
  HTTP and a command line.

  \<^bold>\<open>Theories.\<close>
  \<^item> \<open>Denju_Prelude\<close>, \<open>Text_Bytes\<close>: results and loops with early return, strings as UTF-8 bytes,
    big-endian fields, sorting; the locale \<open>prefix_code\<close> for field formats that can be read back.
  \<^item> \<open>Portable_Path\<close> (\<open>portable_path.rs\<close>): paths, symbolic links, trees.
  \<^item> \<open>Skill_Doc\<close> (\<open>skill.rs\<close>): names, front matter, documents, directories.
  \<^item> \<open>Ids_Locator\<close> (\<open>ids.rs\<close>, \<open>locator.rs\<close>); \<open>Objects\<close> (\<open>object.rs\<close>): identifiers, generations,
    locators; hash transcripts of trees and revisions.
  \<^item> \<open>Snapshot\<close> (\<open>snapshot.rs\<close>): manifests as Merkle trees, archives.
  \<^item> \<open>Merge_Trees\<close> (\<open>merge.rs\<close>): three-way merge of texts and trees.
  \<^item> \<open>Sync\<close> (\<open>denju-sync/src/lib.rs\<close>): desired state and projection names.
  \<^item> \<open>Wire_Hash\<close>, \<open>Wire_Binding\<close> (\<open>denju-wire/src/mutation.rs\<close> and its parts, \<open>public.rs\<close>): request
    hashes and wire manifests.
  \<^item> \<open>Sql_Table\<close>, \<open>Local_Schema\<close>, \<open>Local_Tables\<close> (\<open>denju-local/src/db/schema.rs\<close>, \<open>db/types.rs\<close>): statements on tables
    with keys, checks and foreign keys; the twenty-four tables and the schema invariant.  The locales
    \<open>sql_table\<close>, \<open>stored_table\<close> and \<open>leaf_table\<close> are interpreted for every table with rows.
  \<^item> \<open>Local_Db\<close> (\<open>db.rs\<close>), \<open>Local_Desired\<close> (\<open>desired_db.rs\<close>, \<open>pack_db.rs\<close>), \<open>Local_Workspace\<close> (\<open>workspace_db.rs\<close>,
    \<open>fork_db.rs\<close>, \<open>discovery_db.rs\<close>): every operation of the local database.
  \<^item> \<open>Local_Invariant\<close>, \<open>Local_Protocols\<close>: what all of them keep, and the protocols on them.
  \<^item> \<open>File_System\<close>, \<open>File_Frames\<close>: trees of files, directories and links, path resolution, system calls, processes
    whose effects may fail, and the logic of what a run leaves alone.
  \<^item> \<open>Materialize\<close> (\<open>materialize.rs\<close>, \<open>paths.rs\<close>), with \<open>Materialize_Safety\<close>, \<open>Materialize_Outcome\<close>,
    \<open>Materialize_Props\<close> and \<open>Materialize_Recovery\<close>: generations, the switch of the canonical link, recovery.
  \<^item> \<open>Harness\<close> (\<open>source.rs\<close>, \<open>harness.rs\<close>), \<open>Projection\<close> (\<open>projection.rs\<close>), with \<open>Projection_Safety\<close> and
    \<open>Projection_Props\<close>: the links the harnesses see, derived views and the way their edits come back.
  \<^item> \<open>Workspace_Scan\<close> (\<open>workspace.rs\<close>, \<open>workspace_watch.rs\<close>), with \<open>Scan_Props\<close> and \<open>Watch_Props\<close>: the incremental
    scan, the object cache, the hints of the file watcher.
  \<^item> \<open>Local_Lifecycle\<close> (\<open>lifecycle.rs\<close>), with \<open>Lifecycle_Props\<close>: journalled removal and renaming, quarantine.
  \<^item> \<open>Revision_Graph\<close> (\<open>denju-registry/src/revision_graph.rs\<close>): ancestry and merge base.  The locale \<open>recursive_query\<close>
    is interpreted for the query of ancestors and the one with depths.
  \<^item> \<open>Registry_Schema\<close> (\<open>migrations\<close>, \<open>rls.rs\<close>): the tables the modelled handlers use and their row-level security;
    \<open>Registry_Access\<close> (\<open>access.rs\<close>, \<open>team_access.rs\<close>, \<open>fork_sync.rs\<close>, \<open>release_validation.rs\<close>, the user authority of
    \<open>identity_support.rs\<close>), with \<open>Registry_Access_Props\<close>: who may read, fork and publish.
  \<^item> \<open>Registry_Storage\<close> (\<open>ingest_storage.rs\<close>, \<open>workspace_storage.rs\<close>, \<open>workspace_conflict.rs\<close>, \<open>outbox.rs\<close>),
    \<open>Registry_Workspace\<close> (\<open>workspace.rs\<close>), \<open>Registry_Restore\<close> (\<open>restore_skill\<close> of \<open>release.rs\<close>): how private revisions are
    prepared, committed and restored.
  \<^item> \<open>Registry_Frames\<close>, \<open>Registry_Heads\<close>, \<open>Registry_Operations\<close>, \<open>Registry_Runs\<close>, \<open>Registry_Run_Props\<close>: what a transaction
    leaves alone (locale \<open>state_order\<close>, interpreted for three orders of states), what it does to heads and operations, and
    what holds for requests that interleave.

  \<^bold>\<open>State and operations.\<close>  Pure functions of the source are functions here, with the same names;
  \<open>Result\<close> is the datatype \<open>result\<close>, a possible panic is an option.  An operation of the local
  database maps a database (record \<open>localdb\<close>, one field per table) to a result and a database;
  \<open>transaction\<close> rolls back on an error.  All operations run on one worker thread, hence one
  after the other, and \<open>reachable_db\<close> is closed under any sequence of them.  An operation on files maps a
  world (the tree, the database and a count of effects) to a result and a world.  A machine says for every effect
  whether it fails, so a statement for every machine covers every pattern of failures; a crash is a machine on which
  every effect from some point on fails, and what a run leaves then is what the next run finds.  A handler of
  the registry is a sequence of transactions on the record \<open>registry\<close> (one field per table) and of exchanges with the
  object store (record \<open>server\<close>).  A statement sees the rows of \<open>actor_view\<close>, the row-level security of its user.  The
  transactions that write lock the rows they decide on, so each is one step of \<open>service_step\<close>; commits and
  restores that have read and not yet written are pending, and any steps of other requests may come between.

  \<^bold>\<open>What is shown.\<close>  Accepted paths and trees are portable and links stay inside, up to chains of links,
  where a counterexample is proved.  Documents, directories and names are
  validated exactly.  Tree and revision identities determine their contents, and archives validate to the entries they were made of.  Merging is
  symmetric and exact about conflicts.  Projection names are unambiguous, always found
  and stable.  Request hashes bind every field of a request and domains keep the kinds apart.  The local schema
  holds in every reachable database, failed operations change nothing, journal entries
  move forward one state at a time, leases exclude each other, and opening ends at the current schema.
  Whatever fails on the way, installing a skill touches its own places only, makes visible only what hashes to the
  wanted manifest and spares a working tree in use; reconciling the harness views touches no file of the user;
  a removal drops its record only after its link; an incremental scan finds what a full one finds; and no demand
  for a full scan is lost.  Two ways in which an installation stays stuck are proved as well.
  In the registry, the merge base is a nearest common ancestor; a user reads only revisions the sharing rules give to
  the user, and the check before a write agrees with the row policy; however requests interleave, a saved head is an
  ancestor of every later head, and a commit that answered gives the same answer to every retry.  A
  restore while a conflict is unresolved is shown to leave a workspace in which nothing can be saved.

  \<^bold>\<open>Parameters.\<close>  Unicode tables and normalization, YAML, SHA-256, hex, tar and zstd, the diff of the
  \<open>similar\<close> crate, canonical JSON, the JSON text of payloads, \<open>uuid\<close> and SQLite's scripts are
  arguments; where a theorem needs a law of one of them it is a named hypothesis with a witness.
  A commit of a run is one whose revision, where it is stored already, has the same parents
  (\<open>commit_agrees\<close>), as an identity computed by a hash without collisions gives it.  The clock, fresh identifiers and the
  failures of the object store are arguments of the handlers.

  \<^bold>\<open>Bounds.\<close>  \<open>u32\<close> and \<open>u64\<close> are words.  Lengths that do not fit a field are errors in the code and
  in the model.  SQLite integers are unbounded here except where the code adds to them (lease expiry,
  local generations).  The search for a free alias and the migration loop have no bound in
  the code; both are shown to end.

  \<^bold>\<open>Not modelled.\<close>  Of the file system: durability (\<open>fsync\<close> is a call that may fail and changes nothing),
  failing reads, special files, ownership, other processes at the same time, and the variants for Windows.  The walk of
  \<open>walkdir\<close>, modification times, hexadecimal and UUID texts and the JSON of journal payloads are arguments.
  Credentials and services of the platform.  Of the registry: the other services, each a long sequence of
  SQL statements (imports, publishing and yanking, packs, proposals, teams, transfers, account and resource
  lifecycle, discovery, social, administration), the delivery of queued wakes, time limits, and isolation below the
  row locks.  The server, client and command line, which are calls of HTTP, the terminal and the
  layers above.
\<close>

end
